(* ===== verification/Py_Prelude.thy ===== *)
theory Py_Prelude
  imports Main "HOL-Library.Sublist" "HOL-Library.Code_Target_Numeral"
begin

text \<open>
  The part of Python that the modelled programs share: exceptions as values, strings and
  the string methods the sources call.

  A Python string is a \<open>string\<close>, the list of the bytes of its UTF-8 encoding. Every
  literal the sources search for is an ASCII character or a whole UTF-8 sequence, so
  searching, splitting and replacing agree with Python's code points. White space, digits,
  letters and case conversion are the ASCII members of Python's classes.
\<close>

section \<open>Collections\<close>

named_theorems str_simps \<open>evaluation of the string methods\<close>
named_theorems res_simps \<open>evaluation and inversion of results\<close>

section \<open>Exceptions and results\<close>

text \<open>
  \<open>PolicyError\<close> and \<open>JSONDecodeError\<close> are subclasses of \<open>ValueError\<close> in Python,
  \<open>FileNotFoundError\<close> and \<open>IsADirectoryError\<close> of \<open>OSError\<close>: the two predicates below
  are what an \<open>except ValueError\<close> and an \<open>except OSError\<close> clause catch.
\<close>

datatype exn =
    PolicyError string
  | JSONDecodeError
  | ValueError string
  | KeyError string
  | TypeError
  | AttributeError
  | IndexError
  | OverflowError
  | FileNotFoundError string
  | IsADirectoryError string
  | NotADirectoryError string
  | CsvError                             \<comment> \<open>\<open>csv.Error\<close>\<close>
  | ReError                              \<comment> \<open>\<open>re.error\<close>\<close>
  | HookConfigError string string string \<comment> \<open>code, path and message, of \<open>core/stop_hooks.py\<close>\<close>

fun is_value_error :: "exn \<Rightarrow> bool" where
  "is_value_error (PolicyError _) = True"
| "is_value_error JSONDecodeError = True"
| "is_value_error (ValueError _) = True"
| "is_value_error _ = False"

fun is_os_error :: "exn \<Rightarrow> bool" where
  "is_os_error (FileNotFoundError _) = True"
| "is_os_error (IsADirectoryError _) = True"
| "is_os_error (NotADirectoryError _) = True"
| "is_os_error _ = False"

type_synonym 'a res = "exn + 'a"

definition ebind :: "'e + 'a \<Rightarrow> ('a \<Rightarrow> 'e + 'b) \<Rightarrow> 'e + 'b" where
  "ebind m f = (case m of Inl e \<Rightarrow> Inl e | Inr x \<Rightarrow> f x)"

definition guard_e :: "bool \<Rightarrow> 'e \<Rightarrow> 'e + unit" where
  "guard_e b e = (if b then Inr () else Inl e)"

definition of_option :: "'e \<Rightarrow> 'a option \<Rightarrow> 'e + 'a" where
  "of_option e m = (case m of None \<Rightarrow> Inl e | Some x \<Rightarrow> Inr x)"

text \<open>A \<open>for\<close> loop whose body may raise: the first exception ends it.\<close>

fun efold :: "('x \<Rightarrow> 's \<Rightarrow> 'e + 's) \<Rightarrow> 'x list \<Rightarrow> 's \<Rightarrow> 'e + 's" where
  "efold f [] s = Inr s"
| "efold f (x # xs) s = ebind (f x s) (efold f xs)"

lemma ebind_simps [simp, res_simps]:
  "ebind (Inl e) f = Inl e"
  "ebind (Inr x) f = f x"
  by (simp_all add: ebind_def)

lemma ebind_eq_Inr [res_simps]: "ebind m f = Inr y \<longleftrightarrow> (\<exists>x. m = Inr x \<and> f x = Inr y)"
  by (cases m) auto

lemma ebind_eq_Inl [res_simps]:
  "ebind m f = Inl e \<longleftrightarrow> m = Inl e \<or> (\<exists>x. m = Inr x \<and> f x = Inl e)"
  by (cases m) auto

lemma ebind_cong [fundef_cong]:
  "m = m' \<Longrightarrow> (\<And>x. m' = Inr x \<Longrightarrow> f x = g x) \<Longrightarrow> ebind m f = ebind m' g"
  by (cases m') auto

lemma guard_e_simps [simp, res_simps]:
  "guard_e True e = Inr ()"
  "guard_e False e = Inl e"
  by (simp_all add: guard_e_def)

lemma guard_e_eq [res_simps]:
  "guard_e b e = Inr u \<longleftrightarrow> b"
  "guard_e b e = Inl e' \<longleftrightarrow> \<not> b \<and> e' = e"
  by (auto simp: guard_e_def)

lemma of_option_eq [res_simps]:
  "of_option e m = Inr x \<longleftrightarrow> m = Some x"
  "of_option e m = Inl e' \<longleftrightarrow> m = None \<and> e' = e"
  by (auto simp: of_option_def split: option.splits)

lemma of_option_simps [simp]:
  "of_option e None = Inl e"
  "of_option e (Some x) = Inr x"
  by (simp_all add: of_option_def)

text \<open>What a loop keeps, if every round of its body keeps it.\<close>

lemma efold_invariant:
  assumes "efold f xs s = Inr t" and "P s"
    and "\<And>x s s'. x \<in> set xs \<Longrightarrow> P s \<Longrightarrow> f x s = Inr s' \<Longrightarrow> P s'"
  shows "P t"
  using assms
proof (induction xs arbitrary: s)
  case Nil
  then show ?case by simp
next
  case (Cons x xs)
  then obtain s' where s': "f x s = Inr s'" and rest: "efold f xs s' = Inr t"
    by (auto simp: ebind_eq_Inr)
  have "P s'" using Cons.prems(2,3) s' by auto
  with rest Cons.prems(3) show ?case by (intro Cons.IH) auto
qed

text \<open>A loop that only checks: it succeeds exactly when every round does.\<close>

lemma efold_check:
  assumes "\<And>x s. x \<in> set xs \<Longrightarrow> (\<exists>e. f x s = Inl e) \<or> f x s = Inr s"
  shows "efold f xs s = Inr t \<longleftrightarrow> t = s \<and> (\<forall>x \<in> set xs. f x s = Inr s)"
  using assms
proof (induction xs)
  case Nil
  then show ?case by auto
next
  case (Cons x xs)
  have IH: "efold f xs s = Inr t \<longleftrightarrow> t = s \<and> (\<forall>x \<in> set xs. f x s = Inr s)"
    using Cons by simp
  from Cons.prems [of x s] consider e where "f x s = Inl e" | "f x s = Inr s" by auto
  then show ?case by cases (auto simp: IH)
qed

section \<open>Characters\<close>

definition is_space :: "char \<Rightarrow> bool" where
  "is_space c \<longleftrightarrow> of_char c \<in> {9, 10, 11, 12, 13, 28, 29, 30, 31, 32 :: nat}"

definition is_digit :: "char \<Rightarrow> bool" where
  "is_digit c \<longleftrightarrow> (48 :: nat) \<le> of_char c \<and> of_char c \<le> (57 :: nat)"

definition is_upper :: "char \<Rightarrow> bool" where
  "is_upper c \<longleftrightarrow> (65 :: nat) \<le> of_char c \<and> of_char c \<le> (90 :: nat)"

definition is_lower :: "char \<Rightarrow> bool" where
  "is_lower c \<longleftrightarrow> (97 :: nat) \<le> of_char c \<and> of_char c \<le> (122 :: nat)"

definition is_word :: "char \<Rightarrow> bool" where
  "is_word c \<longleftrightarrow> is_digit c \<or> is_upper c \<or> is_lower c \<or> c = CHR ''_''"

definition lower_char :: "char \<Rightarrow> char" where
  "lower_char c = (if is_upper c then char_of ((of_char c :: nat) + 32) else c)"

definition nl :: char where
  "nl = CHR 0x0A"

definition cr :: char where
  "cr = CHR 0x0D"

definition tab :: char where
  "tab = CHR 0x09"

definition dquote :: char where
  "dquote = CHR 0x22"

definition squote :: char where
  "squote = CHR 0x27"

definition backslash :: char where
  "backslash = CHR 0x5C"

definition backtick :: char where
  "backtick = CHR 0x60"

lemmas special_chars = nl_def cr_def tab_def dquote_def squote_def backslash_def backtick_def

lemmas char_class_defs = is_space_def is_digit_def is_upper_def is_lower_def is_word_def

section \<open>String methods\<close>

definition startswith :: "string \<Rightarrow> string \<Rightarrow> bool" where
  "startswith s p \<longleftrightarrow> prefix p s"

definition endswith :: "string \<Rightarrow> string \<Rightarrow> bool" where
  "endswith s p \<longleftrightarrow> suffix p s"

definition lstrip :: "string \<Rightarrow> string" where
  "lstrip s = dropWhile is_space s"

definition rstrip :: "string \<Rightarrow> string" where
  "rstrip s = rev (dropWhile is_space (rev s))"

definition strip :: "string \<Rightarrow> string" where
  "strip s = rstrip (lstrip s)"

definition lstrip_chars :: "char list \<Rightarrow> string \<Rightarrow> string" where
  "lstrip_chars cs s = dropWhile (\<lambda>c. c \<in> set cs) s"

definition rstrip_chars :: "char list \<Rightarrow> string \<Rightarrow> string" where
  "rstrip_chars cs s = rev (dropWhile (\<lambda>c. c \<in> set cs) (rev s))"

definition strip_chars :: "char list \<Rightarrow> string \<Rightarrow> string" where
  "strip_chars cs s = rstrip_chars cs (lstrip_chars cs s)"

definition lower :: "string \<Rightarrow> string" where
  "lower s = List.map lower_char s"

definition isdigit :: "string \<Rightarrow> bool" where
  "isdigit s \<longleftrightarrow> s \<noteq> [] \<and> list_all is_digit s"

text \<open>\<open>s.partition(sep)\<close>: the text before and after the first occurrence.\<close>

fun split_once :: "string \<Rightarrow> string \<Rightarrow> (string \<times> string) option" where
  "split_once sep [] = (if sep = [] then Some ([], []) else None)"
| "split_once sep (c # cs) =
     (if prefix sep (c # cs) then Some ([], drop (length sep) (c # cs))
      else (case split_once sep cs of None \<Rightarrow> None | Some (a, b) \<Rightarrow> Some (c # a, b)))"

definition contains :: "string \<Rightarrow> string \<Rightarrow> bool" where
  "contains s sub \<longleftrightarrow> split_once sub s \<noteq> None"

lemma split_once_Some: "split_once sep s = Some (a, b) \<Longrightarrow> s = a @ sep @ b"
proof (induction sep s arbitrary: a b rule: split_once.induct)
  case (1 sep)
  then show ?case by (simp split: if_splits)
next
  case (2 sep c cs)
  show ?case
  proof (cases "prefix sep (c # cs)")
    case True
    with 2 show ?thesis by (auto simp: prefix_def)
  next
    case False
    with 2 show ?thesis by (auto split: option.splits)
  qed
qed

lemma split_once_None_iff: "split_once sep s = None \<longleftrightarrow> \<not> sublist sep s"
proof (induction s)
  case Nil
  then show ?case by simp
next
  case (Cons c cs)
  then show ?case by (auto simp: sublist_Cons_right split: option.splits)
qed

lemma contains_iff_sublist [code_unfold]: "contains s sub \<longleftrightarrow> sublist sub s"
  by (simp add: contains_def split_once_None_iff)

lemma split_once_shorter:
  "split_once sep s = Some (a, b) \<Longrightarrow> sep \<noteq> [] \<Longrightarrow> length b < length s"
  by (drule split_once_Some) simp

text \<open>The text before the first occurrence does not contain the separator.\<close>

lemma split_once_first:
  "split_once sep s = Some (a, b) \<Longrightarrow> length a' < length a \<Longrightarrow> prefix (a' @ sep) s \<Longrightarrow> False"
proof (induction sep s arbitrary: a b a' rule: split_once.induct)
  case (1 sep)
  then show ?case by (auto split: if_splits)
next
  case (2 sep c cs)
  then show ?case
    by (cases a') (auto split: if_splits option.splits, blast)
qed

text \<open>\<open>s.split(sep)\<close> and \<open>s.split(sep, n)\<close>; an empty separator raises in Python and no
  source passes one.\<close>

function split_all :: "string \<Rightarrow> string \<Rightarrow> string list" where
  "split_all sep s =
     (if sep = [] then [s]
      else (case split_once sep s of None \<Rightarrow> [s] | Some (a, b) \<Rightarrow> a # split_all sep b))"
  by pat_completeness auto
termination
  by (relation "measure (\<lambda>(sep, s). length s)") (auto dest: split_once_shorter)

declare split_all.simps [simp del]

fun split_max :: "nat \<Rightarrow> string \<Rightarrow> string \<Rightarrow> string list" where
  "split_max 0 sep s = [s]"
| "split_max (Suc n) sep s =
     (case split_once sep s of None \<Rightarrow> [s] | Some (a, b) \<Rightarrow> a # split_max n sep b)"

fun join :: "string \<Rightarrow> string list \<Rightarrow> string" where
  "join sep [] = []"
| "join sep [x] = x"
| "join sep (x # y # ys) = x @ sep @ join sep (y # ys)"

text \<open>\<open>s.replace(old, new)\<close> and \<open>s.count(sub)\<close>: occurrences from the left that do not overlap.\<close>

definition replace_all :: "string \<Rightarrow> string \<Rightarrow> string \<Rightarrow> string" where
  "replace_all old new s = join new (split_all old s)"

definition count_sub :: "string \<Rightarrow> string \<Rightarrow> nat" where
  "count_sub sub s = length (split_all sub s) - 1"

text \<open>\<open>s.split()\<close>: the maximal runs of characters that are not white space.\<close>

fun words_aux :: "string \<Rightarrow> string \<Rightarrow> string list" where
  "words_aux acc [] = (if acc = [] then [] else [rev acc])"
| "words_aux acc (c # cs) =
     (if is_space c then (if acc = [] then words_aux [] cs else rev acc # words_aux [] cs)
      else words_aux (c # acc) cs)"

definition words :: "string \<Rightarrow> string list" where
  "words s = words_aux [] s"

text \<open>
  \<open>s.splitlines()\<close>: a line ends at a line feed, a carriage return, both together, a
  vertical tab, a form feed or one of the three separators 28 to 30; the end of the text
  ends a line only when the line is not empty.
\<close>

definition is_linebreak :: "char \<Rightarrow> bool" where
  "is_linebreak c \<longleftrightarrow> of_char c \<in> {10, 11, 12, 13, 28, 29, 30 :: nat}"

fun lines_aux :: "string \<Rightarrow> string \<Rightarrow> string list" where
  "lines_aux acc [] = (if acc = [] then [] else [rev acc])"
| "lines_aux acc (c # cs) =
     (if c = CHR 0x0D then
        (case cs of
           [] \<Rightarrow> [rev acc]
         | d # ds \<Rightarrow> if d = CHR 0x0A then rev acc # lines_aux [] ds else rev acc # lines_aux [] cs)
      else if is_linebreak c then rev acc # lines_aux [] cs
      else lines_aux (c # acc) cs)"

definition splitlines :: "string \<Rightarrow> string list" where
  "splitlines s = lines_aux [] s"

section \<open>Numbers and text\<close>

fun show_nat :: "nat \<Rightarrow> string" where
  "show_nat n = (if n < 10 then [char_of (48 + n)] else show_nat (n div 10) @ [char_of (48 + n mod 10)])"

declare show_nat.simps [simp del]

definition show_int :: "int \<Rightarrow> string" where
  "show_int i = (if i < 0 then CHR ''-'' # show_nat (nat (- i)) else show_nat (nat i))"

definition digit_val :: "char \<Rightarrow> nat" where
  "digit_val c = of_char c - 48"

definition nat_of_digits :: "string \<Rightarrow> nat" where
  "nat_of_digits ds = foldl (\<lambda>n c. 10 * n + digit_val c) 0 ds"

text \<open>
  \<open>int(s)\<close> of a string: white space around it, a sign, and digits in which single
  underscores may stand between two digits; \<open>None\<close> where Python raises \<open>ValueError\<close>.
\<close>

fun underscored_digits :: "string \<Rightarrow> bool" where
  "underscored_digits [] = False"
| "underscored_digits [c] = is_digit c"
| "underscored_digits (c # d # cs) =
     (is_digit c \<and> (if d = CHR ''_'' then underscored_digits cs else underscored_digits (d # cs)))"

definition int_of_string :: "string \<Rightarrow> int option" where
  "int_of_string s =
     (let t = strip s;
          neg = (case t of c # _ \<Rightarrow> c = CHR ''-'' | [] \<Rightarrow> False);
          body = (case t of c # cs \<Rightarrow> if c = CHR ''-'' \<or> c = CHR ''+'' then cs else t | [] \<Rightarrow> [])
      in if underscored_digits body
         then Some ((if neg then - 1 else 1) * int (nat_of_digits (List.filter is_digit body)))
         else None)"

section \<open>Separators of one character\<close>

lemma split_once_char:
  "split_once [c] [] = None"
  "split_once [c] (x # xs) =
     (if x = c then Some ([], xs) else map_option (\<lambda>(a, b). (x # a, b)) (split_once [c] xs))"
  by (auto split: option.splits)

lemma split_once_char_append:
  "c \<notin> set a \<Longrightarrow> split_once [c] (a @ c # b) = Some (a, b)"
  by (induction a) (auto simp: split_once_char simp del: split_once.simps)

lemma split_once_char_None: "split_once [c] s = None \<longleftrightarrow> c \<notin> set s"
  by (induction s) (auto simp: split_once_char simp del: split_once.simps)

lemma contains_char: "contains s [c] \<longleftrightarrow> c \<in> set s"
  by (simp add: contains_def split_once_char_None)

lemma split_all_neq_Nil [simp]: "split_all sep s \<noteq> []"
  by (subst split_all.simps) (auto split: option.splits)

lemma split_all_char:
  "split_all [c] [] = [[]]"
  "split_all [c] (x # xs) =
     (if x = c then [] # split_all [c] xs
      else (x # hd (split_all [c] xs)) # tl (split_all [c] xs))"
  by (subst split_all.simps; simp add: split_once_char del: split_once.simps)
    (subst split_all.simps; auto simp: split_all.simps [of "[c]" xs] split_once_char
      simp del: split_once.simps split: option.splits)

lemma split_all_char_absent: "c \<notin> set s \<Longrightarrow> split_all [c] s = [s]"
  by (induction s) (auto simp: split_all_char)

lemma split_all_char_append:
  "c \<notin> set a \<Longrightarrow> split_all [c] (a @ c # b) = a # split_all [c] b"
  by (induction a) (auto simp: split_all_char)

lemma split_all_char_pieces: "w \<in> set (split_all [c] s) \<Longrightarrow> c \<notin> set w"
proof (induction s arbitrary: w)
  case (Cons x xs)
  have "hd (split_all [c] xs) \<in> set (split_all [c] xs)"
    and "set (tl (split_all [c] xs)) \<subseteq> set (split_all [c] xs)"
    by (simp_all add: list.set_sel(2) subsetI)
  with Cons show ?case by (auto simp: split_all_char split: if_splits)
qed (simp add: split_all_char)

lemma join_Cons: "ys \<noteq> [] \<Longrightarrow> join sep (x # ys) = x @ sep @ join sep ys"
  by (cases ys) simp_all

lemma join_hd_Cons: "join sep ((c # x) # ys) = c # join sep (x # ys)"
  by (cases ys) simp_all

lemma join_split_char:
  "join d (split_all [c] s) = concat (List.map (\<lambda>x. if x = c then d else [x]) s)"
  by (induction s) (auto simp: split_all_char join_Cons join_hd_Cons)

lemma replace_all_char:
  "replace_all [c] d s = concat (List.map (\<lambda>x. if x = c then d else [x]) s)"
  by (simp add: replace_all_def join_split_char)

lemma split_join_char:
  "xs \<noteq> [] \<Longrightarrow> \<forall>x \<in> set xs. c \<notin> set x \<Longrightarrow> split_all [c] (join [c] xs) = xs"
proof (induction xs)
  case (Cons x xs)
  then show ?case by (cases xs) (auto simp: split_all_char_absent split_all_char_append)
qed simp

lemma join_split_same: "join [c] (split_all [c] s) = s"
  by (simp add: join_split_char) (induction s; simp)

lemma isdigit_char: "isdigit a \<Longrightarrow> c \<in> set a \<Longrightarrow> is_digit c"
  by (auto simp: isdigit_def list_all_iff)

end
