(* ===== verification/Py_Regex.thy ===== *)
theory Py_Regex
  imports Py_Prelude
begin

text \<open>
  Python's \<open>re\<close> for the patterns of the sources: a backtracking matcher that returns every
  way to match in the order the engine tries them, so the first element is the match Python
  reports. A matcher state is the text already consumed (reversed), the text still ahead and
  the groups captured so far.
\<close>

section \<open>Patterns\<close>

datatype rx =
    REps
  | RChr "char \<Rightarrow> bool"
  | RSeq rx rx
  | RAlt rx rx
  | RStar bool rx     \<comment> \<open>\<open>True\<close> is greedy\<close>
  | RGrp nat rx
  | RBack nat
  | RBol bool         \<comment> \<open>\<open>^\<close>; \<open>True\<close> under \<open>re.MULTILINE\<close>\<close>
  | REol bool         \<comment> \<open>\<open>$\<close>; \<open>True\<close> under \<open>re.MULTILINE\<close>\<close>
  | RWordB            \<comment> \<open>\<open>\b\<close>\<close>

fun rseq :: "rx list \<Rightarrow> rx" where
  "rseq [] = REps"
| "rseq [r] = r"
| "rseq (r # s # rs) = RSeq r (rseq (s # rs))"

fun ralt :: "rx list \<Rightarrow> rx" where
  "ralt [] = RChr (\<lambda>_. False)"
| "ralt [r] = r"
| "ralt (r # s # rs) = RAlt r (ralt (s # rs))"

definition rlit :: "string \<Rightarrow> rx" where
  "rlit s = rseq (List.map (\<lambda>c. RChr (\<lambda>d. d = c)) s)"

definition rilit :: "string \<Rightarrow> rx" where   \<comment> \<open>a literal under \<open>re.IGNORECASE\<close>\<close>
  "rilit s = rseq (List.map (\<lambda>c. RChr (\<lambda>d. lower_char d = lower_char c)) s)"

definition rstar :: "rx \<Rightarrow> rx" where
  "rstar r = RStar True r"

definition rplus :: "rx \<Rightarrow> rx" where
  "rplus r = RSeq r (RStar True r)"

definition ropt :: "rx \<Rightarrow> rx" where
  "ropt r = RAlt r REps"

fun rtimes :: "nat \<Rightarrow> rx \<Rightarrow> rx" where    \<comment> \<open>\<open>r{n}\<close>\<close>
  "rtimes n r = rseq (replicate n r)"

fun rupto :: "nat \<Rightarrow> rx \<Rightarrow> rx" where     \<comment> \<open>\<open>r{0,n}\<close>, greedy\<close>
  "rupto 0 r = REps"
| "rupto (Suc n) r = ropt (RSeq r (rupto n r))"

definition rdigit :: rx where "rdigit = RChr is_digit"                  \<comment> \<open>\<open>\d\<close>\<close>
definition rspace :: rx where "rspace = RChr is_space"                  \<comment> \<open>\<open>\s\<close>\<close>
definition rnspace :: rx where "rnspace = RChr (\<lambda>c. \<not> is_space c)"     \<comment> \<open>\<open>\S\<close>\<close>
definition rword :: rx where "rword = RChr is_word"                     \<comment> \<open>\<open>\w\<close>\<close>
definition rdot :: rx where "rdot = RChr (\<lambda>c. c \<noteq> CHR 0x0A)"           \<comment> \<open>\<open>.\<close>\<close>
definition rany :: rx where "rany = RChr (\<lambda>_. True)"                    \<comment> \<open>\<open>.\<close> under \<open>re.DOTALL\<close>\<close>
definition roneof :: "char list \<Rightarrow> rx" where "roneof cs = RChr (\<lambda>c. c \<in> set cs)"
definition rnoneof :: "char list \<Rightarrow> rx" where "rnoneof cs = RChr (\<lambda>c. c \<notin> set cs)"

lemmas rx_abbrevs =
  rlit_def rilit_def rstar_def rplus_def ropt_def rdigit_def rspace_def rnspace_def
  rword_def rdot_def rany_def roneof_def rnoneof_def

section \<open>Matching\<close>

type_synonym groups = "(nat \<times> string) list"
type_synonym rstate = "string \<times> string \<times> groups"

text \<open>
  A repetition of the steps of \<open>m\<close>: a round that consumes nothing is not repeated. The
  fuel is one more than the text ahead, and every round consumes at least a character.
\<close>

fun rrep :: "bool \<Rightarrow> nat \<Rightarrow> (rstate \<Rightarrow> rstate list) \<Rightarrow> rstate \<Rightarrow> rstate list" where
  "rrep greedy 0 m s = [s]"
| "rrep greedy (Suc n) m s =
     (let more = concat (List.map (rrep greedy n m)
                   (List.filter (\<lambda>t. length (fst (snd t)) < length (fst (snd s))) (m s)))
      in if greedy then more @ [s] else s # more)"

definition hd_word :: "string \<Rightarrow> bool" where
  "hd_word s = (case s of [] \<Rightarrow> False | c # _ \<Rightarrow> is_word c)"

primrec rrun :: "rx \<Rightarrow> rstate \<Rightarrow> rstate list" where
  "rrun REps s = [s]"
| "rrun (RChr p) s =
     (case s of (pre, rest, gs) \<Rightarrow>
        (case rest of [] \<Rightarrow> [] | c # cs \<Rightarrow> if p c then [(c # pre, cs, gs)] else []))"
| "rrun (RSeq a b) s = concat (List.map (rrun b) (rrun a s))"
| "rrun (RAlt a b) s = rrun a s @ rrun b s"
| "rrun (RStar greedy a) s = rrep greedy (Suc (length (fst (snd s)))) (rrun a) s"
| "rrun (RGrp i a) s =
     (case s of (pre, rest, gs) \<Rightarrow>
        List.map (\<lambda>(pre', rest', gs').
          (pre', rest', (i, take (length rest - length rest') rest) # gs')) (rrun a s))"
| "rrun (RBack i) s =
     (case s of (pre, rest, gs) \<Rightarrow>
        (case map_of gs i of
           None \<Rightarrow> []
         | Some w \<Rightarrow> if prefix w rest then [(rev w @ pre, drop (length w) rest, gs)] else []))"
| "rrun (RBol m) s =
     (case s of (pre, rest, gs) \<Rightarrow>
        if pre = [] \<or> m \<and> hd pre = CHR 0x0A then [s] else [])"
| "rrun (REol m) s =
     (case s of (pre, rest, gs) \<Rightarrow>
        if rest = [] \<or> rest = [CHR 0x0A] \<or> m \<and> hd rest = CHR 0x0A then [s] else [])"
| "rrun RWordB s =
     (case s of (pre, rest, gs) \<Rightarrow> if hd_word pre \<noteq> hd_word rest then [s] else [])"

declare rrun.simps [simp del]

lemma rrun_simps [simp]:
  "rrun REps = (\<lambda>s. [s])"
  "rrun (RChr p) (pre, [], gs) = []"
  "rrun (RChr p) (pre, c # cs, gs) = (if p c then [(c # pre, cs, gs)] else [])"
  "rrun (RSeq a b) s = concat (List.map (rrun b) (rrun a s))"
  "rrun (RAlt a b) s = rrun a s @ rrun b s"
  "rrun (RBol m) (pre, rest, gs) =
     (if pre = [] \<or> m \<and> hd pre = CHR 0x0A then [(pre, rest, gs)] else [])"
  "rrun (REol m) (pre, rest, gs) =
     (if rest = [] \<or> rest = [CHR 0x0A] \<or> m \<and> hd rest = CHR 0x0A then [(pre, rest, gs)] else [])"
  "rrun RWordB (pre, rest, gs) = (if hd_word pre \<noteq> hd_word rest then [(pre, rest, gs)] else [])"
  by (auto simp: rrun.simps)

text \<open>A match: the text before it, the text matched, the text after it and the groups.\<close>

record rmatch =
  rm_before :: string
  rm_text :: string
  rm_after :: string
  rm_groups :: groups

definition rm_group :: "rmatch \<Rightarrow> nat \<Rightarrow> string option" where
  "rm_group m i = map_of (rm_groups m) i"

text \<open>\<open>m.group(i)\<close> where the pattern always sets group \<open>i\<close>.\<close>

definition rm_grp :: "rmatch \<Rightarrow> nat \<Rightarrow> string" where
  "rm_grp m i = (case rm_group m i of None \<Rightarrow> [] | Some w \<Rightarrow> w)"

definition match_of :: "string \<Rightarrow> string \<Rightarrow> rstate \<Rightarrow> rmatch" where
  "match_of pre rest t =
     \<lparr>rm_before = rev pre, rm_text = take (length rest - length (fst (snd t))) rest,
      rm_after = fst (snd t), rm_groups = snd (snd t)\<rparr>"

definition match_at :: "rx \<Rightarrow> string \<Rightarrow> string \<Rightarrow> rmatch option" where
  "match_at r pre rest =
     (case rrun r (pre, rest, []) of [] \<Rightarrow> None | t # _ \<Rightarrow> Some (match_of pre rest t))"

definition re_match :: "rx \<Rightarrow> string \<Rightarrow> rmatch option" where
  "re_match r s = match_at r [] s"

definition re_fullmatch :: "rx \<Rightarrow> string \<Rightarrow> rmatch option" where
  "re_fullmatch r s =
     (case List.filter (\<lambda>t. fst (snd t) = []) (rrun r ([], s, [])) of
        [] \<Rightarrow> None | t # _ \<Rightarrow> Some (match_of [] s t))"

fun search_from :: "rx \<Rightarrow> string \<Rightarrow> string \<Rightarrow> rmatch option" where
  "search_from r pre rest =
     (case match_at r pre rest of
        Some m \<Rightarrow> Some m
      | None \<Rightarrow> (case rest of [] \<Rightarrow> None | c # cs \<Rightarrow> search_from r (c # pre) cs))"

declare search_from.simps [simp del]

definition re_search :: "rx \<Rightarrow> string \<Rightarrow> rmatch option" where
  "re_search r s = search_from r [] s"

definition re_test :: "rx \<Rightarrow> string \<Rightarrow> bool" where
  "re_test r s \<longleftrightarrow> re_search r s \<noteq> None"

text \<open>
  \<open>re.finditer\<close>: the matches from the left. After an empty match the search goes on one
  character further. The fuel is two more than the text and each match moves forward.
\<close>

fun find_iter :: "nat \<Rightarrow> rx \<Rightarrow> string \<Rightarrow> string \<Rightarrow> rmatch list" where
  "find_iter 0 r pre rest = []"
| "find_iter (Suc n) r pre rest =
     (case search_from r pre rest of
        None \<Rightarrow> []
      | Some m \<Rightarrow>
          m # (if rm_text m \<noteq> [] then find_iter n r (rev (rm_before m @ rm_text m)) (rm_after m)
               else (case rm_after m of
                       [] \<Rightarrow> []
                     | c # cs \<Rightarrow> find_iter n r (c # rev (rm_before m)) cs)))"

definition re_finditer :: "rx \<Rightarrow> string \<Rightarrow> rmatch list" where
  "re_finditer r s = find_iter (length s + 2) r [] s"

text \<open>
  \<open>re.sub(r, f, s)\<close>: every match replaced by \<open>f\<close> of the match. Between two matches lies
  the text the search skipped.
\<close>

fun sub_pieces :: "(rmatch \<Rightarrow> string) \<Rightarrow> nat \<Rightarrow> string \<Rightarrow> rmatch list \<Rightarrow> string" where
  "sub_pieces f pos s [] = drop pos s"
| "sub_pieces f pos s (m # ms) =
     drop pos (rm_before m) @ f m
       @ sub_pieces f (length (rm_before m) + length (rm_text m)) s ms"

definition re_sub :: "rx \<Rightarrow> (rmatch \<Rightarrow> string) \<Rightarrow> string \<Rightarrow> string" where
  "re_sub r f s = sub_pieces f 0 s (re_finditer r s)"

section \<open>What a match consumes\<close>

lemma rrep_consumes:
  assumes "\<And>p r g t. t \<in> set (m (p, r, g)) \<Longrightarrow> \<exists>w. r = w @ fst (snd t) \<and> fst t = rev w @ p"
    and "t \<in> set (rrep greedy n m (pre, rest, gs))"
  shows "\<exists>w. rest = w @ fst (snd t) \<and> fst t = rev w @ pre"
  using assms(2)
proof (induction n arbitrary: pre rest gs)
  case 0
  then show ?case by simp
next
  case (Suc n)
  from Suc.prems have "t = (pre, rest, gs) \<or>
      (\<exists>u \<in> set (m (pre, rest, gs)). t \<in> set (rrep greedy n m u))"
    by (auto simp: Let_def split: if_splits)
  then show ?case
  proof
    assume "t = (pre, rest, gs)"
    then show ?thesis by simp
  next
    assume "\<exists>u \<in> set (m (pre, rest, gs)). t \<in> set (rrep greedy n m u)"
    then obtain p r g where u: "(p, r, g) \<in> set (m (pre, rest, gs))"
      and t: "t \<in> set (rrep greedy n m (p, r, g))" by (metis prod_cases3)
    from assms(1) [OF u] obtain w where "rest = w @ r" "p = rev w @ pre" by auto
    moreover from Suc.IH [OF t] obtain w' where "r = w' @ fst (snd t)" "fst t = rev w' @ p"
      by blast
    ultimately have "rest = (w @ w') @ fst (snd t) \<and> fst t = rev (w @ w') @ pre" by simp
    then show ?thesis by blast
  qed
qed

lemma rrun_consumes:
  "t \<in> set (rrun r (pre, rest, gs)) \<Longrightarrow> \<exists>w. rest = w @ fst (snd t) \<and> fst t = rev w @ pre"
proof (induction r arbitrary: pre rest gs t)
  case (RSeq a b)
  then obtain p r g where u: "(p, r, g) \<in> set (rrun a (pre, rest, gs))"
    and t: "t \<in> set (rrun b (p, r, g))" by auto
  from RSeq.IH(1) [OF u] obtain w where "rest = w @ r" "p = rev w @ pre" by auto
  moreover from RSeq.IH(2) [OF t] obtain w' where "r = w' @ fst (snd t)" "fst t = rev w' @ p"
    by blast
  ultimately have "rest = (w @ w') @ fst (snd t) \<and> fst t = rev (w @ w') @ pre" by simp
  then show ?case by blast
next
  case (RStar greedy a)
  then show ?case
    by (intro rrep_consumes [of "rrun a" t greedy "Suc (length rest)" pre rest gs])
      (auto simp: rrun.simps)
next
  case (RGrp i a)
  then show ?case by (fastforce simp: rrun.simps)
next
  case (RBack i)
  then show ?case by (auto simp: rrun.simps prefix_def split: option.splits if_splits)
qed (auto simp: rrun.simps split: list.splits if_splits)

lemma match_at_split:
  assumes "match_at r pre rest = Some m"
  shows "rm_before m = rev pre" and "rest = rm_text m @ rm_after m"
proof -
  from assms obtain t ts where t: "rrun r (pre, rest, []) = t # ts" and m: "m = match_of pre rest t"
    by (auto simp: match_at_def split: list.splits)
  then have "t \<in> set (rrun r (pre, rest, []))" by simp
  from rrun_consumes [OF this] obtain w where "rest = w @ fst (snd t)" by blast
  with m show "rm_before m = rev pre" and "rest = rm_text m @ rm_after m"
    by (auto simp: match_of_def)
qed

lemma search_from_split:
  "search_from r pre rest = Some m \<Longrightarrow> rev pre @ rest = rm_before m @ rm_text m @ rm_after m"
proof (induction rest arbitrary: pre)
  case Nil
  then have "match_at r pre [] = Some m"
    by (subst (asm) search_from.simps) (simp split: option.splits)
  from match_at_split [OF this] show ?case by simp
next
  case (Cons c cs)
  show ?case
  proof (cases "match_at r pre (c # cs)")
    case None
    with Cons.prems have "search_from r (c # pre) cs = Some m"
      by (subst (asm) search_from.simps) simp
    from Cons.IH [OF this] show ?thesis by simp
  next
    case (Some m')
    with Cons.prems have "m' = m" by (subst (asm) search_from.simps) simp
    with Some show ?thesis using match_at_split [of r pre "c # cs" m] by simp
  qed
qed

lemma re_search_split:
  "re_search r s = Some m \<Longrightarrow> s = rm_before m @ rm_text m @ rm_after m"
  using search_from_split [of r "[]" s m] by (simp add: re_search_def)

section \<open>The matches of literals and of repeated character classes\<close>

lemma rrun_rseq_Cons [simp]:
  "rrun (rseq (r # rs)) s = concat (List.map (rrun (rseq rs)) (rrun r s))"
  by (cases rs) (simp_all add: concat_map_singleton [where f = "\<lambda>x. x"])

lemma rrun_rseq_Nil [simp]: "rrun (rseq []) s = [s]"
  by simp

declare rseq.simps [simp del]

lemma rrun_ralt_Cons [simp]: "rrun (ralt (r # rs)) s = rrun r s @ rrun (ralt rs) s"
  by (cases rs; cases s) (simp_all add: rrun.simps split: list.splits)

lemma rrun_rlit:
  "rrun (rlit l) (pre, rest, gs) =
     (if prefix l rest then [(rev l @ pre, drop (length l) rest, gs)] else [])"
proof (induction l arbitrary: pre rest)
  case Nil
  then show ?case by (simp add: rlit_def)
next
  case (Cons c l)
  then show ?case by (cases rest) (simp_all add: rlit_def)
qed

lemma rrep_chr:
  "length rest \<le> n \<Longrightarrow>
   rrep True n (rrun (RChr p)) (pre, rest, gs) =
     List.map (\<lambda>k. (rev (take k rest) @ pre, drop k rest, gs))
       (rev [0 ..< Suc (length (takeWhile p rest))])"
proof (induction n arbitrary: pre rest)
  case 0
  then show ?case by simp
next
  case (Suc n)
  show ?case
  proof (cases rest)
    case Nil
    then show ?thesis by simp
  next
    case (Cons c cs)
    show ?thesis
    proof (cases "p c")
      case False
      with Cons show ?thesis by simp
    next
      case True
      let ?k = "length (takeWhile p cs)"
      have split: "rev [0 ..< Suc (Suc ?k)] = List.map Suc (rev [0 ..< Suc ?k]) @ [0]"
        by (simp add: map_Suc_upt rev_map [symmetric] upt_conv_Cons del: upt_Suc)
      from Suc.prems Cons have "length cs \<le> n" by simp
      then have "rrep True n (rrun (RChr p)) (c # pre, cs, gs) =
          List.map (\<lambda>k. (rev (take k cs) @ c # pre, drop k cs, gs)) (rev [0 ..< Suc ?k])"
        by (rule Suc.IH)
      with True Cons show ?thesis by (simp add: split o_def del: upt_Suc)
    qed
  qed
qed

lemma rrun_star_chr:
  "rrun (RStar True (RChr p)) (pre, rest, gs) =
     List.map (\<lambda>k. (rev (take k rest) @ pre, drop k rest, gs))
       (rev [0 ..< Suc (length (takeWhile p rest))])"
  by (simp add: rrun.simps(5) rrep_chr del: upt_Suc rrep.simps)

text \<open>Membership form: a run of \<open>k\<close> characters of the class, for every length it can have.\<close>

lemma in_star_chr:
  "t \<in> set (rrun (RStar True (RChr p)) (pre, rest, gs)) \<longleftrightarrow>
     (\<exists>w rest'. rest = w @ rest' \<and> list_all p w \<and> t = (rev w @ pre, rest', gs))"
proof
  assume "t \<in> set (rrun (RStar True (RChr p)) (pre, rest, gs))"
  then obtain k where k: "k \<le> length (takeWhile p rest)"
    and t: "t = (rev (take k rest) @ pre, drop k rest, gs)"
    by (auto simp: rrun_star_chr less_Suc_eq_le simp del: upt_Suc)
  have "take k rest = take k (takeWhile p rest)"
    using k by (metis append_eq_conv_conj take_take takeWhile_eq_take min.absorb1)
  then have "list_all p (take k rest)"
    by (metis in_set_takeD list.pred_set set_takeWhileD)
  with t show "\<exists>w rest'. rest = w @ rest' \<and> list_all p w \<and> t = (rev w @ pre, rest', gs)"
    by (metis append_take_drop_id)
next
  assume "\<exists>w rest'. rest = w @ rest' \<and> list_all p w \<and> t = (rev w @ pre, rest', gs)"
  then obtain w rest' where w: "rest = w @ rest'" "list_all p w" "t = (rev w @ pre, rest', gs)"
    by blast
  then have "takeWhile p rest = w @ takeWhile p rest'"
    by (simp add: list.pred_set takeWhile_append2)
  then have "length w \<le> length (takeWhile p rest)" by simp
  then have "length w \<in> set (rev [0 ..< Suc (length (takeWhile p rest))])"
    by (auto simp del: upt_Suc)
  with w show "t \<in> set (rrun (RStar True (RChr p)) (pre, rest, gs))"
    by (auto simp: rrun_star_chr simp del: upt_Suc intro!: image_eqI [where x = "length w"])
qed

lemma in_plus_chr:
  "t \<in> set (rrun (rplus (RChr p)) (pre, rest, gs)) \<longleftrightarrow>
     (\<exists>w rest'. w \<noteq> [] \<and> rest = w @ rest' \<and> list_all p w \<and> t = (rev w @ pre, rest', gs))"
proof (cases rest)
  case Nil
  then show ?thesis by (simp add: rplus_def)
next
  case (Cons c cs)
  have "t \<in> set (rrun (rplus (RChr p)) (pre, rest, gs)) \<longleftrightarrow>
      p c \<and> t \<in> set (rrun (RStar True (RChr p)) (c # pre, cs, gs))"
    using Cons by (simp add: rplus_def del: rrep.simps)
  also have "\<dots> \<longleftrightarrow> (\<exists>w rest'. p c \<and> cs = w @ rest' \<and> list_all p w \<and> t = (rev w @ c # pre, rest', gs))"
    by (simp only: in_star_chr) blast
  also have "\<dots> \<longleftrightarrow> (\<exists>w rest'. w \<noteq> [] \<and> rest = w @ rest' \<and> list_all p w \<and> t = (rev w @ pre, rest', gs))"
    (is "?L = ?R")
  proof
    assume ?L
    then obtain w rest' where "p c" "cs = w @ rest'" "list_all p w" "t = (rev w @ c # pre, rest', gs)"
      by blast
    with Cons show ?R by (intro exI [of _ "c # w"] exI [of _ rest']) simp
  next
    assume ?R
    then obtain w rest' where w: "w \<noteq> []" "rest = w @ rest'" "list_all p w" "t = (rev w @ pre, rest', gs)"
      by blast
    with Cons obtain v where "w = c # v" by (cases w) auto
    with w Cons show ?L by (intro exI [of _ v] exI [of _ rest']) simp
  qed
  finally show ?thesis .
qed

lemma in_rlit:
  "t \<in> set (rrun (rlit l) (pre, rest, gs)) \<longleftrightarrow>
     (\<exists>rest'. rest = l @ rest' \<and> t = (rev l @ pre, rest', gs))"
  by (auto simp: rrun_rlit prefix_def)

lemma in_grp:
  "t \<in> set (rrun (RGrp i a) (pre, rest, gs)) \<longleftrightarrow>
     (\<exists>pre' rest' gs'. (pre', rest', gs') \<in> set (rrun a (pre, rest, gs)) \<and>
        t = (pre', rest', (i, take (length rest - length rest') rest) # gs'))"
  by (force simp: rrun.simps)

lemma in_rseq:
  "t \<in> set (rrun (rseq (r # rs)) s) \<longleftrightarrow> (\<exists>u \<in> set (rrun r s). t \<in> set (rrun (rseq rs) u))"
  by simp

lemma in_rseq_Nil: "t \<in> set (rrun (rseq []) s) \<longleftrightarrow> t = s"
  by simp

text \<open>The same, as rewrite rules for what follows a step.\<close>

lemma bex_plus:
  "(\<exists>u \<in> set (rrun (rplus (RChr p)) (pre, rest, gs)). P u) \<longleftrightarrow>
     (\<exists>w rest'. w \<noteq> [] \<and> list_all p w \<and> rest = w @ rest' \<and> P (rev w @ pre, rest', gs))"
  unfolding Bex_def in_plus_chr by blast

lemma bex_star:
  "(\<exists>u \<in> set (rrun (rstar (RChr p)) (pre, rest, gs)). P u) \<longleftrightarrow>
     (\<exists>w rest'. list_all p w \<and> rest = w @ rest' \<and> P (rev w @ pre, rest', gs))"
  unfolding Bex_def in_star_chr rstar_def by blast

lemma bex_rlit:
  "(\<exists>u \<in> set (rrun (rlit l) (pre, rest, gs)). P u) \<longleftrightarrow>
     (\<exists>rest'. rest = l @ rest' \<and> P (rev l @ pre, rest', gs))"
  by (auto simp: in_rlit)

lemma bex_grp:
  "(\<exists>u \<in> set (rrun (RGrp i a) (pre, rest, gs)). P u) \<longleftrightarrow>
     (\<exists>u \<in> set (rrun a (pre, rest, gs)).
        P (fst u, fst (snd u), (i, take (length rest - length (fst (snd u))) rest) # snd (snd u)))"
  by (force simp: in_grp)

lemma bex_rseq:
  "(\<exists>u \<in> set (rrun (rseq (r # rs)) s). P u) \<longleftrightarrow>
     (\<exists>v \<in> set (rrun r s). \<exists>u \<in> set (rrun (rseq rs) v). P u)"
  "(\<exists>u \<in> set (rrun (rseq []) s). P u) \<longleftrightarrow> P s"
  by auto

lemmas rx_bex = bex_rseq bex_plus bex_star bex_rlit bex_grp

lemmas rx_members = in_rseq in_rseq_Nil in_rlit in_plus_chr in_star_chr in_grp

lemma re_fullmatch_iff:
  "re_fullmatch r s \<noteq> None \<longleftrightarrow> (\<exists>pre gs. (pre, [], gs) \<in> set (rrun r ([], s, [])))"
proof -
  have "re_fullmatch r s \<noteq> None \<longleftrightarrow> List.filter (\<lambda>t. fst (snd t) = []) (rrun r ([], s, [])) \<noteq> []"
    by (auto simp: re_fullmatch_def split: list.splits)
  also have "\<dots> \<longleftrightarrow> (\<exists>t \<in> set (rrun r ([], s, [])). fst (snd t) = [])"
    by (auto simp: filter_empty_conv)
  finally show ?thesis by force
qed

lemma re_fullmatch_bex:
  "re_fullmatch r s \<noteq> None \<longleftrightarrow> (\<exists>u \<in> set (rrun r ([], s, [])). fst (snd u) = [])"
  unfolding re_fullmatch_iff by force

lemma re_match_None_iff: "re_match r s = None \<longleftrightarrow> rrun r ([], s, []) = []"
  by (auto simp: re_match_def match_at_def split: list.splits)

lemma re_match_SomeD:
  assumes "re_match r s = Some m"
  obtains pre rest gs where "(pre, rest, gs) \<in> set (rrun r ([], s, []))"
    "rm_groups m = gs" "rm_after m = rest"
proof -
  from assms obtain t ts where t: "rrun r ([], s, []) = t # ts" "m = match_of [] s t"
    by (auto simp: re_match_def match_at_def split: list.splits)
  obtain pre rest gs where "t = (pre, rest, gs)" by (cases t)
  with t show thesis by (intro that [of pre rest gs]) (simp_all add: match_of_def)
qed

end
