(* ===== verification/Py_Value.thy ===== *)
theory Py_Value
  imports Py_Regex "HOL-Library.AList"
begin

text \<open>
  Python's dynamic values (what \<open>json.loads\<close> returns and \<open>Any\<close> holds), dictionaries with
  their insertion order, truth, \<open>str\<close> and \<open>int\<close>. A float is kept as its literal: the
  sources pass floats through, and only test them for zero or truncate them.
\<close>

section \<open>Dictionaries\<close>

text \<open>
  A dictionary with string keys is an association list in insertion order whose keys are
  distinct: storing under a present key keeps its place, a new key goes to the end.
\<close>

type_synonym 'v dict = "(string \<times> 'v) list"

definition dict_get :: "string \<Rightarrow> 'v dict \<Rightarrow> 'v option" where
  "dict_get k d = map_of d k"

definition dict_has :: "string \<Rightarrow> 'v dict \<Rightarrow> bool" where
  "dict_has k d \<longleftrightarrow> map_of d k \<noteq> None"

definition dict_set :: "string \<Rightarrow> 'v \<Rightarrow> 'v dict \<Rightarrow> 'v dict" where
  "dict_set k v d = AList.update k v d"

definition dict_pop :: "string \<Rightarrow> 'v dict \<Rightarrow> 'v dict" where
  "dict_pop k d = List.filter (\<lambda>p. fst p \<noteq> k) d"

definition dict_update :: "'v dict \<Rightarrow> 'v dict \<Rightarrow> 'v dict" where   \<comment> \<open>\<open>d.update(e)\<close>\<close>
  "dict_update d e = fold (\<lambda>(k, v). dict_set k v) e d"

definition dict_ok :: "'v dict \<Rightarrow> bool" where
  "dict_ok d \<longleftrightarrow> distinct (List.map fst d)"

text \<open>The contract of a dictionary, as the components use it.\<close>

locale dictionary =
  fixes get :: "'k \<Rightarrow> 'd \<Rightarrow> 'v option"
    and put :: "'k \<Rightarrow> 'v \<Rightarrow> 'd \<Rightarrow> 'd"
    and pop :: "'k \<Rightarrow> 'd \<Rightarrow> 'd"
    and entries :: "'d \<Rightarrow> ('k \<times> 'v) list"
    and invar :: "'d \<Rightarrow> bool"
  assumes get_put: "get k' (put k v d) = (if k' = k then Some v else get k' d)"
    and get_pop: "get k' (pop k d) = (if k' = k then None else get k' d)"
    and get_entries: "invar d \<Longrightarrow> get k d = Some v \<longleftrightarrow> (k, v) \<in> set (entries d)"
    and entries_distinct: "invar d \<Longrightarrow> distinct (List.map fst (entries d))"
    and invar_put: "invar d \<Longrightarrow> invar (put k v d)"
    and invar_pop: "invar d \<Longrightarrow> invar (pop k d)"
begin

lemma get_put_same: "get k (put k v d) = Some v"
  by (simp add: get_put)

lemma get_put_other: "k' \<noteq> k \<Longrightarrow> get k' (put k v d) = get k' d"
  by (simp add: get_put)

lemma get_None: "invar d \<Longrightarrow> get k d = None \<longleftrightarrow> k \<notin> fst ` set (entries d)"
  using get_entries [of d k] by (cases "get k d") force+

text \<open>Storing every entry of a list, the later entries winning.\<close>

lemma get_fold_put:
  "get k (fold (\<lambda>(k, v). put k v) es d) =
     (case map_of (rev es) k of Some v \<Rightarrow> Some v | None \<Rightarrow> get k d)"
  by (induction es arbitrary: d)
    (auto simp: get_put map_add_def split: option.splits)

lemma invar_fold_put: "invar d \<Longrightarrow> invar (fold (\<lambda>(k, v). put k v) es d)"
  by (induction es arbitrary: d) (auto simp: invar_put)

text \<open>Storing the entries of another dictionary: its values win, the rest stays.\<close>

lemma get_fold_entries:
  assumes "invar e"
  shows "get k (fold (\<lambda>(k, v). put k v) (entries e) d) =
    (case get k e of Some v \<Rightarrow> Some v | None \<Rightarrow> get k d)"
proof -
  have d: "distinct (List.map fst (entries e))" by (rule entries_distinct [OF assms])
  then have dr: "distinct (List.map fst (rev (entries e)))" by (simp add: rev_map [symmetric])
  have "map_of (rev (entries e)) k = get k e"
  proof (cases "get k e")
    case None
    then show ?thesis by (metis get_None [OF assms] map_of_eq_None_iff set_rev)
  next
    case (Some v)
    then have "(k, v) \<in> set (rev (entries e))" by (simp add: get_entries [OF assms])
    with dr Some show ?thesis by (simp del: set_rev)
  qed
  then show ?thesis by (simp add: get_fold_put)
qed

end

interpretation dict: dictionary dict_get dict_set dict_pop "\<lambda>d. d" dict_ok
proof unfold_locales
  fix k k' :: string and v :: 'v and d :: "'v dict"
  show "dict_get k' (dict_set k v d) = (if k' = k then Some v else dict_get k' d)"
    by (simp add: dict_get_def dict_set_def update_conv')
  show "dict_get k' (dict_pop k d) = (if k' = k then None else dict_get k' d)"
    by (induction d) (auto simp: dict_get_def dict_pop_def)
  assume "dict_ok d"
  then show "dict_get k d = Some v \<longleftrightarrow> (k, v) \<in> set d"
    and "distinct (List.map fst d)" and "dict_ok (dict_set k v d)" and "dict_ok (dict_pop k d)"
    by (auto simp: dict_get_def dict_ok_def dict_set_def dict_pop_def distinct_update
        distinct_map_filter)
qed

lemma dict_has_get: "dict_has k d \<longleftrightarrow> dict_get k d \<noteq> None"
  by (simp add: dict_has_def dict_get_def)

lemma dict_get_Nil [simp]: "dict_get k [] = None"
  by (simp add: dict_get_def)

lemma dict_get_Cons: "dict_get k ((k', v) # d) = (if k = k' then Some v else dict_get k d)"
  by (simp add: dict_get_def)

lemma dict_ok_Nil [simp]: "dict_ok []"
  by (simp add: dict_ok_def)

lemma dict_get_update:
  "dict_ok e \<Longrightarrow> dict_get k (dict_update d e) =
     (case dict_get k e of Some v \<Rightarrow> Some v | None \<Rightarrow> dict_get k d)"
  unfolding dict_update_def by (rule dict.get_fold_entries)

lemma dict_ok_update: "dict_ok d \<Longrightarrow> dict_ok (dict_update d e)"
  unfolding dict_update_def by (rule dict.invar_fold_put)

section \<open>Values\<close>

datatype pyval =
    VNone
  | VBool bool
  | VInt int
  | VFloat string
  | VStr string
  | VList "pyval list"
  | VDict "(string \<times> pyval) list"

lemma size_dict_value [termination_simp]:
  "(k, v) \<in> set d \<Longrightarrow> size v < Suc (size_list (size_prod (\<lambda>_. 0) size) d)"
  by (induction d) auto

lemma size_dict_get: "dict_get k d = Some v \<Longrightarrow> size v < Suc (size_list (size_prod (\<lambda>_. 0) size) d)"
  unfolding dict_get_def by (rule size_dict_value) (rule map_of_SomeD)

fun is_str :: "pyval \<Rightarrow> bool" where
  "is_str (VStr _) = True" | "is_str _ = False"

fun is_dict :: "pyval \<Rightarrow> bool" where
  "is_dict (VDict _) = True" | "is_dict _ = False"

fun is_list :: "pyval \<Rightarrow> bool" where
  "is_list (VList _) = True" | "is_list _ = False"

fun is_boolean :: "pyval \<Rightarrow> bool" where
  "is_boolean (VBool _) = True" | "is_boolean _ = False"

text \<open>\<open>isinstance(v, int)\<close>: \<open>bool\<close> is a subclass of \<open>int\<close>.\<close>

fun is_int :: "pyval \<Rightarrow> bool" where
  "is_int (VInt _) = True" | "is_int (VBool _) = True" | "is_int _ = False"

text \<open>A float literal is zero when its mantissa has no digit but 0.\<close>

definition float_is_zero :: "string \<Rightarrow> bool" where
  "float_is_zero s \<longleftrightarrow>
     list_all (\<lambda>c. \<not> is_digit c \<or> c = CHR ''0'')
       (takeWhile (\<lambda>c. lower_char c \<noteq> CHR ''e'') s) \<and> (\<exists>c \<in> set s. is_digit c)"

fun truth :: "pyval \<Rightarrow> bool" where   \<comment> \<open>\<open>bool(v)\<close>\<close>
  "truth VNone = False"
| "truth (VBool b) = b"
| "truth (VInt i) = (i \<noteq> 0)"
| "truth (VFloat s) = (\<not> float_is_zero s)"
| "truth (VStr s) = (s \<noteq> [])"
| "truth (VList xs) = (xs \<noteq> [])"
| "truth (VDict d) = (d \<noteq> [])"

text \<open>\<open>==\<close> of Python on two values where one is a string or a boolean constant.\<close>

definition or_else :: "pyval \<Rightarrow> pyval \<Rightarrow> pyval" where   \<comment> \<open>\<open>a or b\<close>\<close>
  "or_else a b = (if truth a then a else b)"

text \<open>\<open>d.get(k)\<close> and \<open>d.get(k, default)\<close> on a value that is a dictionary.\<close>

definition get_or :: "pyval \<Rightarrow> string \<Rightarrow> pyval dict \<Rightarrow> pyval" where
  "get_or dflt k d = (case dict_get k d of None \<Rightarrow> dflt | Some v \<Rightarrow> v)"

definition get_val :: "string \<Rightarrow> pyval dict \<Rightarrow> pyval" where
  "get_val k d = get_or VNone k d"

text \<open>The attribute lookup \<open>v.get\<close> fails on everything that is not a dictionary.\<close>

fun as_dict :: "pyval \<Rightarrow> pyval dict res" where
  "as_dict (VDict d) = Inr d"
| "as_dict _ = Inl AttributeError"

text \<open>Iterating over a value: lists give their items, dictionaries their keys, strings
  their characters.\<close>

fun iter_val :: "pyval \<Rightarrow> pyval list res" where
  "iter_val (VList xs) = Inr xs"
| "iter_val (VDict d) = Inr (List.map (VStr \<circ> fst) d)"
| "iter_val (VStr s) = Inr (List.map (\<lambda>c. VStr [c]) s)"
| "iter_val _ = Inl TypeError"

section \<open>\<open>repr\<close>, \<open>str\<close> and \<open>int\<close>\<close>

definition hex_digit :: "nat \<Rightarrow> char" where
  "hex_digit n = char_of (if n < 10 then 48 + n else 87 + n)"

fun repr_char :: "char \<Rightarrow> char \<Rightarrow> string" where
  "repr_char q c =
     (if c = q \<or> c = CHR 0x5C then [CHR 0x5C, c]
      else if c = CHR 0x0A then [CHR 0x5C, CHR ''n'']
      else if c = CHR 0x0D then [CHR 0x5C, CHR ''r'']
      else if c = CHR 0x09 then [CHR 0x5C, CHR ''t'']
      else if of_char c < (32 :: nat) \<or> of_char c = (127 :: nat)
      then [CHR 0x5C, CHR ''x'', hex_digit (of_char c div 16), hex_digit (of_char c mod 16)]
      else [c])"

definition repr_str :: "string \<Rightarrow> string" where
  "repr_str s =
     (let q = (if squote \<in> set s \<and> dquote \<notin> set s then dquote else squote)
      in [q] @ concat (List.map (repr_char q) s) @ [q])"

function py_repr :: "pyval \<Rightarrow> string" where
  "py_repr VNone = ''None''"
| "py_repr (VBool b) = (if b then ''True'' else ''False'')"
| "py_repr (VInt i) = show_int i"
| "py_repr (VFloat s) = s"
| "py_repr (VStr s) = repr_str s"
| "py_repr (VList xs) = ''['' @ join '', '' (List.map py_repr xs) @ '']''"
| "py_repr (VDict d) =
     ''{'' @ join '', '' (List.map (\<lambda>kv. repr_str (fst kv) @ '': '' @ py_repr (snd kv)) d) @ ''}''"
  by pat_completeness auto
termination
  by (relation "measure size") (auto simp: less_Suc_eq_le size_list_estimation' intro: size_dict_value
      dest: size_dict_value)

fun py_str :: "pyval \<Rightarrow> string" where
  "py_str (VStr s) = s"
| "py_str v = py_repr v"

text \<open>The integer part of a float literal without exponent; \<open>int\<close> truncates towards zero.\<close>

definition float_trunc :: "string \<Rightarrow> int" where
  "float_trunc s =
     (let neg = (s \<noteq> [] \<and> hd s = CHR ''-'');
          ip = takeWhile is_digit (if neg then tl s else s)
      in (if neg then - 1 else 1) * int (nat_of_digits ip))"

fun py_int :: "pyval \<Rightarrow> int res" where   \<comment> \<open>\<open>int(v)\<close>\<close>
  "py_int (VInt i) = Inr i"
| "py_int (VBool b) = Inr (if b then 1 else 0)"
| "py_int (VFloat s) = Inr (float_trunc s)"
| "py_int (VStr s) = of_option (ValueError ''invalid literal for int() with base 10'') (int_of_string s)"
| "py_int _ = Inl TypeError"

text \<open>\<open>v == n\<close> for a value and an integer.\<close>

fun equals_int :: "pyval \<Rightarrow> int \<Rightarrow> bool" where
  "equals_int (VInt i) n = (i = n)"
| "equals_int (VBool b) n = ((if b then 1 else 0) = n)"
| "equals_int (VFloat s) n =
     (float_trunc s = n \<and> list_all (\<lambda>c. \<not> is_digit c \<or> c = CHR ''0'') (dropWhile (\<lambda>c. c \<noteq> CHR ''.'') s))"
| "equals_int _ n = False"

text \<open>\<open>tomllib.loads\<close>, wherever a program reads TOML: a table, or the message of its error.\<close>

type_synonym toml_reader = "string \<Rightarrow> string + pyval dict"

end
