(* ===== verification/Py_Json.thy ===== *)
theory Py_Json
  imports Py_Value
begin

text \<open>
  Python's \<open>json\<close> module as the sources use it: \<open>dumps\<close> with its separators, its
  indentation, \<open>ensure_ascii\<close> and \<open>sort_keys\<close>, and \<open>loads\<close> with its error. A float is read
  and written as its literal, which is what Python's shortest form gives back.
\<close>

section \<open>UTF-8\<close>

definition utf8_of :: "nat \<Rightarrow> string" where
  "utf8_of n =
     (if n < 128 then [char_of n]
      else if n < 2048 then [char_of (192 + n div 64), char_of (128 + n mod 64)]
      else if n < 65536
      then [char_of (224 + n div 4096), char_of (128 + n div 64 mod 64), char_of (128 + n mod 64)]
      else [char_of (240 + n div 262144), char_of (128 + n div 4096 mod 64),
            char_of (128 + n div 64 mod 64), char_of (128 + n mod 64)])"

definition low6 :: "char \<Rightarrow> nat" where
  "low6 c = of_char c mod 64"

fun utf8_decode :: "string \<Rightarrow> nat list" where
  "utf8_decode [] = []"
| "utf8_decode (c # cs) =
     (let n = of_char c in
      if n < 128 then n # utf8_decode cs
      else if n < 224
      then (case cs of d # ds \<Rightarrow> ((n mod 32) * 64 + low6 d) # utf8_decode ds | _ \<Rightarrow> [n])
      else if n < 240
      then (case cs of
              d # e # ds \<Rightarrow> ((n mod 16) * 4096 + low6 d * 64 + low6 e) # utf8_decode ds
            | _ \<Rightarrow> [n])
      else (case cs of
              d # e # f # ds \<Rightarrow>
                ((n mod 8) * 262144 + low6 d * 4096 + low6 e * 64 + low6 f) # utf8_decode ds
            | _ \<Rightarrow> [n]))"

section \<open>Printing\<close>

definition hex4 :: "nat \<Rightarrow> string" where
  "hex4 n = [hex_digit (n div 4096 mod 16), hex_digit (n div 256 mod 16),
             hex_digit (n div 16 mod 16), hex_digit (n mod 16)]"

definition unicode_escape :: "nat \<Rightarrow> string" where
  "unicode_escape n =
     (if n < 65536 then CHR 0x5C # CHR ''u'' # hex4 n
      else CHR 0x5C # CHR ''u'' # hex4 (55296 + (n - 65536) div 1024)
           @ CHR 0x5C # CHR ''u'' # hex4 (56320 + (n - 65536) mod 1024))"

text \<open>The two-character escapes.\<close>

definition short_escape :: "nat \<Rightarrow> string option" where
  "short_escape n =
     (if n = 34 then Some [CHR 0x5C, CHR 0x22]
      else if n = 92 then Some [CHR 0x5C, CHR 0x5C]
      else if n = 10 then Some [CHR 0x5C, CHR ''n'']
      else if n = 13 then Some [CHR 0x5C, CHR ''r'']
      else if n = 9 then Some [CHR 0x5C, CHR ''t'']
      else if n = 12 then Some [CHR 0x5C, CHR ''f'']
      else if n = 8 then Some [CHR 0x5C, CHR ''b'']
      else None)"

definition escape_point :: "bool \<Rightarrow> nat \<Rightarrow> string" where
  "escape_point ascii n =
     (case short_escape n of
        Some e \<Rightarrow> e
      | None \<Rightarrow>
          if n < 32 \<or> ascii \<and> 126 < n then unicode_escape n else utf8_of n)"

definition json_string :: "bool \<Rightarrow> string \<Rightarrow> string" where
  "json_string ascii s = [dquote] @ concat (List.map (escape_point ascii) (utf8_decode s)) @ [dquote]"

text \<open>\<open>separators\<close>, \<open>indent\<close> and \<open>ensure_ascii\<close> of one call of \<open>dumps\<close>.\<close>

record json_style =
  js_item :: string
  js_key :: string
  js_indent :: "nat option"
  js_ascii :: bool

definition style_default :: json_style where
  "style_default = \<lparr>js_item = '', '', js_key = '': '', js_indent = None, js_ascii = True\<rparr>"

definition style_compact :: json_style where   \<comment> \<open>\<open>separators=(",", ":")\<close>\<close>
  "style_compact = \<lparr>js_item = '','', js_key = '':'', js_indent = None, js_ascii = True\<rparr>"

definition style_compact_utf8 :: json_style where   \<comment> \<open>with \<open>ensure_ascii=False\<close>\<close>
  "style_compact_utf8 = style_compact\<lparr>js_ascii := False\<rparr>"

definition style_indent2 :: json_style where   \<comment> \<open>\<open>indent=2\<close>\<close>
  "style_indent2 = \<lparr>js_item = '','', js_key = '': '', js_indent = Some 2, js_ascii = True\<rparr>"

definition newline_at :: "json_style \<Rightarrow> nat \<Rightarrow> string" where
  "newline_at st lvl =
     (case js_indent st of None \<Rightarrow> [] | Some n \<Rightarrow> CHR 0x0A # replicate (n * lvl) (CHR '' ''))"

definition bracketed :: "json_style \<Rightarrow> nat \<Rightarrow> char \<Rightarrow> char \<Rightarrow> string list \<Rightarrow> string" where
  "bracketed st lvl l r items =
     (if items = [] then [l, r]
      else [l] @ newline_at st (Suc lvl) @ join (js_item st @ newline_at st (Suc lvl)) items
           @ newline_at st lvl @ [r])"

function json_text :: "json_style \<Rightarrow> nat \<Rightarrow> pyval \<Rightarrow> string" where
  "json_text st lvl VNone = ''null''"
| "json_text st lvl (VBool b) = (if b then ''true'' else ''false'')"
| "json_text st lvl (VInt i) = show_int i"
| "json_text st lvl (VFloat s) = s"
| "json_text st lvl (VStr s) = json_string (js_ascii st) s"
| "json_text st lvl (VList xs) =
     bracketed st lvl (CHR ''['') (CHR '']'') (List.map (json_text st (Suc lvl)) xs)"
| "json_text st lvl (VDict d) =
     bracketed st lvl (CHR ''{'') (CHR ''}'')
       (List.map (\<lambda>kv. json_string (js_ascii st) (fst kv) @ js_key st
                        @ json_text st (Suc lvl) (snd kv)) d)"
  by pat_completeness auto
termination
  by (relation "measure (\<lambda>(st, lvl, v). size v)")
    (auto simp: less_Suc_eq_le size_list_estimation' dest: size_dict_value)

definition json_dumps :: "json_style \<Rightarrow> pyval \<Rightarrow> string" where
  "json_dumps st v = json_text st 0 v"

text \<open>\<open>sort_keys=True\<close>: the keys of every dictionary in the order of their text.\<close>

fun string_le :: "string \<Rightarrow> string \<Rightarrow> bool" where
  "string_le [] t = True"
| "string_le (c # cs) [] = False"
| "string_le (c # cs) (d # ds) =
     (if (of_char c :: nat) < of_char d then True
      else if (of_char d :: nat) < of_char c then False
      else string_le cs ds)"

fun insert_by :: "('a \<Rightarrow> string) \<Rightarrow> 'a \<Rightarrow> 'a list \<Rightarrow> 'a list" where
  "insert_by f x [] = [x]"
| "insert_by f x (y # ys) = (if string_le (f x) (f y) then x # y # ys else y # insert_by f x ys)"

text \<open>\<open>sorted(xs, key=f)\<close>: a stable sort.\<close>

definition sort_by :: "('a \<Rightarrow> string) \<Rightarrow> 'a list \<Rightarrow> 'a list" where
  "sort_by f xs = foldr (insert_by f) xs []"

definition sorted_strings :: "string list \<Rightarrow> string list" where   \<comment> \<open>\<open>sorted(xs)\<close>\<close>
  "sorted_strings xs = sort_by (\<lambda>s. s) xs"

function sort_keys :: "pyval \<Rightarrow> pyval" where
  "sort_keys (VList xs) = VList (List.map sort_keys xs)"
| "sort_keys (VDict d) = VDict (sort_by fst (List.map (\<lambda>kv. (fst kv, sort_keys (snd kv))) d))"
| "sort_keys VNone = VNone"
| "sort_keys (VBool b) = VBool b"
| "sort_keys (VInt i) = VInt i"
| "sort_keys (VFloat s) = VFloat s"
| "sort_keys (VStr s) = VStr s"
  by pat_completeness auto
termination
  by (relation "measure size") (auto simp: less_Suc_eq_le size_list_estimation' dest: size_dict_value)

section \<open>Reading\<close>

definition json_ws :: "char \<Rightarrow> bool" where
  "json_ws c \<longleftrightarrow> of_char c \<in> {9, 10, 13, 32 :: nat}"

definition skip_ws :: "string \<Rightarrow> string" where
  "skip_ws s = dropWhile json_ws s"

definition hex_val :: "char \<Rightarrow> nat option" where
  "hex_val c =
     (let n = of_char c in
      if is_digit c then Some (n - 48)
      else if 97 \<le> n \<and> n \<le> 102 then Some (n - 87)
      else if 65 \<le> n \<and> n \<le> 70 then Some (n - 55)
      else None)"

fun read_hex4 :: "string \<Rightarrow> nat option" where
  "read_hex4 (a # b # c # d # _) =
     (case (hex_val a, hex_val b, hex_val c, hex_val d) of
        (Some w, Some x, Some y, Some z) \<Rightarrow> Some (w * 4096 + x * 256 + y * 16 + z)
      | _ \<Rightarrow> None)"
| "read_hex4 _ = None"

definition read_short :: "char \<Rightarrow> char option" where
  "read_short e =
     (if e = CHR 0x22 \<or> e = CHR 0x5C \<or> e = CHR ''/'' then Some e
      else if e = CHR ''n'' then Some (CHR 0x0A)
      else if e = CHR ''r'' then Some (CHR 0x0D)
      else if e = CHR ''t'' then Some (CHR 0x09)
      else if e = CHR ''f'' then Some (CHR 0x0C)
      else if e = CHR ''b'' then Some (CHR 0x08)
      else None)"

text \<open>
  The code point after \<open>\u\<close> and the text behind it; a high surrogate followed by an escaped
  low surrogate is one code point.
\<close>

definition read_point :: "string \<Rightarrow> (nat \<times> string) option" where
  "read_point s =
     (case read_hex4 s of
        None \<Rightarrow> None
      | Some n \<Rightarrow>
          (let r = drop 4 s in
           if 55296 \<le> n \<and> n < 56320 \<and> prefix [CHR 0x5C, CHR ''u''] r
           then (case read_hex4 (drop 2 r) of
                   Some m \<Rightarrow>
                     if 56320 \<le> m \<and> m < 57344
                     then Some (65536 + (n - 55296) * 1024 + (m - 56320), drop 6 r)
                     else Some (n, r)
                 | None \<Rightarrow> None)
           else Some (n, r)))"

lemma read_point_shorter: "read_point s = Some (n, r) \<Longrightarrow> length r \<le> length s"
  by (auto simp: read_point_def Let_def split: option.splits if_splits)

function read_string :: "string \<Rightarrow> string \<Rightarrow> (string \<times> string) option" where
  "read_string acc [] = None"
| "read_string acc (c # cs) =
     (if c = CHR 0x22 then Some (rev acc, cs)
      else if c = CHR 0x5C then
        (case cs of
           [] \<Rightarrow> None
         | e # es \<Rightarrow>
             if e = CHR ''u'' then
               (case read_point es of
                  None \<Rightarrow> None
                | Some (n, r) \<Rightarrow> read_string (rev (utf8_of n) @ acc) r)
             else (case read_short e of None \<Rightarrow> None | Some d \<Rightarrow> read_string (d # acc) es))
      else if of_char c < (32 :: nat) then None
      else read_string (c # acc) cs)"
  by pat_completeness auto
termination
  by (relation "measure (\<lambda>(acc, s). length s)") (auto dest: read_point_shorter)

definition int_digits :: "string \<Rightarrow> string" where
  "int_digits s = (if s \<noteq> [] \<and> hd s = CHR ''0'' then [CHR ''0''] else takeWhile is_digit s)"

definition fraction :: "string \<Rightarrow> string" where
  "fraction s =
     (if s \<noteq> [] \<and> hd s = CHR ''.'' \<and> takeWhile is_digit (tl s) \<noteq> []
      then CHR ''.'' # takeWhile is_digit (tl s) else [])"

definition exponent :: "string \<Rightarrow> string" where
  "exponent s =
     (if s \<noteq> [] \<and> lower_char (hd s) = CHR ''e'' then
        (let sgn = (if tl s \<noteq> [] \<and> (hd (tl s) = CHR ''+'' \<or> hd (tl s) = CHR ''-'') then [hd (tl s)] else []);
             ds = takeWhile is_digit (drop (Suc (length sgn)) s)
         in if ds = [] then [] else hd s # sgn @ ds)
      else [])"

definition read_number :: "string \<Rightarrow> (pyval \<times> string) option" where
  "read_number s =
     (let neg = (s \<noteq> [] \<and> hd s = CHR ''-'');
          s1 = (if neg then tl s else s);
          ds = int_digits s1;
          s2 = drop (length ds) s1;
          frac = fraction s2;
          ex = exponent (drop (length frac) s2);
          lit = (if neg then [CHR ''-''] else []) @ ds @ frac @ ex
      in if ds = [] then None
         else if frac = [] \<and> ex = []
         then Some (VInt ((if neg then - 1 else 1) * int (nat_of_digits ds)), s2)
         else Some (VFloat lit, drop (length lit) s))"

definition read_word :: "string \<Rightarrow> (pyval \<times> string) option" where
  "read_word s =
     (if prefix ''null'' s then Some (VNone, drop 4 s)
      else if prefix ''true'' s then Some (VBool True, drop 4 s)
      else if prefix ''false'' s then Some (VBool False, drop 5 s)
      else if prefix ''NaN'' s then Some (VFloat ''NaN'', drop 3 s)
      else if prefix ''Infinity'' s then Some (VFloat ''Infinity'', drop 8 s)
      else if prefix ''-Infinity'' s then Some (VFloat ''-Infinity'', drop 9 s)
      else read_number s)"

fun read_value :: "nat \<Rightarrow> string \<Rightarrow> (pyval \<times> string) option"
  and read_items :: "nat \<Rightarrow> pyval list \<Rightarrow> string \<Rightarrow> (pyval \<times> string) option"
  and read_members :: "nat \<Rightarrow> pyval dict \<Rightarrow> string \<Rightarrow> (pyval \<times> string) option" where
  "read_value 0 s = None"
| "read_value (Suc n) s =
     (case s of
        [] \<Rightarrow> None
      | c # cs \<Rightarrow>
          if c = CHR 0x22 then
            (case read_string [] cs of None \<Rightarrow> None | Some (t, r) \<Rightarrow> Some (VStr t, r))
          else if c = CHR ''['' then
            (case skip_ws cs of
               [] \<Rightarrow> None
             | d # ds \<Rightarrow> if d = CHR '']'' then Some (VList [], ds) else read_items n [] (d # ds))
          else if c = CHR ''{'' then
            (case skip_ws cs of
               [] \<Rightarrow> None
             | d # ds \<Rightarrow> if d = CHR ''}'' then Some (VDict [], ds) else read_members n [] (d # ds))
          else read_word (c # cs))"
| "read_items 0 acc s = None"
| "read_items (Suc n) acc s =
     (case read_value n s of
        None \<Rightarrow> None
      | Some (v, r) \<Rightarrow>
          (case skip_ws r of
             [] \<Rightarrow> None
           | d # ds \<Rightarrow>
               if d = CHR '']'' then Some (VList (rev (v # acc)), ds)
               else if d = CHR '','' then read_items n (v # acc) (skip_ws ds)
               else None))"
| "read_members 0 acc s = None"
| "read_members (Suc n) acc s =
     (case s of
        [] \<Rightarrow> None
      | c # cs \<Rightarrow>
          if c \<noteq> CHR 0x22 then None
          else (case read_string [] cs of
             None \<Rightarrow> None
           | Some (k, r) \<Rightarrow>
               (case skip_ws r of
                  [] \<Rightarrow> None
                | d # ds \<Rightarrow>
                    if d \<noteq> CHR '':'' then None
                    else (case read_value n (skip_ws ds) of
                       None \<Rightarrow> None
                     | Some (v, r') \<Rightarrow>
                         (case skip_ws r' of
                            [] \<Rightarrow> None
                          | e # es \<Rightarrow>
                              if e = CHR ''}'' then Some (VDict (dict_set k v acc), es)
                              else if e = CHR '','' then read_members n (dict_set k v acc) (skip_ws es)
                              else None)))))"

text \<open>
  Every value and every item or member consumes a character, and between two of them at most
  two levels of the reader open, so twice the length of the text is enough fuel.
\<close>

definition json_loads :: "string \<Rightarrow> pyval res" where
  "json_loads s =
     (case read_value (2 * length s + 2) (skip_ws s) of
        None \<Rightarrow> Inl JSONDecodeError
      | Some (v, r) \<Rightarrow> if skip_ws r = [] then Inr v else Inl JSONDecodeError)"

end
