(* ===== verification/World.thy ===== *)
theory World
  imports Py_Json
begin

text \<open>
  What surrounds a command: the working directory, the environment variables, the files, the
  clock, what was printed, and the outside programs. Paths are \<open>pathlib\<close> paths; the file
  system has no symbolic links, so resolving a path only makes it absolute and folds \<open>..\<close>.
\<close>

section \<open>Paths\<close>

datatype ppath = PPath (is_absolute: bool) (parts: "string list")

definition path_of :: "string \<Rightarrow> ppath" where   \<comment> \<open>\<open>Path(s)\<close>\<close>
  "path_of s =
     PPath (s \<noteq> [] \<and> hd s = CHR ''/'')
       (List.filter (\<lambda>c. c \<noteq> [] \<and> c \<noteq> ''.'') (split_all ''/'' s))"

definition path_str :: "ppath \<Rightarrow> string" where   \<comment> \<open>\<open>str(p)\<close>\<close>
  "path_str p =
     (if is_absolute p then CHR ''/'' # join ''/'' (parts p)
      else if parts p = [] then ''.'' else join ''/'' (parts p))"

definition path_join :: "ppath \<Rightarrow> ppath \<Rightarrow> ppath" where   \<comment> \<open>\<open>p / q\<close>\<close>
  "path_join p q = (if is_absolute q then q else PPath (is_absolute p) (parts p @ parts q))"

definition path_name :: "ppath \<Rightarrow> string" where
  "path_name p = (if parts p = [] then [] else last (parts p))"

definition path_parent :: "ppath \<Rightarrow> ppath" where
  "path_parent p = PPath (is_absolute p) (butlast (parts p))"

text \<open>Splitting a file name at its last dot, unless the dot is its first or its last character.\<close>

definition split_ext :: "string \<Rightarrow> string \<times> string" where
  "split_ext n =
     (let e = takeWhile (\<lambda>c. c \<noteq> CHR ''.'') (rev n); k = length n - length e - 1
      in if CHR ''.'' \<in> set n \<and> 0 < k \<and> e \<noteq> [] then (take k n, drop k n) else (n, []))"

definition path_stem :: "ppath \<Rightarrow> string" where
  "path_stem p = fst (split_ext (path_name p))"

definition path_suffix :: "ppath \<Rightarrow> string" where
  "path_suffix p = snd (split_ext (path_name p))"

definition with_name :: "ppath \<Rightarrow> string \<Rightarrow> ppath" where
  "with_name p n = PPath (is_absolute p) (butlast (parts p) @ [n])"

text \<open>\<open>p.relative_to(root)\<close>: \<open>None\<close> where Python raises \<open>ValueError\<close>.\<close>

definition relative_to :: "ppath \<Rightarrow> ppath \<Rightarrow> ppath option" where
  "relative_to p root =
     (if is_absolute p = is_absolute root \<and> prefix (parts root) (parts p)
      then Some (PPath False (drop (length (parts root)) (parts p))) else None)"

fun fold_dots :: "string list \<Rightarrow> string list \<Rightarrow> string list" where
  "fold_dots acc [] = rev acc"
| "fold_dots acc (c # cs) = (if c = ''..'' then fold_dots (tl acc) cs else fold_dots (c # acc) cs)"

definition resolve_in :: "string list \<Rightarrow> ppath \<Rightarrow> ppath" where   \<comment> \<open>\<open>p.resolve()\<close>\<close>
  "resolve_in cwd p = PPath True (fold_dots [] (if is_absolute p then parts p else cwd @ parts p))"

lemma fold_dots_no_dots: "''..'' \<notin> set acc \<Longrightarrow> ''..'' \<notin> set (fold_dots acc cs)"
proof (induction cs arbitrary: acc)
  case (Cons c cs)
  have "''..'' \<notin> set (tl acc)" using Cons.prems by (cases acc) auto
  with Cons show ?case by simp
qed simp

lemma fold_dots_id: "''..'' \<notin> set cs \<Longrightarrow> fold_dots acc cs = rev acc @ cs"
  by (induction cs arbitrary: acc) auto

lemma resolve_in_absolute [simp]: "is_absolute (resolve_in cwd p)"
  by (simp add: resolve_in_def)

lemma resolve_in_idem [simp]: "resolve_in cwd' (resolve_in cwd p) = resolve_in cwd p"
  by (simp add: resolve_in_def fold_dots_id fold_dots_no_dots)

lemma parts_resolve_no_dots: "''..'' \<notin> set (parts (resolve_in cwd p))"
  by (simp add: resolve_in_def fold_dots_no_dots)

section \<open>The world\<close>

text \<open>
  \<open>w_files\<close> maps the components of a resolved path to the file's text. \<open>w_dirs\<close> are the
  directories that were made; a directory also exists when a file or directory lies below
  it. \<open>w_clock\<close> counts milliseconds since the epoch. \<open>w_reply\<close> is how the outside programs
  answer: it takes the commands run so far (\<open>w_cmds\<close>, the last one first) and a command, and
  gives its output and exit code. Other processes write files meanwhile: \<open>w_others\<close> gives, for
  the commands so far, the files that were written (or, with \<open>None\<close>, removed) while the last
  one ran. \<open>w_mtimes\<close> are the times of the last change of the files, and \<open>w_module\<close> is the
  resolved \<open>__file__\<close> of the running module.
\<close>

record world =
  w_cwd :: "string list"
  w_module :: "string list"
  w_env :: "(string \<times> string) list"
  w_files :: "(string list \<times> string) list"
  w_dirs :: "string list list"
  w_mtimes :: "(string list \<times> int) list"
  w_clock :: int
  w_out :: "string list"
  w_cmds :: "string list list"
  w_reply :: "string list list \<Rightarrow> string list \<Rightarrow> string \<times> int"
  w_others :: "string list list \<Rightarrow> (string list \<times> string option) list"

definition resolve :: "world \<Rightarrow> ppath \<Rightarrow> ppath" where
  "resolve w p = resolve_in (w_cwd w) p"

definition environ :: "world \<Rightarrow> string \<Rightarrow> string option" where
  "environ w k = map_of (w_env w) k"

definition environ_or :: "world \<Rightarrow> string \<Rightarrow> string \<Rightarrow> string" where
  "environ_or w k dflt = (case environ w k of None \<Rightarrow> dflt | Some v \<Rightarrow> v)"

definition cwd_path :: "world \<Rightarrow> ppath" where
  "cwd_path w = PPath True (w_cwd w)"

text \<open>
  \<open>Path.home()\<close>, with \<open>HOME\<close> set, and \<open>p.expanduser()\<close>, where a first component that only
  starts with a tilde (a user's name) is kept.
\<close>

definition home_dir :: "world \<Rightarrow> ppath" where
  "home_dir w = path_of (environ_or w ''HOME'' ''/'')"

definition expanduser :: "world \<Rightarrow> ppath \<Rightarrow> ppath" where
  "expanduser w p =
     (case parts p of
        [] \<Rightarrow> p
      | c # cs \<Rightarrow> if \<not> is_absolute p \<and> c = ''~'' then path_join (home_dir w) (PPath False cs) else p)"

definition key_of :: "world \<Rightarrow> ppath \<Rightarrow> string list" where
  "key_of w p = parts (resolve w p)"

definition is_file :: "world \<Rightarrow> ppath \<Rightarrow> bool" where
  "is_file w p \<longleftrightarrow> map_of (w_files w) (key_of w p) \<noteq> None"

definition is_dir :: "world \<Rightarrow> ppath \<Rightarrow> bool" where
  "is_dir w p \<longleftrightarrow> key_of w p = [] \<or> (\<exists>d \<in> set (w_dirs w). prefix (key_of w p) d)
     \<or> (\<exists>f \<in> set (w_files w). strict_prefix (key_of w p) (fst f))"

definition path_exists :: "world \<Rightarrow> ppath \<Rightarrow> bool" where
  "path_exists w p \<longleftrightarrow> is_file w p \<or> is_dir w p"

definition read_file :: "world \<Rightarrow> ppath \<Rightarrow> string res" where
  "read_file w p =
     (case map_of (w_files w) (key_of w p) of
        Some c \<Rightarrow> Inr c
      | None \<Rightarrow> if is_dir w p then Inl (IsADirectoryError (path_str p))
                else Inl (FileNotFoundError (path_str p)))"

definition make_dir :: "world \<Rightarrow> ppath \<Rightarrow> world" where   \<comment> \<open>\<open>mkdir(parents=True, exist_ok=True)\<close>\<close>
  "make_dir w p = w\<lparr>w_dirs := key_of w p # w_dirs w\<rparr>"

definition put_file :: "world \<Rightarrow> ppath \<Rightarrow> string \<Rightarrow> world" where
  "put_file w p c = w\<lparr>w_files := AList.update (key_of w p) c (w_files w),
     w_mtimes := AList.update (key_of w p) (w_clock w) (w_mtimes w)\<rparr>"

definition unlink :: "world \<Rightarrow> ppath \<Rightarrow> world" where   \<comment> \<open>\<open>unlink(missing_ok=True)\<close>\<close>
  "unlink w p = w\<lparr>w_files := List.filter (\<lambda>f. fst f \<noteq> key_of w p) (w_files w)\<rparr>"

definition print_line :: "string \<Rightarrow> world \<Rightarrow> world" where
  "print_line s w = w\<lparr>w_out := w_out w @ [s]\<rparr>"

definition mtime :: "world \<Rightarrow> ppath \<Rightarrow> int" where
  "mtime w p = (case map_of (w_mtimes w) (key_of w p) of None \<Rightarrow> 0 | Some t \<Rightarrow> t)"

definition change_file :: "string list \<times> string option \<Rightarrow> world \<Rightarrow> world" where
  "change_file kc w =
     (case snd kc of
        Some c \<Rightarrow> w\<lparr>w_files := AList.update (fst kc) c (w_files w),
                     w_mtimes := AList.update (fst kc) (w_clock w) (w_mtimes w)\<rparr>
      | None \<Rightarrow> w\<lparr>w_files := List.filter (\<lambda>f. fst f \<noteq> fst kc) (w_files w)\<rparr>)"

text \<open>An event outside: it is recorded, and the other processes do what they do.\<close>

definition happen :: "string list \<Rightarrow> world \<Rightarrow> world" where
  "happen args w =
     (let w1 = w\<lparr>w_cmds := args # w_cmds w\<rparr> in fold change_file (w_others w (w_cmds w1)) w1)"

definition run_cmd :: "string list \<Rightarrow> world \<Rightarrow> (string \<times> int) \<times> world" where
  "run_cmd args w = (w_reply w (w_cmds w) args, happen args w)"

definition sleep_ms :: "int \<Rightarrow> world \<Rightarrow> world" where
  "sleep_ms n w = happen [''sleep''] (w\<lparr>w_clock := w_clock w + n\<rparr>)"

lemma frame_simps [simp]:
  "w_cwd (make_dir w p) = w_cwd w" "w_cwd (put_file w p c) = w_cwd w" "w_cwd (unlink w p) = w_cwd w"
  "w_cwd (print_line s w) = w_cwd w"
  "w_module (make_dir w p) = w_module w" "w_module (put_file w p c) = w_module w"
  "w_module (unlink w p) = w_module w" "w_module (print_line s w) = w_module w"
  "w_env (make_dir w p) = w_env w" "w_env (put_file w p c) = w_env w" "w_env (unlink w p) = w_env w"
  "w_env (print_line s w) = w_env w"
  "w_clock (make_dir w p) = w_clock w" "w_clock (put_file w p c) = w_clock w"
  "w_clock (unlink w p) = w_clock w" "w_clock (print_line s w) = w_clock w"
  "w_out (make_dir w p) = w_out w" "w_out (put_file w p c) = w_out w" "w_out (unlink w p) = w_out w"
  "w_files (make_dir w p) = w_files w" "w_files (print_line s w) = w_files w"
  "resolve (make_dir w p) q = resolve w q" "resolve (put_file w p c) q = resolve w q"
  "resolve (unlink w p) q = resolve w q" "resolve (print_line s w) q = resolve w q"
  "key_of (make_dir w p) q = key_of w q" "key_of (put_file w p c) q = key_of w q"
  "key_of (unlink w p) q = key_of w q" "key_of (print_line s w) q = key_of w q"
  by (simp_all add: make_dir_def put_file_def unlink_def print_line_def resolve_def key_of_def)

lemma change_file_frame:
  "w_cwd (change_file kc w) = w_cwd w" "w_env (change_file kc w) = w_env w"
  "w_clock (change_file kc w) = w_clock w" "w_dirs (change_file kc w) = w_dirs w"
  "w_out (change_file kc w) = w_out w" "w_module (change_file kc w) = w_module w"
  by (auto simp: change_file_def split: option.splits)

lemma fold_change_frame:
  "w_cwd (fold change_file cs w) = w_cwd w" "w_env (fold change_file cs w) = w_env w"
  "w_clock (fold change_file cs w) = w_clock w" "w_dirs (fold change_file cs w) = w_dirs w"
  "w_out (fold change_file cs w) = w_out w" "w_module (fold change_file cs w) = w_module w"
  by (induction cs arbitrary: w) (simp_all add: change_file_frame)

lemma happen_frame [simp]:
  "w_cwd (happen args w) = w_cwd w" "w_env (happen args w) = w_env w"
  "w_clock (happen args w) = w_clock w" "w_dirs (happen args w) = w_dirs w"
  "w_out (happen args w) = w_out w" "w_module (happen args w) = w_module w"
  "resolve (happen args w) p = resolve w p" "key_of (happen args w) p = key_of w p"
  by (simp_all add: happen_def Let_def fold_change_frame resolve_def key_of_def)

lemma run_cmd_frame [simp]:
  "snd (run_cmd args w) = happen args w"
  by (simp add: run_cmd_def)

lemma sleep_frame [simp]:
  "w_cwd (sleep_ms n w) = w_cwd w" "w_env (sleep_ms n w) = w_env w"
  "w_clock (sleep_ms n w) = w_clock w + n" "w_out (sleep_ms n w) = w_out w"
  "resolve (sleep_ms n w) p = resolve w p" "key_of (sleep_ms n w) p = key_of w p"
  by (simp_all add: sleep_ms_def resolve_def key_of_def)

text \<open>An empty world at \<open>/proj\<close>, in which nothing answers.\<close>

definition bare_world :: world where
  "bare_world =
     \<lparr>w_cwd = [''proj''], w_module = [], w_env = [(''HOME'', ''/home/u'')], w_files = [], w_dirs = [],
      w_mtimes = [], w_clock = 0, w_out = [], w_cmds = [], w_reply = (\<lambda>_ _. ([], 1)), w_others = (\<lambda>_. [])\<rparr>"

section \<open>Actions\<close>

text \<open>
  A function with effects takes the world and either raises or returns a value and the world
  after it.
\<close>

type_synonym 'a act = "world \<Rightarrow> ('a \<times> world) res"

definition ret :: "'a \<Rightarrow> 'a act" where
  "ret x w = Inr (x, w)"

definition bindA :: "'a act \<Rightarrow> ('a \<Rightarrow> 'b act) \<Rightarrow> 'b act" where
  "bindA m f w = (case m w of Inl e \<Rightarrow> Inl e | Inr (x, w') \<Rightarrow> f x w')"

definition raiseA :: "exn \<Rightarrow> 'a act" where
  "raiseA e w = Inl e"

definition reads :: "(world \<Rightarrow> 'a) \<Rightarrow> 'a act" where
  "reads f w = Inr (f w, w)"

definition readsE :: "(world \<Rightarrow> 'a res) \<Rightarrow> 'a act" where
  "readsE f w = (case f w of Inl e \<Rightarrow> Inl e | Inr x \<Rightarrow> Inr (x, w))"

definition effect :: "(world \<Rightarrow> world) \<Rightarrow> unit act" where
  "effect f w = Inr ((), f w)"

definition command :: "string list \<Rightarrow> (string \<times> int) act" where
  "command args w = Inr (run_cmd args w)"

text \<open>A loop over a list, and an \<open>except\<close> clause for the exceptions that \<open>p\<close> selects.\<close>

fun forA :: "'x list \<Rightarrow> ('x \<Rightarrow> unit act) \<Rightarrow> unit act" where
  "forA [] f = ret ()"
| "forA (x # xs) f = bindA (f x) (\<lambda>_. forA xs f)"

lemma bindA_simps [simp]:
  "bindA (ret x) f = f x"
  "bindA (raiseA e) f = raiseA e"
  "bindA (reads g) f1 = (\<lambda>w. f1 (g w) w)"
  "bindA (effect h) f2 = (\<lambda>w. f2 () (h w))"
  "bindA (command args) f3 = (\<lambda>w. f3 (fst (run_cmd args w)) (happen args w))"
  by (auto simp: bindA_def ret_def raiseA_def reads_def effect_def command_def fun_eq_iff run_cmd_def)

lemma bindA_assoc [simp]: "bindA (bindA m f) g = bindA m (\<lambda>x. bindA (f x) g)"
  by (auto simp: bindA_def fun_eq_iff split: sum.splits)

lemma bindA_Inr [res_simps]:
  "bindA m f w = Inr yw \<longleftrightarrow> (\<exists>x w'. m w = Inr (x, w') \<and> f x w' = Inr yw)"
  by (auto simp: bindA_def split: sum.splits)

lemma act_Inr [res_simps]:
  "ret x w = Inr yw \<longleftrightarrow> yw = (x, w)"
  "raiseA e w = Inr yw \<longleftrightarrow> False"
  "reads g w = Inr gw \<longleftrightarrow> gw = (g w, w)"
  "readsE g' w = Inr ew \<longleftrightarrow> g' w = Inr (fst ew) \<and> snd ew = w"
  "effect h w = Inr uw \<longleftrightarrow> uw = ((), h w)"
  "command args w = Inr cw \<longleftrightarrow> cw = (fst (run_cmd args w), happen args w)"
  by (auto simp: ret_def raiseA_def reads_def readsE_def effect_def command_def run_cmd_def
      split: sum.splits)

lemma bindA_cong [fundef_cong]:
  "m w = m' w \<Longrightarrow> w = v \<Longrightarrow> (\<And>x w'. m' v = Inr (x, w') \<Longrightarrow> f x w' = g x w') \<Longrightarrow>
     bindA m f w = bindA m' g v"
  by (auto simp: bindA_def split: sum.splits)

section \<open>The contract of the file store\<close>

text \<open>
  Clients read and write texts under a key; \<open>same p q\<close> says that two paths name the same
  file.
\<close>

locale file_store =
  fixes load :: "'w \<Rightarrow> 'p \<Rightarrow> 'c option"
    and store :: "'w \<Rightarrow> 'p \<Rightarrow> 'c \<Rightarrow> 'w"
    and remove :: "'w \<Rightarrow> 'p \<Rightarrow> 'w"
    and same :: "'w \<Rightarrow> 'p \<Rightarrow> 'p \<Rightarrow> bool"
  assumes load_store: "load (store w p c) q = (if same w p q then Some c else load w q)"
    and load_remove: "load (remove w p) q = (if same w p q then None else load w q)"
    and same_refl: "same w p p"
    and same_stable: "same (store w p' c) p q = same w p q" "same (remove w p') p q = same w p q"
begin

lemma load_store_same: "load (store w p c) p = Some c"
  by (simp add: load_store same_refl)

lemma load_remove_same: "load (remove w p) p = None"
  by (simp add: load_remove same_refl)

lemma store_store: "load (store (store w p c) p c') q = load (store w p c') q"
  by (simp add: load_store same_stable)

text \<open>Removing several files leaves exactly the others.\<close>

lemma load_fold_remove:
  "load (fold (\<lambda>p w. remove w p) ps w) q =
     (if \<exists>p \<in> set ps. same w p q then None else load w q)"
  by (induction ps arbitrary: w) (auto simp: load_remove same_stable)

end

definition file_text :: "world \<Rightarrow> ppath \<Rightarrow> string option" where
  "file_text w p = map_of (w_files w) (key_of w p)"

definition same_file :: "world \<Rightarrow> ppath \<Rightarrow> ppath \<Rightarrow> bool" where
  "same_file w p q \<longleftrightarrow> key_of w p = key_of w q"

interpretation fs: file_store file_text put_file unlink same_file
proof unfold_locales
  fix w :: world and p q p' :: ppath and c :: string
  show "file_text (put_file w p c) q = (if same_file w p q then Some c else file_text w q)"
    by (simp add: file_text_def same_file_def) (simp add: put_file_def update_conv' key_of_def)
  show "file_text (unlink w p) q = (if same_file w p q then None else file_text w q)"
  proof -
    have "map_of (List.filter (\<lambda>f. fst f \<noteq> k) fs) k' = (if k = k' then None else map_of fs k')"
      for k k' :: "string list" and fs :: "(string list \<times> string) list"
      by (induction fs) auto
    then show ?thesis
      by (simp add: file_text_def same_file_def) (simp add: unlink_def key_of_def)
  qed
  show "same_file w p p" by (simp add: same_file_def)
  show "same_file (put_file w p' c) p q = same_file w p q"
    and "same_file (unlink w p') p q = same_file w p q"
    by (simp_all add: same_file_def)
qed

lemma is_file_text: "is_file w p \<longleftrightarrow> file_text w p \<noteq> None"
  by (simp add: is_file_def file_text_def)

lemma read_file_text: "file_text w p = Some c \<Longrightarrow> read_file w p = Inr c"
  by (simp add: read_file_def file_text_def)

lemma read_file_Inr: "read_file w p = Inr c \<longleftrightarrow> file_text w p = Some c"
  by (auto simp: read_file_def file_text_def split: option.splits)

section \<open>Patterns of file names\<close>

text \<open>The members of a bracket expression, with its ranges.\<close>

fun in_bracket :: "string \<Rightarrow> char \<Rightarrow> bool" where
  "in_bracket [] c = False"
| "in_bracket [a] c = (c = a)"
| "in_bracket [a, b] c = (c = a \<or> c = b)"
| "in_bracket (a # b # d # s) c =
     (if b = CHR ''-'' then (of_char a :: nat) \<le> of_char c \<and> (of_char c :: nat) \<le> of_char d \<or> in_bracket s c
      else c = a \<or> in_bracket (b # d # s) c)"

text \<open>Splitting \<open>[...]\<close>: the set and the pattern behind it; a \<open>]\<close> that comes first is a member.\<close>

definition bracket_split :: "string \<Rightarrow> (bool \<times> string \<times> string) option" where
  "bracket_split p =
     (let neg = (p \<noteq> [] \<and> hd p = CHR ''!'');
          q = (if neg then tl p else p);
          first = (if q \<noteq> [] \<and> hd q = CHR '']'' then [CHR '']''] else []);
          body = takeWhile (\<lambda>c. c \<noteq> CHR '']'') (drop (length first) q);
          r = drop (length first + length body) q
      in if r = [] then None else Some (neg, first @ body, tl r))"

lemma bracket_split_shorter: "bracket_split p = Some (neg, s, r) \<Longrightarrow> length r < length p"
  by (auto simp: bracket_split_def Let_def split: if_splits)

function fnmatch :: "string \<Rightarrow> string \<Rightarrow> bool" where
  "fnmatch [] s = (s = [])"
| "fnmatch (p # ps) s =
     (if p = CHR ''*'' then
        (if fnmatch ps s then True else (case s of [] \<Rightarrow> False | _ # cs \<Rightarrow> fnmatch (p # ps) cs))
      else if p = CHR ''?'' then (case s of [] \<Rightarrow> False | _ # cs \<Rightarrow> fnmatch ps cs)
      else if p = CHR ''['' then
        (case bracket_split ps of
           None \<Rightarrow> (case s of [] \<Rightarrow> False | c # cs \<Rightarrow> if c = p then fnmatch ps cs else False)
         | Some (neg, ms, r) \<Rightarrow>
             (case s of [] \<Rightarrow> False
              | c # cs \<Rightarrow> if in_bracket ms c \<noteq> neg then fnmatch r cs else False))
      else (case s of [] \<Rightarrow> False | c # cs \<Rightarrow> if c = p then fnmatch ps cs else False))"
  by pat_completeness auto
termination
  by (relation "measure (\<lambda>(p, s). length p + length s)") (auto dest: bracket_split_shorter)

declare fnmatch.simps [simp del]

text \<open>A relative glob pattern against the components below its root; \<open>**\<close> is any number of them.\<close>

fun glob_parts :: "string list \<Rightarrow> string list \<Rightarrow> bool" where
  "glob_parts [] ns = (ns = [])"
| "glob_parts (p # ps) [] = (p = ''**'' \<and> glob_parts ps [])"
| "glob_parts (p # ps) (n # ns) =
     (if p = ''**'' then glob_parts ps (n # ns) \<or> glob_parts (p # ps) ns
      else fnmatch p n \<and> glob_parts ps ns)"

fun path_le :: "string list \<Rightarrow> string list \<Rightarrow> bool" where
  "path_le [] t = True"
| "path_le (c # cs) [] = False"
| "path_le (c # cs) (d # ds) = (if c = d then path_le cs ds else string_le c d)"

fun insert_path :: "string list \<Rightarrow> string list list \<Rightarrow> string list list" where
  "insert_path x [] = [x]"
| "insert_path x (y # ys) = (if path_le x y then x # y # ys else y # insert_path x ys)"

text \<open>Every file and every directory, the directories that only contain something included.\<close>

definition all_nodes :: "world \<Rightarrow> string list list" where
  "all_nodes w = remdups (concat (List.map prefixes (List.map fst (w_files w) @ w_dirs w)))"

text \<open>\<open>sorted(root.glob(pattern))\<close>.\<close>

definition glob_sorted :: "world \<Rightarrow> ppath \<Rightarrow> string \<Rightarrow> ppath list" where
  "glob_sorted w root pat =
     (let base = key_of w root; pats = parts (path_of pat);
          hits = List.filter (\<lambda>n. prefix base n \<and> n \<noteq> base
                    \<and> glob_parts pats (drop (length base) n)) (all_nodes w)
      in List.map (\<lambda>n. PPath (is_absolute root) (parts root @ drop (length base) n))
           (foldr insert_path hits []))"

lemma set_insert_path [simp]: "set (insert_path x ys) = insert x (set ys)"
  by (induction ys) auto

lemma length_insert_path [simp]: "length (insert_path x ys) = Suc (length ys)"
  by (induction ys) auto

lemma set_foldr_insert_path [simp]: "set (foldr insert_path xs []) = set xs"
  by (induction xs) auto

lemma glob_sorted_below:
  "p \<in> set (glob_sorted w root pat) \<Longrightarrow>
     is_absolute p = is_absolute root \<and> (\<exists>ns. ns \<noteq> [] \<and> parts p = parts root @ ns
       \<and> glob_parts (parts (path_of pat)) ns)"
  by (auto simp: glob_sorted_def Let_def prefix_def)

end
