(* ===== verification/Py_Md5.thy ===== *)
theory Py_Md5
  imports Py_Value "HOL-Library.Word"
begin

unbundle bit_operations_syntax

text \<open>
  \<open>hashlib.md5\<close>: the digest of a byte string, on 32-bit words, and its hexadecimal text.
\<close>

type_synonym w32 = "32 word"

definition md5_sines :: "nat list" where
  "md5_sines = [
   3614090360, 3905402710, 606105819, 3250441966, 4118548399, 1200080426,
   2821735955, 4249261313, 1770035416, 2336552879, 4294925233, 2304563134,
   1804603682, 4254626195, 2792965006, 1236535329, 4129170786, 3225465664,
   643717713, 3921069994, 3593408605, 38016083, 3634488961, 3889429448,
   568446438, 3275163606, 4107603335, 1163531501, 2850285829, 4243563512,
   1735328473, 2368359562, 4294588738, 2272392833, 1839030562, 4259657740,
   2763975236, 1272893353, 4139469664, 3200236656, 681279174, 3936430074,
   3572445317, 76029189, 3654602809, 3873151461, 530742520, 3299628645,
   4096336452, 1126891415, 2878612391, 4237533241, 1700485571, 2399980690,
   4293915773, 2240044497, 1873313359, 4264355552, 2734768916, 1309151649,
   4149444226, 3174756917, 718787259, 3951481745]"

definition md5_shifts :: "nat list" where
  "md5_shifts =
     concat (replicate 4 [7, 12, 17, 22]) @ concat (replicate 4 [5, 9, 14, 20])
     @ concat (replicate 4 [4, 11, 16, 23]) @ concat (replicate 4 [6, 10, 15, 21])"

definition bytes_le :: "nat \<Rightarrow> nat \<Rightarrow> nat list" where   \<comment> \<open>\<open>k\<close> bytes, the low one first\<close>
  "bytes_le k n = List.map (\<lambda>i. n div 256 ^ i mod 256) [0 ..< k]"

definition md5_pad :: "nat list \<Rightarrow> nat list" where
  "md5_pad bs =
     (let n = length bs in
      bs @ [128] @ replicate ((119 - n mod 64) mod 64) 0 @ bytes_le 8 (8 * n mod 2 ^ 64))"

definition word_le :: "nat list \<Rightarrow> nat \<Rightarrow> w32" where   \<comment> \<open>the word at byte offset \<open>i\<close>\<close>
  "word_le bs i =
     of_nat (bs ! i + 256 * bs ! (i + 1) + 65536 * bs ! (i + 2) + 16777216 * bs ! (i + 3))"

definition rotl :: "nat \<Rightarrow> w32 \<Rightarrow> w32" where
  "rotl n x = push_bit n x OR drop_bit (32 - n) x"

fun md5_mix :: "nat \<Rightarrow> w32 \<Rightarrow> w32 \<Rightarrow> w32 \<Rightarrow> w32 \<times> nat" where
  "md5_mix i b c d =
     (if i < 16 then ((b AND c) OR (NOT b AND d), i)
      else if i < 32 then ((d AND b) OR (NOT d AND c), (5 * i + 1) mod 16)
      else if i < 48 then (b XOR c XOR d, (3 * i + 5) mod 16)
      else (c XOR (b OR NOT d), 7 * i mod 16))"

fun md5_round :: "w32 list \<Rightarrow> nat \<Rightarrow> w32 \<times> w32 \<times> w32 \<times> w32 \<Rightarrow> w32 \<times> w32 \<times> w32 \<times> w32" where
  "md5_round m i (a, b, c, d) =
     (let (f, g) = md5_mix i b c d
      in (d, b + rotl (md5_shifts ! i) (a + f + of_nat (md5_sines ! i) + m ! g), b, c))"

fun md5_block :: "nat list \<Rightarrow> w32 \<times> w32 \<times> w32 \<times> w32 \<Rightarrow> w32 \<times> w32 \<times> w32 \<times> w32" where
  "md5_block blk (a, b, c, d) =
     (let m = List.map (\<lambda>i. word_le blk (4 * i)) [0 ..< 16];
          (a', b', c', d') = fold (md5_round m) [0 ..< 64] (a, b, c, d)
      in (a + a', b + b', c + c', d + d'))"

function md5_blocks :: "nat list \<Rightarrow> w32 \<times> w32 \<times> w32 \<times> w32 \<Rightarrow> w32 \<times> w32 \<times> w32 \<times> w32" where
  "md5_blocks bs st = (if bs = [] then st else md5_blocks (drop 64 bs) (md5_block (take 64 bs) st))"
  by pat_completeness auto
termination
  by (relation "measure (\<lambda>(bs, st). length bs)") auto

declare md5_blocks.simps [simp del]

definition md5_digest :: "string \<Rightarrow> nat list" where
  "md5_digest s =
     (let (a, b, c, d) = md5_blocks (md5_pad (List.map of_char s))
                           (1732584193, 4023233417, 2562383102, 271733878)
      in concat (List.map (\<lambda>x. bytes_le 4 (unat x)) [a, b, c, d]))"

definition hex_byte :: "nat \<Rightarrow> string" where
  "hex_byte n = [hex_digit (n div 16), hex_digit (n mod 16)]"

definition md5_hex :: "string \<Rightarrow> string" where   \<comment> \<open>\<open>hashlib.md5(...).hexdigest()\<close>\<close>
  "md5_hex s = concat (List.map hex_byte (md5_digest s))"

lemma length_md5_digest: "length (md5_digest s) = 16"
  by (simp add: md5_digest_def bytes_le_def split: prod.splits)

lemma md5_digest_byte: "b \<in> set (md5_digest s) \<Longrightarrow> b < 256"
  by (auto simp: md5_digest_def bytes_le_def split: prod.splits)

definition hex_class :: "char set" where
  "hex_class = set ''0123456789abcdef''"

lemma hex_digit_class: "n < 16 \<Longrightarrow> hex_digit n \<in> hex_class"
proof -
  assume "n < 16"
  then have "n \<in> set [0 ..< 16]" by simp
  moreover have "list_all (\<lambda>n. hex_digit n \<in> hex_class) [0 ..< 16]" unfolding hex_class_def by code_simp
  ultimately show ?thesis by (simp only: list_all_iff)
qed

lemma length_md5_hex [simp]: "length (md5_hex s) = 32"
proof -
  have "length (concat (List.map hex_byte bs)) = 2 * length bs" for bs
    by (induction bs) (simp_all add: hex_byte_def)
  then show ?thesis by (simp add: md5_hex_def length_md5_digest)
qed

lemma md5_hex_class: "c \<in> set (md5_hex s) \<Longrightarrow> c \<in> hex_class"
proof -
  assume "c \<in> set (md5_hex s)"
  then obtain b where "b \<in> set (md5_digest s)" and c: "c \<in> set (hex_byte b)"
    by (auto simp: md5_hex_def)
  then have "b < 256" by (simp add: md5_digest_byte)
  then have "hex_digit (b div 16) \<in> hex_class" "hex_digit (b mod 16) \<in> hex_class"
    by (simp_all add: hex_digit_class)
  with c show ?thesis by (auto simp: hex_byte_def)
qed

end
