(* ===== verification/Text_Utils.thy ===== *)
theory Text_Utils
  imports World Py_Md5
begin

text \<open>
  \<open>core/utils.py\<close> and \<open>core/common.py\<close> of the story automator: scalars, lines, the tmux
  input box, JSON inside free text, and atomic writing. Where the two modules define the same
  function differently, the one of \<open>common.py\<close> has the suffix \<open>_common\<close>.
\<close>

section \<open>Lines and boxes\<close>

definition trim_lines :: "string \<Rightarrow> string list" where
  "trim_lines text = List.map (rstrip_chars [cr]) (splitlines text)"

text \<open>The box-drawing characters, as UTF-8.\<close>

definition glyph_top :: "string list" where
  "glyph_top = [[CHR 0xE2, CHR 0x95, CHR 0xAD], [CHR 0xE2, CHR 0x94, CHR 0x8C]]"

definition glyph_bottom :: "string list" where
  "glyph_bottom = [[CHR 0xE2, CHR 0x95, CHR 0xB0], [CHR 0xE2, CHR 0x94, CHR 0x94]]"

definition glyph_side :: "string list" where
  "glyph_side = [[CHR 0xE2, CHR 0x94, CHR 0x82], [CHR 0x7C]]"

text \<open>\<open>re.match(r"^\s*[...]", line)\<close>.\<close>

definition opens_with :: "string list \<Rightarrow> string \<Rightarrow> bool" where
  "opens_with glyphs line \<longleftrightarrow>
     re_match (rseq [RBol False, rstar rspace, ralt (List.map rlit glyphs)]) line \<noteq> None"

fun input_box_loop :: "bool \<Rightarrow> string list \<Rightarrow> string list" where
  "input_box_loop in_box [] = []"
| "input_box_loop in_box (line # rest) =
     (if opens_with glyph_top line then input_box_loop True rest
      else if opens_with glyph_bottom line then input_box_loop False rest
      else if in_box \<and> opens_with glyph_side line then input_box_loop in_box rest
      else line # input_box_loop in_box rest)"

definition filter_input_box :: "string \<Rightarrow> string" where
  "filter_input_box text = join [nl] (input_box_loop False (splitlines text))"

section \<open>Scalars\<close>

definition is_help_flag :: "string \<Rightarrow> bool" where
  "is_help_flag v \<longleftrightarrow> v = ''--help'' \<or> v = ''-h''"

definition quoted_by :: "char \<Rightarrow> string \<Rightarrow> bool" where
  "quoted_by q s \<longleftrightarrow> hd s = q \<and> last s = q"

definition unquote_scalar :: "string \<Rightarrow> string" where
  "unquote_scalar value =
     (let v = strip value in
      if 2 \<le> length v \<and> (quoted_by dquote v \<or> quoted_by squote v)
      then butlast (tl v) else v)"

definition parse_string_list_literal :: "string \<Rightarrow> string list option" where
  "parse_string_list_literal raw =
     (let t = strip raw in
      if t = [] then None
      else (case json_loads t of
              Inr (VList xs) \<Rightarrow>
                if list_all is_str xs then Some (List.map py_str xs) else None
            | _ \<Rightarrow> None))"

definition unquote_scalar_common :: "string \<Rightarrow> string" where
  "unquote_scalar_common value =
     (let raw = strip value in
      if length raw < 2 then raw
      else if quoted_by dquote raw \<or> quoted_by squote raw then
        (if hd raw = dquote
         then (case json_loads raw of Inr v \<Rightarrow> py_str v | Inl _ \<Rightarrow> butlast (tl raw))
         else butlast (tl raw))
      else raw)"

definition default_string :: "string option \<Rightarrow> string \<Rightarrow> string" where
  "default_string value dflt = (case value of None \<Rightarrow> dflt | Some v \<Rightarrow> if v = [] then dflt else v)"

fun truthy :: "pyval \<Rightarrow> bool" where
  "truthy (VBool b) = b"
| "truthy (VInt i) = (i \<noteq> 0)"
| "truthy (VFloat s) = (\<not> float_is_zero s)"
| "truthy (VStr s) = (lower (strip s) \<in> {''1'', ''true'', ''yes'', ''on''})"
| "truthy _ = False"

definition contains_any_prefix :: "string \<Rightarrow> string list \<Rightarrow> bool" where
  "contains_any_prefix value ps = list_ex (startswith value) ps"

definition clamp_int :: "int \<Rightarrow> int \<Rightarrow> int \<Rightarrow> int" where
  "clamp_int value minimum maximum = max minimum (min maximum value)"

definition safe_int :: "pyval \<Rightarrow> int \<Rightarrow> int" where
  "safe_int value dflt = (case py_int value of Inr i \<Rightarrow> i | Inl _ \<Rightarrow> dflt)"

definition count_matches :: "string \<Rightarrow> rx \<Rightarrow> nat" where
  "count_matches text r = length (re_finditer r text)"

section \<open>JSON inside free text\<close>

definition rx_braces :: rx where   \<comment> \<open>\<open>\{.*\}\<close>\<close>
  "rx_braces = rseq [rlit ''{'', rstar rdot, rlit ''}'']"

fun first_json :: "string list \<Rightarrow> string option" where
  "first_json [] = None"
| "first_json (m # ms) = (case json_loads m of Inr _ \<Rightarrow> Some m | Inl _ \<Rightarrow> first_json ms)"

fun extract_json_lines :: "string list \<Rightarrow> string" where
  "extract_json_lines [] = []"
| "extract_json_lines (line # rest) =
     (case first_json (List.map rm_text (re_finditer rx_braces line)) of
        Some m \<Rightarrow> m
      | None \<Rightarrow> extract_json_lines rest)"

definition extract_json_line :: "string \<Rightarrow> string" where
  "extract_json_line text = extract_json_lines (trim_lines text)"

section \<open>Project names and files\<close>

definition get_project_root :: "world \<Rightarrow> string" where
  "get_project_root w = environ_or w ''PROJECT_ROOT'' (path_str (cwd_path w))"

text \<open>\<open>project_root or get_project_root()\<close>: an empty string counts as missing.\<close>

definition root_or_default :: "world \<Rightarrow> string option \<Rightarrow> string" where
  "root_or_default w project_root = default_string project_root (get_project_root w)"

definition root_of :: "world \<Rightarrow> string option \<Rightarrow> ppath" where   \<comment> \<open>\<open>Path(project_root or get_project_root()).resolve()\<close>\<close>
  "root_of w project_root = resolve w (path_of (root_or_default w project_root))"

definition slug_char :: "char \<Rightarrow> bool" where   \<comment> \<open>\<open>[a-z0-9]\<close>\<close>
  "slug_char c \<longleftrightarrow> is_lower c \<or> is_digit c"

definition get_project_slug :: "world \<Rightarrow> string option \<Rightarrow> string" where
  "get_project_slug w project_root =
     (let value = take 8 (List.filter slug_char
                    (lower (path_name (path_of (root_or_default w project_root)))))
      in if value = [] then ''project'' else value)"

definition md5_hex8 :: "string \<Rightarrow> string" where
  "md5_hex8 s = take 8 (md5_hex s)"

definition get_project_hash :: "world \<Rightarrow> string option \<Rightarrow> string" where
  "get_project_hash w project_root =
     md5_hex8 (path_str (resolve w (path_of (root_or_default w project_root))))"

definition write_atomic :: "world \<Rightarrow> ppath \<Rightarrow> string \<Rightarrow> world" where
  "write_atomic w path data = put_file (make_dir w (path_parent path)) path data"

section \<open>Time and printed values\<close>

text \<open>The civil date of a day counted from 1970-01-01, in the Gregorian calendar.\<close>

definition civil_date :: "int \<Rightarrow> int \<times> int \<times> int" where
  "civil_date days =
     (let z = days + 719468; era = z div 146097; doe = z mod 146097;
          yoe = (doe - doe div 1460 + doe div 36524 - doe div 146096) div 365;
          doy = doe - (365 * yoe + yoe div 4 - yoe div 100);
          mp = (5 * doy + 2) div 153;
          d = doy - (153 * mp + 2) div 5 + 1;
          m = (if mp < 10 then mp + 3 else mp - 9)
      in (yoe + era * 400 + (if m \<le> 2 then 1 else 0), m, d))"

definition pad2 :: "int \<Rightarrow> string" where
  "pad2 n = (if n < 10 then CHR ''0'' # show_int n else show_int n)"

definition now_utc_z :: "world \<Rightarrow> string" where   \<comment> \<open>\<open>%Y-%m-%dT%H:%M:%SZ\<close>\<close>
  "now_utc_z w =
     (let secs = w_clock w div 1000; (y, m, d) = civil_date (secs div 86400); t = secs mod 86400
      in show_int y @ ''-'' @ pad2 m @ ''-'' @ pad2 d @ ''T'' @ pad2 (t div 3600) @ '':''
           @ pad2 (t div 60 mod 60) @ '':'' @ pad2 (t mod 60) @ ''Z'')"

definition print_json :: "pyval \<Rightarrow> world \<Rightarrow> world" where
  "print_json v w = print_line (json_dumps style_compact v) w"

definition print_json_common :: "pyval \<Rightarrow> world \<Rightarrow> world" where
  "print_json_common v w = print_line (json_dumps style_compact_utf8 v) w"

definition str_or_empty :: "pyval \<Rightarrow> string" where   \<comment> \<open>\<open>str(v or "")\<close>\<close>
  "str_or_empty v = py_str (or_else v (VStr []))"

text \<open>\<open>str(d.get(k) or "").strip()\<close>.\<close>

definition str_field :: "string \<Rightarrow> pyval dict \<Rightarrow> string" where
  "str_field k d = strip (str_or_empty (get_val k d))"

section \<open>Properties\<close>

lemma str_or_empty_VStr [simp]: "str_or_empty (VStr s) = s"
  by (simp add: str_or_empty_def or_else_def)

lemma length_md5_hex8 [simp]: "length (md5_hex8 s) = 8"
  by (simp add: md5_hex8_def)

lemma md5_hex8_class: "c \<in> set (md5_hex8 s) \<Longrightarrow> c \<in> hex_class"
  by (auto simp: md5_hex8_def dest!: in_set_takeD md5_hex_class)

lemma project_hash_class: "c \<in> set (get_project_hash w r) \<Longrightarrow> c \<in> hex_class"
  unfolding get_project_hash_def by (rule md5_hex8_class)

lemma length_project_hash [simp]: "length (get_project_hash w r) = 8"
  by (simp add: get_project_hash_def)

lemma project_slug_class:
  "c \<in> set (get_project_slug w r) \<Longrightarrow> slug_char c"
  by (auto simp: get_project_slug_def Let_def slug_char_def char_class_defs
      split: if_splits dest!: in_set_takeD)

lemma project_slug_length: "0 < length (get_project_slug w r) \<and> length (get_project_slug w r) \<le> 8"
  by (auto simp: get_project_slug_def Let_def)

lemma file_text_write_atomic:
  "file_text (write_atomic w p c) q = (if same_file w p q then Some c else file_text w q)"
proof -
  have "file_text (make_dir w d) q = file_text w q" and "same_file (make_dir w d) p q = same_file w p q"
    for d by (simp_all add: file_text_def same_file_def)
  then show ?thesis by (simp add: write_atomic_def fs.load_store)
qed

lemma file_text_written:
  "file_text (write_atomic (make_dir w d) p c) q = (if same_file w p q then Some c else file_text w q)"
proof -
  have "same_file (make_dir w d) p q = same_file w p q" "file_text (make_dir w d) q = file_text w q"
    by (simp_all add: file_text_def same_file_def)
  then show ?thesis by (simp add: file_text_write_atomic)
qed

lemma write_atomic_frame [simp]:
  "w_clock (write_atomic w p c) = w_clock w" "w_env (write_atomic w p c) = w_env w"
  "w_cwd (write_atomic w p c) = w_cwd w" "w_out (write_atomic w p c) = w_out w"
  "resolve (write_atomic w p c) q = resolve w q" "key_of (write_atomic w p c) q = key_of w q"
  by (simp_all add: write_atomic_def)

lemma first_json_Some: "first_json ms = Some m \<Longrightarrow> m \<in> set ms \<and> (\<exists>v. json_loads m = Inr v)"
  by (induction ms) (auto split: sum.splits)

text \<open>Text that the filter lets through holds no line of a box's frame.\<close>

lemma input_box_loop_no_frame:
  "line \<in> set (input_box_loop b ls) \<Longrightarrow>
     line \<in> set ls \<and> \<not> opens_with glyph_top line \<and> \<not> opens_with glyph_bottom line"
  by (induction ls arbitrary: b) (auto split: if_splits)

lemma clamp_int_range: "minimum \<le> maximum \<Longrightarrow>
  minimum \<le> clamp_int v minimum maximum \<and> clamp_int v minimum maximum \<le> maximum"
  by (simp add: clamp_int_def)

end
