(* ===== verification/Frontmatter.thy ===== *)
theory Frontmatter
  imports Text_Utils
begin

text \<open>
  \<open>core/frontmatter.py\<close>: the header of a state or story document between two \<open>---\<close> marks,
  its fields, and the JSON block of an agents file. A field is a string or a list of strings.
\<close>

section \<open>Cutting the header out\<close>

definition dashes :: string where
  "dashes = ''---''"

definition lstrip_nl :: "string \<Rightarrow> string" where
  "lstrip_nl s = lstrip_chars [nl] s"

definition extract_frontmatter :: "string \<Rightarrow> string" where
  "extract_frontmatter text =
     (if \<not> startswith text dashes then []
      else (case split_max 2 dashes text of
              [_, front, _] \<Rightarrow> lstrip_nl front
            | _ \<Rightarrow> []))"

definition split_frontmatter :: "string \<Rightarrow> string \<times> string" where
  "split_frontmatter text =
     (if \<not> startswith text dashes then ([], text)
      else (case split_max 2 dashes text of
              [_, front, body] \<Rightarrow> (lstrip_nl front, lstrip_nl body)
            | _ \<Rightarrow> ([], text)))"

section \<open>Fields\<close>

definition rx_field :: rx where   \<comment> \<open>\<open>^\S[^:]*:\<close>\<close>
  "rx_field = rseq [RBol False, rnspace, rstar (rnoneof '':''), rlit '':'']"

definition is_field_line :: "string \<Rightarrow> bool" where
  "is_field_line line \<longleftrightarrow> re_match rx_field line \<noteq> None"

text \<open>\<open>line.split(":", 1)\<close> of a line that has a colon.\<close>

definition split_colon :: "string \<Rightarrow> string \<times> string" where
  "split_colon line = (case split_once '':'' line of None \<Rightarrow> (line, []) | Some kr \<Rightarrow> kr)"

definition append_item :: "string \<Rightarrow> pyval \<Rightarrow> pyval dict \<Rightarrow> pyval dict" where
  "append_item k v flds =
     (case dict_get k flds of
        Some (VList xs) \<Rightarrow> dict_set k (VList (xs @ [v])) flds
      | None \<Rightarrow> dict_set k (VList [v]) flds
      | Some _ \<Rightarrow> flds)"

fun frontmatter_line :: "string \<Rightarrow> pyval dict \<times> string \<Rightarrow> pyval dict \<times> string" where
  "frontmatter_line line (flds, current_key) =
     (if startswith (strip line) ''#'' then (flds, current_key)
      else if is_field_line line then
        (let (k, r) = split_colon line; key = strip k; raw = strip r
         in if raw = [] then (dict_set key (VList []) flds, key)
            else (case parse_string_list_literal raw of
                    Some xs \<Rightarrow> (dict_set key (VList (List.map VStr xs)) flds, [])
                  | None \<Rightarrow> (dict_set key (VStr (unquote_scalar raw)) flds, [])))
      else if current_key \<noteq> [] \<and> startswith (strip line) ''-'' then
        (append_item current_key (VStr (unquote_scalar (strip (tl (strip line))))) flds, current_key)
      else (flds, current_key))"

definition parse_simple_frontmatter :: "string \<Rightarrow> pyval dict" where
  "parse_simple_frontmatter text =
     (let front = extract_frontmatter text in
      if front = [] then [] else fst (fold frontmatter_line (trim_lines front) ([], [])))"

definition field_text :: "pyval \<Rightarrow> string" where
  "field_text v = (if is_list v then [] else py_str v)"

definition find_frontmatter_value :: "world \<Rightarrow> ppath \<Rightarrow> string \<Rightarrow> string res" where
  "find_frontmatter_value w path key =
     ebind (read_file w path) (\<lambda>text.
       Inr (field_text (get_or (VStr []) key (parse_simple_frontmatter text))))"

fun find_value_case :: "string \<Rightarrow> string list \<Rightarrow> string" where
  "find_value_case key [] = []"
| "find_value_case key (line # rest) =
     (case split_once '':'' line of
        None \<Rightarrow> find_value_case key rest
      | Some (left, raw) \<Rightarrow>
          if lower (strip left) = lower key then unquote_scalar (strip raw)
          else find_value_case key rest)"

definition find_frontmatter_value_case :: "world \<Rightarrow> ppath \<Rightarrow> string \<Rightarrow> string res" where
  "find_frontmatter_value_case w path key =
     ebind (read_file w path) (\<lambda>text.
       Inr (find_value_case key (trim_lines (extract_frontmatter text))))"

fun last_action_in :: "string list \<Rightarrow> string" where
  "last_action_in (a # b # c # rest) =
     (if startswith a ''## Action Log'' then strip (lstrip_chars ''* '' (strip c))
      else last_action_in (b # c # rest))"
| "last_action_in _ = []"

definition extract_last_action :: "world \<Rightarrow> ppath \<Rightarrow> string res" where
  "extract_last_action w path =
     ebind (read_file w path) (\<lambda>text. Inr (last_action_in (trim_lines text)))"

text \<open>
  The story range of one block: \<open>Inl\<close> is the range of a literal, which returns at once, and
  \<open>Inr\<close> the items of a block list.
\<close>

fun story_range_lines :: "bool \<Rightarrow> string list \<Rightarrow> string list \<Rightarrow> string list + string list" where
  "story_range_lines in_range acc [] = Inr acc"
| "story_range_lines in_range acc (line # rest) =
     (let stripped = strip line in
      if startswith stripped ''storyRange:'' then
        (case parse_string_list_literal (strip (snd (split_colon stripped))) of
           Some xs \<Rightarrow> Inl xs
         | None \<Rightarrow> story_range_lines True acc rest)
      else if in_range \<and> startswith stripped ''-'' then
        story_range_lines in_range (acc @ [unquote_scalar (strip (tl stripped))]) rest
      else if in_range \<and> is_field_line line then Inr acc
      else story_range_lines in_range acc rest)"

fun story_range_blocks :: "string list \<Rightarrow> string list" where
  "story_range_blocks [] = []"
| "story_range_blocks (block # rest) =
     (if strip block = [] then story_range_blocks rest
      else (case story_range_lines False [] (trim_lines block) of
              Inl xs \<Rightarrow> xs
            | Inr acc \<Rightarrow> if acc \<noteq> [] then acc else story_range_blocks rest))"

definition read_story_range_from_state :: "world \<Rightarrow> ppath \<Rightarrow> string list res" where
  "read_story_range_from_state w path =
     ebind (read_file w path) (\<lambda>text. Inr (story_range_blocks [extract_frontmatter text, text]))"

section \<open>Updating fields in place\<close>

text \<open>
  One line against every update: the last key that the line starts with wins, and every such
  key is reported.
\<close>

fun update_line :: "(string \<times> string) list \<Rightarrow> string \<Rightarrow> string \<times> string list" where
  "update_line [] line = (line, [])"
| "update_line ((key, value) # rest) line =
     (let (new, keys) = update_line rest line in
      if startswith line (key @ '':'')
      then (if keys = [] then key @ '': '' @ value else new, key # keys)
      else (new, keys))"

definition update_simple_frontmatter ::
    "world \<Rightarrow> ppath \<Rightarrow> (string \<times> string) list \<Rightarrow> (string list \<times> world) res" where
  "update_simple_frontmatter w path updates =
     ebind (read_file w path) (\<lambda>text.
       (let rows = List.map (update_line updates) (trim_lines text);
            updated = concat (List.map snd rows)
        in Inr (updated,
             if updated \<noteq> [] then write_atomic w path (join [nl] (List.map fst rows) @ [nl]) else w)))"

section \<open>The JSON block of a document\<close>

definition fence :: string where
  "fence = [backtick, backtick, backtick]"

definition rx_json_block :: rx where   \<comment> \<open>the fenced block, \<open>re.DOTALL\<close>\<close>
  "rx_json_block =
     rseq [rlit (fence @ ''json''), rstar rspace,
           RGrp 1 (rseq [rlit ''{'', RStar False rany, rlit ''}'']), rstar rspace, rlit fence]"

definition extract_json_block :: "string \<Rightarrow> string" where
  "extract_json_block text =
     (case re_search rx_json_block text of
        Some m \<Rightarrow> rm_grp m 1
      | None \<Rightarrow>
          (let stripped = strip text in
           if startswith stripped ''{'' \<and> endswith stripped ''}'' then stripped else []))"

definition dump_json_pretty :: "pyval \<Rightarrow> string" where
  "dump_json_pretty payload = json_dumps style_indent2 payload @ [nl]"

section \<open>Lemmas\<close>

lemma extract_split: "extract_frontmatter text = fst (split_frontmatter text)"
  by (auto simp: extract_frontmatter_def split_frontmatter_def split: list.splits)

lemma lstrip_chars_suffix: "\<exists>w. s = w @ lstrip_chars cs s \<and> set w \<subseteq> set cs"
  by (rule exI [of _ "takeWhile (\<lambda>c. c \<in> set cs) s"])
    (auto simp: lstrip_chars_def dest: set_takeWhileD)

text \<open>Every field value is a string or a list of strings.\<close>

definition field_ok :: "pyval \<Rightarrow> bool" where
  "field_ok v \<longleftrightarrow> (\<exists>s. v = VStr s) \<or> (\<exists>xs. v = VList xs \<and> list_all is_str xs)"

definition fields_ok :: "pyval dict \<Rightarrow> bool" where
  "fields_ok d \<longleftrightarrow> dict_ok d \<and> (\<forall>k v. dict_get k d = Some v \<longrightarrow> field_ok v)"

lemma field_ok_simps [simp]:
  "field_ok (VStr s)"
  "field_ok (VList (List.map VStr xs))"
  "field_ok (VList [])"
  by (auto simp: field_ok_def list_all_iff)

lemma fields_ok_set: "fields_ok d \<Longrightarrow> field_ok v \<Longrightarrow> fields_ok (dict_set k v d)"
  by (auto simp: fields_ok_def dict.invar_put dict.get_put split: if_splits)

lemma fields_ok_append: "fields_ok d \<Longrightarrow> is_str v \<Longrightarrow> fields_ok (append_item k v d)"
  unfolding append_item_def
  by (auto simp: fields_ok_def field_ok_def dict.invar_put dict.get_put list_all_iff
      split: option.splits pyval.splits if_splits)

lemma frontmatter_line_ok:
  "fields_ok (fst st) \<Longrightarrow> fields_ok (fst (frontmatter_line line st))"
  by (cases st) (auto simp: Let_def fields_ok_set fields_ok_append split: prod.splits option.splits)

lemma frontmatter_lines_ok:
  "fields_ok (fst st) \<Longrightarrow> fields_ok (fst (fold frontmatter_line ls st))"
  by (induction ls arbitrary: st) (simp_all add: frontmatter_line_ok)

lemma fields_ok_Nil [simp]: "fields_ok []"
  by (simp add: fields_ok_def)

lemma parse_frontmatter_ok: "fields_ok (parse_simple_frontmatter text)"
  unfolding parse_simple_frontmatter_def Let_def
  using frontmatter_lines_ok [of "([], [])"] by simp

text \<open>What \<open>update_line\<close> reports and writes.\<close>

lemma update_line_keys:
  "snd (update_line ups line) = List.map fst (List.filter (\<lambda>(k, v). startswith line (k @ '':'')) ups)"
  by (induction ups line rule: update_line.induct) (auto simp: Let_def split: prod.splits)

lemma update_line_unchanged:
  "snd (update_line ups line) = [] \<Longrightarrow> fst (update_line ups line) = line"
  by (induction ups line rule: update_line.induct) (auto simp: Let_def split: prod.splits if_splits)

lemma update_line_written:
  "snd (update_line ups line) \<noteq> [] \<Longrightarrow>
     \<exists>k v. (k, v) \<in> set ups \<and> startswith line (k @ '':'') \<and> fst (update_line ups line) = k @ '': '' @ v"
proof (induction ups line rule: update_line.induct)
  case (1 line)
  then show ?case by simp
next
  case (2 k val rest line)
  show ?case
  proof (cases "snd (update_line rest line) = []")
    case True
    with 2 show ?thesis by (auto simp: Let_def split: prod.splits if_splits)
  next
    case False
    then have "fst (update_line ((k, val) # rest) line) = fst (update_line rest line)"
      by (auto simp: Let_def split: prod.splits)
    with "2.IH" [OF False] show ?thesis by auto
  qed
qed

end
