(* ===== verification/Runtime_Layout.thy ===== *)
theory Runtime_Layout
  imports Frontmatter
begin

text \<open>
  \<open>core/runtime_layout.py\<close>: where the skills are installed, which runtime provider (Claude or
  Codex) the project uses, where the active marker lies, and the resolution of portable
  paths. \<open>None\<close> as a project root stands for Python's \<open>None\<close>.
\<close>

section \<open>Roots\<close>

definition story_skill_name :: string where
  "story_skill_name = ''bmad-story-automator''"

definition active_marker_name :: string where
  "active_marker_name = ''.story-automator-active''"

text \<open>\<open>p / "a" / "b"\<close>.\<close>

definition below :: "ppath \<Rightarrow> string list \<Rightarrow> ppath" where
  "below p names = foldl (\<lambda>q n. path_join q (path_of n)) p names"

definition project_root_path :: "world \<Rightarrow> string option \<Rightarrow> ppath" where   \<comment> \<open>\<open>_project_root\<close>\<close>
  "project_root_path w project_root =
     resolve w (expanduser w (path_of
       (default_string project_root
          (default_string (environ w ''PROJECT_ROOT'') (path_str (cwd_path w))))))"

definition configured_skills_root :: "world \<Rightarrow> ppath option" where
  "configured_skills_root w =
     (let raw = strip (environ_or w ''BMAD_SKILLS_ROOT'' []) in
      if raw = [] then None
      else (let path = expanduser w (path_of raw) in
            if path_name path = story_skill_name then Some (resolve w (path_parent path))
            else Some (resolve w path)))"

text \<open>\<open>Path(__file__).resolve().parents\<close>, the nearest first.\<close>

fun parents_of :: "string list \<Rightarrow> string list list" where
  "parents_of [] = []"
| "parents_of (c # cs) = List.map ((#) c) (parents_of cs) @ [[]]"

definition module_parents :: "world \<Rightarrow> ppath list" where
  "module_parents w = List.map (PPath True) (parents_of (w_module w))"

definition provider_dirs :: "string list" where
  "provider_dirs = [''.agents'', ''.claude'', ''.codex'']"

fun skills_root_in :: "world \<Rightarrow> ppath list \<Rightarrow> ppath option" where
  "skills_root_in w [] = None"
| "skills_root_in w (parent # rest) =
     (let skills_root = resolve w (path_parent parent) in
      if path_name parent = story_skill_name \<and> path_name (path_parent parent) = ''skills''
         \<and> path_name (path_parent skills_root) \<in> set provider_dirs
      then Some skills_root else skills_root_in w rest)"

definition current_skills_root :: "world \<Rightarrow> ppath option" where
  "current_skills_root w = skills_root_in w (module_parents w)"

fun unique_paths :: "string list list \<Rightarrow> ppath list \<Rightarrow> ppath list" where
  "unique_paths seen [] = []"
| "unique_paths seen (p # ps) =
     (if parts p \<in> set seen then unique_paths seen ps
      else p # unique_paths (parts p # seen) ps)"

definition option_list :: "'a option \<Rightarrow> 'a list" where
  "option_list m = (case m of None \<Rightarrow> [] | Some x \<Rightarrow> [x])"

definition candidate_skills_roots :: "world \<Rightarrow> string option \<Rightarrow> ppath list" where
  "candidate_skills_roots w project_root =
     (let root = project_root_path w project_root;
          candidates = option_list (configured_skills_root w) @ option_list (current_skills_root w)
            @ [below root [''.agents'', ''skills''], below root [''.claude'', ''skills''],
               below root [''.codex'', ''skills''], below (home_dir w) [''.codex'', ''skills''],
               below (home_dir w) [''.claude'', ''skills'']]
      in unique_paths [] (List.map (\<lambda>c. resolve w (expanduser w c)) candidates))"

definition policy_file_of :: "ppath \<Rightarrow> ppath" where
  "policy_file_of skill_dir = below skill_dir [''data'', ''orchestration-policy.json'']"

definition skill_present :: "world \<Rightarrow> ppath \<Rightarrow> bool \<Rightarrow> bool" where
  "skill_present w skill_dir policy =
     (if policy then is_file w (policy_file_of skill_dir)
      else is_file w (below skill_dir [''SKILL.md'']) \<or> is_file w (policy_file_of skill_dir))"

fun first_skills_root :: "world \<Rightarrow> string \<Rightarrow> bool \<Rightarrow> ppath option \<Rightarrow> ppath list \<Rightarrow> ppath option" where
  "first_skills_root w skill_name policy explicit [] = None"
| "first_skills_root w skill_name policy explicit (candidate # rest) =
     (if skill_name \<noteq> [] then
        (if skill_present w (resolve w (path_join candidate (path_of skill_name))) policy
         then Some (resolve w candidate)
         else if explicit = Some (resolve w candidate) then Some (resolve w candidate)
         else first_skills_root w skill_name policy explicit rest)
      else if is_dir w candidate \<or> explicit = Some (resolve w candidate)
      then Some (resolve w candidate)
      else first_skills_root w skill_name policy explicit rest)"

definition resolve_skills_root :: "world \<Rightarrow> string option \<Rightarrow> string \<Rightarrow> bool \<Rightarrow> ppath" where
  "resolve_skills_root w project_root skill_name policy =
     (case first_skills_root w skill_name policy (configured_skills_root w)
             (candidate_skills_roots w project_root) of
        Some root \<Rightarrow> root
      | None \<Rightarrow> resolve w (below (project_root_path w project_root) [''.claude'', ''skills'']))"

definition posix_slashes :: "string \<Rightarrow> string" where   \<comment> \<open>\<open>s.replace("\", "/")\<close>\<close>
  "posix_slashes s = replace_all [backslash] ''/'' s"

definition resolve_skill_dir :: "world \<Rightarrow> string option \<Rightarrow> string \<Rightarrow> ppath res" where
  "resolve_skill_dir w project_root skill_name =
     (let requested = path_of (posix_slashes skill_name) in
      if is_absolute requested \<or> ''..'' \<in> set (parts requested) \<or> parts requested = []
      then Inl (ValueError (''invalid skill name: '' @ skill_name))
      else Inr (resolve w (path_join (resolve_skills_root w project_root skill_name False)
                  (path_of skill_name))))"

fun bundled_in_roots :: "world \<Rightarrow> ppath option \<Rightarrow> ppath list \<Rightarrow> ppath option" where
  "bundled_in_roots w explicit [] = None"
| "bundled_in_roots w explicit (skills_root # rest) =
     (let candidate = resolve w (below skills_root [story_skill_name]) in
      if skill_present w candidate True then Some candidate
      else if explicit = Some (resolve w skills_root) then None
      else bundled_in_roots w explicit rest)"

fun bundled_in_parents :: "world \<Rightarrow> ppath list \<Rightarrow> ppath option" where
  "bundled_in_parents w [] = None"
| "bundled_in_parents w (parent # rest) =
     (let candidate = below parent [''skills'', story_skill_name] in
      if skill_present w candidate True then Some (resolve w candidate)
      else bundled_in_parents w rest)"

definition bundled_story_skill_root :: "world \<Rightarrow> string option \<Rightarrow> ppath res" where
  "bundled_story_skill_root w project_root =
     (case bundled_in_roots w (configured_skills_root w) (candidate_skills_roots w project_root) of
        Some root \<Rightarrow> Inr root
      | None \<Rightarrow>
          of_option (FileNotFoundError ''bundled story automator policy not found'')
            (bundled_in_parents w (module_parents w)))"

section \<open>The provider and the active marker\<close>

definition infer_provider_from_root :: "world \<Rightarrow> ppath option \<Rightarrow> string" where
  "infer_provider_from_root w skills_root =
     (case skills_root of
        None \<Rightarrow> []
      | Some root \<Rightarrow>
          (let resolved = resolve w root; ps = parts resolved; parent = path_name (path_parent resolved)
           in if parent = ''.claude'' \<or> ''.claude'' \<in> set ps then ''claude''
              else if parent = ''.agents'' \<or> parent = ''.codex'' \<or> ''.agents'' \<in> set ps \<or> ''.codex'' \<in> set ps
              then ''codex'' else []))"

fun first_nonempty :: "string list \<Rightarrow> string option" where
  "first_nonempty [] = None"
| "first_nonempty (s # ss) = (if s = [] then first_nonempty ss else Some s)"

definition env_provider :: "world \<Rightarrow> string \<Rightarrow> string" where
  "env_provider w name =
     (let raw = lower (strip (environ_or w name [])) in
      if raw = ''claude'' \<or> raw = ''codex'' then raw else [])"

definition project_provider :: "world \<Rightarrow> string option \<Rightarrow> string" where
  "project_provider w project_root =
     (let root = project_root_path w project_root in
      if path_exists w (below root [''.agents'', ''skills'', story_skill_name])
         \<or> path_exists w (below root [''.codex'', ''skills'', story_skill_name])
      then ''codex'' else ''claude'')"

definition runtime_provider :: "world \<Rightarrow> string option \<Rightarrow> string" where
  "runtime_provider w project_root =
     (case first_nonempty
             [env_provider w ''BMAD_RUNTIME_PROVIDER'', env_provider w ''STORY_AUTOMATOR_RUNTIME_PROVIDER'',
              infer_provider_from_root w (configured_skills_root w),
              infer_provider_from_root w (current_skills_root w)] of
        Some p \<Rightarrow> p
      | None \<Rightarrow> project_provider w project_root)"

text \<open>The marker beside a project-local skills root, when there is such a root.\<close>

definition local_marker :: "world \<Rightarrow> ppath \<Rightarrow> ppath \<Rightarrow> ppath option" where
  "local_marker w root skills_root =
     (if relative_to skills_root root = None then None
      else if path_name (path_parent skills_root) \<in> set provider_dirs
         \<and> (skill_present w (below skills_root [story_skill_name]) False
            \<or> configured_skills_root w = Some (resolve w skills_root)
            \<or> current_skills_root w = Some (resolve w skills_root))
      then Some (resolve w (below (path_parent skills_root) [active_marker_name]))
      else None)"

definition active_marker_path :: "world \<Rightarrow> string option \<Rightarrow> ppath" where
  "active_marker_path w project_root =
     (let root = project_root_path w project_root in
      case first_nonempty
             [strip (environ_or w ''BMAD_STORY_AUTOMATOR_ACTIVE_MARKER'' []),
              strip (environ_or w ''STORY_AUTOMATOR_ACTIVE_MARKER'' [])] of
        Some raw \<Rightarrow> resolve w (path_join root (expanduser w (path_of raw)))
      | None \<Rightarrow>
          (let root_str = Some (path_str root) in
           case local_marker w root (resolve_skills_root w root_str story_skill_name False) of
             Some marker \<Rightarrow> marker
           | None \<Rightarrow>
               if runtime_provider w root_str = ''codex''
               then resolve w (below root [''.agents'', active_marker_name])
               else resolve w (below root [''.claude'', active_marker_name])))"

definition active_marker_project_entry :: "world \<Rightarrow> string option \<Rightarrow> string" where
  "active_marker_project_entry w project_root =
     (let root = project_root_path w project_root;
          marker = active_marker_path w (Some (path_str root))
      in case relative_to marker root of Some p \<Rightarrow> path_str p | None \<Rightarrow> path_str marker)"

section \<open>Portable paths\<close>

definition resolve_skill_relative_path :: "world \<Rightarrow> string \<Rightarrow> string option \<Rightarrow> ppath option" where
  "resolve_skill_relative_path w path_value project_root =
     (let relative = path_of path_value;
          names = (if is_absolute relative then ''/'' # parts relative else parts relative)
      in case names of
           [] \<Rightarrow> None
         | skill_name # rest \<Rightarrow>
             (case resolve_skill_dir w project_root skill_name of
                Inl e \<Rightarrow> None
              | Inr skill_dir \<Rightarrow>
                  (let candidate = resolve w (path_join skill_dir (PPath False rest)) in
                   if relative_to candidate skill_dir = None then None else Some candidate)))"

definition portable_prefixes :: "string list" where
  "portable_prefixes =
     [''<skills-root>/'', ''$SKILLS_ROOT/'', ''skills://'',
      ''.claude/skills/'', ''.agents/skills/'', ''.codex/skills/'']"

definition portable_rest :: "string \<Rightarrow> string option" where
  "portable_rest s =
     map_option (\<lambda>p. drop (length p) s) (List.find (startswith s) portable_prefixes)"

definition resolve_portable_path :: "world \<Rightarrow> string \<Rightarrow> string option \<Rightarrow> ppath option" where
  "resolve_portable_path w path_value project_root =
     (case portable_rest (strip (posix_slashes path_value)) of
        None \<Rightarrow> None
      | Some rest \<Rightarrow> resolve_skill_relative_path w rest project_root)"

section \<open>Lemmas\<close>

lemma unique_paths_distinct:
  "distinct (List.map parts (unique_paths seen ps)) \<and>
     set (List.map parts (unique_paths seen ps)) \<inter> set seen = {}"
  by (induction seen ps rule: unique_paths.induct) auto

lemma candidate_roots_distinct: "distinct (List.map parts (candidate_skills_roots w r))"
  unfolding candidate_skills_roots_def Let_def using unique_paths_distinct by blast

lemma unique_paths_members: "p \<in> set (unique_paths seen ps) \<Longrightarrow> p \<in> set ps"
  by (induction seen ps rule: unique_paths.induct) (auto split: if_splits)

text \<open>The provider is always one of the two.\<close>

lemma first_nonempty_Some: "first_nonempty ss = Some s \<Longrightarrow> s \<in> set ss \<and> s \<noteq> []"
  by (induction ss) (auto split: if_splits)

lemma runtime_provider_cases: "runtime_provider w r \<in> {''claude'', ''codex''}"
proof (cases "first_nonempty
    [env_provider w ''BMAD_RUNTIME_PROVIDER'', env_provider w ''STORY_AUTOMATOR_RUNTIME_PROVIDER'',
     infer_provider_from_root w (configured_skills_root w),
     infer_provider_from_root w (current_skills_root w)]")
  case None
  then show ?thesis by (simp add: runtime_provider_def project_provider_def Let_def)
next
  case (Some p)
  have env: "env_provider w n \<in> {[], ''claude'', ''codex''}" for n
    by (simp add: env_provider_def Let_def)
  have inf: "infer_provider_from_root w x \<in> {[], ''claude'', ''codex''}" for x
    by (simp add: infer_provider_from_root_def Let_def split: option.splits)
  from first_nonempty_Some [OF Some] have "p \<noteq> []" "p \<in> {env_provider w ''BMAD_RUNTIME_PROVIDER'',
      env_provider w ''STORY_AUTOMATOR_RUNTIME_PROVIDER'',
      infer_provider_from_root w (configured_skills_root w),
      infer_provider_from_root w (current_skills_root w)}" by auto
  with env inf have "p \<in> {''claude'', ''codex''}" by blast
  with Some show ?thesis by (simp add: runtime_provider_def)
qed

text \<open>A resolved portable path lies in the directory of the skill it names.\<close>

lemma relative_to_iff:
  "relative_to p root \<noteq> None \<longleftrightarrow> is_absolute p = is_absolute root \<and> prefix (parts root) (parts p)"
  by (auto simp: relative_to_def)

text \<open>A name that is one ordinary path component.\<close>

definition plain_name :: "string \<Rightarrow> bool" where
  "plain_name s \<longleftrightarrow> s \<noteq> [] \<and> s \<noteq> ''.'' \<and> s \<noteq> ''..'' \<and> CHR ''/'' \<notin> set s"

lemma path_of_plain: "plain_name s \<Longrightarrow> path_of s = PPath False [s]"
  by (auto simp: plain_name_def path_of_def split_all_char_absent dest: hd_in_set)

lemma path_of_component:
  "s \<in> set (parts (path_of v)) \<Longrightarrow> s \<noteq> ''..'' \<Longrightarrow> plain_name s"
  by (auto simp: path_of_def plain_name_def dest: split_all_char_pieces)

lemma resolve_plain_child:
  assumes "is_absolute d" "''..'' \<notin> set (parts d)" "plain_name s"
  shows "resolve w (path_join d (path_of s)) = PPath True (parts d @ [s])"
proof -
  have "''..'' \<notin> set (parts d @ [s])" using assms by (auto simp: plain_name_def)
  with assms show ?thesis
    by (simp add: path_of_plain resolve_def resolve_in_def path_join_def fold_dots_id del: set_append)
qed

lemma resolve_properties [simp]:
  "is_absolute (resolve w p)" "''..'' \<notin> set (parts (resolve w p))" "resolve w (resolve w p) = resolve w p"
  by (simp_all add: resolve_def parts_resolve_no_dots)

lemma first_skills_root_resolved:
  "first_skills_root w n b e cs = Some d \<Longrightarrow> \<exists>c. d = resolve w c"
  by (induction cs) (auto simp: Let_def split: if_splits)

lemma skills_root_resolved: "\<exists>c. resolve_skills_root w r n b = resolve w c"
  unfolding resolve_skills_root_def using first_skills_root_resolved
  by (auto split: option.splits)

lemma skill_dir_plain:
  assumes "resolve_skill_dir w r s = Inr d" and "plain_name s"
  shows "d = PPath True (parts (resolve_skills_root w r s False) @ [s])"
proof -
  obtain c where "resolve_skills_root w r s False = resolve w c" using skills_root_resolved by blast
  then show ?thesis
    using assms by (auto simp: resolve_skill_dir_def Let_def resolve_plain_child split: if_splits)
qed

lemma skill_dir_rejects:
  "resolve_skill_dir w r ''/'' = Inl (ValueError (''invalid skill name: /''))"
  "resolve_skill_dir w r ''..'' = Inl (ValueError (''invalid skill name: ..''))"
  by (simp_all add: resolve_skill_dir_def posix_slashes_def replace_all_char backslash_def path_of_def
      split_all_char)

lemma skill_relative_below:
  assumes "resolve_skill_relative_path w v r = Some p"
  shows "is_absolute p \<and> (\<exists>s. plain_name s \<and> prefix (parts (resolve_skills_root w r s False) @ [s]) (parts p))"
proof -
  obtain s rest d where d: "resolve_skill_dir w r s = Inr d"
    and p: "p = resolve w (path_join d (PPath False rest))" "relative_to p d \<noteq> None"
    and s: "s = ''/'' \<or> s \<in> set (parts (path_of v))"
    using assms
    by (auto simp: resolve_skill_relative_path_def Let_def split: list.splits sum.splits if_splits)
  have "s \<noteq> ''/''" "s \<noteq> ''..''" using d by (auto simp: skill_dir_rejects)
  with s have plain: "plain_name s" using path_of_component by blast
  moreover have "d = PPath True (parts (resolve_skills_root w r s False) @ [s])"
    by (rule skill_dir_plain [OF d plain])
  moreover have "prefix (parts d) (parts p)" using p(2) relative_to_iff by blast
  ultimately show ?thesis using p(1) by auto
qed

end
