(* ===== verification/Merge_Laws.thy ===== *)
theory Merge_Laws
  imports Py_Json
begin

text \<open>
  What every layered configuration merge of the repository promises: a scalar of the upper
  layer wins, and a place the upper layer does not mention keeps the value of the lower one.
\<close>

section \<open>Well-formed values\<close>

text \<open>Every dictionary inside a value has distinct keys.\<close>

function wf_val :: "pyval \<Rightarrow> bool" where
  "wf_val VNone = True"
| "wf_val (VBool b) = True"
| "wf_val (VInt i) = True"
| "wf_val (VFloat s) = True"
| "wf_val (VStr s) = True"
| "wf_val (VList xs) = (\<forall>x \<in> set xs. wf_val x)"
| "wf_val (VDict d) = (dict_ok d \<and> (\<forall>kv \<in> set d. wf_val (snd kv)))"
  by pat_completeness auto
termination
  by (relation "measure size")
    (auto simp: less_Suc_eq_le size_list_estimation' intro: size_dict_value dest: size_dict_value)

lemma wf_dict_get: "wf_val (VDict d) \<Longrightarrow> dict_get k d = Some v \<Longrightarrow> wf_val v"
  by (force simp: dict_get_def dest: map_of_SomeD)

fun is_scalar :: "pyval \<Rightarrow> bool" where
  "is_scalar (VList _) = False"
| "is_scalar (VDict _) = False"
| "is_scalar _ = True"

section \<open>Places\<close>

fun get_path :: "string list \<Rightarrow> pyval \<Rightarrow> pyval option" where
  "get_path [] v = Some v"
| "get_path (k # ks) (VDict d) = (case dict_get k d of None \<Rightarrow> None | Some u \<Rightarrow> get_path ks u)"
| "get_path (k # ks) _ = None"

text \<open>The layer is made of objects along the path, up to one that lacks the next key.\<close>

fun silent_at :: "string list \<Rightarrow> pyval \<Rightarrow> bool" where
  "silent_at (k # ks) (VDict d) = (case dict_get k d of None \<Rightarrow> True | Some u \<Rightarrow> silent_at ks u)"
| "silent_at _ _ = False"

lemma silent_get_path: "silent_at ks r \<Longrightarrow> get_path ks r = None"
  by (induction ks r rule: silent_at.induct) (auto split: option.splits)

text \<open>
  A merge may fail, as long as what it answers is the merge: the laws are about the values it
  returns.
\<close>

locale layered_merge =
  fixes merge :: "pyval \<Rightarrow> pyval \<Rightarrow> exn + pyval"
  assumes merge_dicts: "merge (VDict b) (VDict r) = Inr v \<Longrightarrow> wf_val (VDict r) \<Longrightarrow>
      \<exists>m. v = VDict m \<and>
        (\<forall>k. case dict_get k r of
            None \<Rightarrow> dict_get k m = dict_get k b
          | Some x \<Rightarrow> (case dict_get k b of
                None \<Rightarrow> dict_get k m = Some x
              | Some u \<Rightarrow> (\<exists>y. merge u x = Inr y \<and> dict_get k m = Some y)))"
    and merge_scalar: "is_scalar v \<Longrightarrow> merge u v = Inr v"
    and merge_shape: "\<not> is_dict u' \<Longrightarrow> merge u' (VDict r) = Inr (VDict r)"
begin

lemma merge_wins:
  "merge b r = Inr m \<Longrightarrow> wf_val r \<Longrightarrow> get_path ks r = Some v \<Longrightarrow> is_scalar v \<Longrightarrow> get_path ks m = Some v"
proof (induction ks r arbitrary: b m rule: get_path.induct)
  case (1 r)
  then show ?case by (simp add: merge_scalar)
next
  case (2 k ks d)
  then obtain u where u: "dict_get k d = Some u" "get_path ks u = Some v"
    by (auto split: option.splits)
  show ?case
  proof (cases "is_dict b")
    case True
    then obtain bd where b: "b = VDict bd" by (cases b) simp_all
    obtain md where m: "m = VDict md" "case dict_get k bd of None \<Rightarrow> dict_get k md = Some u
        | Some x \<Rightarrow> (\<exists>y. merge x u = Inr y \<and> dict_get k md = Some y)"
      using merge_dicts [OF "2.prems"(1) [unfolded b] "2.prems"(2)] u(1) by (fastforce split: option.splits)
    have "get_path ks y = Some v" if "merge x u = Inr y" for x y
      using "2.IH" [OF u(1) that wf_dict_get [OF "2.prems"(2) u(1)] u(2) "2.prems"(4)] .
    with u m show ?thesis by (cases "dict_get k bd") auto
  next
    case False
    then show ?thesis using "2.prems" merge_shape by simp
  qed
qed simp_all

lemma merge_frame:
  "merge b r = Inr m \<Longrightarrow> wf_val r \<Longrightarrow> silent_at ks r \<Longrightarrow> get_path ks m = get_path ks b"
proof (induction ks r arbitrary: b m rule: silent_at.induct)
  case (1 k ks d)
  show ?case
  proof (cases "is_dict b")
    case True
    then obtain bd where b: "b = VDict bd" by (cases b) simp_all
    obtain md where m: "m = VDict md" "case dict_get k d of None \<Rightarrow> dict_get k md = dict_get k bd
        | Some x \<Rightarrow> (case dict_get k bd of None \<Rightarrow> dict_get k md = Some x
            | Some u \<Rightarrow> (\<exists>y. merge u x = Inr y \<and> dict_get k md = Some y))"
      using merge_dicts [OF "1.prems"(1) [unfolded b] "1.prems"(2)] by blast
    show ?thesis
    proof (cases "dict_get k d")
      case None
      with b m show ?thesis by simp
    next
      case (Some u)
      then have u: "wf_val u" "silent_at ks u" using "1.prems" wf_dict_get by auto
      then have "get_path ks y = get_path ks x" if "merge x u = Inr y" for x y
        using "1.IH" [OF Some that] by blast
      with Some b m u(2) show ?thesis by (cases "dict_get k bd") (auto simp: silent_get_path)
    qed
  next
    case False
    then have "m = VDict d" using "1.prems" merge_shape by simp
    then show ?thesis using False silent_get_path [OF "1.prems"(3)] by (cases b) simp_all
  qed
qed simp_all

text \<open>Merging the same layer again changes no place that it decides or leaves alone.\<close>

lemma merge_again:
  assumes "merge b r = Inr m" "merge m r = Inr m'" "wf_val r"
    and "silent_at ks r \<or> (\<exists>v. get_path ks r = Some v \<and> is_scalar v)"
  shows "get_path ks m' = get_path ks m"
  using assms merge_wins merge_frame by metis

end

section \<open>Merging the entries of two dictionaries\<close>

definition merge_entries :: "('v \<Rightarrow> 'v \<Rightarrow> 'v) \<Rightarrow> 'v dict \<Rightarrow> 'v dict \<Rightarrow> 'v dict" where
  "merge_entries f r b =
     fold (\<lambda>(key, v) merged.
       dict_set key (case dict_get key merged of Some u \<Rightarrow> f u v | None \<Rightarrow> v) merged) r b"

lemma get_merge_entries:
  "dict_ok r \<Longrightarrow> dict_get k (merge_entries f r b) =
     (case dict_get k r of
        None \<Rightarrow> dict_get k b
      | Some v \<Rightarrow> Some (case dict_get k b of None \<Rightarrow> v | Some u \<Rightarrow> f u v))"
proof (induction r arbitrary: b)
  case Nil
  then show ?case by (simp add: merge_entries_def)
next
  case (Cons kv r)
  obtain k0 v0 where kv: "kv = (k0, v0)" by (cases kv)
  have ok: "dict_ok r" and new: "dict_get k0 r = None"
    using Cons.prems kv by (auto simp: dict_ok_def dict_get_def map_of_eq_None_iff)
  show ?case
    using Cons.IH [OF ok] new kv
    by (auto simp: merge_entries_def dict.get_put dict_get_Cons split: option.splits)
qed

lemma ok_merge_entries: "dict_ok b \<Longrightarrow> dict_ok (merge_entries f r b)"
  unfolding merge_entries_def
  by (induction r arbitrary: b) (auto simp: dict.invar_put)

end
