(* ===== verification/Json_Facts.thy ===== *)
theory Json_Facts
  imports Py_Json Merge_Laws
begin

text \<open>
  What \<open>json.dumps\<close> writes, \<open>json.loads\<close> reads back: for every value of ASCII strings,
  integers, booleans, lists and objects with distinct keys, in every style the sources use.
\<close>

section \<open>Numbers\<close>

lemma digit_char:
  "k < 10 \<Longrightarrow> is_digit (char_of (48 + k))" "k < 10 \<Longrightarrow> digit_val (char_of (48 + k)) = k"
proof -
  assume k: "k < 10"
  then have "of_char (char_of (48 + k) :: char) = 48 + k" by simp
  with k show "is_digit (char_of (48 + k))" and "digit_val (char_of (48 + k)) = k"
    by (simp_all add: is_digit_def digit_val_def)
qed

lemma char_48: "char_of (48 :: nat) = CHR ''0''"
  by code_simp

lemma show_nat_0: "show_nat 0 = ''0''"
  by (simp add: show_nat.simps char_48)

lemma show_nat_digits: "c \<in> set (show_nat n) \<Longrightarrow> is_digit c"
proof (induction n rule: show_nat.induct)
  case (1 n)
  show ?case
  proof (cases "n < 10")
    case True
    with 1 show ?thesis by (simp add: show_nat.simps [of n] digit_char)
  next
    case False
    with 1 show ?thesis by (subst (asm) show_nat.simps [of n]) (auto simp: digit_char)
  qed
qed

lemma show_nat_nonempty [simp]: "show_nat n \<noteq> []"
  by (subst show_nat.simps) simp

lemma nat_of_digits_append: "nat_of_digits (ds @ [c]) = 10 * nat_of_digits ds + digit_val c"
  by (simp add: nat_of_digits_def)

lemma nat_of_show_nat [simp]: "nat_of_digits (show_nat n) = n"
proof (induction n rule: show_nat.induct)
  case (1 n)
  show ?case
  proof (cases "n < 10")
    case True
    then show ?thesis by (simp add: show_nat.simps [of n] nat_of_digits_def digit_char)
  next
    case False
    then have "show_nat n = show_nat (n div 10) @ [char_of (48 + n mod 10)]"
      by (subst show_nat.simps) simp
    with 1 [OF False] show ?thesis by (simp add: nat_of_digits_append digit_char)
  qed
qed

lemma show_nat_zero: "hd (show_nat n) = CHR ''0'' \<longleftrightarrow> n = 0"
proof (induction n rule: show_nat.induct)
  case (1 n)
  show ?case
  proof (cases "n < 10")
    case True
    have "digit_val (CHR ''0'') = 0" by (simp add: digit_val_def)
    then have "char_of (48 + n) = CHR ''0'' \<longleftrightarrow> n = 0"
      using digit_char(2) [OF True] by (metis add_0_right char_48)
    with True show ?thesis by (simp add: show_nat.simps [of n])
  next
    case False
    then have "show_nat n = show_nat (n div 10) @ [char_of (48 + n mod 10)]"
      by (subst show_nat.simps) simp
    with 1 [OF False] False show ?thesis by simp
  qed
qed

text \<open>What may follow a value: nothing, a separator, a closing bracket or white space.\<close>

definition ends_value :: "string \<Rightarrow> bool" where
  "ends_value r \<longleftrightarrow> r = [] \<or> hd r \<in> {CHR '','', CHR '']'', CHR ''}'', CHR '' '', CHR 0x0A}"

lemma ends_value_not:
  "ends_value r \<Longrightarrow> r \<noteq> [] \<Longrightarrow>
     \<not> is_digit (hd r) \<and> hd r \<noteq> CHR ''.'' \<and> lower_char (hd r) \<noteq> CHR ''e''"
  by (auto simp: ends_value_def is_digit_def lower_char_def is_upper_def)

lemma takeWhile_digits:
  "ends_value r \<Longrightarrow> takeWhile is_digit (show_nat n @ r) = show_nat n"
proof -
  assume r: "ends_value r"
  have "takeWhile is_digit (show_nat n @ r) = show_nat n @ takeWhile is_digit r"
    by (rule takeWhile_append2) (rule show_nat_digits)
  also have "takeWhile is_digit r = []" using ends_value_not [OF r] by (cases r) auto
  finally show ?thesis by simp
qed

lemma ends_no_more: "ends_value r \<Longrightarrow> fraction r = [] \<and> exponent r = []"
  using ends_value_not [of r] by (auto simp: fraction_def exponent_def)

lemma int_digits_show:
  assumes "ends_value r"
  shows "int_digits (show_nat n @ r) = show_nat n"
proof (cases "n = 0")
  case True
  then show ?thesis by (simp add: show_nat_0 int_digits_def)
next
  case False
  then have "hd (show_nat n @ r) \<noteq> CHR ''0''" using show_nat_zero [of n] by simp
  then show ?thesis using takeWhile_digits [OF assms, of n] by (simp add: int_digits_def)
qed

lemma show_nat_no_minus: "hd (show_nat n @ r) \<noteq> CHR ''-''"
proof -
  have "is_digit (hd (show_nat n))" using show_nat_digits [of "hd (show_nat n)" n] by simp
  then show ?thesis by (auto simp: is_digit_def)
qed

lemma read_number_nat:
  "ends_value r \<Longrightarrow> read_number (show_nat n @ r) = Some (VInt (int n), r)"
  using int_digits_show [of r n] ends_no_more [of r] show_nat_no_minus [of n r]
  unfolding read_number_def Let_def by simp

lemma read_number_neg:
  "ends_value r \<Longrightarrow> read_number (CHR ''-'' # show_nat n @ r) = Some (VInt (- int n), r)"
  using int_digits_show [of r n] ends_no_more [of r]
  unfolding read_number_def Let_def by simp

lemma read_word_int:
  assumes r: "ends_value r"
  shows "read_word (show_int i @ r) = Some (VInt i, r)"
proof -
  obtain c cs where c: "show_nat (nat (abs i)) = c # cs" by (cases "show_nat (nat (abs i))") auto
  have "is_digit c" using show_nat_digits [of c "nat (abs i)"] c by simp
  then have ne: "c \<noteq> CHR ''n''" "c \<noteq> CHR ''t''" "c \<noteq> CHR ''f''" "c \<noteq> CHR ''N''" "c \<noteq> CHR ''I''" "c \<noteq> CHR ''-''"
    by (auto simp: is_digit_def)
  show ?thesis
  proof (cases "i < 0")
    case True
    then have t: "show_int i @ r = CHR ''-'' # show_nat (nat (abs i)) @ r" by (simp add: show_int_def)
    have "read_word (CHR ''-'' # (c # cs) @ r) = read_number (CHR ''-'' # (c # cs) @ r)"
      using ne by (simp add: read_word_def)
    with t c True read_number_neg [OF r, of "nat (abs i)"] show ?thesis by simp
  next
    case False
    then have t: "show_int i @ r = show_nat (nat (abs i)) @ r" by (simp add: show_int_def)
    have "read_word ((c # cs) @ r) = read_number ((c # cs) @ r)"
      using ne by (simp add: read_word_def)
    with t c False read_number_nat [OF r, of "nat (abs i)"] show ?thesis by simp
  qed
qed

section \<open>Strings\<close>

definition ascii :: "string \<Rightarrow> bool" where
  "ascii s \<longleftrightarrow> (\<forall>c \<in> set s. of_char c < (128 :: nat))"

lemma utf8_decode_ascii: "ascii s \<Longrightarrow> utf8_decode s = List.map of_char s"
  by (induction s) (auto simp: ascii_def Let_def)

lemma hex_val_digit: "k < 16 \<Longrightarrow> hex_val (hex_digit k) = Some k"
proof -
  assume "k < 16"
  then have "k = 0 \<or> k = 1 \<or> k = 2 \<or> k = 3 \<or> k = 4 \<or> k = 5 \<or> k = 6 \<or> k = 7 \<or> k = 8 \<or> k = 9 \<or>
      k = 10 \<or> k = 11 \<or> k = 12 \<or> k = 13 \<or> k = 14 \<or> k = 15" by presburger
  then show ?thesis by (auto simp: hex_val_def hex_digit_def Let_def is_digit_def)
qed

lemma read_hex4_hex4:
  assumes "n < 128"
  shows "read_hex4 (hex4 n @ r) = Some n"
proof -
  have "n div 16 < 16" "n div 4096 = 0" "n div 256 = 0" using assms by simp_all
  moreover have "n div 16 * 16 + n mod 16 = n" by (rule div_mult_mod_eq)
  ultimately show ?thesis by (simp add: hex4_def hex_val_digit)
qed

lemma read_point_hex4: "n < 128 \<Longrightarrow> read_point (hex4 n @ r) = Some (n, r)"
proof -
  assume "n < 128"
  moreover have "drop 4 (hex4 n @ r) = r" by (simp add: hex4_def)
  ultimately show ?thesis by (simp add: read_point_def read_hex4_hex4)
qed

lemma char_codes:
  "char_of (34 :: nat) = CHR 0x22" "char_of (92 :: nat) = CHR 0x5C" "char_of (10 :: nat) = CHR 0x0A"
  "char_of (13 :: nat) = CHR 0x0D" "char_of (9 :: nat) = CHR 0x09" "char_of (12 :: nat) = CHR 0x0C"
  "char_of (8 :: nat) = CHR 0x08"
  by code_simp+

lemma read_escape:
  assumes c: "of_char c < (128 :: nat)"
  shows "read_string acc (escape_point b (of_char c) @ r) = read_string (c # acc) r"
proof -
  let ?n = "of_char c :: nat"
  have self: "char_of ?n = c" by simp
  consider (short) e where "short_escape ?n = Some e"
    | (uni) "short_escape ?n = None" "?n < 32 \<or> b \<and> 126 < ?n"
    | (plain) "short_escape ?n = None" "32 \<le> ?n"
    by (cases "short_escape ?n") fastforce+
  then show ?thesis
  proof cases
    case short
    then have "?n \<in> {34, 92, 10, 13, 9, 12, 8}" by (auto simp: short_escape_def split: if_splits)
    then have "c \<in> {CHR 0x22, CHR 0x5C, CHR 0x0A, CHR 0x0D, CHR 0x09, CHR 0x0C, CHR 0x08}"
      by (metis (no_types) insert_iff emptyE self char_codes)
    then show ?thesis by (auto simp: escape_point_def short_escape_def read_short_def)
  next
    case uni
    have "read_point (hex4 ?n @ r) = Some (?n, r)" using c by (rule read_point_hex4)
    then show ?thesis
      using uni c by (simp add: escape_point_def unicode_escape_def utf8_of_def)
  next
    case plain
    then have "c \<noteq> CHR 0x22" "c \<noteq> CHR 0x5C" by (auto simp: short_escape_def)
    then show ?thesis
      using plain c by (cases "b \<and> 126 < ?n")
        (simp_all add: escape_point_def unicode_escape_def utf8_of_def read_point_hex4)
  qed
qed

lemma read_string_escaped:
  "ascii s \<Longrightarrow> read_string acc (concat (List.map (escape_point b) (List.map of_char s)) @ CHR 0x22 # r)
     = Some (rev acc @ s, r)"
  by (induction s arbitrary: acc) (auto simp: ascii_def read_escape)

lemma read_json_string:
  "ascii s \<Longrightarrow> \<exists>t. json_string b s = CHR 0x22 # t \<and> read_string [] (t @ r) = Some (s, r)"
  using read_string_escaped [of s "[]" b r] by (simp add: json_string_def utf8_decode_ascii dquote_def)

section \<open>Values\<close>

function json_plain :: "pyval \<Rightarrow> bool" where
  "json_plain VNone = True"
| "json_plain (VBool b) = True"
| "json_plain (VInt i) = True"
| "json_plain (VFloat s) = False"
| "json_plain (VStr s) = ascii s"
| "json_plain (VList xs) = (\<forall>x \<in> set xs. json_plain x)"
| "json_plain (VDict d) = (dict_ok d \<and> (\<forall>kv \<in> set d. ascii (fst kv) \<and> json_plain (snd kv)))"
  by pat_completeness auto
termination
  by (relation "measure size")
    (auto simp: less_Suc_eq_le size_list_estimation' intro: size_dict_value dest: size_dict_value)

definition blank :: "string \<Rightarrow> bool" where
  "blank s \<longleftrightarrow> set s \<subseteq> {CHR '' '', CHR 0x0A}"

definition style_ok :: "json_style \<Rightarrow> bool" where
  "style_ok st \<longleftrightarrow> (\<exists>u. js_item st = CHR '','' # u \<and> blank u) \<and> (\<exists>u. js_key st = CHR '':'' # u \<and> blank u)"

lemma styles_ok [simp]:
  "style_ok style_default" "style_ok style_compact" "style_ok style_compact_utf8" "style_ok style_indent2"
  by (simp_all add: style_ok_def style_default_def style_compact_def style_compact_utf8_def
      style_indent2_def blank_def)

lemma blank_newline: "blank (newline_at st lvl)"
  by (auto simp: blank_def newline_at_def split: option.splits)

lemma blank_append [simp]: "blank (u @ v) \<longleftrightarrow> blank u \<and> blank v"
  by (auto simp: blank_def)

lemma skip_blank: "blank u \<Longrightarrow> s = [] \<or> \<not> json_ws (hd s) \<Longrightarrow> skip_ws (u @ s) = s"
proof (induction u)
  case Nil
  then show ?case by (cases s) (auto simp: skip_ws_def)
next
  case (Cons c u)
  then have "json_ws c" "blank u" by (auto simp: blank_def json_ws_def)
  with Cons show ?case by (simp add: skip_ws_def)
qed

lemma ends_blank: "blank u \<Longrightarrow> c \<in> {CHR '','', CHR '']'', CHR ''}''} \<Longrightarrow> ends_value (u @ c # r)"
  by (cases u) (auto simp: blank_def ends_value_def)

lemma punctuation_not_ws [simp]:
  "\<not> json_ws (CHR '','')" "\<not> json_ws (CHR '']'')" "\<not> json_ws (CHR ''}'')" "\<not> json_ws (CHR '':'')"
  "\<not> json_ws (CHR 0x22)"
  by (simp_all add: json_ws_def)

text \<open>A text that starts a value: its first character is no white space and closes nothing.\<close>

definition starts_value :: "string \<Rightarrow> bool" where
  "starts_value s \<longleftrightarrow> s \<noteq> [] \<and> \<not> json_ws (hd s) \<and> hd s \<notin> {CHR '']'', CHR ''}''}"

lemma starts_value_append: "starts_value s \<Longrightarrow> starts_value (s @ t)"
  by (auto simp: starts_value_def)

lemma skip_starts: "blank u \<Longrightarrow> starts_value s \<Longrightarrow> skip_ws (u @ s) = s"
  by (rule skip_blank) (simp_all add: starts_value_def)

lemma show_int_starts: "starts_value (show_int i)"
proof -
  have d: "is_digit (hd (show_nat n))" for n using show_nat_digits [of "hd (show_nat n)" n] by simp
  have ne: "\<not> json_ws c \<and> c \<noteq> CHR '']'' \<and> c \<noteq> CHR ''}''" if "is_digit c" for c
    using that by (auto simp: is_digit_def json_ws_def)
  show ?thesis
  proof (cases "i < 0")
    case True
    then show ?thesis by (simp add: starts_value_def show_int_def json_ws_def)
  next
    case False
    with ne [OF d] show ?thesis by (simp add: starts_value_def show_int_def)
  qed
qed

lemma json_text_starts: "json_plain v \<Longrightarrow> starts_value (json_text st lvl v)"
proof (cases v)
  case (VInt i)
  then show ?thesis by (simp add: show_int_starts)
qed (simp_all add: bracketed_def json_string_def dquote_def starts_value_def json_ws_def)

definition reads_as :: "string \<Rightarrow> pyval \<Rightarrow> bool" where
  "reads_as t v \<longleftrightarrow> starts_value t \<and>
     (\<forall>n r. ends_value r \<longrightarrow> length t \<le> n \<longrightarrow> read_value n (t @ r) = Some (v, r))"

lemma reads_asD:
  "reads_as t v \<Longrightarrow> ends_value r \<Longrightarrow> length t \<le> n \<Longrightarrow> read_value n (t @ r) = Some (v, r)"
  "reads_as t v \<Longrightarrow> starts_value t"
  by (simp_all add: reads_as_def)

lemma read_items_join:
  assumes "\<forall>x \<in> set xs. reads_as (T x) x" and "xs \<noteq> []" and "blank w" and "blank u"
    and "Suc (length (join (CHR '','' # w) (List.map T xs))) \<le> n"
  shows "read_items n acc (join (CHR '','' # w) (List.map T xs) @ u @ CHR '']'' # r)
    = Some (VList (rev acc @ xs), r)"
  using assms
proof (induction xs arbitrary: n acc)
  case (Cons x xs)
  then obtain m where n: "n = Suc m" by (cases n) auto
  have x: "reads_as (T x) x" using Cons.prems by simp
  show ?case
  proof (cases xs)
    case Nil
    have "read_value m (T x @ u @ CHR '']'' # r) = Some (x, u @ CHR '']'' # r)"
      by (rule reads_asD(1) [OF x]) (use Cons.prems n Nil in \<open>auto simp: ends_blank\<close>)
    then show ?thesis using Nil n Cons.prems by (simp add: skip_blank)
  next
    case (Cons y ys)
    let ?rest = "join (CHR '','' # w) (List.map T xs) @ u @ CHR '']'' # r"
    have xv: "read_value m (T x @ CHR '','' # w @ ?rest) = Some (x, CHR '','' # w @ ?rest)"
      by (rule reads_asD(1) [OF x]) (use Cons.prems n Cons in \<open>auto simp: ends_value_def\<close>)
    have "starts_value (T y)" using Cons Cons.prems(1) by (auto intro: reads_asD(2))
    then have "starts_value ?rest" using Cons
      by (cases ys) (simp_all add: starts_value_append)
    then have skip: "skip_ws (w @ ?rest) = ?rest" using Cons.prems by (simp add: skip_starts)
    have "read_items m (x # acc) ?rest = Some (VList (rev (x # acc) @ xs), r)"
      by (rule Cons.IH) (use Cons.prems n Cons in auto)
    with xv skip show ?thesis using n Cons skip_blank [of "[]" "CHR '','' # w @ ?rest"]
      by (simp add: blank_def)
  qed
qed simp

text \<open>A member: the key, the separator and the value.\<close>

lemma dict_set_new: "k \<notin> fst ` set d \<Longrightarrow> dict_set k v d = d @ [(k, v)]"
  by (induction d) (auto simp: dict_set_def)

lemma read_members_join:
  fixes K :: "string \<Rightarrow> string" and T :: "pyval \<Rightarrow> string"
  assumes M_def: "\<And>kv. M kv = K (fst kv) @ CHR '':'' # w' @ T (snd kv)"
    and "\<forall>kv \<in> set d. reads_as (T (snd kv)) (snd kv)"
    and "\<forall>kv \<in> set d. \<forall>r. \<exists>t. K (fst kv) = CHR 0x22 # t \<and> read_string [] (t @ r) = Some (fst kv, r)"
    and "d \<noteq> []" and "blank w" and "blank w'" and "blank u"
    and "Suc (length (join (CHR '','' # w) (List.map M d))) \<le> n"
    and "distinct (List.map fst (acc @ d))"
  shows "read_members n acc (join (CHR '','' # w) (List.map M d) @ u @ CHR ''}'' # r)
    = Some (VDict (acc @ d), r)"
  using assms(2-)
proof (induction d arbitrary: n acc)
  case (Cons kv d)
  obtain m where n: "n = Suc m" using Cons.prems(7) by (cases n) auto
  obtain k v where kv: "kv = (k, v)" by (cases kv)
  have v: "reads_as (T v) v" and sv: "starts_value (T v)"
    using Cons.prems(1) kv by (auto intro: reads_asD(2))
  have new: "dict_set k v acc = acc @ [(k, v)]"
    using Cons.prems(8) kv by (intro dict_set_new) (auto simp: image_iff)
  have member: "read_members n acc (M kv @ s) =
      (case skip_ws s of [] \<Rightarrow> None
       | e # es \<Rightarrow> if e = CHR ''}'' then Some (VDict (acc @ [(k, v)]), es)
                 else if e = CHR '','' then read_members m (acc @ [(k, v)]) (skip_ws es) else None)"
    if s: "ends_value s" and len: "length (T v) \<le> m" for s
  proof -
    obtain t where t: "K k = CHR 0x22 # t"
      "read_string [] (t @ CHR '':'' # w' @ T v @ s) = Some (k, CHR '':'' # w' @ T v @ s)"
      using Cons.prems(2) kv by fastforce
    have "skip_ws (w' @ T v @ s) = T v @ s"
      using Cons.prems(5) sv by (simp add: skip_starts starts_value_append)
    with t s len v new show ?thesis
      using skip_blank [of "[]" "CHR '':'' # w' @ T v @ s"] reads_asD(1) [OF v s len]
      by (simp add: n M_def kv blank_def split: list.split)
  qed
  show ?case
  proof (cases d)
    case Nil
    have len: "length (T v) \<le> m" using Cons.prems(7) Nil n kv by (simp add: M_def)
    have "ends_value (u @ CHR ''}'' # r)" using Cons.prems(6) by (simp add: ends_blank)
    from member [OF this len] show ?thesis using Nil kv Cons.prems(6) by (simp add: skip_blank)
  next
    case (Cons y ys)
    let ?rest = "join (CHR '','' # w) (List.map M d) @ u @ CHR ''}'' # r"
    have len: "length (T v) \<le> m" and rest_len: "Suc (length (join (CHR '','' # w) (List.map M d))) \<le> m"
      using Cons.prems(7) Cons n kv M_def [of "(k, v)"] by auto
    have "\<exists>t. K (fst y) = CHR 0x22 # t" using Cons.prems(2) Cons by fastforce
    then have "starts_value (M y)" by (auto simp: M_def starts_value_def)
    then have "starts_value ?rest" using Cons by (cases ys) (simp_all add: starts_value_append)
    then have skip: "skip_ws (w @ ?rest) = ?rest" using Cons.prems(4) by (simp add: skip_starts)
    have ih: "read_members m (acc @ [(k, v)]) ?rest = Some (VDict ((acc @ [(k, v)]) @ d), r)"
      by (rule Cons.IH) (use Cons.prems rest_len Cons kv in auto)
    have "ends_value (CHR '','' # w @ ?rest)" by (simp add: ends_value_def)
    from member [OF this len] show ?thesis
      using Cons ih skip kv skip_blank [of "[]" "CHR '','' # w @ ?rest"] by (simp add: blank_def)
  qed
qed simp

text \<open>Words and numbers: what the reader of words reads.\<close>

lemma reads_as_word:
  assumes st: "starts_value t" and hd: "hd t \<notin> {CHR 0x22, CHR ''['', CHR ''{''}"
    and word: "\<And>r. ends_value r \<Longrightarrow> read_word (t @ r) = Some (v, r)"
  shows "reads_as t v"
  unfolding reads_as_def
proof (intro conjI allI impI)
  fix n r
  assume r: "ends_value r" and len: "length t \<le> n"
  obtain c cs where c: "t = c # cs" using st by (cases t) (auto simp: starts_value_def)
  obtain m where "n = Suc m" using len c by (cases n) auto
  then show "read_value n (t @ r) = Some (v, r)" using word [OF r] hd c by simp
qed (rule st)

lemma reads_as_atoms:
  "reads_as ''null'' VNone" "reads_as (if b then ''true'' else ''false'') (VBool b)"
  "reads_as (show_int i) (VInt i)"
proof -
  show "reads_as ''null'' VNone"
    by (rule reads_as_word) (simp_all add: starts_value_def json_ws_def read_word_def)
  show "reads_as (if b then ''true'' else ''false'') (VBool b)"
    by (cases b; simp; rule reads_as_word) (simp_all add: starts_value_def json_ws_def read_word_def)
  show "reads_as (show_int i) (VInt i)"
  proof (rule reads_as_word)
    show st: "starts_value (show_int i)" by (rule show_int_starts)
    obtain c cs where c: "show_int i = c # cs" using st by (cases "show_int i") (auto simp: starts_value_def)
    have "is_digit c \<or> c = CHR ''-''"
      using c show_nat_digits [of c "nat i"] by (auto simp: show_int_def split: if_splits)
    then show "hd (show_int i) \<notin> {CHR 0x22, CHR ''['', CHR ''{''}" using c by (auto simp: is_digit_def)
    show "read_word (show_int i @ r) = Some (VInt i, r)" if "ends_value r" for r
      using that by (rule read_word_int)
  qed
qed

lemma json_text_reads_as:
  "json_plain v \<Longrightarrow> style_ok st \<Longrightarrow> reads_as (json_text st lvl v) v"
proof (induction v arbitrary: lvl rule: json_plain.induct)
  case (5 s)
  show ?case unfolding reads_as_def
  proof (intro conjI allI impI)
    show "starts_value (json_text st lvl (VStr s))" using 5 by (intro json_text_starts)
    fix n r
    assume len: "length (json_text st lvl (VStr s)) \<le> n"
    obtain t where "json_string (js_ascii st) s = CHR 0x22 # t" "read_string [] (t @ r) = Some (s, r)"
      using read_json_string [of s "js_ascii st" r] 5 by auto
    then show "read_value n (json_text st lvl (VStr s) @ r) = Some (VStr s, r)"
      using len by (cases n) auto
  qed
next
  case (6 xs)
  let ?T = "json_text st (Suc lvl)"
  obtain u where u: "js_item st = CHR '','' # u" "blank u" using 6 by (auto simp: style_ok_def)
  show ?case unfolding reads_as_def
  proof (intro conjI allI impI)
    show "starts_value (json_text st lvl (VList xs))" using 6 by (intro json_text_starts)
    fix n r
    assume len: "length (json_text st lvl (VList xs)) \<le> n"
    have items: "\<forall>x \<in> set xs. reads_as (?T x) x" using 6 by auto
    show "read_value n (json_text st lvl (VList xs) @ r) = Some (VList xs, r)"
    proof (cases xs)
      case Nil
      then show ?thesis using len by (cases n) (auto simp: bracketed_def skip_ws_def)
    next
      case (Cons y ys)
      let ?J = "join (CHR '','' # u @ newline_at st (Suc lvl)) (List.map ?T xs)"
      have shape: "json_text st lvl (VList xs) =
          CHR ''['' # newline_at st (Suc lvl) @ ?J @ newline_at st lvl @ [CHR '']'']"
        using Cons u by (simp add: bracketed_def)
      obtain m where n: "n = Suc m" using len shape by (cases n) auto
      have J: "starts_value ?J"
        using items Cons reads_asD(2) by (cases ys) (auto intro: starts_value_append)
      have "read_items m [] (?J @ newline_at st lvl @ CHR '']'' # r) = Some (VList (rev [] @ xs), r)"
        by (rule read_items_join [OF items])
          (use Cons u len shape n in \<open>simp_all add: blank_newline\<close>)
      moreover have "skip_ws (newline_at st (Suc lvl) @ ?J @ newline_at st lvl @ CHR '']'' # r) =
          ?J @ newline_at st lvl @ CHR '']'' # r"
        using J by (intro skip_starts blank_newline starts_value_append)
      moreover obtain c cs where "?J = c # cs" "c \<noteq> CHR '']''"
        using J by (cases ?J) (auto simp: starts_value_def)
      ultimately show ?thesis using shape n by simp
    qed
  qed
next
  case (7 d)
  let ?K = "json_string (js_ascii st)" and ?T = "json_text st (Suc lvl)"
  let ?M = "\<lambda>kv. ?K (fst kv) @ js_key st @ ?T (snd kv)"
  obtain u where u: "js_item st = CHR '','' # u" "blank u" using 7 by (auto simp: style_ok_def)
  obtain w where w: "js_key st = CHR '':'' # w" "blank w" using 7 by (auto simp: style_ok_def)
  show ?case unfolding reads_as_def
  proof (intro conjI allI impI)
    show "starts_value (json_text st lvl (VDict d))" using 7 by (intro json_text_starts)
    fix n r
    assume len: "length (json_text st lvl (VDict d)) \<le> n"
    have vals: "\<forall>kv \<in> set d. reads_as (?T (snd kv)) (snd kv)" using 7 by auto
    have keys: "\<forall>kv \<in> set d. \<forall>r. \<exists>t. ?K (fst kv) = CHR 0x22 # t \<and> read_string [] (t @ r) = Some (fst kv, r)"
      using 7 read_json_string by auto
    have dist: "distinct (List.map fst ([] @ d))" using 7 by (simp add: dict_ok_def)
    show "read_value n (json_text st lvl (VDict d) @ r) = Some (VDict d, r)"
    proof (cases d)
      case Nil
      then show ?thesis using len by (cases n) (auto simp: bracketed_def skip_ws_def)
    next
      case (Cons y ys)
      let ?J = "join (CHR '','' # u @ newline_at st (Suc lvl)) (List.map ?M d)"
      have shape: "json_text st lvl (VDict d) =
          CHR ''{'' # newline_at st (Suc lvl) @ ?J @ newline_at st lvl @ [CHR ''}'']"
        using Cons u by (simp add: bracketed_def)
      obtain m where n: "n = Suc m" using len shape by (cases n) auto
      have "\<exists>t. ?K (fst y) = CHR 0x22 # t" using keys Cons by fastforce
      then have J: "starts_value ?J" using Cons
        by (cases ys) (auto simp: starts_value_def)
      have "read_members m [] (?J @ newline_at st lvl @ CHR ''}'' # r) = Some (VDict ([] @ d), r)"
        by (rule read_members_join [where K = ?K and T = ?T and w' = w, OF _ vals keys])
          (use Cons u w len shape n dist in \<open>simp_all add: blank_newline\<close>)
      moreover have "skip_ws (newline_at st (Suc lvl) @ ?J @ newline_at st lvl @ CHR ''}'' # r) =
          ?J @ newline_at st lvl @ CHR ''}'' # r"
        using J by (intro skip_starts blank_newline starts_value_append)
      moreover obtain c cs where "?J = c # cs" "c \<noteq> CHR ''}''"
        using J by (cases ?J) (auto simp: starts_value_def)
      ultimately show ?thesis using shape n by simp
    qed
  qed
qed (simp_all add: reads_as_atoms reads_as_atoms(2) [simplified])

text \<open>The round trip, also with the line feed that some files end with.\<close>

lemma json_roundtrip:
  assumes "json_plain v" "style_ok st" "blank u"
  shows "json_loads (json_dumps st v @ u) = Inr v"
proof -
  let ?t = "json_text st 0 v"
  have r: "reads_as ?t v" using assms by (simp add: json_text_reads_as)
  have "ends_value u" using assms(3) by (cases u) (auto simp: ends_value_def blank_def)
  then have "read_value (2 * length (?t @ u) + 2) (?t @ u) = Some (v, u)"
    by (intro reads_asD(1) [OF r]) auto
  moreover have "skip_ws (?t @ u) = ?t @ u"
    using skip_starts [of "[]" "?t @ u"] reads_asD(2) [OF r] by (simp add: blank_def starts_value_append)
  moreover have "skip_ws u = []" using skip_blank [OF assms(3), of "[]"] by simp
  ultimately show ?thesis by (simp add: json_loads_def json_dumps_def)
qed

section \<open>Sorted keys\<close>

lemma set_insert_by [simp]: "set (insert_by f x zs) = insert x (set zs)"
  by (induction zs) auto

lemma sort_by_simps: "sort_by f [] = []" "sort_by f (x # xs) = insert_by f x (sort_by f xs)"
  by (simp_all add: sort_by_def)

lemma set_sort_by [simp]: "set (sort_by f xs) = set xs"
  by (induction xs) (simp_all add: sort_by_simps)

lemma set_sorted_strings [simp]: "set (sorted_strings xs) = set xs"
  by (simp add: sorted_strings_def)

lemma distinct_insert_by: "distinct (List.map g (insert_by f x ys)) \<longleftrightarrow> distinct (List.map g (x # ys))"
  by (induction ys) auto

lemma distinct_sort_by: "distinct (List.map g (sort_by f xs)) \<longleftrightarrow> distinct (List.map g xs)"
  by (induction xs) (simp_all add: sort_by_simps distinct_insert_by)

lemma json_plain_item: "json_plain (VDict d) \<Longrightarrow> dict_get k d = Some v \<Longrightarrow> json_plain v"
  by (force simp: dict_get_def dest: map_of_SomeD)

lemma json_plain_sort_keys: "json_plain v \<Longrightarrow> json_plain (sort_keys v)"
proof (induction v rule: json_plain.induct)
  case (7 d)
  have "distinct (List.map fst (sort_by fst (List.map (\<lambda>kv. (fst kv, sort_keys (snd kv))) d)))"
    using 7 by (simp add: distinct_sort_by dict_ok_def comp_def)
  with 7 show ?case by (auto simp: dict_ok_def)
qed auto

text \<open>Sorting changes the order of the keys only.\<close>

lemma dict_get_sort_keys:
  assumes "dict_ok d"
  shows "\<exists>e. sort_keys (VDict d) = VDict e \<and> dict_ok e \<and>
    (\<forall>k. dict_get k e = map_option sort_keys (dict_get k d))"
proof -
  let ?m = "List.map (\<lambda>kv. (fst kv, sort_keys (snd kv))) d" and ?e = "sort_by fst
    (List.map (\<lambda>kv. (fst kv, sort_keys (snd kv))) d)"
  have ok: "dict_ok ?e" using assms by (simp add: dict_ok_def distinct_sort_by comp_def)
  have okm: "dict_ok ?m" using assms by (simp add: dict_ok_def comp_def)
  have "map_of ?e = map_of ?m"
    using ok okm by (subst map_of_inject_set) (auto simp: dict_ok_def)
  moreover have "map_of ?m k = map_option sort_keys (map_of d k)" for k
    by (induction d) auto
  ultimately show ?thesis using ok by (simp add: dict_get_def)
qed

end
