(* ===== verification/Tmux_Base.thy ===== *)
theory Tmux_Base
  imports Runtime_Layout Json_Facts
begin

text \<open>
  \<open>core/tmux_runtime.py\<close>, first part: session names and their files, the questions put to tmux
  and to the process table, the session state file, captures of a pane, and the cleaning of
  artifacts. What an outside program answers is the reply function of the world; file modes
  are not modelled. CPU shares are in tenths of a per cent, the precision of \<open>ps\<close>.
\<close>

section \<open>Characters and text\<close>

definition is_continuation :: "char \<Rightarrow> bool" where
  "is_continuation c \<longleftrightarrow> (128 :: nat) \<le> of_char c \<and> of_char c < (192 :: nat)"

text \<open>\<open>s[:n]\<close> and \<open>len(s)\<close> count code points, not bytes.\<close>

fun take_points :: "nat \<Rightarrow> string \<Rightarrow> string" where
  "take_points n [] = []"
| "take_points n (c # cs) =
     (if is_continuation c then c # take_points n cs
      else (case n of 0 \<Rightarrow> [] | Suc m \<Rightarrow> c # take_points m cs))"

definition count_points :: "string \<Rightarrow> nat" where
  "count_points s = length (List.filter (\<lambda>c. \<not> is_continuation c) s)"

definition box_done :: string where "box_done = [CHR 0xE2, CHR 0x98, CHR 0x92]"
definition box_open :: string where "box_open = [CHR 0xE2, CHR 0x98, CHR 0x90]"
definition spark :: string where "spark = [CHR 0xE2, CHR 0x9C, CHR 0xBB]"
definition mid_dot :: string where "mid_dot = [CHR 0xC2, CHR 0xB7]"
definition record_dot :: string where "record_dot = [CHR 0xE2, CHR 0x8F, CHR 0xBA]"
definition prompt_glyph :: string where "prompt_glyph = [CHR 0xE2, CHR 0x9D, CHR 0xAF]"

definition spinner_glyphs :: "string list" where
  "spinner_glyphs =
     [mid_dot, [CHR 0xE2, CHR 0x9C, CHR 0xB3], [CHR 0xE2, CHR 0xA0, CHR 0x8B],
      [CHR 0xE2, CHR 0xA0, CHR 0x99], [CHR 0xE2, CHR 0xA0, CHR 0xB9], [CHR 0xE2, CHR 0xA0, CHR 0xB8],
      [CHR 0xE2, CHR 0xA0, CHR 0xBC], [CHR 0xE2, CHR 0xA0, CHR 0xB4], [CHR 0xE2, CHR 0xA0, CHR 0xA6],
      [CHR 0xE2, CHR 0xA0, CHR 0xA7], [CHR 0xE2, CHR 0xA0, CHR 0x87], [CHR 0xE2, CHR 0xA0, CHR 0x8F],
      [CHR 0xE2, CHR 0x9C, CHR 0xB6], spark, record_dot]"

definition contains_any :: "string \<Rightarrow> string list \<Rightarrow> bool" where   \<comment> \<open>\<open>re.search("a|b|...", s)\<close> of literals\<close>
  "contains_any s ws \<longleftrightarrow> list_ex (contains s) ws"

definition active_words :: "string list" where
  "active_words = [''musing'', ''thinking'', ''working'', ''running'', ''loading'', ''creating'',
     ''galloping'', ''beaming'', ''razzmatazzing'', ''ctrl+c to interrupt'']"

definition shows_activity :: "string \<Rightarrow> bool" where
  "shows_activity s \<longleftrightarrow> contains_any (lower s) active_words \<or> contains_any s [spark, mid_dot, record_dot]"

fun last_active :: "string \<Rightarrow> string list \<Rightarrow> string" where
  "last_active acc [] = acc"
| "last_active acc (line # rest) = last_active (if shows_activity line then strip line else acc) rest"

definition extract_active_task :: "string \<Rightarrow> string" where
  "extract_active_task capture =
     (let active = last_active [] (splitlines capture);
          bare = fold (\<lambda>g s. replace_all g [] s) spinner_glyphs active
      in take_points 80 (strip (re_sub (rseq [rlit ''(ctrl+c'', rstar rdot]) (\<lambda>_. []) bare)))"

definition estimate_wait :: "string \<Rightarrow> int \<Rightarrow> int \<Rightarrow> int" where
  "estimate_wait task n_done n_total =
     (let low = lower task in
      if contains_any low [''loading'', ''reading'', ''searching'', ''parsing'', ''launching'', ''starting'']
      then 30
      else if contains_any low [''presenting'', ''waiting'', ''menu'', ''select'', ''choose''] then 15
      else if contains_any low [''running tests'', ''testing'', ''building'', ''compiling'', ''installing'']
      then 120
      else if contains_any low [''writing'', ''editing'', ''updating'', ''creating'', ''fixing''] then 60
      else if 0 < n_total then
        (let progress = 100 * n_done div n_total in
         if progress < 25 then 90 else if progress < 50 then 75 else if progress < 75 then 60 else 30)
      else 60)"

definition todo_counts :: "string \<Rightarrow> int \<times> int" where
  "todo_counts text =
     (let n = int (count_sub box_done text) in (n, n + int (count_sub box_open text)))"

definition rx_completion :: rx where
  \<comment> \<open>\<open>(?im)(?:^|spark\s+)(?:\w+ed|Done)\s+for\s+\d+m(?:\s+\d+s)?\b\<close>\<close>
  "rx_completion =
     rseq [RAlt (RBol True) (rseq [rlit spark, rplus rspace]),
           RAlt (rseq [rplus rword, rilit ''ed'']) (rilit ''Done''),
           rplus rspace, rilit ''for'', rplus rspace, rplus rdigit, rilit ''m'',
           ropt (rseq [rplus rspace, rplus rdigit, rilit ''s'']), RWordB]"

definition claude_completion_marker_present :: "string \<Rightarrow> bool" where
  "claude_completion_marker_present capture \<longleftrightarrow> capture \<noteq> [] \<and> re_test rx_completion capture"

definition rx_clock :: rx where   \<comment> \<open>\<open>\d{1,2}:\d{2}:\d{2}\s*$\<close>\<close>
  "rx_clock =
     rseq [rdigit, ropt rdigit, rlit '':'', rdigit, rdigit, rlit '':'', rdigit, rdigit, rstar rspace, REol False]"

definition rx_prompt_clock :: rx where   \<comment> \<open>the prompt glyph, a duration and a time of day\<close>
  "rx_prompt_clock =
     rseq [rlit prompt_glyph, rstar rspace,
           ropt (rseq [rplus rdigit, roneof ''smh'', rstar rspace]), rx_clock]"

definition rx_prompt :: rx where
  "rx_prompt =
     rseq [ralt [rlit prompt_glyph, rlit ''$'', rlit ''#'', rlit ''%''], rstar rspace, REol False]"

definition parse_statusline_time :: "string \<Rightarrow> string" where
  "parse_statusline_time capture =
     (case re_finditer (rseq [rlit ''| '', rdigit, rdigit, rlit '':'', rdigit, rdigit, rlit '':'', rdigit, rdigit])
             capture of
        [] \<Rightarrow> []
      | ms \<Rightarrow> strip (replace_all ''|'' [] (rm_text (last ms))))"

section \<open>Names and files\<close>

definition valid_runtime_modes :: "string list" where
  "valid_runtime_modes = [''legacy'', ''runner'', ''auto'']"

definition runtime_mode :: "world \<Rightarrow> string" where
  "runtime_mode w =
     (let v = lower (strip (environ_or w ''SA_TMUX_RUNTIME'' ''auto'')) in
      if v \<in> set valid_runtime_modes then v else ''auto'')"

text \<open>The clock is read as UTC; \<open>%y%m%d-%H%M%S\<close>.\<close>

definition name_stamp :: "world \<Rightarrow> string" where
  "name_stamp w =
     (let secs = w_clock w div 1000; (y, m, d) = civil_date (secs div 86400); t = secs mod 86400
      in pad2 (y mod 100) @ pad2 m @ pad2 d @ ''-'' @ pad2 (t div 3600) @ pad2 (t div 60 mod 60) @ pad2 (t mod 60))"

definition generate_session_name :: "world \<Rightarrow> string \<Rightarrow> string \<Rightarrow> string \<Rightarrow> string \<Rightarrow> string" where
  "generate_session_name w step epic story_id cycle =
     (let suffix = replace_all ''.'' ''-'' story_id;
          name = ''sa-'' @ get_project_slug w None @ ''-'' @ name_stamp w @ ''-e'' @ epic @ ''-s'' @ suffix
                   @ ''-'' @ step
      in if cycle \<noteq> [] then name @ ''-r'' @ cycle else name)"

definition agent_type :: "world \<Rightarrow> string" where
  "agent_type w =
     (let v = lower (strip (environ_or w ''AI_AGENT'' [])) in
      if v = ''claude'' \<or> v = ''codex'' then v else runtime_provider w None)"

definition agent_cli :: "string \<Rightarrow> string" where
  "agent_cli agent = (if agent = ''codex'' then ''codex exec'' else ''claude --dangerously-skip-permissions'')"

definition skill_prefix :: "string \<Rightarrow> string" where
  "skill_prefix agent = (if agent = ''codex'' then ''none'' else ''bmad-'')"

text \<open>\<open>tempfile.gettempdir()\<close>, where the first candidate is writable.\<close>

definition artifact_base_dir :: "world \<Rightarrow> ppath" where
  "artifact_base_dir w = path_of (environ_or w ''TMPDIR'' ''/tmp'')"

definition session_char :: "char \<Rightarrow> bool" where
  "session_char c \<longleftrightarrow> is_word c \<or> c = CHR ''.'' \<or> c = CHR ''-''"

definition valid_session :: "string \<Rightarrow> bool" where   \<comment> \<open>\<open>^[A-Za-z0-9._-]{1,160}$\<close>, the whole name\<close>
  "valid_session s \<longleftrightarrow> 0 < length s \<and> length s \<le> 160 \<and> list_all session_char s"

definition validated_session_name :: "string \<Rightarrow> string res" where
  "validated_session_name s =
     (if valid_session s then Inr s else Inl (ValueError (''invalid session name: '' @ repr_str s)))"

record session_files =
  sp_state :: ppath
  sp_command :: ppath
  sp_runner :: ppath
  sp_output :: ppath

definition state_name :: "string \<Rightarrow> string \<Rightarrow> string" where
  "state_name h s = ''.sa-'' @ h @ ''-session-'' @ s @ ''-state.json''"

definition session_paths_at :: "ppath \<Rightarrow> string \<Rightarrow> string \<Rightarrow> session_files" where
  "session_paths_at base h s =
     \<lparr>sp_state = path_join base (path_of (state_name h s)),
      sp_command = path_join base (path_of (''.sa-'' @ h @ ''-session-'' @ s @ ''-command.sh'')),
      sp_runner = path_join base (path_of (''.sa-'' @ h @ ''-session-'' @ s @ ''-runner.sh'')),
      sp_output = path_join base (path_of (''sa-'' @ h @ ''-output-'' @ s @ ''.txt''))\<rparr>"

definition session_paths :: "world \<Rightarrow> string \<Rightarrow> string option \<Rightarrow> session_files res" where
  "session_paths w session project_root =
     ebind (validated_session_name session) (\<lambda>s.
       Inr (session_paths_at (artifact_base_dir w) (get_project_hash w project_root) s))"

definition rx_state_file :: rx where   \<comment> \<open>\<open>\.sa-[^-]+-session-(.+)-state\.json$\<close>\<close>
  "rx_state_file =
     rseq [rlit ''.sa-'', rplus (rnoneof ''-''), rlit ''-session-'', RGrp 1 (rplus rdot),
           rlit ''-state.json'', REol False]"

definition checked_name :: "string \<Rightarrow> string" where
  "checked_name s = (case validated_session_name s of Inr n \<Rightarrow> n | Inl _ \<Rightarrow> [])"

definition session_name_from_state_path :: "ppath \<Rightarrow> string" where
  "session_name_from_state_path path =
     (case re_match rx_state_file (path_name path) of
        None \<Rightarrow> []
      | Some m \<Rightarrow> checked_name (rm_grp m 1))"

definition session_name_from_artifact_path :: "ppath \<Rightarrow> string \<Rightarrow> string" where
  "session_name_from_artifact_path path root_hash =
     (let script = rseq [rlit (''.sa-'' @ root_hash @ ''-session-''), RGrp 1 (rplus rdot), rlit ''-'',
                         RAlt (rlit ''command'') (rlit ''runner''), rlit ''.sh'', REol False];
          output = rseq [rlit (''sa-'' @ root_hash @ ''-output-''), RGrp 1 (rplus rdot), rlit ''.txt'', REol False]
      in case re_match script (path_name path) of
           Some m \<Rightarrow> checked_name (rm_grp m 1)
         | None \<Rightarrow> (case re_match output (path_name path) of
                      Some m \<Rightarrow> checked_name (rm_grp m 1)
                    | None \<Rightarrow> []))"

section \<open>Session state\<close>

definition load_session_state :: "world \<Rightarrow> ppath \<Rightarrow> pyval dict" where
  "load_session_state w path =
     (case read_file w path of
        Inl _ \<Rightarrow> []
      | Inr text \<Rightarrow> (case json_loads text of Inr (VDict d) \<Rightarrow> d | _ \<Rightarrow> []))"

definition write_private_text :: "ppath \<Rightarrow> string \<Rightarrow> world \<Rightarrow> world" where
  "write_private_text path data w = write_atomic w path data"

definition save_session_state :: "ppath \<Rightarrow> pyval dict \<Rightarrow> world \<Rightarrow> world" where
  "save_session_state path payload w =
     write_private_text path (json_dumps style_compact (VDict payload)) w"

definition update_session_state :: "ppath \<Rightarrow> pyval dict \<Rightarrow> world \<Rightarrow> pyval dict \<times> world" where
  "update_session_state path updates w =
     (let state = dict_set ''updatedAt'' (VStr (now_utc_z w)) (dict_update (load_session_state w path) updates)
      in (state, save_session_state path state w))"

definition is_terminal_state :: "pyval dict \<Rightarrow> bool" where
  "is_terminal_state state \<longleftrightarrow> str_or_empty (get_val ''lifecycle'' state) = ''finished''"

text \<open>Polling the state file until it is terminal or the grace period is over.\<close>

function wait_until :: "ppath \<Rightarrow> int \<Rightarrow> pyval dict \<Rightarrow> world \<Rightarrow> pyval dict \<times> world" where
  "wait_until path deadline state w =
     (if \<not> is_terminal_state state \<and> w_clock w < deadline then
        (let w1 = sleep_ms 50 w in wait_until path deadline (load_session_state w1 path) w1)
      else (state, w))"
  by pat_completeness auto
termination
  by (relation "measure (\<lambda>(path, deadline, state, w). nat (deadline - w_clock w))") auto

declare wait_until.simps [simp del]

definition reconcile_grace_ms :: int where
  "reconcile_grace_ms = 1000"

definition wait_for_terminal_state :: "ppath \<Rightarrow> world \<Rightarrow> pyval dict \<times> world" where
  "wait_for_terminal_state path w =
     wait_until path (w_clock w + reconcile_grace_ms) (load_session_state w path) w"

section \<open>Questions to tmux and to the process table\<close>

definition which :: "string \<Rightarrow> string act" where   \<comment> \<open>\<open>shutil.which(name) or ""\<close>\<close>
  "which name = bindA (command [''which'', name]) (\<lambda>(out, code). ret (if code = 0 then strip out else []))"

definition command_exists :: "string \<Rightarrow> bool act" where
  "command_exists name = bindA (which name) (\<lambda>p. ret (p \<noteq> []))"

definition tmux_has_session :: "string \<Rightarrow> bool act" where
  "tmux_has_session session =
     bindA (command_exists ''tmux'') (\<lambda>b.
       if b then bindA (command [''tmux'', ''has-session'', ''-t'', session]) (\<lambda>(_, code). ret (code = 0))
       else ret False)"

definition tmux_display :: "string \<Rightarrow> string \<Rightarrow> string act" where
  "tmux_display session fmt =
     bindA (command [''tmux'', ''display-message'', ''-t'', session, ''-p'', fmt]) (\<lambda>(out, _). ret (strip out))"

definition tmux_show_environment :: "string \<Rightarrow> string \<Rightarrow> string act" where
  "tmux_show_environment session key =
     bindA (command [''tmux'', ''show-environment'', ''-t'', session, key]) (\<lambda>(out, code).
       ret (if code \<noteq> 0 then []
            else (case split_once ''='' (strip out) of Some (_, v) \<Rightarrow> v | None \<Rightarrow> [])))"

definition tmux_list_sessions :: "bool \<Rightarrow> (string list \<times> int) act" where
  "tmux_list_sessions project_only =
     bindA (command_exists ''tmux'') (\<lambda>b.
       if \<not> b then ret ([], 1)
       else bindA (command [''tmux'', ''list-sessions'', ''-F'', ''#{session_name}'']) (\<lambda>(out, code).
         if code \<noteq> 0 then ret ([], code)
         else bindA (reads (\<lambda>w. ''sa-'' @ get_project_slug w None @ ''-'')) (\<lambda>own.
           (let sessions = List.filter (\<lambda>s. startswith s ''sa-'') (List.map strip (splitlines out))
            in ret (if project_only then List.filter (\<lambda>s. startswith s own) sessions else sessions, 0)))))"

definition safe_int_0 :: "pyval \<Rightarrow> int" where   \<comment> \<open>\<open>_safe_int\<close>\<close>
  "safe_int_0 v = (case py_int v of Inr n \<Rightarrow> n | Inl _ \<Rightarrow> 0)"

definition tmux_pid :: "string \<Rightarrow> int act" where
  "tmux_pid session = bindA (tmux_display session ''#{pane_pid}'') (\<lambda>s. ret (safe_int_0 (VStr s)))"

record pane_snapshot =
  pn_exists :: bool
  pn_id :: string
  pn_pid :: int
  pn_dead :: bool
  pn_dead_status :: "int option"

definition pane_snapshot_of :: "string \<Rightarrow> pane_snapshot act" where   \<comment> \<open>\<open>_pane_snapshot\<close>\<close>
  "pane_snapshot_of session =
     bindA (tmux_has_session session) (\<lambda>b.
     if \<not> b then ret \<lparr>pn_exists = False, pn_id = [], pn_pid = 0, pn_dead = False, pn_dead_status = None\<rparr>
     else bindA (tmux_display session ''#{pane_id}'') (\<lambda>pane_id.
          bindA (tmux_pid session) (\<lambda>pane_pid.
          bindA (tmux_display session ''#{pane_dead}'') (\<lambda>dead.
          bindA (tmux_display session ''#{pane_dead_status}'') (\<lambda>dead_status.
          ret \<lparr>pn_exists = True, pn_id = pane_id, pn_pid = pane_pid, pn_dead = (dead = ''1''),
               pn_dead_status = (if dead_status \<noteq> [] then Some (safe_int_0 (VStr dead_status)) else None)\<rparr>)))))"

definition pane_status :: "string \<Rightarrow> string act" where
  "pane_status session =
     bindA (pane_snapshot_of session) (\<lambda>pane.
       ret (if \<not> pn_exists pane then ''missing''
            else if pn_dead pane then
              (case pn_dead_status pane of
                 None \<Rightarrow> ''crashed:unknown''
               | Some n \<Rightarrow> if n \<noteq> 0 then ''crashed:'' @ show_int n else ''exited:0'')
            else ''alive''))"

definition pid_alive :: "int \<Rightarrow> bool act" where   \<comment> \<open>\<open>os.kill(pid, 0)\<close>\<close>
  "pid_alive pid =
     (if pid \<le> 0 then ret False
      else bindA (command [''kill'', ''-0'', show_int pid]) (\<lambda>(_, code). ret (code = 0)))"

text \<open>A decimal with at most one digit behind the point, in tenths; other text is no number.\<close>

definition rx_tenths :: rx where
  "rx_tenths = rseq [RGrp 1 (rplus rdigit), ropt (rseq [rlit ''.'', RGrp 2 rdigit])]"

definition parse_tenths :: "string \<Rightarrow> int" where
  "parse_tenths s =
     (case re_fullmatch rx_tenths s of
        None \<Rightarrow> 0
      | Some m \<Rightarrow> 10 * int (nat_of_digits (rm_grp m 1)) + int (nat_of_digits (rm_grp m 2)))"

definition show_tenths :: "int \<Rightarrow> string" where
  "show_tenths n = show_int (n div 10) @ ''.'' @ show_int (n mod 10)"

definition process_cpu :: "int \<Rightarrow> int act" where
  "process_cpu pid =
     bindA (command [''ps'', ''-o'', ''%cpu='', ''-p'', show_int pid]) (\<lambda>(out, code).
       ret (if code \<noteq> 0 then 0 else parse_tenths (strip out)))"

fun find_agent_pid :: "nat \<Rightarrow> string \<Rightarrow> string \<Rightarrow> string act"
  and find_in_children :: "nat \<Rightarrow> string list \<Rightarrow> string \<Rightarrow> string act" where
  \<comment> \<open>the number of levels left, five at the start\<close>
  "find_agent_pid 0 parent pattern = ret []"
| "find_agent_pid (Suc left) parent pattern =
     bindA (command [''pgrep'', ''-P'', parent]) (\<lambda>(out, code).
       if code \<noteq> 0 then ret []
       else find_in_children left (List.filter (\<lambda>l. l \<noteq> []) (List.map strip (splitlines out))) pattern)"
| "find_in_children left [] pattern = ret []"
| "find_in_children left (child # rest) pattern =
     bindA (command [''ps'', ''-o'', ''comm='', ''-p'', child]) (\<lambda>(comm, _).
       if contains (lower comm) (lower pattern) then ret child
       else bindA (find_agent_pid left child pattern) (\<lambda>nested.
         if nested \<noteq> [] then ret nested else find_in_children left rest pattern))"

definition capture_text :: "string \<Rightarrow> int \<Rightarrow> string act" where
  "capture_text session start =
     bindA (tmux_has_session session) (\<lambda>b.
       if \<not> b then ret []
       else bindA (command [''tmux'', ''capture-pane'', ''-t'', session, ''-p'', ''-S'', show_int start])
              (\<lambda>(capture, code). ret (if code \<noteq> 0 then [] else filter_input_box capture)))"

fun prompt_in :: "string list \<Rightarrow> bool" where
  "prompt_in [] = False"
| "prompt_in (line # rest) =
     (let current = rstrip line in
      if current = [] then prompt_in rest
      else if re_test rx_prompt_clock current \<or> re_test rx_prompt current then True
      else prompt_in rest)"

definition check_prompt_visible :: "string \<Rightarrow> string act" where
  "check_prompt_visible session =
     bindA (capture_text session (-20)) (\<lambda>capture.
       (let ls = splitlines capture in
        ret (if prompt_in (rev (drop (length ls - 8) ls)) then ''true'' else ''false'')))"

definition detect_codex_session :: "string \<Rightarrow> string \<Rightarrow> string act" where
  "detect_codex_session session capture =
     bindA (tmux_show_environment session ''AI_AGENT'') (\<lambda>agent.
       ret (if agent = ''codex'' then ''codex''
            else if contains_any (lower capture) [''openai codex'', ''codex exec'', ''tokens used'', ''codex-cli'']
                 \<or> re_test (rseq [rilit ''gpt-'', rplus rdigit, rilit ''-codex'']) capture
            then ''codex'' else ''claude''))"

section \<open>Output files\<close>

definition has_content :: "world \<Rightarrow> ppath \<Rightarrow> bool" where
  "has_content w path \<longleftrightarrow> (case file_text w path of Some t \<Rightarrow> t \<noteq> [] | None \<Rightarrow> False)"

definition first_lines :: "nat \<Rightarrow> string \<Rightarrow> string" where
  "first_lines n text = join [nl] (take n (splitlines text))"

text \<open>What \<open>verify_or_create_output\<close> falls back to when the pane gave nothing.\<close>

definition existing_output :: "ppath \<Rightarrow> string \<Rightarrow> string option \<Rightarrow> string act" where
  "existing_output expected session project_root =
     bindA (reads (\<lambda>w. has_content w expected)) (\<lambda>b.
       if b then ret (path_str expected)
       else (case project_root of
               None \<Rightarrow> ret []
             | Some _ \<Rightarrow>
                 bindA (readsE (\<lambda>w. session_paths w session project_root)) (\<lambda>paths.
                 bindA (reads (\<lambda>w. has_content w (sp_output paths))) (\<lambda>c.
                   ret (if c then path_str (sp_output paths) else [])))))"

definition verify_or_create_output :: "string \<Rightarrow> string \<Rightarrow> string \<Rightarrow> string option \<Rightarrow> string act" where
  "verify_or_create_output output_file session hash_value project_root =
     bindA (reads (\<lambda>w. output_file \<noteq> [] \<and> has_content w (path_of output_file))) (\<lambda>there.
     if there then ret output_file
     else bindA (reads (\<lambda>w. path_join (artifact_base_dir w)
                  (path_of (''sa-'' @ hash_value @ ''-output-'' @ session @ ''.txt'')))) (\<lambda>expected.
          bindA (tmux_has_session session) (\<lambda>b.
          bindA (if b then capture_text session (-300) else ret []) (\<lambda>capture.
          if capture = [] then existing_output expected session project_root
          else bindA (effect (write_private_text expected (first_lines 200 capture))) (\<lambda>_.
               bindA (reads (\<lambda>w. has_content w expected)) (\<lambda>c.
                 if c then ret (path_str expected)
                 else existing_output expected session project_root))))))"

definition write_capture :: "string \<Rightarrow> string \<Rightarrow> string option \<Rightarrow> nat \<Rightarrow> string act" where
  "write_capture session capture project_root max_lines =
     bindA (readsE (\<lambda>w. session_paths w session project_root)) (\<lambda>paths.
     bindA (effect (write_private_text (sp_output paths) (first_lines max_lines capture))) (\<lambda>_.
     ret (path_str (sp_output paths))))"

definition write_full_capture :: "string \<Rightarrow> string option \<Rightarrow> string act" where
  "write_full_capture session project_root =
     bindA (capture_text session (-300)) (\<lambda>capture. write_capture session capture project_root 200)"

definition export_output_file :: "string \<Rightarrow> string \<Rightarrow> string act" where
  "export_output_file session project_root =
     bindA (readsE (\<lambda>w. session_paths w session (Some project_root))) (\<lambda>paths.
     bindA (reads (\<lambda>w. get_project_hash w (Some project_root))) (\<lambda>hash_value.
     verify_or_create_output (path_str (sp_output paths)) session hash_value (Some project_root)))"

definition output_text :: "world \<Rightarrow> ppath \<Rightarrow> string" where
  "output_text w path = (case read_file w path of Inr t \<Rightarrow> t | Inl _ \<Rightarrow> [])"

section \<open>Cleaning\<close>

text \<open>The five files of a session, the fallback output last.\<close>

definition fallback_output :: "ppath \<Rightarrow> ppath" where
  "fallback_output p = with_name p (path_stem p @ ''-fallback'' @ path_suffix p)"

definition artifact_files :: "session_files \<Rightarrow> ppath list" where
  "artifact_files paths =
     [sp_state paths, sp_command paths, sp_runner paths, sp_output paths, fallback_output (sp_output paths)]"

definition remove_files :: "ppath list \<Rightarrow> world \<Rightarrow> world" where
  "remove_files ps w = fold (\<lambda>p w. unlink w p) ps w"

definition cleanup_runtime_artifacts :: "string \<Rightarrow> string option \<Rightarrow> unit act" where
  "cleanup_runtime_artifacts session project_root =
     bindA (readsE (\<lambda>w. session_paths w session project_root)) (\<lambda>paths.
       effect (remove_files (artifact_files paths)))"

definition artifact_ttl_seconds :: int where
  "artifact_ttl_seconds = 24 * 60 * 60"

text \<open>\<open>path.stat().st_mtime > cutoff\<close>, or the file is gone.\<close>

definition too_young :: "world \<Rightarrow> int \<Rightarrow> ppath \<Rightarrow> bool" where
  "too_young w cutoff path \<longleftrightarrow> \<not> path_exists w path \<or> cutoff < mtime w path"

fun clean_states :: "int \<Rightarrow> string option \<Rightarrow> ppath list \<Rightarrow> string list \<Rightarrow> string list act" where
  "clean_states cutoff project_root [] protected_names = ret protected_names"
| "clean_states cutoff project_root (path # rest) protected_names =
     (let session = session_name_from_state_path path in
      if session = [] then
        bindA (effect (\<lambda>w. unlink w path)) (\<lambda>_. clean_states cutoff project_root rest protected_names)
      else
        bindA (reads (\<lambda>w. (is_terminal_state (load_session_state w path), too_young w cutoff path)))
          (\<lambda>(terminal, young).
            bindA (if \<not> young \<and> terminal then cleanup_runtime_artifacts session project_root else ret ())
              (\<lambda>_. clean_states cutoff project_root rest
                     (if terminal then protected_names else session # protected_names))))"

fun clean_artifacts :: "int \<Rightarrow> string \<Rightarrow> string list \<Rightarrow> ppath list \<Rightarrow> unit act" where
  "clean_artifacts cutoff root_hash protected_names [] = ret ()"
| "clean_artifacts cutoff root_hash protected_names (path # rest) =
     bindA (reads (\<lambda>w. too_young w cutoff path)) (\<lambda>young.
       (let session = session_name_from_artifact_path path root_hash in
        bindA (if young \<or> (session \<noteq> [] \<and> session \<in> set protected_names) then ret ()
               else effect (\<lambda>w. unlink w path))
          (\<lambda>_. clean_artifacts cutoff root_hash protected_names rest)))"

definition artifact_patterns :: "string \<Rightarrow> string list" where
  "artifact_patterns h =
     [''.sa-'' @ h @ ''-session-*-command.sh'', ''.sa-'' @ h @ ''-session-*-runner.sh'', ''sa-'' @ h @ ''-output-*.txt'']"

definition cleanup_stale_terminal_artifacts :: "string option \<Rightarrow> int \<Rightarrow> unit act" where
  "cleanup_stale_terminal_artifacts project_root ttl_seconds =
     bindA (reads (\<lambda>w. (get_project_hash w project_root, w_clock w - 1000 * ttl_seconds, artifact_base_dir w)))
       (\<lambda>(root_hash, cutoff, tmp_dir).
     bindA (reads (\<lambda>w. glob_sorted w tmp_dir (''.sa-'' @ root_hash @ ''-session-*-state.json''))) (\<lambda>states.
     bindA (clean_states cutoff project_root states []) (\<lambda>protected_names.
     forA (artifact_patterns root_hash) (\<lambda>pattern.
       bindA (reads (\<lambda>w. glob_sorted w tmp_dir pattern)) (clean_artifacts cutoff root_hash protected_names)))))"

definition tmux_kill_session :: "string \<Rightarrow> string option \<Rightarrow> unit act" where
  "tmux_kill_session session project_root =
     bindA (command_exists ''tmux'') (\<lambda>b.
     bindA (if b then bindA (command [''tmux'', ''kill-session'', ''-t'', session]) (\<lambda>_. ret ()) else ret ()) (\<lambda>_.
     cleanup_runtime_artifacts session project_root))"

section \<open>Lemmas\<close>

lemma estimate_wait_values: "estimate_wait task d n \<in> {15, 30, 60, 75, 90, 120}"
  by (simp add: estimate_wait_def Let_def)

lemma todo_counts_le: "0 \<le> fst (todo_counts t) \<and> fst (todo_counts t) \<le> snd (todo_counts t)"
  by (simp add: todo_counts_def Let_def)

lemma runtime_mode_valid: "runtime_mode w \<in> {''legacy'', ''runner'', ''auto''}"
  by (auto simp: runtime_mode_def valid_runtime_modes_def Let_def)

lemma wait_until_result:
  "wait_until path deadline state w = (state', w') \<Longrightarrow>
     is_terminal_state state' \<or> deadline \<le> w_clock w'"
  by (induction path deadline state w arbitrary: state' w' rule: wait_until.induct)
    (subst (asm) (2) wait_until.simps, auto simp: Let_def split: if_splits)

lemma wait_until_clock:
  "w_clock w \<le> deadline \<Longrightarrow>
     w_clock (snd (wait_until path deadline state w)) < deadline + 50 \<and>
     w_clock w \<le> w_clock (snd (wait_until path deadline state w))"
proof (induction path deadline state w rule: wait_until.induct)
  case (1 path deadline state w)
  let ?w1 = "sleep_ms 50 w"
  show ?case
  proof (cases "\<not> is_terminal_state state \<and> w_clock w < deadline")
    case True
    then have step: "wait_until path deadline state w = wait_until path deadline (load_session_state ?w1 path) ?w1"
      by (subst wait_until.simps) (simp add: Let_def)
    show ?thesis
    proof (cases "w_clock ?w1 \<le> deadline")
      case True2: True
      with 1 True step show ?thesis by fastforce
    next
      case False
      then have "wait_until path deadline (load_session_state ?w1 path) ?w1 = (load_session_state ?w1 path, ?w1)"
        by (subst wait_until.simps) simp
      with step True show ?thesis by simp
    qed
  next
    case False
    then have "wait_until path deadline state w = (state, w)" by (subst wait_until.simps) auto
    with 1 show ?thesis by simp
  qed
qed

text \<open>What was saved is what is loaded, for a state of ASCII text.\<close>

lemma load_saved:
  assumes "json_plain (VDict d)"
  shows "load_session_state (save_session_state p d w) p = d"
proof -
  have "file_text (save_session_state p d w) p = Some (json_dumps style_compact (VDict d))"
    by (simp add: save_session_state_def write_private_text_def file_text_write_atomic same_file_def)
  then show ?thesis
    using json_roundtrip [OF assms, of style_compact "[]"]
    by (simp add: load_session_state_def read_file_text blank_def)
qed

text \<open>
  A file name made of fixed pieces around two runs of characters: what the second run, the
  group, can be.
\<close>

definition rx_template :: "string \<Rightarrow> (char \<Rightarrow> bool) \<Rightarrow> string \<Rightarrow> (char \<Rightarrow> bool) \<Rightarrow> string \<Rightarrow> rx" where
  "rx_template a p b q c =
     rseq [rlit a, rplus (RChr p), rlit b, RGrp 1 (rplus (RChr q)), rlit c, REol False]"

lemma bex_eol:
  "(\<exists>u \<in> set (rrun (REol False) (pre, rest, gs)). P u) \<longleftrightarrow> (rest = [] \<or> rest = [CHR 0x0A]) \<and> P (pre, rest, gs)"
  by auto

lemma template_bex:
  "(\<exists>t \<in> set (rrun (rx_template a p b q c) ([], name, [])). P t) \<longleftrightarrow>
     (\<exists>u x r. u \<noteq> [] \<and> list_all p u \<and> x \<noteq> [] \<and> list_all q x \<and> (r = [] \<or> r = [CHR 0x0A]) \<and>
        name = a @ u @ b @ x @ c @ r \<and> P (rev c @ rev x @ rev b @ rev u @ rev a, r, [(1, x)]))"
  unfolding rx_template_def rx_bex bex_eol fst_conv snd_conv
  apply (rule iffI; elim exE conjE)
  subgoal for r1 u r2 r3 x r4 r
    by (rule exI [of _ u], rule exI [of _ x], rule exI [of _ r]) simp
  subgoal for u x r
    by (rule exI [of _ "u @ b @ x @ c @ r"], simp, rule exI [of _ u], simp, rule exI [of _ x], simp)
  done

lemma template_match:
  assumes "re_match (rx_template a p b q c) name = Some m"
  shows "\<exists>u x r. u \<noteq> [] \<and> list_all p u \<and> x \<noteq> [] \<and> list_all q x \<and> (r = [] \<or> r = [CHR 0x0A]) \<and>
    name = a @ u @ b @ x @ c @ r \<and> rm_grp m 1 = x"
proof -
  obtain pre rest gs where t: "(pre, rest, gs) \<in> set (rrun (rx_template a p b q c) ([], name, []))"
    "rm_groups m = gs" using re_match_SomeD [OF assms] by metis
  then have "\<exists>t \<in> set (rrun (rx_template a p b q c) ([], name, [])). t = (pre, rest, gs)" by blast
  then obtain u x r where h: "u \<noteq> []" "list_all p u" "x \<noteq> []" "list_all q x" "r = [] \<or> r = [CHR 0x0A]"
    "name = a @ u @ b @ x @ c @ r" and "gs = [(1, x)]"
    unfolding template_bex by blast
  then have "rm_grp m 1 = x" using t(2) by (simp add: rm_grp_def rm_group_def)
  with h show ?thesis by blast
qed

lemma template_matches:
  assumes "u \<noteq> []" "list_all p u" "x \<noteq> []" "list_all q x"
  shows "re_match (rx_template a p b q c) (a @ u @ b @ x @ c) \<noteq> None"
proof -
  have "\<exists>t \<in> set (rrun (rx_template a p b q c) ([], a @ u @ b @ x @ c, [])). True"
    unfolding template_bex by (rule exI [of _ u], rule exI [of _ x], rule exI [of _ "[]"]) (simp add: assms)
  then show ?thesis by (auto simp: re_match_None_iff)
qed

lemma rx_state_file_template:
  "rx_state_file = rx_template ''.sa-'' (\<lambda>c. c \<noteq> CHR ''-'') ''-session-'' (\<lambda>c. c \<noteq> CHR 0x0A) ''-state.json''"
  by (simp add: rx_state_file_def rx_template_def rnoneof_def rdot_def)

lemma session_name_back:
  assumes s: "valid_session s" and h: "h \<noteq> []" "CHR ''-'' \<notin> set h" "CHR ''/'' \<notin> set h"
  shows "session_name_from_state_path (sp_state (session_paths_at base h s)) = s"
proof -
  have chars: "c \<in> set s \<Longrightarrow> c \<noteq> CHR ''/'' \<and> c \<noteq> CHR 0x0A" for c
    using s by (auto simp: valid_session_def list_all_iff session_char_def is_word_def char_class_defs)
  have plain: "plain_name (state_name h s)"
    using h chars by (auto simp: plain_name_def state_name_def)
  then have name: "path_name (sp_state (session_paths_at base h s)) = state_name h s"
    by (simp add: session_paths_at_def path_of_plain path_join_def path_name_def)
  have nonempty: "s \<noteq> []" using s by (auto simp: valid_session_def)
  have pieces: "list_all (\<lambda>c. c \<noteq> CHR ''-'') h" "list_all (\<lambda>c. c \<noteq> CHR 0x0A) s"
    using h chars by (auto simp: list_all_iff)
  have shape: "state_name h s = ''.sa-'' @ h @ ''-session-'' @ s @ ''-state.json''"
    by (simp add: state_name_def)
  have "re_match rx_state_file (state_name h s) \<noteq> None"
    unfolding rx_state_file_template shape by (rule template_matches [OF h(1) pieces(1) nonempty pieces(2)])
  then obtain m where m: "re_match rx_state_file (state_name h s) = Some m" by blast
  then obtain u x r where u: "list_all (\<lambda>c. c \<noteq> CHR ''-'') u" and r: "r = [] \<or> r = [CHR 0x0A]"
    and eq: "''.sa-'' @ h @ ''-session-'' @ s @ ''-state.json'' = ''.sa-'' @ u @ ''-session-'' @ x @ ''-state.json'' @ r"
    and g: "rm_grp m 1 = x"
    using template_match shape unfolding rx_state_file_template by metis
  from u have "CHR ''-'' \<notin> set u" by (auto simp: list_all_iff)
  then have "h = u \<and> ''session-'' @ s @ ''-state.json'' = ''session-'' @ x @ ''-state.json'' @ r"
    using eq h(2) split_once_char_append [of "CHR ''-''" h "''session-'' @ s @ ''-state.json''"]
      split_once_char_append [of "CHR ''-''" u "''session-'' @ x @ ''-state.json'' @ r"] by simp
  then have "s @ ''-state.json'' = x @ ''-state.json'' @ r" by simp
  with r have "x = s" by auto
  with m g name s show ?thesis
    by (simp add: session_name_from_state_path_def checked_name_def validated_session_name_def)
qed

lemma session_state_path_name:
  assumes "session_paths w session r = Inr paths"
  shows "session_name_from_state_path (sp_state paths) = session"
proof -
  have "get_project_hash w r \<noteq> []" using length_project_hash [of w r] by (metis list.size(3) zero_neq_numeral)
  moreover have "CHR ''-'' \<notin> set (get_project_hash w r)" "CHR ''/'' \<notin> set (get_project_hash w r)"
    using project_hash_class [of _ w r] by (auto simp: hex_class_def)
  moreover have "valid_session session" "paths = session_paths_at (artifact_base_dir w) (get_project_hash w r) session"
    using assms by (auto simp: session_paths_def validated_session_name_def res_simps split: if_splits)
  ultimately show ?thesis using session_name_back by simp
qed

end
