(* ===== verification/Tmux_Status.thy ===== *)
theory Tmux_Status
  imports Tmux_Base
begin

text \<open>
  \<open>core/tmux_runtime.py\<close>, second part: what a session is doing. The state file says how far the
  runner came; a monitor reconciles it with the pane and the processes, and classifies the
  session. The older sessions without a state file are read off the pane.
\<close>

section \<open>Reports\<close>

record status_report =
  rp_status :: string
  rp_todos_done :: int
  rp_todos_total :: int
  rp_active_task :: string
  rp_wait_estimate :: int
  rp_session_state :: string

definition report :: "string \<Rightarrow> int \<times> int \<Rightarrow> string \<Rightarrow> int \<Rightarrow> string \<Rightarrow> status_report" where
  "report status todos task wait session_state =
     \<lparr>rp_status = status, rp_todos_done = fst todos, rp_todos_total = snd todos, rp_active_task = task,
      rp_wait_estimate = wait, rp_session_state = session_state\<rparr>"

definition not_found_status :: status_report where
  "not_found_status = report ''not_found'' (0, 0) [] 0 ''not_found''"

definition error_status :: "string \<Rightarrow> status_report" where
  "error_status reason = report ''error'' (0, 0) reason 30 ''error''"

section \<open>The age of a state\<close>

definition days_from_civil :: "int \<Rightarrow> int \<Rightarrow> int \<Rightarrow> int" where
  "days_from_civil y m d =
     (let y' = (if m \<le> 2 then y - 1 else y); era = y' div 400; yoe = y' - era * 400;
          doy = (153 * (if 2 < m then m - 3 else m + 9) + 2) div 5 + d - 1;
          doe = yoe * 365 + yoe div 4 - yoe div 100 + doy
      in era * 146097 + doe - 719468)"

definition rx_iso :: rx where   \<comment> \<open>the pattern \<open>strptime\<close> makes of \<open>%Y-%m-%dT%H:%M:%SZ\<close>\<close>
  "rx_iso =
     rseq [RGrp 1 (rseq [rdigit, rdigit, rdigit, rdigit]), rlit ''-'',
           RGrp 2 (ralt [rseq [rlit ''1'', roneof ''012''], rseq [rlit ''0'', roneof ''123456789''],
                         roneof ''123456789'']), rlit ''-'',
           RGrp 3 (ralt [rseq [rlit ''3'', roneof ''01''], rseq [roneof ''12'', rdigit],
                         rseq [rlit ''0'', roneof ''123456789''], roneof ''123456789'',
                         rseq [rlit '' '', roneof ''123456789'']]), rlit ''T'',
           RGrp 4 (ralt [rseq [rlit ''2'', roneof ''0123''], rseq [roneof ''01'', rdigit], rdigit]), rlit '':'',
           RGrp 5 (ralt [rseq [roneof ''012345'', rdigit], rdigit]), rlit '':'',
           RGrp 6 (ralt [rseq [roneof ''012345'', rdigit], rdigit]), rlit ''Z'']"

definition parse_iso :: "string \<Rightarrow> int option" where   \<comment> \<open>in milliseconds\<close>
  "parse_iso v =
     (case re_fullmatch rx_iso (strip v) of
        None \<Rightarrow> None
      | Some mt \<Rightarrow>
          (let num = (\<lambda>i. int (nat_of_digits (strip (rm_grp mt i))));
               days = days_from_civil (num 1) (num 2) (num 3)
           in if num 1 \<ge> 1 \<and> civil_date days = (num 1, num 2, num 3)
              then Some (1000 * (86400 * days + 3600 * num 4 + 60 * num 5 + num 6)) else None))"

definition state_age_ms :: "world \<Rightarrow> pyval dict \<Rightarrow> int" where   \<comment> \<open>\<open>_state_age_seconds\<close>\<close>
  "state_age_ms w state =
     (case List.find (\<lambda>t. t \<noteq> None)
             (List.map (\<lambda>key. parse_iso (str_or_empty (get_val key state))) [''updatedAt'', ''createdAt'']) of
        Some (Some t) \<Rightarrow> max 0 (w_clock w - t)
      | _ \<Rightarrow> 0)"

section \<open>Reconciling the state with the world\<close>

definition signal_exit_codes :: "int list" where
  "signal_exit_codes = [130, 131, 143]"

definition result_from_exit_code :: "int option \<Rightarrow> string \<times> string" where
  "result_from_exit_code exit_code =
     (case exit_code of
        None \<Rightarrow> (''unknown'', ''pane_dead_unknown_status'')
      | Some n \<Rightarrow>
          if n = 0 then (''success'', [])
          else if n \<in> set signal_exit_codes then (''interrupted'', ''pane_dead_signal'')
          else if n = 126 \<or> n = 127 then (''spawn_error'', ''runner_exec_failed'')
          else (''failure'', ''pane_dead_exit''))"

text \<open>\<open>{**state, ...}\<close>: the finished state with its result.\<close>

definition finished_state ::
    "pyval dict \<Rightarrow> string \<Rightarrow> string \<Rightarrow> string \<Rightarrow> pyval \<Rightarrow> string \<Rightarrow> pyval dict" where
  "finished_state state finished_at now result exit_code reason =
     dict_update state
       [(''finishedAt'', VStr finished_at), (''updatedAt'', VStr now), (''lifecycle'', VStr ''finished''),
        (''result'', VStr result), (''exitCode'', exit_code), (''failureReason'', VStr reason)]"

definition finish_session :: "ppath \<Rightarrow> pyval dict \<Rightarrow> (world \<Rightarrow> pyval dict) \<Rightarrow> pyval dict act" where
  "finish_session path state f =
     bindA (effect (\<lambda>w. save_session_state path (f w) w)) (\<lambda>_.
       reads (\<lambda>w. load_session_state w path))"

text \<open>\<open>str(state.get("finishedAt") or finished)\<close>.\<close>

definition finished_at :: "world \<Rightarrow> pyval dict \<Rightarrow> string" where
  "finished_at w state = py_str (or_else (get_val ''finishedAt'' state) (VStr (now_utc_z w)))"

definition lifecycle_of :: "pyval dict \<Rightarrow> string" where
  "lifecycle_of state = str_or_empty (get_val ''lifecycle'' state)"

definition alive_pid :: "string \<Rightarrow> pyval dict \<Rightarrow> bool act" where   \<comment> \<open>\<open>pid > 0 and _pid_alive(pid)\<close>\<close>
  "alive_pid key state = pid_alive (safe_int_0 (get_val key state))"

definition dead_pane_state :: "world \<Rightarrow> pyval dict \<Rightarrow> int option \<Rightarrow> pyval dict" where
  "dead_pane_state w state dead_status =
     finished_state state (finished_at w state) (now_utc_z w) (fst (result_from_exit_code dead_status))
       (case dead_status of Some n \<Rightarrow> VInt n | None \<Rightarrow> VStr []) (snd (result_from_exit_code dead_status))"

definition lost_runner_state :: "world \<Rightarrow> pyval dict \<Rightarrow> pyval dict" where
  "lost_runner_state w state =
     finished_state state (finished_at w state) (now_utc_z w) ''interrupted''
       (VInt (let n = safe_int_0 (get_val ''exitCode'' state) in if n = 0 then 1 else n))
       ''runner_finalization_missing''"

definition never_launched_state :: "world \<Rightarrow> pyval dict \<Rightarrow> pyval dict" where
  "never_launched_state w state =
     dict_update state
       [(''updatedAt'', VStr (now_utc_z w)), (''lifecycle'', VStr ''finished''), (''result'', VStr ''unknown''),
        (''exitCode'', VStr []), (''failureReason'', VStr ''launch_never_succeeded''),
        (''finishedAt'', VStr (now_utc_z w))]"

definition reconcile_runner_state :: "session_files \<Rightarrow> pyval dict \<Rightarrow> pane_snapshot \<Rightarrow> pyval dict act" where
  "reconcile_runner_state paths state pane =
     (if is_terminal_state state then ret state
      else
        bindA (alive_pid ''childPid'' state) (\<lambda>child_alive.
        bindA (alive_pid ''runnerPid'' state) (\<lambda>runner_alive.
        if pn_exists pane \<and> pn_dead pane then
          finish_session (sp_state paths) state (\<lambda>w. dead_pane_state w state (pn_dead_status pane))
        else if lifecycle_of state = ''running'' \<and> \<not> child_alive \<and> \<not> runner_alive then
          finish_session (sp_state paths) state (\<lambda>w. lost_runner_state w state)
        else
          bindA (reads (\<lambda>w. state_age_ms w state)) (\<lambda>age.
          if lifecycle_of state \<in> {''created'', ''launching''} \<and> \<not> pn_exists pane \<and> reconcile_grace_ms < age
          then finish_session (sp_state paths) state (\<lambda>w. never_launched_state w state)
          else ret state))))"

definition runner_claude_prompt_completed ::
    "session_files \<Rightarrow> pyval dict \<Rightarrow> string \<Rightarrow> string \<Rightarrow> bool act" where
  "runner_claude_prompt_completed paths state capture prompt_visible =
     (if str_or_empty (get_val ''agent'' state) \<noteq> ''claude'' then ret False
      else if lifecycle_of state \<noteq> ''running'' then ret False
      else if prompt_visible \<noteq> ''true'' then ret False
      else if \<not> claude_completion_marker_present capture then ret False
      else bindA (effect (\<lambda>w. save_session_state (sp_state paths)
                    (finished_state state (finished_at w state) (now_utc_z w) ''success'' (VInt 0) []) w))
             (\<lambda>_. ret True))"

section \<open>Sessions of a runner\<close>

definition terminal_report :: "pyval dict \<Rightarrow> string \<Rightarrow> string \<Rightarrow> status_report" where
  "terminal_report state text output =
     (let todos = todo_counts text; least = (if text \<noteq> [] then 1 else 0);
          result = str_or_empty (get_val ''result'' state);
          failure_reason = str_or_empty (get_val ''failureReason'' state);
          exit_code = safe_int_0 (get_val ''exitCode'' state)
      in if result = ''success''
         then report ''idle'' (max (fst todos) least, max (snd todos) least) output 0 ''completed''
         else if result = ''unknown'' \<and> failure_reason = ''launch_never_succeeded''
         then report ''idle'' todos output 0 ''stuck''
         else report ''crashed'' todos output (if exit_code = 0 then 1 else exit_code) ''crashed'')"

definition terminal_runner_status :: "string \<Rightarrow> pyval dict \<Rightarrow> bool \<Rightarrow> string \<Rightarrow> status_report act" where
  "terminal_runner_status session state full project_root =
     bindA (readsE (\<lambda>w. session_paths w session (Some project_root))) (\<lambda>paths.
     bindA (capture_text session (-300)) (\<lambda>capture.
     bindA (reads (\<lambda>w. if capture \<noteq> [] then capture else output_text w (sp_output paths))) (\<lambda>text.
     bindA (if full then export_output_file session project_root else ret []) (\<lambda>output.
     ret (terminal_report state text output)))))"

definition active_report :: "string \<Rightarrow> bool \<Rightarrow> int \<times> int \<Rightarrow> status_report" where
  "active_report active_task codex todos =
     (let label = (if active_task \<noteq> [] then active_task
                   else if codex then ''Codex working'' else ''Claude working'')
      in report ''active'' todos label (estimate_wait label (fst todos) (snd todos)) ''in_progress'')"

definition starting_report :: "string \<Rightarrow> bool \<Rightarrow> int \<times> int \<Rightarrow> status_report" where
  "starting_report active_task codex todos =
     (let label = (if active_task \<noteq> [] then active_task
                   else if codex then ''launching codex'' else ''launching claude'')
      in report ''idle'' todos label 15 ''just_started'')"

text \<open>The session of a state that is not terminal, after it was reconciled.\<close>

definition live_runner_status ::
    "string \<Rightarrow> session_files \<Rightarrow> pyval dict \<Rightarrow> pane_snapshot \<Rightarrow> bool \<Rightarrow> bool \<Rightarrow> bool \<Rightarrow> bool \<Rightarrow> string
       \<Rightarrow> status_report act" where
  "live_runner_status session paths state pane child_alive runner_alive full codex root =
     bindA (capture_text session (-120)) (\<lambda>capture.
     bindA (check_prompt_visible session) (\<lambda>prompt_visible.
     bindA (runner_claude_prompt_completed paths state capture prompt_visible) (\<lambda>completed.
     (let todos = todo_counts capture; active_task = extract_active_task capture; lifecycle = lifecycle_of state in
      if completed then
        bindA (reads (\<lambda>w. load_session_state w (sp_state paths))) (\<lambda>final_state.
          terminal_runner_status session final_state full root)
      else if lifecycle = ''running'' \<and> child_alive then ret (active_report active_task codex todos)
      else if lifecycle \<in> {''created'', ''launching''} \<or> runner_alive \<or> pn_exists pane
      then ret (starting_report active_task codex todos)
      else bindA (if full then export_output_file session root else ret []) (\<lambda>output.
             ret (report ''idle'' todos output 0 ''stuck''))))))"

section \<open>Sessions without a runner\<close>

record legacy_state =
  lg_poll_count :: int
  lg_active :: bool
  lg_done :: int
  lg_total :: int
  lg_time :: string

definition int_or_zero :: "string \<Rightarrow> pyval dict \<Rightarrow> int res" where   \<comment> \<open>\<open>int(raw.get(k, 0) or 0)\<close>\<close>
  "int_or_zero k d = py_int (or_else (get_or (VInt 0) k d) (VInt 0))"

definition load_legacy_state :: "world \<Rightarrow> ppath \<Rightarrow> legacy_state res" where
  "load_legacy_state w path =
     (let raw = load_session_state w path in
      if raw = [] \<or> truth (get_val ''schemaVersion'' raw)
      then Inr \<lparr>lg_poll_count = 0, lg_active = False, lg_done = 0, lg_total = 0, lg_time = []\<rparr>
      else
        ebind (int_or_zero ''pollCount'' raw) (\<lambda>polls.
        ebind (int_or_zero ''lastTodosDone'' raw) (\<lambda>n_done.
        ebind (int_or_zero ''lastTodosTotal'' raw) (\<lambda>n_total.
        Inr \<lparr>lg_poll_count = polls, lg_active = truth (get_or (VBool False) ''hasEverBeenActive'' raw),
             lg_done = n_done, lg_total = n_total,
             lg_time = str_or_empty (get_or (VStr []) ''lastStatuslineTime'' raw)\<rparr>))))"

definition save_legacy_state :: "ppath \<Rightarrow> legacy_state \<Rightarrow> world \<Rightarrow> world" where
  "save_legacy_state path st w =
     save_session_state path
       [(''pollCount'', VInt (lg_poll_count st)), (''hasEverBeenActive'', VBool (lg_active st)),
        (''lastTodosDone'', VInt (lg_done st)), (''lastTodosTotal'', VInt (lg_total st)),
        (''lastStatuslineTime'', VStr (lg_time st)), (''lastPollAt'', VStr (now_utc_z w))] w"

definition initial_agent_levels :: nat where   \<comment> \<open>depths 0 to 4\<close>
  "initial_agent_levels = 5"

definition last_line_prompt :: "string \<Rightarrow> string" where
  "last_line_prompt capture =
     (let ls = splitlines capture; line = (if ls = [] then [] else last ls)
      in if re_test rx_prompt line then ''true'' else ''false'')"

record heartbeat =
  hb_status :: string
  hb_cpu :: int
  hb_pid :: string
  hb_prompt :: string

definition beat :: "string \<Rightarrow> int \<Rightarrow> string \<Rightarrow> string \<Rightarrow> heartbeat" where
  "beat status cpu pid prompt = \<lparr>hb_status = status, hb_cpu = cpu, hb_pid = pid, hb_prompt = prompt\<rparr>"

definition busy :: "int \<Rightarrow> bool" where   \<comment> \<open>\<open>cpu > 0.1\<close>\<close>
  "busy cpu \<longleftrightarrow> 1 < cpu"

definition legacy_heartbeat_check :: "string \<Rightarrow> string \<Rightarrow> heartbeat act" where
  "legacy_heartbeat_check session selected_agent =
     (if session = [] then ret (beat ''error'' 0 [] ''no_session'')
      else
        bindA (tmux_has_session session) (\<lambda>b.
        if \<not> b then ret (beat ''error'' 0 [] ''session_not_found'')
        else
          bindA (capture_text session (-40)) (\<lambda>capture.
          bindA (tmux_pid session) (\<lambda>pane_pid.
          (let prompt = last_line_prompt capture;
               gone = beat (if prompt = ''true'' then ''completed'' else ''dead'') 0 [] prompt
           in
           if pane_pid \<le> 0 then ret gone
           else
             bindA (find_agent_pid initial_agent_levels (show_int pane_pid)
                      (if selected_agent = ''codex'' then ''codex'' else ''claude'')) (\<lambda>agent_pid.
             if agent_pid = [] then ret gone
             else
               bindA (readsE (\<lambda>_. py_int (VStr agent_pid))) (\<lambda>pid.
               bindA (process_cpu pid) (\<lambda>cpu.
               ret (beat (if prompt = ''true'' then ''completed'' else if busy cpu then ''alive'' else ''idle'')
                      cpu agent_pid prompt)))))))))"

definition least_one :: "int \<Rightarrow> int" where   \<comment> \<open>\<open>max(1, n or 1)\<close>\<close>
  "least_one n = max 1 n"

definition legacy_codex_session_status :: "string \<Rightarrow> bool \<Rightarrow> string option \<Rightarrow> status_report act" where
  "legacy_codex_session_status session full project_root =
     (if session = [] then ret (error_status ''no_session'')
      else
        bindA (tmux_has_session session) (\<lambda>b.
        if \<not> b then ret not_found_status
        else
          bindA (capture_text session (-120)) (\<lambda>capture.
          (let todos = todo_counts capture;
               ended = (\<lambda>counts state.
                 bindA (write_capture session capture project_root 200) (\<lambda>output.
                   ret (report ''idle'' counts (if full then output else []) 0 state)));
               finished = ended (max 1 (fst todos), least_one (snd todos)) ''completed''
           in
           if contains capture ''tokens used'' \<or> re_test rx_prompt_clock capture then finished
           else
             bindA (legacy_heartbeat_check session ''codex'') (\<lambda>hb.
             if hb_status hb = ''alive'' then
               (let task = extract_active_task capture;
                    label = (if task \<noteq> [] then task
                             else ''Codex working (CPU: '' @ show_tenths (hb_cpu hb) @ ''%)'')
                in ret (report ''active'' todos label 90 ''in_progress''))
             else if hb_prompt hb = ''true'' then finished
             else if fst todos \<noteq> 0 \<or> snd todos \<noteq> 0 then ended todos ''completed''
             else ended (0, 0) ''stuck'')))))"

definition rx_duration :: rx where   \<comment> \<open>\<open>for [0-9]+m [0-9]+s\<close>\<close>
  "rx_duration = rseq [rlit ''for '', rplus rdigit, rlit ''m '', rplus rdigit, rlit ''s'']"

definition legacy_idle_state :: "legacy_state \<Rightarrow> string \<Rightarrow> string" where
  "legacy_idle_state st status_time =
     (if lg_active st then ''completed''
      else if lg_poll_count st \<le> 10 then ''just_started''
      else if status_time \<noteq> [] \<and> lg_time st \<noteq> []
      then (if status_time \<noteq> lg_time st then ''just_started'' else ''stuck'')
      else if status_time \<noteq> [] then ''just_started''
      else ''stuck'')"

text \<open>The pane of a session that still answers: what its capture says.\<close>

definition legacy_claude_live ::
    "string \<Rightarrow> bool \<Rightarrow> string \<Rightarrow> ppath \<Rightarrow> string \<Rightarrow> legacy_state \<Rightarrow> string \<Rightarrow> status_report act" where
  "legacy_claude_live session full root state_path pane_state st capture =
     (let status_time = parse_statusline_time capture; todos = todo_counts capture;
          keep = (\<lambda>active n_done n_total. effect (save_legacy_state state_path
            (st\<lparr>lg_active := active, lg_done := n_done, lg_total := n_total, lg_time := status_time\<rparr>)))
      in
      if re_test rx_duration capture then
        bindA (keep True (lg_done st) (lg_total st)) (\<lambda>_.
        bindA (if full then write_full_capture session (Some root) else ret []) (\<lambda>output.
        ret (report ''idle'' (lg_done st, lg_total st) output 0 ''completed'')))
      else
        bindA (tmux_pid session) (\<lambda>pane_pid.
        bindA (if 0 < pane_pid
               then bindA (command [''pgrep'', ''-P'', show_int pane_pid, ''-f'', ''claude'']) (\<lambda>(_, code). ret (code = 0))
               else ret False) (\<lambda>claude_running.
        if shows_activity capture \<or> claude_running then
          (let task = extract_active_task capture; active_task = (if task \<noteq> [] then task else ''Claude working'')
           in bindA (keep True (fst todos) (snd todos)) (\<lambda>_.
              ret (report ''active'' todos active_task (estimate_wait active_task (fst todos) (snd todos))
                ''in_progress'')))
        else
          bindA (if full then write_full_capture session (Some root) else ret []) (\<lambda>output.
          bindA (keep (lg_active st) (lg_done st) (lg_total st)) (\<lambda>_.
          ret (report ''idle'' (lg_done st, lg_total st) output 0
            (if full \<and> startswith pane_state ''exited:'' then ''completed''
             else legacy_idle_state st status_time)))))))"

definition legacy_claude_session_status :: "string \<Rightarrow> bool \<Rightarrow> string option \<Rightarrow> status_report act" where
  "legacy_claude_session_status session full project_root =
     (if session = [] then ret (error_status ''no_session'')
      else
        bindA (reads (\<lambda>w. root_or_default w project_root)) (\<lambda>root.
        bindA (readsE (\<lambda>w. session_paths w session (Some root))) (\<lambda>paths.
        bindA (tmux_has_session session) (\<lambda>b.
        if \<not> b then bindA (effect (\<lambda>w. unlink w (sp_state paths))) (\<lambda>_. ret not_found_status)
        else
          bindA (pane_status session) (\<lambda>pane_state.
          if startswith pane_state ''crashed:'' then
            (let exit_code = drop 8 pane_state in
             bindA (capture_text session (-200)) (\<lambda>capture.
             bindA (write_capture session capture (Some root) 150) (\<lambda>output.
             bindA (effect (\<lambda>w. unlink w (sp_state paths))) (\<lambda>_.
             ret (report ''crashed'' (0, 0) (if full then output else [])
               (if isdigit exit_code then int (nat_of_digits exit_code) else 1) ''crashed'')))))
          else
            bindA (readsE (\<lambda>w. load_legacy_state w (sp_state paths))) (\<lambda>st.
            bindA (capture_text session (-50)) (\<lambda>capture.
            if capture = [] then ret (error_status ''capture_failed'')
            else legacy_claude_live session full root (sp_state paths) pane_state
                   (st\<lparr>lg_poll_count := lg_poll_count st + 1\<rparr>) capture)))))))"

definition legacy_session_status :: "string \<Rightarrow> bool \<Rightarrow> bool \<Rightarrow> string option \<Rightarrow> status_report act" where
  "legacy_session_status session full codex project_root =
     (if codex then legacy_codex_session_status session full project_root
      else legacy_claude_session_status session full project_root)"

section \<open>The status of a session\<close>

definition runner_session_status :: "string \<Rightarrow> bool \<Rightarrow> bool \<Rightarrow> string option \<Rightarrow> status_report act" where
  "runner_session_status session full codex project_root =
     bindA (reads (\<lambda>w. path_str (root_of w project_root))) (\<lambda>root.
     bindA (readsE (\<lambda>w. session_paths w session (Some root))) (\<lambda>paths.
     bindA (reads (\<lambda>w. load_session_state w (sp_state paths))) (\<lambda>state.
     if state = [] then
       bindA (tmux_has_session session) (\<lambda>b.
         if b then legacy_session_status session full codex (Some root) else ret not_found_status)
     else if is_terminal_state state then terminal_runner_status session state full root
     else
       bindA (pane_snapshot_of session) (\<lambda>pane.
       bindA (alive_pid ''childPid'' state) (\<lambda>child_alive.
       bindA (alive_pid ''runnerPid'' state) (\<lambda>runner_alive.
       if lifecycle_of state = ''running'' \<and> \<not> child_alive then
         bindA (\<lambda>w. Inr (wait_for_terminal_state (sp_state paths) w)) (\<lambda>refreshed.
         if is_terminal_state refreshed then terminal_runner_status session refreshed full root
         else
           bindA (reconcile_runner_state paths (if refreshed \<noteq> [] then refreshed else state) pane) (\<lambda>state'.
           if is_terminal_state state' then terminal_runner_status session state' full root
           else
             bindA (alive_pid ''childPid'' state') (\<lambda>child'.
             bindA (alive_pid ''runnerPid'' state') (\<lambda>runner'.
             live_runner_status session paths state' pane child' runner' full codex root))))
       else
         bindA (reconcile_runner_state paths state pane) (\<lambda>state'.
         if is_terminal_state state' then terminal_runner_status session state' full root
         else live_runner_status session paths state' pane child_alive runner_alive full codex root)))))))"

text \<open>\<open>mode or runtime_mode()\<close>: no mode is the empty string.\<close>

definition configured_mode :: "world \<Rightarrow> string \<Rightarrow> string" where
  "configured_mode w mode = lower (strip (if mode \<noteq> [] then mode else runtime_mode w))"

definition status_mode :: "world \<Rightarrow> string \<Rightarrow> string option \<Rightarrow> string \<Rightarrow> string res" where
  "status_mode w session project_root mode =
     (let configured = configured_mode w mode in
      if configured = ''legacy'' \<or> configured = ''runner'' then Inr configured
      else
        ebind (session_paths w session project_root) (\<lambda>paths.
        ebind (py_int (or_else (get_val ''schemaVersion'' (load_session_state w (sp_state paths))) (VInt 0)))
          (\<lambda>version. Inr (if version = 1 then ''runner'' else ''legacy''))))"

definition session_status :: "string \<Rightarrow> bool \<Rightarrow> bool \<Rightarrow> string option \<Rightarrow> string \<Rightarrow> status_report act" where
  "session_status session full codex project_root mode =
     bindA (readsE (\<lambda>w. status_mode w session project_root mode)) (\<lambda>resolved_mode.
       if resolved_mode = ''legacy'' then legacy_session_status session full codex project_root
       else runner_session_status session full codex project_root)"

definition heartbeat_of_report :: "status_report \<Rightarrow> string \<Rightarrow> string \<Rightarrow> heartbeat" where
  "heartbeat_of_report rp pid prompt =
     beat (if rp_session_state rp = ''completed'' then ''completed''
           else if rp_session_state rp \<in> {''crashed'', ''stuck'', ''not_found''} then ''dead''
           else ''idle'') 0 pid prompt"

definition heartbeat_check :: "string \<Rightarrow> string \<Rightarrow> string option \<Rightarrow> string \<Rightarrow> heartbeat act" where
  "heartbeat_check session selected_agent project_root mode =
     (if session = [] then ret (beat ''error'' 0 [] ''no_session'')
      else
        bindA (readsE (\<lambda>w. status_mode w session project_root mode)) (\<lambda>resolved_mode.
        if resolved_mode = ''legacy'' then legacy_heartbeat_check session selected_agent
        else
          bindA (tmux_has_session session) (\<lambda>b.
          bindA (if b then check_prompt_visible session else ret ''false'') (\<lambda>prompt.
          bindA (readsE (\<lambda>w. session_paths w session project_root)) (\<lambda>paths.
          bindA (reads (\<lambda>w. load_session_state w (sp_state paths))) (\<lambda>state.
          if state = [] then ret (beat ''error'' 0 [] ''state_missing'')
          else if is_terminal_state state then
            ret (beat (if str_or_empty (get_val ''result'' state) = ''success'' then ''completed'' else ''dead'')
                   0 (str_or_empty (get_val ''childPid'' state)) prompt)
          else
            (let child_pid = safe_int_0 (get_val ''childPid'' state) in
             if child_pid \<le> 0 then ret (beat ''idle'' 0 [] prompt)
             else
               bindA (process_cpu child_pid) (\<lambda>cpu.
               bindA (pid_alive child_pid) (\<lambda>alive.
               if alive then ret (beat (if busy cpu then ''alive'' else ''idle'') cpu (show_int child_pid) prompt)
               else
                 bindA (\<lambda>w. Inr (wait_for_terminal_state (sp_state paths) w)) (\<lambda>_.
                 bindA (session_status session False (selected_agent = ''codex'') project_root resolved_mode) (\<lambda>rp.
                 ret (heartbeat_of_report rp (show_int child_pid) prompt))))))))))))"

section \<open>Lemmas\<close>

lemma finished_state_get:
  "dict_get k (finished_state state f now result code reason) =
     (if k = ''finishedAt'' then Some (VStr f) else if k = ''updatedAt'' then Some (VStr now)
      else if k = ''lifecycle'' then Some (VStr ''finished'') else if k = ''result'' then Some (VStr result)
      else if k = ''exitCode'' then Some code else if k = ''failureReason'' then Some (VStr reason)
      else dict_get k state)"
  unfolding finished_state_def by (subst dict_get_update) (auto simp: dict_ok_def dict_get_Cons)

lemma finished_state_terminal: "is_terminal_state (finished_state state f now result code reason)"
  by (simp add: is_terminal_state_def get_val_def get_or_def finished_state_get)

lemma never_launched_get:
  "dict_get k (never_launched_state w state) =
     (if k = ''finishedAt'' then Some (VStr (now_utc_z w)) else if k = ''updatedAt'' then Some (VStr (now_utc_z w))
      else if k = ''lifecycle'' then Some (VStr ''finished'') else if k = ''result'' then Some (VStr ''unknown'')
      else if k = ''exitCode'' then Some (VStr []) else if k = ''failureReason'' then Some (VStr ''launch_never_succeeded'')
      else dict_get k state)"
  unfolding never_launched_state_def by (subst dict_get_update) (auto simp: dict_ok_def dict_get_Cons)

text \<open>Updates keep a state plain, so that it survives its file.\<close>

lemma set_dict_set: "kv \<in> set (dict_set k v d) \<Longrightarrow> kv \<in> set d \<or> kv = (k, v)"
  unfolding dict_set_def by (induction d) (auto split: if_splits)

lemma json_plain_dict_set:
  assumes "json_plain (VDict d)" "ascii k" "json_plain v"
  shows "json_plain (VDict (dict_set k v d))"
proof -
  have "dict_ok (dict_set k v d)" using assms(1) by (simp add: dict.invar_put)
  moreover have "ascii (fst kv) \<and> json_plain (snd kv)" if "kv \<in> set (dict_set k v d)" for kv
    using set_dict_set [OF that] assms by auto
  ultimately show ?thesis by simp
qed

lemma json_plain_dict_update:
  "json_plain (VDict d) \<Longrightarrow> \<forall>kv \<in> set e. ascii (fst kv) \<and> json_plain (snd kv) \<Longrightarrow>
     json_plain (VDict (dict_update d e))"
proof (induction e arbitrary: d)
  case (Cons kv e)
  have "json_plain (VDict (dict_set (fst kv) (snd kv) d))"
    by (rule json_plain_dict_set) (use Cons.prems in auto)
  from Cons.IH [OF this] Cons.prems(2) show ?case by (simp add: dict_update_def case_prod_beta)
qed (simp add: dict_update_def)

lemma ascii_append [simp]: "ascii (a @ b) \<longleftrightarrow> ascii a \<and> ascii b"
  by (auto simp: ascii_def)

lemma ascii_Cons [simp]: "ascii (c # s) \<longleftrightarrow> of_char c < (128 :: nat) \<and> ascii s" "ascii []"
  by (simp_all add: ascii_def)

lemma ascii_show_int: "ascii (show_int i)"
proof -
  have "of_char c < (128 :: nat)" if "is_digit c" for c using that by (simp add: is_digit_def)
  then have "ascii (show_nat n)" for n using show_nat_digits [of _ n] unfolding ascii_def by blast
  then show ?thesis by (simp add: show_int_def)
qed

lemma ascii_pad2: "ascii (pad2 n)"
  by (simp add: pad2_def ascii_show_int)

lemma ascii_now: "ascii (now_utc_z w)"
proof -
  obtain y m d where "civil_date (w_clock w div 1000 div 86400) = (y, m, d)"
    by (cases "civil_date (w_clock w div 1000 div 86400)")
  then show ?thesis
    unfolding now_utc_z_def Let_def by (simp only: prod.case ascii_append ascii_pad2 ascii_show_int) simp
qed

section \<open>What a reconciliation leaves\<close>

text \<open>A state as the runner and the monitor write it: plain text, and a text as its end time.\<close>

definition session_state_ok :: "pyval dict \<Rightarrow> bool" where
  "session_state_ok state \<longleftrightarrow> json_plain (VDict state) \<and>
     (\<forall>v. dict_get ''finishedAt'' state = Some v \<longrightarrow> is_str v)"

lemma ascii_finished_at: "session_state_ok state \<Longrightarrow> ascii (finished_at w state)"
proof -
  assume ok: "session_state_ok state"
  have "ascii s" if "dict_get ''finishedAt'' state = Some (VStr s)" for s
    using ok that by (force simp: session_state_ok_def dict_get_def dest: map_of_SomeD)
  moreover have "\<exists>s. v = VStr s" if "dict_get ''finishedAt'' state = Some v" for v
    using ok that by (cases v) (auto simp: session_state_ok_def)
  ultimately show ?thesis
    using ascii_now by (cases "dict_get ''finishedAt'' state")
      (auto simp: finished_at_def or_else_def get_val_def get_or_def)
qed

lemma finished_state_ok:
  assumes "session_state_ok state" "ascii f" "ascii now" "ascii result" "json_plain code" "ascii reason"
  shows "session_state_ok (finished_state state f now result code reason)"
proof -
  have "json_plain (VDict (finished_state state f now result code reason))"
    unfolding finished_state_def
    by (rule json_plain_dict_update) (use assms in \<open>simp_all add: session_state_ok_def\<close>)
  then show ?thesis by (simp add: session_state_ok_def finished_state_get)
qed

lemma result_ascii: "ascii (fst (result_from_exit_code c))" "ascii (snd (result_from_exit_code c))"
  by (simp_all add: result_from_exit_code_def split: option.split)

lemma dead_pane_ok: "session_state_ok state \<Longrightarrow> session_state_ok (dead_pane_state w state c)"
  unfolding dead_pane_state_def
  by (rule finished_state_ok)
    (simp_all add: ascii_finished_at ascii_now result_ascii split: option.split)

lemma lost_runner_ok: "session_state_ok state \<Longrightarrow> session_state_ok (lost_runner_state w state)"
  unfolding lost_runner_state_def
  by (rule finished_state_ok) (simp_all add: ascii_finished_at ascii_now)

lemma never_launched_ok: "session_state_ok state \<Longrightarrow> session_state_ok (never_launched_state w state)"
proof -
  assume ok: "session_state_ok state"
  have "json_plain (VDict (never_launched_state w state))"
    unfolding never_launched_state_def
    by (rule json_plain_dict_update) (use ok in \<open>simp_all add: session_state_ok_def ascii_now\<close>)
  then show ?thesis by (simp add: session_state_ok_def never_launched_get)
qed

lemma finish_session_Inr:
  assumes "finish_session path state f w = Inr (s', w')" and "session_state_ok (f w)"
  shows "s' = f w \<and> load_session_state w' path = f w"
  using assms load_saved [of "f w" path w]
  by (auto simp: finish_session_def res_simps session_state_ok_def)

lemma never_launched_terminal: "is_terminal_state (never_launched_state w state)"
  by (simp add: is_terminal_state_def get_val_def get_or_def never_launched_get)

text \<open>
  The four outcomes: nothing changed, the pane died, the runner was lost, or the launch never
  succeeded. Each of the last three is on file when the reconciliation returns.
\<close>

lemma reconcile_cases:
  assumes r: "reconcile_runner_state paths state pane w = Inr (s', w')" and ok: "session_state_ok state"
  obtains (same) "s' = state"
  | (dead) v where "pn_exists pane" "pn_dead pane" "\<not> is_terminal_state state"
      "s' = dead_pane_state v state (pn_dead_status pane)" "load_session_state w' (sp_state paths) = s'"
  | (lost) v where "lifecycle_of state = ''running''" "\<not> is_terminal_state state"
      "s' = lost_runner_state v state" "load_session_state w' (sp_state paths) = s'"
  | (never) v where "lifecycle_of state \<in> {''created'', ''launching''}" "\<not> pn_exists pane"
      "\<not> is_terminal_state state" "s' = never_launched_state v state"
      "load_session_state w' (sp_state paths) = s'"
proof (cases "is_terminal_state state")
  case True
  with r same show thesis by (simp add: reconcile_runner_state_def res_simps)
next
  case False
  then obtain child runner v where
    "(if pn_exists pane \<and> pn_dead pane then
        finish_session (sp_state paths) state (\<lambda>w. dead_pane_state w state (pn_dead_status pane))
      else if lifecycle_of state = ''running'' \<and> \<not> child \<and> \<not> runner then
        finish_session (sp_state paths) state (\<lambda>w. lost_runner_state w state)
      else bindA (reads (\<lambda>w. state_age_ms w state)) (\<lambda>age.
          if lifecycle_of state \<in> {''created'', ''launching''} \<and> \<not> pn_exists pane \<and> reconcile_grace_ms < age
          then finish_session (sp_state paths) state (\<lambda>w. never_launched_state w state)
          else ret state)) v = Inr (s', w')"
    using r False unfolding reconcile_runner_state_def by (simp only: if_False bindA_Inr) blast
  then consider
      "pn_exists pane \<and> pn_dead pane"
        "finish_session (sp_state paths) state (\<lambda>w. dead_pane_state w state (pn_dead_status pane)) v = Inr (s', w')"
    | "lifecycle_of state = ''running''"
        "finish_session (sp_state paths) state (\<lambda>w. lost_runner_state w state) v = Inr (s', w')"
    | "lifecycle_of state \<in> {''created'', ''launching''}" "\<not> pn_exists pane"
        "finish_session (sp_state paths) state (\<lambda>w. never_launched_state w state) v = Inr (s', w')"
    | "s' = state"
    by (auto simp: res_simps split: if_splits)
  then show thesis
    by cases
      (use False same finish_session_Inr dead_pane_ok [OF ok] lost_runner_ok [OF ok] never_launched_ok [OF ok]
         dead lost never in \<open>blast+\<close>)
qed

lemma reconcile_result:
  assumes "reconcile_runner_state paths state pane w = Inr (s', w')" and "session_state_ok state"
  shows "s' = state \<or> is_terminal_state s' \<and> load_session_state w' (sp_state paths) = s'"
  using assms
  by (cases rule: reconcile_cases)
    (auto simp: dead_pane_state_def lost_runner_state_def finished_state_terminal never_launched_terminal)

lemma reconcile_terminal: "is_terminal_state state \<Longrightarrow> reconcile_runner_state paths state pane = ret state"
  by (simp add: reconcile_runner_state_def)

text \<open>The verdicts.\<close>

lemma verdict_dead_pane:
  "rp_session_state (terminal_report (dead_pane_state w state c) text out) =
     (if c = Some 0 then ''completed'' else ''crashed'')"
  by (cases c) (auto simp: terminal_report_def dead_pane_state_def get_val_def get_or_def finished_state_get
      result_from_exit_code_def report_def Let_def)

lemma verdict_lost_runner:
  "rp_session_state (terminal_report (lost_runner_state w state) text out) = ''crashed''"
  by (simp add: terminal_report_def lost_runner_state_def get_val_def get_or_def finished_state_get
      report_def Let_def)

lemma verdict_never_launched:
  "rp_session_state (terminal_report (never_launched_state w state) text out) = ''stuck''"
  by (simp add: terminal_report_def get_val_def get_or_def never_launched_get report_def Let_def)

lemma verdict_completed:
  "rp_session_state (terminal_report state text out) = ''completed'' \<longleftrightarrow>
     str_or_empty (get_val ''result'' state) = ''success''"
  by (simp add: terminal_report_def report_def Let_def)

section \<open>The vocabulary of the reports\<close>

definition returns :: "'a act \<Rightarrow> ('a \<Rightarrow> bool) \<Rightarrow> bool" where
  "returns m P \<longleftrightarrow> (\<forall>w x w'. m w = Inr (x, w') \<longrightarrow> P x)"

lemma returns_ret [simp]: "returns (ret x) P \<longleftrightarrow> P x"
  by (simp add: returns_def ret_def)

lemma returns_bind [intro]: "(\<And>x. returns (f x) P) \<Longrightarrow> returns (bindA m f) P"
  by (auto simp: returns_def bindA_Inr)

lemma returns_if [intro]: "returns a P \<Longrightarrow> returns b P \<Longrightarrow> returns (if c then a else b) P"
  by simp

lemma returns_prod [intro]: "(\<And>a b. returns (f a b) P) \<Longrightarrow> returns (case p of (a, b) \<Rightarrow> f a b) P"
  by (cases p) simp

definition known_session_state :: "string \<Rightarrow> bool" where
  "known_session_state s \<longleftrightarrow> s \<in> {''completed'', ''crashed'', ''stuck'', ''in_progress'', ''just_started'',
     ''not_found'', ''error''}"

definition ok_report :: "status_report \<Rightarrow> bool" where
  "ok_report rp \<longleftrightarrow> known_session_state (rp_session_state rp)"

lemma ok_report_report [simp]: "ok_report (report s t a n st) \<longleftrightarrow> known_session_state st"
  by (simp add: ok_report_def report_def)

lemma known_states [simp]:
  "known_session_state ''completed''" "known_session_state ''crashed''" "known_session_state ''stuck''"
  "known_session_state ''in_progress''" "known_session_state ''just_started''"
  "known_session_state ''not_found''" "known_session_state ''error''"
  by (simp_all add: known_session_state_def)

lemma ok_terminal_report [simp]: "ok_report (terminal_report s t out)"
  by (simp add: terminal_report_def Let_def)

lemma ok_fixed_reports [simp]:
  "ok_report not_found_status" "ok_report (error_status r)" "ok_report (active_report t c n)"
  "ok_report (starting_report t c n)"
  by (simp_all add: not_found_status_def error_status_def active_report_def starting_report_def Let_def)

lemma known_legacy_idle [simp]: "known_session_state (legacy_idle_state st t)"
  by (simp add: legacy_idle_state_def)

lemma ok_terminal: "returns (terminal_runner_status s st f r) ok_report"
  unfolding terminal_runner_status_def by (intro returns_bind) simp

lemma ok_live: "returns (live_runner_status s p st pane ca ra f c r) ok_report"
  unfolding live_runner_status_def Let_def by (intro returns_bind returns_if ok_terminal) simp_all

lemma ok_legacy_codex: "returns (legacy_codex_session_status s f r) ok_report"
  unfolding legacy_codex_session_status_def Let_def by (intro returns_bind returns_if) simp_all

lemma ok_legacy_live: "returns (legacy_claude_live s f r p ps st cap) ok_report"
  unfolding legacy_claude_live_def Let_def by (intro returns_bind returns_if) simp_all

lemma ok_legacy_claude: "returns (legacy_claude_session_status s f r) ok_report"
  unfolding legacy_claude_session_status_def Let_def
  by (intro returns_bind returns_if ok_legacy_live) simp_all

lemma ok_legacy: "returns (legacy_session_status s f c r) ok_report"
  by (simp add: legacy_session_status_def ok_legacy_codex ok_legacy_claude)

lemma ok_runner: "returns (runner_session_status s f c r) ok_report"
  unfolding runner_session_status_def
  by (intro returns_bind returns_if ok_terminal ok_live ok_legacy) simp_all

lemma session_status_known:
  assumes "session_status s f c r mode w = Inr (rp, w')"
  shows "known_session_state (rp_session_state rp)"
proof -
  have "returns (session_status s f c r mode) ok_report"
    unfolding session_status_def by (intro returns_bind returns_if ok_runner ok_legacy)
  with assms show ?thesis unfolding returns_def ok_report_def by blast
qed

end
