(* ===== verification/Actions.thy ===== *)
theory Actions
  imports Text_Utils
begin

text \<open>
  Rules about actions: what holds of every result (\<open>ensures\<close>), and that an action does not move
  the process (\<open>stays\<close>).
\<close>

section \<open>Answers\<close>

definition answer :: "int \<Rightarrow> pyval dict \<Rightarrow> int act" where   \<comment> \<open>print a JSON object and return the code\<close>
  "answer code payload = bindA (effect (print_json (VDict payload))) (\<lambda>_. ret code)"

definition answer_utf8 :: "int \<Rightarrow> pyval dict \<Rightarrow> int act" where   \<comment> \<open>without escapes for characters outside ASCII\<close>
  "answer_utf8 code payload = bindA (effect (print_json_common (VDict payload))) (\<lambda>_. ret code)"

lemma answer_Inr [res_simps]:
  "answer code payload w = Inr (n, w') \<longleftrightarrow> n = code \<and> w' = print_line (json_dumps style_compact (VDict payload)) w"
  by (auto simp: answer_def act_Inr print_json_def)

text \<open>\<open>v.items()\<close> or a loop over \<open>v\<close>, where each step may raise.\<close>

fun map_res :: "('a \<Rightarrow> 'b res) \<Rightarrow> 'a list \<Rightarrow> 'b list res" where
  "map_res f [] = Inr []"
| "map_res f (x # xs) = ebind (f x) (\<lambda>y. ebind (map_res f xs) (\<lambda>ys. Inr (y # ys)))"

lemma map_res_Inr: "map_res f xs = Inr ys \<longleftrightarrow> list_all2 (\<lambda>x y. f x = Inr y) xs ys"
  by (induction xs arbitrary: ys) (auto simp: ebind_eq_Inr list_all2_Cons1)

section \<open>Postconditions\<close>

definition ensures :: "'a act \<Rightarrow> ('a \<Rightarrow> world \<Rightarrow> bool) \<Rightarrow> bool" where
  "ensures m Q \<longleftrightarrow> (\<forall>w x w'. m w = Inr (x, w') \<longrightarrow> Q x w')"

lemma ensuresD: "ensures m Q \<Longrightarrow> m w = Inr (x, w') \<Longrightarrow> Q x w'"
  by (simp add: ensures_def)

lemma ensures_ret: "(\<And>w. Q x w) \<Longrightarrow> ensures (ret x) Q"
  by (simp add: ensures_def ret_def)

lemma ensures_raise [simp]: "ensures (raiseA e) Q"
  by (simp add: ensures_def raiseA_def)

lemma ensures_bind: "(\<And>x. ensures (f x) Q) \<Longrightarrow> ensures (bindA m f) Q"
  unfolding ensures_def bindA_Inr by blast

lemma ensures_seq: "ensures m P \<Longrightarrow> (\<And>x w y w'. P x w \<Longrightarrow> f x w = Inr (y, w') \<Longrightarrow> Q y w') \<Longrightarrow> ensures (bindA m f) Q"
  unfolding ensures_def bindA_Inr by blast

lemma ensures_if: "(c \<Longrightarrow> ensures a Q) \<Longrightarrow> (\<not> c \<Longrightarrow> ensures b Q) \<Longrightarrow> ensures (if c then a else b) Q"
  by simp

lemma ensures_prod: "(\<And>a b. ensures (f a b) Q) \<Longrightarrow> ensures (case p of (a, b) \<Rightarrow> f a b) Q"
  by (cases p) simp

lemma ensures_weaken: "ensures m P \<Longrightarrow> (\<And>x w. P x w \<Longrightarrow> Q x w) \<Longrightarrow> ensures m Q"
  by (simp add: ensures_def)

lemmas ensures_rules = ensures_bind ensures_if ensures_prod

section \<open>The place of the process\<close>

text \<open>Its directory, its environment and its module.\<close>

definition same_place :: "world \<Rightarrow> world \<Rightarrow> bool" where
  "same_place w w' \<longleftrightarrow> w_cwd w' = w_cwd w \<and> w_env w' = w_env w \<and> w_module w' = w_module w"

definition stays :: "'a act \<Rightarrow> bool" where
  "stays m \<longleftrightarrow> (\<forall>w x w'. m w = Inr (x, w') \<longrightarrow> same_place w w')"

lemma same_place_refl [simp]: "same_place w w"
  by (simp add: same_place_def)

lemma same_place_trans: "same_place u v \<Longrightarrow> same_place v w \<Longrightarrow> same_place u w"
  by (simp add: same_place_def)

lemma same_place_steps [simp]:
  "same_place w (put_file w p c)" "same_place w (unlink w p)" "same_place w (make_dir w p)"
  "same_place w (print_line s w)" "same_place w (happen args w)" "same_place w (sleep_ms n w)"
  by (simp_all add: same_place_def sleep_ms_def)

lemma stays_simps [simp]:
  "stays (ret x)" "stays (raiseA e)" "stays (reads f)" "stays (readsE g)" "stays (command args)"
  "stays (effect h) \<longleftrightarrow> (\<forall>w. same_place w (h w))"
  by (auto simp: stays_def res_simps)

lemma stays_bind [intro]: "stays m \<Longrightarrow> (\<And>x. stays (f x)) \<Longrightarrow> stays (bindA m f)"
  unfolding stays_def bindA_Inr by (blast intro: same_place_trans)

lemma stays_if [intro]: "stays a \<Longrightarrow> stays b \<Longrightarrow> stays (if c then a else b)"
  by simp

lemma stays_prod [intro]: "(\<And>a b. stays (f a b)) \<Longrightarrow> stays (case p of (a, b) \<Rightarrow> f a b)"
  by (cases p) simp

end
