(* ===== verification/Tmux_Spawn.thy ===== *)
theory Tmux_Spawn
  imports Tmux_Status Actions
begin

text \<open>
  \<open>core/tmux_runtime.py\<close>, third part: starting a session. A new session holds a placeholder;
  its state file is written before the pane is respawned with the runner script, which then
  reports the life of the command in the same file. \<open>python_bin\<close> is \<open>sys.executable\<close>; whether
  a file may be executed is asked with the command \<open>test -x\<close>, as file modes are not modelled.
\<close>

section \<open>Quoting for the shell\<close>

definition shell_safe :: "char \<Rightarrow> bool" where   \<comment> \<open>\<open>[\w@%+=:,./-]\<close>, ASCII\<close>
  "shell_safe c \<longleftrightarrow> is_word c \<or> c \<in> set ''@%+=:,./-''"

definition shlex_quote :: "string \<Rightarrow> string" where
  "shlex_quote s =
     (if s = [] then [squote, squote]
      else if list_all shell_safe s then s
      else [squote] @ replace_all [squote] [squote, dquote, squote, dquote, squote] s @ [squote])"

text \<open>How the shell reads a word without expansions.\<close>

datatype quoting = Bare | Single | Double

fun shell_word :: "quoting \<Rightarrow> string \<Rightarrow> string option" where
  "shell_word q [] = (if q = Bare then Some [] else None)"
| "shell_word Bare (c # cs) =
     (if c = squote then shell_word Single cs else if c = dquote then shell_word Double cs
      else if shell_safe c then map_option ((#) c) (shell_word Bare cs) else None)"
| "shell_word Single (c # cs) =
     (if c = squote then shell_word Bare cs else map_option ((#) c) (shell_word Single cs))"
| "shell_word Double (c # cs) =
     (if c = dquote then shell_word Bare cs
      else if c = backtick \<or> c = backslash \<or> c = CHR ''$'' then None
      else map_option ((#) c) (shell_word Double cs))"

section \<open>The shell of the command\<close>

definition tmux_default_shell :: "string act" where
  "tmux_default_shell =
     bindA (command_exists ''tmux'') (\<lambda>b.
     if \<not> b then ret []
     else bindA (command [''tmux'', ''show-options'', ''-gv'', ''default-shell'']) (\<lambda>(out, code).
            ret (if code \<noteq> 0 then [] else strip out)))"

definition resolve_shell_path :: "string \<Rightarrow> string act" where
  "resolve_shell_path candidate =
     (if candidate = [] then ret []
      else if hd candidate = CHR ''/'' then
        bindA (reads (\<lambda>w. is_file w (path_of candidate))) (\<lambda>there.
        if \<not> there then ret []
        else bindA (command [''test'', ''-x'', candidate]) (\<lambda>(_, code). ret (if code = 0 then candidate else [])))
      else which candidate)"

definition resolve_command_shell :: "string act" where
  "resolve_command_shell =
     bindA tmux_default_shell (\<lambda>c1.
     bindA (reads (\<lambda>w. strip (environ_or w ''SHELL'' []))) (\<lambda>c2.
     bindA (which ''bash'') (\<lambda>c3.
     bindA (resolve_shell_path c1) (\<lambda>r1. if r1 \<noteq> [] then ret r1 else
     bindA (resolve_shell_path c2) (\<lambda>r2. if r2 \<noteq> [] then ret r2 else
     bindA (resolve_shell_path c3) (\<lambda>r3. ret (if r3 \<noteq> [] then r3 else ''/bin/sh'')))))))"

section \<open>The runner script\<close>

text \<open>In a \<open>script_line\<close>, \<open>~\<close> stands for a double quote, \<open>@\<close> for a single one and \<open>^\<close> for a backslash.\<close>

definition script_line :: "string \<Rightarrow> string" where
  "script_line s =
     List.map (\<lambda>c. if c = CHR ''~'' then dquote else if c = CHR ''@'' then squote
                    else if c = CHR ''^'' then backslash else c) s"

definition runner_head :: "string \<Rightarrow> string \<Rightarrow> string \<Rightarrow> string \<Rightarrow> string \<Rightarrow> string list" where
  "runner_head root state_file command_file shell python_bin =
     [''#!/usr/bin/env bash'',
      ''set -euo pipefail'',
      [],
      ''cd -- '' @ root,
      [],
      ''STATE_FILE='' @ state_file,
      ''COMMAND_FILE='' @ command_file,
      ''COMMAND_SHELL='' @ shell,
      ''PYTHON_BIN='' @ python_bin,
      []]"

definition runner_writer :: "string list" where
  "runner_writer =
     [''write_state() {'',
      script_line ''  STATE_LIFECYCLE=~$1~ ^'',
      script_line ''  STATE_RESULT=~$2~ ^'',
      script_line ''  STATE_EXIT_CODE=~$3~ ^'',
      script_line ''  STATE_FAILURE_REASON=~$4~ ^'',
      script_line ''  STATE_RUNNER_PID=~${5:-}~ ^'',
      script_line ''  STATE_CHILD_PID=~${6:-}~ ^'',
      script_line ''  STATE_STARTED_AT=~${7:-}~ ^'',
      script_line ''  STATE_FINISHED_AT=~${8:-}~ ^'',
      script_line ''  STATE_FILE=~$STATE_FILE~ ^'',
      script_line ''  ~$PYTHON_BIN~ <<@PY@'',
      ''from __future__ import annotations'',
      ''import json'',
      ''import os'',
      ''import tempfile'',
      ''from datetime import datetime, timezone'',
      ''from pathlib import Path'',
      [],
      script_line ''path = Path(os.environ[~STATE_FILE~])'',
      ''state = {}'',
      ''if path.exists():'',
      ''    try:'',
      script_line ''        loaded = json.loads(path.read_text(encoding=~utf-8~))'',
      ''        if isinstance(loaded, dict):'',
      ''            state = loaded'',
      ''    except Exception:'',
      ''        state = {}'',
      [],
      ''def now_iso() -> str:'',
      script_line ''    return datetime.now(timezone.utc).strftime(~%Y-%m-%dT%H:%M:%SZ~)'',
      [],
      script_line ''state[~schemaVersion~] = 1'',
      script_line ''state[~lifecycle~] = os.environ[~STATE_LIFECYCLE~]'',
      script_line ''state[~result~] = os.environ[~STATE_RESULT~]'',
      script_line ''state[~failureReason~] = os.environ[~STATE_FAILURE_REASON~]'',
      script_line ''state[~updatedAt~] = now_iso()'',
      [],
      script_line ''runner_pid = os.environ.get(~STATE_RUNNER_PID~, ~~)'',
      script_line ''child_pid = os.environ.get(~STATE_CHILD_PID~, ~~)'',
      script_line ''exit_code = os.environ.get(~STATE_EXIT_CODE~, ~~)'',
      script_line ''started_at = os.environ.get(~STATE_STARTED_AT~, ~~)'',
      script_line ''finished_at = os.environ.get(~STATE_FINISHED_AT~, ~~)'',
      [],
      ''if runner_pid:'',
      script_line ''    state[~runnerPid~] = int(runner_pid)'',
      ''if child_pid:'',
      script_line ''    state[~childPid~] = int(child_pid)'',
      ''if started_at:'',
      script_line ''    state[~startedAt~] = started_at'',
      ''if finished_at:'',
      script_line ''    state[~finishedAt~] = finished_at'',
      script_line ''if exit_code != ~~:'',
      script_line ''    state[~exitCode~] = int(exit_code)'',
      [],
      ''path.parent.mkdir(parents=True, exist_ok=True)'',
      script_line ''fd, tmp_name = tempfile.mkstemp(prefix=f~.{path.name}.~, suffix=~.tmp~, dir=str(path.parent))'',
      ''try:'',
      script_line ''    with os.fdopen(fd, ~w~, encoding=~utf-8~) as handle:'',
      script_line ''        handle.write(json.dumps(state, separators=(~,~, ~:~)))'',
      ''        handle.flush()'',
      ''        os.fsync(handle.fileno())'',
      ''    os.replace(tmp_name, path)'',
      ''    os.chmod(path, 0o600)'',
      ''finally:'',
      ''    try:'',
      ''        os.unlink(tmp_name)'',
      ''    except FileNotFoundError:'',
      ''        pass'',
      ''PY'',
      ''}'']"

definition runner_body :: "string list" where
  "runner_body =
     [[],
      ''now_iso() {'',
      ''  date -u +%Y-%m-%dT%H:%M:%SZ'',
      ''}'',
      [],
      ''runner_pid=$$'',
      script_line ''write_state ~launching~ ~~ ~~ ~~ ~$runner_pid~ ~~ ~~ ~~'',
      [],
      script_line ''if [[ ! -f ~$COMMAND_FILE~ ]]; then'',
      script_line ''  finished_at=~$(now_iso)~'',
      script_line ''  write_state ~finished~ ~spawn_error~ ~127~ ~command_file_missing~ ~$runner_pid~ ~~ ~~ ~$finished_at~'',
      ''  exit 127'',
      ''fi'',
      [],
      ''run_payload() {'',
      script_line ''  ~$COMMAND_SHELL~ ~$COMMAND_FILE~'',
      ''}'',
      [],
      ''set +e'',
      ''run_payload &'',
      ''child_pid=$!'',
      script_line ''started_at=~$(now_iso)~'',
      script_line ''write_state ~running~ ~~ ~~ ~~ ~$runner_pid~ ~$child_pid~ ~$started_at~ ~~'',
      script_line ''wait ~$child_pid~'',
      ''exit_code=$?'',
      ''set -e'',
      [],
      script_line ''result=~success~'',
      script_line ''failure_reason=~~'',
      script_line ''if [[ ~$exit_code~ -eq 0 ]]; then'',
      script_line ''  result=~success~'',
      script_line ''elif [[ ~$exit_code~ -eq 126 || ~$exit_code~ -eq 127 ]]; then'',
      script_line ''  result=~spawn_error~'',
      script_line ''  failure_reason=~runner_exec_failed~'',
      script_line ''elif [[ ~$exit_code~ -eq 130 || ~$exit_code~ -eq 131 || ~$exit_code~ -eq 143 ]]; then'',
      script_line ''  result=~interrupted~'',
      script_line ''  failure_reason=~signal_terminated~'',
      ''else'',
      script_line ''  result=~failure~'',
      script_line ''  failure_reason=~exit_nonzero~'',
      ''fi'',
      [],
      script_line ''finished_at=~$(now_iso)~'',
      script_line ''write_state ~finished~ ~$result~ ~$exit_code~ ~$failure_reason~ ~$runner_pid~ ~$child_pid~ ~$started_at~ ~$finished_at~'',
      script_line ''exit ~$exit_code~'']"

definition runner_file_content :: "session_files \<Rightarrow> string \<Rightarrow> string \<Rightarrow> string \<Rightarrow> string" where
  "runner_file_content paths command_shell project_root python_bin =
     join [nl] (runner_head (shlex_quote project_root) (shlex_quote (path_str (sp_state paths)))
                  (shlex_quote (path_str (sp_command paths))) (shlex_quote command_shell) (shlex_quote python_bin)
                @ runner_writer @ runner_body @ [[]])"

definition command_file_content :: "string \<Rightarrow> string" where
  "command_file_content cmd = rstrip cmd @ [nl]"

section \<open>Spawning\<close>

definition resolve_spawn_mode :: "world \<Rightarrow> string \<Rightarrow> string" where
  "resolve_spawn_mode w mode = (if configured_mode w mode = ''legacy'' then ''legacy'' else ''runner'')"

definition new_session_args :: "string \<Rightarrow> string \<Rightarrow> string \<Rightarrow> string list" where
  "new_session_args session root agent =
     [''tmux'', ''new-session'', ''-d'', ''-s'', session, ''-x'', ''200'', ''-y'', ''50'', ''-c'', root,
      ''-e'', ''STORY_AUTOMATOR_CHILD=true'', ''-e'', ''AI_AGENT='' @ agent, ''-e'', ''CLAUDECODE='']"

definition initial_state ::
    "string \<Rightarrow> string \<Rightarrow> string \<Rightarrow> string \<Rightarrow> int \<Rightarrow> session_files \<Rightarrow> string \<Rightarrow> pyval dict" where
  "initial_state session agent root pane_id pane_pid paths created_at =
     [(''schemaVersion'', VInt 1), (''session'', VStr session), (''agent'', VStr agent),
      (''projectRoot'', VStr root), (''paneId'', VStr pane_id), (''panePid'', VInt pane_pid),
      (''runnerPid'', VStr []), (''childPid'', VStr []), (''commandFile'', VStr (path_str (sp_command paths))),
      (''outputHint'', VStr (path_str (sp_output paths))), (''createdAt'', VStr created_at), (''startedAt'', VStr []),
      (''finishedAt'', VStr []), (''updatedAt'', VStr created_at), (''lifecycle'', VStr ''created''),
      (''result'', VStr []), (''exitCode'', VStr []), (''failureReason'', VStr [])]"

text \<open>A failure behind the creation of the session: the session is killed, its files removed.\<close>

definition give_up :: "string \<Rightarrow> string \<Rightarrow> string \<times> int \<Rightarrow> (string \<times> int) act" where
  "give_up session root r = bindA (tmux_kill_session session (Some root)) (\<lambda>_. ret r)"

lemma tmux_pid_world: "tmux_pid s w = Inr (p, w') \<Longrightarrow> w_clock w' = w_clock w"
  by (auto simp: tmux_pid_def tmux_display_def res_simps split: prod.splits)

text \<open>Polling the pane for its process, until \<open>deadline\<close>.\<close>

function await_pane_pid :: "string \<Rightarrow> int \<Rightarrow> int act" where
  "await_pane_pid pane_id deadline w =
     (if w_clock w < deadline then
        (case tmux_pid pane_id w of
           Inl e \<Rightarrow> Inl e
         | Inr (pid, w1) \<Rightarrow>
             if 0 < pid then Inr (pid, w1) else await_pane_pid pane_id deadline (sleep_ms 50 w1))
      else Inr (0, w))"
  by pat_completeness auto
termination
  by (relation "measure (\<lambda>(p, deadline, w). nat (deadline - w_clock w))") (auto dest: tmux_pid_world)

declare await_pane_pid.simps [simp del]

definition start_runner ::
    "string \<Rightarrow> string \<Rightarrow> string \<Rightarrow> session_files \<Rightarrow> string \<Rightarrow> string \<Rightarrow> (string \<times> int) act" where
  "start_runner session agent root paths bash_path pane_id =
     bindA (command [''tmux'', ''set-option'', ''-t'', pane_id, ''remain-on-exit'', ''on'']) (\<lambda>(set_out, set_code).
     if set_code \<noteq> 0 then give_up session root (set_out, set_code)
     else
       bindA (reads now_utc_z) (\<lambda>created_at.
       bindA (tmux_pid session) (\<lambda>pane_pid.
       if pane_pid \<le> 0 then give_up session root (''failed to resolve tmux pane pid'' @ [nl], 1)
       else
         bindA (effect (save_session_state (sp_state paths)
                  (initial_state session agent root pane_id pane_pid paths created_at))) (\<lambda>_.
         bindA (command [''tmux'', ''respawn-pane'', ''-k'', ''-t'', pane_id, bash_path, path_str (sp_runner paths)])
           (\<lambda>(respawn_out, respawn_code).
         if respawn_code \<noteq> 0 then give_up session root (respawn_out, respawn_code)
         else
           bindA (reads (\<lambda>w. w_clock w + 1000)) (\<lambda>deadline.
           bindA (await_pane_pid pane_id deadline) (\<lambda>pid.
           if pid \<le> 0 then give_up session root (''failed to resolve respawned tmux pane pid'' @ [nl], 1)
           else
             bindA (effect (\<lambda>w. snd (update_session_state (sp_state paths)
                      [(''paneId'', VStr pane_id), (''panePid'', VInt pid)] w))) (\<lambda>_.
             ret ([], 0)))))))))"

definition create_runner ::
    "string \<Rightarrow> string \<Rightarrow> string \<Rightarrow> string \<Rightarrow> string \<Rightarrow> string \<Rightarrow> string \<Rightarrow> (string \<times> int) act" where
  "create_runner python_bin session cmd agent bash_path command_shell root =
     bindA (cleanup_stale_terminal_artifacts (Some root) artifact_ttl_seconds) (\<lambda>_.
     bindA (readsE (\<lambda>w. session_paths w session (Some root))) (\<lambda>paths.
     bindA (cleanup_runtime_artifacts session (Some root)) (\<lambda>_.
     bindA (effect (write_private_text (sp_command paths) (command_file_content cmd))) (\<lambda>_.
     bindA (effect (write_private_text (sp_runner paths)
              (runner_file_content paths command_shell root python_bin))) (\<lambda>_.
     bindA (command (new_session_args session root agent @ [''-e'', ''BASH_ENV='', ''/bin/sleep'', ''86400'']))
       (\<lambda>(create_out, create_code).
     if create_code \<noteq> 0 then
       bindA (cleanup_runtime_artifacts session (Some root)) (\<lambda>_. ret (create_out, create_code))
     else
       bindA (tmux_display session ''#{pane_id}'') (\<lambda>pane_id.
       if pane_id = [] then give_up session root (''failed to resolve tmux pane id'' @ [nl], 1)
       else start_runner session agent root paths bash_path pane_id)))))))"

definition spawn_runner :: "string \<Rightarrow> string \<Rightarrow> string \<Rightarrow> string \<Rightarrow> string option \<Rightarrow> (string \<times> int) act" where
  "spawn_runner python_bin session cmd agent project_root =
     bindA (command_exists ''tmux'') (\<lambda>b.
     if \<not> b then ret (''tmux not found'' @ [nl], 1)
     else
       bindA (which ''bash'') (\<lambda>bash_path.
       if bash_path = [] then ret (''bash not found'' @ [nl], 1)
       else
         bindA resolve_command_shell (\<lambda>command_shell.
         bindA (reads (\<lambda>w. path_str (root_of w project_root)))
           (create_runner python_bin session cmd agent bash_path command_shell))))"

definition send_keys :: "string \<Rightarrow> string \<Rightarrow> unit act" where
  "send_keys session keys =
     bindA (command [''tmux'', ''send-keys'', ''-t'', session, keys, ''Enter'']) (\<lambda>_. ret ())"

definition spawn_legacy :: "string \<Rightarrow> string \<Rightarrow> string \<Rightarrow> string option \<Rightarrow> (string \<times> int) act" where
  "spawn_legacy session cmd agent project_root =
     bindA (command_exists ''tmux'') (\<lambda>b.
     if \<not> b then ret (''tmux not found'' @ [nl], 1)
     else
       bindA (reads (\<lambda>w. root_or_default w project_root)) (\<lambda>root.
       bindA (readsE (\<lambda>w. session_paths w session (Some root))) (\<lambda>paths.
       bindA (effect (\<lambda>w. unlink w (sp_state paths))) (\<lambda>_.
       bindA (command (new_session_args session root agent)) (\<lambda>(out, code).
       if code \<noteq> 0 then ret (out, code)
       else if 500 < count_points cmd then
         bindA (effect (write_private_text (sp_command paths) (''#!/bin/bash'' @ [nl] @ cmd @ [nl]))) (\<lambda>_.
         bindA (send_keys session (''bash '' @ path_str (sp_command paths))) (\<lambda>_. ret ([], 0)))
       else bindA (send_keys session cmd) (\<lambda>_. ret ([], 0)))))))"

definition spawn_session ::
    "string \<Rightarrow> string \<Rightarrow> string \<Rightarrow> string \<Rightarrow> string option \<Rightarrow> string \<Rightarrow> (string \<times> int) act" where
  "spawn_session python_bin session cmd agent project_root mode =
     bindA (reads (\<lambda>w. resolve_spawn_mode w mode)) (\<lambda>resolved_mode.
       if resolved_mode = ''legacy'' then spawn_legacy session cmd agent project_root
       else spawn_runner python_bin session cmd agent project_root)"

section \<open>Lemmas\<close>

text \<open>A quoted word is read back as it was.\<close>

lemma shell_word_bare: "list_all shell_safe s \<Longrightarrow> shell_word Bare s = Some s"
proof (induction s)
  case (Cons c s)
  have "c \<noteq> squote \<and> c \<noteq> dquote" using Cons.prems
    by (auto simp: shell_safe_def is_word_def char_class_defs special_chars)
  with Cons show ?case by simp
qed simp

lemma shell_word_single:
  "shell_word Single (concat (List.map (\<lambda>c. if c = squote then [squote, dquote, squote, dquote, squote] else [c]) s)
     @ [squote]) = Some s"
  by (induction s) (auto simp: special_chars)

lemma shell_word_quote: "shell_word Bare (shlex_quote s) = Some s"
proof -
  consider "s = []" | "list_all shell_safe s" "s \<noteq> []" | "\<not> list_all shell_safe s" "s \<noteq> []" by blast
  then show ?thesis
    by cases (use shell_word_single [of s] in \<open>simp_all add: shlex_quote_def shell_word_bare replace_all_char\<close>)
qed

lemma same_place_writes [simp]:
  "same_place w (write_atomic w p c)" "same_place w (write_private_text p c w)" "same_place w (save_session_state p d w)"
  "same_place w (remove_files ps w)"
proof -
  show "same_place w (write_atomic w p c)" for p c by (simp add: same_place_def write_atomic_def)
  then show "same_place w (write_private_text p c w)" "same_place w (save_session_state p d w)"
    by (simp_all add: save_session_state_def write_private_text_def)
  show "same_place w (remove_files ps w)"
    unfolding remove_files_def by (induction ps arbitrary: w) (auto intro: same_place_trans [OF same_place_steps(2)])
qed

lemma root_of_same: "same_place w w' \<Longrightarrow> root_of w' r = root_of w r"
  by (simp add: root_of_def root_or_default_def default_string_def get_project_root_def resolve_def cwd_path_def
      same_place_def environ_or_def environ_def)

lemma session_paths_same: "same_place w w' \<Longrightarrow> session_paths w' s r = session_paths w s r"
  by (simp add: session_paths_def same_place_def artifact_base_dir_def get_project_hash_def environ_or_def environ_def
      root_or_default_def default_string_def get_project_root_def resolve_def cwd_path_def)

text \<open>A failed start leaves none of the session's files.\<close>

definition files_gone :: "world \<Rightarrow> string \<Rightarrow> string \<Rightarrow> bool" where
  "files_gone w session root \<longleftrightarrow>
     (case session_paths w session (Some root) of
        Inl _ \<Rightarrow> True
      | Inr paths \<Rightarrow> list_all (\<lambda>p. file_text w p = None) (artifact_files paths))"

lemma remove_files_gone: "p \<in> set ps \<Longrightarrow> file_text (remove_files ps w) p = None"
  unfolding remove_files_def by (auto simp: fs.load_fold_remove same_file_def)

lemma cleanup_gone:
  assumes "cleanup_runtime_artifacts session (Some root) w = Inr (x, w')"
  shows "files_gone w' session root"
proof -
  obtain paths where p: "session_paths w session (Some root) = Inr paths"
    and w': "w' = remove_files (artifact_files paths) w"
    using assms unfolding cleanup_runtime_artifacts_def bindA_Inr act_Inr by fastforce
  have "session_paths w' session (Some root) = Inr paths"
    unfolding w' using p by (subst session_paths_same [of w]) simp_all
  then have "files_gone w' session root \<longleftrightarrow> list_all (\<lambda>p. file_text w' p = None) (artifact_files paths)"
    by (simp add: files_gone_def)
  then show ?thesis unfolding w' list_all_iff by (simp add: remove_files_gone)
qed

lemma cleanup_then_ret:
  "ensures (bindA (cleanup_runtime_artifacts session (Some root)) (\<lambda>_. ret r)) (\<lambda>x w. x = r \<and> files_gone w session root)"
proof (rule ensures_seq [where P = "\<lambda>_ w. files_gone w session root"])
  show "ensures (cleanup_runtime_artifacts session (Some root)) (\<lambda>_ w. files_gone w session root)"
    using cleanup_gone unfolding ensures_def by blast
qed (simp add: act_Inr)

lemma give_up_result: "ensures (give_up session root r) (\<lambda>x w'. x = r \<and> files_gone w' session root)"
  unfolding give_up_def tmux_kill_session_def bindA_assoc
  by (rule ensures_bind, rule ensures_bind, rule cleanup_then_ret)

definition started_or_clean :: "string \<Rightarrow> string \<Rightarrow> string \<times> int \<Rightarrow> world \<Rightarrow> bool" where
  "started_or_clean session root r w \<longleftrightarrow> r = ([], 0) \<or> snd r \<noteq> 0 \<and> files_gone w session root"

lemma give_up_clean: "snd r \<noteq> 0 \<Longrightarrow> ensures (give_up session root r) (started_or_clean session root)"
  by (rule ensures_weaken [OF give_up_result]) (auto simp: started_or_clean_def)

lemma created_clean:
  "code \<noteq> 0 \<Longrightarrow>
     ensures (bindA (cleanup_runtime_artifacts session (Some root)) (\<lambda>_. ret (out, code))) (started_or_clean session root)"
  by (rule ensures_weaken [OF cleanup_then_ret]) (auto simp: started_or_clean_def)

lemma start_runner_clean:
  "ensures (start_runner session agent root paths bash_path pane_id) (started_or_clean session root)"
  unfolding start_runner_def
  by (intro ensures_rules give_up_clean ensures_ret) (simp_all add: started_or_clean_def)

lemma create_runner_clean:
  "ensures (create_runner python_bin session cmd agent bash_path command_shell root) (started_or_clean session root)"
  unfolding create_runner_def
  by (rule ensures_bind)+
    (intro ensures_prod ensures_if created_clean ensures_bind give_up_clean start_runner_clean; simp)

lemma spawn_place:
  "stays (command_exists n)" "stays (which n)" "stays resolve_command_shell"
  unfolding command_exists_def which_def resolve_command_shell_def tmux_default_shell_def resolve_shell_path_def
  by (intro stays_bind stays_if stays_prod stays_simps)+

lemma spawn_runner_clean:
  assumes "spawn_runner python_bin session cmd agent project_root w = Inr (r, w')"
  shows "r \<in> {(''tmux not found'' @ [nl], 1), (''bash not found'' @ [nl], 1)} \<or>
    started_or_clean session (path_str (root_of w project_root)) r w'"
proof -
  obtain b w1 where b: "command_exists ''tmux'' w = Inr (b, w1)"
    and r: "(if \<not> b then ret (''tmux not found'' @ [nl], 1) else bindA (which ''bash'') (\<lambda>bash_path.
       if bash_path = [] then ret (''bash not found'' @ [nl], 1)
       else bindA resolve_command_shell (\<lambda>command_shell. bindA (reads (\<lambda>w. path_str (root_of w project_root)))
           (create_runner python_bin session cmd agent bash_path command_shell)))) w1 = Inr (r, w')"
    using assms unfolding spawn_runner_def bindA_Inr by blast
  show ?thesis
  proof (cases "\<not> b")
    case True
    with r show ?thesis by (simp add: act_Inr)
  next
    case False
    with r obtain bash w2 where bash: "which ''bash'' w1 = Inr (bash, w2)"
      and r2: "(if bash = [] then ret (''bash not found'' @ [nl], 1)
       else bindA resolve_command_shell (\<lambda>command_shell. bindA (reads (\<lambda>w. path_str (root_of w project_root)))
           (create_runner python_bin session cmd agent bash command_shell))) w2 = Inr (r, w')"
      by (auto simp: bindA_Inr)
    show ?thesis
    proof (cases "bash = []")
      case True
      with r2 show ?thesis by (simp add: act_Inr)
    next
      case False
      with r2 obtain sh w3 where sh: "resolve_command_shell w2 = Inr (sh, w3)"
        and c: "create_runner python_bin session cmd agent bash sh (path_str (root_of w3 project_root)) w3 = Inr (r, w')"
        by (auto simp: bindA_Inr act_Inr)
      have "same_place w w3"
        using spawn_place b bash sh unfolding stays_def by (blast intro: same_place_trans)
      then have "root_of w3 project_root = root_of w project_root"
        by (simp add: root_of_same)
      with ensuresD [OF create_runner_clean c] show ?thesis by simp
    qed
  qed
qed

end
