(* ===== verification/Runtime_Policy.thy ===== *)
theory Runtime_Policy
  imports Runtime_Layout Merge_Laws
begin

text \<open>
  \<open>core/runtime_policy.py\<close>: the orchestration policy. A bundled policy is merged with the
  project's override and the legacy environment variables, its shape is validated, the data
  files it names are resolved inside the allowed roots and stamped with their hashes, and the
  result is kept as a snapshot that a run's state file names by path and hash.
\<close>

section \<open>Containment and shape checks\<close>

definition policy_error :: "string \<Rightarrow> exn + 'a" where
  "policy_error msg = Inl (PolicyError msg)"

definition ensure_within :: "world \<Rightarrow> ppath \<Rightarrow> ppath \<Rightarrow> string \<Rightarrow> ppath res" where
  "ensure_within w path root label =
     (let resolved = resolve w path in
      if relative_to resolved (resolve w root) = None
      then policy_error (label @ '' escapes allowed root: '' @ path_str path)
      else Inr resolved)"

definition is_within :: "world \<Rightarrow> ppath \<Rightarrow> ppath \<Rightarrow> bool" where
  "is_within w path root \<longleftrightarrow> relative_to (resolve w path) (resolve w root) \<noteq> None"

definition is_within_any :: "world \<Rightarrow> ppath \<Rightarrow> ppath list \<Rightarrow> bool" where
  "is_within_any w path roots \<longleftrightarrow> list_ex (is_within w path) roots"

definition display_path :: "world \<Rightarrow> ppath \<Rightarrow> ppath \<Rightarrow> string" where
  "display_path w path project_root =
     (case relative_to (resolve w path) (resolve w project_root) of
        Some p \<Rightarrow> path_str p | None \<Rightarrow> path_str (resolve w path))"

definition expect_dict :: "string \<Rightarrow> string \<Rightarrow> pyval dict \<Rightarrow> pyval dict res" where
  "expect_dict label key payload =
     (case get_val key payload of
        VNone \<Rightarrow> Inr []
      | VDict d \<Rightarrow> Inr d
      | _ \<Rightarrow> policy_error (label @ '' must be an object''))"

definition expect_optional_dict :: "pyval dict \<Rightarrow> string \<Rightarrow> pyval dict res" where
  "expect_optional_dict payload key = expect_dict key key payload"

definition expect_step_dict :: "pyval dict \<Rightarrow> string \<Rightarrow> string \<Rightarrow> pyval dict res" where
  "expect_step_dict contract key step = expect_dict (step @ ''.'' @ key) key contract"

definition expect_optional_nested_dict :: "pyval dict \<Rightarrow> string \<Rightarrow> string \<Rightarrow> pyval dict res" where
  "expect_optional_nested_dict payload key label = expect_dict (label @ ''.'' @ key) key payload"

definition valid_top_level_keys :: "string list" where
  "valid_top_level_keys = [''version'', ''snapshot'', ''runtime'', ''workflow'', ''steps'']"

definition valid_step_names :: "string list" where
  "valid_step_names = [''create'', ''dev'', ''auto'', ''review'', ''retro'']"

definition valid_verifiers :: "string list" where
  "valid_verifiers = [''create_story_artifact'', ''session_exit'', ''review_completion'', ''epic_complete'']"

definition valid_asset_names :: "string list" where
  "valid_asset_names = [''skill'', ''workflow'', ''instructions'', ''checklist'', ''template'']"

definition valid_parser_providers :: "string list" where
  "valid_parser_providers = [''claude'']"

section \<open>Accessors\<close>

text \<open>\<open>d.get(k) or {}\<close>, on which \<open>.get\<close> is called next.\<close>

definition sub_dict :: "string \<Rightarrow> pyval dict \<Rightarrow> pyval dict res" where
  "sub_dict k d = as_dict (or_else (get_val k d) (VDict []))"

definition step_contract :: "pyval dict \<Rightarrow> string \<Rightarrow> pyval dict res" where
  "step_contract policy step =
     ebind (sub_dict ''steps'' policy) (\<lambda>steps.
       case get_val step steps of
         VDict contract \<Rightarrow> Inr contract
       | _ \<Rightarrow> policy_error (''unknown step: '' @ step))"

definition review_max_cycles :: "pyval dict \<Rightarrow> int res" where
  "review_max_cycles policy =
     ebind (sub_dict ''workflow'' policy) (\<lambda>workflow.
     ebind (sub_dict ''repeat'' workflow) (\<lambda>repeat.
     ebind (sub_dict ''review'' repeat) (\<lambda>review.
     py_int (get_or (VInt 5) ''maxCycles'' review))))"

definition crash_max_retries :: "pyval dict \<Rightarrow> int res" where
  "crash_max_retries policy =
     ebind (sub_dict ''workflow'' policy) (\<lambda>workflow.
     ebind (sub_dict ''crash'' workflow) (\<lambda>crash.
     py_int (get_or (VInt 2) ''maxRetries'' crash)))"

record parser_config =
  pc_provider :: string
  pc_model :: string
  pc_timeout :: int

definition parser_runtime_config :: "pyval dict \<Rightarrow> parser_config res" where
  "parser_runtime_config policy =
     ebind (expect_optional_dict policy ''runtime'') (\<lambda>runtime.
     ebind (expect_optional_nested_dict runtime ''parser'' ''runtime'') (\<lambda>parser.
     (let provider = str_field ''provider'' parser; model = str_field ''model'' parser in
      if provider \<notin> set valid_parser_providers
      then policy_error (''runtime.parser.provider must be one of: ''
             @ join '', '' (sorted_strings valid_parser_providers))
      else if model = [] then policy_error ''runtime.parser.model must be a string''
      else (case get_val ''timeoutSeconds'' parser of
              VInt t \<Rightarrow>
                if t \<le> 0 then policy_error ''runtime.parser.timeoutSeconds must be a positive integer''
                else Inr \<lparr>pc_provider = provider, pc_model = model, pc_timeout = t\<rparr>
            | _ \<Rightarrow> policy_error ''runtime.parser.timeoutSeconds must be a positive integer''))))"

section \<open>Validation\<close>

definition unknown_names :: "string list \<Rightarrow> string list \<Rightarrow> string list" where   \<comment> \<open>\<open>sorted(set(xs) - known)\<close>\<close>
  "unknown_names xs known = sorted_strings (List.filter (\<lambda>k. k \<notin> set known) (remdups xs))"

text \<open>
  A required asset is looked up in a set: a list or an object is not hashable.
\<close>

fun valid_assets :: "string \<Rightarrow> pyval list \<Rightarrow> unit res" where
  "valid_assets name [] = Inr ()"
| "valid_assets name (VStr s # xs) =
     (if s \<in> set valid_asset_names then valid_assets name xs
      else policy_error (''invalid required assets for '' @ name))"
| "valid_assets name (VList _ # xs) = Inl TypeError"
| "valid_assets name (VDict _ # xs) = Inl TypeError"
| "valid_assets name (_ # xs) = policy_error (''invalid required assets for '' @ name)"

definition validate_required :: "string \<Rightarrow> pyval \<Rightarrow> unit res" where
  "validate_required name v =
     (case v of
        VList required \<Rightarrow> valid_assets name required
      | _ \<Rightarrow> policy_error (''invalid required assets for '' @ name))"

definition validate_step :: "string \<Rightarrow> pyval \<Rightarrow> unit res" where
  "validate_step name v =
     (case v of
        VDict contract \<Rightarrow>
          ebind (expect_step_dict contract ''assets'' name) (\<lambda>assets.
          ebind (expect_step_dict contract ''prompt'' name) (\<lambda>_.
          ebind (expect_step_dict contract ''parse'' name) (\<lambda>_.
          ebind (expect_step_dict contract ''success'' name) (\<lambda>success.
          (let verifier = str_or_empty (get_val ''verifier'' success) in
           if verifier \<notin> set valid_verifiers
           then policy_error (''invalid verifier for '' @ name @ '': '' @ verifier)
           else validate_required name (or_else (get_val ''required'' assets) (VList [])))))))
      | _ \<Rightarrow> policy_error (''step contract must be an object: '' @ name))"

definition validate_sequence :: "pyval dict \<Rightarrow> pyval \<Rightarrow> unit res" where
  "validate_sequence steps v =
     (case v of
        VList items \<Rightarrow>
          (case List.find (\<lambda>s. \<not> dict_has s steps) (List.map py_str items) of
             None \<Rightarrow> Inr ()
           | Some s \<Rightarrow> policy_error (''workflow.sequence references missing step: '' @ s))
      | _ \<Rightarrow> Inr ())"

definition string_array :: "pyval \<Rightarrow> bool" where
  "string_array v = (case v of VList items \<Rightarrow> list_all is_str items | _ \<Rightarrow> False)"

definition int_or_absent :: "string \<Rightarrow> pyval dict \<Rightarrow> bool" where
  "int_or_absent k d \<longleftrightarrow> \<not> dict_has k d \<or> is_int (get_val k d)"

definition validate_policy_shape :: "pyval dict \<Rightarrow> unit res" where
  "validate_policy_shape policy =
     (let unknown_keys = unknown_names (List.map fst policy) valid_top_level_keys in
      ebind (guard_e (unknown_keys = [])
               (PolicyError (''unknown top-level policy keys: '' @ join '', '' unknown_keys))) (\<lambda>_.
      ebind (expect_optional_dict policy ''snapshot'') (\<lambda>snapshot.
      ebind (guard_e (\<not> (dict_has ''snapshot'' policy \<and> dict_has ''relativeDir'' snapshot
                         \<and> \<not> is_str (get_val ''relativeDir'' snapshot)))
               (PolicyError ''snapshot.relativeDir must be a string'')) (\<lambda>_.
      ebind (expect_optional_dict policy ''runtime'') (\<lambda>runtime.
      ebind (expect_optional_nested_dict runtime ''merge'' ''runtime'') (\<lambda>_.
      ebind (parser_runtime_config policy) (\<lambda>_.
      ebind (expect_optional_dict policy ''workflow'') (\<lambda>workflow.
      ebind (expect_optional_nested_dict workflow ''repeat'' ''workflow'') (\<lambda>repeat.
      ebind (expect_optional_nested_dict repeat ''review'' ''workflow.repeat'') (\<lambda>review.
      ebind (expect_optional_nested_dict workflow ''crash'' ''workflow'') (\<lambda>crash.
      ebind (case get_val ''steps'' policy of
               VDict steps \<Rightarrow> Inr steps
             | _ \<Rightarrow> policy_error ''steps must be an object'') (\<lambda>steps.
      (let unknown_steps = unknown_names (List.map fst steps) valid_step_names;
           sequence = or_else (get_val ''sequence'' workflow) (VList [])
       in
       ebind (guard_e (unknown_steps = [])
                (PolicyError (''unknown step names: '' @ join '', '' unknown_steps))) (\<lambda>_.
       ebind (guard_e (string_array sequence)
                (PolicyError ''workflow.sequence must be a string array'')) (\<lambda>_.
       ebind (guard_e (int_or_absent ''maxCycles'' review)
                (PolicyError ''workflow.repeat.review.maxCycles must be an integer'')) (\<lambda>_.
       ebind (guard_e (int_or_absent ''maxRetries'' crash)
                (PolicyError ''workflow.crash.maxRetries must be an integer'')) (\<lambda>_.
       ebind (validate_sequence steps sequence) (\<lambda>_.
       efold (\<lambda>kv _. validate_step (fst kv) (snd kv)) steps ()))))))))))))))))))"

text \<open>
  The same function on a JSON document that is no object (a snapshot file is not checked for
  that before): \<open>set(policy)\<close> and \<open>policy.get\<close> of the other types.
\<close>

definition validate_policy_value :: "pyval \<Rightarrow> pyval dict res" where
  "validate_policy_value v =
     (case v of
        VDict policy \<Rightarrow> ebind (validate_policy_shape policy) (\<lambda>_. Inr policy)
      | VList items \<Rightarrow>
          if list_all is_str items
          then (let unknown = unknown_names (List.map py_str items) valid_top_level_keys in
                if unknown = [] then Inl AttributeError
                else policy_error (''unknown top-level policy keys: '' @ join '', '' unknown))
          else Inl TypeError
      | VStr s \<Rightarrow>
          if s = [] then Inl AttributeError
          else policy_error (''unknown top-level policy keys: ''
                 @ join '', '' (unknown_names (List.map (\<lambda>c. [c]) s) valid_top_level_keys))
      | _ \<Rightarrow> Inl TypeError)"

section \<open>Merging\<close>

function deep_merge :: "pyval \<Rightarrow> pyval \<Rightarrow> pyval" where
  "deep_merge base override =
     (case base of
        VDict b \<Rightarrow>
          (case override of
             VDict r \<Rightarrow>
               VDict (fold (\<lambda>(key, v) merged.
                        dict_set key
                          (case dict_get key merged of Some u \<Rightarrow> deep_merge u v | None \<Rightarrow> v) merged)
                      r b)
           | _ \<Rightarrow> override)
      | _ \<Rightarrow> override)"
  by pat_completeness auto
termination
  by (relation "measure (size \<circ> snd)") (auto dest: size_dict_value)

declare deep_merge.simps [simp del]

lemma deep_merge_dicts: "deep_merge (VDict b) (VDict r) = VDict (merge_entries deep_merge r b)"
  by (subst deep_merge.simps) (simp add: merge_entries_def)

lemma deep_merge_other: "\<not> (is_dict b \<and> is_dict r) \<Longrightarrow> deep_merge b r = r"
  by (subst deep_merge.simps) (auto split: pyval.splits)

interpretation policy_merge: layered_merge "\<lambda>b r. Inr (deep_merge b r)"
proof unfold_locales
  fix b r :: "pyval dict" and u v w :: pyval
  show "\<exists>m. w = VDict m \<and>
      (\<forall>k. case dict_get k r of
          None \<Rightarrow> dict_get k m = dict_get k b
        | Some x \<Rightarrow> (case dict_get k b of
              None \<Rightarrow> dict_get k m = Some x
            | Some u \<Rightarrow> (\<exists>y. Inr (deep_merge u x) = Inr y \<and> dict_get k m = Some y)))"
    if "(Inr (deep_merge (VDict b) (VDict r)) :: exn + pyval) = Inr w" "wf_val (VDict r)"
    using that by (auto simp: deep_merge_dicts get_merge_entries split: option.split)
  show "(Inr (deep_merge u v) :: exn + pyval) = Inr v" if "is_scalar v"
    using that by (cases v) (simp_all add: deep_merge_other)
  show "(Inr (deep_merge u (VDict r)) :: exn + pyval) = Inr (VDict r)" if "\<not> is_dict u"
    using that by (simp add: deep_merge_other)
qed

text \<open>\<open>sub = contract.get(k)\<close>, and its keys popped when it is a dictionary.\<close>

definition pop_in :: "string \<Rightarrow> string list \<Rightarrow> pyval dict \<Rightarrow> pyval dict" where
  "pop_in k names contract =
     (case dict_get k contract of
        Some (VDict d) \<Rightarrow> dict_set k (VDict (fold dict_pop names d)) contract
      | _ \<Rightarrow> contract)"

definition clear_step :: "pyval \<Rightarrow> pyval" where
  "clear_step v =
     (case v of
        VDict contract \<Rightarrow>
          VDict (pop_in ''success'' [''contractPath'', ''contractHash'']
                  (pop_in ''parse'' [''schemaPath'', ''schemaHash'']
                    (pop_in ''prompt'' [''templatePath'', ''templateHash'']
                      (pop_in ''assets'' [''files''] contract))))
      | _ \<Rightarrow> v)"

text \<open>The steps of a validated policy are an object.\<close>

definition clear_resolved_fields :: "pyval dict \<Rightarrow> pyval dict" where
  "clear_resolved_fields policy =
     (case dict_get ''steps'' policy of
        Some (VDict steps) \<Rightarrow>
          dict_set ''steps'' (VDict (List.map (\<lambda>(k, v). (k, clear_step v)) steps)) policy
      | _ \<Rightarrow> policy)"

text \<open>
  \<open>d.setdefault(k, {})\<close>, changed by \<open>f\<close> and stored back. What is there may be no dictionary:
  then the next \<open>setdefault\<close> is an \<open>AttributeError\<close>, an assignment to an item a \<open>TypeError\<close>.
\<close>

definition in_default :: "string \<Rightarrow> (pyval \<Rightarrow> pyval res) \<Rightarrow> pyval dict \<Rightarrow> pyval dict res" where
  "in_default k f d =
     ebind (f (get_or (VDict []) k d)) (\<lambda>v. Inr (dict_set k v d))"

definition default_in :: "string \<Rightarrow> (pyval \<Rightarrow> pyval res) \<Rightarrow> pyval \<Rightarrow> pyval res" where
  "default_in k f v = ebind (as_dict v) (\<lambda>d. ebind (in_default k f d) (\<lambda>d'. Inr (VDict d')))"

definition put_item :: "string \<Rightarrow> pyval \<Rightarrow> pyval \<Rightarrow> pyval res" where   \<comment> \<open>\<open>v[k] = x\<close>\<close>
  "put_item k x v = (case v of VDict d \<Rightarrow> Inr (VDict (dict_set k x d)) | _ \<Rightarrow> Inl TypeError)"

definition legacy_env_int :: "string \<Rightarrow> string \<Rightarrow> int res" where
  "legacy_env_int name raw =
     of_option (PolicyError (name @ '' must be an integer'')) (int_of_string raw)"

definition apply_legacy_env :: "world \<Rightarrow> pyval dict \<Rightarrow> pyval dict res" where
  "apply_legacy_env w policy =
     (let review_cycles = environ_or w ''MAX_REVIEW_CYCLES'' [];
          crash_retries = environ_or w ''MAX_CRASH_RETRIES'' []
      in
      ebind (if review_cycles = [] then Inr policy
             else ebind (legacy_env_int ''MAX_REVIEW_CYCLES'' review_cycles) (\<lambda>n.
                    in_default ''workflow'' (default_in ''repeat'' (default_in ''review''
                      (put_item ''maxCycles'' (VInt n)))) policy)) (\<lambda>policy1.
      if crash_retries = [] then Inr policy1
      else ebind (legacy_env_int ''MAX_CRASH_RETRIES'' crash_retries) (\<lambda>n.
             in_default ''workflow'' (default_in ''crash''
               (put_item ''maxRetries'' (VInt n))) policy1)))"

section \<open>Resolving data files\<close>

fun data_path_in :: "world \<Rightarrow> ppath \<Rightarrow> ppath list \<Rightarrow> bool \<Rightarrow> bool \<times> ppath option" where
  "data_path_in w raw [] escaped_all = (escaped_all, None)"
| "data_path_in w raw (base # rest) escaped_all =
     (let candidate = resolve w (path_join base raw) in
      if \<not> is_within w candidate base then data_path_in w raw rest escaped_all
      else if is_file w candidate then (False, Some candidate)
      else data_path_in w raw rest False)"

definition resolve_data_path :: "world \<Rightarrow> string \<Rightarrow> ppath \<Rightarrow> ppath \<Rightarrow> string res" where
  "resolve_data_path w path_value project_root bundle_root =
     (case resolve_portable_path w path_value (Some (path_str project_root)) of
        Some portable \<Rightarrow>
          if is_file w portable then Inr (path_str portable)
          else policy_error (''policy data file missing: '' @ path_value)
      | None \<Rightarrow>
          (let raw = path_of path_value;
               allowed_roots = [resolve w bundle_root, resolve w project_root]
           in if is_absolute raw then
                (let resolved = resolve w raw in
                 if \<not> is_within_any w resolved allowed_roots
                 then policy_error (''policy data path escapes allowed roots: '' @ path_value)
                 else if \<not> is_file w resolved
                 then policy_error (''policy data file missing: '' @ path_str raw)
                 else Inr (path_str resolved))
              else
                (case data_path_in w raw allowed_roots True of
                   (_, Some candidate) \<Rightarrow> Inr (path_str candidate)
                 | (True, None) \<Rightarrow> policy_error (''policy data path escapes allowed roots: '' @ path_value)
                 | (False, None) \<Rightarrow> policy_error (''policy data file missing: '' @ path_value))))"

definition set_or_verify_hash ::
    "world \<Rightarrow> string \<Rightarrow> string \<Rightarrow> string \<Rightarrow> pyval dict \<Rightarrow> pyval dict res" where
  "set_or_verify_hash w path_key hash_key label payload =
     (let path = str_field path_key payload in
      if path = [] then Inr payload
      else ebind (read_file w (path_of path)) (\<lambda>content.
        (let actual = md5_hex8 content; expected = str_field hash_key payload in
         if expected \<noteq> [] \<and> expected \<noteq> actual
         then policy_error (label @ '' hash mismatch: '' @ path)
         else Inr (dict_set hash_key (VStr actual) payload))))"

text \<open>The data file that a part of a step names: its path is stored and its hash checked.\<close>

definition stamp ::
    "world \<Rightarrow> ppath \<Rightarrow> ppath \<Rightarrow> string \<Rightarrow> string \<Rightarrow> string \<Rightarrow> string \<Rightarrow> pyval dict \<Rightarrow> pyval dict res" where
  "stamp w project_root bundle_root file_name path_key hash_key label payload =
     ebind (resolve_data_path w file_name project_root bundle_root) (\<lambda>path.
       set_or_verify_hash w path_key hash_key label (dict_set path_key (VStr path) payload))"

definition resolve_required_file ::
    "world \<Rightarrow> ppath \<Rightarrow> ppath \<Rightarrow> pyval list \<Rightarrow> string \<Rightarrow> string \<Rightarrow> string res" where
  "resolve_required_file w path project_root required asset step =
     (if is_file w path then Inr (display_path w path project_root)
      else if VStr asset \<in> set required
      then policy_error (''missing required '' @ asset @ '' asset for '' @ step @ '': '' @ path_str path)
      else Inr [])"

definition candidate_names :: "pyval \<Rightarrow> string list" where
  "candidate_names v =
     (case v of
        VList xs \<Rightarrow> List.map py_str (List.filter (\<lambda>x. is_str x \<and> truth x) xs)
      | _ \<Rightarrow> [])"

fun first_candidate ::
    "world \<Rightarrow> ppath \<Rightarrow> string \<Rightarrow> string list \<Rightarrow> ppath option res" where
  "first_candidate w skill_dir label [] = Inr None"
| "first_candidate w skill_dir label (name # rest) =
     ebind (ensure_within w (path_join skill_dir (path_of name)) skill_dir label) (\<lambda>path.
       if is_file w path then Inr (Some path) else first_candidate w skill_dir label rest)"

definition resolve_candidate_file ::
    "world \<Rightarrow> ppath \<Rightarrow> pyval \<Rightarrow> ppath \<Rightarrow> pyval list \<Rightarrow> string \<Rightarrow> string \<Rightarrow> string res" where
  "resolve_candidate_file w skill_dir candidates project_root required asset step =
     ebind (first_candidate w skill_dir (asset @ '' candidate for '' @ step) (candidate_names candidates))
       (\<lambda>found. case found of
          Some path \<Rightarrow> Inr (display_path w path project_root)
        | None \<Rightarrow>
            (let skill_file = below skill_dir [''SKILL.md''] in
             if asset = ''workflow'' \<and> VStr asset \<in> set required \<and> is_file w skill_file
             then Inr (display_path w skill_file project_root)
             else if VStr asset \<in> set required
             then policy_error (''missing required '' @ asset @ '' asset for '' @ step @ '': ''
                    @ join '', '' (List.map (\<lambda>n. path_str (path_join skill_dir (path_of n)))
                                    (candidate_names candidates)))
             else Inr []))"

definition hashable :: "pyval \<Rightarrow> bool" where
  "hashable v \<longleftrightarrow> \<not> is_list v \<and> \<not> is_dict v"

definition required_set :: "pyval dict \<Rightarrow> pyval list res" where   \<comment> \<open>\<open>set(assets.get("required") or [])\<close>\<close>
  "required_set assets =
     ebind (iter_val (or_else (get_val ''required'' assets) (VList []))) (\<lambda>xs.
       if list_all hashable xs then Inr xs else Inl TypeError)"

definition resolve_step_assets :: "world \<Rightarrow> string \<Rightarrow> pyval dict \<Rightarrow> ppath \<Rightarrow> pyval dict res" where
  "resolve_step_assets w step assets project_root =
     (let skill_name = str_field ''skillName'' assets in
      if skill_name = [] then policy_error (''missing skillName for '' @ step)
      else
        ebind (case resolve_skill_dir w (Some (path_str project_root)) skill_name of
                 Inl (ValueError msg) \<Rightarrow> policy_error msg
               | r \<Rightarrow> r) (\<lambda>skill_dir.
        ebind (required_set assets) (\<lambda>required.
        (let candidate = (\<lambda>key asset.
               resolve_candidate_file w skill_dir (get_val key assets) project_root required asset step)
         in
         ebind (resolve_required_file w (below skill_dir [''SKILL.md'']) project_root required ''skill'' step) (\<lambda>skill.
         ebind (candidate ''workflowCandidates'' ''workflow'') (\<lambda>workflow.
         ebind (candidate ''instructionsCandidates'' ''instructions'') (\<lambda>instructions.
         ebind (candidate ''checklistCandidates'' ''checklist'') (\<lambda>checklist.
         ebind (candidate ''templateCandidates'' ''template'') (\<lambda>template.
         Inr (if skill = []
              then [(''skill'', VStr []), (''workflow'', VStr []), (''instructions'', VStr []),
                    (''checklist'', VStr []), (''template'', VStr [])]
              else [(''skill'', VStr skill), (''workflow'', VStr workflow),
                    (''instructions'', VStr instructions), (''checklist'', VStr checklist),
                    (''template'', VStr template)]))))))))))"

definition resolve_prompt :: "world \<Rightarrow> string \<Rightarrow> ppath \<Rightarrow> ppath \<Rightarrow> pyval dict \<Rightarrow> pyval dict res" where
  "resolve_prompt w name project_root bundle_root prompt =
     (let template_file = str_field ''templateFile'' prompt in
      if template_file = [] then policy_error (''missing prompt template for '' @ name)
      else stamp w project_root bundle_root template_file ''templatePath'' ''templateHash''
             ''policy template'' prompt)"

definition resolve_parse :: "world \<Rightarrow> string \<Rightarrow> ppath \<Rightarrow> ppath \<Rightarrow> pyval dict \<Rightarrow> pyval dict res" where
  "resolve_parse w name project_root bundle_root parse =
     (let schema_file = str_field ''schemaFile'' parse in
      if schema_file = [] then policy_error (''missing parse schema for '' @ name)
      else stamp w project_root bundle_root schema_file ''schemaPath'' ''schemaHash''
             ''policy parse schema'' parse)"

definition resolve_success :: "world \<Rightarrow> ppath \<Rightarrow> ppath \<Rightarrow> pyval dict \<Rightarrow> pyval dict res" where
  "resolve_success w project_root bundle_root success =
     (let contract_file = str_field ''contractFile'' success in
      if contract_file = [] then Inr success
      else stamp w project_root bundle_root contract_file ''contractPath'' ''contractHash''
             ''policy success contract'' success)"

text \<open>A part of a step, made when it is missing, and stored back.\<close>

definition in_part :: "string \<Rightarrow> (pyval dict \<Rightarrow> pyval dict res) \<Rightarrow> pyval dict \<Rightarrow> pyval dict res" where
  "in_part k f contract =
     in_default k (\<lambda>v. ebind (as_dict v) (\<lambda>d. ebind (f d) (\<lambda>d'. Inr (VDict d')))) contract"

definition resolve_step ::
    "world \<Rightarrow> ppath \<Rightarrow> ppath \<Rightarrow> string \<Rightarrow> pyval dict \<Rightarrow> pyval dict res" where
  "resolve_step w project_root bundle_root name contract =
     ebind (in_part ''assets'' (\<lambda>assets.
              ebind (resolve_step_assets w name assets project_root) (\<lambda>files.
                Inr (dict_set ''files'' (VDict files) assets))) contract) (\<lambda>contract1.
     ebind (in_part ''prompt'' (resolve_prompt w name project_root bundle_root) contract1) (\<lambda>contract2.
     ebind (in_part ''parse'' (resolve_parse w name project_root bundle_root) contract2) (\<lambda>contract3.
     in_part ''success'' (resolve_success w project_root bundle_root) contract3)))"

fun each_step :: "(string \<Rightarrow> pyval dict \<Rightarrow> pyval dict res) \<Rightarrow> pyval dict \<Rightarrow> pyval dict res" where
  "each_step f [] = Inr []"
| "each_step f ((name, v) # rest) =
     ebind (as_dict v) (\<lambda>contract. ebind (f name contract) (\<lambda>contract'.
       ebind (each_step f rest) (\<lambda>rest'. Inr ((name, VDict contract') # rest'))))"

definition in_steps :: "(string \<Rightarrow> pyval dict \<Rightarrow> pyval dict res) \<Rightarrow> pyval dict \<Rightarrow> pyval dict res" where
  "in_steps f policy =
     (let steps = get_val ''steps'' policy in
      if truth steps then
        ebind (as_dict steps) (\<lambda>d. ebind (each_step f d) (\<lambda>d'. Inr (dict_set ''steps'' (VDict d') policy)))
      else Inr policy)"

definition resolve_policy_paths :: "world \<Rightarrow> pyval dict \<Rightarrow> ppath \<Rightarrow> ppath \<Rightarrow> pyval dict res" where
  "resolve_policy_paths w policy project_root bundle_root =
     in_steps (resolve_step w project_root bundle_root) policy"

definition resolve_success_paths :: "world \<Rightarrow> pyval dict \<Rightarrow> ppath \<Rightarrow> ppath \<Rightarrow> pyval dict res" where
  "resolve_success_paths w policy project_root bundle_root =
     in_steps (\<lambda>_. in_part ''success'' (resolve_success w project_root bundle_root)) policy"

definition resolve_paths :: "world \<Rightarrow> bool \<Rightarrow> pyval dict \<Rightarrow> ppath \<Rightarrow> ppath \<Rightarrow> pyval dict res" where
  "resolve_paths w resolve_assets policy project_root bundle_root =
     (if resolve_assets then resolve_policy_paths w policy project_root bundle_root
      else resolve_success_paths w policy project_root bundle_root)"

section \<open>Loading\<close>

definition read_policy_json :: "world \<Rightarrow> ppath \<Rightarrow> pyval dict res" where   \<comment> \<open>\<open>_read_json\<close>\<close>
  "read_policy_json w path =
     ebind (read_file w path) (\<lambda>text.
       case json_loads text of
         Inl _ \<Rightarrow> policy_error (''policy json invalid: '' @ path_str path)
       | Inr (VDict d) \<Rightarrow> Inr d
       | Inr _ \<Rightarrow> policy_error (''policy json must be an object: '' @ path_str path))"

definition bundled_skill_root :: "world \<Rightarrow> string option \<Rightarrow> ppath res" where
  "bundled_skill_root w project_root =
     (case bundled_story_skill_root w (Some (path_str (root_of w project_root))) of
        Inr root \<Rightarrow> Inr root
      | Inl _ \<Rightarrow> policy_error ''bundled policy not found'')"

definition load_bundled_policy :: "world \<Rightarrow> string option \<Rightarrow> bool \<Rightarrow> pyval dict res" where
  "load_bundled_policy w project_root resolve_assets =
     (let root = root_of w project_root in
      ebind (bundled_skill_root w (Some (path_str root))) (\<lambda>bundle_root.
      ebind (read_policy_json w (policy_file_of bundle_root)) (\<lambda>policy.
      ebind (validate_policy_shape policy) (\<lambda>_.
      resolve_paths w resolve_assets policy root bundle_root))))"

definition override_path :: "ppath \<Rightarrow> ppath" where
  "override_path root = below root [''_bmad'', ''bmm'', ''story-automator.policy.json'']"

definition merge_policy :: "pyval dict \<Rightarrow> pyval dict \<Rightarrow> pyval dict" where
  "merge_policy base override =
     (case deep_merge (VDict base) (VDict override) of VDict d \<Rightarrow> d | _ \<Rightarrow> [])"

definition load_effective_policy :: "world \<Rightarrow> string option \<Rightarrow> bool \<Rightarrow> pyval dict res" where
  "load_effective_policy w project_root resolve_assets =
     (let root = root_of w project_root in
      ebind (load_bundled_policy w (Some (path_str root)) False) (\<lambda>bundled.
      ebind (if is_file w (override_path root) then read_policy_json w (override_path root) else Inr [])
        (\<lambda>override.
      ebind (apply_legacy_env w (merge_policy bundled override)) (\<lambda>policy.
      ebind (validate_policy_shape policy) (\<lambda>_.
      ebind (bundled_skill_root w (Some (path_str root))) (\<lambda>bundle_root.
      resolve_paths w resolve_assets (clear_resolved_fields policy) root bundle_root))))))"

section \<open>Snapshots\<close>

definition snapshot_relative_dir :: "pyval dict \<Rightarrow> string res" where
  "snapshot_relative_dir policy =
     ebind (expect_optional_dict policy ''snapshot'') (\<lambda>snapshot.
       (let relative_dir = str_field ''relativeDir'' snapshot in
        if relative_dir = [] then policy_error ''snapshot.relativeDir missing'' else Inr relative_dir))"

definition resolve_snapshot_dir :: "world \<Rightarrow> pyval dict \<Rightarrow> ppath \<Rightarrow> ppath res" where
  "resolve_snapshot_dir w policy project_root =
     ebind (snapshot_relative_dir policy) (\<lambda>raw.
       ensure_within w (path_join project_root (path_of raw)) (resolve w project_root) ''snapshot.relativeDir'')"

definition stable_policy_json :: "pyval dict \<Rightarrow> string" where
  "stable_policy_json policy = json_dumps style_indent2 (sort_keys (VDict policy)) @ [nl]"

definition snapshot_stamp :: "string \<Rightarrow> string" where
  "snapshot_stamp stamp_text =
     replace_all ''Z'' [] (replace_all ''T'' ''-'' (replace_all '':'' [] (replace_all ''-'' [] stamp_text)))"

record policy_snapshot =
  sp_policy :: "pyval dict"
  sp_version :: pyval
  sp_hash :: string
  sp_file :: string

definition snapshot_effective_policy :: "world \<Rightarrow> string option \<Rightarrow> (policy_snapshot \<times> world) res" where
  "snapshot_effective_policy w project_root =
     (let root = root_of w project_root in
      ebind (load_effective_policy w (Some (path_str root)) True) (\<lambda>policy.
      ebind (resolve_snapshot_dir w policy root) (\<lambda>snapshot_dir.
      (let stable_json = stable_policy_json policy;
           snapshot_hash = md5_hex8 stable_json;
           snapshot_path = path_join snapshot_dir
             (path_of (snapshot_stamp (now_utc_z w) @ ''-'' @ snapshot_hash @ ''.json''));
           w1 = write_atomic (make_dir w snapshot_dir) snapshot_path stable_json
       in Inr (\<lparr>sp_policy = policy, sp_version = get_or (VInt 1) ''version'' policy,
                sp_hash = snapshot_hash, sp_file = display_path w snapshot_path root\<rparr>, w1)))))"

text \<open>The text of a snapshot whose hash is the expected one, and the policy it holds.\<close>

definition read_snapshot :: "world \<Rightarrow> ppath \<Rightarrow> string \<Rightarrow> string res" where
  "read_snapshot w path expected_hash =
     (if \<not> is_file w path then policy_error (''policy snapshot missing: '' @ path_str path)
      else (case read_file w path of
              Inl e \<Rightarrow>
                if is_os_error e then policy_error (''policy snapshot unreadable: '' @ path_str path)
                else Inl e
            | Inr raw \<Rightarrow>
                (let actual_hash = md5_hex8 raw in
                 if expected_hash \<noteq> [] \<and> actual_hash \<noteq> expected_hash
                 then policy_error (''policy snapshot hash mismatch: expected '' @ expected_hash
                        @ '', got '' @ actual_hash)
                 else Inr raw)))"

definition snapshot_policy :: "ppath \<Rightarrow> string \<Rightarrow> pyval dict res" where
  "snapshot_policy path raw =
     (case json_loads raw of
        Inl _ \<Rightarrow> policy_error (''policy json invalid: '' @ path_str path)
      | Inr v \<Rightarrow> validate_policy_value v)"

definition load_policy_snapshot ::
    "world \<Rightarrow> string \<Rightarrow> string option \<Rightarrow> string \<Rightarrow> bool \<Rightarrow> pyval dict res" where
  "load_policy_snapshot w snapshot_file project_root expected_hash resolve_assets =
     (let root = root_of w project_root in
      ebind (ensure_within w (path_join root (path_of snapshot_file)) root ''policy snapshot'') (\<lambda>path.
      ebind (read_snapshot w path expected_hash) (\<lambda>raw.
      ebind (snapshot_policy path raw) (\<lambda>policy.
      ebind (bundled_skill_root w (Some (path_str root))) (\<lambda>bundle_root.
      resolve_paths w resolve_assets policy root bundle_root)))))"

section \<open>The policy of a run\<close>

definition state_policy_mode :: "pyval dict \<Rightarrow> (string \<times> string \<times> bool) res" where
  "state_policy_mode flds =
     (let snapshot_file = str_field ''policySnapshotFile'' flds;
          snapshot_hash = str_field ''policySnapshotHash'' flds;
          policy_version = str_field ''policyVersion'' flds;
          legacy_policy = lower (str_field ''legacyPolicy'' flds)
      in
      if snapshot_file \<noteq> [] \<or> snapshot_hash \<noteq> [] then
        (if snapshot_file = [] \<or> snapshot_hash = [] then policy_error ''state policy metadata incomplete''
         else if legacy_policy = ''true'' then policy_error ''state policy metadata contradictory''
         else Inr (snapshot_file, snapshot_hash, False))
      else if legacy_policy = ''false'' \<or> policy_version \<noteq> []
      then policy_error ''state policy snapshot missing''
      else Inr ([], [], True))"

definition load_policy_for_state :: "world \<Rightarrow> string \<Rightarrow> string option \<Rightarrow> bool \<Rightarrow> pyval dict res" where
  "load_policy_for_state w state_file project_root resolve_assets =
     (let root = root_of w project_root in
      ebind (case read_file w (path_of state_file) of
               Inl e \<Rightarrow> if is_os_error e then policy_error (''state file unreadable: '' @ state_file) else Inl e
             | Inr text \<Rightarrow> Inr (parse_simple_frontmatter text)) (\<lambda>flds.
      ebind (state_policy_mode flds) (\<lambda>(snapshot_file, snapshot_hash, legacy_mode).
      if \<not> legacy_mode
      then load_policy_snapshot w snapshot_file (Some (path_str root)) snapshot_hash resolve_assets
      else load_bundled_policy w (Some (path_str root)) resolve_assets)))"

definition resolve_state_path :: "world \<Rightarrow> ppath \<Rightarrow> ppath \<Rightarrow> bool \<Rightarrow> string \<Rightarrow> ppath res" where
  "resolve_state_path w project_root path allow_outside label =
     (let candidate = path_join project_root path in
      if allow_outside then Inr (resolve w candidate)
      else ensure_within w candidate (resolve w project_root) label)"

text \<open>Where a run's state file was found: nowhere is the empty path with an empty source.\<close>

definition resolve_policy_state_file ::
    "world \<Rightarrow> string option \<Rightarrow> string option \<Rightarrow> (string \<times> string) res" where
  "resolve_policy_state_file w project_root state_file =
     (let root = root_of w project_root;
          explicit = default_string state_file [];
          env_state = strip (environ_or w ''STORY_AUTOMATOR_STATE_FILE'' []);
          marker = active_marker_path w (Some (path_str root))
      in
      if explicit \<noteq> [] then
        ebind (resolve_state_path w root (expanduser w (path_of explicit)) True ''state file'') (\<lambda>p.
          Inr (path_str p, ''explicit''))
      else if env_state \<noteq> [] then
        ebind (resolve_state_path w root (expanduser w (path_of env_state)) False ''env state file'') (\<lambda>p.
          Inr (path_str p, ''env''))
      else if is_file w marker then
        ebind (case read_policy_json w marker of
                 Inl (PolicyError msg) \<Rightarrow> policy_error (''active-run marker invalid: '' @ msg)
               | r \<Rightarrow> r) (\<lambda>payload.
        (let marker_state = str_field ''stateFile'' payload in
         if marker_state = [] then policy_error ''active-run marker missing stateFile''
         else ebind (resolve_state_path w root (expanduser w (path_of marker_state)) False
                       ''marker state file'') (\<lambda>p. Inr (path_str p, ''marker''))))
      else Inr ([], []))"

definition load_runtime_policy :: "world \<Rightarrow> string option \<Rightarrow> string option \<Rightarrow> bool \<Rightarrow> pyval dict res" where
  "load_runtime_policy w project_root state_file resolve_assets =
     (let root = root_of w project_root; root_str = Some (path_str root) in
      ebind (resolve_policy_state_file w root_str state_file) (\<lambda>(resolved_state, source).
      if resolved_state = [] then load_effective_policy w root_str resolve_assets
      else (let state_path = path_of resolved_state in
            if source \<in> {''env'', ''marker''} \<and> \<not> is_file w state_path
            then policy_error (source @ '' state file missing: '' @ path_str state_path)
            else if source \<noteq> ''explicit'' \<and> \<not> is_file w state_path
            then load_effective_policy w root_str resolve_assets
            else load_policy_for_state w (path_str state_path) root_str resolve_assets)))"

record policy_summary =
  pm_file :: string
  pm_hash :: string
  pm_version :: string
  pm_legacy :: string
  pm_error :: string

text \<open>\<open>str(exc)\<close> of a \<open>PolicyError\<close>; every other exception goes on.\<close>

definition summarize_state_policy_fields :: "world \<Rightarrow> pyval dict \<Rightarrow> string option \<Rightarrow> policy_summary res" where
  "summarize_state_policy_fields w flds project_root =
     (let policy_version = str_field ''policyVersion'' flds;
          attempt = ebind (state_policy_mode flds) (\<lambda>(snapshot_file, snapshot_hash, legacy_mode).
            ebind (if snapshot_file \<noteq> [] \<and> snapshot_hash \<noteq> []
                   then ebind (load_policy_snapshot w snapshot_file
                                 (Some (path_str (root_of w project_root))) snapshot_hash False) (\<lambda>_. Inr ())
                   else Inr ()) (\<lambda>_.
            Inr \<lparr>pm_file = snapshot_file, pm_hash = snapshot_hash, pm_version = policy_version,
                 pm_legacy = (if legacy_mode then ''true'' else ''false''), pm_error = []\<rparr>))
      in case attempt of
           Inl (PolicyError msg) \<Rightarrow>
             Inr \<lparr>pm_file = [], pm_hash = [], pm_version = policy_version, pm_legacy = ''false'', pm_error = msg\<rparr>
         | r \<Rightarrow> r)"

end
