(* ===== verification/Policy_Facts.thy ===== *)
theory Policy_Facts
  imports Runtime_Policy Json_Facts
begin

text \<open>
  What the policy loaders guarantee: paths that round trip through their text, containment of
  every resolved file, hashes that are those of the files, and accessors that cannot fail on
  a validated policy.
\<close>

section \<open>Paths and their text\<close>

definition comp_ok :: "string \<Rightarrow> bool" where
  "comp_ok s \<longleftrightarrow> s \<noteq> [] \<and> s \<noteq> ''.'' \<and> CHR ''/'' \<notin> set s"

definition wf_path :: "ppath \<Rightarrow> bool" where
  "wf_path p \<longleftrightarrow> (\<forall>s \<in> set (parts p). comp_ok s)"

definition wf_cwd :: "world \<Rightarrow> bool" where
  "wf_cwd w \<longleftrightarrow> (\<forall>s \<in> set (w_cwd w). comp_ok s)"

lemma wf_path_of [simp]: "wf_path (path_of s)"
  by (auto simp: wf_path_def comp_ok_def path_of_def dest: split_all_char_pieces)

lemma set_fold_dots: "set (fold_dots acc cs) \<subseteq> set acc \<union> set cs"
proof (induction cs arbitrary: acc)
  case (Cons c cs)
  have "set (tl acc) \<subseteq> set acc" by (cases acc) auto
  then show ?case using Cons.IH [of "tl acc"] Cons.IH [of "c # acc"] by auto
qed simp

lemma wf_resolve: "wf_cwd w \<Longrightarrow> wf_path p \<Longrightarrow> wf_path (resolve w p)"
  using set_fold_dots [of "[]" "parts p"] set_fold_dots [of "[]" "w_cwd w @ parts p"]
  by (auto simp: wf_path_def wf_cwd_def resolve_def resolve_in_def)

lemma wf_path_join: "wf_path p \<Longrightarrow> wf_path q \<Longrightarrow> wf_path (path_join p q)"
  by (auto simp: wf_path_def path_join_def)

lemma filter_comp_ok:
  "\<forall>s \<in> set xs. comp_ok s \<Longrightarrow> List.filter (\<lambda>c. c \<noteq> [] \<and> c \<noteq> ''.'') xs = xs"
  by (auto simp: comp_ok_def filter_id_conv)

lemma parts_path_of_join:
  assumes "\<forall>s \<in> set xs. comp_ok s"
  shows "List.filter (\<lambda>c. c \<noteq> [] \<and> c \<noteq> ''.'') (split_all ''/'' (join ''/'' xs)) = xs"
proof (cases "xs = []")
  case True
  then show ?thesis by (simp add: split_all_char)
next
  case False
  have "split_all ''/'' (join ''/'' xs) = xs"
    by (rule split_join_char [OF False]) (use assms in \<open>auto simp: comp_ok_def\<close>)
  then show ?thesis using filter_comp_ok [OF assms] by simp
qed

lemma path_of_str: "wf_path p \<Longrightarrow> path_of (path_str p) = p"
proof (cases p)
  case (PPath a xs)
  assume wf: "wf_path p"
  with PPath have ok: "\<forall>s \<in> set xs. comp_ok s" by (simp add: wf_path_def)
  show ?thesis
  proof (cases a)
    case True
    then show ?thesis
      using parts_path_of_join [OF ok] PPath by (simp add: path_str_def path_of_def split_all_char)
  next
    case False
    have rel: "join ''/'' xs \<noteq> [] \<and> hd (join ''/'' xs) \<noteq> CHR ''/''" if "xs \<noteq> []"
    proof -
      from that obtain a ys where xs: "xs = a # ys" by (cases xs) auto
      then have "\<exists>r. join ''/'' xs = a @ r" by (cases ys) auto
      moreover have "a \<noteq> []" "CHR ''/'' \<notin> set a" using ok xs by (simp_all add: comp_ok_def)
      moreover from this have "hd a \<noteq> CHR ''/''" by (metis hd_in_set)
      ultimately show ?thesis by auto
    qed
    show ?thesis
    proof (cases "xs = []")
      case True
      with False PPath show ?thesis by (simp add: path_str_def path_of_def split_all_char)
    next
      case nonempty: False
      with rel False PPath parts_path_of_join [OF ok] show ?thesis by (simp add: path_str_def path_of_def)
    qed
  qed
qed

lemma root_of_resolved: "resolve w (root_of w r) = root_of w r" "is_absolute (root_of w r)"
  by (simp_all add: root_of_def)

lemma wf_root_of: "wf_cwd w \<Longrightarrow> wf_path (root_of w r)"
  by (simp add: root_of_def wf_resolve)

text \<open>A resolved root names itself again.\<close>

lemma root_of_root: "wf_cwd w \<Longrightarrow> root_of w (Some (path_str (root_of w r))) = root_of w r"
proof -
  assume wf: "wf_cwd w"
  have "path_str (root_of w r) \<noteq> []" using root_of_resolved(2) by (simp add: path_str_def)
  then have "root_of w (Some (path_str (root_of w r))) = resolve w (path_of (path_str (root_of w r)))"
    by (simp add: root_of_def root_or_default_def default_string_def)
  also have "\<dots> = root_of w r" by (simp add: path_of_str wf_root_of wf root_of_resolved)
  finally show ?thesis .
qed

section \<open>Containment\<close>

lemma ensure_within_Inr:
  "ensure_within w p root l = Inr q \<longleftrightarrow>
     q = resolve w p \<and> prefix (parts (resolve w root)) (parts q)"
  using relative_to_iff [of "resolve w p" "resolve w root"]
  by (auto simp: ensure_within_def policy_error_def Let_def)

lemma is_within_iff: "is_within w p root \<longleftrightarrow> prefix (parts (resolve w root)) (parts (resolve w p))"
  unfolding is_within_def relative_to_iff by simp

lemma data_path_in_Some:
  "data_path_in w raw bases e = (e', Some c) \<Longrightarrow>
     \<exists>base \<in> set bases. c = resolve w (path_join base raw) \<and> is_within w c base \<and> is_file w c"
  by (induction w raw bases e rule: data_path_in.induct) (auto simp: Let_def split: if_splits)

text \<open>Where a data file of a policy may lie.\<close>

definition data_file_ok :: "world \<Rightarrow> ppath \<Rightarrow> ppath \<Rightarrow> ppath \<Rightarrow> bool" where
  "data_file_ok w project_root bundle_root q \<longleftrightarrow>
     is_absolute q \<and> is_file w q \<and>
     (prefix (parts (resolve w project_root)) (parts q) \<or>
      prefix (parts (resolve w bundle_root)) (parts q) \<or>
      (\<exists>skill. plain_name skill \<and>
         prefix (parts (resolve_skills_root w (Some (path_str project_root)) skill False) @ [skill]) (parts q)))"

lemma data_path_contained:
  assumes "resolve_data_path w v project_root bundle_root = Inr s"
  shows "\<exists>q. s = path_str q \<and> data_file_ok w project_root bundle_root q"
proof (cases "resolve_portable_path w v (Some (path_str project_root))")
  case (Some q)
  then have "is_absolute q" "\<exists>skill. plain_name skill \<and>
      prefix (parts (resolve_skills_root w (Some (path_str project_root)) skill False) @ [skill]) (parts q)"
    using skill_relative_below by (auto simp: resolve_portable_path_def split: option.splits)
  with Some assms show ?thesis
    by (auto simp: resolve_data_path_def data_file_ok_def policy_error_def split: if_splits)
next
  case None
  show ?thesis
  proof (cases "is_absolute (path_of v)")
    case True
    with None assms show ?thesis
      by (auto simp: resolve_data_path_def Let_def policy_error_def data_file_ok_def is_within_any_def
          is_within_iff split: if_splits)
  next
    case False
    obtain e c where dp: "data_path_in w (path_of v) [resolve w bundle_root, resolve w project_root] True
        = (e, c)" by (cases "data_path_in w (path_of v) [resolve w bundle_root, resolve w project_root] True")
    with None False assms obtain q where q: "c = Some q" "s = path_str q"
      by (auto simp: resolve_data_path_def Let_def policy_error_def split: option.splits bool.splits)
    from data_path_in_Some [OF dp [unfolded q(1)]] q(2) show ?thesis
      by (auto simp: data_file_ok_def is_within_iff)
  qed
qed

section \<open>Stamped parts\<close>

definition stamped :: "world \<Rightarrow> ppath \<Rightarrow> ppath \<Rightarrow> string \<Rightarrow> string \<Rightarrow> pyval dict \<Rightarrow> bool" where
  "stamped w project_root bundle_root path_key hash_key payload \<longleftrightarrow>
     (\<exists>q content. data_file_ok w project_root bundle_root q \<and>
        dict_get path_key payload = Some (VStr (path_str q)) \<and>
        read_file w (path_of (strip (path_str q))) = Inr content \<and>
        dict_get hash_key payload = Some (VStr (md5_hex8 content)))"

lemma strip_slash: "strip (CHR ''/'' # s) \<noteq> []"
  by (auto simp: strip_def lstrip_def rstrip_def is_space_def dropWhile_eq_Nil_conv)

lemma strip_path_str: "is_absolute q \<Longrightarrow> strip (path_str q) \<noteq> []"
  by (simp add: path_str_def strip_slash)

lemma str_field_put:
  "str_field k (dict_set k' v d) = (if k = k' then strip (str_or_empty v) else str_field k d)"
  by (simp add: str_field_def get_val_def get_or_def dict.get_put)

lemma stamp_Inr:
  assumes st: "stamp w project_root bundle_root v path_key hash_key label payload = Inr payload'"
    and neq: "path_key \<noteq> hash_key"
  shows "stamped w project_root bundle_root path_key hash_key payload'"
    and "str_field hash_key payload \<noteq> [] \<Longrightarrow>
      dict_get hash_key payload' = Some (VStr (str_field hash_key payload))"
    and "k \<noteq> path_key \<Longrightarrow> k \<noteq> hash_key \<Longrightarrow> dict_get k payload' = dict_get k payload"
proof -
  from st obtain s where s: "resolve_data_path w v project_root bundle_root = Inr s"
    and sv: "set_or_verify_hash w path_key hash_key label (dict_set path_key (VStr s) payload) = Inr payload'"
    by (auto simp: stamp_def res_simps)
  from data_path_contained [OF s] obtain q where q: "s = path_str q"
    "data_file_ok w project_root bundle_root q" by blast
  then have ne: "strip s \<noteq> []" by (simp add: strip_path_str data_file_ok_def)
  from sv ne neq obtain content where c: "read_file w (path_of (strip s)) = Inr content"
    "payload' = dict_set hash_key (VStr (md5_hex8 content)) (dict_set path_key (VStr s) payload)"
    "str_field hash_key payload = [] \<or> str_field hash_key payload = md5_hex8 content"
    by (auto simp: set_or_verify_hash_def str_field_put Let_def res_simps policy_error_def split: if_splits)
  show "stamped w project_root bundle_root path_key hash_key payload'"
    using q c neq unfolding stamped_def by (auto simp: dict.get_put)
  show "dict_get hash_key payload' = Some (VStr (str_field hash_key payload))"
    if "str_field hash_key payload \<noteq> []" using that c by (auto simp: dict.get_put)
  show "dict_get k payload' = dict_get k payload" if "k \<noteq> path_key" "k \<noteq> hash_key"
    using that c by (auto simp: dict.get_put)
qed

section \<open>Steps\<close>

lemma in_part_Inr:
  "in_part k f c = Inr c' \<longleftrightarrow>
     (\<exists>d d'. as_dict (get_or (VDict []) k c) = Inr d \<and> f d = Inr d' \<and> c' = dict_set k (VDict d') c)"
  by (auto simp: in_part_def in_default_def res_simps)

lemma each_step_Inr:
  "each_step f d = Inr d' \<longleftrightarrow>
     list_all2 (\<lambda>nv nv'. fst nv = fst nv' \<and>
       (\<exists>c c'. snd nv = VDict c \<and> f (fst nv) c = Inr c' \<and> snd nv' = VDict c')) d d'"
proof (induction f d arbitrary: d' rule: each_step.induct)
  case (2 f name v rest)
  show ?case
  proof (cases v)
    case (VDict c)
    with 2 show ?thesis by (cases d') (auto simp: res_simps list_all2_Cons1)
  qed (auto simp: list_all2_Cons1)
qed auto

lemma in_steps_Inr:
  assumes "in_steps f policy = Inr policy'" and "dict_get ''steps'' policy = Some (VDict d)"
  shows "\<exists>d'. each_step f d = Inr d' \<and> dict_get ''steps'' policy' = Some (VDict d')"
  using assms
  by (cases "d = []") (auto simp: in_steps_def Let_def get_val_def get_or_def res_simps dict.get_put)

definition step_attested :: "world \<Rightarrow> ppath \<Rightarrow> ppath \<Rightarrow> pyval dict \<Rightarrow> bool" where
  "step_attested w project_root bundle_root contract \<longleftrightarrow>
     (\<exists>prompt. dict_get ''prompt'' contract = Some (VDict prompt) \<and>
        stamped w project_root bundle_root ''templatePath'' ''templateHash'' prompt) \<and>
     (\<exists>parse. dict_get ''parse'' contract = Some (VDict parse) \<and>
        stamped w project_root bundle_root ''schemaPath'' ''schemaHash'' parse) \<and>
     (\<exists>success. dict_get ''success'' contract = Some (VDict success) \<and>
        (str_field ''contractFile'' success \<noteq> [] \<longrightarrow>
           stamped w project_root bundle_root ''contractPath'' ''contractHash'' success))"

definition policy_attested :: "world \<Rightarrow> ppath \<Rightarrow> ppath \<Rightarrow> pyval dict \<Rightarrow> bool" where
  "policy_attested w project_root bundle_root policy \<longleftrightarrow>
     (\<exists>steps. dict_get ''steps'' policy = Some (VDict steps) \<and>
        (\<forall>nv \<in> set steps. \<exists>c. snd nv = VDict c \<and> step_attested w project_root bundle_root c))"

lemma resolve_prompt_stamped:
  "resolve_prompt w n pr br d = Inr d' \<Longrightarrow> stamped w pr br ''templatePath'' ''templateHash'' d'"
  by (auto simp: resolve_prompt_def Let_def policy_error_def stamp_Inr(1) split: if_splits)

lemma resolve_parse_stamped:
  "resolve_parse w n pr br d = Inr d' \<Longrightarrow> stamped w pr br ''schemaPath'' ''schemaHash'' d'"
  by (auto simp: resolve_parse_def Let_def policy_error_def stamp_Inr(1) split: if_splits)

lemma resolve_success_stamped:
  assumes "resolve_success w pr br d = Inr d'" "str_field ''contractFile'' d' \<noteq> []"
  shows "stamped w pr br ''contractPath'' ''contractHash'' d'"
  using assms by (auto simp: resolve_success_def Let_def stamp_Inr(1) split: if_splits)

lemma resolve_step_attested:
  assumes "resolve_step w pr br n c = Inr c'"
  shows "step_attested w pr br c'"
proof -
  from assms obtain c1 d1 prompt d2 parse d3 success where
    p: "resolve_prompt w n pr br d1 = Inr prompt" "resolve_parse w n pr br d2 = Inr parse"
      "resolve_success w pr br d3 = Inr success"
    and c': "c' = dict_set ''success'' (VDict success) (dict_set ''parse'' (VDict parse)
         (dict_set ''prompt'' (VDict prompt) c1))"
    unfolding resolve_step_def ebind_eq_Inr in_part_Inr by blast
  show ?thesis
    unfolding step_attested_def c'
    using resolve_prompt_stamped [OF p(1)] resolve_parse_stamped [OF p(2)]
      resolve_success_stamped [OF p(3)]
    by (simp add: dict.get_put)
qed

lemma resolve_policy_attested:
  assumes "resolve_policy_paths w policy pr br = Inr policy'"
    and "dict_get ''steps'' policy = Some (VDict d)"
  shows "policy_attested w pr br policy'"
proof -
  obtain d' where d': "each_step (resolve_step w pr br) d = Inr d'"
    "dict_get ''steps'' policy' = Some (VDict d')"
    using in_steps_Inr [OF assms(1) [unfolded resolve_policy_paths_def] assms(2)] by blast
  have "\<exists>c. snd nv = VDict c \<and> step_attested w pr br c" if "nv \<in> set d'" for nv
    using d'(1) that resolve_step_attested unfolding each_step_Inr
    by (fastforce simp: list_all2_conv_all_nth in_set_conv_nth)
  with d'(2) show ?thesis by (auto simp: policy_attested_def)
qed

section \<open>Validated policies\<close>

lemma expect_dict_Inr:
  "expect_dict l k p = Inr d \<longleftrightarrow> get_val k p = VNone \<and> d = [] \<or> get_val k p = VDict d"
  by (auto simp: expect_dict_def policy_error_def split: pyval.splits)

lemma expect_sub: "expect_dict l k p = Inr d \<Longrightarrow> sub_dict k p = Inr d"
  by (auto simp: expect_dict_Inr sub_dict_def or_else_def)

lemma get_val_VDict: "get_val k p = VDict d \<longleftrightarrow> dict_get k p = Some (VDict d)"
  by (auto simp: get_val_def get_or_def split: option.splits)

lemma steps_object_Inr:
  "(case v of VDict s \<Rightarrow> Inr s | _ \<Rightarrow> policy_error m) = Inr d \<longleftrightarrow> v = VDict d"
  by (auto simp: policy_error_def split: pyval.splits)

lemma validate_inv:
  assumes "validate_policy_shape p = Inr u"
  obtains pc workflow repeat review crash steps where
    "parser_runtime_config p = Inr pc"
    "expect_optional_dict p ''workflow'' = Inr workflow"
    "expect_optional_nested_dict workflow ''repeat'' ''workflow'' = Inr repeat"
    "expect_optional_nested_dict repeat ''review'' ''workflow.repeat'' = Inr review"
    "expect_optional_nested_dict workflow ''crash'' ''workflow'' = Inr crash"
    "dict_get ''steps'' p = Some (VDict steps)"
    "string_array (or_else (get_val ''sequence'' workflow) (VList []))"
    "int_or_absent ''maxCycles'' review" "int_or_absent ''maxRetries'' crash"
    "validate_sequence steps (or_else (get_val ''sequence'' workflow) (VList [])) = Inr ()"
    "efold (\<lambda>kv _. validate_step (fst kv) (snd kv)) steps () = Inr ()"
  using assms
  unfolding validate_policy_shape_def Let_def ebind_eq_Inr guard_e_eq steps_object_Inr get_val_VDict
  by (elim exE conjE) (auto intro: that)

lemma steps_validated:
  "efold (\<lambda>kv _. validate_step (fst kv) (snd kv)) steps () = Inr () \<longleftrightarrow>
     (\<forall>kv \<in> set steps. validate_step (fst kv) (snd kv) = Inr ())"
proof -
  have "(\<exists>e. validate_step n v = Inl e) \<or> validate_step n v = Inr ()" for n v
    by (cases "validate_step n v") auto
  then show ?thesis using efold_check [of steps "\<lambda>kv _. validate_step (fst kv) (snd kv)" "()" "()"] by simp
qed

lemma validated_steps:
  assumes "validate_policy_shape p = Inr u"
  shows "\<exists>d. dict_get ''steps'' p = Some (VDict d) \<and>
    (\<forall>kv \<in> set d. validate_step (fst kv) (snd kv) = Inr ())"
  by (rule validate_inv [OF assms]) (simp add: steps_validated [symmetric])

text \<open>A validated step has a known verifier.\<close>

lemma validate_step_verifier:
  assumes "validate_step n v = Inr ()"
  shows "\<exists>c success. v = VDict c \<and> dict_get ''success'' c = Some (VDict success) \<and>
    str_or_empty (get_val ''verifier'' success) \<in> set valid_verifiers"
proof -
  from assms obtain c success where c: "v = VDict c" "expect_step_dict c ''success'' n = Inr success"
    and ver: "str_or_empty (get_val ''verifier'' success) \<in> set valid_verifiers"
    by (cases v) (auto simp: validate_step_def policy_error_def res_simps Let_def split: if_splits)
  have "success \<noteq> []"
    using ver by (auto simp: str_or_empty_def or_else_def get_val_def get_or_def valid_verifiers_def)
  with c ver show ?thesis by (auto simp: expect_step_dict_def expect_dict_Inr get_val_VDict)
qed

lemma is_int_py_int: "is_int v \<Longrightarrow> \<exists>n. py_int v = Inr n"
  by (cases v) auto

lemma int_or_absent_py_int: "int_or_absent k d \<Longrightarrow> \<exists>n. py_int (get_or (VInt m) k d) = Inr n"
  using is_int_py_int
  by (auto simp: int_or_absent_def get_val_def get_or_def dict_has_get split: option.splits)

lemma validated_counts:
  assumes "validate_policy_shape p = Inr u"
  shows "\<exists>n. review_max_cycles p = Inr n" and "\<exists>n. crash_max_retries p = Inr n"
  using assms
  by (auto elim!: validate_inv simp: review_max_cycles_def crash_max_retries_def expect_optional_dict_def
      expect_optional_nested_dict_def int_or_absent_py_int dest!: expect_sub)

lemma parser_config_ok:
  "parser_runtime_config p = Inr pc \<Longrightarrow>
     pc_provider pc = ''claude'' \<and> pc_model pc \<noteq> [] \<and> 0 < pc_timeout pc"
  by (auto simp: parser_runtime_config_def res_simps policy_error_def Let_def valid_parser_providers_def
      split: if_splits pyval.splits)

lemma validated_step_contract:
  assumes v: "validate_policy_shape p = Inr u" and st: "dict_get ''steps'' p = Some (VDict steps)"
    and n: "dict_has n steps"
  shows "\<exists>c success. step_contract p n = Inr c \<and> dict_get ''success'' c = Some (VDict success) \<and>
    str_or_empty (get_val ''verifier'' success) \<in> set valid_verifiers"
proof -
  obtain x where x: "dict_get n steps = Some x" using n by (auto simp: dict_has_get)
  then have mem: "(n, x) \<in> set steps" by (auto simp: dict_get_def dest: map_of_SomeD)
  from v st have "\<forall>kv \<in> set steps. validate_step (fst kv) (snd kv) = Inr ()"
    using validated_steps by fastforce
  with mem validate_step_verifier [of n x] obtain c success where
    "x = VDict c" "dict_get ''success'' c = Some (VDict success)"
    "str_or_empty (get_val ''verifier'' success) \<in> set valid_verifiers" by force
  moreover have "sub_dict ''steps'' p = Inr steps"
    using st mem by (auto simp: sub_dict_def or_else_def get_val_def get_or_def)
  ultimately show ?thesis using x by (auto simp: step_contract_def get_val_def get_or_def)
qed

text \<open>The steps of the sequence are steps of the policy.\<close>

lemma sequence_steps:
  assumes "validate_sequence steps (VList items) = Inr ()" "list_all is_str items" "VStr s \<in> set items"
  shows "dict_has s steps"
proof (rule ccontr)
  assume "\<not> dict_has s steps"
  moreover have "s \<in> set (List.map py_str items)" using assms(3) by force
  ultimately have "List.find (\<lambda>s. \<not> dict_has s steps) (List.map py_str items) \<noteq> None"
    by (auto simp: find_None_iff)
  with assms(1) show False by (auto simp: validate_sequence_def policy_error_def)
qed

section \<open>The loaders\<close>

lemma resolve_paths_attested:
  assumes "resolve_paths w True policy pr br = Inr p" and "dict_get ''steps'' policy = Some (VDict d)"
  shows "policy_attested w pr br p"
  using resolve_policy_attested assms by (auto simp: resolve_paths_def)

lemma clear_steps:
  "dict_get ''steps'' p = Some (VDict d) \<Longrightarrow>
     dict_get ''steps'' (clear_resolved_fields p) = Some (VDict (List.map (\<lambda>(k, v). (k, clear_step v)) d))"
  by (simp add: clear_resolved_fields_def dict.get_put)

lemma bundled_attested:
  assumes "load_bundled_policy w r True = Inr p"
  shows "\<exists>br. policy_attested w (root_of w r) br p"
proof -
  obtain br policy where "validate_policy_shape policy = Inr ()"
    "resolve_paths w True policy (root_of w r) br = Inr p"
    using assms unfolding load_bundled_policy_def Let_def ebind_eq_Inr by auto
  then show ?thesis using validated_steps resolve_paths_attested by blast
qed

lemma effective_attested:
  assumes "load_effective_policy w r True = Inr p"
  shows "\<exists>br. policy_attested w (root_of w r) br p"
proof -
  obtain br policy where "validate_policy_shape policy = Inr ()"
    "resolve_paths w True (clear_resolved_fields policy) (root_of w r) br = Inr p"
    using assms unfolding load_effective_policy_def Let_def ebind_eq_Inr by auto
  then show ?thesis using validated_steps clear_steps resolve_paths_attested by blast
qed

lemma validate_value_Inr:
  "validate_policy_value v = Inr p \<longleftrightarrow> v = VDict p \<and> validate_policy_shape p = Inr ()"
  by (auto simp: validate_policy_value_def policy_error_def Let_def res_simps split: pyval.splits if_splits)

lemma read_snapshot_Inr:
  "read_snapshot w path h = Inr raw \<longleftrightarrow> read_file w path = Inr raw \<and> (h = [] \<or> md5_hex8 raw = h)"
  by (cases "read_file w path")
    (auto simp: read_snapshot_def policy_error_def Let_def is_file_text
      simp flip: read_file_Inr split: if_splits)

lemma snapshot_policy_Inr:
  "snapshot_policy path raw = Inr p \<longleftrightarrow> json_loads raw = Inr (VDict p) \<and> validate_policy_shape p = Inr ()"
  by (auto simp: snapshot_policy_def policy_error_def validate_value_Inr split: sum.splits)

lemma snapshot_inv:
  assumes "load_policy_snapshot w f r h b = Inr p"
  obtains path raw policy br where
    "path = resolve w (path_join (root_of w r) (path_of f))"
    "prefix (parts (root_of w r)) (parts path)"
    "read_file w path = Inr raw" "h = [] \<or> md5_hex8 raw = h"
    "json_loads raw = Inr (VDict policy)" "validate_policy_shape policy = Inr ()"
    "resolve_paths w b policy (root_of w r) br = Inr p"
  using assms
  unfolding load_policy_snapshot_def Let_def ebind_eq_Inr ensure_within_Inr read_snapshot_Inr
    snapshot_policy_Inr root_of_resolved
  by blast

lemma snapshot_attested:
  assumes "load_policy_snapshot w f r h True = Inr p"
  shows "\<exists>br. policy_attested w (root_of w r) br p"
  by (rule snapshot_inv [OF assms]) (use validated_steps resolve_paths_attested in blast)

lemma state_attested:
  assumes "load_policy_for_state w f r True = Inr p" "wf_cwd w"
  shows "\<exists>br. policy_attested w (root_of w r) br p"
proof -
  let ?r = "Some (path_str (root_of w r))"
  obtain f0 h where "load_policy_snapshot w f0 ?r h True = Inr p \<or> load_bundled_policy w ?r True = Inr p"
    using assms(1) unfolding load_policy_for_state_def Let_def ebind_eq_Inr
    by (auto split: if_splits)
  then show ?thesis using snapshot_attested bundled_attested root_of_root [OF assms(2)] by metis
qed

lemma runtime_attested:
  assumes "load_runtime_policy w r s True = Inr p" "wf_cwd w"
  shows "\<exists>br. policy_attested w (root_of w r) br p"
proof -
  let ?r = "Some (path_str (root_of w r))"
  obtain f0 where "load_policy_for_state w f0 ?r True = Inr p \<or> load_effective_policy w ?r True = Inr p"
    using assms(1) unfolding load_runtime_policy_def Let_def ebind_eq_Inr policy_error_def
    by (auto split: if_splits)
  then show ?thesis
    using state_attested [OF _ assms(2)] effective_attested root_of_root [OF assms(2)] by metis
qed

section \<open>Snapshots\<close>

lemma stamp_no_slash: "CHR ''/'' \<notin> set (snapshot_stamp (now_utc_z w))"
proof -
  have nat: "CHR ''/'' \<notin> set (show_nat n)" for n
    using show_nat_digits [of "CHR ''/''" n] by (auto simp: is_digit_def)
  then have int: "CHR ''/'' \<notin> set (show_int i)" for i by (simp add: show_int_def)
  then have iso: "CHR ''/'' \<notin> set (now_utc_z w)"
    by (simp add: now_utc_z_def Let_def pad2_def split: prod.splits)
  then show ?thesis by (auto simp: snapshot_stamp_def replace_all_char)
qed

definition snapshot_name :: "world \<Rightarrow> string \<Rightarrow> string" where
  "snapshot_name w h = snapshot_stamp (now_utc_z w) @ ''-'' @ h @ ''.json''"

lemma snapshot_name_plain: "plain_name (snapshot_name w (md5_hex8 s))"
proof -
  have "CHR ''/'' \<notin> set (md5_hex8 s)"
    using md5_hex8_class [of "CHR ''/''" s] by (auto simp: hex_class_def)
  moreover have "length (snapshot_name w (md5_hex8 s)) > 2" by (simp add: snapshot_name_def)
  ultimately show ?thesis using stamp_no_slash [of w] by (auto simp: plain_name_def snapshot_name_def)
qed

lemma resolve_file_fixed:
  assumes "is_absolute d" "''..'' \<notin> set (parts d)" "plain_name n"
  shows "resolve w (PPath True (parts d @ [n])) = PPath True (parts d @ [n])"
proof -
  have "''..'' \<notin> set (parts d @ [n])" using assms by (auto simp: plain_name_def)
  then show ?thesis by (simp add: resolve_def resolve_in_def fold_dots_id del: set_append)
qed

text \<open>The text of a path below a root leads back to it, from the root.\<close>

lemma display_roundtrip:
  assumes "wf_path p" "is_absolute p" "resolve w p = p" "resolve w root = root" "prefix (parts root) (parts p)"
  shows "path_join root (path_of (display_path w p root)) = p"
proof -
  have abs: "is_absolute root" using assms(4) by (metis resolve_properties(1))
  have rel: "relative_to p root = Some (PPath False (drop (length (parts root)) (parts p)))"
    using assms abs by (simp add: relative_to_def)
  have "wf_path (PPath False (drop (length (parts root)) (parts p)))"
    using assms(1) by (auto simp: wf_path_def dest: in_set_dropD)
  then have "path_of (display_path w p root) = PPath False (drop (length (parts root)) (parts p))"
    using rel assms(3,4) by (simp add: display_path_def path_of_str)
  moreover obtain ns where "parts p = parts root @ ns" using assms(5) by (auto simp: prefix_def)
  ultimately show ?thesis using abs assms(2) by (cases p) (simp add: path_join_def)
qed

lemma md5_hex8_nonempty [simp]: "md5_hex8 s \<noteq> []"
  by (metis length_md5_hex8 list.size(3) zero_neq_numeral)

lemma root_of_cong: "w_cwd w' = w_cwd w \<Longrightarrow> w_env w' = w_env w \<Longrightarrow> root_of w' r = root_of w r"
  by (simp add: root_of_def root_or_default_def get_project_root_def environ_or_def environ_def
      cwd_path_def resolve_def)

lemma snapshot_inverse:
  assumes snap: "snapshot_effective_policy w r = Inr (s, w')" and wf: "wf_cwd w"
  obtains path where "root_of w' r = root_of w r"
    "resolve w' (path_join (root_of w r) (path_of (sp_file s))) = path"
    "prefix (parts (root_of w r)) (parts path)"
    "read_file w' path = Inr (stable_policy_json (sp_policy s))"
    "sp_hash s = md5_hex8 (stable_policy_json (sp_policy s))"
proof -
  let ?root = "root_of w r"
  obtain policy dir rel where
    dir: "ensure_within w (path_join ?root (path_of rel)) (resolve w ?root) ''snapshot.relativeDir'' = Inr dir"
    and s: "s = \<lparr>sp_policy = policy, sp_version = get_or (VInt 1) ''version'' policy,
        sp_hash = md5_hex8 (stable_policy_json policy),
        sp_file = display_path w (path_join dir (path_of (snapshot_name w (md5_hex8 (stable_policy_json policy)))))
          ?root\<rparr>"
    and w': "w' = write_atomic (make_dir w dir)
        (path_join dir (path_of (snapshot_name w (md5_hex8 (stable_policy_json policy)))))
        (stable_policy_json policy)"
    using snap
    unfolding snapshot_effective_policy_def Let_def ebind_eq_Inr resolve_snapshot_dir_def
    by (auto simp: snapshot_name_def)
  define n where "n = snapshot_name w (md5_hex8 (stable_policy_json policy))"
  define path where "path = path_join dir (path_of n)"
  have plain: "plain_name n" unfolding n_def by (rule snapshot_name_plain)
  have dir_abs: "is_absolute dir" "''..'' \<notin> set (parts dir)" "wf_path dir"
    and dir_in: "prefix (parts ?root) (parts dir)"
    using dir wf_resolve [OF wf, of "path_join ?root (path_of rel)"] wf_root_of [OF wf]
    by (auto simp: ensure_within_Inr wf_path_join root_of_resolved)
  have path: "path = PPath True (parts dir @ [n])"
    using dir_abs plain by (simp add: path_def path_join_def path_of_plain)
  have fixed: "resolve w path = path" unfolding path by (rule resolve_file_fixed [OF dir_abs(1,2) plain])
  have wfp: "wf_path path" using dir_abs(3) plain path by (auto simp: wf_path_def comp_ok_def plain_name_def)
  have inside: "prefix (parts ?root) (parts path)" using dir_in path by auto
  have again: "path_join ?root (path_of (display_path w path ?root)) = path"
    by (rule display_roundtrip [OF wfp _ fixed root_of_resolved(1) inside]) (simp add: path)
  have w'_eq: "w' = write_atomic (make_dir w dir) path (stable_policy_json policy)"
    using w' by (simp add: path_def n_def)
  have "file_text w' path = Some (stable_policy_json policy)"
    by (simp add: w'_eq file_text_write_atomic same_file_def)
  moreover have "resolve w' path = path" using fixed by (simp add: w'_eq resolve_def)
  moreover have "root_of w' r = ?root" by (rule root_of_cong) (simp_all add: w'_eq)
  ultimately show thesis
    using that [of path] inside again s by (simp add: read_file_text n_def [symmetric] path_def [symmetric])
qed

text \<open>
  Loading a snapshot right after it was written reaches the JSON text: the path is found,
  stays inside the root and the hash is the expected one.
\<close>

lemma snapshot_load:
  assumes snap: "snapshot_effective_policy w r = Inr (s, w')" and wf: "wf_cwd w"
  shows "\<exists>path. load_policy_snapshot w' (sp_file s) r (sp_hash s) b =
    ebind (snapshot_policy path (stable_policy_json (sp_policy s))) (\<lambda>policy.
    ebind (bundled_skill_root w' (Some (path_str (root_of w r)))) (\<lambda>br.
    resolve_paths w' b policy (root_of w r) br))"
proof (rule snapshot_inverse [OF snap wf])
  fix path
  assume *: "root_of w' r = root_of w r"
    "resolve w' (path_join (root_of w r) (path_of (sp_file s))) = path"
    "prefix (parts (root_of w r)) (parts path)"
    "read_file w' path = Inr (stable_policy_json (sp_policy s))"
    "sp_hash s = md5_hex8 (stable_policy_json (sp_policy s))"
  then have "ensure_within w' (path_join (root_of w r) (path_of (sp_file s))) (root_of w r) ''policy snapshot''
      = Inr path"
    using root_of_resolved(1) [of w' r] by (simp add: ensure_within_Inr)
  moreover have "read_snapshot w' path (sp_hash s) = Inr (stable_policy_json (sp_policy s))"
    using * by (simp add: read_snapshot_Inr)
  ultimately show ?thesis using *(1) by (intro exI [of _ path]) (simp add: load_policy_snapshot_def Let_def)
qed

text \<open>A snapshot that was changed since is refused, unless its hash collides.\<close>

lemma tampered_snapshot:
  assumes "snapshot_effective_policy w r = Inr (s, w')" "wf_cwd w"
    and "path = resolve w' (path_join (root_of w r) (path_of (sp_file s)))"
    and "md5_hex8 text \<noteq> md5_hex8 (stable_policy_json (sp_policy s))"
  shows "\<exists>msg. load_policy_snapshot (put_file w' path text) (sp_file s) r (sp_hash s) b = Inl (PolicyError msg)"
proof (rule snapshot_inverse [OF assms(1,2)])
  fix p
  assume *: "root_of w' r = root_of w r"
    "resolve w' (path_join (root_of w r) (path_of (sp_file s))) = p"
    "prefix (parts (root_of w r)) (parts p)"
    "sp_hash s = md5_hex8 (stable_policy_json (sp_policy s))"
  have p: "p = path" using *(2) assms(3) by simp
  have root: "root_of (put_file w' path text) r = root_of w r"
    using *(1) root_of_cong [of "put_file w' path text" w' r] by simp
  have "resolve w' path = path" using assms(3) by simp
  then have content: "file_text (put_file w' path text) path = Some text"
    by (simp add: fs.load_store_same)
  have "ensure_within (put_file w' path text) (path_join (root_of w r) (path_of (sp_file s))) (root_of w r)
      ''policy snapshot'' = Inr path"
    using * p root_of_resolved(1) [of w' r] by (simp add: ensure_within_Inr)
  moreover have "\<exists>msg. read_snapshot (put_file w' path text) path (sp_hash s) = Inl (PolicyError msg)"
    using content *(4) assms(4) md5_hex8_nonempty
    by (auto simp: read_snapshot_def is_file_text read_file_text policy_error_def)
  ultimately show ?thesis using root by (auto simp: load_policy_snapshot_def Let_def)
qed

text \<open>The policy of an ASCII snapshot is the policy that was written, its keys sorted.\<close>

lemma snapshot_policy_stable:
  assumes "json_plain (VDict p)"
  shows "\<exists>q. sort_keys (VDict p) = VDict q \<and>
    snapshot_policy path (stable_policy_json p) = ebind (validate_policy_shape q) (\<lambda>_. Inr q)"
proof -
  have ok: "dict_ok p" using assms by simp
  obtain q where q: "sort_keys (VDict p) = VDict q" using dict_get_sort_keys [OF ok] by blast
  have "json_plain (VDict q)" using json_plain_sort_keys [OF assms] q by metis
  then have "json_loads (stable_policy_json p) = Inr (VDict q)"
    unfolding stable_policy_json_def q by (rule json_roundtrip) (simp_all add: blank_def nl_def)
  then show ?thesis using q by (simp add: snapshot_policy_def validate_policy_value_def)
qed

end
