(* ===== verification/Story_Keys.thy ===== *)
theory Story_Keys
  imports Frontmatter
begin

text \<open>
  \<open>core/story_keys.py\<close> and \<open>core/sprint.py\<close> of the story automator: the three spellings of a
  story (\<open>1.2\<close>, \<open>1-2\<close> and \<open>1-2-slug\<close>), and what \<open>sprint-status.yaml\<close> says of it.
\<close>

section \<open>Story keys\<close>

record story_key =
  sk_id :: string
  sk_prefix :: string
  sk_key :: string

definition artifacts_dir :: "string \<Rightarrow> ppath" where
  "artifacts_dir project_root =
     path_join (path_join (path_of project_root) (path_of ''_bmad-output''))
       (path_of ''implementation-artifacts'')"

definition sprint_status_file :: "world \<Rightarrow> string \<Rightarrow> string" where
  "sprint_status_file w project_root =
     (let preferred = path_join (artifacts_dir project_root) (path_of ''sprint-status.yaml'');
          legacy = path_join (path_join (path_of project_root) (path_of ''_bmad-output''))
                     (path_of ''sprint-status.yaml'')
      in if is_file w preferred then path_str preferred
         else if is_file w legacy then path_str legacy
         else path_str preferred)"

definition rx_dotted :: rx where   \<comment> \<open>\<open>\d+\.\d+\<close>\<close>
  "rx_dotted = rseq [rplus rdigit, rlit ''.'', rplus rdigit]"

definition rx_dashed :: rx where   \<comment> \<open>\<open>\d+-\d+\<close>\<close>
  "rx_dashed = rseq [rplus rdigit, rlit ''-'', rplus rdigit]"

definition rx_slugged :: rx where   \<comment> \<open>\<open>\d+-\d+-.+\<close>\<close>
  "rx_slugged = rseq [rplus rdigit, rlit ''-'', rplus rdigit, rlit ''-'', rplus rdot]"

definition dash_prefix :: "string \<Rightarrow> string" where   \<comment> \<open>\<open>"-".join(value.split("-", 2)[:2])\<close>\<close>
  "dash_prefix v = join ''-'' (take 2 (split_max 2 ''-'' v))"

text \<open>The id, the prefix and the key that the spelling alone gives.\<close>

definition key_parts :: "string \<Rightarrow> story_key option" where
  "key_parts v =
     (if re_fullmatch rx_dotted v \<noteq> None
      then Some \<lparr>sk_id = v, sk_prefix = replace_all ''.'' ''-'' v, sk_key = []\<rparr>
      else if re_fullmatch rx_dashed v \<noteq> None
      then Some \<lparr>sk_id = replace_all ''-'' ''.'' v, sk_prefix = v, sk_key = []\<rparr>
      else if re_fullmatch rx_slugged v \<noteq> None
      then Some \<lparr>sk_id = replace_all ''-'' ''.'' (dash_prefix v), sk_prefix = dash_prefix v, sk_key = v\<rparr>
      else None)"

definition rx_status_key :: "string \<Rightarrow> rx" where   \<comment> \<open>\<open>(?m)^\s*(<prefix>-[^:\s]+)\s*:\<close>\<close>
  "rx_status_key pfx =
     rseq [RBol True, rstar rspace,
           RGrp 1 (rseq [rlit (pfx @ ''-''), rplus (RChr (\<lambda>c. c \<noteq> CHR '':'' \<and> \<not> is_space c))]),
           rstar rspace, rlit '':'']"

definition key_from_artifacts :: "world \<Rightarrow> string \<Rightarrow> string \<Rightarrow> string" where
  "key_from_artifacts w project_root pfx =
     (case glob_sorted w (artifacts_dir project_root) (pfx @ ''-*.md'') of
        [] \<Rightarrow> [] | p # _ \<Rightarrow> path_stem p)"

definition key_from_status :: "world \<Rightarrow> string \<Rightarrow> string \<Rightarrow> string res" where
  "key_from_status w project_root pfx =
     (let status_file = path_of (sprint_status_file w project_root) in
      if is_file w status_file then
        ebind (read_file w status_file) (\<lambda>content.
          Inr (case re_search (rx_status_key pfx) content of
                 None \<Rightarrow> [] | Some m \<Rightarrow> strip (rm_grp m 1)))
      else Inr [])"

definition normalize_story_key :: "world \<Rightarrow> string \<Rightarrow> string \<Rightarrow> story_key option res" where
  "normalize_story_key w project_root v =
     (case key_parts v of
        None \<Rightarrow> Inr None
      | Some k \<Rightarrow>
          (let key1 = (if sk_key k = [] then key_from_artifacts w project_root (sk_prefix k)
                       else sk_key k)
           in ebind (if key1 = [] then key_from_status w project_root (sk_prefix k) else Inr key1)
                (\<lambda>key2. Inr (Some (k\<lparr>sk_key := if key2 = [] then sk_prefix k else key2\<rparr>)))))"

section \<open>Sprint status\<close>

record sprint_status =
  ss_found :: bool
  ss_story :: string
  ss_status :: string
  ss_done :: bool
  ss_reason :: string

definition rx_status_line :: "string \<Rightarrow> rx" where   \<comment> \<open>\<open>(?m)^\s*<key>:\s*(\S+)\<close>\<close>
  "rx_status_line key =
     rseq [RBol True, rstar rspace, rlit (key @ '':''), rstar rspace, RGrp 1 (rplus rnspace)]"

definition rx_prefix_line :: "string \<Rightarrow> rx" where
  "rx_prefix_line pfx =
     rseq [RBol True, rstar rspace,
           RGrp 1 (rseq [rlit (pfx @ ''-''), rplus (RChr (\<lambda>c. c \<noteq> CHR '':'' \<and> \<not> is_space c))]),
           rstar rspace, rlit '':'', rstar rspace, RGrp 2 (rplus rnspace)]"

definition status_prefix :: "string \<Rightarrow> string" where
  "status_prefix story =
     (if contains story ''.'' then replace_all ''.'' ''-'' story
      else if re_fullmatch rx_slugged story \<noteq> None then dash_prefix story
      else story)"

definition found_status :: "string \<Rightarrow> string \<Rightarrow> sprint_status" where
  "found_status story status =
     \<lparr>ss_found = True, ss_story = story, ss_status = status, ss_done = (status = ''done''), ss_reason = []\<rparr>"

definition missing_status :: "string \<Rightarrow> string \<Rightarrow> string \<Rightarrow> sprint_status" where
  "missing_status story status reason =
     \<lparr>ss_found = False, ss_story = story, ss_status = status, ss_done = False, ss_reason = reason\<rparr>"

definition status_in :: "string \<Rightarrow> string \<Rightarrow> sprint_status" where
  "status_in content story =
     (case re_search (rx_status_line story) content of
        Some m \<Rightarrow> found_status story (strip (rm_grp m 1))
      | None \<Rightarrow>
          (let pfx = status_prefix story in
           if re_fullmatch rx_dashed pfx = None then missing_status story ''not_found'' []
           else (case re_search (rx_prefix_line pfx) content of
                   Some m \<Rightarrow> found_status (rm_grp m 1) (strip (rm_grp m 2))
                 | None \<Rightarrow> missing_status story ''not_found'' [])))"

definition sprint_status_get :: "world \<Rightarrow> string \<Rightarrow> string \<Rightarrow> sprint_status res" where
  "sprint_status_get w project_root story =
     (let status_file = path_of (sprint_status_file w project_root) in
      if \<not> is_file w status_file
      then Inr (missing_status story ''unknown'' ''sprint-status.yaml not found'')
      else ebind (read_file w status_file) (\<lambda>content. Inr (status_in content story)))"

text \<open>The stories of an epic: the keys seen so far, in order, and how many of them are done.\<close>

fun epic_line :: "string \<Rightarrow> string \<Rightarrow> string list \<times> nat \<Rightarrow> string list \<times> nat" where
  "epic_line epic raw (stories, done_count) =
     (let line = strip raw in
      if line = [] \<or> startswith line ''#'' then (stories, done_count)
      else if \<not> (startswith line (epic @ ''.'') \<or> startswith line (epic @ ''-'')) then (stories, done_count)
      else (case split_once '':'' line of
              None \<Rightarrow> (stories, done_count)
            | Some (left, right) \<Rightarrow>
                (let key = strip left in
                 if key \<in> set stories then (stories, done_count)
                 else (stories @ [key],
                   (case words (strip right) of
                      [] \<Rightarrow> done_count
                    | s # _ \<Rightarrow> if s = ''done'' then Suc done_count else done_count)))))"

definition sprint_status_epic :: "world \<Rightarrow> string \<Rightarrow> string \<Rightarrow> (string list \<times> nat) res" where
  "sprint_status_epic w project_root epic =
     (let status_file = path_of (sprint_status_file w project_root) in
      if \<not> is_file w status_file then Inr ([], 0)
      else ebind (read_file w status_file) (\<lambda>content.
             Inr (fold (epic_line epic) (trim_lines content) ([], 0))))"

section \<open>Lemmas\<close>

lemma read_is_file: "is_file w p \<Longrightarrow> \<exists>c. read_file w p = Inr c"
  by (auto simp: is_file_text read_file_Inr)

lemma key_from_status_total: "\<exists>k. key_from_status w root p = Inr k"
  using read_is_file by (fastforce simp: key_from_status_def Let_def res_simps)

text \<open>The two regular expressions of a story id, spelled out.\<close>

lemma fullmatch_two_numbers:
  assumes "sep \<noteq> []" and "\<not> is_digit (hd sep)"
  shows "re_fullmatch (rseq [rplus rdigit, rlit sep, rplus rdigit]) v \<noteq> None \<longleftrightarrow>
    (\<exists>a b. isdigit a \<and> isdigit b \<and> v = a @ sep @ b)"
  unfolding re_fullmatch_bex rdigit_def rx_bex isdigit_def by simp blast

lemma dotted_iff: "re_fullmatch rx_dotted v \<noteq> None \<longleftrightarrow>
    (\<exists>a b. isdigit a \<and> isdigit b \<and> v = a @ ''.'' @ b)"
  unfolding rx_dotted_def by (rule fullmatch_two_numbers) (simp_all add: is_digit_def)

lemma dashed_iff: "re_fullmatch rx_dashed v \<noteq> None \<longleftrightarrow>
    (\<exists>a b. isdigit a \<and> isdigit b \<and> v = a @ ''-'' @ b)"
  unfolding rx_dashed_def by (rule fullmatch_two_numbers) (simp_all add: is_digit_def)

lemma slugged_iff: "re_fullmatch rx_slugged v \<noteq> None \<longleftrightarrow>
    (\<exists>a b c. isdigit a \<and> isdigit b \<and> c \<noteq> [] \<and> nl \<notin> set c \<and> v = a @ ''-'' @ b @ ''-'' @ c)"
proof -
  have nl: "list_all (\<lambda>c. c \<noteq> CHR 0x0A) w \<longleftrightarrow> nl \<notin> set w" for w
    by (auto simp: list_all_iff nl_def)
  show ?thesis
    unfolding re_fullmatch_bex rx_slugged_def rdigit_def rdot_def rx_bex isdigit_def nl
    apply simp
    apply (rule iffI; elim exE conjE)
    subgoal for a r1 r2 b r3 c by (rule exI [of _ a], simp, rule exI [of _ b], simp)
    subgoal for a b c by (rule exI [of _ a], simp, rule exI [of _ b], simp)
    done
qed

lemma isdigit_no_sep:
  assumes "isdigit a"
  shows "CHR ''-'' \<notin> set a" "CHR ''.'' \<notin> set a"
  using isdigit_char [OF assms, of "CHR ''-''"] isdigit_char [OF assms, of "CHR ''.''"]
  by (auto simp: is_digit_def)

lemma replace_sep:
  "c \<notin> set a \<Longrightarrow> c \<notin> set b \<Longrightarrow> replace_all [c] [d] (a @ c # b) = a @ d # b"
proof -
  have "concat (List.map (\<lambda>x. if x = c then [d] else [x]) s) = s" if "c \<notin> set s" for s
    using that by (induction s) auto
  then show "c \<notin> set a \<Longrightarrow> c \<notin> set b \<Longrightarrow> replace_all [c] [d] (a @ c # b) = a @ d # b"
    by (simp add: replace_all_char)
qed

lemma dash_split_unique:
  "CHR ''-'' \<notin> set a \<Longrightarrow> CHR ''-'' \<notin> set a' \<Longrightarrow> a @ CHR ''-'' # b = a' @ CHR ''-'' # b' \<Longrightarrow> a = a' \<and> b = b'"
  by (metis split_once_char_append option.inject prod.inject)

lemma dash_prefix_slug:
  "isdigit a \<Longrightarrow> isdigit b \<Longrightarrow> dash_prefix (a @ ''-'' @ b @ ''-'' @ c) = a @ ''-'' @ b"
  by (simp add: dash_prefix_def numeral_2_eq_2 split_once_char_append isdigit_no_sep)

text \<open>What each spelling gives.\<close>

lemma not_dotted_dash: "CHR ''-'' \<in> set v \<Longrightarrow> re_fullmatch rx_dotted v = None"
  using dotted_iff [of v] by (auto dest: isdigit_no_sep)

lemma key_parts_dotted:
  "isdigit a \<Longrightarrow> isdigit b \<Longrightarrow> key_parts (a @ ''.'' @ b) =
     Some \<lparr>sk_id = a @ ''.'' @ b, sk_prefix = a @ ''-'' @ b, sk_key = []\<rparr>"
  using dotted_iff [of "a @ ''.'' @ b"] by (auto simp: key_parts_def replace_sep isdigit_no_sep)

lemma key_parts_dashed:
  "isdigit a \<Longrightarrow> isdigit b \<Longrightarrow> key_parts (a @ ''-'' @ b) =
     Some \<lparr>sk_id = a @ ''.'' @ b, sk_prefix = a @ ''-'' @ b, sk_key = []\<rparr>"
  using dashed_iff [of "a @ ''-'' @ b"]
  by (auto simp: key_parts_def not_dotted_dash replace_sep isdigit_no_sep)

lemma not_dashed_slug:
  assumes "isdigit a" "isdigit b"
  shows "re_fullmatch rx_dashed (a @ ''-'' @ b @ ''-'' @ c) = None"
proof (rule ccontr)
  assume "\<not> ?thesis"
  then obtain a' b' where ab: "isdigit a'" "isdigit b'"
    and eq: "a @ CHR ''-'' # (b @ CHR ''-'' # c) = a' @ CHR ''-'' # b'"
    using dashed_iff [of "a @ ''-'' @ b @ ''-'' @ c"] by auto
  then have "b' = b @ CHR ''-'' # c"
    using dash_split_unique [OF _ _ eq] assms isdigit_no_sep by blast
  then show False using isdigit_no_sep(1) [OF ab(2)] by simp
qed

lemma key_parts_slugged:
  "isdigit a \<Longrightarrow> isdigit b \<Longrightarrow> c \<noteq> [] \<Longrightarrow> nl \<notin> set c \<Longrightarrow> key_parts (a @ ''-'' @ b @ ''-'' @ c) =
     Some \<lparr>sk_id = a @ ''.'' @ b, sk_prefix = a @ ''-'' @ b, sk_key = a @ ''-'' @ b @ ''-'' @ c\<rparr>"
  using slugged_iff [of "a @ ''-'' @ b @ ''-'' @ c"] not_dashed_slug [of a b c]
    dash_prefix_slug [of a b c]
  by (auto simp: key_parts_def not_dotted_dash replace_sep isdigit_no_sep)

lemma key_parts_cases:
  assumes "key_parts v = Some k"
  obtains a b where "isdigit a" "isdigit b" "sk_id k = a @ ''.'' @ b" "sk_prefix k = a @ ''-'' @ b"
    "sk_key k = [] \<or> (\<exists>c. sk_key k = sk_prefix k @ ''-'' @ c)"
proof -
  consider (dotted) a b where "isdigit a" "isdigit b" "v = a @ ''.'' @ b"
    | (dashed) a b where "isdigit a" "isdigit b" "v = a @ ''-'' @ b"
    | (slugged) a b c where "isdigit a" "isdigit b" "c \<noteq> []" "nl \<notin> set c" "v = a @ ''-'' @ b @ ''-'' @ c"
    using assms dotted_iff [of v] dashed_iff [of v] slugged_iff [of v]
    by (auto simp: key_parts_def split: if_splits)
  then show thesis
  proof cases
    case dotted
    then show thesis using that [of a b] assms by (auto simp: key_parts_dotted [simplified])
  next
    case dashed
    then show thesis using that [of a b] assms by (auto simp: key_parts_dashed [simplified])
  next
    case slugged
    then show thesis using that [of a b] assms by (auto simp: key_parts_slugged [simplified])
  qed
qed

lemma normalize_total: "\<exists>k. normalize_story_key w root v = Inr k"
  using key_from_status_total
  by (fastforce simp: normalize_story_key_def Let_def res_simps split: option.splits)

lemma epic_line_invariant:
  assumes "distinct (fst st)" "snd st \<le> length (fst st)"
  shows "distinct (fst (epic_line e l st))" "snd (epic_line e l st) \<le> length (fst (epic_line e l st))"
  using assms by (cases st; auto simp: Let_def split: option.splits list.splits)+

lemma epic_lines_invariant:
  "distinct (fst st) \<Longrightarrow> snd st \<le> length (fst st) \<Longrightarrow>
     distinct (fst (fold (epic_line e) ls st)) \<and>
     snd (fold (epic_line e) ls st) \<le> length (fst (fold (epic_line e) ls st))"
  by (induction ls arbitrary: st) (simp_all add: epic_line_invariant)

end
