(* ===== verification/Epic_Parser.thy ===== *)
theory Epic_Parser
  imports Story_Keys
begin

text \<open>
  \<open>core/epic_parser.py\<close>: the stories of an epic file, the complexity score of a story, story
  ranges and the end of an epic.
\<close>

section \<open>Epic files\<close>

record epic_story =
  es_epicNum :: string
  es_epicTitle :: string
  es_storyNum :: string
  es_storyId :: string
  es_title :: string

record epic_file =
  ef_epicTitle :: string
  ef_stories :: "epic_story list"
  ef_count :: nat
  ef_file :: string

definition rx_story :: rx where   \<comment> \<open>\<open>^###\s+Story\s+(\d+)\.(\d+):\s*(.*)$\<close>\<close>
  "rx_story =
     rseq [RBol False, rlit ''###'', rplus rspace, rlit ''Story'', rplus rspace, RGrp 1 (rplus rdigit),
           rlit ''.'', RGrp 2 (rplus rdigit), rlit '':'', rstar rspace, RGrp 3 (rstar rdot), REol False]"

definition rx_epic :: rx where   \<comment> \<open>\<open>^##\s+Epic\s+(\d+):\s*(.*)$\<close>\<close>
  "rx_epic =
     rseq [RBol False, rlit ''##'', rplus rspace, rlit ''Epic'', rplus rspace, RGrp 1 (rplus rdigit),
           rlit '':'', rstar rspace, RGrp 2 (rstar rdot), REol False]"

fun epic_title_in :: "string list \<Rightarrow> string" where
  "epic_title_in [] = []"
| "epic_title_in (line # rest) =
     (if startswith line ''# '' then strip (drop 2 line) else epic_title_in rest)"

fun epic_stories :: "string \<Rightarrow> string list \<Rightarrow> epic_story list" where
  "epic_stories title [] = []"
| "epic_stories title (line # rest) =
     (case re_match rx_epic line of
        Some m \<Rightarrow> epic_stories (strip (rm_grp m 2)) rest
      | None \<Rightarrow>
          (case re_match rx_story line of
             Some m \<Rightarrow>
               \<lparr>es_epicNum = rm_grp m 1, es_epicTitle = title, es_storyNum = rm_grp m 2,
                es_storyId = rm_grp m 1 @ ''.'' @ rm_grp m 2, es_title = strip (rm_grp m 3)\<rparr>
                 # epic_stories title rest
           | None \<Rightarrow> epic_stories title rest))"

definition parse_epic_file :: "world \<Rightarrow> string \<Rightarrow> epic_file res" where
  "parse_epic_file w epic_file =
     ebind (read_file w (path_of epic_file)) (\<lambda>content.
       (let ls = trim_lines content; stories = epic_stories [] ls
        in Inr \<lparr>ef_epicTitle = epic_title_in ls, ef_stories = stories, ef_count = length stories,
                ef_file = epic_file\<rparr>))"

section \<open>Complexity rules\<close>

text \<open>
  The patterns of the rules are regular expressions of the data file, compiled with
  \<open>re.IGNORECASE\<close>. The reader below knows what the shipped patterns use: literals,
  alternatives, groups, \<open>.\<close>, character sets, escapes, and the quantifiers \<open>?\<close>, \<open>*\<close> and
  \<open>+\<close>. Any other construct is reported as an error.
\<close>

definition nocase :: "(char \<Rightarrow> bool) \<Rightarrow> char \<Rightarrow> bool" where
  "nocase p c \<longleftrightarrow> p (lower_char c) \<or> p c \<or> (is_lower c \<and> p (char_of ((of_char c :: nat) - 32)))"

definition rx_escape :: "char \<Rightarrow> rx option" where
  "rx_escape c =
     (if c = CHR ''d'' then Some rdigit
      else if c = CHR ''D'' then Some (RChr (\<lambda>x. \<not> is_digit x))
      else if c = CHR ''s'' then Some rspace
      else if c = CHR ''S'' then Some rnspace
      else if c = CHR ''w'' then Some rword
      else if c = CHR ''b'' then Some RWordB
      else if is_word c then None
      else Some (RChr (\<lambda>x. x = c)))"

definition rx_set :: "string \<Rightarrow> (rx \<times> string) option" where   \<comment> \<open>behind the opening bracket\<close>
  "rx_set s =
     (let neg = (s \<noteq> [] \<and> hd s = CHR ''^''); q = (if neg then tl s else s);
          first = (if q \<noteq> [] \<and> hd q = CHR '']'' then [CHR '']''] else []);
          body = takeWhile (\<lambda>c. c \<noteq> CHR '']'') (drop (length first) q);
          r = drop (length first + length body) q
      in if r = [] \<or> backslash \<in> set body then None
         else Some (RChr (\<lambda>c. nocase (in_bracket (first @ body)) c \<noteq> neg), tl r))"

definition quantified :: "rx \<Rightarrow> string \<Rightarrow> rx \<times> string" where
  "quantified a s =
     (case s of
        c # r \<Rightarrow>
          if c = CHR ''?'' then (ropt a, r)
          else if c = CHR ''*'' then (rstar a, r)
          else if c = CHR ''+'' then (rplus a, r)
          else (a, s)
      | [] \<Rightarrow> (a, s))"

fun rx_alts :: "nat \<Rightarrow> string \<Rightarrow> (rx \<times> string) option"
  and rx_items :: "nat \<Rightarrow> string \<Rightarrow> (rx \<times> string) option"
  and rx_atom :: "nat \<Rightarrow> string \<Rightarrow> (rx \<times> string) option" where
  "rx_alts 0 s = None"
| "rx_alts (Suc n) s =
     (case rx_items n s of
        None \<Rightarrow> None
      | Some (a, r) \<Rightarrow>
          (case r of
             c # r' \<Rightarrow>
               if c = CHR ''|'' then map_option (\<lambda>(b, r''). (RAlt a b, r'')) (rx_alts n r')
               else Some (a, r)
           | [] \<Rightarrow> Some (a, r)))"
| "rx_items 0 s = None"
| "rx_items (Suc n) s =
     (if s = [] \<or> hd s = CHR ''|'' \<or> hd s = CHR '')'' then Some (REps, s)
      else (case rx_atom n s of
              None \<Rightarrow> None
            | Some (a, r) \<Rightarrow>
                (let (q, r') = quantified a r
                 in map_option (\<lambda>(b, r''). (RSeq q b, r'')) (rx_items n r'))))"
| "rx_atom 0 s = None"
| "rx_atom (Suc n) s =
     (case s of
        [] \<Rightarrow> None
      | c # r \<Rightarrow>
          if c = CHR ''('' then
            (if r \<noteq> [] \<and> hd r = CHR ''?'' then None
             else (case rx_alts n r of
                     Some (a, e # r') \<Rightarrow> if e = CHR '')'' then Some (a, r') else None
                   | _ \<Rightarrow> None))
          else if c = CHR ''['' then rx_set r
          else if c = CHR ''.'' then Some (rdot, r)
          else if c = backslash then
            (case r of [] \<Rightarrow> None | e # r' \<Rightarrow> map_option (\<lambda>a. (a, r')) (rx_escape e))
          else if c \<in> {CHR ''?'', CHR ''*'', CHR ''+'', CHR ''{'', CHR ''^'', CHR ''$''} then None
          else Some (RChr (\<lambda>x. lower_char x = lower_char c), r))"

definition rx_of_pattern :: "string \<Rightarrow> rx option" where
  "rx_of_pattern p =
     (case rx_alts (3 * length p + 3) p of
        Some (a, r) \<Rightarrow> if r = [] then Some a else None
      | None \<Rightarrow> None)"

definition pattern_hit :: "string \<Rightarrow> string \<Rightarrow> bool res" where
  "pattern_hit pattern text =
     (case rx_of_pattern pattern of
        None \<Rightarrow> Inl (ValueError ''pattern'')
      | Some r \<Rightarrow> Inr (re_test r text))"

text \<open>
  \<open>rule.get("pattern", "")\<close>: a pattern that is not a string is a \<open>TypeError\<close> of \<open>re.search\<close>.
\<close>

definition as_string :: "pyval \<Rightarrow> string res" where
  "as_string v = (case v of VStr s \<Rightarrow> Inr s | _ \<Rightarrow> Inl TypeError)"

definition score_rule :: "string \<Rightarrow> pyval \<Rightarrow> int \<times> string list \<Rightarrow> (int \<times> string list) res" where
  "score_rule content rule acc =
     ebind (as_dict rule) (\<lambda>r.
       (let pattern = get_or (VStr []) ''pattern'' r in
        if \<not> truth pattern then Inr acc
        else ebind (ebind (as_string pattern) (\<lambda>p. pattern_hit p content)) (\<lambda>hit.
          if \<not> hit then Inr acc
          else ebind (py_int (get_or (VInt 0) ''score'' r)) (\<lambda>n.
            Inr (fst acc + n, snd acc @ [py_str (get_or (VStr []) ''label'' r)])))))"

definition int_of :: "string \<Rightarrow> pyval dict \<Rightarrow> int res" where   \<comment> \<open>\<open>int(d.get(k, 0))\<close>\<close>
  "int_of k d = py_int (get_or (VInt 0) k d)"

definition flag_of :: "string \<Rightarrow> pyval dict \<Rightarrow> bool" where   \<comment> \<open>\<open>d.get(k, 0)\<close> as a condition\<close>
  "flag_of k d = truth (get_or (VInt 0) k d)"

definition add_score :: "string \<Rightarrow> pyval dict \<Rightarrow> string \<Rightarrow> int \<times> string list \<Rightarrow> (int \<times> string list) res" where
  "add_score k d reason acc = ebind (int_of k d) (\<lambda>n. Inr (fst acc + n, snd acc @ [reason]))"

text \<open>\<open>structural.get(k, 0) and ac_count > int(structural[k])\<close>.\<close>

definition exceeds :: "string \<Rightarrow> pyval dict \<Rightarrow> int \<Rightarrow> bool res" where
  "exceeds k d n = (if flag_of k d then ebind (int_of k d) (\<lambda>m. Inr (m < n)) else Inr False)"

definition score_structure ::
    "pyval dict \<Rightarrow> nat \<Rightarrow> string \<Rightarrow> string \<Rightarrow> int \<times> string list \<Rightarrow> (int \<times> string list) res" where
  "score_structure st ac_count dependencies content acc0 =
     ebind (exceeds ''ac_count_high'' st (int ac_count)) (\<lambda>high.
     ebind (if high then add_score ''ac_count_high_score'' st
                           (''High AC count ('' @ show_nat ac_count @ '')'') acc0
            else ebind (exceeds ''ac_count_medium'' st (int ac_count)) (\<lambda>medium.
              if medium then add_score ''ac_count_medium_score'' st
                               (''Elevated AC count ('' @ show_nat ac_count @ '')'') acc0
              else Inr acc0)) (\<lambda>acc1.
     ebind (if flag_of ''dependency_score'' st \<and> dependencies \<noteq> [] \<and> lower dependencies \<noteq> ''none''
            then add_score ''dependency_score'' st ''Has explicit dependencies'' acc1
            else Inr acc1) (\<lambda>acc2.
     ebind (int_of ''large_story_word_threshold'' st) (\<lambda>threshold.
       (let word_count = length (words content) in
        if threshold \<noteq> 0 \<and> threshold < int word_count
        then add_score ''large_story_score'' st (''Large story ('' @ show_nat word_count @ '' words)'') acc2
        else Inr acc2)))))"

definition complexity_level :: "int \<Rightarrow> int \<Rightarrow> int \<Rightarrow> string" where
  "complexity_level score low_max medium_max =
     (if score \<le> low_max then ''Low'' else if score \<le> medium_max then ''Medium'' else ''High'')"

section \<open>One story\<close>

record story_scan =
  sn_description :: "string list"
  sn_criteria :: "string list"
  sn_dependencies :: string
  sn_in_ac :: bool

definition story_dep :: "string \<Rightarrow> string" where
  "story_dep line = strip (replace_all ''Dependencies:'' [] (replace_all ''**Dependencies**:'' [] line))"

fun scan_story :: "string list \<Rightarrow> story_scan \<Rightarrow> story_scan" where
  "scan_story [] st = st"
| "scan_story (line # rest) st =
     (if startswith line ''### Story '' \<or> startswith line ''## Epic '' then st
      else if contains line ''Acceptance Criteria'' then scan_story rest (st\<lparr>sn_in_ac := True\<rparr>)
      else (let stripped = strip line in
            if stripped = [] then scan_story rest st
            else (let st1 = (if (contains line ''Dependencies:'' \<or> contains line ''**Dependencies**:'')
                                \<and> sn_dependencies st = []
                             then st\<lparr>sn_dependencies := story_dep line\<rparr> else st)
                  in scan_story rest
                       (if sn_in_ac st1 then st1\<lparr>sn_criteria := sn_criteria st1 @ [stripped]\<rparr>
                        else st1\<lparr>sn_description := sn_description st1 @ [stripped]\<rparr>))))"

definition rx_story_header :: "string \<Rightarrow> rx" where   \<comment> \<open>\<open>^###\s+Story\s+<id>:\s*(.*)$\<close>\<close>
  "rx_story_header story_id =
     rseq [RBol False, rlit ''###'', rplus rspace, rlit ''Story'', rplus rspace, rlit (story_id @ '':''),
           rstar rspace, RGrp 1 (rstar rdot), REol False]"

fun find_story :: "string \<Rightarrow> string list \<Rightarrow> (string \<times> string list) option" where
  "find_story story_id [] = None"
| "find_story story_id (line # rest) =
     (case re_match (rx_story_header story_id) line of
        Some m \<Rightarrow> Some (strip (rm_grp m 1), rest)
      | None \<Rightarrow> find_story story_id rest)"

record parsed_story =
  ps_storyId :: string
  ps_title :: string
  ps_description :: string
  ps_criteria :: "string list"
  ps_dependencies :: string
  ps_score :: int
  ps_level :: string
  ps_reasons :: "string list"

definition parse_story :: "world \<Rightarrow> string \<Rightarrow> string \<Rightarrow> string \<Rightarrow> parsed_story res" where
  "parse_story w epic_file story_id rules_file =
     ebind (read_file w (path_of epic_file)) (\<lambda>content.
     ebind (of_option (ValueError ''story_not_found'') (find_story story_id (trim_lines content)))
       (\<lambda>(title, rest).
     (let sc = scan_story rest \<lparr>sn_description = [], sn_criteria = [], sn_dependencies = [], sn_in_ac = False\<rparr>;
          description = join '' '' (words (join '' '' (sn_description sc)));
          content_for_score = strip (join '' '' (List.filter (\<lambda>p. p \<noteq> [])
             [title, description, join '' '' (sn_criteria sc)]))
      in
      ebind (read_file w (path_of rules_file)) (\<lambda>rules_text.
      ebind (json_loads rules_text) (\<lambda>rules_value.
      ebind (as_dict rules_value) (\<lambda>rules.
      ebind (iter_val (get_or (VList []) ''rules'' rules)) (\<lambda>rule_list.
      ebind (efold (score_rule content_for_score) rule_list (0, [])) (\<lambda>acc0.
      ebind (as_dict (get_or (VDict []) ''structural_rules'' rules)) (\<lambda>structural.
      ebind (score_structure structural (length (sn_criteria sc)) (sn_dependencies sc)
               content_for_score acc0) (\<lambda>(score, reasons).
      ebind (as_dict (get_or (VDict []) ''thresholds'' rules)) (\<lambda>thresholds.
      ebind (int_of ''low_max'' thresholds) (\<lambda>low_max.
      ebind (py_int (get_or (VInt low_max) ''medium_max'' thresholds)) (\<lambda>medium_max.
      Inr \<lparr>ps_storyId = story_id, ps_title = title, ps_description = description,
           ps_criteria = sn_criteria sc, ps_dependencies = sn_dependencies sc, ps_score = score,
           ps_level = complexity_level score low_max medium_max, ps_reasons = reasons\<rparr>)))))))))))))"

section \<open>Story ranges\<close>

definition range_part :: "string \<Rightarrow> nat list" where
  "range_part part =
     (case split_once ''-'' part of
        Some (start_raw, end_raw) \<Rightarrow>
          if isdigit start_raw \<and> isdigit end_raw
          then (let a = nat_of_digits start_raw; b = nat_of_digits end_raw
                in [min a b..<Suc (max a b)])
          else []
      | None \<Rightarrow> if isdigit part then [nat_of_digits part] else [])"

record story_range =
  sr_indices :: "nat list"
  sr_storyIds :: "string list"
  sr_count :: nat

definition range_selected :: "string \<Rightarrow> nat \<Rightarrow> nat list" where
  "range_selected normalized n_total =
     (if normalized = ''all'' then [1..<Suc n_total]
      else concat (List.map range_part (split_all '','' normalized)))"

text \<open>The selected indices within bounds, in order.\<close>

definition range_indices :: "nat list \<Rightarrow> nat \<Rightarrow> nat list" where
  "range_indices selected n_total = List.filter (\<lambda>i. i \<in> set selected) [1..<Suc n_total]"

definition parse_story_range :: "string \<Rightarrow> int \<Rightarrow> string \<Rightarrow> story_range res" where
  "parse_story_range user_input n_total ids_csv =
     (if user_input = [] \<or> n_total \<le> 0 then Inl (ValueError ''missing_input_or_total'')
      else
        (let ids = (if ids_csv = [] then [] else List.map strip (split_all '','' ids_csv));
             normalized = replace_all '' '' [] (lower user_input);
             indices = range_indices (range_selected normalized (nat n_total)) (nat n_total);
             story_ids = List.map (\<lambda>i. ids ! (i - 1)) (List.filter (\<lambda>i. i - 1 < length ids) indices)
         in Inr \<lparr>sr_indices = indices, sr_storyIds = story_ids, sr_count = length indices\<rparr>))"

section \<open>The end of an epic\<close>

text \<open>\<open>tuple(int(part) for part in value.split(".", 1))\<close>, and \<open>max\<close> by it, the first maximum.\<close>

definition story_order :: "string \<Rightarrow> int list res" where
  "story_order v =
     efold (\<lambda>part acc. ebind (py_int (VStr part)) (\<lambda>n. Inr (acc @ [n]))) (split_max 1 ''.'' v) []"

fun tuple_less :: "int list \<Rightarrow> int list \<Rightarrow> bool" where
  "tuple_less [] ys = (ys \<noteq> [])"
| "tuple_less (x # xs) [] = False"
| "tuple_less (x # xs) (y # ys) = (if x = y then tuple_less xs ys else x < y)"

definition later_story :: "string \<Rightarrow> string \<times> int list \<Rightarrow> (string \<times> int list) res" where
  "later_story v best =
     ebind (story_order v) (\<lambda>k. Inr (if tuple_less (snd best) k then (v, k) else best))"

fun max_story :: "string list \<Rightarrow> string res" where
  "max_story [] = Inl (ValueError ''max() arg is an empty sequence'')"
| "max_story (v # vs) =
     ebind (story_order v) (\<lambda>k. ebind (efold later_story vs (v, k)) (\<lambda>best. Inr (fst best)))"

definition epic_complete :: "world \<Rightarrow> string \<Rightarrow> string \<Rightarrow> (bool \<times> string) res" where
  "epic_complete w epic_file range_csv =
     ebind (parse_epic_file w epic_file) (\<lambda>ef.
       (let story_ids = List.map es_storyId (ef_stories ef) in
        if story_ids = [] then Inl (ValueError ''no_stories_found'')
        else ebind (max_story story_ids) (\<lambda>max_epic_story.
          (let selected = List.map strip (List.filter (\<lambda>p. strip p \<noteq> []) (split_all '','' range_csv))
           in ebind (if selected = [] then Inr ''0.0'' else max_story selected) (\<lambda>max_range_story.
                Inr (max_range_story = max_epic_story, max_epic_story))))))"

section \<open>Lemmas\<close>

lemma range_indices_props:
  "sorted (range_indices sel n)" "distinct (range_indices sel n)"
  "i \<in> set (range_indices sel n) \<longleftrightarrow> i \<in> set sel \<and> 1 \<le> i \<and> i \<le> n"
  by (auto simp: range_indices_def intro: sorted_wrt_filter simp del: upt_Suc)

lemma range_selected_iff:
  "i \<in> set (range_selected s n) \<longleftrightarrow>
     (if s = ''all'' then 1 \<le> i \<and> i \<le> n else (\<exists>part \<in> set (split_all '','' s). i \<in> set (range_part part)))"
  by (auto simp: range_selected_def)

lemma range_part_iff:
  "i \<in> set (range_part p) \<longleftrightarrow>
     (isdigit p \<and> i = nat_of_digits p) \<or>
     (\<exists>a b. isdigit a \<and> isdigit b \<and> p = a @ ''-'' @ b \<and>
        min (nat_of_digits a) (nat_of_digits b) \<le> i \<and> i \<le> max (nat_of_digits a) (nat_of_digits b))"
proof (cases "split_once ''-'' p")
  case None
  then have "CHR ''-'' \<notin> set p" by (simp add: split_once_char_None)
  with None show ?thesis by (auto simp: range_part_def)
next
  case (Some ab)
  obtain a b where ab: "ab = (a, b)" by (cases ab)
  with Some have p: "p = a @ ''-'' @ b" using split_once_Some by fastforce
  then have not: "\<not> isdigit p" using isdigit_no_sep(1) [of p] by auto
  have uniq: "a' = a \<and> b' = b" if "isdigit a'" "p = a' @ ''-'' @ b'" for a' b'
    using Some ab that split_once_char_append [of "CHR ''-''" a' b'] isdigit_no_sep(1) [OF that(1)]
    by auto
  show ?thesis
  proof (cases "isdigit a \<and> isdigit b")
    case True
    with Some ab not p uniq show ?thesis
      by (auto simp: range_part_def Let_def less_Suc_eq_le simp del: upt_Suc) 
  next
    case False
    with Some ab not uniq show ?thesis by (auto simp: range_part_def)
  qed
qed

lemma parse_epic_count: "parse_epic_file w f = Inr ef \<Longrightarrow> ef_count ef = length (ef_stories ef)"
  by (auto simp: parse_epic_file_def Let_def res_simps)

lemma epic_story_ids:
  "s \<in> set (epic_stories t ls) \<Longrightarrow> es_storyId s = es_epicNum s @ ''.'' @ es_storyNum s"
  by (induction t ls rule: epic_stories.induct) (auto split: option.splits)

end
