(* ===== verification/Success_Verifiers.thy ===== *)
theory Success_Verifiers
  imports Policy_Facts Epic_Parser
begin

text \<open>
  \<open>core/success_verifiers.py\<close> and \<open>core/review_verify.py\<close>: what it takes for a step of the
  policy to count as done. A verifier answers with a dictionary, whose \<open>verified\<close> says so.
\<close>

section \<open>Contracts\<close>

definition resolve_success_contract :: "world \<Rightarrow> string \<Rightarrow> string \<Rightarrow> string option \<Rightarrow> pyval dict res" where
  "resolve_success_contract w project_root step state_file =
     ebind (load_runtime_policy w (Some project_root) state_file False) (\<lambda>policy.
     ebind (step_contract policy step) (\<lambda>contract.
       case or_else (get_val ''success'' contract) (VDict []) of
         VDict d \<Rightarrow> Inr d
       | _ \<Rightarrow> policy_error (''invalid success contract for '' @ step)))"

definition review_contract_keys :: "string list" where
  "review_contract_keys =
     [''blockingSeverity'', ''doneValues'', ''inProgressValues'', ''sourceOrder'', ''syncSprintStatus'']"

definition review_sources :: "string list" where
  "review_sources = [''sprint-status.yaml'', ''story-file'']"

definition vstrs :: "string list \<Rightarrow> pyval" where
  "vstrs ss = VList (List.map VStr ss)"

definition default_review_contract :: "pyval dict" where
  "default_review_contract =
     [(''blockingSeverity'', vstrs [''critical'']),
      (''doneValues'', vstrs [''done'']),
      (''inProgressValues'', vstrs [''in-progress'', ''in_progress'', ''review'', ''qa'']),
      (''sourceOrder'', vstrs [''sprint-status.yaml'', ''story-file'']),
      (''syncSprintStatus'', VBool True)]"

definition success_config :: "pyval dict \<Rightarrow> pyval dict res" where
  "success_config contract =
     (case or_else (get_val ''config'' contract) (VDict []) of
        VDict d \<Rightarrow> Inr d
      | _ \<Rightarrow> policy_error ''success.config must be an object'')"

text \<open>The known keys that a dictionary has, copied over.\<close>

definition copy_known :: "pyval dict \<Rightarrow> pyval dict \<Rightarrow> pyval dict" where
  "copy_known d inline =
     fold (\<lambda>key acc. case dict_get key d of Some v \<Rightarrow> dict_set key v acc | None \<Rightarrow> acc)
       review_contract_keys inline"

definition inline_review_contract :: "pyval dict \<Rightarrow> pyval dict" where
  "inline_review_contract contract =
     copy_known contract
       (case get_val ''config'' contract of VDict config \<Rightarrow> copy_known config [] | _ \<Rightarrow> [])"

definition sanitize_string_list :: "pyval \<Rightarrow> string list" where   \<comment> \<open>of a validated string array\<close>
  "sanitize_string_list v =
     (case v of
        VList xs \<Rightarrow> List.filter (\<lambda>s. s \<noteq> []) (List.map (strip \<circ> py_str) xs)
      | _ \<Rightarrow> [])"

record review_contract =
  rc_blockingSeverity :: "string list"
  rc_doneValues :: "string list"
  rc_inProgressValues :: "string list"
  rc_sourceOrder :: "string list"
  rc_syncSprintStatus :: bool

definition validate_review_contract :: "pyval dict \<Rightarrow> unit res" where
  "validate_review_contract contract =
     (let unknown_keys = unknown_names (List.map fst contract) review_contract_keys in
      ebind (guard_e (unknown_keys = [])
               (PolicyError (''unknown review contract keys: '' @ join '', '' unknown_keys))) (\<lambda>_.
      ebind (efold (\<lambda>key _. guard_e (string_array (get_val key contract))
                      (PolicyError (''review contract '' @ key @ '' must be a string array'')))
               [''blockingSeverity'', ''doneValues'', ''inProgressValues'', ''sourceOrder''] ()) (\<lambda>_.
      ebind (guard_e (is_boolean (get_val ''syncSprintStatus'' contract))
               (PolicyError ''review contract syncSprintStatus must be a boolean'')) (\<lambda>_.
      ebind (guard_e (sanitize_string_list (get_val ''doneValues'' contract) \<noteq> [])
               (PolicyError ''review contract doneValues must not be empty'')) (\<lambda>_.
      (let source_order = sanitize_string_list (get_val ''sourceOrder'' contract);
           invalid_sources = unknown_names source_order review_sources
       in
       ebind (guard_e (source_order \<noteq> [])
                (PolicyError ''review contract sourceOrder must not be empty'')) (\<lambda>_.
       guard_e (invalid_sources = [])
         (PolicyError (''review contract sourceOrder contains unknown sources: ''
            @ join '', '' invalid_sources)))))))))"

definition sanitize_review_contract :: "pyval dict \<Rightarrow> review_contract" where
  "sanitize_review_contract contract =
     \<lparr>rc_blockingSeverity = sanitize_string_list (get_val ''blockingSeverity'' contract),
      rc_doneValues = sanitize_string_list (get_val ''doneValues'' contract),
      rc_inProgressValues = sanitize_string_list (get_val ''inProgressValues'' contract),
      rc_sourceOrder = sanitize_string_list (get_val ''sourceOrder'' contract),
      rc_syncSprintStatus = truth (get_val ''syncSprintStatus'' contract)\<rparr>"

definition read_review_file :: "world \<Rightarrow> ppath \<Rightarrow> pyval dict res" where
  "read_review_file w path =
     ebind (read_file w path) (\<lambda>text.
       case json_loads text of
         Inl _ \<Rightarrow> policy_error (''review contract json invalid: '' @ path_str path)
       | Inr (VDict d) \<Rightarrow> Inr d
       | Inr _ \<Rightarrow> policy_error (''review contract must be an object: '' @ path_str path))"

definition load_review_contract :: "world \<Rightarrow> string \<Rightarrow> pyval dict \<Rightarrow> review_contract res" where
  "load_review_contract w project_root contract =
     (let contract_path = str_field ''contractPath'' contract in
      ebind (if contract_path = [] then Inr default_review_contract
             else ebind (read_review_file w (path_join (path_of project_root) (path_of contract_path)))
                    (\<lambda>payload. Inr (dict_update default_review_contract payload))) (\<lambda>merged.
      (let merged2 = dict_update merged (inline_review_contract contract) in
       ebind (validate_review_contract merged2) (\<lambda>_. Inr (sanitize_review_contract merged2)))))"

section \<open>The verifiers\<close>

definition could_not_normalize :: "string \<Rightarrow> pyval dict" where
  "could_not_normalize story =
     [(''verified'', VBool False), (''reason'', VStr ''could_not_normalize_key''), (''input'', VStr story)]"

definition session_exit :: "string \<Rightarrow> string \<Rightarrow> pyval dict" where
  "session_exit story_key output_file =
     [(''verified'', VBool True), (''source'', VStr ''session_exit'')]
       @ (if story_key \<noteq> [] then [(''story'', VStr story_key)] else [])
       @ (if output_file \<noteq> [] then [(''outputFile'', VStr output_file)] else [])"

definition format_story_pattern :: "string \<Rightarrow> story_key \<Rightarrow> string" where
  "format_story_pattern pattern story =
     replace_all ''{story_key}'' (sk_key story)
       (replace_all ''{story_id}'' (sk_id story)
         (replace_all ''{story_prefix}'' (sk_prefix story) pattern))"

definition parse_int_field :: "pyval \<Rightarrow> string \<Rightarrow> int option \<Rightarrow> int res" where   \<comment> \<open>\<open>_parse_int\<close>\<close>
  "parse_int_field v fld minimum =
     (if is_boolean v then policy_error (fld @ '' must be an integer'')
      else (case py_int v of
              Inl _ \<Rightarrow> policy_error (fld @ '' must be an integer'')
            | Inr n \<Rightarrow>
                (case minimum of
                   Some m \<Rightarrow> if n < m then policy_error (fld @ '' must be >= '' @ show_int m) else Inr n
                 | None \<Rightarrow> Inr n)))"

definition resolve_artifact_glob :: "world \<Rightarrow> string \<Rightarrow> string \<Rightarrow> (ppath \<times> string) res" where
  "resolve_artifact_glob w project_root pattern =
     (let root = resolve w (path_of project_root);
          artifacts_root = resolve w (below root [''_bmad-output'', ''implementation-artifacts'']);
          raw = path_of pattern;
          resolved = resolve w (path_join root raw)
      in if is_absolute raw
         then policy_error ''success.config.glob must be relative to _bmad-output/implementation-artifacts''
         else (case relative_to resolved root of
                 None \<Rightarrow> policy_error ''success.config.glob escapes project root''
               | Some relative \<Rightarrow>
                   if relative_to resolved artifacts_root = None
                   then policy_error
                     ''success.config.glob must stay within _bmad-output/implementation-artifacts''
                   else Inr (root, path_str relative)))"

definition vint_len :: "'a list \<Rightarrow> pyval" where
  "vint_len xs = VInt (int (length xs))"

definition artifact_answer :: "story_key \<Rightarrow> int \<Rightarrow> string \<Rightarrow> ppath list \<Rightarrow> pyval dict" where
  "artifact_answer norm expected safe_pattern found =
     (let verified = (int (length found) = expected) in
      [(''verified'', VBool verified), (''story'', VStr (sk_key norm)),
       (''source'', VStr ''artifact_glob''), (''pattern'', VStr safe_pattern),
       (''expectedMatches'', VInt expected), (''actualMatches'', vint_len found),
       (''matches'', vstrs (List.map path_str found))]
      @ (if verified then [] else [(''reason'', VStr ''unexpected_story_artifact_count'')]))"

definition create_story_artifact :: "world \<Rightarrow> string \<Rightarrow> string \<Rightarrow> pyval dict \<Rightarrow> pyval dict res" where
  "create_story_artifact w project_root story contract =
     ebind (normalize_story_key w project_root story) (\<lambda>nk.
     case nk of
       None \<Rightarrow> Inr (could_not_normalize story)
     | Some norm \<Rightarrow>
         ebind (success_config contract) (\<lambda>config.
         (let raw_glob = py_str (or_else (get_val ''glob'' config)
                (VStr ''_bmad-output/implementation-artifacts/{story_prefix}-*.md''))
          in
          ebind (parse_int_field (get_or (VInt 1) ''expectedMatches'' config)
                   ''success.config.expectedMatches'' (Some 0)) (\<lambda>expected.
          ebind (resolve_artifact_glob w project_root (format_story_pattern raw_glob norm))
            (\<lambda>(root, safe_pattern).
          Inr (artifact_answer norm expected safe_pattern (glob_sorted w root safe_pattern)))))))"

definition story_artifact_path :: "world \<Rightarrow> string \<Rightarrow> string \<Rightarrow> ppath option" where
  "story_artifact_path w project_root story_prefix =
     (case glob_sorted w (artifacts_dir project_root) (story_prefix @ ''-*.md'') of
        [] \<Rightarrow> None | p # _ \<Rightarrow> Some p)"

definition or_unknown :: "string \<Rightarrow> string" where
  "or_unknown s = (if s = [] then ''unknown'' else s)"

text \<open>The answer of the first source, in the contract's order, that says the story is done.\<close>

fun review_answer :: "review_contract \<Rightarrow> string \<Rightarrow> sprint_status \<Rightarrow> string \<Rightarrow> string list \<Rightarrow> pyval dict" where
  "review_answer rc key sprint story_status [] =
     [(''verified'', VBool False), (''story'', VStr key), (''sprint_status'', VStr (ss_status sprint)),
      (''story_file_status'', VStr (or_unknown story_status)), (''reason'', VStr ''workflow_not_complete'')]"
| "review_answer rc key sprint story_status (source # rest) =
     (let done_values = List.map lower (rc_doneValues rc) in
      if source = ''sprint-status.yaml'' \<and> lower (ss_status sprint) \<in> set done_values then
        [(''verified'', VBool True), (''story'', VStr key), (''sprint_status'', VStr (ss_status sprint)),
         (''story_file_status'', VStr (or_unknown story_status)), (''source'', VStr ''sprint-status.yaml'')]
      else if source = ''story-file'' \<and> lower story_status \<in> set done_values then
        [(''verified'', VBool True), (''story'', VStr key), (''sprint_status'', VStr (ss_status sprint)),
         (''story_file_status'', VStr story_status), (''source'', VStr ''story-file'')]
          @ (if rc_syncSprintStatus rc \<and> \<not> ss_done sprint
             then [(''note'', VStr ''sprint_status_not_updated'')] else [])
      else review_answer rc key sprint story_status rest)"

definition review_completion :: "world \<Rightarrow> string \<Rightarrow> string \<Rightarrow> pyval dict \<Rightarrow> pyval dict res" where
  "review_completion w project_root story contract =
     ebind (normalize_story_key w project_root story) (\<lambda>nk.
     case nk of
       None \<Rightarrow> Inr (could_not_normalize story)
     | Some norm \<Rightarrow>
         ebind (load_review_contract w project_root contract) (\<lambda>rc.
         ebind (sprint_status_get w project_root (sk_id norm)) (\<lambda>sprint.
         ebind (case story_artifact_path w project_root (sk_prefix norm) of
                  None \<Rightarrow> Inr []
                | Some story_file \<Rightarrow> find_frontmatter_value_case w story_file ''Status'') (\<lambda>story_status.
         Inr (review_answer rc (sk_key norm) sprint story_status (rc_sourceOrder rc))))))"

definition epic_identifier :: "world \<Rightarrow> string \<Rightarrow> string \<Rightarrow> string res" where
  "epic_identifier w project_root story =
     (if re_fullmatch (rplus rdigit) story \<noteq> None then Inr story
      else ebind (normalize_story_key w project_root story) (\<lambda>nk.
             Inr (case nk of None \<Rightarrow> [] | Some norm \<Rightarrow> hd (split_max 1 ''.'' (sk_id norm)))))"

definition epic_complete_verifier :: "world \<Rightarrow> string \<Rightarrow> string \<Rightarrow> pyval dict res" where
  "epic_complete_verifier w project_root story =
     ebind (epic_identifier w project_root story) (\<lambda>epic.
     if epic = [] then Inr (could_not_normalize story)
     else ebind (sprint_status_epic w project_root epic) (\<lambda>(stories, done_count).
       if stories = [] then
         Inr [(''verified'', VBool False), (''epic'', VStr epic), (''reason'', VStr ''no_stories_found''),
              (''source'', VStr ''sprint-status.yaml'')]
       else
         Inr ([(''verified'', VBool (done_count = length stories)), (''epic'', VStr epic),
               (''story'', VStr story), (''totalStories'', vint_len stories),
               (''doneStories'', VInt (int done_count)), (''source'', VStr ''sprint-status.yaml'')]
              @ (if done_count = length stories then [] else [(''reason'', VStr ''epic_incomplete'')]))))"

definition run_success_verifier ::
    "world \<Rightarrow> string \<Rightarrow> string \<Rightarrow> string \<Rightarrow> string \<Rightarrow> pyval dict \<Rightarrow> pyval dict res" where
  "run_success_verifier w name project_root story output_file contract =
     (if name = ''create_story_artifact'' then create_story_artifact w project_root story contract
      else if name = ''session_exit'' then Inr (session_exit story output_file)
      else if name = ''review_completion'' then review_completion w project_root story contract
      else if name = ''epic_complete'' then epic_complete_verifier w project_root story
      else policy_error (''unknown success verifier: '' @ name))"

text \<open>\<open>str(exc)\<close>; the text of a \<open>JSONDecodeError\<close> carries a position, which is left out.\<close>

fun exn_text :: "exn \<Rightarrow> string" where
  "exn_text (PolicyError m) = m"
| "exn_text (ValueError m) = m"
| "exn_text JSONDecodeError = ''Expecting value''"
| "exn_text (KeyError k) = repr_str k"
| "exn_text (FileNotFoundError p) = ''[Errno 2] No such file or directory: '' @ repr_str p"
| "exn_text (IsADirectoryError p) = ''[Errno 21] Is a directory: '' @ repr_str p"
| "exn_text (NotADirectoryError p) = ''[Errno 20] Not a directory: '' @ repr_str p"
| "exn_text _ = []"

fun is_file_not_found :: "exn \<Rightarrow> bool" where
  "is_file_not_found (FileNotFoundError _) = True"
| "is_file_not_found _ = False"

definition verify_code_review_completion ::
    "world \<Rightarrow> string \<Rightarrow> string \<Rightarrow> pyval dict option \<Rightarrow> string option \<Rightarrow> pyval dict res" where
  "verify_code_review_completion w project_root story success_contract state_file =
     (case ebind (case success_contract of
                    None \<Rightarrow> resolve_success_contract w project_root ''review'' state_file
                  | Some c \<Rightarrow> Inr c) (review_completion w project_root story) of
        Inr payload \<Rightarrow> Inr payload
      | Inl e \<Rightarrow>
          if is_file_not_found e \<or> is_value_error e
          then Inr [(''verified'', VBool False), (''reason'', VStr ''review_contract_invalid''),
                    (''input'', VStr story), (''error'', VStr (exn_text e))]
          else Inl e)"

section \<open>Lemmas\<close>

definition verified :: "pyval dict \<Rightarrow> bool" where
  "verified payload \<longleftrightarrow> dict_get ''verified'' payload = Some (VBool True)"

lemma verified_Cons [simp]: "verified ((''verified'', VBool b) # d) = b"
  by (simp add: verified_def dict_get_Cons)

lemma could_not_normalize_unverified [simp]: "\<not> verified (could_not_normalize s)"
  by (simp add: could_not_normalize_def)

text \<open>The review counts as done when a source of the contract reports a done value.\<close>

lemma review_answer_verified:
  "verified (review_answer rc key sprint st sources) \<longleftrightarrow>
     (''sprint-status.yaml'' \<in> set sources \<and> lower (ss_status sprint) \<in> lower ` set (rc_doneValues rc)) \<or>
     (''story-file'' \<in> set sources \<and> lower st \<in> lower ` set (rc_doneValues rc))"
  by (induction sources) (auto simp: Let_def)

lemma sanitize_nonempty: "s \<in> set (sanitize_string_list v) \<Longrightarrow> s \<noteq> []"
  by (cases v) (auto simp: sanitize_string_list_def)

lemma lower_Nil [simp]: "lower s = [] \<longleftrightarrow> s = []"
  by (simp add: lower_def)

lemma unknown_names_Nil: "unknown_names xs known = [] \<longleftrightarrow> set xs \<subseteq> set known"
proof -
  have "unknown_names xs known = [] \<longleftrightarrow> set (unknown_names xs known) = {}" by simp
  then show ?thesis by (auto simp: unknown_names_def simp del: set_empty)
qed

lemma review_contract_ok:
  assumes "load_review_contract w root c = Inr rc"
  shows "rc_doneValues rc \<noteq> []" "[] \<notin> set (rc_doneValues rc)"
    "rc_sourceOrder rc \<noteq> []" "set (rc_sourceOrder rc) \<subseteq> {''sprint-status.yaml'', ''story-file''}"
proof -
  obtain m where "validate_review_contract m = Inr ()" "rc = sanitize_review_contract m"
    using assms unfolding load_review_contract_def Let_def ebind_eq_Inr by auto
  then show "rc_doneValues rc \<noteq> []" "[] \<notin> set (rc_doneValues rc)"
    "rc_sourceOrder rc \<noteq> []" "set (rc_sourceOrder rc) \<subseteq> {''sprint-status.yaml'', ''story-file''}"
    using sanitize_nonempty
    by (auto simp: validate_review_contract_def Let_def res_simps sanitize_review_contract_def
        unknown_names_Nil review_sources_def)
qed

text \<open>A pattern without special characters matches itself only.\<close>

lemma fnmatch_literal:
  "CHR ''*'' \<notin> set p \<Longrightarrow> CHR ''?'' \<notin> set p \<Longrightarrow> CHR ''['' \<notin> set p \<Longrightarrow> fnmatch p s \<longleftrightarrow> s = p"
proof (induction p arbitrary: s)
  case Nil
  then show ?case by (simp add: fnmatch.simps)
next
  case (Cons c cs)
  then have "c \<noteq> CHR ''*''" "c \<noteq> CHR ''?''" "c \<noteq> CHR ''[''" by auto
  then have "fnmatch (c # cs) s \<longleftrightarrow> (case s of [] \<Rightarrow> False | d # ds \<Rightarrow> d = c \<and> fnmatch cs ds)"
    by (subst fnmatch.simps(2)) (cases s; auto)
  with Cons show ?case by (cases s) simp_all
qed

definition artifacts_parts :: "ppath \<Rightarrow> string list" where
  "artifacts_parts root = parts root @ [''_bmad-output'', ''implementation-artifacts'']"

lemma artifacts_root_parts:
  assumes "resolve w root = root"
  shows "parts (resolve w (below root [''_bmad-output'', ''implementation-artifacts''])) = artifacts_parts root"
proof -
  have abs: "is_absolute root" "''..'' \<notin> set (parts root)" using assms by (metis resolve_properties)+
  have "below root [''_bmad-output'', ''implementation-artifacts''] = PPath True (artifacts_parts root)"
    using abs by (simp add: below_def path_join_def artifacts_parts_def path_of_plain plain_name_def)
  moreover have "''..'' \<notin> set (artifacts_parts root)" using abs by (simp add: artifacts_parts_def)
  ultimately show ?thesis by (simp add: resolve_def resolve_in_def fold_dots_id)
qed

lemma artifact_glob_contained:
  assumes glob: "resolve_artifact_glob w pr pattern = Inr (root, safe)" and wf: "wf_cwd w"
    and mem: "m \<in> set (glob_sorted w root safe)"
  shows "root = resolve w (path_of pr) \<and> prefix (artifacts_parts root) (parts m)"
proof -
  define resolved where "resolved = resolve w (path_join root (path_of pattern))"
  from glob have root: "root = resolve w (path_of pr)"
    and safe: "\<exists>rel. relative_to resolved root = Some rel \<and> safe = path_str rel"
    and inside: "relative_to resolved
        (resolve w (below root [''_bmad-output'', ''implementation-artifacts''])) \<noteq> None"
    unfolding resolved_def
    by (auto simp: resolve_artifact_glob_def Let_def policy_error_def split: if_splits option.splits)
  have fixed: "resolve w root = root" by (simp add: root)
  from inside artifacts_root_parts [OF fixed] obtain rest where
    rest: "parts resolved = artifacts_parts root @ rest"
    by (auto simp: relative_to_def prefix_def split: if_splits)
  have "wf_path resolved" unfolding resolved_def root
    by (intro wf_resolve wf wf_path_join) simp_all
  moreover have rel: "relative_to resolved root = Some (PPath False ([''_bmad-output'',
      ''implementation-artifacts''] @ rest))"
    using safe rest by (auto simp: relative_to_def artifacts_parts_def split: if_splits)
  ultimately have "path_of safe = PPath False ([''_bmad-output'', ''implementation-artifacts''] @ rest)"
    using safe rest by (auto simp: path_of_str wf_path_def artifacts_parts_def simp del: append_Cons)
  with glob_sorted_below [OF mem] obtain ns where
    ns: "parts m = parts root @ ns" "glob_parts ([''_bmad-output'', ''implementation-artifacts''] @ rest) ns"
    by auto
  then have "prefix [''_bmad-output'', ''implementation-artifacts''] ns"
    by (cases ns; cases "tl ns") (auto simp: fnmatch_literal)
  with ns(1) root show ?thesis by (auto simp: artifacts_parts_def)
qed

text \<open>The answer of the artifact check, spelled out.\<close>

lemma create_story_artifact_inv:
  assumes "create_story_artifact w pr story c = Inr payload"
  obtains (unknown) "normalize_story_key w pr story = Inr None" "payload = could_not_normalize story"
  | (known) norm expected pattern root safe where
      "normalize_story_key w pr story = Inr (Some norm)" "0 \<le> expected"
      "resolve_artifact_glob w pr pattern = Inr (root, safe)"
      "verified payload \<longleftrightarrow> int (length (glob_sorted w root safe)) = expected"
      "dict_get ''expectedMatches'' payload = Some (VInt expected)"
      "dict_get ''matches'' payload = Some (vstrs (List.map path_str (glob_sorted w root safe)))"
      "dict_get ''actualMatches'' payload = Some (VInt (int (length (glob_sorted w root safe))))"
      "dict_get ''verified'' payload = Some (VBool (int (length (glob_sorted w root safe)) = expected))"
proof -
  obtain nk where nk: "normalize_story_key w pr story = Inr nk" using normalize_total by blast
  show thesis
  proof (cases nk)
    case None
    with assms nk unknown show thesis by (simp add: create_story_artifact_def)
  next
    case (Some norm)
    with assms nk obtain config expected pattern root safe where
      e: "parse_int_field (get_or (VInt 1) ''expectedMatches'' config) ''success.config.expectedMatches''
            (Some 0) = Inr expected"
      and g: "resolve_artifact_glob w pr pattern = Inr (root, safe)"
      and p: "payload = artifact_answer norm expected safe (glob_sorted w root safe)"
      by (auto simp: create_story_artifact_def Let_def res_simps)
    from e have "0 \<le> expected"
      by (auto simp: parse_int_field_def policy_error_def split: if_splits sum.splits)
    with nk Some g p known [of norm expected pattern root safe] show thesis
      by (simp add: artifact_answer_def vint_len_def Let_def dict_get_Cons)
  qed
qed

text \<open>An epic is complete when it has stories and all of them are done.\<close>

lemma epic_verified:
  assumes "epic_complete_verifier w pr story = Inr payload" and "verified payload"
  shows "\<exists>epic stories. epic_identifier w pr story = Inr epic \<and> stories \<noteq> [] \<and>
    sprint_status_epic w pr epic = Inr (stories, length stories)"
  using assms
  by (auto simp: epic_complete_verifier_def res_simps dict_get_Cons verified_def could_not_normalize_def
      split: if_splits)

lemma review_completion_inv:
  assumes "review_completion w pr story c = Inr payload" and "verified payload"
  obtains norm rc sprint st where
    "normalize_story_key w pr story = Inr (Some norm)" "load_review_contract w pr c = Inr rc"
    "sprint_status_get w pr (sk_id norm) = Inr sprint"
    "(case story_artifact_path w pr (sk_prefix norm) of
        None \<Rightarrow> Inr [] | Some f \<Rightarrow> find_frontmatter_value_case w f ''Status'') = Inr st"
    "payload = review_answer rc (sk_key norm) sprint st (rc_sourceOrder rc)"
proof -
  obtain nk where nk: "normalize_story_key w pr story = Inr nk" using normalize_total by blast
  with assms obtain norm where "nk = Some norm" by (cases nk) (auto simp: review_completion_def)
  with assms(1) nk show thesis
    by (auto simp: review_completion_def res_simps intro: that)
qed

end
