(* ===== verification/Tmux_Commands.thy ===== *)
theory Tmux_Commands
  imports Tmux_Spawn Success_Verifiers
begin

text \<open>
  \<open>commands/tmux.py\<close>: the commands \<open>tmux-wrapper\<close>, \<open>heartbeat-check\<close>, the status checks and
  \<open>monitor-session\<close>. What goes to the standard error is not modelled.
\<close>

section \<open>Splitting a command line\<close>

text \<open>
  \<open>shlex.split\<close>: quotes, and the backslash outside of single quotes. The token read so far is
  \<open>None\<close> between the words. An unfinished quotation or escape is an error.
\<close>

definition split_space :: "char \<Rightarrow> bool" where
  "split_space c \<longleftrightarrow> c \<in> {CHR '' '', CHR 0x09, CHR 0x0D, CHR 0x0A}"

definition word_more :: "string option \<Rightarrow> string \<Rightarrow> string option" where
  "word_more tok cs = Some ((case tok of None \<Rightarrow> [] | Some t \<Rightarrow> t) @ cs)"

fun shlex_tokens :: "quoting \<Rightarrow> string option \<Rightarrow> string \<Rightarrow> string list option" where
  "shlex_tokens q tok [] =
     (if q = Bare then Some (case tok of None \<Rightarrow> [] | Some t \<Rightarrow> [t]) else None)"
| "shlex_tokens Bare tok (c # cs) =
     (if split_space c then
        (case tok of None \<Rightarrow> shlex_tokens Bare None cs
         | Some t \<Rightarrow> map_option ((#) t) (shlex_tokens Bare None cs))
      else if c = squote then shlex_tokens Single (word_more tok []) cs
      else if c = dquote then shlex_tokens Double (word_more tok []) cs
      else if c = backslash then
        (case cs of [] \<Rightarrow> None | d # ds \<Rightarrow> shlex_tokens Bare (word_more tok [d]) ds)
      else shlex_tokens Bare (word_more tok [c]) cs)"
| "shlex_tokens Single tok (c # cs) =
     (if c = squote then shlex_tokens Bare tok cs else shlex_tokens Single (word_more tok [c]) cs)"
| "shlex_tokens Double tok (c # cs) =
     (if c = dquote then shlex_tokens Bare tok cs
      else if c = backslash then
        (case cs of
           [] \<Rightarrow> None
         | d # ds \<Rightarrow> shlex_tokens Double (word_more tok (if d = dquote \<or> d = backslash then [d] else [c, d])) ds)
      else shlex_tokens Double (word_more tok [c]) cs)"

definition shlex_split :: "string \<Rightarrow> string list option" where
  "shlex_split s = shlex_tokens Bare None s"

section \<open>The agent\<close>

definition infer_agent_from_command :: "string \<Rightarrow> string" where
  "infer_agent_from_command cmd =
     (let v = strip cmd in
      if v = [] then []
      else (case shlex_split v of
              Some (word # _) \<Rightarrow>
                (let executable = lower (path_name (path_of word)) in
                 if contains executable ''codex'' then ''codex''
                 else if contains executable ''claude'' then ''claude'' else [])
            | _ \<Rightarrow> []))"

definition raw_agent_selection :: "world \<Rightarrow> string" where
  "raw_agent_selection w =
     (let v = lower (strip (environ_or w ''AI_AGENT'' []));
          inferred = infer_agent_from_command (environ_or w ''AI_COMMAND'' [])
      in if v = [] \<and> inferred \<noteq> [] then inferred
         else if v \<in> {''claude'', ''codex'', ''auto'', ''runtime''} then v else ''auto'')"

definition resolve_agent_selection :: "world \<Rightarrow> string \<Rightarrow> string \<Rightarrow> string" where
  "resolve_agent_selection w agent project_root =
     (let v = lower (strip agent) in
      if v \<in> {[], ''auto'', ''runtime''} then runtime_provider w (Some project_root) else v)"

section \<open>Arguments\<close>

text \<open>The value behind the last occurrence of a flag.\<close>

fun last_flag :: "string \<Rightarrow> string \<Rightarrow> string list \<Rightarrow> string" where
  "last_flag flag v (a # b # rest) = last_flag flag (if a = flag then b else v) (b # rest)"
| "last_flag flag v _ = v"

fun flag_value :: "string \<Rightarrow> string list \<Rightarrow> string res" where
  "flag_value flag (v # _) =
     (if strip v = [] \<or> startswith v ''--'' then policy_error (flag @ '' requires a value'') else Inr v)"
| "flag_value flag [] = policy_error (flag @ '' requires a value'')"

definition print_out :: "string \<Rightarrow> unit act" where
  "print_out s = effect (print_line s)"

definition exit_with :: "int \<Rightarrow> string \<Rightarrow> int act" where   \<comment> \<open>print a line and return the code\<close>
  "exit_with code s = bindA (print_out s) (\<lambda>_. ret code)"

definition usage :: "int \<Rightarrow> int act" where
  "usage code =
     (if code \<noteq> 0 then ret code
      else bindA (forA
        [''Usage: tmux-wrapper <action> [args...]'', [], ''Actions:'',
         ''  spawn <step> <epic> <story_id> --command '' @ [dquote] @ ''...'' @ [dquote] @ '' [--cycle N] [--agent TYPE]'',
         ''  name <step> <epic> <story_id> [--cycle N]'', ''  list [--project-only]'', ''  kill <session_name>'',
         ''  kill-all [--project-only]'', ''  exists <session_name>'',
         ''  build-cmd <step> <story_id> [--agent TYPE] [--state-file PATH] [extra_instruction]'',
         ''  project-slug'', ''  project-hash'', ''  story-suffix <story_id>'', ''  agent-type'', ''  agent-cli'',
         ''  skill-prefix''] print_out) (\<lambda>_. ret code))"

section \<open>Building the command of a step\<close>

definition prompt_line :: "string \<Rightarrow> string \<Rightarrow> string" where
  "prompt_line before v = (if v \<noteq> [] then before @ '': '' @ v @ [nl] else [])"

definition render_step_prompt :: "world \<Rightarrow> pyval dict \<Rightarrow> string \<Rightarrow> string \<Rightarrow> string \<Rightarrow> string res" where
  "render_step_prompt w contract story_id story_prefix extra_instruction =
     ebind (as_dict (or_else (get_val ''prompt'' contract) (VDict []))) (\<lambda>prompt_cfg.
     ebind (as_dict (or_else (get_val ''assets'' contract) (VDict []))) (\<lambda>asset_cfg.
     ebind (as_dict (or_else (get_val ''files'' asset_cfg) (VDict []))) (\<lambda>assets.
     ebind (read_file w (path_of (str_or_empty (get_val ''templatePath'' prompt_cfg)))) (\<lambda>template.
     (let asset = (\<lambda>name. str_or_empty (get_val name assets)) in
      Inr (fold (\<lambda>(key, v) t. replace_all key v t)
        [(''{{story_id}}'', story_id), (''{{story_prefix}}'', story_prefix),
         (''{{label}}'', str_or_empty (get_val ''label'' contract)),
         (''{{skill_line}}'', prompt_line ''READ this skill first'' (asset ''skill'')),
         (''{{workflow_line}}'', prompt_line ''READ this workflow file next'' (asset ''workflow'')),
         (''{{instructions_line}}'', prompt_line ''Then read'' (asset ''instructions'')),
         (''{{checklist_line}}'', prompt_line ''Validate with'' (asset ''checklist'')),
         (''{{template_line}}'', prompt_line ''Use template'' (asset ''template'')),
         (''{{extra_instruction}}'',
            if strip extra_instruction \<noteq> [] then strip extra_instruction
            else str_or_empty (get_val ''defaultExtraInstruction'' prompt_cfg))] template))))))"

record build_options =
  bo_agent :: string
  bo_state_file :: string
  bo_extra :: string

fun parse_build_options :: "build_options \<Rightarrow> string list \<Rightarrow> build_options res" where
  "parse_build_options opts [] = Inr opts"
| "parse_build_options opts (a # rest) =
     (if a = ''--agent'' then
        ebind (flag_value a rest) (\<lambda>v. parse_build_options (opts\<lparr>bo_agent := v\<rparr>) (drop 1 rest))
      else if a = ''--state-file'' then
        ebind (flag_value a rest) (\<lambda>v. parse_build_options (opts\<lparr>bo_state_file := v\<rparr>) (drop 1 rest))
      else parse_build_options (opts\<lparr>bo_extra := strip (bo_extra opts @ '' '' @ a)\<rparr>) rest)"

definition user_path :: "world \<Rightarrow> string \<Rightarrow> string" where   \<comment> \<open>\<open>os.path.expanduser("~/...")\<close>\<close>
  "user_path w rest = rstrip_chars [CHR ''/''] (environ_or w ''HOME'' ''/'') @ rest"

definition codex_command :: "world \<Rightarrow> string \<Rightarrow> string \<Rightarrow> string" where
  "codex_command w root quoted_prompt =
     (let codex_home = ''/tmp/sa-codex-home-'' @ get_project_hash w (Some root);
          auth_src = user_path w ''/.codex/auth.json'';
          dq = (\<lambda>s. [dquote] @ s @ [dquote]);
          sq = (\<lambda>s. [squote] @ s @ [squote])
      in ''mkdir -p '' @ dq codex_home
           @ '' && if [ -f '' @ dq auth_src @ '' ]; then ln -sf '' @ dq auth_src @ '' ''
               @ dq (codex_home @ ''/auth.json'') @ ''; fi''
           @ '' && CODEX_HOME='' @ dq codex_home @ '' codex exec -s workspace-write -c ''
               @ sq (''approval_policy='' @ dq ''never'')
           @ '' -c '' @ sq (''model_reasoning_effort='' @ dq ''high'')
           @ '' --disable plugins --disable sqlite --disable shell_snapshot '' @ quoted_prompt)"

definition step_command :: "world \<Rightarrow> string \<Rightarrow> string \<Rightarrow> string \<Rightarrow> string" where
  "step_command w root agent prompt =
     (let ai_command = strip (environ_or w ''AI_COMMAND'' []);
          cli = (if ai_command \<noteq> [] \<and> environ_or w ''AI_AGENT'' [] = [] then ai_command
                 else if agent \<noteq> ''codex'' then agent_cli agent else ''codex exec'')
      in if agent = ''codex'' \<and> ai_command = [] then codex_command w root (shlex_quote prompt)
         else ''unset CLAUDECODE && '' @ cli @ '' '' @ shlex_quote prompt)"

definition is_policy_error :: "exn \<Rightarrow> bool" where
  "is_policy_error e = (case e of PolicyError _ \<Rightarrow> True | _ \<Rightarrow> False)"

definition build_cmd :: "string list \<Rightarrow> int act" where
  "build_cmd args =
     (if args \<noteq> [] \<and> is_help_flag (hd args) then usage 0
      else if length args < 2 then usage 1
      else
        (let step = args ! 0; story_id = args ! 1 in
         case parse_build_options \<lparr>bo_agent = [], bo_state_file = [], bo_extra = []\<rparr> (drop 2 args) of
           Inl _ \<Rightarrow> ret 1
         | Inr opts \<Rightarrow>
             bindA (reads (\<lambda>w. if bo_agent opts \<noteq> [] then bo_agent opts else raw_agent_selection w)) (\<lambda>selected.
             bindA (reads get_project_root) (\<lambda>root.
             bindA (reads (\<lambda>w. resolve_agent_selection w selected root)) (\<lambda>agent.
             bindA (reads (\<lambda>w.
                 ebind (load_runtime_policy w (Some root) (Some (bo_state_file opts)) True) (\<lambda>policy.
                 ebind (step_contract policy step) (\<lambda>contract.
                 render_step_prompt w contract story_id (replace_all ''.'' ''-'' story_id) (bo_extra opts))))) (\<lambda>prompt.
             case prompt of
               Inl e \<Rightarrow> if is_os_error e \<or> is_policy_error e then ret 1 else raiseA e
             | Inr p \<Rightarrow> bindA (reads (\<lambda>w. step_command w root agent p)) (exit_with 0)))))))"

section \<open>The wrapper\<close>

definition spawn_cmd :: "string \<Rightarrow> string list \<Rightarrow> int act" where
  "spawn_cmd python_bin args =
     (if args \<noteq> [] \<and> is_help_flag (hd args) then usage 0
      else if length args < 3 then usage 1
      else
        (let tail = drop 3 args; cmd = last_flag ''--command'' [] tail; cycle = last_flag ''--cycle'' [] tail in
         bindA (reads (\<lambda>w. last_flag ''--agent'' (raw_agent_selection w) tail)) (\<lambda>selected.
         bindA (reads get_project_root) (\<lambda>root.
         bindA (reads (\<lambda>w. resolve_agent_selection w selected root)) (\<lambda>agent.
         if cmd = [] then ret 1
         else
           bindA (reads (\<lambda>w. generate_session_name w (args ! 0) (args ! 1) (args ! 2) cycle)) (\<lambda>session.
           bindA (reads runtime_mode) (\<lambda>mode.
           bindA (spawn_session python_bin session cmd agent (Some root) mode) (\<lambda>(_, code).
           if code \<noteq> 0 then ret 1 else exit_with 0 session))))))))"

definition sessions_of :: "string list \<Rightarrow> string list act" where
  "sessions_of args = bindA (tmux_list_sessions (''--project-only'' \<in> set args)) (\<lambda>(sessions, _). ret sessions)"

definition cmd_tmux_wrapper :: "string \<Rightarrow> string list \<Rightarrow> int act" where
  "cmd_tmux_wrapper python_bin args =
     (if args = [] then usage 1
      else if is_help_flag (hd args) then usage 0
      else
        (let action = hd args; rest = tl args in
         if action = ''spawn'' then spawn_cmd python_bin rest
         else if action = ''name'' then
           (if length args < 4 then usage 1
            else bindA (reads (\<lambda>w. generate_session_name w (args ! 1) (args ! 2) (args ! 3)
                          (if 4 < length args then args ! 4 else []))) (exit_with 0))
         else if action = ''list'' then bindA (sessions_of rest) (\<lambda>sessions. exit_with 0 (join [nl] sessions))
         else if action = ''kill'' then
           (if length args < 2 then usage 1 else bindA (tmux_kill_session (args ! 1) None) (\<lambda>_. ret 0))
         else if action = ''kill-all'' then
           bindA (sessions_of rest) (\<lambda>sessions.
           bindA (forA sessions (\<lambda>s. tmux_kill_session s None)) (\<lambda>_.
           exit_with 0 (''Killed '' @ show_int (int (length sessions)) @ '' sessions'')))
         else if action = ''exists'' then
           (if length args < 2 then usage 1
            else bindA (tmux_has_session (args ! 1)) (\<lambda>b. if b then exit_with 0 ''true'' else exit_with 1 ''false''))
         else if action = ''build-cmd'' then build_cmd rest
         else if action = ''project-slug'' then bindA (reads (\<lambda>w. get_project_slug w None)) (exit_with 0)
         else if action = ''project-hash'' then bindA (reads (\<lambda>w. get_project_hash w None)) (exit_with 0)
         else if action = ''story-suffix'' then
           (if length args < 2 then usage 1 else exit_with 0 (replace_all ''.'' ''-'' (args ! 1)))
         else if action = ''agent-type'' then bindA (reads agent_type) (exit_with 0)
         else if action = ''agent-cli'' then bindA (reads (\<lambda>w. agent_cli (agent_type w))) (exit_with 0)
         else if action = ''skill-prefix'' then bindA (reads (\<lambda>w. skill_prefix (agent_type w))) (exit_with 0)
         else usage 1))"

section \<open>Status checks\<close>

definition cmd_heartbeat_check :: "string list \<Rightarrow> int act" where
  "cmd_heartbeat_check args =
     (if args = [] then exit_with 0 ''error,0.0,,no_session''
      else
        bindA (reads (\<lambda>w. (get_project_root w, runtime_mode w))) (\<lambda>(root, mode).
        bindA (heartbeat_check (hd args) (last_flag ''--agent'' ''auto'' (tl args)) (Some root) mode) (\<lambda>hb.
        exit_with 0 (hb_status hb @ '','' @ show_tenths (hb_cpu hb) @ '','' @ hb_pid hb @ '','' @ hb_prompt hb))))"

text \<open>\<open>--project-root\<close>: its value is not looked at as a flag.\<close>

fun project_root_flag :: "string option \<Rightarrow> string list \<Rightarrow> string option" where
  "project_root_flag root (a # b # rest) =
     (if a = ''--project-root'' then project_root_flag (Some b) rest else project_root_flag root (b # rest))"
| "project_root_flag root _ = root"

definition report_line :: "status_report \<Rightarrow> string" where
  "report_line rp =
     join '','' [rp_status rp, show_int (rp_todos_done rp), show_int (rp_todos_total rp), rp_active_task rp,
               show_int (rp_wait_estimate rp), rp_session_state rp]"

definition status_check :: "string list \<Rightarrow> bool \<Rightarrow> int act" where
  "status_check args codex =
     (if args = [] then exit_with (if codex then 0 else 1) ''error,0,0,no_session,30,error''
      else
        bindA (reads runtime_mode) (\<lambda>mode.
        bindA (session_status (hd args) (''--full'' \<in> set (tl args)) codex (project_root_flag None (tl args)) mode)
          (\<lambda>rp. exit_with (if codex \<or> rp_status rp \<noteq> ''error'' then 0 else 1) (report_line rp))))"

definition cmd_codex_status_check :: "string list \<Rightarrow> int act" where
  "cmd_codex_status_check args = status_check args True"

definition cmd_tmux_status_check :: "string list \<Rightarrow> int act" where
  "cmd_tmux_status_check args = status_check args False"

section \<open>Monitoring\<close>

record monitor_options =
  mo_max_polls :: int
  mo_initial_wait :: int
  mo_timeout :: int   \<comment> \<open>in minutes\<close>
  mo_json :: bool
  mo_workflow :: string
  mo_story_key :: string
  mo_state_file :: string
  mo_project_root :: string
  mo_agent :: string

fun parse_monitor_options :: "monitor_options \<Rightarrow> string list \<Rightarrow> monitor_options res" where
  "parse_monitor_options opts [] = Inr opts"
| "parse_monitor_options opts [a] =
     (if a = ''--state-file'' then ebind (flag_value a []) (\<lambda>_. Inr opts)
      else Inr (if a = ''--json'' then opts\<lparr>mo_json := True\<rparr> else opts))"
| "parse_monitor_options opts (a # v # rest) =
     (if a = ''--max-polls'' then
        ebind (py_int (VStr v)) (\<lambda>n. parse_monitor_options (opts\<lparr>mo_max_polls := n\<rparr>) rest)
      else if a = ''--initial-wait'' then
        ebind (py_int (VStr v)) (\<lambda>n. parse_monitor_options (opts\<lparr>mo_initial_wait := n\<rparr>) rest)
      else if a = ''--timeout'' then
        ebind (py_int (VStr v)) (\<lambda>n. parse_monitor_options (opts\<lparr>mo_timeout := n\<rparr>) rest)
      else if a = ''--json'' then parse_monitor_options (opts\<lparr>mo_json := True\<rparr>) (v # rest)
      else if a = ''--agent'' then parse_monitor_options (opts\<lparr>mo_agent := v\<rparr>) rest
      else if a = ''--workflow'' then parse_monitor_options (opts\<lparr>mo_workflow := v\<rparr>) rest
      else if a = ''--story-key'' then parse_monitor_options (opts\<lparr>mo_story_key := v\<rparr>) rest
      else if a = ''--state-file'' then
        ebind (flag_value a (v # rest)) (\<lambda>f. parse_monitor_options (opts\<lparr>mo_state_file := f\<rparr>) rest)
      else if a = ''--project-root'' then parse_monitor_options (opts\<lparr>mo_project_root := v\<rparr>) rest
      else parse_monitor_options opts (v # rest))"

text \<open>What \<open>_emit_monitor\<close> prints; \<open>output_verified\<close> is \<open>None\<close> where the caller leaves it out.\<close>

record verdict =
  vd_state :: string
  vd_done :: int
  vd_total :: int
  vd_output :: string
  vd_reason :: string
  vd_verified :: "bool option"

definition verdict_of :: "string \<Rightarrow> int \<times> int \<Rightarrow> string \<Rightarrow> string \<Rightarrow> bool option \<Rightarrow> verdict" where
  "verdict_of state todos output reason verified_opt =
     \<lparr>vd_state = state, vd_done = fst todos, vd_total = snd todos, vd_output = output, vd_reason = reason,
      vd_verified = verified_opt\<rparr>"

definition emit_monitor :: "bool \<Rightarrow> verdict \<Rightarrow> int act" where
  "emit_monitor json_output v =
     bindA (effect (if json_output
        then print_json (VDict
          [(''final_state'', VStr (vd_state v)), (''todos_done'', VInt (vd_done v)), (''todos_total'', VInt (vd_total v)),
           (''output_file'', VStr (vd_output v)), (''exit_reason'', VStr (vd_reason v)),
           (''output_verified'', VBool (vd_verified v = Some True))])
        else print_line (vd_state v @ '','' @ show_int (vd_done v) @ '','' @ show_int (vd_total v) @ '','' @ vd_output v
               @ '','' @ vd_reason v)))
       (\<lambda>_. ret 0)"

definition unverified :: "string \<Rightarrow> pyval dict" where
  "unverified reason = [(''verified'', VBool False), (''reason'', VStr reason)]"

definition is_path_error :: "exn \<Rightarrow> bool" where
  "is_path_error e \<longleftrightarrow> is_os_error e \<or> is_policy_error e"

text \<open>The payload of the verifier of a workflow and the verifier's name.\<close>

definition verify_monitor_completion ::
    "world \<Rightarrow> string \<Rightarrow> string \<Rightarrow> string \<Rightarrow> string \<Rightarrow> string option \<Rightarrow> (pyval dict \<times> string) res" where
  "verify_monitor_completion w workflow project_root story output_file state_file =
     (case resolve_success_contract w project_root workflow state_file of
        Inl e \<Rightarrow> if is_file_not_found e \<or> is_policy_error e
                 then Inr (unverified ''verifier_contract_invalid'', []) else Inl e
      | Inr contract \<Rightarrow>
          (let verifier_name = str_field ''verifier'' contract in
           if verifier_name = [] then Inr (unverified ''verifier_contract_invalid'', [])
           else if verifier_name \<in> {''create_story_artifact'', ''review_completion'', ''epic_complete''} \<and> strip story = []
           then Inr (unverified ''story_key_required'' @ [(''verifier'', VStr verifier_name)], verifier_name)
           else
             (case run_success_verifier w verifier_name project_root story output_file contract of
                Inr payload \<Rightarrow> Inr (payload, verifier_name)
              | Inl e \<Rightarrow> if is_path_error e then Inr (unverified ''verifier_contract_invalid'', verifier_name)
                         else Inl e)))"

section \<open>The polling loop\<close>

definition observe :: "monitor_options \<Rightarrow> string \<Rightarrow> bool \<Rightarrow> status_report act" where
  "observe opts session full =
     bindA (reads runtime_mode) (\<lambda>mode.
       session_status session full (mo_agent opts = ''codex'') (Some (mo_project_root opts)) mode)"

definition completed_verdict :: "int \<times> int \<Rightarrow> string \<Rightarrow> pyval dict \<times> string \<Rightarrow> verdict" where
  "completed_verdict todos output verification =
     (let payload = fst verification in
      if truth (get_val ''verified'' payload)
      then verdict_of ''completed'' todos output
             (if snd verification = ''session_exit'' then ''normal_completion'' else ''verified_complete'') (Some True)
      else verdict_of ''incomplete'' todos output
             (py_str (or_else (get_val ''reason'' payload) (VStr ''workflow_not_verified''))) (Some False))"

definition optional :: "string \<Rightarrow> string option" where   \<comment> \<open>\<open>s or None\<close>\<close>
  "optional s = (if s = [] then None else Some s)"

definition poll_pause :: "monitor_options \<Rightarrow> int \<Rightarrow> int" where   \<comment> \<open>in seconds\<close>
  "poll_pause opts wait = min (if mo_agent opts = ''codex'' then 180 else 120) (max 5 wait)"

fun poll_loop :: "monitor_options \<Rightarrow> string \<Rightarrow> int \<Rightarrow> nat \<Rightarrow> int \<times> int \<Rightarrow> verdict act" where
  "poll_loop opts session start 0 todos =
     bindA (observe opts session True) (\<lambda>rp.
       ret (verdict_of ''timeout'' todos (rp_active_task rp) ''max_polls_exceeded'' None))"
| "poll_loop opts session start (Suc polls) todos =
     bindA (reads (\<lambda>w. mo_timeout opts * 60000 \<le> w_clock w - start)) (\<lambda>late.
     if late then
       ret (verdict_of ''timeout'' todos [] (''exceeded_'' @ show_int (mo_timeout opts) @ ''m'') None)
     else
       bindA (observe opts session False) (\<lambda>rp.
       (let todos' = (if rp_todos_done rp \<noteq> 0 \<or> rp_todos_total rp \<noteq> 0
                      then (rp_todos_done rp, rp_todos_total rp) else todos);
            state = rp_session_state rp
        in
        if state = ''completed'' then
          bindA (observe opts session True) (\<lambda>full.
          bindA (readsE (\<lambda>w. verify_monitor_completion w (mo_workflow opts) (mo_project_root opts)
                    (mo_story_key opts) (rp_active_task full) (optional (mo_state_file opts)))) (\<lambda>verification.
          ret (completed_verdict todos' (rp_active_task full) verification)))
        else if state = ''crashed'' then
          bindA (observe opts session True) (\<lambda>full.
          ret (verdict_of ''crashed'' todos' (rp_active_task full) (''exit_code_'' @ show_int (rp_wait_estimate full)) None))
        else if state = ''stuck'' then
          bindA (observe opts session True) (\<lambda>full.
          ret (verdict_of ''stuck'' (0, 0) (rp_active_task full) ''never_active'' None))
        else if state = ''not_found'' then ret (verdict_of ''not_found'' todos' [] ''session_gone'' None)
        else
          bindA (effect (sleep_ms (1000 * poll_pause opts (rp_wait_estimate rp)))) (\<lambda>_.
          poll_loop opts session start polls todos'))))"

definition monitor :: "monitor_options \<Rightarrow> string \<Rightarrow> verdict act" where
  "monitor opts session =
     bindA (effect (sleep_ms (1000 * max 0 (mo_initial_wait opts)))) (\<lambda>_.
     bindA (reads w_clock) (\<lambda>start.
       poll_loop opts session start (nat (mo_max_polls opts)) (0, 0)))"

definition default_monitor_options :: "world \<Rightarrow> monitor_options" where
  "default_monitor_options w =
     \<lparr>mo_max_polls = 30, mo_initial_wait = 5, mo_timeout = 60, mo_json = False, mo_workflow = ''dev'',
      mo_story_key = [], mo_state_file = [], mo_project_root = get_project_root w, mo_agent = raw_agent_selection w\<rparr>"

definition with_agent :: "world \<Rightarrow> monitor_options \<Rightarrow> monitor_options" where
  "with_agent w opts =
     (let agent = resolve_agent_selection w (mo_agent opts) (mo_project_root opts) in
      opts\<lparr>mo_agent := agent,
           mo_timeout := (if agent = ''codex'' then mo_timeout opts * 3 div 2 else mo_timeout opts)\<rparr>)"

definition cmd_monitor_session :: "string list \<Rightarrow> int act" where
  "cmd_monitor_session args =
     (if args = [] then ret 1
      else if is_help_flag (hd args) then
        bindA (print_out ''Usage: monitor-session <session_name> [options]'') (\<lambda>_.
        exit_with 0 (''Options: --max-polls N --initial-wait N --project-root PATH --timeout MIN --verbose --json ''
          @ ''--agent TYPE --workflow TYPE --story-key KEY --state-file PATH''))
      else
        bindA (reads (\<lambda>w. parse_monitor_options (default_monitor_options w) (tl args))) (\<lambda>parsed.
        case parsed of
          Inl e \<Rightarrow> if is_policy_error e then ret 1 else raiseA e
        | Inr opts0 \<Rightarrow>
            bindA (reads (\<lambda>w. with_agent w opts0)) (\<lambda>opts.
            bindA (monitor opts (hd args)) (emit_monitor (mo_json opts)))))"

section \<open>Lemmas\<close>

text \<open>Quoting and splitting.\<close>

lemma word_more_more [simp]: "word_more (word_more tok a) b = word_more tok (a @ b)"
  by (simp add: word_more_def)

lemma word_more_Some [simp]: "word_more (Some t) a = Some (t @ a)" "word_more None a = Some a"
  by (simp_all add: word_more_def)

lemma shell_safe_plain: "shell_safe c \<Longrightarrow> \<not> split_space c \<and> c \<noteq> squote \<and> c \<noteq> dquote \<and> c \<noteq> backslash"
  by (auto simp: shell_safe_def split_space_def is_word_def char_class_defs special_chars)

lemma tokens_safe:
  "list_all shell_safe s \<Longrightarrow> shlex_tokens Bare tok (s @ rest) = shlex_tokens Bare (if s = [] then tok else word_more tok s) rest"
  by (induction s arbitrary: tok) (auto simp: shell_safe_plain)

lemma tokens_single:
  "shlex_tokens Single (Some t)
     (concat (List.map (\<lambda>c. if c = squote then [squote, dquote, squote, dquote, squote] else [c]) s) @ [squote]) =
     Some [t @ s]"
  by (induction s arbitrary: t) (auto simp: special_chars split_space_def)

lemma tokens_quote: "shlex_tokens Bare None (shlex_quote s) = Some [s]"
proof -
  consider "s = []" | "list_all shell_safe s" "s \<noteq> []" | "\<not> list_all shell_safe s" "s \<noteq> []" by blast
  then show ?thesis
  proof cases
    case 2
    then show ?thesis using tokens_safe [of s None "[]"] by (simp add: shlex_quote_def)
  next
    case 1
    then show ?thesis by (simp add: shlex_quote_def special_chars split_space_def)
  next
    case 3
    have "\<not> split_space squote" by (simp add: split_space_def special_chars)
    with 3 tokens_single [of "[]" s] show ?thesis by (simp add: shlex_quote_def replace_all_char)
  qed
qed

lemma claude_command_words:
  assumes "agent \<noteq> ''codex''" and "environ w ''AI_COMMAND'' = None"
  shows "shlex_split (step_command w root agent prompt) =
    Some [''unset'', ''CLAUDECODE'', ''&&'', ''claude'', ''--dangerously-skip-permissions'', prompt]"
  using assms tokens_quote [of prompt]
  by (simp add: step_command_def agent_cli_def environ_or_def strip_def lstrip_def rstrip_def shlex_split_def
      split_space_def special_chars)

text \<open>A verdict of completion rests on the verifier's answer in the world the monitor leaves.\<close>

definition monitor_states :: "string list" where
  "monitor_states = [''completed'', ''incomplete'', ''crashed'', ''stuck'', ''not_found'', ''timeout'']"

definition verdict_ok :: "monitor_options \<Rightarrow> verdict \<Rightarrow> world \<Rightarrow> bool" where
  "verdict_ok opts v w \<longleftrightarrow>
     vd_state v \<in> set monitor_states \<and>
     (vd_state v = ''completed'' \<longrightarrow>
        (\<exists>payload name. verify_monitor_completion w (mo_workflow opts) (mo_project_root opts) (mo_story_key opts)
             (vd_output v) (optional (mo_state_file opts)) = Inr (payload, name)
           \<and> truth (get_val ''verified'' payload)))"

lemma verdict_states [simp]:
  "vd_state (verdict_of s t out r b) = s" "vd_output (verdict_of s t out r b) = out"
  by (simp_all add: verdict_of_def)

lemma completed_verdict_ok:
  "ensures (bindA (readsE (\<lambda>w. verify_monitor_completion w (mo_workflow opts) (mo_project_root opts)
        (mo_story_key opts) out (optional (mo_state_file opts)))) (\<lambda>verification.
      ret (completed_verdict todos out verification))) (verdict_ok opts)"
proof (rule ensures_seq [where P = "\<lambda>v w. verify_monitor_completion w (mo_workflow opts) (mo_project_root opts)
        (mo_story_key opts) out (optional (mo_state_file opts)) = Inr v"], goal_cases)
  case 1
  then show ?case by (simp add: ensures_def act_Inr)
next
  case (2 x w y w')
  then show ?case
    by (cases x) (auto simp: act_Inr verdict_ok_def completed_verdict_def Let_def monitor_states_def)
qed

lemma poll_loop_ok: "ensures (poll_loop opts session start polls todos) (verdict_ok opts)"
proof (induction polls arbitrary: todos)
  case 0
  show ?case
    unfolding poll_loop.simps by (intro ensures_bind ensures_ret) (simp add: verdict_ok_def monitor_states_def)
next
  case (Suc polls)
  show ?case
    unfolding poll_loop.simps Let_def
    by (intro ensures_bind ensures_if ensures_ret completed_verdict_ok Suc.IH)
      (simp_all add: verdict_ok_def monitor_states_def)
qed

lemma monitor_ok: "ensures (monitor opts session) (verdict_ok opts)"
  unfolding monitor_def by (intro ensures_bind poll_loop_ok)

end
