(* ===== verification/Monitor_Bounds.thy ===== *)
theory Monitor_Bounds
  imports Tmux_Commands
begin

text \<open>
  How long a monitor waits, counted on the clock of the world: the sleeps of its own and those of
  the status checks. The time the outside programs take is not part of the model.
\<close>

section \<open>Actions that do not wait\<close>

definition takes :: "int \<Rightarrow> 'a act \<Rightarrow> bool" where
  "takes n m \<longleftrightarrow> (\<forall>w x w'. m w = Inr (x, w') \<longrightarrow> w_clock w \<le> w_clock w' \<and> w_clock w' \<le> w_clock w + n)"

lemma takesD: "takes n m \<Longrightarrow> m w = Inr (x, w') \<Longrightarrow> w_clock w \<le> w_clock w' \<and> w_clock w' \<le> w_clock w + n"
  by (simp add: takes_def)

lemma takes_mono: "takes 0 m \<Longrightarrow> 0 \<le> n \<Longrightarrow> takes n m"
  by (force simp: takes_def)

lemma takes_basic [simp]:
  "0 \<le> n \<Longrightarrow> takes n (ret x)" "0 \<le> n \<Longrightarrow> takes n (raiseA e)" "0 \<le> n \<Longrightarrow> takes n (reads f)"
  "0 \<le> n \<Longrightarrow> takes n (readsE g)" "0 \<le> n \<Longrightarrow> takes n (command args)"
  by (auto simp: takes_def act_Inr)

lemma takes_effect: "0 \<le> n \<Longrightarrow> (\<And>w. w_clock (h w) = w_clock w) \<Longrightarrow> takes n (effect h)"
  by (simp add: takes_def act_Inr)

lemma takes_bind: "takes 0 m \<Longrightarrow> (\<And>x. takes n (f x)) \<Longrightarrow> takes n (bindA m f)"
  unfolding takes_def bindA_Inr by fastforce

lemma takes_bind_first: "takes n m \<Longrightarrow> (\<And>x. takes 0 (f x)) \<Longrightarrow> takes n (bindA m f)"
  unfolding takes_def bindA_Inr by fastforce

lemma takes_if: "takes n a \<Longrightarrow> takes n b \<Longrightarrow> takes n (if c then a else b)"
  by simp

lemma takes_prod: "(\<And>a b. takes n (f a b)) \<Longrightarrow> takes n (case p of (a, b) \<Rightarrow> f a b)"
  by (cases p) simp

lemma takes_option: "takes n a \<Longrightarrow> (\<And>x. takes n (f x)) \<Longrightarrow> takes n (case v of None \<Rightarrow> a | Some x \<Rightarrow> f x)"
  by (cases v) simp_all

lemma clock_writes [simp]:
  "w_clock (write_private_text p c w) = w_clock w" "w_clock (save_session_state p d w) = w_clock w"
  "w_clock (save_legacy_state p st w) = w_clock w" "w_clock (unlink w p) = w_clock w"
  by (simp_all add: write_private_text_def save_session_state_def save_legacy_state_def write_atomic_def)

lemmas takes_rules = takes_bind takes_if takes_prod takes_option takes_basic takes_effect

lemma instant_queries:
  "takes 0 (which n)" "takes 0 (command_exists n)" "takes 0 (tmux_has_session s)" "takes 0 (tmux_display s f)"
  "takes 0 (tmux_pid s)" "takes 0 (pane_snapshot_of s)" "takes 0 (pane_status s)" "takes 0 (pid_alive p)"
  "takes 0 (alive_pid k d)" "takes 0 (process_cpu p)" "takes 0 (capture_text s i)" "takes 0 (check_prompt_visible s)"
proof -
  show which: "takes 0 (which n)" for n unfolding which_def by (intro takes_rules) simp_all
  show exists': "takes 0 (command_exists n)" for n unfolding command_exists_def by (intro takes_rules which) simp_all
  show has: "takes 0 (tmux_has_session s)" for s unfolding tmux_has_session_def by (intro takes_rules exists') simp_all
  show display: "takes 0 (tmux_display s f)" for s f unfolding tmux_display_def by (intro takes_rules) simp_all
  show pid: "takes 0 (tmux_pid s)" for s unfolding tmux_pid_def by (intro takes_rules display) simp_all
  show pane: "takes 0 (pane_snapshot_of s)" for s
    unfolding pane_snapshot_of_def by (intro takes_rules has display pid) simp_all
  show "takes 0 (pane_status s)" unfolding pane_status_def by (intro takes_rules pane) simp_all
  show alive: "takes 0 (pid_alive p)" for p unfolding pid_alive_def by (intro takes_rules) simp_all
  show "takes 0 (alive_pid k d)" unfolding alive_pid_def by (rule alive)
  show "takes 0 (process_cpu p)" unfolding process_cpu_def by (intro takes_rules) simp_all
  show capture: "takes 0 (capture_text s i)" for s i
    unfolding capture_text_def by (intro takes_rules has) simp_all
  show "takes 0 (check_prompt_visible s)"
    unfolding check_prompt_visible_def Let_def by (intro takes_rules capture) simp_all
qed

lemma instant_children:
  assumes "\<And>p. takes 0 (find_agent_pid n p q)"
  shows "takes 0 (find_in_children n cs q)"
proof (induction cs)
  case (Cons c cs)
  then show ?case unfolding find_in_children.simps by (intro takes_rules assms) simp_all
qed simp

lemma instant_agent_pid: "takes 0 (find_agent_pid n p q)"
proof (induction n arbitrary: p)
  case (Suc n)
  show ?case unfolding find_agent_pid.simps by (intro takes_rules instant_children Suc.IH) simp_all
qed simp

lemma instant_outputs:
  "takes 0 (existing_output p s r)" "takes 0 (verify_or_create_output f s h r)" "takes 0 (write_capture s c r n)"
  "takes 0 (write_full_capture s r)" "takes 0 (export_output_file s q)"
proof -
  show old: "takes 0 (existing_output p s r)" for p r
    unfolding existing_output_def by (intro takes_rules) simp_all
  show create: "takes 0 (verify_or_create_output f s h r)" for f s h r
    unfolding verify_or_create_output_def existing_output_def
    by (intro takes_rules instant_queries) simp_all
  show capture: "takes 0 (write_capture s c r n)" for c r n
    unfolding write_capture_def by (intro takes_rules) simp_all
  show "takes 0 (write_full_capture s r)"
    unfolding write_full_capture_def by (intro takes_rules capture instant_queries)
  show "takes 0 (export_output_file s q)"
    unfolding export_output_file_def by (intro takes_rules create) simp_all
qed

lemma instant_reconcile: "takes 0 (reconcile_runner_state fs st pane)"
proof -
  have finish: "takes 0 (finish_session p st f)" for p f
    unfolding finish_session_def by (intro takes_rules) simp_all
  show ?thesis
    unfolding reconcile_runner_state_def by (intro takes_rules finish instant_queries) simp_all
qed

lemma instant_prompt: "takes 0 (runner_claude_prompt_completed fs st c v)"
  unfolding runner_claude_prompt_completed_def by (intro takes_rules) simp_all

lemma instant_terminal: "takes 0 (terminal_runner_status s st full r)"
  unfolding terminal_runner_status_def by (intro takes_rules instant_queries instant_outputs) simp_all

lemma instant_live: "takes 0 (live_runner_status s fs st pane a b full codex r)"
  unfolding live_runner_status_def Let_def
  by (intro takes_rules instant_queries instant_prompt instant_terminal instant_outputs) simp_all

lemma instant_legacy_heartbeat: "takes 0 (legacy_heartbeat_check s a)"
  unfolding legacy_heartbeat_check_def Let_def
  by (intro takes_rules instant_queries instant_agent_pid) simp_all

lemma instant_legacy: "takes 0 (legacy_session_status s full codex r)"
proof -
  have codex: "takes 0 (legacy_codex_session_status s full r)"
    unfolding legacy_codex_session_status_def Let_def
    by (intro takes_rules instant_queries instant_outputs instant_legacy_heartbeat) simp_all
  have live: "takes 0 (legacy_claude_live s full r' p ps st c)" for r' p ps st c
    unfolding legacy_claude_live_def Let_def
    by (intro takes_rules instant_queries instant_outputs) simp_all
  have claude: "takes 0 (legacy_claude_session_status s full r)"
    unfolding legacy_claude_session_status_def Let_def
    by (intro takes_rules instant_queries instant_outputs live) simp_all
  show ?thesis unfolding legacy_session_status_def by (intro takes_if codex claude)
qed

section \<open>The waits\<close>

lemma wait_takes: "takes 1050 (\<lambda>w. Inr (wait_for_terminal_state p w))"
proof -
  have "w_clock w \<le> w_clock (snd (wait_for_terminal_state p w)) \<and>
    w_clock (snd (wait_for_terminal_state p w)) \<le> w_clock w + 1050" for w
    using wait_until_clock [of w "w_clock w + 1000" p "load_session_state w p"]
    by (simp add: wait_for_terminal_state_def reconcile_grace_ms_def)
  then show ?thesis unfolding takes_def by (metis Inr_inject snd_conv)
qed

lemma runner_status_takes: "takes 1050 (runner_session_status s full codex r)"
proof -
  have waited: "takes 0 (bindA (reconcile_runner_state fs st pane) f)" if "\<And>x. takes 0 (f x)" for fs st pane f
    by (intro takes_bind instant_reconcile that)
  have terminal: "takes n (terminal_runner_status s st full r')" if "0 \<le> n" for n st r'
    by (rule takes_mono [OF instant_terminal that])
  have legacy: "takes n (legacy_session_status s full codex r')" if "0 \<le> n" for n r'
    by (rule takes_mono [OF instant_legacy that])
  have settled: "takes 1050 (bindA (reconcile_runner_state fs st pane) (\<lambda>st'.
      if is_terminal_state st' then terminal_runner_status s st' full r'
      else live_runner_status s fs st' pane a b full codex r'))" for fs st pane a b r'
    by (rule takes_mono) (intro waited takes_if terminal instant_live order_refl, simp)
  show ?thesis
    unfolding runner_session_status_def
    by (intro takes_bind takes_if takes_bind_first [OF wait_takes] takes_basic instant_queries terminal legacy settled
        waited instant_live order_refl) simp_all
qed

lemma session_status_takes: "takes 1050 (session_status s full codex r mode)"
  unfolding session_status_def by (intro takes_rules runner_status_takes takes_mono [OF instant_legacy]) simp_all

lemma observe_takes: "takes 1050 (observe opts session full)"
  unfolding observe_def by (intro takes_bind session_status_takes) simp

section \<open>The bound of a monitor\<close>

text \<open>Two status checks behind the last one that begins in time, and at most one pause.\<close>

definition poll_budget :: int where
  "poll_budget = 2 * 1050 + 180 * 1000"

lemma poll_pause_le: "poll_pause opts n \<le> 180" "5 \<le> poll_pause opts n"
  by (auto simp: poll_pause_def)

lemma poll_loop_time:
  assumes "poll_loop opts session start polls todos w = Inr (v, w')"
  shows "w_clock w' \<le> (if start + mo_timeout opts * 60000 \<le> w_clock w then w_clock w + 1050
      else start + mo_timeout opts * 60000 + poll_budget)"
  using assms
proof (induction polls arbitrary: todos w)
  case 0
  then obtain rp where "observe opts session True w = Inr (rp, w')"
    by (auto simp: bindA_Inr act_Inr)
  from takesD [OF observe_takes this] show ?case by (auto simp: poll_budget_def max_def)
next
  case (Suc polls)
  show ?case
  proof (cases "mo_timeout opts * 60000 \<le> w_clock w - start")
    case True
    with Suc.prems have "w' = w" by (simp add: act_Inr)
    then show ?thesis by (simp add: poll_budget_def)
  next
    case False
    with Suc.prems obtain rp w1 where o: "observe opts session False w = Inr (rp, w1)"
      and r: "(let todos' = (if rp_todos_done rp \<noteq> 0 \<or> rp_todos_total rp \<noteq> 0
                      then (rp_todos_done rp, rp_todos_total rp) else todos);
            state = rp_session_state rp
        in
        if state = ''completed'' then
          bindA (observe opts session True) (\<lambda>full.
          bindA (readsE (\<lambda>w. verify_monitor_completion w (mo_workflow opts) (mo_project_root opts)
                    (mo_story_key opts) (rp_active_task full) (optional (mo_state_file opts)))) (\<lambda>verification.
          ret (completed_verdict todos' (rp_active_task full) verification)))
        else if state = ''crashed'' then
          bindA (observe opts session True) (\<lambda>full.
          ret (verdict_of ''crashed'' todos' (rp_active_task full) (''exit_code_'' @ show_int (rp_wait_estimate full)) None))
        else if state = ''stuck'' then
          bindA (observe opts session True) (\<lambda>full.
          ret (verdict_of ''stuck'' (0, 0) (rp_active_task full) ''never_active'' None))
        else if state = ''not_found'' then ret (verdict_of ''not_found'' todos' [] ''session_gone'' None)
        else
          bindA (effect (sleep_ms (1000 * poll_pause opts (rp_wait_estimate rp)))) (\<lambda>_.
          poll_loop opts session start polls todos')) w1 = Inr (v, w')"
      by (auto simp: bindA_Inr act_Inr)
    have first: "w_clock w1 \<le> w_clock w + 1050" using takesD [OF observe_takes o] by simp
    have last_check: "w_clock w' \<le> w_clock w1 + 1050" if "observe opts session True w1 = Inr (full, w')" for full
      using takesD [OF observe_takes that] by simp
    consider (check) full where "observe opts session True w1 = Inr (full, w')"
      | (gone) "w' = w1"
      | (again) todos' where "poll_loop opts session start polls todos'
          (sleep_ms (1000 * poll_pause opts (rp_wait_estimate rp)) w1) = Inr (v, w')"
      using r by (auto simp: Let_def bindA_Inr act_Inr split: if_splits)
    then show ?thesis
    proof cases
      case check
      with last_check first False show ?thesis by (simp add: poll_budget_def)
    next
      case gone
      with first show ?thesis by (simp add: poll_budget_def)
    next
      case again
      from Suc.IH [OF again] first poll_pause_le [of opts "rp_wait_estimate rp"] False
      show ?thesis by (auto simp: poll_budget_def split: if_splits)
    qed
  qed
qed

lemma monitor_time:
  assumes "monitor opts session w = Inr (v, w')" "0 \<le> mo_timeout opts"
  shows "w_clock w' \<le> w_clock w + 1000 * max 0 (mo_initial_wait opts) + mo_timeout opts * 60000 + poll_budget"
proof -
  let ?w = "sleep_ms (1000 * max 0 (mo_initial_wait opts)) w"
  have "poll_loop opts session (w_clock ?w) (nat (mo_max_polls opts)) (0, 0) ?w = Inr (v, w')"
    using assms by (simp add: monitor_def)
  from poll_loop_time [OF this] assms(2) show ?thesis by (auto simp: poll_budget_def split: if_splits)
qed

end
