(* ===== verification/Runner_Lifecycle.thy ===== *)
theory Runner_Lifecycle
  imports Tmux_Spawn
begin

text \<open>
  The life of a session of a runner: the runner script and the monitors write the same state
  file. The script (\<open>runner_file_content\<close> in \<open>core/tmux_runtime.py\<close>) is modelled by what its
  \<open>write_state\<close> does to the file and by its phases; a monitor first reads the state and later
  reconciles what it read, so that the script may write in between.
\<close>

section \<open>What the script writes\<close>

text \<open>An argument of \<open>write_state\<close> that is empty is \<open>None\<close>, or the empty string for a time.\<close>

record state_args =
  sa_lifecycle :: string
  sa_result :: string
  sa_exit :: "int option"
  sa_reason :: string
  sa_runner :: "int option"
  sa_child :: "int option"
  sa_started :: string
  sa_finished :: string

definition set_pid :: "string \<Rightarrow> int option \<Rightarrow> pyval dict \<Rightarrow> pyval dict" where
  "set_pid k n d = (case n of None \<Rightarrow> d | Some i \<Rightarrow> dict_set k (VInt i) d)"

definition set_time :: "string \<Rightarrow> string \<Rightarrow> pyval dict \<Rightarrow> pyval dict" where
  "set_time k t d = (if t = [] then d else dict_set k (VStr t) d)"

definition written_state :: "string \<Rightarrow> state_args \<Rightarrow> pyval dict \<Rightarrow> pyval dict" where
  "written_state now a state =
     (let s1 = dict_update state
            [(''schemaVersion'', VInt 1), (''lifecycle'', VStr (sa_lifecycle a)), (''result'', VStr (sa_result a)),
             (''failureReason'', VStr (sa_reason a)), (''updatedAt'', VStr now)];
          s2 = set_pid ''childPid'' (sa_child a) (set_pid ''runnerPid'' (sa_runner a) s1);
          s3 = set_time ''finishedAt'' (sa_finished a) (set_time ''startedAt'' (sa_started a) s2)
      in set_pid ''exitCode'' (sa_exit a) s3)"

definition write_state :: "ppath \<Rightarrow> state_args \<Rightarrow> world \<Rightarrow> world" where
  "write_state path a w =
     save_session_state path (written_state (now_utc_z w) a (load_session_state w path)) w"

definition runner_result :: "int \<Rightarrow> string \<times> string" where
  "runner_result exit_code =
     (if exit_code = 0 then (''success'', [])
      else if exit_code = 126 \<or> exit_code = 127 then (''spawn_error'', ''runner_exec_failed'')
      else if exit_code = 130 \<or> exit_code = 131 \<or> exit_code = 143 then (''interrupted'', ''signal_terminated'')
      else (''failure'', ''exit_nonzero''))"

definition launching_args :: "int \<Rightarrow> state_args" where
  "launching_args pid =
     \<lparr>sa_lifecycle = ''launching'', sa_result = [], sa_exit = None, sa_reason = [], sa_runner = Some pid,
      sa_child = None, sa_started = [], sa_finished = []\<rparr>"

definition missing_args :: "int \<Rightarrow> string \<Rightarrow> state_args" where
  "missing_args pid now =
     \<lparr>sa_lifecycle = ''finished'', sa_result = ''spawn_error'', sa_exit = Some 127, sa_reason = ''command_file_missing'',
      sa_runner = Some pid, sa_child = None, sa_started = [], sa_finished = now\<rparr>"

definition running_args :: "int \<Rightarrow> int \<Rightarrow> string \<Rightarrow> state_args" where
  "running_args pid child started =
     \<lparr>sa_lifecycle = ''running'', sa_result = [], sa_exit = None, sa_reason = [], sa_runner = Some pid,
      sa_child = Some child, sa_started = started, sa_finished = []\<rparr>"

definition exit_args :: "int \<Rightarrow> int \<Rightarrow> string \<Rightarrow> int \<Rightarrow> string \<Rightarrow> state_args" where
  "exit_args pid child started exit_code now =
     \<lparr>sa_lifecycle = ''finished'', sa_result = fst (runner_result exit_code), sa_exit = Some exit_code,
      sa_reason = snd (runner_result exit_code), sa_runner = Some pid, sa_child = Some child,
      sa_started = started, sa_finished = now\<rparr>"

section \<open>The steps\<close>

datatype runner_phase =
    Starting
  | Launching
  | Running int string   \<comment> \<open>the child and its start time\<close>
  | Exited int

text \<open>The phase of the script, what the monitor read last, and the world.\<close>

type_synonym session = "runner_phase \<times> pyval dict \<times> world"

inductive session_step :: "session_files \<Rightarrow> int \<Rightarrow> session \<Rightarrow> session \<Rightarrow> bool" for fs pid where
  launch: "session_step fs pid (Starting, s, w) (Launching, s, write_state (sp_state fs) (launching_args pid) w)"
| missing: "\<not> is_file w (sp_command fs) \<Longrightarrow>
    session_step fs pid (Launching, s, w)
      (Exited 127, s, write_state (sp_state fs) (missing_args pid (now_utc_z w)) w)"
| start: "is_file w (sp_command fs) \<Longrightarrow>
    session_step fs pid (Launching, s, w)
      (Running child (now_utc_z w), s, write_state (sp_state fs) (running_args pid child (now_utc_z w)) w)"
| finish: "session_step fs pid (Running child started, s, w)
      (Exited code, s, write_state (sp_state fs) (exit_args pid child started code (now_utc_z w)) w)"
| look: "session_step fs pid (ph, s, w) (ph, load_session_state w (sp_state fs), w)"
| reconcile: "reconcile_runner_state fs s pane w = Inr (s', w') \<Longrightarrow> session_step fs pid (ph, s, w) (ph, s', w')"
| prompt: "runner_claude_prompt_completed fs s capture visible w = Inr (b, w') \<Longrightarrow>
    session_step fs pid (ph, s, w) (ph, s, w')"
| elapse: "0 \<le> n \<Longrightarrow> session_step fs pid (ph, s, w) (ph, s, w\<lparr>w_clock := w_clock w + n\<rparr>)"

inductive_cases session_step_from: "session_step fs pid (ph, s, w) (ph', s', w')"

inductive session_run :: "session_files \<Rightarrow> int \<Rightarrow> session \<Rightarrow> session \<Rightarrow> bool" for fs pid where
  run_refl: "session_run fs pid x x"
| run_step: "session_run fs pid x y \<Longrightarrow> session_step fs pid y z \<Longrightarrow> session_run fs pid x z"

section \<open>The state file as the script leaves it\<close>

lemma dict_get_set: "dict_get k' (dict_set k v d) = (if k' = k then Some v else dict_get k' d)"
  by (rule dict.get_put)

lemma dict_get_set_pid: "dict_get k' (set_pid k n d) = (if k' = k \<and> n \<noteq> None then map_option VInt n else dict_get k' d)"
  by (auto simp: set_pid_def dict_get_set split: option.splits)

lemma dict_get_set_time: "dict_get k' (set_time k t d) = (if k' = k \<and> t \<noteq> [] then Some (VStr t) else dict_get k' d)"
  by (auto simp: set_time_def dict_get_set)

lemma written_get:
  "dict_get ''lifecycle'' (written_state now a d) = Some (VStr (sa_lifecycle a))"
  "dict_get ''result'' (written_state now a d) = Some (VStr (sa_result a))"
  "dict_get ''finishedAt'' (written_state now a d) =
     (if sa_finished a \<noteq> [] then Some (VStr (sa_finished a)) else dict_get ''finishedAt'' d)"
  by (simp_all add: written_state_def Let_def dict_get_set_pid dict_get_set_time dict_get_update dict_ok_def dict_get_Cons)

definition args_ok :: "state_args \<Rightarrow> bool" where
  "args_ok a \<longleftrightarrow> ascii (sa_lifecycle a) \<and> ascii (sa_result a) \<and> ascii (sa_reason a) \<and> ascii (sa_started a)
     \<and> ascii (sa_finished a)"

lemma set_pid_plain: "json_plain (VDict d) \<Longrightarrow> ascii k \<Longrightarrow> json_plain (VDict (set_pid k n d))"
  unfolding set_pid_def by (auto simp del: json_plain.simps(7) intro: json_plain_dict_set split: option.splits)

lemma set_time_plain: "json_plain (VDict d) \<Longrightarrow> ascii k \<Longrightarrow> ascii t \<Longrightarrow> json_plain (VDict (set_time k t d))"
  unfolding set_time_def by (auto simp del: json_plain.simps(7) intro: json_plain_dict_set)

lemma written_plain:
  assumes "json_plain (VDict d)" "args_ok a" "ascii now"
  shows "json_plain (VDict (written_state now a d))"
proof -
  have "json_plain (VDict (dict_update d
      [(''schemaVersion'', VInt 1), (''lifecycle'', VStr (sa_lifecycle a)), (''result'', VStr (sa_result a)),
       (''failureReason'', VStr (sa_reason a)), (''updatedAt'', VStr now)]))"
    by (rule json_plain_dict_update) (use assms in \<open>simp_all add: args_ok_def\<close>)
  then show ?thesis
    unfolding written_state_def Let_def
    by (intro set_pid_plain set_time_plain) (use assms in \<open>simp_all add: args_ok_def\<close>)
qed

lemma written_ok:
  assumes "session_state_ok d" "args_ok a" "ascii now"
  shows "session_state_ok (written_state now a d)"
  using assms written_plain [of d a now]
  by (auto simp: session_state_ok_def written_get simp del: json_plain.simps(7) split: if_splits)

lemma load_written:
  assumes "session_state_ok (load_session_state w p)" "args_ok a"
  shows "load_session_state (write_state p a w) p = written_state (now_utc_z w) a (load_session_state w p)"
  unfolding write_state_def
  by (rule load_saved) (use assms written_plain ascii_now in \<open>auto simp: session_state_ok_def simp del: json_plain.simps(7)\<close>)

section \<open>Records\<close>

definition result_of :: "pyval dict \<Rightarrow> string" where
  "result_of state = str_or_empty (get_val ''result'' state)"

text \<open>A record has a known phase, and a result exactly when it is finished.\<close>

definition record_ok :: "pyval dict \<Rightarrow> bool" where
  "record_ok s \<longleftrightarrow> session_state_ok s
     \<and> lifecycle_of s \<in> {[], ''created'', ''launching'', ''running'', ''finished''}
     \<and> result_of s \<in> {[], ''success'', ''failure'', ''interrupted'', ''spawn_error'', ''unknown''}
     \<and> (result_of s \<noteq> [] \<longleftrightarrow> lifecycle_of s = ''finished'')"

definition args_record :: "state_args \<Rightarrow> bool" where
  "args_record a \<longleftrightarrow> args_ok a
     \<and> sa_lifecycle a \<in> {''launching'', ''running'', ''finished''}
     \<and> sa_result a \<in> {[], ''success'', ''failure'', ''interrupted'', ''spawn_error'', ''unknown''}
     \<and> (sa_result a \<noteq> [] \<longleftrightarrow> sa_lifecycle a = ''finished'')"

lemma lifecycle_written: "lifecycle_of (written_state now a d) = sa_lifecycle a"
  by (simp add: lifecycle_of_def get_val_def get_or_def written_get)

lemma result_written: "result_of (written_state now a d) = sa_result a"
  by (simp add: result_of_def get_val_def get_or_def written_get)

lemma record_written: "record_ok d \<Longrightarrow> args_record a \<Longrightarrow> ascii now \<Longrightarrow> record_ok (written_state now a d)"
  by (auto simp: record_ok_def args_record_def lifecycle_written result_written written_ok)

lemma script_args:
  "args_record (launching_args pid)" "ascii now \<Longrightarrow> args_record (missing_args pid now)"
  "ascii started \<Longrightarrow> args_record (running_args pid child started)"
  "ascii started \<Longrightarrow> ascii now \<Longrightarrow> args_record (exit_args pid child started code now)"
  by (auto simp: args_record_def args_ok_def launching_args_def missing_args_def running_args_def exit_args_def
      runner_result_def)

lemma sa_finished_args:
  "sa_lifecycle (missing_args pid now) = ''finished''" "sa_lifecycle (exit_args pid child started code now) = ''finished''"
  by (simp_all add: missing_args_def exit_args_def)

lemma lifecycle_finished: "lifecycle_of (finished_state s f now result code reason) = ''finished''"
  by (simp add: lifecycle_of_def get_val_def get_or_def finished_state_get)

lemma result_finished: "result_of (finished_state s f now result code reason) = result"
  by (simp add: result_of_def get_val_def get_or_def finished_state_get)

lemma terminal_lifecycle: "is_terminal_state s \<longleftrightarrow> lifecycle_of s = ''finished''"
  by (simp add: is_terminal_state_def lifecycle_of_def)

lemma record_verdicts:
  assumes "session_state_ok s"
  shows "record_ok (dead_pane_state w s c)" "record_ok (lost_runner_state w s)" "record_ok (never_launched_state w s)"
proof -
  show "record_ok (dead_pane_state w s c)"
    using dead_pane_ok [OF assms] unfolding record_ok_def dead_pane_state_def
    by (auto simp: lifecycle_finished result_finished result_from_exit_code_def split: option.split)
  show "record_ok (lost_runner_state w s)"
    using lost_runner_ok [OF assms] unfolding record_ok_def lost_runner_state_def
    by (simp add: lifecycle_finished result_finished)
  show "record_ok (never_launched_state w s)"
    using never_launched_ok [OF assms]
    by (simp add: record_ok_def lifecycle_of_def result_of_def get_val_def get_or_def never_launched_get)
qed

section \<open>Leaving the state file alone\<close>

definition quiet :: "ppath \<Rightarrow> world \<Rightarrow> bool" where
  "quiet p w \<longleftrightarrow> (\<forall>cs. \<forall>kc \<in> set (w_others w cs). fst kc \<noteq> key_of w p)"

lemma load_file_text:
  "load_session_state w p = (case file_text w p of None \<Rightarrow> [] | Some t \<Rightarrow> (case json_loads t of Inr (VDict d) \<Rightarrow> d | _ \<Rightarrow> []))"
  by (auto simp: load_session_state_def read_file_def file_text_def split: option.split)

lemma change_file_other: "fst kc \<noteq> k \<Longrightarrow> map_of (w_files (change_file kc w)) k = map_of (w_files w) k"
proof -
  have "map_of (List.filter (\<lambda>f. fst f \<noteq> k') fs) k = map_of fs k" if "k' \<noteq> k"
    for k' and fs :: "(string list \<times> string) list" using that by (induction fs) auto
  then show "fst kc \<noteq> k \<Longrightarrow> map_of (w_files (change_file kc w)) k = map_of (w_files w) k"
    by (auto simp: change_file_def update_conv' split: option.split)
qed

lemma change_files_other:
  "\<forall>kc \<in> set cs. fst kc \<noteq> k \<Longrightarrow> map_of (w_files (fold change_file cs w)) k = map_of (w_files w) k"
  by (induction cs arbitrary: w) (simp_all add: change_file_other)

lemma others_frame [simp]:
  "w_others (happen args w) = w_others w" "w_others (put_file w p c) = w_others w" "w_others (make_dir w p) = w_others w"
proof -
  have "w_others (change_file kc v) = w_others v" for kc v by (auto simp: change_file_def split: option.split)
  then have "w_others (fold change_file cs v) = w_others v" for cs v by (induction cs arbitrary: v) simp_all
  then show "w_others (happen args w) = w_others w" by (simp add: happen_def Let_def)
qed (simp_all add: put_file_def make_dir_def)

lemma quiet_save: "quiet p (save_session_state q d w) \<longleftrightarrow> quiet p w"
  by (simp add: quiet_def save_session_state_def write_private_text_def write_atomic_def)

lemma quiet_write_state: "quiet p (write_state q a w) \<longleftrightarrow> quiet p w"
  by (simp add: write_state_def quiet_save)

lemma happen_quiet:
  assumes "quiet p w" shows "quiet p (happen args w)" "load_session_state (happen args w) p = load_session_state w p"
proof -
  show "quiet p (happen args w)" using assms by (simp add: quiet_def)
  have "file_text (happen args w) p = file_text w p"
    using assms unfolding file_text_def happen_frame(8)
    by (auto simp: happen_def Let_def quiet_def change_files_other)
  then show "load_session_state (happen args w) p = load_session_state w p" by (simp add: load_file_text)
qed

lemma alive_pid_quiet:
  assumes "alive_pid k d w = Inr (b, w')" "quiet p w"
  shows "quiet p w' \<and> load_session_state w' p = load_session_state w p"
  using assms happen_quiet [OF assms(2)]
  by (auto simp: alive_pid_def pid_alive_def res_simps split: if_splits prod.splits)

section \<open>What a monitor leaves\<close>

lemma reconcile_file:
  assumes r: "reconcile_runner_state fs state pane w = Inr (s', w')" and q: "quiet (sp_state fs) w"
    and ok: "session_state_ok state"
  shows "quiet (sp_state fs) w' \<and>
    (s' = state \<and> load_session_state w' (sp_state fs) = load_session_state w (sp_state fs)
     \<or> is_terminal_state s' \<and> load_session_state w' (sp_state fs) = s')"
proof (cases "is_terminal_state state")
  case True
  with r q show ?thesis by (simp add: reconcile_runner_state_def act_Inr)
next
  case False
  from r False obtain b1 w1 b2 w2 where a: "alive_pid ''childPid'' state w = Inr (b1, w1)"
      "alive_pid ''runnerPid'' state w1 = Inr (b2, w2)"
    and d: "(if pn_exists pane \<and> pn_dead pane then
        finish_session (sp_state fs) state (\<lambda>w. dead_pane_state w state (pn_dead_status pane))
      else if lifecycle_of state = ''running'' \<and> \<not> b1 \<and> \<not> b2 then
        finish_session (sp_state fs) state (\<lambda>w. lost_runner_state w state)
      else bindA (reads (\<lambda>w. state_age_ms w state)) (\<lambda>age.
          if lifecycle_of state \<in> {''created'', ''launching''} \<and> \<not> pn_exists pane \<and> reconcile_grace_ms < age
          then finish_session (sp_state fs) state (\<lambda>w. never_launched_state w state)
          else ret state)) w2 = Inr (s', w')"
    unfolding reconcile_runner_state_def by (simp only: if_False bindA_Inr) blast
  from a q have q2: "quiet (sp_state fs) w2" and l2: "load_session_state w2 (sp_state fs) = load_session_state w (sp_state fs)"
    using alive_pid_quiet by metis+
  have fin: "quiet (sp_state fs) w' \<and> is_terminal_state s' \<and> load_session_state w' (sp_state fs) = s'"
    if "finish_session (sp_state fs) state f w2 = Inr (s', w')" "session_state_ok (f w2)" "is_terminal_state (f w2)" for f
    using that q2 finish_session_Inr [OF that(1,2)] by (auto simp: finish_session_def act_Inr quiet_save)
  have t: "is_terminal_state (dead_pane_state w2 state c)" "is_terminal_state (lost_runner_state w2 state)"
    "is_terminal_state (never_launched_state w2 state)" for c
    by (simp_all add: dead_pane_state_def lost_runner_state_def finished_state_terminal never_launched_terminal)
  show ?thesis
    using d q2 l2 fin [of "\<lambda>w. dead_pane_state w state (pn_dead_status pane)"] fin [of "\<lambda>w. lost_runner_state w state"]
      fin [of "\<lambda>w. never_launched_state w state"] dead_pane_ok [OF ok] lost_runner_ok [OF ok] never_launched_ok [OF ok] t
    by (auto simp: act_Inr split: if_splits)
qed

lemma reconcile_record:
  assumes r: "reconcile_runner_state fs state pane w = Inr (s', w')" and ok: "record_ok state"
  shows "record_ok s'"
proof -
  have s: "session_state_ok state" using ok by (simp add: record_ok_def)
  from r s show ?thesis
    by (cases rule: reconcile_cases) (use ok record_verdicts [OF s] in auto)
qed

lemma prompt_file:
  assumes r: "runner_claude_prompt_completed fs state capture visible w = Inr (b, w')" and q: "quiet (sp_state fs) w"
    and ok: "record_ok state"
  shows "quiet (sp_state fs) w' \<and>
    (load_session_state w' (sp_state fs) = load_session_state w (sp_state fs)
     \<or> is_terminal_state (load_session_state w' (sp_state fs)) \<and> record_ok (load_session_state w' (sp_state fs)))"
proof -
  let ?f = "finished_state state (finished_at w state) (now_utc_z w) ''success'' (VInt 0) []"
  have ok': "session_state_ok state" using ok by (simp add: record_ok_def)
  have f: "session_state_ok ?f"
    by (rule finished_state_ok [OF ok']) (simp_all add: ascii_finished_at [OF ok'] ascii_now)
  then have l: "load_session_state (save_session_state (sp_state fs) ?f w) (sp_state fs) = ?f"
    by (intro load_saved) (simp add: session_state_ok_def)
  have "record_ok ?f" using f by (simp add: record_ok_def lifecycle_finished result_finished)
  then show ?thesis
    using r q l by (auto simp: runner_claude_prompt_completed_def act_Inr quiet_save finished_state_terminal split: if_splits)
qed

section \<open>The invariant of a session\<close>

definition session_inv :: "session_files \<Rightarrow> session \<Rightarrow> bool" where
  "session_inv fs x =
     (case x of (ph, s, w) \<Rightarrow>
        quiet (sp_state fs) w \<and> record_ok s \<and> record_ok (load_session_state w (sp_state fs))
        \<and> (case ph of Exited _ \<Rightarrow> is_terminal_state (load_session_state w (sp_state fs))
           | Running _ started \<Rightarrow> ascii started
           | _ \<Rightarrow> True))"

lemma script_step_inv:
  assumes "quiet (sp_state fs) w" "record_ok (load_session_state w (sp_state fs))" "args_record a"
  shows "quiet (sp_state fs) (write_state (sp_state fs) a w)"
    and "record_ok (load_session_state (write_state (sp_state fs) a w) (sp_state fs))"
    and "is_terminal_state (load_session_state (write_state (sp_state fs) a w) (sp_state fs)) \<longleftrightarrow>
      sa_lifecycle a = ''finished''"
proof -
  have l: "load_session_state (write_state (sp_state fs) a w) (sp_state fs)
      = written_state (now_utc_z w) a (load_session_state w (sp_state fs))"
    by (rule load_written) (use assms in \<open>simp_all add: record_ok_def args_record_def\<close>)
  show "quiet (sp_state fs) (write_state (sp_state fs) a w)" using assms by (simp add: quiet_write_state)
  show "record_ok (load_session_state (write_state (sp_state fs) a w) (sp_state fs))"
    using assms by (simp add: l record_written ascii_now)
  show "is_terminal_state (load_session_state (write_state (sp_state fs) a w) (sp_state fs)) \<longleftrightarrow>
      sa_lifecycle a = ''finished''"
    by (simp add: l terminal_lifecycle lifecycle_written)
qed

lemma monitor_step_inv:
  assumes i: "session_inv fs (ph, s, w)" and q: "quiet (sp_state fs) w'" and r: "record_ok s'"
    and l: "load_session_state w' (sp_state fs) = load_session_state w (sp_state fs)
      \<or> is_terminal_state (load_session_state w' (sp_state fs)) \<and> record_ok (load_session_state w' (sp_state fs))"
  shows "session_inv fs (ph, s', w')"
  using assms by (auto simp: session_inv_def split: runner_phase.splits)

lemma session_step_inv:
  assumes "session_step fs pid x y" and "session_inv fs x"
  shows "session_inv fs y"
  using assms
proof (induction rule: session_step.induct)
  case (reconcile s pane w s' w' ph)
  then have ok: "record_ok s" "session_state_ok s" and q: "quiet (sp_state fs) w"
    by (auto simp: session_inv_def record_ok_def)
  have f: "quiet (sp_state fs) w' \<and>
    (s' = s \<and> load_session_state w' (sp_state fs) = load_session_state w (sp_state fs)
     \<or> is_terminal_state s' \<and> load_session_state w' (sp_state fs) = s')"
    by (rule reconcile_file [OF reconcile(1) q ok(2)])
  have r: "record_ok s'" by (rule reconcile_record [OF reconcile(1) ok(1)])
  from f r show ?case by (intro monitor_step_inv [OF reconcile(2)]) auto
next
  case (prompt s capture visible w b w' ph)
  then have "record_ok s" "quiet (sp_state fs) w" by (auto simp: session_inv_def)
  with prompt prompt_file [OF prompt(1)] show ?case by (intro monitor_step_inv [OF prompt(2)]) auto
next
  case (elapse n ph s w)
  then show ?case
    by (intro monitor_step_inv [OF elapse(2)])
      (auto simp: session_inv_def quiet_def load_file_text file_text_def key_of_def resolve_def)
qed (auto simp: session_inv_def script_step_inv script_args ascii_now sa_finished_args)

lemma session_run_inv: "session_run fs pid x y \<Longrightarrow> session_inv fs x \<Longrightarrow> session_inv fs y"
  by (induction rule: session_run.induct) (auto intro: session_step_inv)

text \<open>The record a session is created with.\<close>

lemma initial_record:
  assumes "ascii session" "ascii agent" "ascii root" "ascii pane_id" "ascii t"
    and "ascii (path_str (sp_command paths))" "ascii (path_str (sp_output paths))"
  shows "record_ok (initial_state session agent root pane_id n paths t)"
  using assms
  by (simp add: record_ok_def session_state_ok_def initial_state_def dict_ok_def dict_get_Cons lifecycle_of_def
      result_of_def get_val_def get_or_def)

text \<open>The script and the monitor read an exit code alike.\<close>

lemma runner_result_agrees: "fst (runner_result c) = fst (result_from_exit_code (Some c))"
  by (simp add: runner_result_def result_from_exit_code_def signal_exit_codes_def)

text \<open>
  The record behind the script's last write, and what a monitor says of it: completed exactly
  for the exit code 0.
\<close>

lemma finished_verdict:
  assumes "record_ok (load_session_state w p)" "ascii started"
  shows "rp_session_state (terminal_report
      (load_session_state (write_state p (exit_args pid child started code (now_utc_z w)) w) p) text out) =
      (if code = 0 then ''completed'' else ''crashed'')"
proof -
  let ?a = "exit_args pid child started code (now_utc_z w)"
  let ?s = "written_state (now_utc_z w) ?a (load_session_state w p)"
  have l: "load_session_state (write_state p ?a w) p = ?s"
    by (rule load_written) (use assms script_args(4) ascii_now in \<open>simp_all add: record_ok_def args_record_def\<close>)
  have "str_or_empty (get_val ''result'' ?s) = fst (runner_result code)"
    using result_written [of "now_utc_z w" ?a "load_session_state w p"] by (simp add: result_of_def exit_args_def)
  then show ?thesis by (simp add: l terminal_report_def Let_def report_def runner_result_def)
qed

text \<open>
  A monitor that reconciles a record it read before the script finished overwrites the result
  of the script.
\<close>

lemma stale_reconcile:
  assumes s: "session_state_ok s" "lifecycle_of s = ''running''" and pane: "\<not> pn_dead pane"
    and dead: "alive_pid ''childPid'' s w = Inr (False, w1)" "alive_pid ''runnerPid'' s w1 = Inr (False, w2)"
  shows "\<exists>s' w'. reconcile_runner_state fs s pane w = Inr (s', w')
    \<and> result_of (load_session_state w' (sp_state fs)) = ''interrupted''"
proof -
  have "\<not> is_terminal_state s" using s(2) by (simp add: terminal_lifecycle)
  then have r: "reconcile_runner_state fs s pane w = finish_session (sp_state fs) s (\<lambda>w. lost_runner_state w s) w2"
    using s pane dead by (simp add: reconcile_runner_state_def bindA_def)
  obtain s' w' where f: "finish_session (sp_state fs) s (\<lambda>w. lost_runner_state w s) w2 = Inr (s', w')"
    by (simp add: finish_session_def reads_def)
  have "load_session_state w' (sp_state fs) = lost_runner_state w2 s"
    using finish_session_Inr [OF f lost_runner_ok [OF s(1)]] by simp
  with r f show ?thesis by (simp add: lost_runner_state_def result_finished)
qed

end
