(* ===== verification/Parse_Output.thy ===== *)
theory Parse_Output
  imports Tmux_Commands
begin

text \<open>
  \<open>commands/orchestrator_parse.py\<close>: a sub-agent reads the output of a session and answers with
  JSON, which has to match the schema of the step. The time limit and the environment of the
  sub-agent's process are not modelled.
\<close>

section \<open>Schemas\<close>

text \<open>The rule of a leaf: a type name, a list of the allowed values, or a free text.\<close>

definition leaf_ok :: "string \<Rightarrow> pyval \<Rightarrow> bool" where
  "leaf_ok schema payload =
     (let rule = strip schema in
      if rule = ''integer'' then (case payload of VInt _ \<Rightarrow> True | _ \<Rightarrow> False)
      else if rule = ''true|false'' then is_boolean payload
      else if rule = ''path or null'' then
        (case payload of VNone \<Rightarrow> True | VStr s \<Rightarrow> strip s \<noteq> [] | _ \<Rightarrow> False)
      else if contains rule ''|'' \<and> \<not> contains rule '' '' then
        (case payload of VStr s \<Rightarrow> s \<in> set (split_all ''|'' rule) | _ \<Rightarrow> False)
      else (case payload of VStr s \<Rightarrow> strip s \<noteq> [] | _ \<Rightarrow> False))"

function matches_schema :: "pyval \<Rightarrow> pyval \<Rightarrow> bool" where
  "matches_schema payload schema =
     (case schema of
        VDict rules \<Rightarrow>
          (case payload of
             VDict d \<Rightarrow>
               list_all (\<lambda>(key, child).
                 case dict_get key d of None \<Rightarrow> False | Some v \<Rightarrow> matches_schema v child) rules
           | _ \<Rightarrow> False)
      | VStr s \<Rightarrow> leaf_ok s payload
      | _ \<Rightarrow> False)"
  by pat_completeness auto
termination
  by (relation "measure (size \<circ> snd)") (auto dest: size_dict_value)

declare matches_schema.simps [simp del]

definition has_required_keys :: "pyval \<Rightarrow> pyval list \<Rightarrow> bool" where
  "has_required_keys payload required_keys =
     (case payload of
        VDict d \<Rightarrow> list_all (\<lambda>key. case key of VStr s \<Rightarrow> dict_has s d | _ \<Rightarrow> False) required_keys
      | _ \<Rightarrow> False)"

record parse_contract =
  pa_required :: "string list"
  pa_schema :: "pyval dict"

definition invalid_schema :: "'a res" where
  "invalid_schema = Inl (ValueError ''invalid parse schema'')"

definition load_parse_contract :: "world \<Rightarrow> pyval dict \<Rightarrow> parse_contract res" where
  "load_parse_contract w contract =
     ebind (as_dict (or_else (get_val ''parse'' contract) (VDict []))) (\<lambda>parse.
     ebind (read_file w (path_of (str_or_empty (get_val ''schemaPath'' parse)))) (\<lambda>text.
     ebind (json_loads text) (\<lambda>v.
     case v of
       VDict payload \<Rightarrow>
         (case get_val ''requiredKeys'' payload of
            VList required_keys \<Rightarrow>
              if list_all (\<lambda>k. is_str k \<and> strip (py_str k) \<noteq> []) required_keys
              then (case get_val ''schema'' payload of
                      VDict schema \<Rightarrow> Inr \<lparr>pa_required = List.map py_str required_keys, pa_schema = schema\<rparr>
                    | _ \<Rightarrow> invalid_schema)
              else invalid_schema
          | _ \<Rightarrow> invalid_schema)
     | _ \<Rightarrow> invalid_schema)))"

definition build_parse_prompt :: "pyval dict \<Rightarrow> parse_contract \<Rightarrow> string \<Rightarrow> string" where
  "build_parse_prompt contract pa content =
     (let label = py_str (or_else (get_val ''label'' contract) (VStr ''session''));
          schema = json_dumps style_compact (VDict (pa_schema pa))
      in ''Analyze this '' @ label @ '' session output. Return JSON only:'' @ [nl] @ schema @ [nl, nl]
           @ ''Session output:'' @ [nl] @ ''---'' @ [nl] @ content @ [nl] @ ''---'')"

section \<open>The action\<close>

definition command_timeout_exit :: int where
  "command_timeout_exit = 124"

definition print_error :: "string \<Rightarrow> int act" where
  "print_error reason =
     bindA (effect (print_json (VDict [(''status'', VStr ''error''), (''reason'', VStr reason)]))) (\<lambda>_. ret 1)"

fun parse_state_file :: "string \<Rightarrow> string list \<Rightarrow> string res" where   \<comment> \<open>the last \<open>--state-file\<close>\<close>
  "parse_state_file state_file [] = Inr state_file"
| "parse_state_file state_file (a # rest) =
     (if a = ''--state-file''
      then ebind (flag_value a rest) (\<lambda>v. parse_state_file v (drop 1 rest))
      else parse_state_file state_file rest)"

definition is_contract_error :: "exn \<Rightarrow> bool" where
  "is_contract_error e \<longleftrightarrow> is_file_not_found e \<or> is_value_error e"

definition parse_setup :: "world \<Rightarrow> string \<Rightarrow> string \<Rightarrow> (pyval dict \<times> parse_contract \<times> parser_config) res" where
  "parse_setup w state_file step =
     ebind (load_runtime_policy w None (Some state_file) True) (\<lambda>policy.
     ebind (step_contract policy step) (\<lambda>contract.
     ebind (load_parse_contract w contract) (\<lambda>pa.
     ebind (parser_runtime_config policy) (\<lambda>cfg.
     Inr (contract, pa, cfg)))))"

text \<open>The answer of the sub-agent: the payload when it is acceptable, else why not.\<close>

definition accept_answer :: "parse_contract \<Rightarrow> string \<Rightarrow> int \<Rightarrow> string + pyval" where
  "accept_answer pa output exit_code =
     (if exit_code \<noteq> 0 then
        Inl (if exit_code = command_timeout_exit then ''sub-agent call timed out'' else ''sub-agent call failed'')
      else
        (let json_line = extract_json_line output; invalid = Inl ''sub-agent returned invalid json'' in
         if json_line = [] then invalid
         else
           (case json_loads json_line of
              Inl _ \<Rightarrow> invalid
            | Inr payload \<Rightarrow>
                if has_required_keys payload (List.map VStr (pa_required pa))
                   \<and> matches_schema payload (VDict (pa_schema pa))
                then Inr payload else invalid)))"

definition run_parser :: "pyval dict \<times> parse_contract \<times> parser_config \<Rightarrow> string list \<Rightarrow> int act" where
  "run_parser setup lines =
     (case setup of (contract, pa, cfg) \<Rightarrow>
        bindA (command [pc_provider cfg, ''-p'', ''--model'', pc_model cfg,
                        build_parse_prompt contract pa (join [nl] lines)]) (\<lambda>(output, code).
          case accept_answer pa output code of
            Inl reason \<Rightarrow> print_error reason
          | Inr payload \<Rightarrow> bindA (effect (print_json payload)) (\<lambda>_. ret 0)))"

definition parse_output_action :: "string list \<Rightarrow> int act" where
  "parse_output_action args =
     (if length args < 2 then print_error ''output file not found or empty''
      else
        (let output_file = args ! 0; step = args ! 1 in
         case parse_state_file [] (drop 2 args) of
           Inl _ \<Rightarrow> print_error ''parse_contract_invalid''
         | Inr state_file \<Rightarrow>
             bindA (reads (\<lambda>w. read_file w (path_of output_file))) (\<lambda>content.
             case content of
               Inl e \<Rightarrow> if is_file_not_found e then print_error ''output file not found or empty'' else raiseA e
             | Inr text \<Rightarrow>
                 if strip text = [] then print_error ''output file not found or empty''
                 else
                   bindA (reads (\<lambda>w. parse_setup w state_file step)) (\<lambda>setup.
                   case setup of
                     Inl e \<Rightarrow> if is_contract_error e then print_error ''parse_contract_invalid'' else raiseA e
                   | Inr s \<Rightarrow> run_parser s (take 150 (trim_lines text))))))"

section \<open>Lemmas\<close>

lemma matches_dict:
  "matches_schema payload (VDict rules) \<longleftrightarrow>
     (\<exists>d. payload = VDict d \<and> (\<forall>(key, child) \<in> set rules. \<exists>v. dict_get key d = Some v \<and> matches_schema v child))"
  by (subst matches_schema.simps) (auto simp: list_all_iff split: pyval.splits option.splits)

lemma matches_leaf: "matches_schema payload (VStr s) \<longleftrightarrow> leaf_ok s payload"
  by (subst matches_schema.simps) simp

text \<open>
  A payload matches a schema when behind every path of the schema it has an object where the
  schema has one, and a value that obeys the rule where the schema has a rule.
\<close>

definition node_ok :: "pyval \<Rightarrow> pyval \<Rightarrow> bool" where
  "node_ok rule v = (case rule of VDict _ \<Rightarrow> is_dict v | VStr s \<Rightarrow> leaf_ok s v | _ \<Rightarrow> False)"

lemma matches_everywhere:
  "wf_val schema \<Longrightarrow> matches_schema payload schema \<longleftrightarrow>
     (\<forall>ks rule. get_path ks schema = Some rule \<longrightarrow> (\<exists>v. get_path ks payload = Some v \<and> node_ok rule v))"
proof (induction "size schema" arbitrary: schema payload rule: less_induct)
  case less
  let ?all = "\<lambda>payload schema. \<forall>ks rule. get_path ks schema = Some rule \<longrightarrow>
    (\<exists>v. get_path ks payload = Some v \<and> node_ok rule v)"
  have leaf: "\<not> is_dict schema \<Longrightarrow> ?all payload schema \<longleftrightarrow> node_ok schema payload"
  proof -
    assume nd: "\<not> is_dict schema"
    then have "get_path ks schema = Some rule \<longleftrightarrow> ks = [] \<and> rule = schema" for ks rule
      by (cases ks; cases schema) auto
    then show "?all payload schema \<longleftrightarrow> node_ok schema payload" by simp
  qed
  show ?case
  proof (cases schema)
    case (VDict rules)
    have ok: "dict_ok rules" using less.prems VDict by simp
    have child: "?all v c \<longleftrightarrow> matches_schema v c" if "(k, c) \<in> set rules" for k c v
    proof -
      have "size c < size schema" using size_dict_value [OF that] VDict by simp
      moreover have "wf_val c" using less.prems that VDict by force
      ultimately show ?thesis using less.hyps by blast
    qed
    have get: "(k, c) \<in> set rules \<longleftrightarrow> dict_get k rules = Some c" for k c
      using dict.get_entries [OF ok] by simp
    have "?all payload schema \<longleftrightarrow> is_dict payload \<and>
      (\<forall>k c. dict_get k rules = Some c \<longrightarrow> (\<forall>ks rule. get_path ks c = Some rule \<longrightarrow>
         (\<exists>v. get_path (k # ks) payload = Some v \<and> node_ok rule v)))" (is "_ \<longleftrightarrow> ?rhs")
    proof
      assume all: "?all payload schema"
      then have "is_dict payload"
        using all [rule_format, of "[]" schema] VDict by (simp add: node_ok_def)
      moreover have "\<exists>v. get_path (k # ks) payload = Some v \<and> node_ok rule v"
        if "dict_get k rules = Some c" "get_path ks c = Some rule" for k c ks rule
        using all [rule_format, of "k # ks" rule] that VDict by simp
      ultimately show ?rhs by blast
    next
      assume r: ?rhs
      show "?all payload schema"
      proof (intro allI impI)
        fix ks rule assume g: "get_path ks schema = Some rule"
        show "\<exists>v. get_path ks payload = Some v \<and> node_ok rule v"
          using g r VDict by (cases ks) (auto simp: node_ok_def split: option.splits)
      qed
    qed
    also have "\<dots> \<longleftrightarrow> matches_schema payload schema"
    proof (cases payload)
      case (VDict d)
      have "(\<forall>ks rule. get_path ks c = Some rule \<longrightarrow> (\<exists>v. get_path (k # ks) payload = Some v \<and> node_ok rule v))
          \<longleftrightarrow> (\<exists>v. dict_get k d = Some v \<and> matches_schema v c)" if "dict_get k rules = Some c" for k c
      proof (cases "dict_get k d")
        case None
        then show ?thesis using VDict by (auto intro: exI [of _ "[]"])
      next
        case (Some v)
        then show ?thesis using VDict child [of k c v] that get by simp
      qed
      moreover have "matches_schema payload schema \<longleftrightarrow>
          (\<forall>k c. dict_get k rules = Some c \<longrightarrow> (\<exists>v. dict_get k d = Some v \<and> matches_schema v c))"
        using VDict \<open>schema = VDict rules\<close> by (simp add: matches_dict get Ball_def split_paired_All)
      ultimately show ?thesis using VDict by simp
    qed (use VDict in \<open>simp_all add: matches_dict\<close>)
    finally show ?thesis by simp
  next
    case (VStr s)
    then show ?thesis using leaf by (simp add: matches_leaf node_ok_def)
  qed (use leaf in \<open>simp_all add: node_ok_def matches_schema.simps\<close>)
qed

lemma print_error_code: "print_error r w = Inr (n, w') \<Longrightarrow> n = 1"
  by (auto simp: print_error_def bindA_Inr act_Inr)

lemma accept_answer_Inr:
  "accept_answer pa output code = Inr payload \<Longrightarrow>
     code = 0 \<and> has_required_keys payload (List.map VStr (pa_required pa)) \<and> matches_schema payload (VDict (pa_schema pa))"
  by (auto simp: accept_answer_def Let_def split: if_splits sum.splits)

lemma run_parser_accepts:
  assumes "run_parser (contract, pa, cfg) lines w = Inr (0, w')"
  shows "\<exists>payload. has_required_keys payload (List.map VStr (pa_required pa)) \<and>
    matches_schema payload (VDict (pa_schema pa)) \<and> w_out w' = w_out w @ [json_dumps style_compact payload]"
  using assms accept_answer_Inr
  by (fastforce simp: run_parser_def act_Inr bindA_Inr print_json_def print_line_def split: sum.splits prod.splits
      dest: print_error_code)

lemma parse_output_accepts:
  assumes "parse_output_action args w = Inr (0, w')"
  obtains sf contract pa cfg payload where
    "parse_setup w sf (args ! 1) = Inr (contract, pa, cfg)"
    "has_required_keys payload (List.map VStr (pa_required pa))" "matches_schema payload (VDict (pa_schema pa))"
    "w_out w' = w_out w @ [json_dumps style_compact payload]"
proof -
  have "2 \<le> length args" using assms print_error_code by (fastforce simp: parse_output_action_def split: if_splits)
  with assms obtain sf content stp where stp: "parse_setup w sf (args ! 1) = Inr stp"
    and run: "run_parser stp (take 150 (trim_lines content)) w = Inr (0, w')"
    by (auto simp: parse_output_action_def Let_def act_Inr not_less split: sum.splits if_splits dest!: print_error_code)
  obtain contract pa cfg where s: "stp = (contract, pa, cfg)" by (cases stp)
  with run_parser_accepts run stp that show thesis by metis
qed

end
