(* ===== verification/Sample_Stories.thy ===== *)
theory Sample_Stories
  imports Success_Verifiers
begin

text \<open>
  A project with one epic of one story, which is done in the sprint status. The theorems about
  verified stories are applied to it.
\<close>

definition story_world :: world where
  "story_world = bare_world\<lparr>w_files :=
     [([''proj'', ''_bmad-output'', ''implementation-artifacts'', ''sprint-status.yaml''], ''1-1-login: done'' @ [nl]),
      ([''proj'', ''_bmad-output'', ''implementation-artifacts'', ''1-1-login.md''], ''Status: review'' @ [nl])]\<rparr>"

definition login_story :: story_key where
  "login_story = \<lparr>sk_id = ''1.1'', sk_prefix = ''1-1'', sk_key = ''1-1-login''\<rparr>"

lemma story_cwd: "wf_cwd story_world"
  by (simp add: wf_cwd_def story_world_def bare_world_def comp_ok_def)

lemma story_normal: "normalize_story_key story_world ''/proj'' ''1.1'' = Inr (Some login_story)"
  by code_simp

lemma story_created:
  "create_story_artifact story_world ''/proj'' ''1.1'' [] = Inr
     [(''verified'', VBool True), (''story'', VStr ''1-1-login''), (''source'', VStr ''artifact_glob''),
      (''pattern'', VStr ''_bmad-output/implementation-artifacts/1-1-*.md''), (''expectedMatches'', VInt 1),
      (''actualMatches'', VInt 1),
      (''matches'', VList [VStr ''/proj/_bmad-output/implementation-artifacts/1-1-login.md''])]"
  by code_simp

lemma story_epic:
  "epic_complete_verifier story_world ''/proj'' ''1'' = Inr
     [(''verified'', VBool True), (''epic'', VStr ''1''), (''story'', VStr ''1''), (''totalStories'', VInt 1),
      (''doneStories'', VInt 1), (''source'', VStr ''sprint-status.yaml'')]"
  by code_simp

lemma story_reviewed:
  "review_completion story_world ''/proj'' ''1.1'' [] = Inr
     [(''verified'', VBool True), (''story'', VStr ''1-1-login''), (''sprint_status'', VStr ''done''),
      (''story_file_status'', VStr ''unknown''), (''source'', VStr ''sprint-status.yaml'')]"
  by code_simp

end
