(* ===== verification/Agent_Config.thy ===== *)
theory Agent_Config
  imports Runtime_Layout Frontmatter Actions
begin

text \<open>
  \<open>core/agent_config.py\<close>: which agent does which task of a story. A configuration has a default
  agent, an agent per task, and overrides per level of complexity.
\<close>

section \<open>Configurations\<close>

record agent_task =
  at_primary :: string
  at_fallback :: pyval

record agent_config =
  ac_primary :: pyval
  ac_fallback :: string
  ac_tasks :: "agent_task dict"
  ac_overrides :: "agent_task dict dict"

definition no_agent :: "string list" where
  "no_agent = [''false'', ''none'', ''null'']"

definition normalize_fallback_value :: "pyval \<Rightarrow> string" where
  "normalize_fallback_value raw =
     (case raw of
        VStr s \<Rightarrow> (let low = lower (strip s) in if low \<in> set no_agent then ''false'' else low)
      | VBool b \<Rightarrow> if b then ''true'' else ''false''
      | _ \<Rightarrow> [])"

definition parse_task_entry :: "pyval \<Rightarrow> agent_task option" where
  "parse_task_entry raw =
     (case raw of
        VDict d \<Rightarrow> Some \<lparr>at_primary = py_str (get_or (VStr []) ''primary'' d), at_fallback = get_val ''fallback'' d\<rparr>
      | _ \<Rightarrow> None)"

definition parse_task_map :: "pyval \<Rightarrow> agent_task dict" where
  "parse_task_map raw =
     (case raw of
        VDict d \<Rightarrow> List.map_filter (\<lambda>(task, entry). map_option (Pair task) (parse_task_entry entry)) d
      | _ \<Rightarrow> [])"

text \<open>The first key of the two that is present, \<open>False\<close> without one.\<close>

definition fallback_raw :: "pyval dict \<Rightarrow> pyval" where
  "fallback_raw data =
     (if dict_has ''defaultFallback'' data then get_val ''defaultFallback'' data
      else if dict_has ''fallback'' data then get_val ''fallback'' data else VBool False)"

definition default_primary :: "pyval dict \<Rightarrow> pyval" where
  "default_primary data =
     or_else (or_else (get_val ''defaultPrimary'' data) (get_val ''primary'' data)) (VStr ''auto'')"

definition levels :: "string list" where
  "levels = [''low'', ''medium'', ''high'']"

definition add_level :: "pyval dict \<Rightarrow> string \<Rightarrow> agent_task dict dict \<Rightarrow> agent_task dict dict" where
  "add_level data level overrides =
     (if \<not> dict_has level overrides \<and> dict_has level data then
        (let parsed = parse_task_map (get_val level data) in
         if parsed \<noteq> [] then dict_set level parsed overrides else overrides)
      else overrides)"

definition agent_config_of :: "pyval dict \<Rightarrow> agent_config res" where
  "agent_config_of data =
     ebind (as_dict (or_else (get_val ''complexityOverrides'' data) (VDict []))) (\<lambda>raw_overrides.
     (let fallback = normalize_fallback_value (fallback_raw data);
          tasks = parse_task_map (get_val ''perTask'' data);
          overrides = List.map (\<lambda>(level, v). (level, parse_task_map v)) raw_overrides
      in Inr \<lparr>ac_primary = default_primary data,
              ac_fallback = (if fallback = [] then ''false'' else fallback),
              ac_tasks = (case parse_task_entry (get_val ''retro'' data) of
                            Some t \<Rightarrow> if dict_has ''retro'' tasks then tasks else dict_set ''retro'' t tasks
                          | None \<Rightarrow> tasks),
              ac_overrides = fold (add_level data) levels overrides\<rparr>))"

definition parse_agent_config_json :: "string \<Rightarrow> agent_config res" where
  "parse_agent_config_json raw = ebind (json_loads raw) (\<lambda>v. ebind (as_dict v) agent_config_of)"

section \<open>Resolution\<close>

definition resolve_primary_agent :: "world \<Rightarrow> pyval \<Rightarrow> string" where
  "resolve_primary_agent w raw =
     (let v = lower (strip (str_or_empty raw)) in
      if v \<in> {[], ''auto'', ''runtime''} then runtime_provider w None else v)"

definition resolve_fallback_agent :: "pyval \<Rightarrow> string" where
  "resolve_fallback_agent raw =
     (let v = lower (strip (normalize_fallback_value raw)) in
      if v \<in> {[], ''auto'', ''runtime''} then ''false'' else v)"

definition override_task :: "agent_task option \<Rightarrow> pyval \<times> string \<Rightarrow> pyval \<times> string" where
  "override_task t choice =
     (case t of
        None \<Rightarrow> choice
      | Some t \<Rightarrow>
          (if at_primary t \<noteq> [] then VStr (at_primary t) else fst choice,
           if at_fallback t \<noteq> VNone then normalize_fallback_value (at_fallback t) else snd choice))"

definition resolve_agent_for_task :: "world \<Rightarrow> agent_config \<Rightarrow> string \<Rightarrow> string \<Rightarrow> string \<times> string" where
  "resolve_agent_for_task w config complexity task =
     (let primary = or_else (ac_primary config) (VStr ''auto'');
          fallback = (if ac_fallback config = [] then ''false'' else ac_fallback config);
          by_level = (case dict_get complexity (ac_overrides config) of None \<Rightarrow> [] | Some m \<Rightarrow> m);
          choice = override_task (dict_get task by_level)
                     (override_task (dict_get task (ac_tasks config)) (primary, fallback))
      in (resolve_primary_agent w (fst choice), resolve_fallback_agent (VStr (snd choice))))"

section \<open>Agent plans\<close>

definition plan_tasks :: "string list" where
  "plan_tasks = [''create'', ''dev'', ''auto'', ''review'']"

definition story_level :: "pyval dict \<Rightarrow> string res" where
  "story_level story =
     ebind (as_dict (or_else (get_val ''complexity'' story) (VDict []))) (\<lambda>c.
       (let level = lower (strip (py_str (or_else (get_val ''level'' c) (VStr ''medium'')))) in
        Inr (if level = [] then ''medium'' else level)))"

definition choice_entry :: "string \<times> string \<Rightarrow> pyval" where
  "choice_entry pf =
     VDict [(''primary'', VStr (fst pf)), (''fallback'', if snd pf = ''false'' then VBool False else VStr (snd pf))]"

definition plan_story :: "(string \<Rightarrow> string \<Rightarrow> string \<times> string) \<Rightarrow> pyval \<Rightarrow> pyval res" where
  "plan_story resolve_choice v =
     ebind (as_dict v) (\<lambda>story.
     ebind (story_level story) (\<lambda>level.
     Inr (VDict
       [(''storyId'', get_val ''storyId'' story), (''title'', get_val ''title'' story), (''complexity'', VStr level),
        (''tasks'', VDict (List.map (\<lambda>task. (task, choice_entry (resolve_choice level task))) plan_tasks))])))"

definition json_quote :: "string \<Rightarrow> string" where   \<comment> \<open>\<open>json.dumps\<close> of a string\<close>
  "json_quote s = json_dumps style_default (VStr s)"

definition agents_document :: "string \<Rightarrow> string \<Rightarrow> string \<Rightarrow> string \<Rightarrow> pyval list \<Rightarrow> string" where
  "agents_document state_file epic epic_name created_at stories =
     (let plan = VDict [(''version'', VStr ''1.0.0''), (''stateFile'', VStr state_file), (''epic'', VStr epic),
            (''epicName'', VStr epic_name), (''createdAt'', VStr created_at), (''stories'', VList stories)]
      in ''---'' @ [nl] @ ''stateFile: '' @ json_quote state_file @ [nl] @ ''createdAt: ''
            @ json_quote created_at @ [nl] @ ''---'' @ [nl, nl] @ ''# Agents Plan: '' @ epic_name @ [nl, nl]
            @ fence @ ''json'' @ [nl] @ json_dumps style_indent2 plan @ [nl] @ fence @ [nl])"

definition build_agents_file :: "string \<Rightarrow> string \<Rightarrow> string \<Rightarrow> string \<Rightarrow> pyval dict act" where
  "build_agents_file state_file complexity_file output_path config_json =
     bindA (readsE (\<lambda>w. parse_agent_config_json config_json)) (\<lambda>config.
     bindA (readsE (\<lambda>w. ebind (read_file w (path_of complexity_file)) (\<lambda>t. ebind (json_loads t) as_dict))) (\<lambda>payload.
     bindA (readsE (\<lambda>w. ebind (iter_val (get_or (VList []) ''stories'' payload))
              (map_res (plan_story (resolve_agent_for_task w config))))) (\<lambda>stories.
     bindA (readsE (\<lambda>w. find_frontmatter_value w (path_of state_file) ''epic'')) (\<lambda>epic.
     bindA (readsE (\<lambda>w. find_frontmatter_value w (path_of state_file) ''epicName'')) (\<lambda>epic_name.
     bindA (reads now_utc_z) (\<lambda>created_at.
     bindA (effect (\<lambda>w. write_atomic (make_dir w (path_parent (path_of output_path))) (path_of output_path)
              (agents_document state_file epic epic_name created_at stories))) (\<lambda>_.
     ret [(''ok'', VBool True), (''path'', VStr output_path), (''stories'', VInt (int (length stories)))])))))))"

definition failed :: "string \<Rightarrow> pyval dict" where
  "failed msg = [(''ok'', VBool False), (''error'', VStr msg)]"

fun resolve_in_stories :: "string \<Rightarrow> string \<Rightarrow> pyval list \<Rightarrow> pyval dict res" where
  "resolve_in_stories story_id task [] = Inr (failed ''story_not_found'')"
| "resolve_in_stories story_id task (v # vs) =
     ebind (as_dict v) (\<lambda>story.
     if get_val ''storyId'' story \<noteq> VStr story_id then resolve_in_stories story_id task vs
     else
       ebind (as_dict (or_else (get_val ''tasks'' story) (VDict []))) (\<lambda>tasks.
       (let selection = get_val task tasks in
        if \<not> truth selection then Inr (failed ''task_not_found'')
        else ebind (as_dict selection) (\<lambda>sel.
          Inr [(''ok'', VBool True), (''story'', VStr story_id), (''task'', VStr task),
               (''primary'', get_val ''primary'' sel),
               (''fallback'', VStr (normalize_fallback_value (get_val ''fallback'' sel))),
               (''complexity'', get_val ''complexity'' story)]))))"

definition resolve_agents :: "world \<Rightarrow> string \<Rightarrow> string \<Rightarrow> string \<Rightarrow> pyval dict res" where
  "resolve_agents w agents_file story_id task =
     ebind (read_file w (path_of agents_file)) (\<lambda>content.
     (let block = extract_json_block content in
      if block = [] then Inr (failed ''agents_json_missing'')
      else
        ebind (json_loads block) (\<lambda>v. ebind (as_dict v) (\<lambda>payload.
        ebind (iter_val (get_or (VList []) ''stories'' payload)) (resolve_in_stories story_id task)))))"

end
