(* ===== verification/Agent_Plans.thy ===== *)
theory Agent_Plans
  imports Agent_Config Epic_Parser Story_Keys
begin

text \<open>
  \<open>commands/orchestrator_epic_agents.py\<close>: the agent plan of an epic, the agent of a task, the
  stories of an epic and their dependencies.
\<close>

section \<open>Options\<close>

definition lstrip_dashes :: "string \<Rightarrow> string" where
  "lstrip_dashes s = lstrip_chars [CHR ''-''] s"

fun pair_options :: "string dict \<Rightarrow> string list \<Rightarrow> string dict" where
  "pair_options opts (k # v # rest) = pair_options (dict_set (lstrip_dashes k) v opts) rest"
| "pair_options opts _ = opts"

definition opt :: "string \<Rightarrow> string dict \<Rightarrow> string" where
  "opt k opts = (case dict_get k opts of None \<Rightarrow> [] | Some v \<Rightarrow> v)"

definition blank_options :: "string list \<Rightarrow> string dict" where
  "blank_options ks = List.map (\<lambda>k. (k, [])) ks"

text \<open>The value behind the last \<open>--state-file\<close>.\<close>

fun state_file_flag :: "string \<Rightarrow> string list \<Rightarrow> string" where
  "state_file_flag v (a # b # rest) = state_file_flag (if a = ''--state-file'' then b else v) (b # rest)"
| "state_file_flag v _ = v"

section \<open>The agent of a task\<close>

record plan_config =
  pl_primary :: pyval
  pl_fallback :: pyval
  pl_tasks :: "pyval dict"
  pl_overrides :: "pyval dict"

text \<open>\<open>v in {False, "false", "none", "null"}\<close>: 0 is equal to \<open>False\<close>, a list cannot be hashed.\<close>

fun is_no_agent :: "pyval \<Rightarrow> bool res" where
  "is_no_agent (VBool b) = Inr (\<not> b)"
| "is_no_agent (VInt i) = Inr (i = 0)"
| "is_no_agent (VFloat s) = Inr (float_is_zero s)"
| "is_no_agent (VStr s) = Inr (s \<in> set no_agent)"
| "is_no_agent VNone = Inr False"
| "is_no_agent _ = Inl TypeError"

definition mark_fallback :: "pyval \<Rightarrow> pyval res" where
  "mark_fallback v = ebind (is_no_agent v) (\<lambda>b. Inr (if b then VStr ''false'' else v))"

definition dict_or_empty :: "pyval \<Rightarrow> pyval dict" where
  "dict_or_empty v = (case v of VDict d \<Rightarrow> d | _ \<Rightarrow> [])"

definition plan_config_of :: "pyval dict \<Rightarrow> plan_config res" where
  "plan_config_of data =
     (let tasks = dict_or_empty (get_or (VDict []) ''perTask'' data);
          tasks' = (case get_val ''retro'' data of
                      VDict retro \<Rightarrow> if dict_has ''retro'' tasks then tasks else dict_set ''retro'' (VDict retro) tasks
                    | _ \<Rightarrow> tasks);
          overrides = (case get_val ''complexityOverrides'' data of
                         VDict d \<Rightarrow> d
                       | _ \<Rightarrow> List.map (\<lambda>level. (level, get_val level data))
                                (List.filter (\<lambda>level. is_dict (get_val level data)) levels));
          raw = fallback_raw data
      in ebind (is_no_agent raw) (\<lambda>b.
         Inr \<lparr>pl_primary = default_primary data,
              pl_fallback = (if b then VStr ''false'' else or_else raw (VStr ''false'')),
              pl_tasks = tasks', pl_overrides = overrides\<rparr>))"

definition parse_agent_config :: "string \<Rightarrow> plan_config res" where
  "parse_agent_config raw = ebind (json_loads raw) (\<lambda>v. ebind (as_dict v) plan_config_of)"

definition override_entry :: "pyval option \<Rightarrow> pyval \<times> pyval \<Rightarrow> (pyval \<times> pyval) res" where
  "override_entry entry choice =
     (case entry of
        Some (VDict e) \<Rightarrow>
          ebind (if dict_has ''fallback'' e then mark_fallback (get_val ''fallback'' e) else Inr (snd choice)) (\<lambda>f.
            Inr (get_or (fst choice) ''primary'' e, f))
      | _ \<Rightarrow> Inr choice)"

definition plan_fallback_agent :: "pyval \<Rightarrow> string" where   \<comment> \<open>\<open>_resolve_fallback_agent\<close>\<close>
  "plan_fallback_agent raw =
     (let v = lower (strip (if raw = VBool False then ''false'' else str_or_empty raw)) in
      if v \<in> {[], ''auto'', ''runtime'', ''false'', ''none'', ''null''} then ''false'' else v)"

definition resolve_agent :: "world \<Rightarrow> plan_config \<Rightarrow> string \<Rightarrow> string \<Rightarrow> (string \<times> string) res" where
  "resolve_agent w config level task =
     ebind (override_entry (dict_get task (pl_tasks config)) (pl_primary config, pl_fallback config)) (\<lambda>choice.
     ebind (override_entry (dict_get task (dict_or_empty (get_or (VDict []) level (pl_overrides config)))) choice)
       (\<lambda>choice'. Inr (resolve_primary_agent w (fst choice'), plan_fallback_agent (snd choice'))))"

section \<open>Plans\<close>

definition action_story :: "world \<Rightarrow> plan_config \<Rightarrow> pyval \<Rightarrow> pyval res" where
  "action_story w config v =
     ebind (as_dict v) (\<lambda>story.
     ebind (as_dict (get_or (VDict []) ''complexity'' story)) (\<lambda>c.
     (let level0 = lower (py_str (get_or (VStr ''medium'') ''level'' c));
          level = (if level0 = [] then ''medium'' else level0)
      in
      ebind (map_res (\<lambda>task. ebind (resolve_agent w config level task) (\<lambda>pf. Inr (task, choice_entry pf))) plan_tasks)
        (\<lambda>tasks.
      ebind (of_option (KeyError ''storyId'') (dict_get ''storyId'' story)) (\<lambda>story_id.
      Inr (VDict [(''storyId'', story_id), (''title'', get_or (VStr []) ''title'' story),
                  (''complexity'', VStr level), (''tasks'', VDict tasks)]))))))"

definition plan_document :: "string \<Rightarrow> pyval dict \<Rightarrow> string \<Rightarrow> pyval list \<Rightarrow> string" where
  "plan_document state_file flds created_at stories =
     (let epic_name = get_or (VStr []) ''epicName'' flds;
          plan = VDict [(''version'', VStr ''1.0.0''), (''stateFile'', VStr state_file),
            (''epic'', get_or (VStr []) ''epic'' flds), (''epicName'', epic_name), (''createdAt'', VStr created_at),
            (''stories'', VList stories)]
      in ''---'' @ [nl] @ ''stateFile: '' @ [dquote] @ state_file @ [dquote, nl] @ ''createdAt: '' @ [dquote]
           @ created_at @ [dquote, nl] @ ''---'' @ [nl, nl] @ ''# Agents Plan: '' @ py_str epic_name @ [nl, nl]
           @ fence @ ''json'' @ [nl] @ json_dumps style_indent2 plan @ [nl] @ fence @ [nl])"

definition agents_build_action :: "string list \<Rightarrow> int act" where
  "agents_build_action args =
     (let opts = pair_options (blank_options [''state-file'', ''complexity-file'', ''output'', ''config-json'']) args;
          state_file = opt ''state-file'' opts; complexity_file = opt ''complexity-file'' opts; output = opt ''output'' opts
      in
      if \<not> list_all (\<lambda>kv. snd kv \<noteq> []) opts then answer 1 (failed ''missing_args'')
      else
        bindA (reads (\<lambda>w. is_file w (path_of state_file) \<and> is_file w (path_of complexity_file))) (\<lambda>there.
        if \<not> there then answer 1 (failed ''file_not_found'')
        else
          bindA (readsE (\<lambda>w. parse_agent_config (opt ''config-json'' opts))) (\<lambda>config.
          bindA (readsE (\<lambda>w. ebind (read_file w (path_of complexity_file)) (\<lambda>t. ebind (json_loads t) as_dict))) (\<lambda>payload.
          bindA (readsE (\<lambda>w. read_file w (path_of state_file))) (\<lambda>state_text.
          bindA (readsE (\<lambda>w. ebind (iter_val (get_or (VList []) ''stories'' payload)) (map_res (action_story w config))))
            (\<lambda>stories.
          bindA (reads now_utc_z) (\<lambda>created_at.
          bindA (effect (\<lambda>w. put_file (make_dir w (path_parent (path_of output))) (path_of output)
                   (plan_document state_file (parse_simple_frontmatter state_text) created_at stories))) (\<lambda>_.
          answer 0 [(''ok'', VBool True), (''path'', VStr output), (''stories'', VInt (int (length stories)))])))))))) "

fun find_selection :: "string \<Rightarrow> string \<Rightarrow> pyval list \<Rightarrow> (int \<times> pyval dict) res" where
  "find_selection story_id task [] = Inr (1, failed ''story_not_found'')"
| "find_selection story_id task (v # vs) =
     ebind (as_dict v) (\<lambda>story.
     if get_val ''storyId'' story \<noteq> VStr story_id then find_selection story_id task vs
     else
       ebind (as_dict (get_or (VDict []) ''tasks'' story)) (\<lambda>tasks.
       if get_val task tasks = VNone then Inr (1, failed ''task_not_found'')
       else
         ebind (as_dict (get_val task tasks)) (\<lambda>selection.
         ebind (mark_fallback (get_or (VStr []) ''fallback'' selection)) (\<lambda>fallback.
         Inr (0, [(''ok'', VBool True), (''story'', VStr story_id), (''task'', VStr task),
                  (''primary'', get_or (VStr []) ''primary'' selection), (''fallback'', fallback),
                  (''complexity'', get_or (VStr []) ''complexity'' story)])))))"

definition agents_block :: "string \<Rightarrow> string" where
  "agents_block content =
     (case re_search rx_json_block content of Some m \<Rightarrow> rm_grp m 1 | None \<Rightarrow> strip content)"

definition agents_resolve_action :: "string list \<Rightarrow> int act" where
  "agents_resolve_action args =
     (let opts = pair_options (blank_options [''state-file'', ''agents-file'', ''story'', ''task'']) args;
          story_id = opt ''story'' opts; task = opt ''task'' opts; state_file = opt ''state-file'' opts
      in
      if story_id = [] \<or> task = [] \<or> (state_file = [] \<and> opt ''agents-file'' opts = [])
      then answer 1 (failed ''missing_args'')
      else
        bindA (readsE (\<lambda>w. if opt ''agents-file'' opts \<noteq> [] then Inr (opt ''agents-file'' opts)
                            else find_frontmatter_value w (path_of state_file) ''agentsFile'')) (\<lambda>agents_path.
        bindA (reads (\<lambda>w. agents_path \<noteq> [] \<and> is_file w (path_of agents_path))) (\<lambda>there.
        if \<not> there then answer 1 (failed ''agents_file_not_found'')
        else
          bindA (readsE (\<lambda>w. ebind (read_file w (path_of agents_path)) (\<lambda>content.
              ebind (json_loads (agents_block content)) (\<lambda>v. ebind (as_dict v) (\<lambda>payload.
              ebind (iter_val (get_or (VList []) ''stories'' payload)) (find_selection story_id task))))))
            (\<lambda>(code, payload). answer code payload))))"

section \<open>The agents in a state file\<close>

text \<open>The text in front of a comment: a \<open>#\<close> outside of quotes, first or behind a space.\<close>

fun cut_comment :: "char option \<Rightarrow> bool \<Rightarrow> bool \<Rightarrow> string \<Rightarrow> string" where
  "cut_comment q escaped after_space [] = []"
| "cut_comment q escaped after_space (c # cs) =
     (if escaped then c # cut_comment q False (is_space c) cs
      else if c = backslash \<and> q = Some dquote then c # cut_comment q True False cs
      else if c = dquote \<or> c = squote then
        c # cut_comment (if q = Some c then None else if q = None then Some c else q) False False cs
      else if c = CHR ''#'' \<and> q = None \<and> after_space then []
      else c # cut_comment q False (is_space c) cs)"

definition strip_inline_yaml_comment :: "string \<Rightarrow> string" where
  "strip_inline_yaml_comment raw = rstrip (cut_comment None False True (strip raw))"

definition parse_scalar :: "string \<Rightarrow> pyval" where
  "parse_scalar raw =
     (let v = unquote_scalar (strip_inline_yaml_comment raw); low = lower v in
      if low = ''false'' then VBool False else if low = ''true'' then VBool True else VStr v)"

text \<open>\<open>d.setdefault(k, {})\<close>, changed by \<open>f\<close> when it is a dictionary.\<close>

definition under :: "string \<Rightarrow> (pyval dict \<Rightarrow> pyval dict) \<Rightarrow> pyval dict \<Rightarrow> pyval dict" where
  "under k f d = (case get_or (VDict []) k d of VDict s \<Rightarrow> dict_set k (VDict (f s)) d | _ \<Rightarrow> d)"

record agent_block =
  ab_config :: "pyval dict"
  ab_per_task :: bool
  ab_overrides :: bool
  ab_task :: string
  ab_level :: string

definition put_scalar :: "string \<Rightarrow> pyval dict \<Rightarrow> pyval dict" where   \<comment> \<open>\<open>d[key.strip()] = _parse_scalar(raw.strip())\<close>\<close>
  "put_scalar stripped d =
     (let (k, r) = split_colon stripped in dict_set (strip k) (parse_scalar (strip r)) d)"

definition indent_of :: "string \<Rightarrow> nat" where
  "indent_of line = length line - length (lstrip_chars [CHR '' ''] line)"

definition block_top :: "string \<Rightarrow> agent_block \<Rightarrow> agent_block" where   \<comment> \<open>a line of indent 2\<close>
  "block_top stripped st0 =
     (let st = st0\<lparr>ab_task := [], ab_level := [], ab_per_task := False, ab_overrides := False\<rparr> in
      if stripped = ''perTask:'' then st\<lparr>ab_per_task := True\<rparr>
      else if stripped = ''complexityOverrides:'' then st\<lparr>ab_overrides := True\<rparr>
      else if stripped = ''retro:'' then
        st\<lparr>ab_config := (if dict_has ''retro'' (ab_config st) then ab_config st
                          else dict_set ''retro'' (VDict []) (ab_config st)), ab_task := ''retro''\<rparr>
      else if CHR '':'' \<in> set stripped then
        (let (k, r) = split_colon stripped in st\<lparr>ab_config := dict_set k (parse_scalar r) (ab_config st)\<rparr>)
      else st)"

definition block_line :: "string \<Rightarrow> agent_block \<Rightarrow> agent_block" where
  "block_line line st =
     (let stripped = strip line; indent = indent_of line; cfg = ab_config st;
          head_line = endswith stripped '':''; field_line = CHR '':'' \<in> set stripped
      in
      if stripped = [] \<or> startswith stripped ''#'' then st
      else if indent = 2 then block_top stripped st
      else if indent = 4 \<and> ab_per_task st \<and> head_line then
        (let task = butlast stripped in
         st\<lparr>ab_task := task, ab_config := under ''perTask'' (under task (\<lambda>d. d)) cfg\<rparr>)
      else if indent = 4 \<and> ab_overrides st \<and> head_line then
        (let level = butlast stripped in
         st\<lparr>ab_level := level, ab_task := [], ab_config := under ''complexityOverrides'' (under level (\<lambda>d. d)) cfg\<rparr>)
      else if indent = 4 \<and> ab_task st = ''retro'' \<and> field_line then
        st\<lparr>ab_config := under ''retro'' (put_scalar stripped) cfg\<rparr>
      else if indent = 6 \<and> ab_per_task st \<and> ab_task st \<noteq> [] \<and> field_line then
        st\<lparr>ab_config := under ''perTask'' (under (ab_task st) (put_scalar stripped)) cfg\<rparr>
      else if indent = 6 \<and> ab_overrides st \<and> ab_level st \<noteq> [] \<and> head_line then
        (let task = butlast stripped in
         st\<lparr>ab_task := task,
            ab_config := under ''complexityOverrides'' (under (ab_level st) (under task (\<lambda>d. d))) cfg\<rparr>)
      else if indent = 8 \<and> ab_overrides st \<and> ab_level st \<noteq> [] \<and> ab_task st \<noteq> [] \<and> field_line then
        st\<lparr>ab_config := under ''complexityOverrides'' (under (ab_level st) (under (ab_task st) (put_scalar stripped))) cfg\<rparr>
      else st)"

text \<open>The block ends at the first line that is not indented.\<close>

definition agent_block_lines :: "string list \<Rightarrow> string list" where
  "agent_block_lines ls =
     takeWhile (\<lambda>line. line = [] \<or> startswith line '' '') (tl (dropWhile (\<lambda>line. strip line \<noteq> ''agentConfig:'') ls))"

definition agent_block_of :: "string list \<Rightarrow> pyval dict" where
  "agent_block_of ls =
     ab_config (fold block_line (agent_block_lines ls)
       \<lparr>ab_config = [], ab_per_task = False, ab_overrides = False, ab_task = [], ab_level = []\<rparr>)"

definition load_agent_config_from_state :: "world \<Rightarrow> string \<Rightarrow> plan_config res" where
  "load_agent_config_from_state w state_file =
     ebind (read_file w (path_of state_file)) (\<lambda>content.
     (let front = extract_frontmatter content in
      if front = [] then parse_agent_config ''{}''
      else parse_agent_config (json_dumps style_default (VDict (agent_block_of (splitlines front))))))"

definition retro_agent_action :: "string list \<Rightarrow> int act" where
  "retro_agent_action args =
     (let state_file = opt ''state-file'' (pair_options (blank_options [''state-file'']) args) in
      if state_file = [] then answer 1 (failed ''missing_args'')
      else
        bindA (reads (\<lambda>w. is_file w (path_of state_file))) (\<lambda>there.
        if \<not> there then answer 1 (failed ''file_not_found'')
        else
          bindA (readsE (\<lambda>w. ebind (load_agent_config_from_state w state_file) (\<lambda>config.
                              resolve_agent w config ''medium'' ''retro''))) (\<lambda>(primary, fallback).
          answer 0 [(''ok'', VBool True), (''task'', VStr ''retro''), (''primary'', VStr primary),
                    (''fallback'', VStr fallback)])))"

section \<open>The stories of an epic\<close>

text \<open>Sorting by the numbers of an id; the ids are distinct.\<close>

definition dashed_parts :: "string \<Rightarrow> string list" where   \<comment> \<open>\<open>item.replace("-", ".").split(".")[:2]\<close>\<close>
  "dashed_parts story = take 2 (split_all ''.'' (replace_all ''-'' ''.'' story))"

definition part_numbers :: "string list \<Rightarrow> int list res" where
  "part_numbers ps = map_res (\<lambda>part. py_int (VStr part)) ps"

fun ints_le :: "int list \<Rightarrow> int list \<Rightarrow> bool" where
  "ints_le [] ys = True"
| "ints_le (x # xs) [] = False"
| "ints_le (x # xs) (y # ys) = (if x = y then ints_le xs ys else x < y)"

fun insert_numbered :: "int list \<times> 'a \<Rightarrow> (int list \<times> 'a) list \<Rightarrow> (int list \<times> 'a) list" where
  "insert_numbered x [] = [x]"
| "insert_numbered x (y # ys) = (if ints_le (fst x) (fst y) then x # y # ys else y # insert_numbered x ys)"

definition sort_stories :: "(string \<Rightarrow> string list) \<Rightarrow> string list \<Rightarrow> string list res" where
  "sort_stories parts_of stories =
     ebind (map_res (\<lambda>s. ebind (part_numbers (parts_of s)) (\<lambda>k. Inr (k, s))) (remdups stories)) (\<lambda>numbered.
       Inr (List.map snd (foldr insert_numbered numbered [])))"

definition state_stories :: "string \<Rightarrow> string \<Rightarrow> string list res" where   \<comment> \<open>the story range of a state file\<close>
  "state_stories epic content =
     ebind (iter_val (get_or (VList []) ''storyRange'' (parse_simple_frontmatter content))) (\<lambda>xs.
       Inr (List.filter (\<lambda>sid. startswith sid (epic @ ''.'')) (List.map py_str (List.filter is_str xs))))"

definition before_dot :: "string \<Rightarrow> string" where   \<comment> \<open>\<open>s.split(".", 1)[0]\<close>\<close>
  "before_dot s = (case split_once ''.'' s of None \<Rightarrow> s | Some (a, _) \<Rightarrow> a)"

definition epic_stories_from :: "world \<Rightarrow> string \<Rightarrow> string \<Rightarrow> (string list \<times> string) res" where
  "epic_stories_from w epic state_file =
     (if state_file \<noteq> [] \<and> is_file w (path_of state_file)
      then ebind (read_file w (path_of state_file)) (\<lambda>content.
             ebind (state_stories epic content) (\<lambda>stories. Inr (stories, ''state_file'')))
      else ebind (sprint_status_epic w (get_project_root w) epic) (\<lambda>(stories, _). Inr (stories, ''sprint_status'')))"

definition last_in_epic :: "world \<Rightarrow> string \<Rightarrow> string \<Rightarrow> string \<Rightarrow> pyval dict res" where
  "last_in_epic w epic story state_file =
     (let undecided = (\<lambda>reason rest. ebind (py_int (VStr epic)) (\<lambda>n.
            Inr ([(''ok'', VBool True), (''isLastStory'', VBool False), (''epic'', VInt n), (''storyId'', VStr story),
                  (''reason'', VStr reason)] @ rest)))
      in
      if before_dot story \<noteq> epic then undecided ''story_not_in_epic'' []
      else
        ebind (epic_stories_from w epic state_file) (\<lambda>(stories, source).
        if stories = [] then undecided ''could_not_determine'' [(''source'', VStr ''fallback'')]
        else
          ebind (sort_stories dashed_parts stories) (\<lambda>sorted_ids.
          ebind (py_int (VStr epic)) (\<lambda>n.
          (let l = last sorted_ids in
           Inr [(''ok'', VBool True), (''isLastStory'', VBool (story = l \<or> story = replace_all ''-'' ''.'' l)),
                (''epic'', VInt n), (''storyId'', VStr story), (''lastInEpic'', VStr l),
                (''epicStoryCount'', VInt (int (length sorted_ids))), (''source'', VStr source)])))))"

definition check_epic_complete_action :: "string list \<Rightarrow> int act" where
  "check_epic_complete_action args =
     (if length args < 2 then answer 1 (failed ''epic_number and story_id required'')
      else bindA (readsE (\<lambda>w. last_in_epic w (args ! 0) (args ! 1) (state_file_flag [] (drop 2 args)))) (answer 0))"

definition epic_patterns :: "string \<Rightarrow> string list" where
  "epic_patterns epic =
     [''_bmad-output/implementation-artifacts/epic-'' @ epic @ ''-*.md'', ''docs/epics/epic-'' @ epic @ ''-*.md'']"

fun first_glob :: "world \<Rightarrow> ppath \<Rightarrow> string list \<Rightarrow> string" where
  "first_glob w root [] = []"
| "first_glob w root (pattern # rest) =
     (case glob_sorted w root pattern of p # _ \<Rightarrow> path_str p | [] \<Rightarrow> first_glob w root rest)"

definition find_epic_file :: "world \<Rightarrow> string \<Rightarrow> string" where
  "find_epic_file w epic = first_glob w (path_of (get_project_root w)) (epic_patterns epic)"

definition stories_in_epic_file :: "world \<Rightarrow> string \<Rightarrow> string list res" where
  "stories_in_epic_file w epic =
     (let epic_file = find_epic_file w epic in
      if epic_file = [] then Inr []
      else ebind (read_file w (path_of epic_file)) (\<lambda>content.
             sort_stories (split_all ''.'')
               (List.map rm_text (re_finditer (rseq [RWordB, rlit epic, rlit ''.'', rplus rdigit]) content))))"

definition stories_payload :: "string \<Rightarrow> string list \<Rightarrow> string \<Rightarrow> pyval dict" where
  "stories_payload epic stories source =
     [(''ok'', VBool True), (''epic'', VStr epic), (''stories'', VList (List.map VStr stories)),
      (''count'', VInt (int (length stories))), (''source'', VStr source)]"

text \<open>The three sources in their order; the first that names a story answers.\<close>

definition epic_stories_of :: "world \<Rightarrow> string \<Rightarrow> string \<Rightarrow> pyval dict res" where
  "epic_stories_of w epic state_file =
     ebind (if state_file \<noteq> [] \<and> is_file w (path_of state_file)
            then ebind (read_file w (path_of state_file)) (state_stories epic) else Inr []) (\<lambda>s1.
     if s1 \<noteq> [] then Inr (stories_payload epic s1 ''state_file'')
     else
       ebind (sprint_status_epic w (get_project_root w) epic) (\<lambda>(s2, _).
       if s2 \<noteq> [] then Inr (stories_payload epic s2 ''sprint_status'')
       else
         ebind (stories_in_epic_file w epic) (\<lambda>s3.
         if s3 \<noteq> [] then Inr (stories_payload epic s3 ''epic_file'')
         else Inr [(''ok'', VBool False), (''epic'', VStr epic), (''error'', VStr ''no_stories_found''),
                   (''count'', VInt 0)])))"

definition get_epic_stories_action :: "string list \<Rightarrow> int act" where
  "get_epic_stories_action args =
     (if args = [] then answer 1 (failed ''epic_number_required'')
      else bindA (readsE (\<lambda>w. epic_stories_of w (hd args) (state_file_flag [] (tl args)))) (answer 0))"

definition rx_story_heading :: rx where   \<comment> \<open>\<open>^###\s+Story\s+(\d+\.\d+):\<close>\<close>
  "rx_story_heading =
     rseq [RBol False, rlit ''###'', rplus rspace, rlit ''Story'', rplus rspace,
           RGrp 1 (rseq [rplus rdigit, rlit ''.'', rplus rdigit]), rlit '':'']"

fun dependents_of :: "story_key \<Rightarrow> string \<Rightarrow> string list \<Rightarrow> string list" where
  "dependents_of norm current [] = []"
| "dependents_of norm current (line # rest) =
     (case re_match rx_story_heading line of
        Some m \<Rightarrow> dependents_of norm (rm_grp m 1) rest
      | None \<Rightarrow>
          if current \<noteq> [] \<and> (contains (lower line) ''dependencies:'' \<or> contains (lower line) ''**dependencies**:'')
             \<and> (contains line (sk_id norm) \<or> contains line (sk_prefix norm))
          then current # dependents_of norm current rest
          else dependents_of norm current rest)"

definition blocking_answer :: "world \<Rightarrow> story_key \<Rightarrow> pyval dict res" where
  "blocking_answer w norm =
     (let epic = before_dot (sk_id norm); epic_file = find_epic_file w epic;
          reply = (\<lambda>blocking dependents reason source.
            [(''ok'', VBool True), (''blocking'', VBool blocking), (''story'', VStr (sk_id norm)), (''epic'', VStr epic),
             (''dependents'', VList (List.map VStr dependents)), (''reason'', VStr reason), (''source'', VStr source)])
      in if epic_file = [] then Inr (reply True [] ''epic_file_not_found'' ''unknown'')
         else ebind (read_file w (path_of epic_file)) (\<lambda>content.
           (let dependents = sorted_strings (remdups (dependents_of norm [] (trim_lines content))) in
            Inr (if dependents \<noteq> [] then reply True dependents ''dependent_stories'' ''epic_file''
                 else reply False [] ''no_dependents_found'' ''epic_file''))))"

definition check_blocking_action :: "string list \<Rightarrow> int act" where
  "check_blocking_action args =
     (if args = [] then answer 1 (failed ''story_id_required'')
      else
        bindA (readsE (\<lambda>w. normalize_story_key w (get_project_root w) (hd args))) (\<lambda>norm.
        case norm of
          None \<Rightarrow> answer 1 (failed ''could_not_normalize_key'' @ [(''input'', VStr (hd args))])
        | Some n \<Rightarrow> bindA (readsE (\<lambda>w. blocking_answer w n)) (answer 0)))"

section \<open>Lemmas\<close>

lemma space_lower: "is_space (lower_char c) \<longleftrightarrow> is_space c"
  by (auto simp: lower_char_def is_space_def is_upper_def)

lemma lower_lower: "lower_char (lower_char c) = lower_char c"
proof (cases "is_upper c")
  case True
  then have "of_char c + 32 < (256 :: nat)" by (simp add: is_upper_def)
  then have "of_char (lower_char c) = of_char c + (32 :: nat)" using True by (simp add: lower_char_def)
  then have "\<not> is_upper (lower_char c)" using True by (simp add: is_upper_def)
  then show ?thesis by (simp add: lower_char_def)
qed (simp add: lower_char_def)

lemma strip_lower: "strip (lower s) = lower (strip s)"
proof -
  have l: "lstrip (lower t) = lower (lstrip t)" for t
    by (simp add: lstrip_def lower_def dropWhile_map comp_def space_lower)
  have "rstrip t = rev (lstrip (rev t))" for t by (simp add: rstrip_def lstrip_def)
  then have "rstrip (lower t) = lower (rstrip t)" for t using l by (simp add: lower_def rev_map)
  with l show ?thesis by (simp add: strip_def)
qed

lemma lower_idem [simp]: "lower (lower s) = lower s"
  by (simp add: lower_def lower_lower)

lemma dropWhile_dropWhile: "dropWhile P (dropWhile P xs) = dropWhile P xs"
  by (induction xs) auto

lemma strip_strip [simp]: "strip (strip s) = strip s"
proof -
  have r: "rstrip (rstrip t) = rstrip t" for t by (simp add: rstrip_def dropWhile_dropWhile)
  have "lstrip (rstrip (lstrip s)) = rstrip (lstrip s)"
  proof (cases "lstrip s")
    case Nil
    show ?thesis unfolding Nil by (simp add: rstrip_def lstrip_def)
  next
    case (Cons c t)
    then have "\<not> is_space c" unfolding lstrip_def by (metis hd_dropWhile list.discI list.sel(1))
    moreover have "hd (rstrip (c # t)) = c" "rstrip (c # t) \<noteq> []" if "\<not> is_space c"
      using that by (auto simp: rstrip_def dropWhile_append)
    ultimately show ?thesis using Cons by (cases "rstrip (c # t)") (auto simp: lstrip_def)
  qed
  with r show ?thesis by (simp add: strip_def)
qed

section \<open>The two resolutions agree\<close>

text \<open>
  \<open>core/agent_config.py\<close> and the action resolve a configuration differently; on a plain one the
  answers are the same. In a plain configuration an agent is a non-empty text, a fallback a text
  or a boolean, and the overrides are given in one of the two forms.
\<close>

definition plain_fallback :: "pyval \<Rightarrow> bool" where
  "plain_fallback v \<longleftrightarrow> is_str v \<or> is_boolean v"

definition plain_entry :: "pyval \<Rightarrow> bool" where
  "plain_entry v =
     (case v of
        VDict e \<Rightarrow>
          (case dict_get ''primary'' e of None \<Rightarrow> True | Some p \<Rightarrow> is_str p \<and> p \<noteq> VStr [])
          \<and> (case dict_get ''fallback'' e of None \<Rightarrow> True | Some f \<Rightarrow> plain_fallback f)
      | _ \<Rightarrow> False)"

definition plain_tasks :: "pyval \<Rightarrow> bool" where
  "plain_tasks v = (case v of VDict d \<Rightarrow> dict_ok d \<and> (\<forall>kv \<in> set d. plain_entry (snd kv)) | _ \<Rightarrow> False)"

definition absent_or :: "(pyval \<Rightarrow> bool) \<Rightarrow> string \<Rightarrow> pyval dict \<Rightarrow> bool" where
  "absent_or P k d = (case dict_get k d of None \<Rightarrow> True | Some v \<Rightarrow> P v)"

definition plain_agent_data :: "pyval dict \<Rightarrow> bool" where
  "plain_agent_data data \<longleftrightarrow>
     plain_fallback (fallback_raw data) \<and> absent_or plain_tasks ''perTask'' data \<and> absent_or plain_entry ''retro'' data
     \<and> (case dict_get ''complexityOverrides'' data of
          None \<Rightarrow> list_all (\<lambda>level. absent_or plain_tasks level data) levels
        | Some v \<Rightarrow> list_all (\<lambda>level. \<not> dict_has level data) levels
            \<and> (case v of VDict d \<Rightarrow> dict_ok d \<and> (\<forall>kv \<in> set d. plain_tasks (snd kv)) | _ \<Rightarrow> False))"

definition same_choice :: "pyval \<times> string \<Rightarrow> pyval \<times> pyval \<Rightarrow> bool" where
  "same_choice c d \<longleftrightarrow> fst c = fst d \<and> resolve_fallback_agent (VStr (snd c)) = plan_fallback_agent (snd d)"

definition settle :: "string \<Rightarrow> string" where
  "settle v = (if v \<in> {[], ''auto'', ''runtime''} \<or> v \<in> set no_agent then ''false'' else v)"

lemma strip_words [simp]: "strip ''false'' = ''false''" "strip ''true'' = ''true''" "lower ''false'' = ''false''"
  "strip ''True'' = ''True''" "lower ''True'' = ''true''" "lower ''true'' = ''true''" "lower [] = []" "strip [] = []"
  by code_simp+

lemma settle_words [simp]: "settle ''false'' = ''false''" "settle ''true'' = ''true''"
  by code_simp+

lemma normalize_str:
  "normalize_fallback_value (VStr t) = (if lower (strip t) \<in> set no_agent then ''false'' else lower (strip t))"
  by (simp add: normalize_fallback_value_def Let_def)

lemma false_no_agent: "''false'' \<in> set no_agent"
  by (simp add: no_agent_def)

lemma resolve_fallback_str: "resolve_fallback_agent (VStr t) = settle (lower (strip t))"
  by (auto simp: resolve_fallback_agent_def normalize_str settle_def strip_lower Let_def)

lemma plan_fallback_str: "plan_fallback_agent (VStr t) = settle (lower (strip t))"
  by (auto simp: plan_fallback_agent_def settle_def no_agent_def Let_def)

lemma no_agent_words: "s \<in> set no_agent \<Longrightarrow> lower (strip s) \<in> set no_agent"
  unfolding no_agent_def by (auto simp: strip_def lstrip_def rstrip_def lower_def lower_char_def is_space_def is_upper_def)

lemma settle_no_agent: "v \<in> set no_agent \<Longrightarrow> settle v = ''false''"
  by (simp add: settle_def)

lemma plain_fallback_agrees:
  assumes "plain_fallback v"
  shows "\<exists>v'. mark_fallback v = Inr v' \<and>
    resolve_fallback_agent (VStr (normalize_fallback_value v)) = plan_fallback_agent v'"
proof (cases v)
  case (VStr s)
  have "resolve_fallback_agent (VStr (normalize_fallback_value v)) = settle (lower (strip s))"
    by (simp add: VStr normalize_str resolve_fallback_str strip_lower settle_no_agent)
  then show ?thesis
    using no_agent_words [of s]
    by (auto simp: VStr mark_fallback_def ebind_def plan_fallback_str settle_no_agent)
next
  case (VBool b)
  have "plan_fallback_agent (VBool True) = ''true''" by code_simp
  moreover have "normalize_fallback_value (VBool b) = (if b then ''true'' else ''false'')"
    by (simp add: normalize_fallback_value_def)
  ultimately show ?thesis
    by (cases b) (simp_all add: VBool mark_fallback_def ebind_def resolve_fallback_str plan_fallback_str)
qed (use assms in \<open>auto simp: plain_fallback_def\<close>)

text \<open>The two forms of a task map: the parsed one and the object of plain entries.\<close>

definition tasks_agree :: "agent_task dict \<Rightarrow> pyval dict \<Rightarrow> bool" where
  "tasks_agree parsed raw \<longleftrightarrow>
     (\<forall>k. case dict_get k raw of
            None \<Rightarrow> dict_get k parsed = None
          | Some e \<Rightarrow> plain_entry e \<and> dict_get k parsed = parse_task_entry e)"

lemma plain_entry_dict: "plain_entry e \<Longrightarrow> \<exists>d t. e = VDict d \<and> parse_task_entry e = Some t"
  by (cases e) (auto simp: plain_entry_def parse_task_entry_def)

lemma parse_task_map_agrees:
  assumes "dict_ok d" "\<forall>kv \<in> set d. plain_entry (snd kv)"
  shows "tasks_agree (parse_task_map (VDict d)) d"
proof -
  have "dict_get k (List.map_filter (\<lambda>(task, entry). map_option (Pair task) (parse_task_entry entry)) d) =
      Option.bind (dict_get k d) parse_task_entry" for k
    using assms
  proof (induction d)
    case (Cons kv d)
    then obtain t where "parse_task_entry (snd kv) = Some t" using plain_entry_dict by fastforce
    with Cons show ?case by (cases kv) (simp add: map_filter_simps dict_get_Cons dict_ok_def)
  qed (simp add: map_filter_simps)
  moreover have "plain_entry e" if "dict_get k d = Some e" for k e
    using assms(2) that by (force simp: dict_get_def dest: map_of_SomeD)
  ultimately show ?thesis by (simp add: tasks_agree_def parse_task_map_def split: option.split)
qed

lemma plain_tasks_agree: "plain_tasks v \<Longrightarrow> tasks_agree (parse_task_map v) (dict_or_empty v)"
  by (cases v) (auto simp: plain_tasks_def dict_or_empty_def intro: parse_task_map_agrees)

lemma tasks_agree_Nil [simp]: "tasks_agree [] []"
  by (simp add: tasks_agree_def)

lemma tasks_agree_has: "tasks_agree p r \<Longrightarrow> dict_has k p \<longleftrightarrow> dict_has k r"
proof -
  assume "tasks_agree p r"
  then have "case dict_get k r of None \<Rightarrow> dict_get k p = None
    | Some e \<Rightarrow> plain_entry e \<and> dict_get k p = parse_task_entry e" by (simp add: tasks_agree_def)
  then show ?thesis using plain_entry_dict by (cases "dict_get k r") (force simp: dict_has_get)+
qed

lemma tasks_agree_at:
  "tasks_agree p r \<Longrightarrow>
     (case dict_get k r of None \<Rightarrow> dict_get k p = None | Some e \<Rightarrow> plain_entry e \<and> dict_get k p = parse_task_entry e)"
  by (simp add: tasks_agree_def)

lemma tasks_agree_set:
  assumes "tasks_agree p r" "plain_entry e" "parse_task_entry e = Some t"
  shows "tasks_agree (dict_set k t p) (dict_set k e r)"
  unfolding tasks_agree_def
proof
  fix l
  show "case dict_get l (dict_set k e r) of None \<Rightarrow> dict_get l (dict_set k t p) = None
    | Some e' \<Rightarrow> plain_entry e' \<and> dict_get l (dict_set k t p) = parse_task_entry e'"
    using tasks_agree_at [OF assms(1), of l] assms(2,3) by (cases "l = k") (simp_all add: dict.get_put split: option.splits)
qed

lemma override_agrees:
  assumes t: "tasks_agree parsed raw" and c: "same_choice c d"
  shows "\<exists>d'. override_entry (dict_get task raw) d = Inr d' \<and> same_choice (override_task (dict_get task parsed) c) d'"
proof (cases "dict_get task raw")
  case None
  then have "dict_get task parsed = None" using t by (auto simp: tasks_agree_def dest!: spec [of _ task])
  with None c show ?thesis by (simp add: override_entry_def override_task_def)
next
  case (Some v)
  then have pe: "plain_entry v" and parsed: "dict_get task parsed = parse_task_entry v"
    using t by (auto simp: tasks_agree_def dest!: spec [of _ task])
  then obtain e where v: "v = VDict e" using plain_entry_dict by blast
  have primary: "(if at_primary tk \<noteq> [] then VStr (at_primary tk) else fst c) = get_or (fst d) ''primary'' e"
    if "parse_task_entry v = Some tk" for tk
  proof (cases "dict_get ''primary'' e")
    case None
    with that c v show ?thesis by (auto simp: parse_task_entry_def get_or_def same_choice_def)
  next
    case (Some p)
    then have "is_str p" "p \<noteq> VStr []" using pe v by (simp_all add: plain_entry_def)
    with Some that v show ?thesis by (cases p) (auto simp: parse_task_entry_def get_or_def)
  qed
  have fb: "\<exists>f. (if dict_has ''fallback'' e then mark_fallback (get_val ''fallback'' e) else Inr (snd d)) = Inr f \<and>
      resolve_fallback_agent (VStr (if at_fallback tk \<noteq> VNone then normalize_fallback_value (at_fallback tk) else snd c))
        = plan_fallback_agent f"
    if tk: "parse_task_entry v = Some tk" for tk
  proof (cases "dict_get ''fallback'' e")
    case None
    then show ?thesis using c tk v
      by (auto simp: dict_has_get same_choice_def parse_task_entry_def get_val_def get_or_def)
  next
    case (Some f)
    then have pf: "plain_fallback f" using pe v by (simp add: plain_entry_def)
    then have "f \<noteq> VNone" by (auto simp: plain_fallback_def)
    with plain_fallback_agrees [OF pf] Some tk v show ?thesis
      by (auto simp: dict_has_get parse_task_entry_def get_val_def get_or_def)
  qed
  obtain tk where tk: "parse_task_entry v = Some tk" using plain_entry_dict [OF pe] by blast
  from fb [OF tk] obtain f where f: "(if dict_has ''fallback'' e then mark_fallback (get_val ''fallback'' e) else Inr (snd d)) = Inr f"
    and rf: "resolve_fallback_agent (VStr (if at_fallback tk \<noteq> VNone then normalize_fallback_value (at_fallback tk) else snd c))
        = plan_fallback_agent f" by blast
  have "override_entry (Some v) d = Inr (get_or (fst d) ''primary'' e, f)"
    using f by (simp add: v override_entry_def ebind_def)
  moreover have "same_choice (override_task (Some tk) c) (get_or (fst d) ''primary'' e, f)"
    using primary [OF tk] rf by (simp add: same_choice_def override_task_def)
  ultimately show ?thesis using Some parsed tk by simp
qed

text \<open>The overrides of a level, on both sides.\<close>

definition levels_agree :: "agent_task dict dict \<Rightarrow> pyval dict \<Rightarrow> bool" where
  "levels_agree parsed raw \<longleftrightarrow>
     (\<forall>level. tasks_agree (case dict_get level parsed of None \<Rightarrow> [] | Some m \<Rightarrow> m)
                        (dict_or_empty (get_or (VDict []) level raw)))"

lemma get_fold_add_level:
  "dict_get c (fold (add_level data) ls acc) =
     (case dict_get c acc of
        Some m \<Rightarrow> Some m
      | None \<Rightarrow> if c \<in> set ls \<and> dict_has c data \<and> parse_task_map (get_val c data) \<noteq> []
                then Some (parse_task_map (get_val c data)) else None)"
proof (induction ls arbitrary: acc)
  case (Cons l ls)
  have "dict_get c (add_level data l acc) =
      (case dict_get c acc of
         Some m \<Rightarrow> Some m
       | None \<Rightarrow> if c = l \<and> dict_has c data \<and> parse_task_map (get_val c data) \<noteq> []
                 then Some (parse_task_map (get_val c data)) else None)"
    by (auto simp: add_level_def dict.get_put dict_has_get Let_def split: option.split)
  then show ?case using Cons.IH [of "add_level data l acc"] by (auto split: option.splits)
qed (simp split: option.split)

lemma get_level_map: "dict_get c (List.map (\<lambda>l. (l, f l)) ls) = (if c \<in> set ls then Some (f c) else None)"
  by (induction ls) (auto simp: dict_get_Cons)

lemma get_map_parsed: "dict_get c (List.map (\<lambda>(l, v). (l, f v)) d) = map_option f (dict_get c d)"
  by (induction d) (auto simp: dict_get_Cons)

lemma one_form_of_levels:
  assumes "dict_get ''complexityOverrides'' data = Some (VDict d)"
    and "list_all (\<lambda>level. \<not> dict_has level data) levels" "\<forall>kv \<in> set d. plain_tasks (snd kv)"
  shows "levels_agree (fold (add_level data) levels (List.map (\<lambda>(l, v). (l, parse_task_map v)) d)) d"
proof -
  have "dict_get c (fold (add_level data) levels (List.map (\<lambda>(l, v). (l, parse_task_map v)) d)) =
      map_option parse_task_map (dict_get c d)" for c
    using assms(2) by (auto simp: get_fold_add_level get_map_parsed list_all_iff split: option.split)
  moreover have "plain_tasks v" if "dict_get c d = Some v" for c v
    using assms(3) that by (force simp: dict_get_def dest: map_of_SomeD)
  ultimately show ?thesis
    by (auto simp: levels_agree_def get_or_def dict_or_empty_def [of "VDict []"] intro: plain_tasks_agree
        split: option.split)
qed

lemma parse_empty: "plain_tasks v \<Longrightarrow> parse_task_map v = [] \<Longrightarrow> tasks_agree [] (dict_or_empty v)"
  using plain_tasks_agree by fastforce

lemma other_form_of_levels:
  assumes "list_all (\<lambda>level. absent_or plain_tasks level data) levels"
  shows "levels_agree (fold (add_level data) levels [])
    (List.map (\<lambda>level. (level, get_val level data)) (List.filter (\<lambda>level. is_dict (get_val level data)) levels))"
  unfolding levels_agree_def
proof
  fix c
  show "tasks_agree (case dict_get c (fold (add_level data) levels []) of None \<Rightarrow> [] | Some m \<Rightarrow> m)
     (dict_or_empty (get_or (VDict []) c
       (List.map (\<lambda>level. (level, get_val level data)) (List.filter (\<lambda>level. is_dict (get_val level data)) levels))))"
  proof (cases "c \<in> set levels \<and> dict_has c data")
    case True
    then have p: "plain_tasks (get_val c data)"
      using assms by (auto simp: list_all_iff absent_or_def dict_has_get get_val_def get_or_def)
    then have "is_dict (get_val c data)" by (cases "get_val c data") (simp_all add: plain_tasks_def)
    then show ?thesis using True plain_tasks_agree [OF p] parse_empty [OF p]
      by (auto simp: get_fold_add_level get_or_def get_level_map)
  next
    case False
    then have "c \<in> set levels \<Longrightarrow> get_val c data = VNone" by (auto simp: dict_has_get get_val_def get_or_def)
    then show ?thesis using False
      by (auto simp: get_fold_add_level get_or_def get_level_map dict_or_empty_def)
  qed
qed

lemma configured_tasks:
  assumes "absent_or plain_tasks ''perTask'' data" "absent_or plain_entry ''retro'' data"
  shows "tasks_agree
    (case parse_task_entry (get_val ''retro'' data) of
       Some t \<Rightarrow> if dict_has ''retro'' (parse_task_map (get_val ''perTask'' data)) then parse_task_map (get_val ''perTask'' data)
                 else dict_set ''retro'' t (parse_task_map (get_val ''perTask'' data))
     | None \<Rightarrow> parse_task_map (get_val ''perTask'' data))
    (case get_val ''retro'' data of
       VDict retro \<Rightarrow> if dict_has ''retro'' (dict_or_empty (get_or (VDict []) ''perTask'' data))
                      then dict_or_empty (get_or (VDict []) ''perTask'' data)
                      else dict_set ''retro'' (VDict retro) (dict_or_empty (get_or (VDict []) ''perTask'' data))
     | _ \<Rightarrow> dict_or_empty (get_or (VDict []) ''perTask'' data))"
proof -
  have t: "tasks_agree (parse_task_map (get_val ''perTask'' data)) (dict_or_empty (get_or (VDict []) ''perTask'' data))"
    using assms(1) by (auto simp: absent_or_def get_val_def get_or_def dict_or_empty_def parse_task_map_def
        dest!: plain_tasks_agree split: option.splits)
  show ?thesis
  proof (cases "dict_get ''retro'' data")
    case None
    then show ?thesis using t by (simp add: get_val_def get_or_def parse_task_entry_def)
  next
    case (Some e)
    then have pe: "plain_entry e" using assms(2) by (simp add: absent_or_def)
    then obtain d t' where e: "e = VDict d" "parse_task_entry e = Some t'" using plain_entry_dict by blast
    then have "get_val ''retro'' data = VDict d" "parse_task_entry (VDict d) = Some t'"
      using Some by (auto simp: get_val_def get_or_def)
    then show ?thesis using t tasks_agree_has [OF t, of "''retro''"] tasks_agree_set [OF t pe e(2)] e(1) by simp
  qed
qed

lemma configured_levels:
  assumes "plain_agent_data data"
  shows "\<exists>raw. as_dict (or_else (get_val ''complexityOverrides'' data) (VDict [])) = Inr raw \<and>
    levels_agree (fold (add_level data) levels (List.map (\<lambda>(l, v). (l, parse_task_map v)) raw))
      (case get_val ''complexityOverrides'' data of
         VDict d \<Rightarrow> d
       | _ \<Rightarrow> List.map (\<lambda>level. (level, get_val level data))
                (List.filter (\<lambda>level. is_dict (get_val level data)) levels))"
proof (cases "dict_get ''complexityOverrides'' data")
  case None
  then show ?thesis
    using assms by (simp add: plain_agent_data_def get_val_def [of "''complexityOverrides''"] get_or_def [of VNone]
        or_else_def other_form_of_levels)
next
  case (Some v)
  then obtain d where v: "v = VDict d" using assms by (cases v) (simp_all add: plain_agent_data_def)
  then have "levels_agree (fold (add_level data) levels (List.map (\<lambda>(l, v). (l, parse_task_map v)) d)) d"
    using assms Some by (intro one_form_of_levels) (simp_all add: plain_agent_data_def)
  then show ?thesis using Some v by (cases "d = []") (auto simp: get_val_def get_or_def or_else_def)
qed

lemma configured_fallback:
  assumes "plain_fallback raw"
  shows "\<exists>b. is_no_agent raw = Inr b \<and>
    resolve_fallback_agent (VStr (if normalize_fallback_value raw = [] then ''false'' else normalize_fallback_value raw))
      = plan_fallback_agent (if b then VStr ''false'' else or_else raw (VStr ''false''))"
proof -
  obtain v' where v': "mark_fallback raw = Inr v'"
    and agree: "resolve_fallback_agent (VStr (normalize_fallback_value raw)) = plan_fallback_agent v'"
    using plain_fallback_agrees [OF assms] by blast
  then obtain b where b: "is_no_agent raw = Inr b" "v' = (if b then VStr ''false'' else raw)"
    by (auto simp: mark_fallback_def ebind_def split: sum.splits)
  have blank: "resolve_fallback_agent (VStr []) = ''false''" "plan_fallback_agent (VStr []) = ''false''"
    by (simp_all add: resolve_fallback_str plan_fallback_str settle_def)
  have word: "resolve_fallback_agent (VStr ''false'') = ''false''" "plan_fallback_agent (VStr ''false'') = ''false''"
    by (simp_all add: resolve_fallback_str plan_fallback_str)
  have "plan_fallback_agent (if b then VStr ''false'' else or_else raw (VStr ''false'')) = plan_fallback_agent v'"
    using assms b blank word by (cases raw) (auto simp: plain_fallback_def or_else_def split: if_splits)
  moreover have "resolve_fallback_agent (VStr (if normalize_fallback_value raw = [] then ''false'' else normalize_fallback_value raw))
      = resolve_fallback_agent (VStr (normalize_fallback_value raw))"
    using blank word by simp
  ultimately show ?thesis using b(1) agree by auto
qed

lemma default_primary_truth: "truth (default_primary data)"
  by (simp add: default_primary_def or_else_def)

lemma plain_config:
  assumes plain: "plain_agent_data data"
  shows "\<exists>c1 c2. agent_config_of data = Inr c1 \<and> plan_config_of data = Inr c2 \<and>
    ac_primary c1 = pl_primary c2 \<and> truth (pl_primary c2) \<and> ac_fallback c1 \<noteq> [] \<and>
    resolve_fallback_agent (VStr (ac_fallback c1)) = plan_fallback_agent (pl_fallback c2) \<and>
    tasks_agree (ac_tasks c1) (pl_tasks c2) \<and> levels_agree (ac_overrides c1) (pl_overrides c2)"
proof -
  from configured_levels [OF plain] obtain raw where
    raw: "as_dict (or_else (get_val ''complexityOverrides'' data) (VDict [])) = Inr raw"
    and lv: "levels_agree (fold (add_level data) levels (List.map (\<lambda>(l, v). (l, parse_task_map v)) raw))
      (case get_val ''complexityOverrides'' data of
         VDict d \<Rightarrow> d
       | _ \<Rightarrow> List.map (\<lambda>level. (level, get_val level data))
                (List.filter (\<lambda>level. is_dict (get_val level data)) levels))" by blast
  have "plain_fallback (fallback_raw data)" using plain by (simp add: plain_agent_data_def)
  from configured_fallback [OF this] obtain b where b: "is_no_agent (fallback_raw data) = Inr b"
    and fb: "resolve_fallback_agent (VStr (if normalize_fallback_value (fallback_raw data) = [] then ''false''
          else normalize_fallback_value (fallback_raw data)))
      = plan_fallback_agent (if b then VStr ''false'' else or_else (fallback_raw data) (VStr ''false''))" by blast
  have tk: "absent_or plain_tasks ''perTask'' data" "absent_or plain_entry ''retro'' data"
    using plain by (simp_all add: plain_agent_data_def)
  show ?thesis
    unfolding agent_config_of_def plan_config_of_def raw b ebind_def sum.case Let_def
    using fb configured_tasks [OF tk] lv default_primary_truth by simp
qed

lemma resolutions_agree:
  assumes "plain_agent_data data"
  shows "\<exists>c1 c2. agent_config_of data = Inr c1 \<and> plan_config_of data = Inr c2 \<and>
    resolve_agent w c2 level task = Inr (resolve_agent_for_task w c1 level task)"
proof -
  from plain_config [OF assms] obtain c1 c2 where c: "agent_config_of data = Inr c1" "plan_config_of data = Inr c2"
    and p: "ac_primary c1 = pl_primary c2" "truth (pl_primary c2)" "ac_fallback c1 \<noteq> []"
    and f: "resolve_fallback_agent (VStr (ac_fallback c1)) = plan_fallback_agent (pl_fallback c2)"
    and t: "tasks_agree (ac_tasks c1) (pl_tasks c2)" and l: "levels_agree (ac_overrides c1) (pl_overrides c2)" by blast
  have start: "same_choice (or_else (ac_primary c1) (VStr ''auto''), if ac_fallback c1 = [] then ''false'' else ac_fallback c1)
      (pl_primary c2, pl_fallback c2)" using p f by (simp add: same_choice_def or_else_def)
  obtain d1 where d1: "override_entry (dict_get task (pl_tasks c2)) (pl_primary c2, pl_fallback c2) = Inr d1"
    and s1: "same_choice (override_task (dict_get task (ac_tasks c1))
       (or_else (ac_primary c1) (VStr ''auto''), if ac_fallback c1 = [] then ''false'' else ac_fallback c1)) d1"
    using override_agrees [OF t start] by blast
  have "tasks_agree (case dict_get level (ac_overrides c1) of None \<Rightarrow> [] | Some m \<Rightarrow> m)
      (dict_or_empty (get_or (VDict []) level (pl_overrides c2)))" using l by (simp add: levels_agree_def)
  from override_agrees [OF this s1, of task] show ?thesis
    using c d1 by (auto simp: resolve_agent_def resolve_agent_for_task_def ebind_def Let_def same_choice_def)
qed

end
