(* ===== verification/Sample_World.thy ===== *)
theory Sample_World
  imports Policy_Facts
begin

text \<open>
  A project with the story automator's policy beside its skill: one step, its prompt template and
  its parse schema. The theorems about loaded policies are applied to it.
\<close>

definition sample_policy :: "pyval dict" where
  "sample_policy =
     [(''runtime'', VDict [(''parser'', VDict
         [(''provider'', VStr ''claude''), (''model'', VStr ''m''), (''timeoutSeconds'', VInt 60)])]),
      (''snapshot'', VDict [(''relativeDir'', VStr ''snap'')]),
      (''steps'', VDict [(''dev'', VDict
         [(''assets'', VDict [(''skillName'', VStr ''k'')]), (''prompt'', VDict [(''templateFile'', VStr ''t.md'')]),
          (''parse'', VDict [(''schemaFile'', VStr ''s.json'')]),
          (''success'', VDict [(''verifier'', VStr ''session_exit'')])])])]"

definition sample_root :: ppath where
  "sample_root = PPath True [''proj'']"

definition sample_skill :: ppath where
  "sample_skill = PPath True [''proj'', ''.claude'', ''skills'', ''bmad-story-automator'']"

definition sample_world :: world where
  "sample_world = bare_world\<lparr>w_files :=
     [(parts sample_skill @ [''data'', ''orchestration-policy.json''], json_dumps style_compact (VDict sample_policy)),
      ([''proj'', ''t.md''], ''T''), ([''proj'', ''s.json''], ''{}'')]\<rparr>"

lemma sample_read: "read_policy_json sample_world (policy_file_of sample_skill) = Inr sample_policy"
  by code_simp

lemma sample_valid: "validate_policy_shape sample_policy = Inr ()"
  by code_simp

lemma sample_bundle: "bundled_skill_root sample_world (Some ''/proj'') = Inr sample_skill"
  by code_simp

lemma sample_root_of: "root_of sample_world None = sample_root" "root_of sample_world (Some ''/proj'') = sample_root"
  "path_str sample_root = ''/proj''"
  by code_simp+

lemma sample_bundled: "load_bundled_policy sample_world (Some ''/proj'') False = Inr sample_policy"
  by code_simp

lemma sample_no_override: "is_file sample_world (override_path sample_root) = False"
  by code_simp

lemma sample_merged: "apply_legacy_env sample_world (merge_policy sample_policy []) = Inr sample_policy"
  by code_simp

lemma sample_cleared: "clear_resolved_fields sample_policy = sample_policy"
  by code_simp

lemma sample_no_state: "resolve_policy_state_file sample_world (Some ''/proj'') None = Inr ([], [])"
  by code_simp

lemma sample_files:
  "resolve_data_path sample_world ''t.md'' sample_root sample_skill = Inr ''/proj/t.md''"
  "resolve_data_path sample_world ''s.json'' sample_root sample_skill = Inr ''/proj/s.json''"
  "read_file sample_world (path_of ''/proj/t.md'') = Inr ''T''"
  "read_file sample_world (path_of ''/proj/s.json'') = Inr ''{}''"
  by code_simp+

lemma sample_assets:
  "resolve_step_assets sample_world ''dev'' [(''skillName'', VStr ''k'')] sample_root =
     Inr [(''skill'', VStr []), (''workflow'', VStr []), (''instructions'', VStr []), (''checklist'', VStr []),
          (''template'', VStr [])]"
  by code_simp

definition sample_step :: "pyval dict" where
  "sample_step =
     [(''assets'', VDict [(''skillName'', VStr ''k''), (''files'', VDict
         [(''skill'', VStr []), (''workflow'', VStr []), (''instructions'', VStr []), (''checklist'', VStr []),
          (''template'', VStr [])])]),
      (''prompt'', VDict [(''templateFile'', VStr ''t.md''), (''templatePath'', VStr ''/proj/t.md''),
         (''templateHash'', VStr (md5_hex8 ''T''))]),
      (''parse'', VDict [(''schemaFile'', VStr ''s.json''), (''schemaPath'', VStr ''/proj/s.json''),
         (''schemaHash'', VStr (md5_hex8 ''{}''))]),
      (''success'', VDict [(''verifier'', VStr ''session_exit'')])]"

definition sample_loaded :: "pyval dict" where
  "sample_loaded = dict_set ''steps'' (VDict [(''dev'', VDict sample_step)]) sample_policy"

lemmas sample_unfold = str_field_def str_or_empty_def or_else_def get_val_def get_or_def dict_get_def strip_def lstrip_def
  rstrip_def char_class_defs

lemma sample_stamps:
  "resolve_prompt sample_world ''dev'' sample_root sample_skill [(''templateFile'', VStr ''t.md'')] =
     Inr [(''templateFile'', VStr ''t.md''), (''templatePath'', VStr ''/proj/t.md''), (''templateHash'', VStr (md5_hex8 ''T''))]"
  "resolve_parse sample_world ''dev'' sample_root sample_skill [(''schemaFile'', VStr ''s.json'')] =
     Inr [(''schemaFile'', VStr ''s.json''), (''schemaPath'', VStr ''/proj/s.json''), (''schemaHash'', VStr (md5_hex8 ''{}''))]"
  "resolve_success sample_world sample_root sample_skill [(''verifier'', VStr ''session_exit'')] =
     Inr [(''verifier'', VStr ''session_exit'')]"
  by (simp_all add: resolve_prompt_def resolve_parse_def resolve_success_def stamp_def set_or_verify_hash_def
      sample_files sample_unfold dict_set_def Let_def)

lemma sample_resolved: "resolve_policy_paths sample_world sample_policy sample_root sample_skill = Inr sample_loaded"
  unfolding resolve_policy_paths_def in_steps_def
  by (simp add: sample_policy_def sample_loaded_def sample_step_def resolve_step_def in_part_def in_default_def
      sample_assets sample_stamps get_val_def get_or_def dict_get_def dict_set_def Let_def)

lemma sample_effective: "load_effective_policy sample_world (Some ''/proj'') True = Inr sample_loaded"
  by (simp add: load_effective_policy_def sample_root_of sample_bundled sample_no_override sample_merged sample_valid
      sample_bundle sample_cleared resolve_paths_def sample_resolved Let_def)

lemma sample_runtime: "load_runtime_policy sample_world None None True = Inr sample_loaded"
  by (simp add: load_runtime_policy_def sample_root_of sample_no_state sample_effective Let_def)

lemma sample_cwd: "wf_cwd sample_world"
  by (simp add: wf_cwd_def sample_world_def bare_world_def comp_ok_def)

text \<open>The snapshot of the policy.\<close>

lemma sample_snapshot_dir: "resolve_snapshot_dir sample_world sample_loaded sample_root = Inr (PPath True [''proj'', ''snap''])"
proof -
  have "snapshot_relative_dir sample_loaded = snapshot_relative_dir sample_policy"
    by (simp add: snapshot_relative_dir_def expect_optional_dict_def expect_dict_def sample_loaded_def
        get_val_def get_or_def dict_has_get dict.get_put)
  then have "resolve_snapshot_dir sample_world sample_loaded sample_root = resolve_snapshot_dir sample_world sample_policy sample_root"
    by (simp add: resolve_snapshot_dir_def)
  also have "\<dots> = Inr (PPath True [''proj'', ''snap''])" by code_simp
  finally show ?thesis .
qed

lemma sample_snapshot:
  obtains s w' where "snapshot_effective_policy sample_world None = Inr (s, w')" "sp_policy s = sample_loaded"
  by (simp add: snapshot_effective_policy_def sample_root_of sample_effective sample_snapshot_dir Let_def)

lemma ascii_md5: "ascii (md5_hex8 t)"
  using md5_hex8_class [of _ t] by (force simp: ascii_def hex_class_def)

lemma sample_plain: "json_plain (VDict sample_loaded)"
  by (simp add: sample_loaded_def sample_policy_def sample_step_def dict_set_def dict_ok_def ascii_md5) (simp add: ascii_def)

end
