(* ===== verification/Stop_Hooks.thy ===== *)
theory Stop_Hooks
  imports Agent_Config Tmux_Commands
begin

text \<open>
  \<open>core/stop_hooks.py\<close>: installing the stop hook in the settings of Claude or the hook and
  configuration files of Codex. The TOML reader of the standard library is the parameter
  \<open>toml\<close>: a table, or the message of its error.
\<close>

section \<open>Recognising the hook\<close>

record hook_spec =
  hs_command :: string
  hs_timeout :: int
  hs_status :: "string option"

definition env_alone :: "string \<Rightarrow> bool" where   \<comment> \<open>an option or an assignment of \<open>env\<close>\<close>
  "env_alone part \<longleftrightarrow>
     part \<in> {''-i'', ''-0''} \<or> startswith part ''--unset='' \<or> CHR ''='' \<in> set part \<and> \<not> startswith part ''-''"

definition env_unset :: "string \<Rightarrow> bool" where
  "env_unset part \<longleftrightarrow> part \<in> {''-u'', ''--unset''}"

fun skip_env :: "string list \<Rightarrow> string list" where
  "skip_env [] = []"
| "skip_env [part] = (if env_alone part then [] else [part])"
| "skip_env (part # next_part # rest) =
     (if env_unset part then skip_env rest
      else if env_alone part then skip_env (next_part # rest)
      else part # next_part # rest)"

definition word_name :: "string \<Rightarrow> string" where   \<comment> \<open>\<open>Path(word).name\<close>\<close>
  "word_name word = path_name (path_of word)"

definition strip_env_prefix :: "string list \<Rightarrow> string list" where
  "strip_env_prefix ws = (if ws \<noteq> [] \<and> word_name (hd ws) = ''env'' then skip_env (tl ws) else ws)"

definition rx_python :: rx where   \<comment> \<open>\<open>python(?:\d+(?:\.\d+)?)?\<close>\<close>
  "rx_python =
     rseq [rlit ''python'', ropt (rseq [rplus rdigit, ropt (rseq [rlit ''.'', rplus rdigit])])]"

definition is_python_command :: "string \<Rightarrow> bool" where
  "is_python_command name \<longleftrightarrow> re_fullmatch rx_python name \<noteq> None"

definition is_stop_hook_words :: "string list \<Rightarrow> bool" where
  "is_stop_hook_words ws =
     (case strip_env_prefix ws of
        [] \<Rightarrow> False
      | w # rest \<Rightarrow>
          if word_name w = ''story-automator'' then rest \<noteq> [] \<and> hd rest = ''stop-hook''
          else is_python_command (word_name w) \<and> take 3 rest = [''-m'', ''story_automator'', ''stop-hook''])"

definition is_stop_hook_command :: "string \<Rightarrow> bool" where   \<comment> \<open>\<open>_is_story_automator_stop_hook_command\<close>\<close>
  "is_stop_hook_command v =
     (case shlex_split v of None \<Rightarrow> False | Some ws \<Rightarrow> ws \<noteq> [] \<and> is_stop_hook_words ws)"

definition is_our_hook :: "pyval \<Rightarrow> string \<Rightarrow> bool" where
  "is_our_hook existing cmd \<longleftrightarrow> existing = VStr cmd \<or> is_stop_hook_command (py_str existing)"

section \<open>The hooks of a settings file\<close>

text \<open>The flag says whether something was set.\<close>

definition set_unless :: "bool \<Rightarrow> string \<Rightarrow> pyval \<Rightarrow> bool \<times> pyval dict \<Rightarrow> bool \<times> pyval dict" where
  "set_unless same k v st = (if same then st else (True, dict_set k v (snd st)))"

definition normal_hook :: "hook_spec \<Rightarrow> pyval dict \<Rightarrow> bool \<times> pyval dict" where
  "normal_hook spec h =
     (let st1 = set_unless (get_val ''type'' h = VStr ''command'') ''type'' (VStr ''command'') (False, h);
          st2 = set_unless (get_val ''command'' h = VStr (hs_command spec)) ''command'' (VStr (hs_command spec)) st1;
          st3 = set_unless (equals_int (get_val ''timeout'' h) (hs_timeout spec)) ''timeout'' (VInt (hs_timeout spec)) st2
      in case hs_status spec of
           None \<Rightarrow> st3
         | Some s \<Rightarrow> set_unless (get_val ''statusMessage'' h = VStr s) ''statusMessage'' (VStr s) st3)"

text \<open>Each step answers whether it saw the hook, whether it changed it, and the value after it.\<close>

type_synonym 'a scan = "bool \<times> bool \<times> 'a"

definition scan_hook :: "hook_spec \<Rightarrow> pyval \<Rightarrow> pyval scan" where
  "scan_hook spec v =
     (case v of
        VDict h \<Rightarrow>
          if is_our_hook (get_val ''command'' h) (hs_command spec)
          then (let (changed, h') = normal_hook spec h in (True, changed, VDict h'))
          else (False, False, v)
      | _ \<Rightarrow> (False, False, v))"

fun scan_all :: "('a \<Rightarrow> 'a scan) \<Rightarrow> 'a list \<Rightarrow> 'a list scan" where
  "scan_all f [] = (False, False, [])"
| "scan_all f (x # xs) =
     (case (f x, scan_all f xs) of ((s, c, y), (s', c', ys)) \<Rightarrow> (s \<or> s', c \<or> c', y # ys))"

definition scan_entry :: "hook_spec \<Rightarrow> pyval \<Rightarrow> pyval scan" where
  "scan_entry spec v =
     (case v of
        VDict entry \<Rightarrow>
          (case get_val ''hooks'' entry of
             VList hooks \<Rightarrow>
               (let (seen, changed, hooks') = scan_all (scan_hook spec) hooks
                in (seen, changed, VDict (dict_set ''hooks'' (VList hooks') entry)))
           | _ \<Rightarrow> (False, False, v))
      | _ \<Rightarrow> (False, False, v))"

definition new_entry :: "hook_spec \<Rightarrow> pyval" where
  "new_entry spec =
     VDict [(''hooks'', VList [VDict
       ([(''type'', VStr ''command''), (''command'', VStr (hs_command spec)), (''timeout'', VInt (hs_timeout spec))]
        @ (case hs_status spec of None \<Rightarrow> [] | Some s \<Rightarrow> [(''statusMessage'', VStr s)]))])]"

definition stop_hook_payload :: "hook_spec \<Rightarrow> pyval" where
  "stop_hook_payload spec = VDict [(''hooks'', VDict [(''Stop'', VList [new_entry spec])])]"

definition hook_error :: "string \<Rightarrow> ppath \<Rightarrow> 'a res" where   \<comment> \<open>the message is the code\<close>
  "hook_error code path = Inl (HookConfigError code (path_str path) code)"

definition object_child :: "pyval dict \<Rightarrow> string \<Rightarrow> ppath \<Rightarrow> pyval dict res" where
  "object_child root key path =
     (case get_or (VDict []) key root of
        VDict d \<Rightarrow> Inr d
      | _ \<Rightarrow> hook_error (''invalid_'' @ key @ ''_object'') path)"

definition list_child :: "pyval dict \<Rightarrow> string \<Rightarrow> ppath \<Rightarrow> pyval list res" where
  "list_child d key path =
     (case get_or (VList []) key d of
        VList xs \<Rightarrow> Inr xs
      | _ \<Rightarrow> hook_error (''invalid_'' @ lower key @ ''_hooks'') path)"

text \<open>What becomes of the object in the file: the reason, and the object when it is to be written.\<close>

definition settle_hooks :: "hook_spec \<Rightarrow> ppath \<Rightarrow> pyval dict \<Rightarrow> (string \<times> pyval dict option) res" where
  "settle_hooks spec path root =
     ebind (object_child root ''hooks'' path) (\<lambda>hooks.
     ebind (list_child hooks ''Stop'' path) (\<lambda>stop_hooks.
     (let (seen, changed, entries) = scan_all (scan_entry spec) stop_hooks;
          put = (\<lambda>xs. dict_set ''hooks'' (VDict (dict_set ''Stop'' (VList xs) hooks)) root)
      in Inr (if seen \<and> \<not> changed then (''already_configured'', None)
              else if seen then (''hook_normalized'', Some (put entries))
              else (''added'', Some (put (entries @ [new_entry spec])))))))"

section \<open>Prepared updates\<close>

record hook_update =
  hu_changed :: bool
  hu_reason :: string
  hu_path :: ppath
  hu_data :: "string option"   \<comment> \<open>what is written\<close>

definition unchanged :: "string \<Rightarrow> ppath \<Rightarrow> hook_update" where
  "unchanged reason path = \<lparr>hu_changed = False, hu_reason = reason, hu_path = path, hu_data = None\<rparr>"

definition changed_to :: "string \<Rightarrow> ppath \<Rightarrow> string \<Rightarrow> hook_update" where
  "changed_to reason path data = \<lparr>hu_changed = True, hu_reason = reason, hu_path = path, hu_data = Some data\<rparr>"

definition json_file :: "pyval \<Rightarrow> string" where
  "json_file v = json_dumps style_indent2 v @ [nl]"

definition read_json_object :: "world \<Rightarrow> ppath \<Rightarrow> pyval dict res" where
  "read_json_object w path =
     ebind (read_file w path) (\<lambda>content.
     case json_loads content of
       Inl _ \<Rightarrow> Inl (HookConfigError ''invalid_json'' (path_str path) ''Expecting value'')
     | Inr (VDict d) \<Rightarrow> Inr d
     | Inr _ \<Rightarrow> hook_error ''invalid_json_object'' path)"

definition prepare_json_stop_hook :: "world \<Rightarrow> ppath \<Rightarrow> hook_spec \<Rightarrow> hook_update res" where
  "prepare_json_stop_hook w path spec =
     (if \<not> path_exists w path then Inr (changed_to ''created'' path (json_file (stop_hook_payload spec)))
      else
        ebind (read_json_object w path) (\<lambda>root.
        ebind (settle_hooks spec path root) (\<lambda>(reason, data).
        Inr (case data of
               None \<Rightarrow> unchanged reason path
             | Some root' \<Rightarrow> changed_to reason path (json_file (VDict root'))))))"

definition write_prepared_update :: "hook_update \<Rightarrow> unit act" where
  "write_prepared_update u =
     (case hu_data u of
        None \<Rightarrow> ret ()
      | Some data \<Rightarrow> effect (\<lambda>w. write_atomic (make_dir w (path_parent (hu_path u))) (hu_path u) data))"

section \<open>Editing the configuration of Codex\<close>

definition rx_table :: "rx \<Rightarrow> rx" where   \<comment> \<open>\<open>^\s*\[name\]\s*(?:#.*)?$\<close>\<close>
  "rx_table name =
     rseq [RBol False, rstar rspace, rlit ''['', name, rlit '']'', rstar rspace, ropt (rseq [rlit ''#'', rstar rdot]),
           REol False]"

definition is_table :: "string \<Rightarrow> bool" where
  "is_table line \<longleftrightarrow> re_match (rx_table (rplus rdot)) line \<noteq> None"

definition is_features_table :: "string \<Rightarrow> bool" where
  "is_features_table line \<longleftrightarrow> re_match (rx_table (rlit ''features'')) line \<noteq> None"

definition rx_assign :: "string \<Rightarrow> rx" where   \<comment> \<open>\<open>^(\s*)key\s*=.*$\<close>\<close>
  "rx_assign key =
     rseq [RBol False, RGrp 1 (rstar rspace), rlit key, rstar rspace, rlit ''='', rstar rdot, REol False]"

definition rx_inline :: rx where   \<comment> \<open>\<open>^(\s*)features\s*=\s*\{(.*)\}\s*(#.*)?$\<close>\<close>
  "rx_inline =
     rseq [RBol False, RGrp 1 (rstar rspace), rlit ''features'', rstar rspace, rlit ''='', rstar rspace, rlit ''{'',
           RGrp 2 (rstar rdot), rlit ''}'', rstar rspace, ropt (RGrp 3 (rseq [rlit ''#'', rstar rdot])), REol False]"

definition is_key_char :: "char \<Rightarrow> bool" where   \<comment> \<open>\<open>[A-Za-z0-9_-]\<close>\<close>
  "is_key_char c \<longleftrightarrow> is_word c \<or> c = CHR ''-''"

definition rx_dotted_key :: rx where   \<comment> \<open>\<open>^\s*features\.[A-Za-z0-9_-]+(?:\.[^=]+)?\s*=.*$\<close>\<close>
  "rx_dotted_key =
     rseq [RBol False, rstar rspace, rlit ''features.'', rplus (RChr is_key_char),
           ropt (rseq [rlit ''.'', rplus (RChr (\<lambda>c. c \<noteq> CHR ''=''))]), rstar rspace, rlit ''='', rstar rdot, REol False]"

text \<open>The first line that matches replaced, or \<open>None\<close>.\<close>

fun replace_first :: "(string \<Rightarrow> string option) \<Rightarrow> string list \<Rightarrow> string list option" where
  "replace_first f [] = None"
| "replace_first f (l # ls) =
     (case f l of Some l' \<Rightarrow> Some (l' # ls) | None \<Rightarrow> map_option ((#) l) (replace_first f ls))"

definition assigned :: "string \<Rightarrow> string \<Rightarrow> string option" where
  "assigned key line =
     map_option (\<lambda>m. rm_grp m 1 @ key @ '' = true'') (re_match (rx_assign key) line)"

text \<open>The open quote, whether the next character is escaped, the depth, the item so far and the items before it.\<close>

type_synonym item_state = "char option \<times> bool \<times> nat \<times> string \<times> string list"

definition inline_char :: "char \<Rightarrow> item_state \<Rightarrow> item_state" where
  "inline_char c st =
     (case st of (q, escaped, depth, part, items) \<Rightarrow>
        (case q of
           Some quote \<Rightarrow>
             if quote = dquote \<and> c = backslash \<and> \<not> escaped then (q, True, depth, part @ [c], items)
             else (if c = quote \<and> \<not> escaped then None else q, False, depth, part @ [c], items)
         | None \<Rightarrow>
             if c = squote \<or> c = dquote then (Some c, escaped, depth, part @ [c], items)
             else if c \<in> set ''{[('' then (None, escaped, depth + 1, part @ [c], items)
             else if c \<in> set ''}])'' \<and> 0 < depth then (None, escaped, depth - 1, part @ [c], items)
             else if c = CHR '','' \<and> depth = 0 then (None, escaped, depth, [], items @ [part])
             else (None, escaped, depth, part @ [c], items)))"

definition split_inline_table_items :: "string \<Rightarrow> string list" where
  "split_inline_table_items inner =
     (case fold inline_char inner (None, False, 0, [], []) of (q, escaped, depth, part, items) \<Rightarrow> items @ [part])"

definition is_hooks_item :: "string \<Rightarrow> bool" where   \<comment> \<open>\<open>^codex_hooks\s*=\<close>\<close>
  "is_hooks_item it \<longleftrightarrow> re_match (rseq [RBol False, rlit ''codex_hooks'', rstar rspace, rlit ''='']) it \<noteq> None"

definition set_inline_features :: "rmatch \<Rightarrow> string" where
  "set_inline_features m =
     (let items = List.filter (\<lambda>it. it \<noteq> []) (List.map strip (split_inline_table_items (rm_grp m 2)));
          updated = List.map (\<lambda>it. if is_hooks_item it then ''codex_hooks = true'' else it) items;
          items' = (if list_ex is_hooks_item items then updated else updated @ [''codex_hooks = true''])
      in rm_grp m 1 @ ''features = { '' @ join '', '' items' @ '' }'' @ rm_grp m 3)"

definition doc_of :: "string list \<Rightarrow> string" where
  "doc_of ls = join [nl] ls @ [nl]"

definition insert_after_last :: "(string \<Rightarrow> bool) \<Rightarrow> string \<Rightarrow> string list \<Rightarrow> string list option" where
  "insert_after_last P x ls =
     (if list_ex P ls
      then Some (rev (dropWhile (\<lambda>l. \<not> P l) (rev ls)) @ [x] @ rev (takeWhile (\<lambda>l. \<not> P l) (rev ls)))
      else None)"

fun first_some :: "'a option list \<Rightarrow> 'a option" where
  "first_some [] = None"
| "first_some (x # xs) = (case x of Some y \<Rightarrow> Some y | None \<Rightarrow> first_some xs)"

definition set_top_level_features :: "string \<Rightarrow> string list \<Rightarrow> string" where
  "set_top_level_features content ls =
     (let top = takeWhile (\<lambda>l. \<not> is_table l) ls; rest = dropWhile (\<lambda>l. \<not> is_table l) ls in
      case first_some
             [replace_first (assigned ''features.codex_hooks'') top,
              replace_first (\<lambda>l. map_option set_inline_features (re_match rx_inline l)) top,
              insert_after_last (\<lambda>l. re_match rx_dotted_key l \<noteq> None) ''features.codex_hooks = true'' top] of
        Some top' \<Rightarrow> doc_of (top' @ rest)
      | None \<Rightarrow>
          content @ (if endswith content [nl] then [nl] else [nl, nl]) @ ''[features]'' @ [nl] @ ''codex_hooks = true'' @ [nl])"

definition set_features_codex_hooks :: "string \<Rightarrow> string" where
  "set_features_codex_hooks content =
     (let ls = splitlines content in
      if ls = [] then ''[features]'' @ [nl] @ ''codex_hooks = true'' @ [nl]
      else
        (let before = takeWhile (\<lambda>l. \<not> is_features_table l) ls in
         case dropWhile (\<lambda>l. \<not> is_features_table l) ls of
           [] \<Rightarrow> set_top_level_features content ls
         | table # after \<Rightarrow>
             (let body = takeWhile (\<lambda>l. \<not> is_table l) after; rest = dropWhile (\<lambda>l. \<not> is_table l) after in
              case replace_first (assigned ''codex_hooks'') body of
                Some body' \<Rightarrow> doc_of (before @ [table] @ body' @ rest)
              | None \<Rightarrow> doc_of (before @ [table, ''codex_hooks = true''] @ body @ rest))))"

definition parse_toml :: "toml_reader \<Rightarrow> string \<Rightarrow> ppath \<Rightarrow> pyval dict res" where
  "parse_toml toml content path =
     (case toml content of
        Inl msg \<Rightarrow> Inl (HookConfigError ''invalid_toml'' (path_str path) msg)
      | Inr d \<Rightarrow> Inr d)"

definition prepare_codex_hooks_feature :: "toml_reader \<Rightarrow> world \<Rightarrow> ppath \<Rightarrow> hook_update res" where
  "prepare_codex_hooks_feature toml w path =
     (if \<not> path_exists w path
      then Inr (changed_to ''created'' path (''[features]'' @ [nl] @ ''codex_hooks = true'' @ [nl]))
      else
        ebind (read_file w path) (\<lambda>content.
        ebind (parse_toml toml content path) (\<lambda>parsed.
        ebind (case get_or (VDict []) ''features'' parsed of
                 VNone \<Rightarrow> Inr [] | VDict d \<Rightarrow> Inr d | _ \<Rightarrow> hook_error ''invalid_features_table'' path) (\<lambda>features.
        if get_val ''codex_hooks'' features = VBool True then Inr (unchanged ''already_enabled'' path)
        else
          (let updated = set_features_codex_hooks content in
           ebind (parse_toml toml updated path) (\<lambda>_. Inr (changed_to ''codex_hooks_enabled'' path updated)))))))"

definition trusts :: "world \<Rightarrow> ppath \<Rightarrow> string \<times> pyval \<Rightarrow> bool" where
  "trusts w project_root kv =
     (case snd kv of
        VDict cfg \<Rightarrow>
          resolve w (expanduser w (path_of (fst kv))) = resolve w project_root
          \<and> lower (str_field ''trust_level'' cfg) = ''trusted''
      | _ \<Rightarrow> False)"

definition codex_project_is_trusted :: "toml_reader \<Rightarrow> world \<Rightarrow> ppath \<Rightarrow> ppath \<Rightarrow> bool res" where
  "codex_project_is_trusted toml w config_path project_root =
     (if \<not> path_exists w config_path then Inr False
      else
        ebind (read_file w config_path) (\<lambda>content.
        ebind (parse_toml toml content config_path) (\<lambda>parsed.
        Inr (case get_or (VDict []) ''projects'' parsed of
               VDict projects \<Rightarrow> list_ex (trusts w project_root) projects
             | _ \<Rightarrow> False))))"

section \<open>Installing\<close>

definition codex_verification_state :: "bool \<Rightarrow> bool \<Rightarrow> string" where
  "codex_verification_state changed trusted =
     (if changed then ''configured'' else if trusted then ''verified'' else ''pending_trust'')"

definition codex_hook_message :: "bool \<Rightarrow> bool \<Rightarrow> string" where
  "codex_hook_message changed trusted =
     (if changed then
        ''Codex Stop hook configured in .codex/hooks.json and codex_hooks enabled in .codex/config.toml. '' @
        (if trusted then ''Restart Codex from this trusted project session for the hook to load.''
         else ''Trust this project in Codex, then restart Codex so the hook can load.'')
      else if trusted then ''Codex Stop hook verified.''
      else ''Codex Stop hook is configured on disk, but this project is not yet trusted in Codex.'')"

definition claude_hook_message :: "bool \<Rightarrow> string" where
  "claude_hook_message changed =
     (if changed then ''Claude Stop hook configured in .claude/settings.json. Restart Claude for the hook to load.''
      else ''Claude Stop hook verified.'')"

definition ensure_json_stop_hook :: "ppath \<Rightarrow> hook_spec \<Rightarrow> hook_update act" where
  "ensure_json_stop_hook path spec =
     bindA (readsE (\<lambda>w. prepare_json_stop_hook w path spec)) (\<lambda>u.
     bindA (write_prepared_update u) (\<lambda>_. ret u))"

definition ensure_claude_stop_hook :: "ppath \<Rightarrow> string \<Rightarrow> int \<Rightarrow> pyval dict act" where
  "ensure_claude_stop_hook settings_path command_text timeout =
     bindA (ensure_json_stop_hook settings_path \<lparr>hs_command = command_text, hs_timeout = timeout, hs_status = None\<rparr>) (\<lambda>u.
     ret [(''changed'', VBool (hu_changed u)), (''reason'', VStr (hu_reason u)), (''provider'', VStr ''claude''),
          (''path'', VStr (path_str (hu_path u))), (''message'', VStr (claude_hook_message (hu_changed u)))])"

definition codex_reason :: "hook_update \<Rightarrow> bool \<Rightarrow> bool \<Rightarrow> string" where
  "codex_reason hook changed trusted =
     (if changed then ''codex_hook_configured''
      else if \<not> trusted then ''pending_trust''
      else if hu_data hook \<noteq> None then hu_reason hook
      else ''already_configured'')"

definition codex_answer :: "hook_update \<Rightarrow> hook_update \<Rightarrow> bool \<Rightarrow> pyval dict" where
  "codex_answer config hook trusted =
     (let changed = (hu_changed hook \<or> hu_changed config) in
      [(''changed'', VBool changed), (''reason'', VStr (codex_reason hook changed trusted)), (''provider'', VStr ''codex''),
       (''path'', VStr (path_str (hu_path hook))), (''hooksPath'', VStr (path_str (hu_path hook))),
       (''configPath'', VStr (path_str (hu_path config))), (''hooksChanged'', VBool (hu_changed hook)),
       (''configChanged'', VBool (hu_changed config)), (''hooksReason'', VStr (hu_reason hook)),
       (''configReason'', VStr (hu_reason config)), (''trusted'', VBool trusted),
       (''verificationState'', VStr (codex_verification_state changed trusted)),
       (''message'', VStr (codex_hook_message changed trusted))])"

definition ensure_codex_stop_hook :: "toml_reader \<Rightarrow> ppath \<Rightarrow> string \<Rightarrow> int \<Rightarrow> pyval dict act" where
  "ensure_codex_stop_hook toml project_root command_text timeout =
     (let codex_dir = path_join project_root (path_of ''.codex''); hooks_path = path_join codex_dir (path_of ''hooks.json'');
          config_path = path_join codex_dir (path_of ''config.toml'');
          spec = \<lparr>hs_command = command_text, hs_timeout = timeout, hs_status = Some ''Checking story automator state''\<rparr>
      in
      bindA (readsE (\<lambda>w. prepare_codex_hooks_feature toml w config_path)) (\<lambda>config.
      bindA (readsE (\<lambda>w. prepare_json_stop_hook w hooks_path spec)) (\<lambda>hook.
      bindA (write_prepared_update config) (\<lambda>_.
      bindA (write_prepared_update hook) (\<lambda>_.
      bindA (readsE (\<lambda>w. codex_project_is_trusted toml w config_path project_root)) (\<lambda>trusted.
      ret (codex_answer config hook trusted)))))))"

definition ensure_stop_hook ::
    "toml_reader \<Rightarrow> string \<Rightarrow> ppath \<Rightarrow> ppath option \<Rightarrow> string \<Rightarrow> int \<Rightarrow> pyval dict act" where
  "ensure_stop_hook toml provider project_root settings_path command_text timeout =
     (if provider = ''codex'' then ensure_codex_stop_hook toml project_root command_text timeout
      else
        (case settings_path of
           None \<Rightarrow> raiseA (HookConfigError ''missing_settings''
                     (path_str (path_join project_root (path_of ''.claude/settings.json''))) ''missing_settings'')
         | Some p \<Rightarrow> ensure_claude_stop_hook p command_text timeout))"

end
