(* ===== verification/Field_Lines.thy ===== *)
theory Field_Lines
  imports Py_Value Py_Regex
begin

text \<open>
  \<open>re.subn\<close> of the field lines \<open>(?m)^key:.*$\<close> of a document, which is how the commands write
  fields. It is the same as going through the document line by line (\<open>set_field_lines\<close>).
\<close>

definition rx_field_line :: "string \<Rightarrow> rx" where
  "rx_field_line key = rseq [RBol True, rlit (key @ '':''), rstar rdot, REol True]"

definition set_line :: "string \<Rightarrow> string \<Rightarrow> string \<Rightarrow> string \<times> nat" where
  "set_line key new_line content =
     (re_sub (rx_field_line key) (\<lambda>m. new_line) content, length (re_finditer (rx_field_line key) content))"

section \<open>Matching at a line\<close>

definition at_bol :: "string \<Rightarrow> bool" where
  "at_bol pre \<longleftrightarrow> pre = [] \<or> hd pre = nl"

lemma match_misses: "\<not> (at_bol pre \<and> prefix (key @ '':'') rest) \<Longrightarrow> match_at (rx_field_line key) pre rest = None"
  by (auto simp: match_at_def rx_field_line_def at_bol_def nl_def rrun_rlit)

lemma match_hits:
  assumes "at_bol pre" "prefix (key @ '':'') rest" "nl \<notin> set key"
  shows "match_at (rx_field_line key) pre rest =
    Some \<lparr>rm_before = rev pre, rm_text = takeWhile (\<lambda>c. c \<noteq> nl) rest, rm_after = dropWhile (\<lambda>c. c \<noteq> nl) rest, rm_groups = []\<rparr>"
proof -
  let ?p = "key @ '':''"
  obtain t where t: "rest = ?p @ t" using assms(2) by (auto simp: prefix_def)
  let ?w = "takeWhile (\<lambda>c. c \<noteq> nl) t" and ?a = "dropWhile (\<lambda>c. c \<noteq> nl) t"
  have eol: "?a = [] \<or> hd ?a = CHR 0x0A" using hd_dropWhile [of "\<lambda>c. c \<noteq> nl" t] by (auto simp: nl_def)
  have k: "drop (length ?w) t = ?a" "take (length ?w) t = ?w"
    by (metis append_eq_conv_conj takeWhile_dropWhile_id)+
  have "rrun (rstar rdot) (rev ?p @ pre, t, []) =
      (rev ?w @ rev ?p @ pre, ?a, []) #
      List.map (\<lambda>k. (rev (take k t) @ rev ?p @ pre, drop k t, [])) (rev [0 ..< length ?w])"
    unfolding rstar_def rdot_def rrun_star_chr using k by (simp add: nl_def)
  then have "\<exists>ts. rrun (rx_field_line key) (pre, rest, []) = (rev ?w @ rev ?p @ pre, ?a, []) # ts"
    using assms(1) eol by (auto simp: rx_field_line_def at_bol_def rrun_rlit t nl_def)
  moreover have "takeWhile (\<lambda>c. c \<noteq> nl) rest = ?p @ ?w" "dropWhile (\<lambda>c. c \<noteq> nl) rest = ?a"
    using assms(3) by (auto simp: t nl_def takeWhile_append dropWhile_append)
  moreover have "length rest - length ?a = length (?p @ ?w)"
  proof -
    have "length t = length ?w + length ?a" by (metis length_append takeWhile_dropWhile_id)
    then show ?thesis by (simp add: t)
  qed
  moreover have "take (length (?p @ ?w)) rest = ?p @ ?w" using k(2) by (simp add: t)
  ultimately show ?thesis by (auto simp: match_at_def match_of_def)
qed

section \<open>Searching through a line\<close>

lemma search_step: "match_at r pre (c # cs) = None \<Longrightarrow> search_from r pre (c # cs) = search_from r (c # pre) cs"
  by (subst search_from.simps) simp

lemma search_end: "match_at r pre [] = None \<Longrightarrow> search_from r pre [] = None"
  by (subst search_from.simps) simp

lemma search_found: "match_at r pre rest = Some m \<Longrightarrow> search_from r pre rest = Some m"
  by (subst search_from.simps) simp

lemma search_inside:
  assumes "nl \<notin> set l" "\<not> at_bol pre"
  shows "search_from (rx_field_line key) pre (l @ t) = search_from (rx_field_line key) (rev l @ pre) t"
  using assms
proof (induction l arbitrary: pre)
  case (Cons c l)
  have "search_from (rx_field_line key) pre (c # l @ t) = search_from (rx_field_line key) (c # pre) (l @ t)"
    using Cons.prems by (intro search_step match_misses) simp
  moreover have "c \<noteq> nl" using Cons.prems(1) by auto
  ultimately show ?case using Cons.IH [of "c # pre"] Cons.prems(1) by (simp add: at_bol_def)
qed simp

lemma prefix_line: "nl \<notin> set p \<Longrightarrow> t = [] \<or> hd t = nl \<Longrightarrow> prefix p (l @ t) \<longleftrightarrow> prefix p l"
proof (induction l arbitrary: p)
  case Nil
  then show ?case by (cases p; cases t) auto
next
  case (Cons c l)
  then show ?case by (cases p) auto
qed

lemma search_past_line:
  assumes "nl \<notin> set l" "nl \<notin> set key" "\<not> prefix (key @ '':'') l \<or> \<not> at_bol pre"
  shows "search_from (rx_field_line key) pre (l @ nl # further) = search_from (rx_field_line key) (nl # rev l @ pre) further"
    and "search_from (rx_field_line key) pre l = None"
proof -
  have nlp: "nl \<notin> set (key @ '':'')" using assms(2) by (simp add: nl_def)
  have miss: "\<not> (at_bol pre \<and> prefix (key @ '':'') (l @ t))" if "t = [] \<or> hd t = nl" for t
    using assms(3) prefix_line [OF nlp that] by blast
  have walk: "search_from (rx_field_line key) pre (l @ t) = search_from (rx_field_line key) (rev l @ pre) t"
    if t: "t = [] \<or> hd t = nl" for t
  proof (cases l)
    case (Cons c l')
    then have "search_from (rx_field_line key) pre (c # l' @ t) = search_from (rx_field_line key) (c # pre) (l' @ t)"
      using miss [OF t] by (intro search_step match_misses) simp
    moreover have "c \<noteq> nl" "nl \<notin> set l'" using Cons assms(1) by auto
    ultimately show ?thesis using Cons search_inside [of l' "c # pre"] by (simp add: at_bol_def)
  qed simp
  have no_prefix: "\<not> prefix (key @ '':'') (nl # further)" "\<not> prefix (key @ '':'') []"
    using nlp by (cases key; auto)+
  show "search_from (rx_field_line key) pre (l @ nl # further) = search_from (rx_field_line key) (nl # rev l @ pre) further"
    using walk [of "nl # further"] no_prefix(1) by (simp add: search_step match_misses)
  show "search_from (rx_field_line key) pre l = None"
    using walk [of "[]"] no_prefix(2) by (simp add: search_end match_misses)
qed

section \<open>Line by line\<close>

definition written_line :: "string \<Rightarrow> string \<Rightarrow> string \<Rightarrow> string" where
  "written_line key new_line l = (if startswith l (key @ '':'') then new_line else l)"

definition written_lines :: "string \<Rightarrow> string \<Rightarrow> string \<Rightarrow> string" where
  "written_lines key new_line content = join [nl] (List.map (written_line key new_line) (split_all [nl] content))"

definition field_lines :: "string \<Rightarrow> string \<Rightarrow> string list" where
  "field_lines key content = List.filter (\<lambda>l. startswith l (key @ '':'')) (split_all [nl] content)"

lemma written_lines_simps:
  "nl \<notin> set l \<Longrightarrow> written_lines key v l = written_line key v l"
  "nl \<notin> set l \<Longrightarrow> written_lines key v (l @ nl # further) = written_line key v l @ nl # written_lines key v further"
  by (simp_all add: written_lines_def split_all_char_absent split_all_char_append join_Cons)

lemma field_lines_simps:
  "nl \<notin> set l \<Longrightarrow> field_lines key l = (if startswith l (key @ '':'') then [l] else [])"
  "nl \<notin> set l \<Longrightarrow> field_lines key (l @ nl # further) =
     (if startswith l (key @ '':'') then [l] else []) @ field_lines key further"
  by (simp_all add: field_lines_def split_all_char_absent split_all_char_append)

lemma find_iter_cong: "search_from r pre rest = search_from r pre' rest' \<Longrightarrow> find_iter n r pre rest = find_iter n r pre' rest'"
  by (cases n) simp_all

lemma lines_cases:
  obtains (last) l where "rest = l" "nl \<notin> set l" | (line) l further where "rest = l @ nl # further" "nl \<notin> set l"
proof (cases "nl \<in> set rest")
  case True
  then show ?thesis using line by (metis split_list_first)
qed (use last in blast)

lemma hit_line:
  assumes "at_bol pre" "prefix (key @ '':'') l" "nl \<notin> set l" "nl \<notin> set key" "t = [] \<or> hd t = nl"
  shows "search_from (rx_field_line key) pre (l @ t) = Some \<lparr>rm_before = rev pre, rm_text = l, rm_after = t, rm_groups = []\<rparr>"
proof -
  have "takeWhile (\<lambda>c. c \<noteq> nl) l = l" "dropWhile (\<lambda>c. c \<noteq> nl) l = []" using assms(3) by (auto simp: takeWhile_eq_all_conv)
  then have "takeWhile (\<lambda>c. c \<noteq> nl) (l @ t) = l" "dropWhile (\<lambda>c. c \<noteq> nl) (l @ t) = t"
    using assms(3,5) by (cases t; auto simp: takeWhile_append dropWhile_append)+
  moreover have "prefix (key @ '':'') (l @ t)" using assms(2) by (auto simp: prefix_def)
  ultimately show ?thesis using match_hits [OF assms(1) _ assms(4)] search_found by simp
qed

lemma find_iter_hit:
  assumes "at_bol pre" "prefix (key @ '':'') l" "nl \<notin> set l" "nl \<notin> set key"
  shows "find_iter (Suc n) (rx_field_line key) pre (l @ nl # further) =
      \<lparr>rm_before = rev pre, rm_text = l, rm_after = nl # further, rm_groups = []\<rparr>
        # find_iter n (rx_field_line key) (nl # rev l @ pre) further" (is ?line)
    and "find_iter (Suc n) (rx_field_line key) pre l =
      [\<lparr>rm_before = rev pre, rm_text = l, rm_after = [], rm_groups = []\<rparr>]" (is ?last)
proof -
  have l: "l \<noteq> []" using assms(2) by auto
  have off: "\<not> at_bol (rev l @ pre)" using l assms(3) by (cases l rule: rev_cases) (auto simp: at_bol_def)
  have "find_iter n (rx_field_line key) (rev l @ pre) (nl # further) = find_iter n (rx_field_line key) (nl # rev l @ pre) further"
    using search_past_line(1) [of "[]" key "rev l @ pre" further] off assms(4) by (intro find_iter_cong) simp
  then show ?line using hit_line [OF assms, of "nl # further"] l by simp
  have "find_iter n (rx_field_line key) (rev l @ pre) [] = []"
    using search_past_line(2) [of "[]" key "rev l @ pre"] off assms(4) by (cases n) simp_all
  then show ?last using hit_line [OF assms, of "[]"] l by simp
qed

lemma find_iter_miss:
  assumes "\<not> prefix (key @ '':'') l" "nl \<notin> set l" "nl \<notin> set key"
  shows "find_iter n (rx_field_line key) pre (l @ nl # further) = find_iter n (rx_field_line key) (nl # rev l @ pre) further"
    and "find_iter n (rx_field_line key) pre l = []"
  using search_past_line [OF assms(2,3), of pre] assms(1) by (auto intro: find_iter_cong) (cases n; simp)

lemma starts_prefix: "startswith l p \<longleftrightarrow> prefix p l"
  by (simp add: startswith_def)

lemma sub_lines:
  assumes "nl \<notin> set key"
  shows "at_bol pre \<Longrightarrow> pos \<le> length pre \<Longrightarrow> length rest < n \<Longrightarrow>
    sub_pieces (\<lambda>m. v) pos (rev pre @ rest) (find_iter n (rx_field_line key) pre rest) =
      drop pos (rev pre) @ written_lines key v rest \<and>
    length (find_iter n (rx_field_line key) pre rest) = length (field_lines key rest)"
proof (induction "length rest" arbitrary: rest pre pos n rule: less_induct)
  case less
  obtain n' where n: "n = Suc n'" using less.prems(3) by (cases n) simp_all
  show ?case
  proof (cases rest rule: lines_cases)
    case (last l)
    show ?thesis
    proof (cases "prefix (key @ '':'') l")
      case True
      note hit = find_iter_hit(2) [OF less.prems(1) True last(2) assms, of n']
      show ?thesis unfolding last(1) n hit using True last(2)
        by (simp add: written_lines_simps field_lines_simps written_line_def starts_prefix)
    next
      case False
      note miss = find_iter_miss(2) [OF False last(2) assms]
      show ?thesis unfolding last(1) miss using False last(2) less.prems(2)
        by (simp add: written_lines_simps field_lines_simps written_line_def starts_prefix)
    qed
  next
    case (line l further)
    have bol: "at_bol (nl # rev l @ pre)" by (simp add: at_bol_def)
    have shorter: "length further < length rest" using line(1) by simp
    show ?thesis
    proof (cases "prefix (key @ '':'') l")
      case True
      note hit = find_iter_hit(1) [OF less.prems(1) True line(2) assms, of n' further]
      have "length further < n'" using less.prems(3) line(1) n by simp
      from less.hyps [OF shorter bol _ this, of "length pre + length l"]
      show ?thesis unfolding line(1) n hit using True line(2)
        by (simp add: written_lines_simps field_lines_simps written_line_def starts_prefix)
    next
      case False
      note miss = find_iter_miss(1) [OF False line(2) assms, of n pre further]
      have "length further < n" using less.prems(3) line(1) by simp
      from less.hyps [OF shorter bol _ this, of pos]
      show ?thesis unfolding line(1) miss using False line(2) less.prems(2)
        by (simp add: written_lines_simps field_lines_simps written_line_def starts_prefix)
    qed
  qed
qed

lemma set_field_lines:
  assumes "nl \<notin> set key"
  shows "set_line key v content = (written_lines key v content, length (field_lines key content))"
  using sub_lines [OF assms, of "[]" 0 content "length content + 2" v]
  by (simp add: set_line_def re_sub_def re_finditer_def at_bol_def)

end
