(* ===== verification/Orchestrator.thy ===== *)
theory Orchestrator
  imports Parse_Output Agent_Plans Field_Lines
begin

text \<open>
  \<open>commands/orchestrator.py\<close>: the actions of the orchestrator helper. What goes to the standard
  error is not modelled, an action that only complains there is its exit code.
\<close>

section \<open>Sprint status\<close>

definition sprint_answer :: "string \<Rightarrow> sprint_status \<Rightarrow> pyval dict" where
  "sprint_answer story st =
     (if \<not> ss_found st \<and> ss_reason st \<noteq> []
      then [(''found'', VBool False), (''status'', VStr (ss_status st)), (''reason'', VStr (ss_reason st))]
      else if \<not> ss_found st
      then [(''found'', VBool False), (''story'', VStr story), (''status'', VStr ''not_found'')]
      else [(''found'', VBool True), (''story'', VStr (ss_story st)), (''status'', VStr (ss_status st)),
            (''done'', VBool (ss_done st))])"

definition epic_answer :: "string \<Rightarrow> string list \<Rightarrow> nat \<Rightarrow> pyval dict" where
  "epic_answer epic stories done_count =
     (if stories = []
      then [(''ok'', VBool False), (''epic'', VStr epic), (''allStoriesDone'', VBool False),
            (''reason'', VStr ''no_stories_found''), (''count'', VInt 0)]
      else [(''ok'', VBool True), (''epic'', VStr epic), (''allStoriesDone'', VBool (done_count = length stories)),
            (''total'', VInt (int (length stories))), (''done'', VInt (int done_count)),
            (''count'', VInt (int (length stories))), (''stories'', vstrs stories)])"

definition sprint_status_action :: "string list \<Rightarrow> int act" where
  "sprint_status_action args =
     (case args of
        [] \<Rightarrow> ret 1
      | sub # rest \<Rightarrow>
          if sub = ''get'' then
            (case rest of
               [] \<Rightarrow> ret 1
             | story # _ \<Rightarrow>
                 bindA (readsE (\<lambda>w. sprint_status_get w (get_project_root w) story)) (\<lambda>st.
                 answer 0 (sprint_answer story st)))
          else if sub = ''exists'' then
            bindA (reads (\<lambda>w. is_file w (path_of (sprint_status_file w (get_project_root w))))) (\<lambda>b.
            exit_with 0 (if b then ''true'' else ''false''))
          else if sub = ''check-epic'' then
            (case rest of
               [] \<Rightarrow> ret 1
             | epic # _ \<Rightarrow>
                 bindA (readsE (\<lambda>w. sprint_status_epic w (get_project_root w) epic)) (\<lambda>(stories, done_count).
                 answer 0 (epic_answer epic stories done_count)))
          else ret 1)"

section \<open>The marker of the active run\<close>

definition marker_of :: "world \<Rightarrow> ppath" where
  "marker_of w = active_marker_path w (Some (path_str (path_of (get_project_root w))))"

definition marker_options :: "string list \<Rightarrow> string dict" where
  "marker_options args =
     pair_options [(''epic'', []), (''story'', []), (''remaining'', ''0''), (''state-file'', []), (''project-slug'', []),
                   (''pid'', ''0''), (''heartbeat'', [])] args"

definition or_zero :: "string \<Rightarrow> int res" where   \<comment> \<open>\<open>int(s or "0")\<close>\<close>
  "or_zero s = py_int (VStr (if s = [] then ''0'' else s))"

definition marker_payload :: "world \<Rightarrow> string dict \<Rightarrow> pyval dict res" where
  "marker_payload w opts =
     ebind (or_zero (opt ''remaining'' opts)) (\<lambda>remaining.
     ebind (or_zero (opt ''pid'' opts)) (\<lambda>pid.
     Inr [(''epic'', VStr (opt ''epic'' opts)), (''currentStory'', VStr (opt ''story'' opts)),
          (''storiesRemaining'', VInt remaining), (''stateFile'', VStr (opt ''state-file'' opts)),
          (''createdAt'', VStr (now_utc_z w)),
          (''heartbeat'', VStr (if opt ''heartbeat'' opts = [] then now_utc_z w else opt ''heartbeat'' opts)),
          (''pid'', VInt pid), (''projectSlug'', VStr (opt ''project-slug'' opts))]))"

definition marker_text :: "pyval dict \<Rightarrow> string" where
  "marker_text payload = json_dumps style_indent2 (VDict payload) @ [nl]"

definition marker_create :: "string list \<Rightarrow> int act" where
  "marker_create args =
     bindA (reads marker_of) (\<lambda>marker.
     bindA (effect (\<lambda>w. make_dir w (path_parent marker))) (\<lambda>_.
     bindA (readsE (\<lambda>w. marker_payload w (marker_options args))) (\<lambda>payload.
     bindA (effect (\<lambda>w. write_atomic w marker (marker_text payload))) (\<lambda>_.
     exit_with 0 (''Marker created: '' @ path_str marker)))))"

definition marker_remove :: "int act" where
  "marker_remove =
     bindA (reads marker_of) (\<lambda>marker.
     bindA (reads (\<lambda>w. (path_exists w marker, is_file w marker))) (\<lambda>(there, plain).
     if there \<and> \<not> plain then raiseA (IsADirectoryError (path_str marker))
     else bindA (effect (\<lambda>w. if there then unlink w marker else w)) (\<lambda>_. exit_with 0 ''Marker removed'')))"

text \<open>\<open>print(s, end="")\<close>: the end of the last line is not part of what is recorded.\<close>

definition print_text :: "string \<Rightarrow> unit act" where
  "print_text s =
     (if s = [] then ret () else print_out (if last s = nl then butlast s else s))"

definition marker_check :: "int act" where
  "marker_check =
     bindA (reads marker_of) (\<lambda>marker.
     bindA (reads (\<lambda>w. path_exists w marker)) (\<lambda>there.
     if \<not> there then exit_with 0 (''{'' @ [dquote] @ ''exists'' @ [dquote] @ '':false}'')
     else
       bindA (print_out (''{'' @ [dquote] @ ''exists'' @ [dquote] @ '':true,'' @ [dquote] @ ''file'' @ [dquote] @ '':''
                @ [dquote] @ path_str marker @ [dquote] @ ''}'')) (\<lambda>_.
       bindA (readsE (\<lambda>w. read_file w marker)) (\<lambda>content.
       bindA (print_text content) (\<lambda>_. ret 0)))))"

fun item_dict :: "pyval \<Rightarrow> pyval dict res" where   \<comment> \<open>\<open>v[key] = x\<close> on something that is no dictionary\<close>
  "item_dict (VDict d) = Inr d"
| "item_dict _ = Inl TypeError"

definition beat :: "world \<Rightarrow> string \<Rightarrow> pyval dict res" where
  "beat w content =
     ebind (json_loads content) (\<lambda>v. ebind (item_dict v) (\<lambda>d.
       Inr (dict_set ''heartbeat'' (VStr (now_utc_z w)) d)))"

definition marker_heartbeat :: "int act" where
  "marker_heartbeat =
     bindA (reads marker_of) (\<lambda>marker.
     bindA (reads (\<lambda>w. path_exists w marker)) (\<lambda>there.
     if \<not> there then exit_with 1 ''No marker file to update''
     else
       bindA (readsE (\<lambda>w. ebind (read_file w marker) (beat w))) (\<lambda>payload.
       bindA (effect (\<lambda>w. write_atomic w marker (marker_text payload))) (\<lambda>_.
       exit_with 0 (''Heartbeat updated: '' @ py_str (get_val ''heartbeat'' payload))))))"

definition marker_path :: "int act" where
  "marker_path =
     bindA (reads (\<lambda>w. (marker_of w, active_marker_project_entry w (Some (path_str (path_of (get_project_root w)))))))
       (\<lambda>(marker, entry). answer 0 [(''file'', VStr (path_str marker)), (''entry'', VStr entry)])"

definition marker_action :: "string list \<Rightarrow> int act" where
  "marker_action args =
     (case args of
        [] \<Rightarrow> ret 1
      | sub # rest \<Rightarrow>
          if sub = ''path'' then marker_path
          else if sub = ''create'' then marker_create rest
          else if sub = ''remove'' then marker_remove
          else if sub = ''check'' then marker_check
          else if sub = ''heartbeat'' then marker_heartbeat
          else ret 1)"

section \<open>State documents\<close>

definition state_docs :: "world \<Rightarrow> string \<Rightarrow> ppath list" where
  "state_docs w folder = glob_sorted w (path_of folder) ''orchestration-*.md''"

definition or_word :: "string \<Rightarrow> string \<Rightarrow> string" where   \<comment> \<open>\<open>a or b\<close>\<close>
  "or_word a b = (if a = [] then b else a)"

definition listed_state :: "world \<Rightarrow> ppath \<Rightarrow> pyval res" where
  "listed_state w path =
     ebind (find_frontmatter_value w path ''status'') (\<lambda>status.
     ebind (find_frontmatter_value w path ''lastUpdated'') (\<lambda>updated.
     Inr (VDict [(''path'', VStr (path_str path)), (''status'', VStr (or_word status ''unknown'')),
                 (''lastUpdated'', VStr (or_word updated ''unknown''))])))"

definition folder_given :: "world \<Rightarrow> string list \<Rightarrow> bool" where
  "folder_given w args \<longleftrightarrow> args \<noteq> [] \<and> is_dir w (path_of (hd args))"

definition state_list_action :: "string list \<Rightarrow> int act" where
  "state_list_action args =
     bindA (reads (\<lambda>w. folder_given w args)) (\<lambda>there.
     if \<not> there then answer 1 (failed ''folder_not_found'' @ [(''files'', VList [])])
     else
       bindA (readsE (\<lambda>w. map_res (listed_state w) (state_docs w (hd args)))) (\<lambda>files.
       answer 0 [(''ok'', VBool True), (''files'', VList files)]))"

text \<open>A state document as its time, its status and its path: tuples are compared from the left.\<close>

definition dated_state :: "world \<Rightarrow> ppath \<Rightarrow> (string \<times> string \<times> string) res" where
  "dated_state w path =
     ebind (find_frontmatter_value w path ''status'') (\<lambda>status.
     ebind (find_frontmatter_value w path ''lastUpdated'') (\<lambda>updated.
     Inr (updated, status, path_str path)))"

fun latest :: "('a \<Rightarrow> string list) \<Rightarrow> 'a list \<Rightarrow> 'a option" where   \<comment> \<open>\<open>max\<close>\<close>
  "latest key [] = None"
| "latest key (x # xs) =
     (case latest key xs of
        None \<Rightarrow> Some x
      | Some y \<Rightarrow> Some (if path_le (key y) (key x) then x else y))"

definition latest_state :: "world \<Rightarrow> string \<Rightarrow> string \<Rightarrow> (string \<times> string \<times> string) option res" where
  "latest_state w folder status_filter =
     ebind (map_res (dated_state w) (state_docs w folder)) (\<lambda>states.
     Inr (latest (\<lambda>(updated, status, path). [updated, path])
            (List.filter (\<lambda>(updated, status, path). status_filter = [] \<or> status = status_filter) states)))"

definition state_latest_action :: "string list \<Rightarrow> int act" where
  "state_latest_action args =
     bindA (reads (\<lambda>w. folder_given w args)) (\<lambda>there.
     if \<not> there then answer 1 (failed ''folder_not_found'')
     else
       bindA (readsE (\<lambda>w. latest_state w (hd args) (if length args > 1 then args ! 1 else []))) (\<lambda>found.
       case found of
         None \<Rightarrow> answer 0 (failed ''no_match'')
       | Some (updated, _, path) \<Rightarrow>
           answer 0 [(''ok'', VBool True), (''path'', VStr path), (''lastUpdated'', VStr updated)]))"

definition latest_incomplete :: "world \<Rightarrow> string \<Rightarrow> (string \<times> string \<times> string) option res" where
  "latest_incomplete w folder =
     ebind (map_res (dated_state w) (state_docs w folder)) (\<lambda>states.
     Inr (latest (\<lambda>(updated, status, path). [updated, status, path])
            (List.filter (\<lambda>(updated, status, path). status \<noteq> ''COMPLETE'') states)))"

definition state_latest_incomplete_action :: "string list \<Rightarrow> int act" where
  "state_latest_incomplete_action args =
     bindA (reads (\<lambda>w. folder_given w args)) (\<lambda>there.
     if \<not> there then answer 1 (failed ''folder_not_found'')
     else
       bindA (readsE (\<lambda>w. latest_incomplete w (hd args))) (\<lambda>found.
       case found of
         None \<Rightarrow> answer 0 (failed ''no_incomplete_state'')
       | Some (updated, status, path) \<Rightarrow>
           answer 0 [(''ok'', VBool True), (''path'', VStr path), (''lastUpdated'', VStr updated),
                     (''status'', VStr status)]))"

definition file_given :: "world \<Rightarrow> string list \<Rightarrow> bool" where
  "file_given w args \<longleftrightarrow> args \<noteq> [] \<and> is_file w (path_of (hd args))"

definition state_summary_of :: "world \<Rightarrow> string \<Rightarrow> pyval dict res" where
  "state_summary_of w state_file =
     ebind (read_file w (path_of state_file)) (\<lambda>content.
     (let flds = parse_simple_frontmatter content; fld = (\<lambda>k. (k, VStr (str_or_empty (get_val k flds)))) in
      ebind (summarize_state_policy_fields w flds (Some (get_project_root w))) (\<lambda>pm.
      ebind (extract_last_action w (path_of state_file)) (\<lambda>last_action.
      Inr ([(''ok'', VBool True), fld ''epic'', fld ''epicName'', fld ''currentStory'', fld ''currentStep'',
            fld ''status'', fld ''lastUpdated'', (''policyVersion'', VStr (pm_version pm)),
            (''policySnapshotFile'', VStr (pm_file pm)), (''policySnapshotHash'', VStr (pm_hash pm)),
            (''legacyPolicy'', VStr (pm_legacy pm)), (''lastAction'', VStr last_action)]
           @ (if pm_error pm \<noteq> [] then [(''policyError'', VStr (pm_error pm))] else []))))))"

definition state_summary_action :: "string list \<Rightarrow> int act" where
  "state_summary_action args =
     bindA (reads (\<lambda>w. file_given w args)) (\<lambda>there.
     if \<not> there then answer 1 (failed ''file_not_found'')
     else bindA (readsE (\<lambda>w. state_summary_of w (hd args))) (answer 0))"

text \<open>\<open>(?m)^key:.*$\<close>, every match replaced by \<open>key: value\<close>; how many there were.\<close>

definition set_field :: "string \<Rightarrow> string \<Rightarrow> string \<Rightarrow> string \<times> nat" where
  "set_field key v content = set_line key (key @ '': '' @ v) content"

fun update_fields :: "string list \<Rightarrow> string \<times> string list \<Rightarrow> (string \<times> string list) res" where
  "update_fields (a # b # rest) (content, updated) =
     (if a = ''--set''
      then (case split_once ''='' b of
              None \<Rightarrow> Inl (ValueError ''not enough values to unpack (expected 2, got 1)'')
            | Some (key, v) \<Rightarrow>
                (case set_field key v content of
                   (content', n) \<Rightarrow>
                     update_fields rest (if n \<noteq> 0 then (content', updated @ [key]) else (content, updated))))
      else update_fields (b # rest) (content, updated))"
| "update_fields _ st = Inr st"

definition state_update_action :: "string list \<Rightarrow> int act" where
  "state_update_action args =
     bindA (reads (\<lambda>w. file_given w args)) (\<lambda>there.
     if \<not> there then answer 1 (failed ''file_not_found'')
     else
       bindA (readsE (\<lambda>w. ebind (read_file w (path_of (hd args))) (\<lambda>content. update_fields (tl args) (content, []))))
         (\<lambda>(content, updated).
       if updated = [] then answer 1 (failed ''keys_not_found'' @ [(''updated'', VList [])])
       else
         bindA (effect (\<lambda>w. put_file w (path_of (hd args)) content)) (\<lambda>_.
         answer 0 [(''ok'', VBool True), (''updated'', vstrs updated)])))"

section \<open>Escalation\<close>

definition parse_context_int :: "string \<Rightarrow> string \<Rightarrow> int" where
  "parse_context_int context key =
     (case re_search (rseq [rlit (key @ ''=''), RGrp 1 (rplus rdigit)]) context of
        Some m \<Rightarrow> int (nat_of_digits (rm_grp m 1))
      | None \<Rightarrow> 0)"

definition escalated :: "string \<Rightarrow> pyval dict" where
  "escalated reason = [(''escalate'', VBool True), (''reason'', VStr reason)]"

definition escalation :: "string \<Rightarrow> string \<Rightarrow> pyval dict \<Rightarrow> pyval dict res" where
  "escalation trigger context policy =
     (if trigger = ''review-loop'' then
        (let cycles = parse_context_int context ''cycles'' in
         ebind (review_max_cycles policy) (\<lambda>limit.
         Inr (if limit \<le> cycles
              then escalated (''Review loop exceeded max cycles ('' @ show_int cycles @ ''/'' @ show_int limit @ '')'')
              else [(''escalate'', VBool False)])))
      else if trigger = ''session-crash'' then
        (let retries = parse_context_int context ''retries'' in
         ebind (crash_max_retries policy) (\<lambda>limit.
         Inr (if limit \<le> retries then escalated (''Session crashed after '' @ show_int retries @ '' retries'')
              else [(''escalate'', VBool False), (''action'', VStr ''retry'')])))
      else if trigger = ''story-validation'' then
        (let created = parse_context_int context ''created'' in
         Inr (if created \<noteq> 1
              then escalated (if created = 0 then ''No story file created''
                              else ''Runaway creation: '' @ show_int created @ '' files'')
              else [(''escalate'', VBool False)]))
      else Inr [(''escalate'', VBool False), (''reason'', VStr ''Unknown trigger'')])"

definition escalate_action :: "string list \<Rightarrow> int act" where
  "escalate_action args =
     (let trigger = (if args = [] then [] else args ! 0); context = (if length args > 1 then args ! 1 else []) in
      case parse_state_file [] (drop 2 args) of
        Inl e \<Rightarrow> answer 0 (escalated (exn_text e))
      | Inr state_file \<Rightarrow>
          bindA (reads (\<lambda>w. load_runtime_policy w (Some (get_project_root w)) (Some state_file) True)) (\<lambda>loaded.
          case loaded of
            Inl (FileNotFoundError p) \<Rightarrow> answer 0 (escalated (exn_text (FileNotFoundError p)))
          | Inl (PolicyError m) \<Rightarrow> answer 0 (escalated m)
          | Inl e \<Rightarrow> raiseA e
          | Inr policy \<Rightarrow> bindA (readsE (\<lambda>w. escalation trigger context policy)) (answer 0)))"

section \<open>Stories\<close>

definition commit_ready_action :: "string list \<Rightarrow> int act" where
  "commit_ready_action args =
     (case args of
        [] \<Rightarrow> answer 1 [(''ready'', VBool False), (''reason'', VStr ''story_id required'')]
      | story # _ \<Rightarrow>
          bindA (reads get_project_root) (\<lambda>project_root.
          bindA (readsE (\<lambda>w. sprint_status_get w project_root story)) (\<lambda>st.
          if \<not> ss_done st then
            answer 0 [(''ready'', VBool False), (''reason'', VStr ''Story not done yet''), (''story'', VStr story),
                      (''current_status'', VStr (ss_status st))]
          else
            bindA (command [''git'', ''-C'', project_root, ''status'', ''--porcelain'']) (\<lambda>(out, _).
            if strip out \<noteq> [] then
              answer 0 [(''ready'', VBool True), (''story'', VStr story), (''status'', VStr ''done''),
                        (''uncommitted_changes'', VBool True)]
            else answer 0 [(''ready'', VBool False), (''reason'', VStr ''No uncommitted changes''),
                           (''story'', VStr story)]))))"

definition normalize_key_action :: "string list \<Rightarrow> int act" where
  "normalize_key_action args =
     (case args of
        [] \<Rightarrow> answer 1 (failed ''input required'')
      | input # rest \<Rightarrow>
          (let fmt = (case rest of a # b # _ \<Rightarrow> if a = ''--to'' then b else ''json'' | _ \<Rightarrow> ''json'') in
           bindA (readsE (\<lambda>w. normalize_story_key w (get_project_root w) input)) (\<lambda>result.
           case result of
             None \<Rightarrow> answer 1 (failed ''unrecognized format'' @ [(''input'', VStr input)])
           | Some k \<Rightarrow>
               if fmt = ''id'' then exit_with 0 (sk_id k)
               else if fmt = ''prefix'' then exit_with 0 (sk_prefix k)
               else if fmt = ''key'' then exit_with 0 (sk_key k)
               else answer 0 [(''ok'', VBool True), (''id'', VStr (sk_id k)), (''prefix'', VStr (sk_prefix k)),
                              (''key'', VStr (sk_key k))])))"

definition story_file_status_of :: "world \<Rightarrow> story_key \<Rightarrow> (int \<times> pyval dict) res" where
  "story_file_status_of w norm =
     (case glob_sorted w (artifacts_dir (get_project_root w)) (sk_prefix norm @ ''-*.md'') of
        [] \<Rightarrow> Inr (1, failed ''story file not found'' @ [(''prefix'', VStr (sk_prefix norm))])
      | story_file # _ \<Rightarrow>
          ebind (find_frontmatter_value_case w story_file ''Status'') (\<lambda>status.
          ebind (find_frontmatter_value_case w story_file ''Title'') (\<lambda>title.
          Inr (0, [(''ok'', VBool True), (''story_key'', VStr (sk_key norm)), (''file'', VStr (path_str story_file)),
                   (''status'', VStr (or_word status ''unknown'')), (''title'', VStr title)]))))"

definition story_file_status_action :: "string list \<Rightarrow> int act" where
  "story_file_status_action args =
     (case args of
        [] \<Rightarrow> answer 1 (failed ''story input required'')
      | input # _ \<Rightarrow>
          bindA (readsE (\<lambda>w. normalize_story_key w (get_project_root w) input)) (\<lambda>nk.
          case nk of
            None \<Rightarrow> answer 1 (failed ''could not normalize story key'' @ [(''input'', VStr input)])
          | Some norm \<Rightarrow>
              bindA (readsE (\<lambda>w. story_file_status_of w norm)) (\<lambda>(code, payload). answer code payload)))"

section \<open>Verification\<close>

definition verify_code_review_action :: "string list \<Rightarrow> int act" where
  "verify_code_review_action args =
     (case args of
        [] \<Rightarrow> answer 1 [(''verified'', VBool False), (''reason'', VStr ''story_key_required'')]
      | story # tail \<Rightarrow>
          (case parse_state_file [] tail of
             Inl e \<Rightarrow> answer 1 [(''verified'', VBool False), (''reason'', VStr ''review_contract_invalid''),
                               (''input'', VStr story), (''error'', VStr (exn_text e))]
           | Inr state_file \<Rightarrow>
               bindA (readsE (\<lambda>w. verify_code_review_completion w (get_project_root w) story None (optional state_file)))
                 (\<lambda>payload. answer (if truth (get_val ''verified'' payload) then 0 else 1) payload)))"

fun verify_flags :: "string \<times> string \<Rightarrow> string list \<Rightarrow> (string \<times> string) res" where
  "verify_flags fs [] = Inr fs"
| "verify_flags fs (a # rest) =
     (if a \<in> {''--state-file'', ''--output-file''}
      then ebind (flag_value a rest) (\<lambda>v.
             verify_flags (if a = ''--state-file'' then (v, snd fs) else (fst fs, v)) (drop 1 rest))
      else verify_flags fs rest)"

definition verify_step_payload :: "world \<Rightarrow> string \<Rightarrow> string \<Rightarrow> string list \<Rightarrow> pyval dict res" where
  "verify_step_payload w step story tail =
     ebind (verify_flags ([], []) tail) (\<lambda>(state_file, output_file).
     ebind (resolve_success_contract w (get_project_root w) step (optional state_file)) (\<lambda>contract.
     (let verifier = str_field ''verifier'' contract in
      if verifier = [] then policy_error (''missing success verifier for '' @ step)
      else run_success_verifier w verifier (get_project_root w) story output_file contract)))"

definition verify_step_action :: "string list \<Rightarrow> int act" where
  "verify_step_action args =
     (case args of
        step # story # tail \<Rightarrow>
          bindA (reads (\<lambda>w. verify_step_payload w step story tail)) (\<lambda>r.
          case r of
            Inr payload \<Rightarrow> answer 0 payload
          | Inl e \<Rightarrow>
              if is_file_not_found e \<or> is_value_error e
              then answer 1 [(''verified'', VBool False), (''step'', VStr step), (''input'', VStr story),
                             (''reason'', VStr ''verifier_contract_invalid''), (''error'', VStr (exn_text e))]
              else raiseA e)
      | _ \<Rightarrow> answer 1 [(''verified'', VBool False), (''reason'', VStr ''step_and_story_required'')])"

section \<open>The dispatch\<close>

definition helper_usage :: "string list" where
  "helper_usage =
     [''Usage: orchestrator-helper <action> [args]'', [], ''Actions:'', ''  sprint-status get <story_key>'',
      ''  sprint-status exists'', ''  sprint-status check-epic <epic>'', ''  parse-output <file> <step>'',
      ''  marker path'', ''  marker create --epic E --story S --remaining N --state-file F'', ''  marker remove'',
      ''  marker check'', ''  marker heartbeat'', ''  state-list <folder>'', ''  state-latest <folder> [status]'',
      ''  state-latest-incomplete <folder>'', ''  state-summary <file>'', ''  state-update <file> --set k=v'',
      ''  escalate <trigger> <context>'', ''  commit-ready <story_id>'',
      ''  normalize-key <input> [--to id|key|prefix|json]'', ''  story-file-status <story>'',
      ''  verify-step <step> <story_or_epic> [--state-file path] [--output-file path]'',
      ''  verify-code-review <story>'', ''  check-epic-complete <epic> <story> [--state-file path]'',
      ''  get-epic-stories <epic> [--state-file path]'', ''  check-blocking <story_id>'',
      ''  agents-build --state-file path --complexity-file path --output path --config-json '' @ [squote] @ ''{}'' @ [squote],
      ''  agents-resolve (--state-file path | --agents-file path) --story ID --task create|dev|auto|review'',
      ''  retro-agent --state-file path'']"

definition helper_actions :: "(string \<times> (string list \<Rightarrow> int act)) list" where
  "helper_actions =
     [(''sprint-status'', sprint_status_action), (''parse-output'', parse_output_action), (''marker'', marker_action),
      (''state-list'', state_list_action), (''state-latest'', state_latest_action),
      (''state-latest-incomplete'', state_latest_incomplete_action), (''state-summary'', state_summary_action),
      (''state-update'', state_update_action), (''escalate'', escalate_action), (''commit-ready'', commit_ready_action),
      (''normalize-key'', normalize_key_action), (''story-file-status'', story_file_status_action),
      (''verify-step'', verify_step_action), (''verify-code-review'', verify_code_review_action),
      (''check-epic-complete'', check_epic_complete_action), (''get-epic-stories'', get_epic_stories_action),
      (''check-blocking'', check_blocking_action), (''agents-build'', agents_build_action),
      (''agents-resolve'', agents_resolve_action), (''retro-agent'', retro_agent_action)]"

definition cmd_orchestrator_helper :: "string list \<Rightarrow> int act" where
  "cmd_orchestrator_helper args =
     (case args of
        [] \<Rightarrow> ret 1
      | action # rest \<Rightarrow>
          if action \<in> {''--help'', ''-h''} then bindA (forA helper_usage print_out) (\<lambda>_. ret 0)
          else (case map_of helper_actions action of None \<Rightarrow> ret 1 | Some handler \<Rightarrow> handler rest))"

end
