(* ===== verification/Basic_Commands.thy ===== *)
theory Basic_Commands
  imports Stop_Hooks Orchestrator
begin

text \<open>
  \<open>commands/basic.py\<close>: project slugs, the marker in \<open>.gitignore\<close>, the installation of the stop
  hook, the hook itself, commits and lists of sessions. \<open>sys.argv[0]\<close> is a parameter.
\<close>

section \<open>Slugs and \<open>.gitignore\<close>\<close>

definition cmd_derive_project_slug :: "string list \<Rightarrow> int act" where
  "cmd_derive_project_slug args =
     (if args \<noteq> [] \<and> hd args \<in> {''--help'', ''-h''}
      then exit_with 0 ''Usage: derive-project-slug [--project-root PATH]''
      else
        bindA (reads (\<lambda>w. last_flag ''--project-root'' (path_str (cwd_path w)) args)) (\<lambda>root.
        bindA (reads (\<lambda>w. get_project_slug w (Some root))) (\<lambda>slug.
        answer 0 [(''ok'', VBool True), (''slug'', VStr slug), (''projectRoot'', VStr root)])))"

definition is_entry_line :: "string \<Rightarrow> string \<Rightarrow> bool" where
  "is_entry_line entry line \<longleftrightarrow>
     strip line \<noteq> [] \<and> \<not> startswith (strip line) ''#'' \<and> strip line = entry"

definition has_entry :: "string \<Rightarrow> string \<Rightarrow> bool" where
  "has_entry entry content =
     list_ex (is_entry_line entry) (split_all [nl] (replace_all [cr, nl] [nl] content))"

definition raw_text :: "world \<Rightarrow> ppath \<Rightarrow> string" where
  "raw_text w p = (case file_text w p of Some t \<Rightarrow> t | None \<Rightarrow> [])"

definition add_entry :: "string \<Rightarrow> string \<Rightarrow> string" where   \<comment> \<open>what is appended to a text\<close>
  "add_entry entry content = (if content = [] \<or> endswith content [nl] then [] else [nl]) @ entry @ [nl]"

definition cmd_ensure_marker_gitignore :: "string list \<Rightarrow> int act" where
  "cmd_ensure_marker_gitignore args =
     (let gitignore = last_flag ''--gitignore'' [] args; entry = last_flag ''--entry'' [] args; path = path_of gitignore;
          reply = (\<lambda>changed. answer 0 [(''ok'', VBool True), (''changed'', VBool changed), (''path'', VStr (path_str path))])
      in
      if gitignore = [] \<or> entry = [] then answer 1 (failed ''missing_args'')
      else
        bindA (effect (\<lambda>w. if path_exists w path then w else put_file w path [])) (\<lambda>_.
        bindA (readsE (\<lambda>w. read_file w path)) (\<lambda>content.
        if has_entry entry content then reply False
        else
          bindA (effect (\<lambda>w. put_file w path (raw_text w path @ add_entry entry content))) (\<lambda>_. reply True))))"

section \<open>Installing the hook\<close>

definition workflow_root :: "world \<Rightarrow> ppath res" where   \<comment> \<open>\<open>Path(__file__).resolve().parents[3]\<close>\<close>
  "workflow_root w = (case drop 3 (module_parents w) of p # _ \<Rightarrow> Inr p | [] \<Rightarrow> Inl IndexError)"

definition environ_root :: "world \<Rightarrow> ppath" where   \<comment> \<open>\<open>Path(os.environ.get("PROJECT_ROOT") or os.getcwd()).resolve()\<close>\<close>
  "environ_root w = resolve w (path_of (default_string (environ w ''PROJECT_ROOT'') (path_str (cwd_path w))))"

definition shlex_join :: "string list \<Rightarrow> string" where
  "shlex_join ws = join '' '' (List.map shlex_quote ws)"

definition executable :: "ppath \<Rightarrow> bool act" where   \<comment> \<open>\<open>os.access(p, os.X_OK)\<close>\<close>
  "executable p = bindA (command [''test'', ''-x'', path_str p]) (\<lambda>(_, code). ret (code = 0))"

definition exists_executable :: "ppath \<Rightarrow> bool act" where
  "exists_executable p =
     bindA (reads (\<lambda>w. path_exists w p)) (\<lambda>there. if there then executable p else ret False)"

fun first_executable :: "ppath list \<Rightarrow> ppath option act" where
  "first_executable [] = ret None"
| "first_executable (p # ps) = bindA (exists_executable p) (\<lambda>b. if b then ret (Some p) else first_executable ps)"

definition hook_candidates :: "string \<Rightarrow> ppath list act" where
  "hook_candidates argv0 =
     bindA (readsE workflow_root) (\<lambda>root.
     bindA (which ''story-automator'') (\<lambda>found.
     bindA (exists_executable (path_of argv0)) (\<lambda>b.
     bindA (reads (\<lambda>w. resolve w (path_of argv0))) (\<lambda>own.
     ret ([path_join root (path_of ''scripts/story-automator'')] @ (if found \<noteq> [] then [path_of found] else [])
          @ (if b then [own] else []))))))"

definition hook_command :: "string \<Rightarrow> ppath \<Rightarrow> string \<Rightarrow> string act" where   \<comment> \<open>\<open>_stop_hook_command\<close>\<close>
  "hook_command argv0 project_root cmd =
     (case shlex_split cmd of
        None \<Rightarrow> raiseA (ValueError ''No closing quotation'')
      | Some [] \<Rightarrow> ret cmd
      | Some (w0 # ws) \<Rightarrow>
          (let start = [''env'', ''PROJECT_ROOT='' @ path_str project_root] in
           bindA (hook_candidates argv0) (\<lambda>candidates.
           bindA (first_executable candidates) (\<lambda>found.
           case found of
             Some p \<Rightarrow> bindA (reads (\<lambda>w. resolve w p)) (\<lambda>q. ret (shlex_join (start @ [path_str q] @ ws)))
           | None \<Rightarrow>
               bindA (which ''python3'') (\<lambda>python.
               ret (shlex_join (start @ [if python = [] then ''python3'' else python, ''-m'', ''story_automator''] @ ws)))))))"

record hook_options =
  ho_settings :: string
  ho_command :: string
  ho_timeout :: int

definition plain_words :: "string list \<Rightarrow> string list" where   \<comment> \<open>the arguments up to the next option\<close>
  "plain_words args = takeWhile (\<lambda>a. \<not> startswith a ''--'') args"

definition one_command :: "string list \<Rightarrow> string" where
  "one_command ws = (case ws of [w] \<Rightarrow> w | _ \<Rightarrow> shlex_join ws)"

text \<open>The fuel is one more than the arguments, every step takes one at least.\<close>

fun hook_args :: "nat \<Rightarrow> hook_options \<Rightarrow> string list \<Rightarrow> hook_options res" where
  "hook_args 0 ho args = Inr ho"
| "hook_args (Suc n) ho args =
     (case args of
        a # b # rest \<Rightarrow>
          if a = ''--settings'' then hook_args n (ho\<lparr>ho_settings := b\<rparr>) rest
          else if a = ''--command'' then
            (let ws = plain_words (b # rest) in
             hook_args n (if ws = [] then ho else ho\<lparr>ho_command := one_command ws\<rparr>) (drop (length ws) (b # rest)))
          else if a = ''--timeout'' then
            ebind (py_int (VStr b)) (\<lambda>t. hook_args n (ho\<lparr>ho_timeout := t\<rparr>) rest)
          else hook_args n ho (b # rest)
      | _ \<Rightarrow> Inr ho)"

definition hook_options_of :: "string list \<Rightarrow> hook_options res" where
  "hook_options_of args = hook_args (Suc (length args)) \<lparr>ho_settings = [], ho_command = [], ho_timeout = 10\<rparr> args"

definition hook_failure :: "string \<Rightarrow> exn \<Rightarrow> int act" where
  "hook_failure provider e =
     (case e of
        HookConfigError code path msg \<Rightarrow>
          answer 1 [(''ok'', VBool False), (''error'', VStr code), (''path'', VStr path), (''provider'', VStr provider),
                    (''message'', VStr msg)]
      | _ \<Rightarrow> raiseA e)"

definition install_hook :: "toml_reader \<Rightarrow> string \<Rightarrow> hook_options \<Rightarrow> string \<Rightarrow> ppath \<Rightarrow> int act" where
  "install_hook toml argv0 ho provider root =
     bindA (hook_command argv0 root (ho_command ho)) (\<lambda>cmd.
     bindA (reads (\<lambda>w. if ho_settings ho = [] then None
                       else Some (resolve w (expanduser w (path_of (ho_settings ho)))))) (\<lambda>settings.
     (\<lambda>w. case ensure_stop_hook toml provider root settings cmd (ho_timeout ho) w of
            Inl e \<Rightarrow> hook_failure provider e w
          | Inr (payload, w') \<Rightarrow> answer 0 ((''ok'', VBool True) # payload) w')))"

definition cmd_ensure_stop_hook :: "toml_reader \<Rightarrow> string \<Rightarrow> string list \<Rightarrow> int act" where
  "cmd_ensure_stop_hook toml argv0 args =
     bindA (readsE (\<lambda>w. hook_options_of args)) (\<lambda>ho.
     if ho_command ho = [] then answer 1 (failed ''missing_required_args'')
     else
       bindA (reads environ_root) (\<lambda>root.
       bindA (reads (\<lambda>w. runtime_provider w (Some (path_str root)))) (\<lambda>provider.
       if provider = ''claude'' \<and> ho_settings ho = [] then answer 1 (failed ''missing_required_args'')
       else install_hook toml argv0 ho provider root)))"

section \<open>The hook\<close>

definition workflow_doc_relative :: "world \<Rightarrow> string \<Rightarrow> string res" where
  "workflow_doc_relative w doc_name =
     ebind (workflow_root w) (\<lambda>root.
     (let doc = resolve w (path_join root (PPath False [''data'', doc_name])) in
      Inr (case relative_to doc (environ_root w) of Some p \<Rightarrow> path_str p | None \<Rightarrow> path_str doc)))"

definition remaining_of :: "pyval dict \<Rightarrow> pyval" where
  "remaining_of payload =
     (case get_or (VInt 0) ''storiesRemaining'' payload of
        VStr s \<Rightarrow> if isdigit s then VInt (int (nat_of_digits s)) else VStr s
      | v \<Rightarrow> v)"

definition block_text :: "string \<Rightarrow> pyval \<Rightarrow> string" where
  "block_text doc remaining =
     json_dumps style_indent2 (VDict [(''decision'', VStr ''block''),
       (''reason'', VStr (''Story Automator active ('' @ py_str remaining @ '' stories remaining). Read '' @ doc))])"

definition is_child :: "world \<Rightarrow> bool" where
  "is_child w \<longleftrightarrow> lower (environ_or w ''STORY_AUTOMATOR_CHILD'' []) = ''true''"

definition block_or_pass :: "pyval dict \<Rightarrow> int act" where
  "block_or_pass payload =
     (if \<not> truth (remaining_of payload) then ret 0
      else bindA (readsE (\<lambda>w. workflow_doc_relative w ''stop-hook-recovery.md'')) (\<lambda>doc.
           exit_with 0 (block_text doc (remaining_of payload))))"

definition cmd_stop_hook :: "string list \<Rightarrow> int act" where
  "cmd_stop_hook args =
     bindA (reads is_child) (\<lambda>child.
     if child then ret 0
     else
       bindA (reads (\<lambda>w. active_marker_path w None)) (\<lambda>marker.
       bindA (reads (\<lambda>w. path_exists w marker)) (\<lambda>there.
       if \<not> there then ret 0
       else
         bindA (readsE (\<lambda>w. read_file w marker)) (\<lambda>content.
         case json_loads content of
           Inl _ \<Rightarrow> ret 0
         | Inr v \<Rightarrow> bindA (readsE (\<lambda>w. as_dict v)) block_or_pass))))"

section \<open>Commits and sessions\<close>

definition cmd_commit_story :: "string list \<Rightarrow> int act" where
  "cmd_commit_story args =
     (let repo = last_flag ''--repo'' [] args; story = last_flag ''--story'' [] args; title = last_flag ''--title'' [] args in
      if repo = [] \<or> story = [] \<or> title = [] then answer 1 (failed ''missing_args'')
      else
        bindA (reads (\<lambda>w. is_dir w (path_of repo))) (\<lambda>there.
        if \<not> there then answer 1 (failed ''repo_not_found'')
        else
          bindA (command [''git'', ''-C'', repo, ''status'', ''--porcelain'']) (\<lambda>(status, code).
          if code \<noteq> 0 then answer 1 (failed ''git_status_failed'')
          else if list_all (\<lambda>l. strip l = []) (splitlines (strip status)) then answer 0 (failed ''no_changes'')
          else
            bindA (command [''git'', ''-C'', repo, ''add'', ''-A'']) (\<lambda>(_, code).
            if code \<noteq> 0 then answer 1 (failed ''git_add_failed'')
            else
              bindA (command [''git'', ''-C'', repo, ''commit'', ''-m'', ''feat(story-'' @ story @ ''): '' @ title])
                (\<lambda>(_, code).
              if code \<noteq> 0 then answer 1 (failed ''commit_failed'')
              else
                bindA (command [''git'', ''-C'', repo, ''rev-parse'', ''HEAD'']) (\<lambda>(sha, _).
                answer 0 [(''ok'', VBool True), (''commit'', VStr (strip sha))]))))))"

definition session_count :: "string list \<Rightarrow> pyval dict" where
  "session_count sessions = [(''sessions'', vstrs sessions), (''count'', VInt (int (length sessions)))]"

definition cmd_list_sessions :: "string list \<Rightarrow> int act" where
  "cmd_list_sessions args =
     (if args \<noteq> [] \<and> hd args \<in> {''--help'', ''-h''} then exit_with 0 ''Usage: list-sessions --slug SLUG''
      else
        (let slug = last_flag ''--slug'' [] args in
         if slug = [] then answer 1 (failed ''missing_slug'')
         else
           bindA (command_exists ''tmux'') (\<lambda>there.
           if \<not> there then answer 0 (failed ''tmux_not_found'' @ session_count [])
           else
             bindA (command [''tmux'', ''list-sessions'', ''-F'', ''#{session_name}'']) (\<lambda>(out, code).
             answer 0 ((''ok'', VBool True) #
               session_count (if code \<noteq> 0 then []
                              else List.filter (\<lambda>line. startswith line (''sa-'' @ slug @ ''-'')) (splitlines out)))))))"

end
