(* ===== verification/Hook_Facts.thy ===== *)
theory Hook_Facts
  imports Basic_Commands Tmux_Status
begin

text \<open>
  What installing does: the stop hook of a settings file is settled after one installation, an
  edit of the configuration of Codex touches one line, the entry of \<open>.gitignore\<close> is added once,
  and the hook blocks exactly as the marker says.
\<close>

section \<open>A settled hook stays\<close>

lemma get_set_unless:
  "get_val k' (snd (set_unless same k v st)) = (if k' = k \<and> \<not> same then v else get_val k' (snd st))"
  by (simp add: set_unless_def get_val_def get_or_def dict.get_put)

lemma set_unless_same: "same \<Longrightarrow> set_unless same k v st = st"
  by (simp add: set_unless_def)

lemma normal_hook_get:
  assumes "normal_hook spec h = (c, h')"
  shows "get_val ''type'' h' = VStr ''command''" "get_val ''command'' h' = VStr (hs_command spec)"
    "equals_int (get_val ''timeout'' h') (hs_timeout spec)"
    "hs_status spec = Some s \<Longrightarrow> get_val ''statusMessage'' h' = VStr s"
proof -
  have h': "h' = snd (normal_hook spec h)" using assms by simp
  show "get_val ''type'' h' = VStr ''command''" "get_val ''command'' h' = VStr (hs_command spec)"
    "equals_int (get_val ''timeout'' h') (hs_timeout spec)"
    unfolding h' normal_hook_def Let_def by (auto simp: get_set_unless split: option.split)
  show "get_val ''statusMessage'' h' = VStr s" if "hs_status spec = Some s"
    unfolding h' normal_hook_def Let_def using that by (simp add: get_set_unless)
qed

lemma normal_hook_settled:
  assumes "normal_hook spec h = (c, h')"
  shows "normal_hook spec h' = (False, h')"
  using normal_hook_get [OF assms] by (cases "hs_status spec") (simp_all add: normal_hook_def set_unless_same)

definition settled_by :: "('a \<Rightarrow> 'a scan) \<Rightarrow> 'a \<Rightarrow> bool" where
  "settled_by f x \<longleftrightarrow> (\<forall>s c y. f x = (s, c, y) \<longrightarrow> f y = (s, False, y))"

lemma scan_hook_settled: "settled_by (scan_hook spec) v"
proof -
  have "is_our_hook (get_val ''command'' h') (hs_command spec)" if "normal_hook spec h = (c, h')" for h c h'
    using normal_hook_get(2) [OF that] by (simp add: is_our_hook_def)
  then show ?thesis
    using normal_hook_settled by (cases v) (auto simp: settled_by_def scan_hook_def split: prod.splits if_splits)
qed

lemma scan_all_settled:
  assumes "\<And>x. settled_by f x"
  shows "settled_by (scan_all f) xs"
proof (induction xs)
  case (Cons x xs)
  then show ?case using assms [of x] by (auto simp: settled_by_def split: prod.splits)
qed (simp add: settled_by_def)

lemma dict_set_again: "dict_set k v (dict_set k v d) = dict_set k v d"
  by (simp add: dict_set_def update_last)

lemma get_val_set: "get_val k' (dict_set k v d) = (if k' = k then v else get_val k' d)"
  by (simp add: get_val_def get_or_def dict.get_put)

lemma get_or_set: "get_or x k' (dict_set k v d) = (if k' = k then v else get_or x k' d)"
  by (simp add: get_or_def dict.get_put)

lemma scan_entry_settled: "settled_by (scan_entry spec) v"
proof (cases v)
  case (VDict entry)
  show ?thesis
  proof (cases "get_val ''hooks'' entry")
    case (VList hooks)
    have "settled_by (scan_all (scan_hook spec)) hooks" by (intro scan_all_settled scan_hook_settled)
    then show ?thesis
      using VDict VList by (auto simp: settled_by_def scan_entry_def get_val_set dict_set_again split: prod.splits)
  qed (simp_all add: VDict settled_by_def scan_entry_def)
qed (simp_all add: settled_by_def scan_entry_def)

lemma scan_entries_settled: "scan_all (scan_entry spec) xs = (s, c, ys) \<Longrightarrow> scan_all (scan_entry spec) ys = (s, False, ys)"
  using scan_all_settled [of "scan_entry spec" xs] scan_entry_settled unfolding settled_by_def by blast

lemma scan_all_append:
  "scan_all f (xs @ ys) =
     (case (scan_all f xs, scan_all f ys) of ((s, c, us), (s', c', vs)) \<Rightarrow> (s \<or> s', c \<or> c', us @ vs))"
  by (induction xs) (auto split: prod.splits)

lemma scan_new_entry: "scan_entry spec (new_entry spec) = (True, False, new_entry spec)"
proof -
  let ?h = "[(''type'', VStr ''command''), (''command'', VStr (hs_command spec)), (''timeout'', VInt (hs_timeout spec))]
    @ (case hs_status spec of None \<Rightarrow> [] | Some s \<Rightarrow> [(''statusMessage'', VStr s)])"
  have g: "get_val ''type'' ?h = VStr ''command''" "get_val ''command'' ?h = VStr (hs_command spec)"
    "get_val ''timeout'' ?h = VInt (hs_timeout spec)"
    "hs_status spec = Some s \<Longrightarrow> get_val ''statusMessage'' ?h = VStr s" for s
    by (simp_all add: get_val_def get_or_def dict_get_Cons)
  then have "normal_hook spec ?h = (False, ?h)" by (simp add: normal_hook_def set_unless_same split: option.split)
  moreover have "is_our_hook (get_val ''command'' ?h) (hs_command spec)" unfolding g(2) by (simp add: is_our_hook_def)
  ultimately have "scan_hook spec (VDict ?h) = (True, False, VDict ?h)" by (simp add: scan_hook_def)
  then show ?thesis
    by (simp add: new_entry_def scan_entry_def get_val_def get_or_def dict_get_Cons dict_set_def)
qed

lemma settle_put:
  assumes "scan_all (scan_entry spec) xs = (True, False, xs)"
  shows "settle_hooks spec path (dict_set ''hooks'' (VDict (dict_set ''Stop'' (VList xs) hooks)) root) =
    Inr (''already_configured'', None)"
  by (simp add: settle_hooks_def object_child_def list_child_def get_or_set assms ebind_def)

lemma settle_settled:
  assumes "settle_hooks spec path root = Inr (reason, Some root')"
  shows "settle_hooks spec path root' = Inr (''already_configured'', None)"
proof -
  obtain hooks xs where h: "object_child root ''hooks'' path = Inr hooks" "list_child hooks ''Stop'' path = Inr xs"
    using assms by (auto simp: settle_hooks_def ebind_eq_Inr)
  obtain s c ys where scan: "scan_all (scan_entry spec) xs = (s, c, ys)" by (cases "scan_all (scan_entry spec) xs")
  note again = scan_entries_settled [OF scan]
  have "scan_all (scan_entry spec) (ys @ [new_entry spec]) = (True, False, ys @ [new_entry spec])"
    using again by (simp add: scan_all_append scan_new_entry)
  moreover have "(if s \<and> \<not> c then (''already_configured'', None)
      else if s then (''hook_normalized'', Some (dict_set ''hooks'' (VDict (dict_set ''Stop'' (VList ys) hooks)) root))
      else (''added'', Some (dict_set ''hooks'' (VDict (dict_set ''Stop'' (VList (ys @ [new_entry spec])) hooks)) root)))
    = (reason, Some root')"
    using assms h scan by (simp add: settle_hooks_def ebind_def)
  ultimately show ?thesis using again by (auto simp: settle_put split: if_splits)
qed

lemma settle_payload:
  "\<exists>d. stop_hook_payload spec = VDict d \<and> settle_hooks spec path d = Inr (''already_configured'', None)"
proof -
  have "scan_all (scan_entry spec) [new_entry spec] = (True, False, [new_entry spec])" by (simp add: scan_new_entry)
  from settle_put [OF this, of path "[]" "[]"] show ?thesis by (simp add: stop_hook_payload_def dict_set_def)
qed

section \<open>The file\<close>

definition spec_ascii :: "hook_spec \<Rightarrow> bool" where
  "spec_ascii spec \<longleftrightarrow> ascii (hs_command spec) \<and> (case hs_status spec of None \<Rightarrow> True | Some s \<Rightarrow> ascii s)"

lemma ascii_words [simp]: "ascii ''command''" "ascii ''type''" "ascii ''timeout''" "ascii ''statusMessage''" "ascii ''hooks''"
  "ascii ''Stop''"
  by (simp_all add: ascii_def)

lemma set_unless_plain:
  "json_plain (VDict (snd st)) \<Longrightarrow> ascii k \<Longrightarrow> json_plain v \<Longrightarrow> json_plain (VDict (snd (set_unless same k v st)))"
  using json_plain_dict_set by (auto simp: set_unless_def simp del: json_plain.simps(7))

lemma normal_hook_plain:
  "spec_ascii spec \<Longrightarrow> json_plain (VDict h) \<Longrightarrow> json_plain (VDict (snd (normal_hook spec h)))"
  unfolding normal_hook_def Let_def spec_ascii_def
  by (auto simp del: json_plain.simps(7) intro!: set_unless_plain split: option.splits)

definition scan_plain :: "(pyval \<Rightarrow> pyval scan) \<Rightarrow> bool" where
  "scan_plain f \<longleftrightarrow> (\<forall>v. json_plain v \<longrightarrow> json_plain (snd (snd (f v))))"

lemma scan_hook_plain: "spec_ascii spec \<Longrightarrow> scan_plain (scan_hook spec)"
proof -
  assume a: "spec_ascii spec"
  have "json_plain (snd (snd (scan_hook spec v)))" if v: "json_plain v" for v
  proof (cases v)
    case (VDict h)
    have "snd (snd (scan_hook spec v)) = v \<or> snd (snd (scan_hook spec v)) = VDict (snd (normal_hook spec h))"
      by (simp add: VDict scan_hook_def split: prod.split)
    then show ?thesis using v normal_hook_plain [OF a, of h] VDict by metis
  qed (use v in \<open>simp_all add: scan_hook_def\<close>)
  then show ?thesis by (simp add: scan_plain_def)
qed

lemma scan_all_plain: "scan_plain f \<Longrightarrow> \<forall>x \<in> set xs. json_plain x \<Longrightarrow> \<forall>y \<in> set (snd (snd (scan_all f xs))). json_plain y"
proof (induction xs)
  case (Cons x xs)
  from Cons.prems have "json_plain x" "\<forall>x \<in> set xs. json_plain x" by simp_all
  then have "json_plain (snd (snd (f x)))" "\<forall>y \<in> set (snd (snd (scan_all f xs))). json_plain y"
    using Cons.prems(1) Cons.IH unfolding scan_plain_def by blast+
  then show ?case by (cases "f x"; cases "scan_all f xs") simp
qed simp

lemma scan_entry_plain:
  assumes "spec_ascii spec"
  shows "scan_plain (scan_entry spec)"
  unfolding scan_plain_def
proof (intro allI impI)
  fix v
  assume v: "json_plain v"
  show "json_plain (snd (snd (scan_entry spec v)))"
  proof (cases "\<exists>entry hooks. v = VDict entry \<and> get_val ''hooks'' entry = VList hooks")
    case True
    then obtain entry hooks where e: "v = VDict entry" "get_val ''hooks'' entry = VList hooks" by blast
    then have "dict_get ''hooks'' entry = Some (VList hooks)" by (simp add: get_val_def get_or_def split: option.splits)
    with v e(1) have "json_plain (VList hooks)" using json_plain_item by blast
    then have "\<forall>y \<in> set (snd (snd (scan_all (scan_hook spec) hooks))). json_plain y"
      using scan_all_plain [OF scan_hook_plain [OF assms]] by simp
    then have "json_plain (VDict (dict_set ''hooks'' (VList (snd (snd (scan_all (scan_hook spec) hooks)))) entry))"
      using v e(1) by (intro json_plain_dict_set) simp_all
    with e show ?thesis by (auto simp: scan_entry_def simp del: json_plain.simps split: prod.splits)
  next
    case False
    then have "snd (snd (scan_entry spec v)) = v"
      by (auto simp: scan_entry_def split: pyval.splits)
    with v show ?thesis by simp
  qed
qed

lemma new_entry_plain: "spec_ascii spec \<Longrightarrow> json_plain (new_entry spec)"
  by (auto simp: new_entry_def spec_ascii_def dict_ok_def split: option.splits)

lemma payload_plain: "spec_ascii spec \<Longrightarrow> json_plain (stop_hook_payload spec)"
  using new_entry_plain by (auto simp: stop_hook_payload_def dict_ok_def)

lemma settle_plain:
  assumes "settle_hooks spec path root = Inr (reason, Some root')" "spec_ascii spec" "json_plain (VDict root)"
  shows "json_plain (VDict root')"
proof -
  obtain hooks xs where h: "object_child root ''hooks'' path = Inr hooks" "list_child hooks ''Stop'' path = Inr xs"
    using assms(1) by (auto simp: settle_hooks_def ebind_eq_Inr)
  have hooks: "json_plain (VDict hooks)"
  proof (cases "dict_get ''hooks'' root")
    case None
    with h(1) have "hooks = []" by (simp add: object_child_def get_or_def)
    then show ?thesis by (simp add: dict_ok_def)
  next
    case (Some v)
    with h(1) have "v = VDict hooks" by (cases v) (simp_all add: object_child_def get_or_def hook_error_def)
    with Some show ?thesis using json_plain_item [OF assms(3)] by blast
  qed
  have xs: "\<forall>x \<in> set xs. json_plain x"
  proof (cases "dict_get ''Stop'' hooks")
    case None
    with h(2) have "xs = []" by (simp add: list_child_def get_or_def)
    then show ?thesis by simp
  next
    case (Some v)
    with h(2) have "v = VList xs" by (cases v) (simp_all add: list_child_def get_or_def hook_error_def)
    with Some have "json_plain (VList xs)" using json_plain_item [OF hooks] by blast
    then show ?thesis by simp
  qed
  obtain s c ys where scan: "scan_all (scan_entry spec) xs = (s, c, ys)" by (cases "scan_all (scan_entry spec) xs")
  have ys: "\<forall>y \<in> set ys. json_plain y"
    using scan_all_plain [OF scan_entry_plain [OF assms(2)] xs] scan by simp
  have put: "json_plain (VDict (dict_set ''hooks'' (VDict (dict_set ''Stop'' (VList zs) hooks)) root))"
    if "\<forall>z \<in> set zs. json_plain z" for zs
    using that hooks assms(3) by (intro json_plain_dict_set) simp_all
  show ?thesis using assms(1) h scan put ys new_entry_plain [OF assms(2)]
    by (auto simp: settle_hooks_def ebind_def Let_def simp del: json_plain.simps(7) split: if_splits)
qed

text \<open>What is in a file that the installation reads is plain when it is an object at all.\<close>

definition plain_settings :: "world \<Rightarrow> ppath \<Rightarrow> bool" where
  "plain_settings w path \<longleftrightarrow> (case read_json_object w path of Inr root \<Rightarrow> json_plain (VDict root) | Inl _ \<Rightarrow> True)"

lemma prepared_settled:
  assumes "prepare_json_stop_hook w path spec = Inr u" "hu_data u = Some data" "spec_ascii spec" "plain_settings w path"
  shows "hu_path u = path \<and> (\<exists>root. data = json_file (VDict root) \<and> json_plain (VDict root) \<and>
    settle_hooks spec path root = Inr (''already_configured'', None))"
proof (cases "path_exists w path")
  case False
  then have u: "u = changed_to ''created'' path (json_file (stop_hook_payload spec))"
    using assms(1) by (simp add: prepare_json_stop_hook_def)
  then show ?thesis using assms(2) settle_payload [of spec path] payload_plain [OF assms(3)]
    by (auto simp: changed_to_def)
next
  case True
  then obtain root reason d where r: "read_json_object w path = Inr root" "settle_hooks spec path root = Inr (reason, d)"
    and u: "u = (case d of None \<Rightarrow> unchanged reason path | Some root' \<Rightarrow> changed_to reason path (json_file (VDict root')))"
    using assms(1) by (auto simp: prepare_json_stop_hook_def ebind_eq_Inr)
  from u assms(2) obtain root' where d: "d = Some root'" "data = json_file (VDict root')" "hu_path u = path"
    by (cases d) (auto simp: unchanged_def changed_to_def)
  have "json_plain (VDict root)" using assms(4) r(1) by (simp add: plain_settings_def)
  with r(2) d settle_settled settle_plain [OF _ assms(3)] show ?thesis by (auto simp del: json_plain.simps)
qed

lemma read_written_object:
  assumes "file_text w path = Some (json_file (VDict root))" "json_plain (VDict root)"
  shows "read_json_object w path = Inr root"
  using json_roundtrip [OF assms(2), of style_indent2 "[nl]"] styles_ok
  by (simp add: read_json_object_def read_file_text [OF assms(1)] json_file_def blank_def nl_def ebind_def)

lemma installed_hook_settled:
  assumes "ensure_json_stop_hook path spec w = Inr (u, w')" "spec_ascii spec" "plain_settings w path"
  shows "\<exists>reason. prepare_json_stop_hook w' path spec = Inr (unchanged reason path)"
proof -
  have prep: "prepare_json_stop_hook w path spec = Inr u" and w': "write_prepared_update u w = Inr ((), w')"
    using assms(1) by (auto simp: ensure_json_stop_hook_def bindA_Inr act_Inr)
  show ?thesis
  proof (cases "hu_data u")
    case None
    then have "w' = w" using w' by (simp add: write_prepared_update_def ret_def)
    moreover have "u = unchanged (hu_reason u) path"
      using prep None by (auto simp: prepare_json_stop_hook_def ebind_eq_Inr changed_to_def unchanged_def
          split: if_splits option.splits)
    ultimately show ?thesis using prep by metis
  next
    case (Some data)
    from prepared_settled [OF prep Some assms(2,3)] obtain root where root: "hu_path u = path" "data = json_file (VDict root)"
      "json_plain (VDict root)" "settle_hooks spec path root = Inr (''already_configured'', None)" by blast
    then have "file_text w' path = Some (json_file (VDict root))"
      using w' Some by (auto simp: write_prepared_update_def act_Inr file_text_written same_file_def)
    moreover from this have "path_exists w' path" by (simp add: path_exists_def is_file_text)
    ultimately show ?thesis
      using read_written_object [OF _ root(3)] root(4) by (auto simp: prepare_json_stop_hook_def ebind_def)
  qed
qed

section \<open>The marker and the hook\<close>

lemma path_exists_print [simp]: "path_exists (print_line s w) p = path_exists w p"
  by (simp add: path_exists_def is_file_def is_dir_def print_line_def key_of_def resolve_def)

lemma file_text_print [simp]: "file_text (print_line s w) p = file_text w p"
  by (simp add: file_text_def)

lemma remaining_marker: "marker_payload w opts = Inr payload \<Longrightarrow>
  \<exists>n. or_zero (opt ''remaining'' opts) = Inr n \<and> remaining_of payload = VInt n"
  by (auto simp: marker_payload_def ebind_eq_Inr remaining_of_def get_or_def dict_get_Cons)

lemma marker_payload_plain:
  assumes "marker_payload w opts = Inr payload" "\<And>k. ascii (opt k opts)"
  shows "json_plain (VDict payload)"
proof -
  have "ascii ''epic''" "ascii ''currentStory''" "ascii ''storiesRemaining''" "ascii ''stateFile''" "ascii ''createdAt''"
    "ascii ''heartbeat''" "ascii ''pid''" "ascii ''projectSlug''" by (simp_all add: ascii_def)
  then show ?thesis using assms ascii_now by (auto simp: marker_payload_def ebind_eq_Inr dict_ok_def)
qed

lemma marker_payload_make_dir [simp]: "marker_payload (make_dir w d) opts = marker_payload w opts"
  by (simp add: marker_payload_def now_utc_z_def)

lemma marker_created:
  assumes "marker_create args w = Inr (code, w1)"
  shows "\<exists>payload. marker_payload w (marker_options args) = Inr payload \<and>
    file_text w1 (marker_of w) = Some (marker_text payload)"
proof -
  show ?thesis using assms
    by (auto simp: marker_create_def bindA_Inr act_Inr exit_with_def print_out_def file_text_written same_file_def)
qed

lemma read_marker:
  assumes "file_text w m = Some (marker_text payload)" "json_plain (VDict payload)"
  shows "read_file w m = Inr (marker_text payload)" "path_exists w m" "json_loads (marker_text payload) = Inr (VDict payload)"
  using read_file_text [OF assms(1)] assms(1) json_roundtrip [OF assms(2), of style_indent2 "[nl]"] styles_ok
  by (simp_all add: path_exists_def is_file_text marker_text_def blank_def nl_def)

lemma hook_on_marker:
  assumes "file_text w (active_marker_path w None) = Some (marker_text payload)" "json_plain (VDict payload)" "\<not> is_child w"
  shows "cmd_stop_hook args w = block_or_pass payload w"
  using read_marker [OF assms(1,2)] assms(3)
  by (simp add: cmd_stop_hook_def bindA_def reads_def readsE_def)
lemma block_or_pass_count:
  "remaining_of payload = VInt n \<Longrightarrow> block_or_pass payload w =
     (if n = 0 then Inr (0, w)
      else ebind (workflow_doc_relative w ''stop-hook-recovery.md'') (\<lambda>doc.
             Inr (0, print_line (block_text doc (VInt n)) w)))"
  by (auto simp: block_or_pass_def ret_def bindA_def readsE_def ebind_def exit_with_def print_out_def effect_def
      split: sum.split)

lemma created_marker_blocks:
  assumes "marker_create args w = Inr (code, w1)" "active_marker_path w1 None = marker_of w" "\<not> is_child w1"
    "\<And>k. ascii (opt k (marker_options args))"
  shows "\<exists>n. or_zero (opt ''remaining'' (marker_options args)) = Inr n \<and>
    cmd_stop_hook tl_args w1 =
      (if n = 0 then Inr (0, w1)
       else ebind (workflow_doc_relative w1 ''stop-hook-recovery.md'') (\<lambda>doc.
              Inr (0, print_line (block_text doc (VInt n)) w1)))"
proof -
  obtain payload where p: "marker_payload w (marker_options args) = Inr payload"
    "file_text w1 (active_marker_path w1 None) = Some (marker_text payload)"
    using marker_created [OF assms(1)] assms(2) by auto
  obtain n where "or_zero (opt ''remaining'' (marker_options args)) = Inr n" "remaining_of payload = VInt n"
    using remaining_marker [OF p(1)] by blast
  then show ?thesis
    using hook_on_marker [OF p(2) marker_payload_plain [OF p(1) assms(4)] assms(3), of tl_args] block_or_pass_count by auto
qed

section \<open>The entry of \<open>.gitignore\<close>\<close>

definition entry_ok :: "string \<Rightarrow> bool" where
  "entry_ok entry \<longleftrightarrow> entry \<noteq> [] \<and> strip entry = entry \<and> hd entry \<noteq> CHR ''#'' \<and> nl \<notin> set entry \<and> cr \<notin> set entry"

lemma replace_all_Nil: "old \<noteq> [] \<Longrightarrow> replace_all old new [] = []"
  by (simp add: replace_all_def split_all.simps [of old])

lemma replace_all_hit: "old \<noteq> [] \<Longrightarrow> replace_all old new (old @ s) = new @ replace_all old new s"
  by (cases old) (simp_all add: replace_all_def split_all.simps [of old "old @ s"] split_all.simps [of "_ # _" "_ # _"] join_Cons)

lemma replace_all_miss: "\<not> prefix old (c # s) \<Longrightarrow> replace_all old new (c # s) = c # replace_all old new s"
  by (cases "old = []"; cases "split_once old s")
    (auto simp: replace_all_def split_all.simps [of old "c # s"] split_all.simps [of old s] join_Cons)

lemma unix_ends_absent: "cr \<notin> set e \<Longrightarrow> replace_all [cr, nl] [nl] e = e"
  by (induction e) (simp_all add: replace_all_Nil replace_all_miss)

lemma unix_ends_tail:
  assumes "cr \<notin> set e"
  shows "\<exists>b. replace_all [cr, nl] [nl] (c @ nl # e) = b @ nl # e"
proof (induction "length c" arbitrary: c rule: less_induct)
  case less
  show ?case
  proof (cases "prefix [cr, nl] (c @ nl # e)")
    case True
    then consider "c = [cr]" | d where "c = cr # nl # d" by (cases c rule: remdups_adj.cases) (auto simp: nl_def cr_def)
    then show ?thesis
    proof cases
      case 1
      have "replace_all [cr, nl] [nl] ([cr, nl] @ e) = [nl] @ replace_all [cr, nl] [nl] e" by (intro replace_all_hit) simp
      then show ?thesis using 1 unix_ends_absent [OF assms] by (metis append_Cons append_Nil)
    next
      case 2
      have "replace_all [cr, nl] [nl] ([cr, nl] @ d @ nl # e) = [nl] @ replace_all [cr, nl] [nl] (d @ nl # e)"
        by (intro replace_all_hit) simp
      moreover obtain b where "replace_all [cr, nl] [nl] (d @ nl # e) = b @ nl # e" using less [of d] 2 by auto
      ultimately show ?thesis using 2 by (metis append_Cons append_Nil)
    qed
  next
    case False
    show ?thesis
    proof (cases c)
      case Nil
      then show ?thesis using False replace_all_miss [of "[cr, nl]" nl e "[nl]"] unix_ends_absent [OF assms]
        by (metis append_Nil)
    next
      case (Cons x d)
      then obtain b where "replace_all [cr, nl] [nl] (d @ nl # e) = b @ nl # e" using less [of d] by auto
      with Cons False show ?thesis by (metis replace_all_miss append_Cons)
    qed
  qed
qed

lemma split_all_char_at: "split_all [c] (a @ c # b) = split_all [c] a @ split_all [c] b"
  by (induction a) (auto simp: split_all_char)

lemma last_line: "nl \<notin> set e \<Longrightarrow> e \<in> set (split_all [nl] (b @ nl # e @ [nl]))"
  by (simp add: split_all_char_at split_all_char_absent)

lemma entry_line: "entry_ok entry \<Longrightarrow> is_entry_line entry entry"
  by (cases entry) (auto simp: entry_ok_def is_entry_line_def startswith_def)

lemma entry_added:
  assumes "entry_ok entry"
  shows "has_entry entry (content @ add_entry entry content)"
proof -
  have e: "nl \<notin> set entry" "cr \<notin> set (entry @ [nl])" using assms by (auto simp: entry_ok_def nl_def cr_def)
  have found: "has_entry entry t" if "entry \<in> set (split_all [nl] (replace_all [cr, nl] [nl] t))" for t
    using that entry_line [OF assms] by (auto simp: has_entry_def list_ex_iff)
  show ?thesis
  proof (cases "content = []")
    case True
    then show ?thesis using e unix_ends_absent [OF e(2)] split_all_char_append [OF e(1), of "[]"]
      by (intro found) (simp add: add_entry_def)
  next
    case False
    have "\<exists>c. content @ add_entry entry content = c @ nl # entry @ [nl]"
      using False by (cases content rule: rev_cases) (auto simp: add_entry_def endswith_def suffix_def)
    then obtain c where "content @ add_entry entry content = c @ nl # entry @ [nl]" by blast
    then show ?thesis using unix_ends_tail [OF e(2), of c] last_line [OF e(1)] by (intro found) auto
  qed
qed

lemma file_text_put: "file_text (put_file w p c) q = (if same_file w p q then Some c else file_text w q)"
  by (rule fs.load_store)

definition marker_answer :: "string list \<Rightarrow> bool \<Rightarrow> string" where
  "marker_answer args changed =
     json_dumps style_compact (VDict [(''ok'', VBool True), (''changed'', VBool changed),
       (''path'', VStr (path_str (path_of (last_flag ''--gitignore'' [] args))))])"

lemma gitignore_settled:
  assumes "cmd_ensure_marker_gitignore args w = Inr (0, w')" "entry_ok (last_flag ''--entry'' [] args)"
  shows "cmd_ensure_marker_gitignore args w' = Inr (0, print_line (marker_answer args False) w')"
proof -
  let ?p = "path_of (last_flag ''--gitignore'' [] args)" and ?e = "last_flag ''--entry'' [] args"
  have given: "last_flag ''--gitignore'' [] args \<noteq> []" "?e \<noteq> []"
    using assms(1) by (auto simp: cmd_ensure_marker_gitignore_def Let_def answer_Inr split: if_splits)
  obtain w1 content where w1: "w1 = (if path_exists w ?p then w else put_file w ?p [])" "read_file w1 ?p = Inr content"
    and w': "w' = (if has_entry ?e content then print_line (marker_answer args False) w1
      else print_line (marker_answer args True) (put_file w1 ?p (raw_text w1 ?p @ add_entry ?e content)))"
    using assms(1) given
    by (auto simp: cmd_ensure_marker_gitignore_def Let_def bindA_Inr act_Inr answer_Inr marker_answer_def split: if_splits)
  have t: "file_text w1 ?p = Some content"
    using w1(2) by (simp add: read_file_def file_text_def split: option.splits if_splits)
  then have "raw_text w1 ?p = content" by (simp add: raw_text_def)
  then have "\<exists>content'. file_text w' ?p = Some content' \<and> has_entry ?e content'"
    using w' t entry_added [OF assms(2), of content] by (auto simp: file_text_put same_file_def)
  then obtain content' where c: "file_text w' ?p = Some content'" "has_entry ?e content'" by blast
  then have "path_exists w' ?p" by (simp add: path_exists_def is_file_text)
  then show ?thesis using given c read_file_text [OF c(1)]
    by (simp add: cmd_ensure_marker_gitignore_def Let_def bindA_def effect_def readsE_def answer_def ret_def print_json_def
        marker_answer_def)
qed

section \<open>One line of the configuration\<close>

definition one_line :: "(string \<Rightarrow> bool) \<Rightarrow> string list \<Rightarrow> string list \<Rightarrow> bool" where
  "one_line good ls ls' \<longleftrightarrow> (\<exists>a x b. good x \<and> ls' = a @ x # b \<and> (ls = a @ b \<or> (\<exists>y. ls = a @ y # b)))"

definition enables_hooks :: "string \<Rightarrow> bool" where
  "enables_hooks line \<longleftrightarrow> sublist ''codex_hooks = true'' line"

lemma one_line_inside: "one_line good ls ls' \<Longrightarrow> one_line good (a @ ls @ b) (a @ ls' @ b)"
  unfolding one_line_def by (metis append.assoc append_Cons)

lemma one_line_insert: "good x \<Longrightarrow> one_line good (a @ b) (a @ x # b)"
  unfolding one_line_def by blast

lemma replace_first_one_line:
  "replace_first f ls = Some ls' \<Longrightarrow> (\<And>y x. f y = Some x \<Longrightarrow> good x) \<Longrightarrow> one_line good ls ls'"
proof (induction ls arbitrary: ls')
  case (Cons l ls)
  show ?case
  proof (cases "f l")
    case None
    then obtain ls1 where "replace_first f ls = Some ls1" "ls' = l # ls1" using Cons.prems(1) by auto
    then show ?thesis using Cons one_line_inside [of good ls ls1 "[l]" "[]"] by simp
  next
    case (Some x)
    then have "good x \<and> ls' = [] @ x # ls \<and> l # ls = [] @ l # ls" using Cons.prems by auto
    then show ?thesis unfolding one_line_def by blast
  qed
qed simp

lemma insert_after_last_one_line:
  assumes "insert_after_last P x ls = Some ls'" "good x"
  shows "one_line good ls ls'"
proof -
  have "rev (dropWhile Q (rev ls)) @ rev (takeWhile Q (rev ls)) = ls" for Q
    by (metis rev_append rev_rev_ident takeWhile_dropWhile_id)
  moreover have "ls' = rev (dropWhile (\<lambda>l. \<not> P l) (rev ls)) @ x # rev (takeWhile (\<lambda>l. \<not> P l) (rev ls))"
    using assms(1) by (simp add: insert_after_last_def split: if_splits)
  ultimately show ?thesis using one_line_insert [of good x, OF assms(2)] by metis
qed

lemma sublist_join: "x \<in> set xs \<Longrightarrow> sublist x (join sep xs)"
proof (induction xs)
  case (Cons y ys)
  show ?case
  proof (cases "ys = []")
    case False
    have "sublist x y \<or> sublist x (join sep ys)" using Cons by auto
    then show ?thesis using False unfolding sublist_def by (metis append.assoc join_Cons)
  qed (use Cons in simp)
qed simp

lemma enables_after: "enables_hooks s \<Longrightarrow> enables_hooks (a @ s @ b)"
  unfolding enables_hooks_def sublist_def by (metis append.assoc)

lemma assigned_enables: "assigned (a @ ''codex_hooks'') l = Some x \<Longrightarrow> enables_hooks x"
  unfolding assigned_def enables_hooks_def sublist_def by (auto intro: exI [of _ "[]"]) (metis append.assoc append_Nil2)

lemma inline_enables: "enables_hooks (set_inline_features m)"
proof -
  let ?up = "List.map (\<lambda>it. if is_hooks_item it then ''codex_hooks = true'' else it)"
  have hit: "''codex_hooks = true'' \<in> set (if list_ex is_hooks_item items then ?up items else ?up items @ [''codex_hooks = true''])"
    for items by (auto simp: list_ex_iff intro: rev_image_eqI)
  have split: "\<exists>us a b. g1 @ ''features = { '' @ join '', '' items @ '' }'' @ g3 = a @ join '', '' us @ b \<and>
    ''codex_hooks = true'' \<in> set us" if "''codex_hooks = true'' \<in> set items" for g1 g3 items
    using that by (metis append.assoc)
  have "\<exists>items a b. set_inline_features m = a @ join '', '' items @ b \<and> ''codex_hooks = true'' \<in> set items"
    unfolding set_inline_features_def Let_def by (rule split) (rule hit)
  then show ?thesis using sublist_join enables_after unfolding enables_hooks_def by metis
qed

lemma first_some_any: "first_some xs = Some y \<Longrightarrow> Some y \<in> set xs"
  by (induction xs) (auto split: option.splits)

definition features_table :: string where
  "features_table = ''[features]'' @ [nl] @ ''codex_hooks = true'' @ [nl]"

lemma top_level_edit:
  "(\<exists>ls'. set_top_level_features content ls = doc_of ls' \<and> one_line enables_hooks ls ls') \<or>
   (\<exists>gap. set gap \<subseteq> {nl} \<and> set_top_level_features content ls = content @ gap @ features_table)"
proof -
  let ?P = "\<lambda>l. \<not> is_table l"
  let ?edits = "[replace_first (assigned ''features.codex_hooks'') (takeWhile ?P ls),
    replace_first (\<lambda>l. map_option set_inline_features (re_match rx_inline l)) (takeWhile ?P ls),
    insert_after_last (\<lambda>l. re_match rx_dotted_key l \<noteq> None) ''features.codex_hooks = true'' (takeWhile ?P ls)]"
  show ?thesis
  proof (cases "first_some ?edits")
    case None
    have "set_top_level_features content ls =
      content @ (if endswith content [nl] then [nl] else [nl, nl]) @ features_table"
      unfolding set_top_level_features_def Let_def None features_table_def option.case by (rule refl)
    moreover have "set (if endswith content [nl] then [nl] else [nl, nl]) \<subseteq> {nl}" by simp
    ultimately show ?thesis by blast
  next
    case (Some top')
    have key: "enables_hooks x" if "assigned ''features.codex_hooks'' y = Some x" for x y
      using assigned_enables [of "''features.''" y x] that by simp
    have new: "enables_hooks ''features.codex_hooks = true''"
      using enables_after [of "''codex_hooks = true''" "''features.''" "[]"] by (simp add: enables_hooks_def)
    have inline: "enables_hooks x" if "map_option set_inline_features (re_match rx_inline y) = Some x" for x y
      using that inline_enables by auto
    from first_some_any [OF Some] consider "replace_first (assigned ''features.codex_hooks'') (takeWhile ?P ls) = Some top'"
      | "replace_first (\<lambda>l. map_option set_inline_features (re_match rx_inline l)) (takeWhile ?P ls) = Some top'"
      | "insert_after_last (\<lambda>l. re_match rx_dotted_key l \<noteq> None) ''features.codex_hooks = true'' (takeWhile ?P ls) = Some top'"
      unfolding list.set insert_iff empty_iff by metis
    then have "one_line enables_hooks (takeWhile ?P ls) top'"
    proof cases
      case 1
      then show ?thesis using key by (rule replace_first_one_line)
    next
      case 2
      then show ?thesis using inline by (rule replace_first_one_line)
    next
      case 3
      then show ?thesis using new by (rule insert_after_last_one_line)
    qed
    then have "one_line enables_hooks ls (top' @ dropWhile ?P ls)"
      using one_line_inside [of enables_hooks "takeWhile ?P ls" top' "[]" "dropWhile ?P ls"] by simp
    then show ?thesis unfolding set_top_level_features_def Let_def Some by auto
  qed
qed

lemma features_edit:
  "(\<exists>ls'. set_features_codex_hooks content = doc_of ls' \<and> one_line enables_hooks (splitlines content) ls') \<or>
   (\<exists>gap. set gap \<subseteq> {nl} \<and> set_features_codex_hooks content = content @ gap @ features_table) \<or>
   splitlines content = [] \<and> set_features_codex_hooks content = features_table"
proof -
  let ?ls = "splitlines content" and ?P = "\<lambda>l. \<not> is_features_table l" and ?Q = "\<lambda>l. \<not> is_table l"
  consider "?ls = []" | "?ls \<noteq> []" "dropWhile ?P ?ls = []"
    | tab later where "?ls \<noteq> []" "dropWhile ?P ?ls = tab # later" by (cases "dropWhile ?P ?ls") auto
  then show ?thesis
  proof cases
    case 1
    then show ?thesis unfolding set_features_codex_hooks_def Let_def features_table_def if_P [OF 1] by simp
  next
    case 2
    have "set_features_codex_hooks content = set_top_level_features content ?ls"
      unfolding set_features_codex_hooks_def Let_def 2(2) list.case if_not_P [OF 2(1)] by (rule refl)
    then show ?thesis using top_level_edit [of content ?ls] by metis
  next
    case 3
    let ?body = "takeWhile ?Q later" and ?rest = "dropWhile ?Q later" and ?before = "takeWhile ?P ?ls"
    have ls: "?ls = (?before @ [tab]) @ ?body @ ?rest"
      using takeWhile_dropWhile_id [of ?P ?ls] 3(2) takeWhile_dropWhile_id [of ?Q later] by simp
    have out: "set_features_codex_hooks content =
      (case replace_first (assigned ''codex_hooks'') ?body of
         Some body' \<Rightarrow> doc_of ((?before @ [tab]) @ body' @ ?rest)
       | None \<Rightarrow> doc_of ((?before @ [tab]) @ ''codex_hooks = true'' # ?body @ ?rest))"
      unfolding set_features_codex_hooks_def Let_def 3(2) list.case if_not_P [OF 3(1)] append_assoc append_Cons append_Nil
      by (rule refl)
    have "\<exists>ls'. set_features_codex_hooks content = doc_of ls' \<and> one_line enables_hooks ?ls ls'"
    proof (cases "replace_first (assigned ''codex_hooks'') ?body")
      case None
      have "one_line enables_hooks ((?before @ [tab]) @ ?body @ ?rest) ((?before @ [tab]) @ ''codex_hooks = true'' # ?body @ ?rest)"
        by (rule one_line_insert) (simp add: enables_hooks_def)
      then show ?thesis unfolding out None option.case ls [symmetric] by blast
    next
      case (Some body')
      have "enables_hooks x" if "assigned ''codex_hooks'' y = Some x" for x y
        using assigned_enables [of "[]" y x] that by simp
      then have "one_line enables_hooks ?body body'" using replace_first_one_line [OF Some] by blast
      then have "one_line enables_hooks ((?before @ [tab]) @ ?body @ ?rest) ((?before @ [tab]) @ body' @ ?rest)"
        by (rule one_line_inside)
      then show ?thesis unfolding out Some option.case ls [symmetric] by blast
    qed
    then show ?thesis by blast
  qed
qed

end
