(* ===== verification/Presets.thy ===== *)
theory Presets
  imports Agent_Config Tmux_Commands
begin

text \<open>
  The presets of agent configurations: the file of \<open>core/agent_config.py\<close> and the command of
  \<open>commands/agent_config_cmd.py\<close>. A preset is found by its name, letter case aside.
\<close>

section \<open>The file\<close>

definition set_default :: "string \<Rightarrow> pyval \<Rightarrow> pyval dict \<Rightarrow> pyval dict" where
  "set_default k v d = (if dict_has k d then d else dict_set k v d)"

definition load_presets_file :: "world \<Rightarrow> string \<Rightarrow> pyval dict res" where
  "load_presets_file w path =
     (if \<not> is_file w (path_of path) then Inr [(''version'', VStr ''1.0.0''), (''presets'', VList [])]
      else ebind (read_file w (path_of path)) (\<lambda>content.
           ebind (json_loads content) (\<lambda>v. ebind (as_dict v) (\<lambda>data.
           Inr (set_default ''presets'' (VList []) (set_default ''version'' (VStr ''1.0.0'') data))))))"

definition save_presets_file :: "string \<Rightarrow> pyval dict \<Rightarrow> world \<Rightarrow> world" where
  "save_presets_file path data w =
     write_atomic (make_dir w (path_parent (path_of path))) (path_of path) (json_dumps style_indent2 (VDict data) @ [nl])"

section \<open>The presets of a file\<close>

fun item :: "string \<Rightarrow> pyval \<Rightarrow> pyval res" where   \<comment> \<open>\<open>v[k]\<close>\<close>
  "item k (VDict d) = of_option (KeyError k) (dict_get k d)"
| "item k _ = Inl TypeError"

definition preset_name :: "pyval \<Rightarrow> string res" where   \<comment> \<open>\<open>preset["name"].lower()\<close>\<close>
  "preset_name preset =
     ebind (item ''name'' preset) (\<lambda>n. case n of VStr s \<Rightarrow> Inr (lower s) | _ \<Rightarrow> Inl AttributeError)"

fun find_preset :: "string \<Rightarrow> pyval list \<Rightarrow> pyval option res" where
  "find_preset name [] = Inr None"
| "find_preset name (p # ps) =
     ebind (preset_name p) (\<lambda>n. if n = lower name then Inr (Some p) else find_preset name ps)"

definition renewed :: "pyval \<Rightarrow> string \<Rightarrow> pyval \<Rightarrow> pyval" where
  "renewed config now preset =
     (case preset of
        VDict d \<Rightarrow> VDict (dict_set ''createdAt'' (VStr now) (dict_set ''config'' config d))
      | v \<Rightarrow> v)"

text \<open>The first preset of the name is renewed, without one a preset is added at the end.\<close>

fun save_preset :: "string \<Rightarrow> pyval \<Rightarrow> string \<Rightarrow> pyval list \<Rightarrow> (bool \<times> pyval list) res" where
  "save_preset name config now [] =
     Inr (False, [VDict [(''name'', VStr name), (''createdAt'', VStr now), (''config'', config)]])"
| "save_preset name config now (p # ps) =
     ebind (preset_name p) (\<lambda>n.
     if n = lower name then Inr (True, renewed config now p # ps)
     else ebind (save_preset name config now ps) (\<lambda>(found, ps'). Inr (found, p # ps')))"

fun drop_presets :: "string \<Rightarrow> pyval list \<Rightarrow> pyval list res" where
  "drop_presets name [] = Inr []"
| "drop_presets name (p # ps) =
     ebind (preset_name p) (\<lambda>n.
     ebind (drop_presets name ps) (\<lambda>ps'. Inr (if n \<noteq> lower name then p # ps' else ps')))"

section \<open>The command\<close>

fun flag_map_on :: "string dict \<Rightarrow> string list \<Rightarrow> string dict" where
  "flag_map_on out (a # b # rest) =
     (if startswith a ''--'' then flag_map_on (dict_set (drop 2 a) b out) rest else flag_map_on out (b # rest))"
| "flag_map_on out _ = out"

definition flag_map :: "string list \<Rightarrow> string dict" where
  "flag_map args = flag_map_on [] args"

definition param :: "string \<Rightarrow> string dict \<Rightarrow> string" where
  "param k params = (case dict_get k params of None \<Rightarrow> [] | Some v \<Rightarrow> v)"

definition listed_preset :: "pyval \<Rightarrow> pyval res" where
  "listed_preset preset =
     ebind (item ''name'' preset) (\<lambda>n. ebind (item ''createdAt'' preset) (\<lambda>c.
       Inr (VDict [(''name'', n), (''createdAt'', c)])))"

definition presets_list :: "string \<Rightarrow> int act" where
  "presets_list file =
     (if file = [] then answer_utf8 1 (failed ''missing_file'')
      else
        bindA (readsE (\<lambda>w. ebind (load_presets_file w file) (\<lambda>data.
                 ebind (iter_val (get_or (VList []) ''presets'' data)) (map_res listed_preset)))) (\<lambda>presets.
        answer_utf8 0 [(''ok'', VBool True), (''presets'', VList presets), (''count'', VInt (int (length presets)))]))"

text \<open>Only a list can be appended to.\<close>

definition presets_to_extend :: "pyval dict \<Rightarrow> pyval list res" where
  "presets_to_extend data =
     (case get_val ''presets'' data of
        VList ps \<Rightarrow> Inr ps
      | v \<Rightarrow> ebind (iter_val v) (\<lambda>xs. Inl (if xs = [] then AttributeError else TypeError)))"

definition presets_save :: "string \<Rightarrow> string \<Rightarrow> string \<Rightarrow> int act" where
  "presets_save file name config_json =
     (if file = [] \<or> strip name = [] \<or> strip config_json = [] then answer_utf8 1 (failed ''missing_args'')
      else
        (case json_loads config_json of
           Inl _ \<Rightarrow> answer_utf8 1 (failed ''invalid_config_json'')
         | Inr config \<Rightarrow>
             bindA (readsE (\<lambda>w. load_presets_file w file)) (\<lambda>data.
             bindA (readsE (\<lambda>w. ebind (presets_to_extend data) (save_preset name config (now_utc_z w)))) (\<lambda>(found, presets).
             bindA (effect (save_presets_file file (dict_set ''presets'' (VList presets) data))) (\<lambda>_.
             answer_utf8 0 [(''ok'', VBool True), (''name'', VStr name),
                            (''action'', VStr (if found then ''updated'' else ''created''))])))))"

definition presets_load :: "string \<Rightarrow> string \<Rightarrow> int act" where
  "presets_load file name =
     (if file = [] \<or> strip name = [] then answer_utf8 1 (failed ''missing_args'')
      else
        bindA (readsE (\<lambda>w. ebind (load_presets_file w file) (\<lambda>data.
                 ebind (iter_val (get_val ''presets'' data)) (find_preset name)))) (\<lambda>found.
        case found of
          None \<Rightarrow> answer_utf8 1 (failed ''preset_not_found'' @ [(''name'', VStr name)])
        | Some preset \<Rightarrow>
            bindA (readsE (\<lambda>w. ebind (item ''name'' preset) (\<lambda>n. ebind (item ''config'' preset) (\<lambda>c. Inr (n, c)))))
              (\<lambda>(n, c). answer_utf8 0 [(''ok'', VBool True), (''name'', n), (''config'', c)])))"

definition presets_delete :: "string \<Rightarrow> string \<Rightarrow> int act" where
  "presets_delete file name =
     (if file = [] \<or> strip name = [] then answer_utf8 1 (failed ''missing_args'')
      else
        bindA (readsE (\<lambda>w. load_presets_file w file)) (\<lambda>data.
        bindA (readsE (\<lambda>w. iter_val (get_val ''presets'' data))) (\<lambda>presets.
        bindA (readsE (\<lambda>w. drop_presets name presets)) (\<lambda>kept.
        if length kept = length presets
        then answer_utf8 1 (failed ''preset_not_found'' @ [(''name'', VStr name)])
        else
          bindA (effect (save_presets_file file (dict_set ''presets'' (VList kept) data))) (\<lambda>_.
          answer_utf8 0 [(''ok'', VBool True), (''name'', VStr name), (''action'', VStr ''deleted'')])))))"

definition cmd_agent_config :: "string list \<Rightarrow> int act" where
  "cmd_agent_config args =
     (case args of
        [] \<Rightarrow> answer_utf8 1 (failed ''missing_subcommand'')
      | action # rest \<Rightarrow>
          (let params = flag_map rest; file = param ''file'' params; name = param ''name'' params in
           if action = ''list'' then presets_list file
           else if action = ''save'' then presets_save file name (param ''config-json'' params)
           else if action = ''load'' then presets_load file name
           else if action = ''delete'' then presets_delete file name
           else answer_utf8 1 (failed ''unknown_subcommand'' @ [(''subcommand'', VStr action)])))"

section \<open>Lemmas\<close>

text \<open>Presets as the command writes them: objects with a name.\<close>

definition preset_ok :: "pyval \<Rightarrow> bool" where
  "preset_ok p = (case p of VDict d \<Rightarrow> (case dict_get ''name'' d of Some v \<Rightarrow> is_str v | None \<Rightarrow> False) | _ \<Rightarrow> False)"

lemma preset_ok_name: "preset_ok p \<Longrightarrow> \<exists>s. preset_name p = Inr s"
  by (auto simp: preset_ok_def preset_name_def ebind_def split: pyval.splits option.splits)

lemma renewed_name [simp]: "preset_ok p \<Longrightarrow> preset_name (renewed c now p) = preset_name p \<and> preset_ok (renewed c now p)"
  by (auto simp: preset_ok_def preset_name_def renewed_def ebind_def dict.get_put split: pyval.splits option.splits)

lemma renewed_config: "preset_ok p \<Longrightarrow> item ''config'' (renewed c now p) = Inr c"
  by (auto simp: preset_ok_def renewed_def dict.get_put split: pyval.splits)

lemma new_preset_name [simp]: "preset_name (VDict ((''name'', VStr name) # d)) = Inr (lower name)"
  by (simp add: preset_name_def ebind_def dict_get_Cons)

definition finds_config :: "string \<Rightarrow> pyval list \<Rightarrow> pyval option res" where
  "finds_config name ps =
     ebind (find_preset name ps) (\<lambda>found.
       case found of None \<Rightarrow> Inr None | Some p \<Rightarrow> ebind (item ''config'' p) (\<lambda>c. Inr (Some c)))"

lemma finds_config_Cons:
  "preset_name p = Inr n \<Longrightarrow> finds_config name (p # ps) =
     (if n = lower name then ebind (item ''config'' p) (\<lambda>c. Inr (Some c)) else finds_config name ps)"
  by (simp add: finds_config_def ebind_def)

lemma save_preset_finds:
  "list_all preset_ok ps \<Longrightarrow> \<exists>found ps'. save_preset name config now ps = Inr (found, ps') \<and> list_all preset_ok ps' \<and>
     (\<forall>name'. finds_config name' ps' = (if lower name' = lower name then Inr (Some config) else finds_config name' ps))"
proof (induction ps)
  case Nil
  show ?case by (auto simp: finds_config_def preset_ok_def ebind_def dict_get_Cons)
next
  case (Cons p ps)
  then have p: "preset_ok p" by simp
  then obtain s where s: "preset_name p = Inr s" using preset_ok_name by blast
  obtain found ps' where ih: "save_preset name config now ps = Inr (found, ps')" "list_all preset_ok ps'"
    "\<And>name'. finds_config name' ps' = (if lower name' = lower name then Inr (Some config) else finds_config name' ps)"
    using Cons by auto
  show ?case
  proof (cases "s = lower name")
    case True
    then show ?thesis using Cons.prems p s
      by (auto simp: ebind_def finds_config_Cons renewed_config)
  next
    case False
    then show ?thesis using ih Cons.prems p s by (auto simp: ebind_def finds_config_Cons)
  qed
qed

lemma drop_presets_finds:
  "list_all preset_ok ps \<Longrightarrow> \<exists>ps'. drop_presets name ps = Inr ps' \<and> list_all preset_ok ps' \<and>
     (\<forall>name'. finds_config name' ps' = (if lower name' = lower name then Inr None else finds_config name' ps))"
proof (induction ps)
  case Nil
  show ?case by (simp add: finds_config_def ebind_def)
next
  case (Cons p ps)
  then obtain s where s: "preset_name p = Inr s" using preset_ok_name by auto
  obtain ps' where ih: "drop_presets name ps = Inr ps'" "list_all preset_ok ps'"
    "\<And>name'. finds_config name' ps' = (if lower name' = lower name then Inr None else finds_config name' ps)"
    using Cons by auto
  then show ?case using Cons.prems s
    by (cases "s = lower name") (auto simp: ebind_def finds_config_Cons)
qed

end
