(* ===== verification/Preset_Facts.thy ===== *)
theory Preset_Facts
  imports Presets Json_Facts Tmux_Status
begin

text \<open>
  The file of the presets as a table of configurations by name: what saving and deleting do to it.
\<close>

definition stored_config :: "world \<Rightarrow> string \<Rightarrow> string \<Rightarrow> pyval option res" where
  "stored_config w file name =
     ebind (load_presets_file w file) (\<lambda>data. ebind (iter_val (get_val ''presets'' data)) (finds_config name))"

text \<open>A file that the command wrote, or none.\<close>

definition presets_plain :: "world \<Rightarrow> string \<Rightarrow> bool" where
  "presets_plain w file \<longleftrightarrow>
     (case load_presets_file w file of
        Inr data \<Rightarrow> json_plain (VDict data) \<and>
          (case get_val ''presets'' data of VList ps \<Rightarrow> list_all preset_ok ps | _ \<Rightarrow> False)
      | Inl _ \<Rightarrow> False)"

lemma presets_plainE:
  assumes "presets_plain w file"
  obtains data ps where "load_presets_file w file = Inr data" "json_plain (VDict data)" "get_val ''presets'' data = VList ps"
    "list_all preset_ok ps" "\<forall>p \<in> set ps. json_plain p" "\<forall>name. stored_config w file name = finds_config name ps"
proof -
  obtain data ps where d: "load_presets_file w file = Inr data" "json_plain (VDict data)" "get_val ''presets'' data = VList ps"
    "list_all preset_ok ps"
    using assms by (auto simp: presets_plain_def split: sum.splits pyval.splits)
  then have "dict_get ''presets'' data = Some (VList ps)" by (simp add: get_val_def get_or_def split: option.splits)
  then have "\<forall>p \<in> set ps. json_plain p" using json_plain_item [OF d(2)] by fastforce
  moreover have "\<forall>name. stored_config w file name = finds_config name ps" using d by (simp add: stored_config_def ebind_def)
  ultimately show thesis using d that by blast
qed

lemma load_saved_presets:
  assumes "json_plain (VDict data)" "dict_has ''presets'' data" "dict_has ''version'' data"
  shows "load_presets_file (save_presets_file file data w) file = Inr data"
proof -
  have "file_text (save_presets_file file data w) (path_of file) = Some (json_dumps style_indent2 (VDict data) @ [nl])"
    by (simp add: save_presets_file_def file_text_written same_file_def)
  then show ?thesis
    using json_roundtrip [OF assms(1), of style_indent2 "[nl]"] styles_ok assms(2,3)
    by (simp add: load_presets_file_def is_file_text read_file_text ebind_def blank_def nl_def set_default_def)
qed

lemma dict_has_set [simp]: "dict_has k (dict_set k' v d) \<longleftrightarrow> k = k' \<or> dict_has k d"
  using dict.get_put [of k k' v d] by (simp add: dict_has_def dict_get_def del: dict.get_put)

lemma dict_has_default [simp]: "dict_has k (set_default k' v d) \<longleftrightarrow> k = k' \<or> dict_has k d"
  by (auto simp: set_default_def)

lemma loaded_version: "load_presets_file w file = Inr data \<Longrightarrow> dict_has ''version'' data"
  by (auto simp: load_presets_file_def ebind_eq_Inr split: if_splits) (simp add: dict_has_def dict_get_Cons)

text \<open>The presets stay plain.\<close>

lemma renewed_plain: "json_plain p \<Longrightarrow> json_plain c \<Longrightarrow> ascii now \<Longrightarrow> json_plain (renewed c now p)"
  by (cases p) (auto simp: renewed_def ascii_def simp del: json_plain.simps(7) intro!: json_plain_dict_set)

lemma save_preset_plain:
  "save_preset name c now ps = Inr (found, ps') \<Longrightarrow> \<forall>p \<in> set ps. json_plain p \<Longrightarrow> json_plain c \<Longrightarrow> ascii name \<Longrightarrow> ascii now \<Longrightarrow>
     \<forall>p \<in> set ps'. json_plain p"
proof (induction ps arbitrary: found ps')
  case Nil
  then show ?case by (auto simp: dict_ok_def ascii_def)
next
  case (Cons p ps)
  then show ?case using renewed_plain by (auto simp: ebind_eq_Inr split: if_splits)
qed

lemma drop_presets_subset: "drop_presets name ps = Inr ps' \<Longrightarrow> set ps' \<subseteq> set ps"
  by (induction ps arbitrary: ps') (auto simp: ebind_eq_Inr split: if_splits)

text \<open>What is stored when the presets of a plain file are replaced.\<close>

lemma stored_after:
  assumes "load_presets_file w file = Inr data" "json_plain (VDict data)" "\<forall>p \<in> set ps. json_plain p" "list_all preset_ok ps"
  defines "w' \<equiv> save_presets_file file (dict_set ''presets'' (VList ps) data) w"
  shows "stored_config w' file name = finds_config name ps" "presets_plain w' file"
proof -
  have d: "json_plain (VDict (dict_set ''presets'' (VList ps) data))"
    using assms(2,3) by (intro json_plain_dict_set) (simp_all add: ascii_def)
  then have l: "load_presets_file w' file = Inr (dict_set ''presets'' (VList ps) data)"
    unfolding w'_def using loaded_version [OF assms(1)] by (intro load_saved_presets) simp_all
  have g: "get_val ''presets'' (dict_set ''presets'' (VList ps) data) = VList ps"
    by (simp add: get_val_def get_or_def dict.get_put)
  show "stored_config w' file name = finds_config name ps" using l g by (simp add: stored_config_def ebind_def)
  show "presets_plain w' file" using l d g assms(4) by (simp add: presets_plain_def del: json_plain.simps(7))
qed

lemma stored_print [simp]: "stored_config (print_line s w) file name = stored_config w file name"
proof -
  have d: "is_file (print_line s w) p = is_file w p" "is_dir (print_line s w) p = is_dir w p" for p
    by (simp_all add: is_file_def is_dir_def print_line_def key_of_def resolve_def)
  then have "read_file (print_line s w) p = read_file w p" for p by (simp add: read_file_def)
  then show ?thesis by (simp add: stored_config_def load_presets_file_def d)
qed

lemma answer_utf8_Inr: "answer_utf8 code payload w = Inr (n, w') \<longleftrightarrow>
  n = code \<and> w' = print_line (json_dumps style_compact_utf8 (VDict payload)) w"
  by (auto simp: answer_utf8_def act_Inr print_json_common_def)

lemma presets_save_returns:
  assumes "file \<noteq> []" "strip name \<noteq> []" "strip config_json \<noteq> []" "json_loads config_json = Inr config"
    "load_presets_file w file = Inr data" "presets_to_extend data = Inr ps"
    "save_preset name config (now_utc_z w) ps = Inr (found, ps')"
  shows "\<exists>w'. presets_save file name config_json w = Inr (0, w')"
  using assms by (auto simp: presets_save_def bindA_Inr act_Inr answer_utf8_Inr ebind_def)

lemma saved_config:
  assumes "presets_save file name config_json w = Inr (0, w')" "presets_plain w file" "ascii name"
    "json_loads config_json = Inr config" "json_plain config"
  shows "stored_config w' file name' =
    (if lower name' = lower name then Inr (Some config) else stored_config w file name')"
proof -
  from assms(2) obtain data ps where d: "load_presets_file w file = Inr data" "json_plain (VDict data)"
    "get_val ''presets'' data = VList ps" "list_all preset_ok ps" "\<forall>p \<in> set ps. json_plain p"
    "\<forall>name. stored_config w file name = finds_config name ps" by (rule presets_plainE)
  obtain found ps' where p: "save_preset name config (now_utc_z w) ps = Inr (found, ps')" "list_all preset_ok ps'"
    "\<And>name'. finds_config name' ps' = (if lower name' = lower name then Inr (Some config) else finds_config name' ps)"
    using save_preset_finds [OF d(4)] by blast
  obtain out where w': "w' = print_line out (save_presets_file file (dict_set ''presets'' (VList ps') data) w)"
    using assms(1,4) d(1,3) p(1)
    by (auto simp: presets_save_def bindA_Inr act_Inr answer_utf8_Inr presets_to_extend_def ebind_def split: if_splits)
  show ?thesis
    using stored_after(1) [OF d(1,2) save_preset_plain [OF p(1) d(5) assms(5,3) ascii_now] p(2)] w' p(3) d(6) by simp
qed

lemma deleted_config:
  assumes "presets_delete file name w = Inr (0, w')" "presets_plain w file"
  shows "stored_config w' file name' = (if lower name' = lower name then Inr None else stored_config w file name')"
proof -
  from assms(2) obtain data ps where d: "load_presets_file w file = Inr data" "json_plain (VDict data)"
    "get_val ''presets'' data = VList ps" "list_all preset_ok ps" "\<forall>p \<in> set ps. json_plain p"
    "\<forall>name. stored_config w file name = finds_config name ps" by (rule presets_plainE)
  obtain ps' where p: "drop_presets name ps = Inr ps'" "list_all preset_ok ps'"
    "\<And>name'. finds_config name' ps' = (if lower name' = lower name then Inr None else finds_config name' ps)"
    using drop_presets_finds [OF d(4)] by blast
  obtain out where w': "w' = print_line out (save_presets_file file (dict_set ''presets'' (VList ps') data) w)"
    using assms(1) d(1,3) p(1)
    by (auto simp: presets_delete_def bindA_Inr act_Inr answer_utf8_Inr split: if_splits)
  have "\<forall>p \<in> set ps'. json_plain p" using drop_presets_subset [OF p(1)] d(5) by blast
  from stored_after(1) [OF d(1,2) this p(2)] show ?thesis using w' p(3) d(6) by simp
qed

end
