(* ===== verification/State_Doc.thy ===== *)
theory State_Doc
  imports Orchestrator
begin

text \<open>
  \<open>commands/state.py\<close>: the state document of a run, built from a template, compared with the
  sprint status, measured and validated.
\<close>

section \<open>Templates of \<open>re.sub\<close>\<close>

text \<open>
  A replacement text of \<open>re.sub\<close> is a template: escapes stand for characters, a group of the
  pattern or, for most letters, for an error. The patterns here have no groups but the match.
\<close>

definition is_octal :: "char \<Rightarrow> bool" where
  "is_octal c \<longleftrightarrow> c \<in> set ''01234567''"

definition octal_of :: "string \<Rightarrow> nat" where
  "octal_of s = foldl (\<lambda>n c. 8 * n + digit_val c) 0 s"

definition escape_letters :: "(char \<times> string) list" where
  "escape_letters =
     [(CHR ''a'', [CHR 0x07]), (CHR ''b'', [CHR 0x08]), (CHR ''f'', [CHR 0x0C]), (CHR ''n'', [CHR 0x0A]),
      (CHR ''r'', [CHR 0x0D]), (CHR ''t'', [CHR 0x09]), (CHR ''v'', [CHR 0x0B]), (backslash, [backslash])]"

definition is_letter :: "char \<Rightarrow> bool" where
  "is_letter c \<longleftrightarrow> is_upper c \<or> is_lower c"

text \<open>
  What the characters behind a backslash stand for, and what follows them; \<open>\g<0>\<close> is the match.
\<close>

definition named_group :: "string \<Rightarrow> string option" where
  "named_group s =
     (case s of
        c # rest \<Rightarrow>
          if c = CHR ''<'' then
            (case split_once ''>'' rest of
               Some (name, after) \<Rightarrow> if name \<noteq> [] \<and> list_all (\<lambda>d. d = CHR ''0'') name then Some after else None
             | None \<Rightarrow> None)
          else None
      | [] \<Rightarrow> None)"

definition zero_escape :: "string \<Rightarrow> string \<times> string" where
  "zero_escape rest =
     (let ds = takeWhile is_octal (take 2 rest) in (utf8_of (octal_of ds mod 256), drop (length ds) rest))"

definition octal_escape :: "char \<Rightarrow> string \<Rightarrow> (string \<times> string) option" where
  "octal_escape c rest =
     (case rest of
        d # e # rest' \<Rightarrow>
          if is_octal c \<and> is_octal d \<and> is_octal e \<and> octal_of [c, d, e] \<le> 255
          then Some (utf8_of (octal_of [c, d, e]), rest') else None
      | _ \<Rightarrow> None)"

definition escape :: "string \<Rightarrow> string \<Rightarrow> (string \<times> string) option" where
  "escape matched s =
     (case s of
        [] \<Rightarrow> None
      | c # rest \<Rightarrow>
          (if c = CHR ''g'' then map_option (\<lambda>after. (matched, after)) (named_group rest)
           else if c = CHR ''0'' then Some (zero_escape rest)
           else if is_digit c then octal_escape c rest
           else
             (case map_of escape_letters c of
                Some t \<Rightarrow> Some (t, rest)
              | None \<Rightarrow> if is_letter c then None else Some ([backslash, c], rest))))"

fun expand_fuel :: "nat \<Rightarrow> string \<Rightarrow> string \<Rightarrow> string option" where
  "expand_fuel 0 matched s = None"
| "expand_fuel (Suc n) matched s =
     (case s of
        [] \<Rightarrow> Some []
      | c # cs \<Rightarrow>
          if c \<noteq> backslash then map_option ((#) c) (expand_fuel n matched cs)
          else (case escape matched cs of
                  None \<Rightarrow> None
                | Some (t, rest) \<Rightarrow> map_option ((@) t) (expand_fuel n matched rest)))"

text \<open>Every step takes a character, so the length of the template is fuel enough.\<close>

definition expand :: "string \<Rightarrow> string \<Rightarrow> string option" where
  "expand template matched = expand_fuel (Suc (length template)) matched template"

definition re_sub_template :: "rx \<Rightarrow> string \<Rightarrow> string \<Rightarrow> string res" where
  "re_sub_template r template content =
     (if expand template [] = None then Inl ReError
      else Inr (re_sub r (\<lambda>m. case expand template (rm_text m) of Some t \<Rightarrow> t | None \<Rightarrow> []) content))"

section \<open>The agent block\<close>

definition rx_block :: "string \<Rightarrow> rx" where   \<comment> \<open>\<open>(?m)^name:\n(?:(?:\s{2}.*\n)*)\<close>\<close>
  "rx_block name =
     rseq [RBol True, rlit (name @ '':'' @ [nl]), rstar (rseq [rspace, rspace, rstar rdot, rlit [nl]])]"

definition json_default :: "pyval \<Rightarrow> string" where
  "json_default v = json_dumps style_default v"

definition entry_lines :: "string \<Rightarrow> string \<Rightarrow> pyval dict \<Rightarrow> string list" where
  "entry_lines indent task entry =
     [indent @ task @ '':''] @
     (if dict_has ''primary'' entry then [indent @ ''  primary: '' @ json_default (get_val ''primary'' entry)] else []) @
     (if dict_has ''fallback'' entry
      then [indent @ ''  fallback: '' @
              (if get_val ''fallback'' entry = VBool False then ''false'' else json_default (get_val ''fallback'' entry))]
      else [])"

definition task_lines :: "string \<Rightarrow> pyval dict \<Rightarrow> string list" where
  "task_lines indent tasks =
     concat (List.map (\<lambda>task. case get_val task tasks of VDict entry \<Rightarrow> entry_lines indent task entry | _ \<Rightarrow> [])
       (sorted_strings (List.map fst tasks)))"

definition level_lines :: "pyval dict \<Rightarrow> string list" where
  "level_lines overrides =
     concat (List.map (\<lambda>level. case get_val level overrides of
                 VDict tasks \<Rightarrow> if tasks = [] then [] else [''    '' @ level @ '':''] @ task_lines ''      '' tasks
               | _ \<Rightarrow> [])
       (sorted_strings (List.map fst overrides)))"

definition block_tasks :: "pyval dict \<Rightarrow> pyval dict" where
  "block_tasks agent_config =
     (let tasks = dict_or_empty (get_or (VDict []) ''perTask'' agent_config) in
      case get_val ''retro'' agent_config of
        VDict retro \<Rightarrow> if dict_has ''retro'' tasks then tasks else dict_set ''retro'' (VDict retro) tasks
      | _ \<Rightarrow> tasks)"

definition block_fallback :: "pyval dict \<Rightarrow> pyval" where
  "block_fallback agent_config =
     (let v = (if dict_has ''defaultFallback'' agent_config then get_val ''defaultFallback'' agent_config
               else get_or (VBool False) ''fallback'' agent_config)
      in if v = VNone then VBool False else v)"

definition block_primary :: "pyval dict \<Rightarrow> pyval" where
  "block_primary agent_config =
     (let v = get_val ''defaultPrimary'' agent_config
      in if v = VNone then or_else (get_val ''primary'' agent_config) (VStr ''auto'') else v)"

definition agent_block_text :: "pyval dict \<Rightarrow> string" where
  "agent_block_text agent_config =
     (let tasks = block_tasks agent_config;
          overrides = dict_or_empty (get_or (VDict []) ''complexityOverrides'' agent_config)
      in join [nl]
           ([''agentConfig:'', ''  defaultPrimary: '' @ json_default (block_primary agent_config),
             ''  defaultFallback: '' @ json_default (block_fallback agent_config)] @
            (if tasks \<noteq> [] then ''  perTask:'' # task_lines ''    '' tasks else []) @
            (if overrides \<noteq> [] then ''  complexityOverrides:'' # level_lines overrides else [])) @ [nl])"

section \<open>Building a document\<close>

record doc_options =
  do_template :: string
  do_folder :: string
  do_file :: string
  do_json :: string

definition doc_options_of :: "string list \<Rightarrow> doc_options" where
  "doc_options_of args =
     \<lparr>do_template = last_flag ''--template'' [] args, do_folder = last_flag ''--output-folder'' [] args,
      do_file = last_flag ''--config-file'' [] args, do_json = last_flag ''--config-json'' [] args\<rparr>"

definition is_ascii_alnum :: "char \<Rightarrow> bool" where
  "is_ascii_alnum c \<longleftrightarrow> is_letter c \<or> is_digit c"

fun dashes_for :: "bool \<Rightarrow> string \<Rightarrow> string" where   \<comment> \<open>\<open>re.sub(r"[^a-zA-Z0-9]+", "-", s)\<close>\<close>
  "dashes_for in_run [] = []"
| "dashes_for in_run (c # cs) =
     (if is_ascii_alnum c then c # dashes_for False cs
      else if in_run then dashes_for True cs else CHR ''-'' # dashes_for True cs)"

definition safe_epic :: "string \<Rightarrow> string" where
  "safe_epic epic = (let s = strip_chars ''-'' (dashes_for False epic) in if s = [] then ''epic'' else s)"

definition doc_stamp :: "world \<Rightarrow> string" where   \<comment> \<open>\<open>%Y%m%d-%H%M%S\<close>\<close>
  "doc_stamp w =
     (let secs = w_clock w div 1000; (y, m, d) = civil_date (secs div 86400); t = secs mod 86400
      in show_int y @ pad2 m @ pad2 d @ ''-'' @ pad2 (t div 3600) @ pad2 (t div 60 mod 60) @ pad2 (t mod 60))"

definition doc_path :: "world \<Rightarrow> string \<Rightarrow> pyval dict \<Rightarrow> ppath" where
  "doc_path w folder config =
     path_join (path_of folder) (path_of (''orchestration-''
       @ safe_epic (py_str (or_else (get_val ''epic'' config) (VStr ''epic''))) @ ''-'' @ doc_stamp w @ ''.md''))"

definition doc_fields :: "pyval dict \<Rightarrow> policy_snapshot \<Rightarrow> string \<Rightarrow> pyval dict" where
  "doc_fields config snapshot now =
     [(''epic'', get_or (VStr []) ''epic'' config), (''epicName'', get_or (VStr []) ''epicName'' config),
      (''storyRange'', get_or (VList []) ''storyRange'' config), (''status'', get_or (VStr ''READY'') ''status'' config),
      (''currentStory'', get_val ''currentStory'' config), (''currentStep'', get_val ''currentStep'' config),
      (''stepsCompleted'', get_or (VList []) ''stepsCompleted'' config), (''lastUpdated'', VStr now),
      (''createdAt'', VStr now), (''aiCommand'', get_or (VStr []) ''aiCommand'' config),
      (''agentsFile'', get_or (VStr []) ''agentsFile'' config),
      (''complexityFile'', get_or (VStr []) ''complexityFile'' config), (''policyVersion'', sp_version snapshot),
      (''policySnapshotFile'', VStr (sp_file snapshot)), (''policySnapshotHash'', VStr (sp_hash snapshot)),
      (''legacyPolicy'', VBool False)]"

definition put_field :: "string \<times> string \<Rightarrow> string \<Rightarrow> string" where
  "put_field kv content = fst (set_field (fst kv) (snd kv) content)"

definition put_fields :: "(string \<times> string) list \<Rightarrow> string \<Rightarrow> string" where
  "put_fields kvs content = fold put_field kvs content"

definition skip_automate :: "pyval dict \<Rightarrow> string" where
  "skip_automate overrides = (if truth (get_or (VBool False) ''skipAutomate'' overrides) then ''true'' else ''false'')"

definition max_parallel :: "pyval dict \<Rightarrow> string res" where
  "max_parallel overrides =
     ebind (py_int (or_else (get_or (VInt 1) ''maxParallel'' overrides) (VInt 1))) (\<lambda>n. Inr (show_int n))"

definition put_agent_block :: "pyval dict \<Rightarrow> string \<Rightarrow> string res" where
  "put_agent_block config content =
     (case get_val ''agentConfig'' config of
        VDict agent_config \<Rightarrow> re_sub_template (rx_block ''agentConfig'') (agent_block_text agent_config) content
      | _ \<Rightarrow> Inr content)"

definition hourglass :: string where
  "hourglass = utf8_of 0x23F3"

definition progress_row :: "string \<Rightarrow> string" where
  "progress_row story_id =
     ''| '' @ story_id @ '' | '' @ hourglass @ '' | '' @ hourglass @ '' | '' @ hourglass @ '' | '' @ hourglass
       @ '' | '' @ hourglass @ '' | pending |''"

definition doc_body :: "pyval dict \<Rightarrow> string list \<Rightarrow> string \<Rightarrow> string \<Rightarrow> string \<Rightarrow> (string \<times> string) list" where
  "doc_body config story_range now skip par =
     [(''{{epicName}}'', py_str (get_or (VStr []) ''epicName'' config)),
      (''{{epic}}'', py_str (get_or (VStr []) ''epic'' config)), (''{{storyRange}}'', join '', '' story_range),
      (''{{createdAt}}'', now), (''{{overrides.skipAutomate}}'', skip), (''{{overrides.maxParallel}}'', par),
      (''{{customInstructions}}'', py_str (get_or (VStr []) ''customInstructions'' config)),
      (''<!-- Progress rows will be appended here -->'', join [nl] (List.map progress_row story_range))]"

definition fill :: "(string \<times> string) list \<Rightarrow> string \<Rightarrow> string" where
  "fill kvs content = fold (\<lambda>(k, v). replace_all k v) kvs content"

definition doc_text :: "pyval dict \<Rightarrow> policy_snapshot \<Rightarrow> string \<Rightarrow> string \<Rightarrow> string res" where
  "doc_text config snapshot now template =
     (let overrides = dict_or_empty (get_or (VDict []) ''overrides'' config) in
      ebind (max_parallel overrides) (\<lambda>par.
      ebind (re_sub_template (rx_block ''overrides'')
               (''overrides:'' @ [nl] @ ''  skipAutomate: '' @ skip_automate overrides @ [nl]
                  @ ''  maxParallel: '' @ par @ [nl]) template) (\<lambda>t1.
      (let t2 = put_field (''customInstructions'', json_default (get_or (VStr []) ''customInstructions'' config)) t1 in
       ebind (put_agent_block config t2) (\<lambda>t3.
       (let t4 = put_fields (List.map (\<lambda>(k, v). (k, json_default v)) (doc_fields config snapshot now)) t3 in
        ebind (iter_val (get_or (VList []) ''storyRange'' config)) (\<lambda>range_items.
        Inr (fill (doc_body config (List.map py_str (List.filter is_str range_items)) now
               (skip_automate overrides) par) t4))))))))"

definition read_config :: "doc_options \<Rightarrow> world \<Rightarrow> string res" where
  "read_config opts w =
     (if do_file opts \<noteq> [] \<and> is_file w (path_of (do_file opts)) then read_file w (path_of (do_file opts))
      else Inr (do_json opts))"

definition write_doc :: "doc_options \<Rightarrow> pyval dict \<Rightarrow> int act" where
  "write_doc opts config =
     bindA (reads (\<lambda>w. (now_utc_z w, doc_path w (do_folder opts) config))) (\<lambda>(now, output_path).
     bindA (reads (\<lambda>w. snapshot_effective_policy w (Some (get_project_root w)))) (\<lambda>snap.
     case snap of
       Inl e \<Rightarrow>
         if is_file_not_found e \<or> is_value_error e
         then answer 1 (failed ''policy_snapshot_failed'' @ [(''reason'', VStr (exn_text e))])
         else raiseA e
     | Inr (snapshot, w') \<Rightarrow>
         bindA (effect (\<lambda>_. w')) (\<lambda>_.
         bindA (readsE (\<lambda>w. ebind (read_file w (path_of (do_template opts))) (doc_text config snapshot now))) (\<lambda>content.
         bindA (effect (\<lambda>w. put_file w output_path content)) (\<lambda>_.
         answer 0 [(''ok'', VBool True), (''path'', VStr (path_str output_path)), (''createdAt'', VStr now)])))))"

definition cmd_build_state_doc :: "string list \<Rightarrow> int act" where
  "cmd_build_state_doc args =
     (let opts = doc_options_of args in
      bindA (reads (\<lambda>w. do_template opts \<noteq> [] \<and> is_file w (path_of (do_template opts)) \<and> do_folder opts \<noteq> [])) (\<lambda>given.
      if \<not> given then answer 1 (failed ''missing_template_or_output'')
      else
        bindA (readsE (read_config opts)) (\<lambda>config_json.
        if strip config_json = [] then answer 1 (failed ''missing_config'')
        else
          (case json_loads config_json of
             Inl _ \<Rightarrow> answer 1 (failed ''missing_config'')
           | Inr v \<Rightarrow>
               bindA (effect (\<lambda>w. make_dir w (path_of (do_folder opts)))) (\<lambda>_.
               bindA (readsE (\<lambda>w. as_dict v)) (write_doc opts))))))"

section \<open>Comparing with the sprint status\<close>

definition before_current :: "pyval dict \<Rightarrow> string list" where   \<comment> \<open>the stories in front of the current one\<close>
  "before_current flds =
     (let story_range = (case get_val ''storyRange'' flds of VList xs \<Rightarrow> List.map py_str xs | _ \<Rightarrow> []) in
      case get_val ''currentStory'' flds of
        VStr s \<Rightarrow> takeWhile (\<lambda>x. x \<noteq> s) story_range
      | _ \<Rightarrow> story_range)"

definition done_in :: "string \<Rightarrow> string \<Rightarrow> bool" where
  "done_in sprint_text story_id =
     (case re_search (rx_status_line story_id) sprint_text of Some m \<Rightarrow> rm_grp m 1 = ''done'' | None \<Rightarrow> False)"

definition cmd_sprint_compare :: "string list \<Rightarrow> int act" where
  "cmd_sprint_compare args =
     (let state = last_flag ''--state'' [] args; sprint = last_flag ''--sprint'' [] args in
      bindA (reads (\<lambda>w. (state \<noteq> [] \<and> is_file w (path_of state), sprint \<noteq> [] \<and> is_file w (path_of sprint))))
        (\<lambda>(state_there, sprint_there).
      if \<not> state_there then answer 1 (failed ''state_not_found'')
      else if \<not> sprint_there then answer 1 (failed ''sprint_not_found'')
      else
        bindA (readsE (\<lambda>w. read_file w (path_of state))) (\<lambda>state_text.
        bindA (readsE (\<lambda>w. read_file w (path_of sprint))) (\<lambda>sprint_text.
        (let before = before_current (parse_simple_frontmatter state_text) in
         answer 0 [(''ok'', VBool True),
                   (''incomplete'', vstrs (List.filter (\<lambda>s. \<not> done_in sprint_text s) before)),
                   (''checked'', vstrs before)])))))"

section \<open>Metrics\<close>

definition rx_rule :: rx where   \<comment> \<open>\<open>^\|[- ]*\|\<close>\<close>
  "rx_rule = rseq [RBol False, rlit ''|'', rstar (roneof ''- ''), rlit ''|'']"

definition row_done :: "string list \<Rightarrow> bool" where
  "row_done cells =
     (let status = lower (cells ! 7) in
      contains status ''done'' \<or> contains status ''complete'' \<or> contains status ''completed'')"

fun count_rows :: "bool \<Rightarrow> string list \<Rightarrow> nat \<times> nat \<Rightarrow> nat \<times> nat" where
  "count_rows in_table [] counts = counts"
| "count_rows in_table (line # rest) (all_rows, completed) =
     (if startswith line ''| Story '' then count_rows True rest (all_rows, completed)
      else if in_table \<and> re_match rx_rule line \<noteq> None then count_rows in_table rest (all_rows, completed)
      else if in_table \<and> startswith line ''|'' then
        (let cells = List.map strip (split_all ''|'' line) in
         if 8 \<le> length cells \<and> cells ! 1 \<noteq> []
         then count_rows in_table rest (all_rows + 1, if row_done cells then completed + 1 else completed)
         else count_rows in_table rest (all_rows, completed))
      else count_rows False rest (all_rows, completed))"

definition cmd_state_metrics :: "string list \<Rightarrow> int act" where
  "cmd_state_metrics args =
     (let state = last_flag ''--state'' [] args in
      bindA (reads (\<lambda>w. state \<noteq> [] \<and> is_file w (path_of state))) (\<lambda>there.
      if \<not> there then answer 1 (failed ''state_not_found'')
      else
        bindA (readsE (\<lambda>w. read_file w (path_of state))) (\<lambda>content.
        case count_rows False (splitlines content) (0, 0) of
          (all_rows, completed) \<Rightarrow>
            answer 0 [(''ok'', VBool True), (''storiesCompleted'', VInt (int completed)), (''total'', VInt (int all_rows)),
              (''reviewCycles'', VInt (int (count_matches content (ralt [rilit ''review cycle'', rilit ''code review cycle''])))),
              (''escalations'', VInt (int (count_matches content (ralt [rilit ''escalation'', rilit ''escalated'']))))])))"

section \<open>Validation\<close>

fun is_blank_value :: "pyval \<Rightarrow> bool" where   \<comment> \<open>\<open>v in ("", [], None)\<close>\<close>
  "is_blank_value VNone = True"
| "is_blank_value (VStr s) = (s = [])"
| "is_blank_value (VList xs) = (xs = [])"
| "is_blank_value _ = False"

definition allowed_status :: "string list" where
  "allowed_status =
     [''INITIALIZING'', ''READY'', ''IN_PROGRESS'', ''PAUSED'', ''EXECUTION_COMPLETE'', ''COMPLETE'', ''ABORTED'']"

definition rx_timestamp :: rx where   \<comment> \<open>\<open>\d{4}-\d{2}-\d{2}T\<close>\<close>
  "rx_timestamp = rseq [rtimes 4 rdigit, rlit ''-'', rtimes 2 rdigit, rlit ''-'', rtimes 2 rdigit, rlit ''T'']"

definition required :: "pyval dict \<Rightarrow> string \<Rightarrow> (string \<Rightarrow> bool) option \<Rightarrow> string list" where
  "required flds key validator =
     (let v = get_val key flds in
      if is_blank_value v then [''Missing or empty '' @ key]
      else (case validator of
              Some valid \<Rightarrow> if is_str v \<and> valid (py_str v) then [] else [''Invalid '' @ key]
            | None \<Rightarrow> []))"

definition rx_agent_header :: rx where   \<comment> \<open>\<open>^agentConfig:\s*(?:#.*)?$\<close>\<close>
  "rx_agent_header =
     rseq [RBol False, rlit ''agentConfig:'', rstar rspace, ropt (rseq [rlit ''#'', rstar rdot]), REol False]"

definition is_agent_key_line :: "string \<Rightarrow> bool" where
  "is_agent_key_line line =
     (let stripped = strip line in
      if stripped = [] \<or> startswith stripped ''#'' \<or> CHR '':'' \<notin> set stripped then False
      else
        (let (k, r) = split_colon stripped in
         strip k \<in> {''perTask'', ''complexityOverrides'', ''retro''} \<or>
         (strip k \<in> {''defaultPrimary'', ''defaultFallback''} \<and> strip r \<noteq> [])))"

definition has_agent_config_block :: "string \<Rightarrow> bool" where
  "has_agent_config_block front =
     list_ex is_agent_key_line
       (takeWhile (\<lambda>line. line = [] \<or> startswith line '' '')
          (tl (dropWhile (\<lambda>line. re_match rx_agent_header (strip line) = None) (splitlines front))))"

definition has_runtime_command_config :: "pyval dict \<Rightarrow> string \<Rightarrow> bool" where
  "has_runtime_command_config flds front \<longleftrightarrow>
     \<not> is_blank_value (get_val ''aiCommand'' flds) \<or> has_agent_config_block front"

definition state_issues :: "string \<Rightarrow> string list" where
  "state_issues content =
     (let flds = parse_simple_frontmatter content in
      required flds ''epic'' None @ required flds ''epicName'' None @ required flds ''storyRange'' None @
      required flds ''status'' (Some (\<lambda>s. s \<in> set allowed_status)) @
      required flds ''lastUpdated'' (Some (re_test rx_timestamp)) @
      (if has_runtime_command_config flds (extract_frontmatter content) then [] else [''Missing or empty aiCommand'']))"

definition policy_issue :: "world \<Rightarrow> string \<Rightarrow> string list res" where
  "policy_issue w state =
     (case load_policy_for_state w state None True of
        Inr _ \<Rightarrow> Inr []
      | Inl (PolicyError m) \<Rightarrow> Inr [m]
      | Inl e \<Rightarrow> Inl e)"

definition cmd_validate_state :: "string list \<Rightarrow> int act" where
  "cmd_validate_state args =
     (if args \<noteq> [] \<and> hd args \<in> {''--help'', ''-h''} then exit_with 0 ''Usage: validate-state --state PATH''
      else
        (let state = last_flag ''--state'' [] args in
         bindA (reads (\<lambda>w. state \<noteq> [] \<and> is_file w (path_of state))) (\<lambda>there.
         if \<not> there then answer 1 (failed ''state_not_found'')
         else
           bindA (readsE (\<lambda>w. read_file w (path_of state))) (\<lambda>content.
           bindA (readsE (\<lambda>w. policy_issue w state)) (\<lambda>policy_issues.
           (let issues = state_issues content @ policy_issues in
            answer 0 [(''ok'', VBool True), (''structure'', VStr (if issues = [] then ''ok'' else ''issues'')),
                      (''issues'', vstrs issues)]))))))"

end
