(* ===== verification/State_Facts.thy ===== *)
theory State_Facts
  imports State_Doc Presets
begin

text \<open>
  State documents: the order in which the newest one is chosen, what \<open>state-update\<close> leaves alone,
  and the agent block that is no template.
\<close>

section \<open>The order of state documents\<close>

lemma string_le_refl [simp]: "string_le s s"
  by (induction s) simp_all

lemma string_le_antisym: "string_le s t \<Longrightarrow> string_le t s \<Longrightarrow> s = t"
proof (induction s t rule: string_le.induct)
  case (1 t)
  then show ?case by (cases t) simp_all
next
  case (3 c cs d ds)
  then have "\<not> (of_char c :: nat) < of_char d" "\<not> (of_char d :: nat) < of_char c" "string_le cs ds" "string_le ds cs"
    by (auto split: if_splits)
  with 3 show ?case by (metis linorder_neqE_nat of_char_eq_iff)
qed simp

lemma string_le_total: "string_le s t \<or> string_le t s"
  by (induction s t rule: string_le.induct) auto

lemma string_le_trans: "string_le s t \<Longrightarrow> string_le t u \<Longrightarrow> string_le s u"
proof (induction s t arbitrary: u rule: string_le.induct)
  case (3 c cs d ds)
  then show ?case by (cases u) (auto split: if_splits)
qed auto

lemma path_le_refl [simp]: "path_le p p"
  by (induction p) simp_all

lemma path_le_total: "path_le p q \<or> path_le q p"
  by (induction p q rule: path_le.induct) (auto simp: string_le_total)

lemma path_le_trans: "path_le p q \<Longrightarrow> path_le q r \<Longrightarrow> path_le p r"
proof (induction p q arbitrary: r rule: path_le.induct)
  case (3 c cs d ds)
  then show ?case
    by (cases r) (auto split: if_splits dest: string_le_trans string_le_antisym)
qed auto

lemma latest_None [simp]: "latest key xs = None \<longleftrightarrow> xs = []"
  by (cases xs) (auto split: option.splits)

lemma latest_maximum:
  "latest key xs = Some y \<Longrightarrow> y \<in> set xs \<and> (\<forall>x \<in> set xs. path_le (key x) (key y))"
proof (induction xs arbitrary: y)
  case (Cons x xs)
  show ?case
  proof (cases "latest key xs")
    case None
    then show ?thesis using Cons.prems by simp
  next
    case (Some z)
    then have z: "z \<in> set xs" "\<forall>x \<in> set xs. path_le (key x) (key z)" using Cons.IH by auto
    show ?thesis
    proof (cases "path_le (key z) (key x)")
      case True
      then have "y = x" using Cons.prems Some by simp
      moreover have "path_le (key u) (key x)" if "u \<in> set xs" for u
        using z(2) that True path_le_trans by blast
      ultimately show ?thesis by simp
    next
      case False
      then have "y = z" using Cons.prems Some by simp
      then show ?thesis using False z path_le_total [of "key z" "key x"] by auto
    qed
  qed
qed simp
lemma latest_incomplete_choice:
  assumes "latest_incomplete w folder = Inr (Some (updated, status, path))"
  shows "status \<noteq> ''COMPLETE''"
    and "\<exists>doc \<in> set (state_docs w folder). dated_state w doc = Inr (updated, status, path)"
    and "\<And>doc u s p. doc \<in> set (state_docs w folder) \<Longrightarrow> dated_state w doc = Inr (u, s, p) \<Longrightarrow> s \<noteq> ''COMPLETE'' \<Longrightarrow>
      path_le [u, s, p] [updated, status, path]"
proof -
  obtain states where st: "list_all2 (\<lambda>d x. dated_state w d = Inr x) (state_docs w folder) states"
    and l: "latest (\<lambda>(updated, status, path). [updated, status, path])
      (List.filter (\<lambda>(updated, status, path). status \<noteq> ''COMPLETE'') states) = Some (updated, status, path)"
    using assms by (auto simp: latest_incomplete_def ebind_eq_Inr map_res_Inr)
  note m = latest_maximum [OF l]
  from m show "status \<noteq> ''COMPLETE''" by simp
  from m have "(updated, status, path) \<in> set states" by simp
  then show "\<exists>doc \<in> set (state_docs w folder). dated_state w doc = Inr (updated, status, path)"
    using st by (auto simp: in_set_conv_nth list_all2_conv_all_nth) (metis nth_mem)
  fix doc u s p
  assume d: "doc \<in> set (state_docs w folder)" "dated_state w doc = Inr (u, s, p)" "s \<noteq> ''COMPLETE''"
  then have "(u, s, p) \<in> set states" using st by (auto simp: in_set_conv_nth list_all2_conv_all_nth)
  with d(3) m show "path_le [u, s, p] [updated, status, path]" by fastforce
qed

section \<open>Setting fields\<close>

definition set_args :: "(string \<times> string) list \<Rightarrow> string list" where
  "set_args kvs = concat (List.map (\<lambda>(k, v). [''--set'', k @ ''='' @ v]) kvs)"

definition settable :: "string \<Rightarrow> bool" where
  "settable key \<longleftrightarrow> nl \<notin> set key \<and> CHR ''='' \<notin> set key"

definition set_lines :: "(string \<times> string) list \<Rightarrow> string \<Rightarrow> string" where
  "set_lines kvs content = fold (\<lambda>(k, v). written_lines k (k @ '': '' @ v)) kvs content"

lemma no_field_lines: "field_lines key content = [] \<Longrightarrow> written_lines key new_line content = content"
proof -
  assume "field_lines key content = []"
  then have "\<forall>l \<in> set (split_all [nl] content). written_line key new_line l = l"
    by (auto simp: field_lines_def written_line_def filter_empty_conv)
  then have "List.map (written_line key new_line) (split_all [nl] content) = split_all [nl] content" by (simp add: map_idI)
  then show ?thesis by (simp add: written_lines_def join_split_same)
qed

lemma split_once_eq: "CHR ''='' \<notin> set k \<Longrightarrow> split_once ''='' (k @ ''='' @ v) = Some (k, v)"
  by (induction k) (auto simp: split_once_char)

lemma update_fields_set:
  "\<forall>(k, v) \<in> set kvs. settable k \<Longrightarrow>
     \<exists>updated'. update_fields (set_args kvs) (content, updated) = Inr (set_lines kvs content, updated') \<and>
       set updated' \<subseteq> set updated \<union> fst ` set kvs"
proof (induction kvs arbitrary: content updated)
  case Nil
  show ?case by (simp add: set_args_def set_lines_def)
next
  case (Cons kv kvs)
  obtain k v where kv: "kv = (k, v)" by (cases kv)
  with Cons.prems have k: "nl \<notin> set k" "CHR ''='' \<notin> set k" by (simp_all add: settable_def)
  let ?c = "written_lines k (k @ '': '' @ v) content"
  let ?u = "if field_lines k content = [] then updated else updated @ [k]"
  have "update_fields (set_args (kv # kvs)) (content, updated) = update_fields (set_args kvs) (?c, ?u)"
    using split_once_eq [OF k(2), of v] no_field_lines [of k content]
    by (auto simp: kv set_args_def set_field_def set_field_lines [OF k(1)])
  moreover obtain u' where "update_fields (set_args kvs) (?c, ?u) = Inr (set_lines kvs ?c, u')" "set u' \<subseteq> set ?u \<union> fst ` set kvs"
    using Cons.IH [of ?c ?u] Cons.prems by auto
  moreover have "set_lines (kv # kvs) content = set_lines kvs ?c" by (simp add: set_lines_def kv)
  ultimately show ?case using kv by (auto split: if_splits)
qed

lemma state_updated:
  assumes "state_update_action (file # set_args kvs) w = Inr (0, w')" "\<forall>(k, v) \<in> set kvs. settable k"
  shows "\<exists>content. file_text w (path_of file) = Some content \<and>
    file_text w' q = (if same_file w (path_of file) q then Some (set_lines kvs content) else file_text w q)"
proof -
  let ?p = "path_of file"
  obtain content where c: "read_file w ?p = Inr content"
    using assms(1) by (auto simp: state_update_action_def bindA_Inr act_Inr ebind_eq_Inr answer_Inr split: if_splits)
  obtain u where u: "update_fields (set_args kvs) (content, []) = Inr (set_lines kvs content, u)"
    using update_fields_set [OF assms(2), of content "[]"] by blast
  obtain out where "w' = print_line out (put_file w ?p (set_lines kvs content))"
    using assms(1) c u by (auto simp: state_update_action_def bindA_Inr act_Inr ebind_def answer_Inr split: if_splits)
  moreover have "file_text w ?p = Some content"
    using c by (simp add: read_file_def file_text_def split: option.splits if_splits)
  moreover have "file_text (print_line out v) q = file_text v q" for v by (simp add: file_text_def)
  moreover have "file_text (put_file w ?p t) q = (if same_file w ?p q then Some t else file_text w q)" for t by (rule fs.load_store)
  ultimately show ?thesis by simp
qed

section \<open>The agent block\<close>

lemma expand_fuel_plain: "backslash \<notin> set t \<Longrightarrow> length t < n \<Longrightarrow> expand_fuel n m t = Some t"
proof (induction t arbitrary: n)
  case Nil
  then show ?case by (cases n) simp_all
next
  case (Cons c t)
  then show ?case by (cases n) auto
qed

lemma expand_plain: "backslash \<notin> set t \<Longrightarrow> expand t m = Some t"
  unfolding expand_def by (rule expand_fuel_plain) simp_all

definition bad_escape :: "char \<Rightarrow> bool" where
  "bad_escape c \<longleftrightarrow> is_letter c \<and> c \<noteq> CHR ''g'' \<and> map_of escape_letters c = None"

lemma escape_bad: "bad_escape c \<Longrightarrow> escape m (c # b) = None"
proof -
  assume c: "bad_escape c"
  then have "c \<noteq> CHR ''0''" "\<not> is_digit c" "c \<noteq> CHR ''g''"
    by (auto simp: bad_escape_def is_letter_def is_upper_def is_lower_def is_digit_def)
  then show ?thesis using c by (simp add: escape_def bad_escape_def)
qed

lemma expand_fuel_bad:
  "backslash \<notin> set a \<Longrightarrow> bad_escape c \<Longrightarrow> expand_fuel n m (a @ backslash # c # b) = None"
proof (induction a arbitrary: n)
  case Nil
  then show ?case by (cases n) (simp_all add: escape_bad)
next
  case (Cons x a)
  then show ?case by (cases n) auto
qed

lemma expand_bad: "backslash \<notin> set a \<Longrightarrow> bad_escape c \<Longrightarrow> expand (a @ backslash # c # b) m = None"
  unfolding expand_def by (rule expand_fuel_bad)

lemma agent_block_put:
  assumes "get_val ''agentConfig'' config = VDict ac"
  shows "backslash \<notin> set (agent_block_text ac) \<Longrightarrow>
      put_agent_block config content = Inr (re_sub (rx_block ''agentConfig'') (\<lambda>m. agent_block_text ac) content)"
    and "agent_block_text ac = a @ backslash # c # b \<Longrightarrow> backslash \<notin> set a \<Longrightarrow> bad_escape c \<Longrightarrow>
      put_agent_block config content = Inl ReError"
  using assms by (simp_all add: put_agent_block_def re_sub_template_def expand_plain expand_bad)

end
