(* ===== verification/Validate_Story.thy ===== *)
theory Validate_Story
  imports Success_Verifiers Tmux_Commands Agent_Config
begin

text \<open>
  \<open>commands/validate_story_creation.py\<close>: how many story files there are, and whether a session
  created exactly the expected ones. The mode bits of a file, which only \<open>list\<close> prints, are a
  parameter; its order is the sorted one.
\<close>

section \<open>Counting\<close>

definition id_prefix :: "string \<Rightarrow> string" where   \<comment> \<open>\<open>story_prefix\<close>\<close>
  "id_prefix story_id = replace_all ''.'' ''-'' story_id"

definition story_files :: "world \<Rightarrow> string \<Rightarrow> ppath \<Rightarrow> ppath list" where
  "story_files w story_id folder = glob_sorted w folder (id_prefix story_id @ ''-*.md'')"

fun last_folder :: "ppath \<Rightarrow> string list \<Rightarrow> ppath" where
  "last_folder p (a # b # rest) = last_folder (if a = ''--artifacts-dir'' then path_of b else p) (b # rest)"
| "last_folder p _ = p"

definition count_action :: "string list \<Rightarrow> int act" where
  "count_action args =
     (case args of
        [] \<Rightarrow> ret 1
      | story_id # tail \<Rightarrow>
          bindA (reads (\<lambda>w. length (story_files w story_id (last_folder (artifacts_dir (get_project_root w)) tail)))) (\<lambda>n.
          exit_with 0 (show_int (int n))))"

section \<open>The answer of a check\<close>

definition count_reason :: "int \<Rightarrow> int \<Rightarrow> string" where
  "count_reason created expected =
     (if created = expected then
        (if expected = 1 then ''Exactly 1 story file created as expected''
         else ''Exactly '' @ show_int expected @ '' story files created as expected'')
      else if created = 0 then ''No story file created - session may have failed''
      else if created < 0 then ''Story files decreased ('' @ show_int created @ '') - unexpected deletion''
      else if expected < created
      then ''RUNAWAY CREATION: '' @ show_int created @ '' files created instead of '' @ show_int expected
      else ''Unexpected story artifact count: '' @ show_int created @ '' files instead of '' @ show_int expected)"

record check_outcome =
  co_valid :: bool
  co_created :: int
  co_expected :: int
  co_reason :: string

text \<open>The counts of the payload, or the difference of the two counts when both are given.\<close>

definition check_outcome_of :: "pyval dict option \<Rightarrow> (int \<times> int) option \<Rightarrow> check_outcome res" where
  "check_outcome_of payload counts =
     ebind (case payload of None \<Rightarrow> Inr 1 | Some p \<Rightarrow> py_int (get_or (VInt 1) ''expectedMatches'' p)) (\<lambda>expected.
     ebind (case payload of None \<Rightarrow> Inr 0 | Some p \<Rightarrow> py_int (get_or (VInt 0) ''actualMatches'' p)) (\<lambda>actual.
     Inr (case counts of
            None \<Rightarrow>
              \<lparr>co_valid = (case payload of None \<Rightarrow> False | Some p \<Rightarrow> truth (get_val ''verified'' p)),
               co_created = actual, co_expected = expected, co_reason = count_reason actual expected\<rparr>
          | Some (before, after) \<Rightarrow>
              \<lparr>co_valid = (after - before = expected), co_created = after - before, co_expected = expected,
               co_reason = count_reason (after - before) expected\<rparr>)))"

definition check_response :: "string \<Rightarrow> pyval dict option \<Rightarrow> (int \<times> int) option \<Rightarrow> check_outcome \<Rightarrow> pyval dict" where
  "check_response story_id payload counts co =
     (let fld = (\<lambda>k dflt. case payload of None \<Rightarrow> dflt | Some p \<Rightarrow> get_or dflt k p) in
      [(''valid'', VBool (co_valid co)), (''verified'', VBool (co_valid co)), (''created_count'', VInt (co_created co)),
       (''expected'', VInt (co_expected co)), (''prefix'', VStr (id_prefix story_id)),
       (''action'', VStr (if co_valid co then ''proceed'' else ''escalate'')), (''reason'', VStr (co_reason co)),
       (''source'', fld ''source'' (VStr [])), (''pattern'', fld ''pattern'' (VStr [])), (''matches'', fld ''matches'' (VList []))]
      @ (case counts of None \<Rightarrow> [] | Some (before, after) \<Rightarrow> [(''before'', VInt before), (''after'', VInt after)])
      @ (if truth (fld ''story'' VNone) then [(''story'', fld ''story'' VNone)] else []))"

definition check_failed :: "string \<Rightarrow> string \<Rightarrow> (int \<times> int) option \<Rightarrow> int act" where   \<comment> \<open>\<open>print_check_error\<close>\<close>
  "check_failed story_id reason counts =
     bindA (readsE (\<lambda>w. check_outcome_of None counts)) (\<lambda>co.
     answer 1 (check_response story_id None counts (co\<lparr>co_valid := False, co_reason := reason\<rparr>)))"

section \<open>The arguments of a check\<close>

record check_options =
  ck_before :: "string option"
  ck_after :: "string option"
  ck_folder :: ppath
  ck_state :: string

definition both_ints :: "string option \<Rightarrow> string option \<Rightarrow> (int \<times> int) option" where   \<comment> \<open>\<open>parsed_delta_counts\<close>\<close>
  "both_ints before after =
     (case (before, after) of
        (Some b, Some a) \<Rightarrow> (case (py_int (VStr b), py_int (VStr a)) of (Inr m, Inr n) \<Rightarrow> Some (m, n) | _ \<Rightarrow> None)
      | _ \<Rightarrow> None)"

text \<open>An unusable argument stops with a reason and the counts as far as they are known.\<close>

fun check_args :: "check_options \<Rightarrow> string list \<Rightarrow> string \<times> (int \<times> int) option + check_options" where
  "check_args ck [] = Inr ck"
| "check_args ck (a # rest) =
     (let counts = both_ints (ck_before ck) (ck_after ck) in
      if a \<in> {''--before'', ''--after'', ''--artifacts-dir'', ''--state-file''} then
        (case rest of
           [] \<Rightarrow> Inl (a @ '' requires a value'', counts)
         | v # rest' \<Rightarrow>
             check_args
               (if a = ''--before'' then ck\<lparr>ck_before := Some v\<rparr>
                else if a = ''--after'' then ck\<lparr>ck_after := Some v\<rparr>
                else if a = ''--artifacts-dir'' then ck\<lparr>ck_folder := path_of v\<rparr>
                else ck\<lparr>ck_state := v\<rparr>) rest')
      else Inl (''unsupported check argument: '' @ a, counts))"

definition create_check_payload :: "world \<Rightarrow> string \<Rightarrow> string \<Rightarrow> pyval dict res" where
  "create_check_payload w story_id state_file =
     ebind (resolve_success_contract w (get_project_root w) ''create'' (optional state_file)) (\<lambda>contract.
     create_story_artifact w (get_project_root w) story_id contract)"

definition check_counts :: "check_options \<Rightarrow> string + (int \<times> int) option" where
  "check_counts ck =
     (if (ck_before ck = None) \<noteq> (ck_after ck = None) then Inl ''both --before and --after are required together''
      else if ck_before ck = None then Inr None
      else (case both_ints (ck_before ck) (ck_after ck) of
              None \<Rightarrow> Inl ''before/after must be integers''
            | Some mn \<Rightarrow> Inr (Some mn)))"

definition checked_response :: "world \<Rightarrow> string \<Rightarrow> string \<Rightarrow> (int \<times> int) option \<Rightarrow> pyval dict res" where
  "checked_response w story_id state_file counts =
     ebind (create_check_payload w story_id state_file) (\<lambda>payload.
     ebind (check_outcome_of (Some payload) counts) (\<lambda>co.
     Inr (check_response story_id (Some payload) counts co)))"

definition folder_refused :: string where
  "folder_refused = ''validate-story-creation check no longer supports --artifacts-dir overrides; use count/list for custom folders''"

definition run_check :: "string \<Rightarrow> check_options \<Rightarrow> ppath \<Rightarrow> int act" where
  "run_check story_id ck default_folder =
     (case check_counts ck of
        Inl reason \<Rightarrow> check_failed story_id reason None
      | Inr counts \<Rightarrow>
          if ck_folder ck \<noteq> default_folder then check_failed story_id folder_refused counts
          else
            bindA (reads (\<lambda>w. checked_response w story_id (ck_state ck) counts)) (\<lambda>r.
            case r of
              Inr response \<Rightarrow> answer 0 response
            | Inl e \<Rightarrow>
                if is_file_not_found e \<or> is_value_error e then check_failed story_id (exn_text e) counts
                else raiseA e))"

definition check_action :: "string list \<Rightarrow> int act" where
  "check_action args =
     (case args of
        [] \<Rightarrow> check_failed [] ''story_id required'' None
      | story_id # tail \<Rightarrow>
          bindA (reads (\<lambda>w. artifacts_dir (get_project_root w))) (\<lambda>default_folder.
          case check_args \<lparr>ck_before = None, ck_after = None, ck_folder = default_folder, ck_state = []\<rparr> tail of
            Inl (reason, counts) \<Rightarrow> check_failed story_id reason counts
          | Inr ck \<Rightarrow> run_check story_id ck default_folder))"

section \<open>Listing, and the dispatch\<close>

definition listed_file :: "(world \<Rightarrow> ppath \<Rightarrow> int) \<Rightarrow> world \<Rightarrow> ppath \<Rightarrow> string" where
  "listed_file st_mode w p =
     ''-rw-r--r-- 1 '' @ show_int (st_mode w p) @ '' ''
       @ show_int (case file_text w p of Some t \<Rightarrow> int (length t) | None \<Rightarrow> 0) @ '' '' @ path_str p"

definition list_action :: "(world \<Rightarrow> ppath \<Rightarrow> int) \<Rightarrow> string list \<Rightarrow> int act" where
  "list_action st_mode args =
     (case args of
        [] \<Rightarrow> ret 1
      | story_id # tail \<Rightarrow>
          bindA (print_out (''Story files matching '' @ id_prefix story_id @ ''-*.md:'')) (\<lambda>_.
          bindA (reads (\<lambda>w. List.map (listed_file st_mode w) (story_files w story_id (artifacts_dir (get_project_root w)))))
            (\<lambda>rows.
          bindA (forA (if rows = [] then [''  (none found)''] else rows) print_out) (\<lambda>_. ret 0))))"

definition cmd_validate_story_creation :: "(world \<Rightarrow> ppath \<Rightarrow> int) \<Rightarrow> string list \<Rightarrow> int act" where
  "cmd_validate_story_creation st_mode args =
     (case args of
        [] \<Rightarrow> ret 1
      | action # rest \<Rightarrow>
          if action = ''count'' then count_action rest
          else if action = ''check'' then check_action rest
          else if action = ''list'' then list_action st_mode rest
          else if action = ''prefix'' then (case rest of [] \<Rightarrow> ret 1 | s # _ \<Rightarrow> exit_with 0 (id_prefix s))
          else if action = [] then ret 1
          else
            (case rest of
               [] \<Rightarrow> check_failed action ''both --before and --after are required together'' None
             | [b] \<Rightarrow> check_action [action, ''--before'', b]
             | b # a # rest' \<Rightarrow> check_action ([action, ''--before'', b, ''--after'', a] @ rest')))"

section \<open>Lemmas\<close>

text \<open>Proceeding means that the counts are equal.\<close>

lemma outcome_counts:
  assumes "check_outcome_of payload (Some (before, after)) = Inr co"
  shows "co_valid co \<longleftrightarrow> co_created co = co_expected co" and "co_created co = after - before"
  using assms by (auto simp: check_outcome_of_def ebind_def split: sum.splits)

lemma id_prefix_no_dot: "CHR ''.'' \<notin> set (id_prefix s)"
  by (auto simp: id_prefix_def replace_all_char split: if_splits)

text \<open>Without counts, the verifier's own are as coherent.\<close>

lemma outcome_of_artifact:
  assumes "create_story_artifact w pr story c = Inr payload" "check_outcome_of (Some payload) counts = Inr co"
  shows "co_valid co \<longleftrightarrow> co_created co = co_expected co"
proof (cases counts)
  case None
  from assms(1) show ?thesis
  proof (cases rule: create_story_artifact_inv)
    case unknown
    then show ?thesis using assms(2) None
      by (auto simp: check_outcome_of_def could_not_normalize_def ebind_def get_or_def get_val_def dict_get_Cons)
  next
    case (known norm expected pattern root safe)
    then show ?thesis using assms(2) None by (auto simp: check_outcome_of_def ebind_def get_or_def get_val_def)
  qed
next
  case (Some ba)
  then show ?thesis using outcome_counts(1) assms(2) by (cases ba) auto
qed

lemma checked_verdict:
  assumes "checked_response w story state_file counts = Inr response"
  shows "get_val ''action'' response = VStr ''proceed'' \<longleftrightarrow> get_val ''created_count'' response = get_val ''expected'' response"
    and "counts = Some (before, after) \<Longrightarrow> get_val ''created_count'' response = VInt (after - before)"
proof -
  obtain contract payload co where p: "create_story_artifact w (get_project_root w) story contract = Inr payload"
    and co: "check_outcome_of (Some payload) counts = Inr co" and r: "response = check_response story (Some payload) counts co"
    using assms by (auto simp: checked_response_def create_check_payload_def ebind_eq_Inr)
  have g: "get_val ''action'' response = VStr (if co_valid co then ''proceed'' else ''escalate'')"
    "get_val ''created_count'' response = VInt (co_created co)" "get_val ''expected'' response = VInt (co_expected co)"
    by (simp_all add: r check_response_def Let_def get_val_def get_or_def dict_get_Cons)
  show "get_val ''action'' response = VStr ''proceed'' \<longleftrightarrow> get_val ''created_count'' response = get_val ''expected'' response"
    using outcome_of_artifact [OF p co] by (simp add: g)
  show "get_val ''created_count'' response = VInt (after - before)" if "counts = Some (before, after)"
    using outcome_counts(2) co that by (simp add: g)
qed

end
