(* ===== verification/Sample_Commands.thy ===== *)
theory Sample_Commands
  imports Sample_World Hook_Facts Preset_Facts State_Facts Validate_Story
begin

text \<open>
  Projects with a settings file, presets, state documents and a created story, and what the
  commands read in them. The theorems about the commands are applied to them.
\<close>

text \<open>A run that can be evaluated, for its result \<open>x\<close> and the world after it.\<close>

lemma ran: "case r of Inr (x, w') \<Rightarrow> P x w' | Inl e \<Rightarrow> False \<Longrightarrow> (\<And>x w'. r = Inr (x, w') \<Longrightarrow> P x w' \<Longrightarrow> thesis) \<Longrightarrow> thesis"
  by (auto split: sum.splits)

definition hook_file :: ppath where
  "hook_file = PPath True [''proj'', ''settings.json'']"

definition hook_world :: world where
  "hook_world = bare_world\<lparr>w_files := [([''proj'', ''settings.json''], ''{}''),
     ([''proj'', ''p.json''], json_dumps style_indent2 (VDict [(''version'', VStr ''1.0.0''),
        (''presets'', VList [VDict [(''name'', VStr ''Fast''), (''createdAt'', VStr ''t''), (''config'', VInt 1)]])])),
     ([''proj'', ''s.md''], ''status: READY'' @ [nl] @ ''epic: 1'' @ [nl])]\<rparr>"

definition hook_sample :: hook_spec where
  "hook_sample = \<lparr>hs_command = ''story-automator stop-hook'', hs_timeout = 10, hs_status = None\<rparr>"

definition sample_marker :: ppath where
  "sample_marker = PPath True [''proj'', ''.claude'', ''.story-automator-active'']"

definition marker_args :: "string list" where
  "marker_args = [''--epic'', ''1'', ''--remaining'', ''3'']"

definition marker_world :: "pyval dict \<Rightarrow> world" where
  "marker_world payload =
     print_line (''Marker created: '' @ path_str sample_marker)
       (write_atomic (make_dir bare_world (path_parent sample_marker)) sample_marker (marker_text payload))"

lemma presets_read:
  "load_presets_file hook_world ''/proj/p.json'' = Inr [(''version'', VStr ''1.0.0''),
     (''presets'', VList [VDict [(''name'', VStr ''Fast''), (''createdAt'', VStr ''t''), (''config'', VInt 1)]])]"
  by code_simp

lemma presets_sample: "presets_plain hook_world ''/proj/p.json''"
  unfolding presets_plain_def presets_read
  by (simp add: get_val_def get_or_def dict_get_Cons preset_ok_def dict_ok_def ascii_def)

definition docs_world :: world where
  "docs_world = bare_world\<lparr>w_files :=
     [([''proj'', ''orchestration-a.md''], ''---'' @ [nl] @ ''status: PAUSED'' @ [nl] @ ''lastUpdated: 2'' @ [nl] @ ''---'' @ [nl]),
      ([''proj'', ''orchestration-b.md''], ''---'' @ [nl] @ ''status: COMPLETE'' @ [nl] @ ''lastUpdated: 3'' @ [nl] @ ''---'' @ [nl])]\<rparr>"

definition check_policy :: "pyval dict" where
  "check_policy = dict_set ''steps'' (VDict [(''create'', VDict
         [(''assets'', VDict [(''skillName'', VStr ''k'')]), (''prompt'', VDict [(''templateFile'', VStr ''t.md'')]),
          (''parse'', VDict [(''schemaFile'', VStr ''s.json'')]),
          (''success'', VDict [(''verifier'', VStr ''create_story_artifact'')])])]) sample_policy"

definition check_world :: world where
  "check_world = bare_world\<lparr>w_files :=
     [(parts sample_skill @ [''data'', ''orchestration-policy.json''], json_dumps style_compact (VDict check_policy)),
      ([''proj'', ''_bmad-output'', ''implementation-artifacts'', ''1-1-login.md''], ''Status: review'' @ [nl])]\<rparr>"

lemma check_bundle: "bundled_skill_root check_world (Some ''/proj'') = Inr sample_skill"
  by code_simp

lemma check_roots: "root_of check_world (Some ''/proj'') = sample_root"   "path_str sample_root = ''/proj''"
  by code_simp+

lemma check_bundled: "load_bundled_policy check_world (Some ''/proj'') False = Inr check_policy"
  by code_simp

lemma check_no_override: "is_file check_world (override_path sample_root) = False"
  by code_simp

lemma check_merged: "apply_legacy_env check_world (merge_policy check_policy []) = Inr check_policy"
  by code_simp

lemma check_cleared: "clear_resolved_fields check_policy = check_policy"
  by code_simp

lemma check_no_state: "resolve_policy_state_file check_world (Some ''/proj'') None = Inr ([], [])"
  by code_simp

lemma check_valid: "validate_policy_shape check_policy = Inr ()"
  by code_simp

lemma check_resolved: "resolve_success_paths check_world check_policy sample_root sample_skill = Inr check_policy"
  by code_simp

lemma check_effective: "load_effective_policy check_world (Some ''/proj'') False = Inr check_policy"
  by (simp add: load_effective_policy_def check_roots check_bundled check_no_override check_merged check_valid
      check_bundle check_cleared resolve_paths_def check_resolved Let_def)

lemma check_contract:
  "resolve_success_contract check_world ''/proj'' ''create'' None = Inr [(''verifier'', VStr ''create_story_artifact'')]"
proof -
  have policy: "load_runtime_policy check_world (Some ''/proj'') None False = Inr check_policy"
    by (simp add: load_runtime_policy_def check_roots check_no_state check_effective Let_def)
  have "case step_contract check_policy ''create'' of
      Inr c \<Rightarrow> get_val ''success'' c = VDict [(''verifier'', VStr ''create_story_artifact'')] | Inl _ \<Rightarrow> False"
    by code_simp
  then obtain c where "step_contract check_policy ''create'' = Inr c"
    "get_val ''success'' c = VDict [(''verifier'', VStr ''create_story_artifact'')]" by (auto split: sum.splits)
  then show ?thesis by (simp add: resolve_success_contract_def policy ebind_def or_else_def)
qed

lemma check_artifact:
  "create_story_artifact check_world ''/proj'' ''1.1'' [(''verifier'', VStr ''create_story_artifact'')] = Inr
     [(''verified'', VBool True), (''story'', VStr ''1-1-login''), (''source'', VStr ''artifact_glob''),
      (''pattern'', VStr ''_bmad-output/implementation-artifacts/1-1-*.md''), (''expectedMatches'', VInt 1),
      (''actualMatches'', VInt 1),
      (''matches'', VList [VStr ''/proj/_bmad-output/implementation-artifacts/1-1-login.md''])]"
  by code_simp

lemma check_root: "get_project_root check_world = ''/proj''"
  by code_simp

lemma check_response_returns: "\<exists>response. checked_response check_world ''1.1'' [] (Some (1, 2)) = Inr response"
  by (simp add: checked_response_def create_check_payload_def check_root check_contract check_artifact optional_def ebind_def
      check_outcome_of_def get_or_def dict_get_Cons)

end
