(* ===== verification/Cli.thy ===== *)
theory Cli
  imports Orchestrator
begin

text \<open>
  \<open>core/workflow_paths.py\<close>: the files of a step in the effective policy. And the commands
  of \<open>cli.py\<close> over the epic parser.
\<close>

section \<open>Workflow paths\<close>

record workflow_paths =
  wp_skill :: string
  wp_workflow :: string
  wp_instructions :: string
  wp_checklist :: string
  wp_template :: string

definition dict_part :: "string \<Rightarrow> pyval dict \<Rightarrow> pyval dict res" where   \<comment> \<open>\<open>(d.get(k) or {})\<close>, used as a dictionary\<close>
  "dict_part k d = as_dict (or_else (get_val k d) (VDict []))"

definition paths_for_step :: "world \<Rightarrow> string \<Rightarrow> string option \<Rightarrow> workflow_paths res" where
  "paths_for_step w step project_root =
     ebind (load_effective_policy w project_root True) (\<lambda>policy.
     ebind (step_contract policy step) (\<lambda>contract.
     ebind (dict_part ''assets'' contract) (\<lambda>assets.
     ebind (dict_part ''files'' assets) (\<lambda>files.
     (let f = (\<lambda>k. str_or_empty (get_val k files)) in
      Inr \<lparr>wp_skill = f ''skill'', wp_workflow = f ''workflow'', wp_instructions = f ''instructions'',
           wp_checklist = f ''checklist'', wp_template = f ''template''\<rparr>)))))"

definition create_story_workflow_paths :: "world \<Rightarrow> string option \<Rightarrow> workflow_paths res" where
  "create_story_workflow_paths w project_root = paths_for_step w ''create'' project_root"

definition dev_story_workflow_paths :: "world \<Rightarrow> string option \<Rightarrow> workflow_paths res" where
  "dev_story_workflow_paths w project_root = paths_for_step w ''dev'' project_root"

definition retrospective_workflow_paths :: "world \<Rightarrow> string option \<Rightarrow> workflow_paths res" where
  "retrospective_workflow_paths w project_root = paths_for_step w ''retro'' project_root"

definition review_workflow_paths :: "world \<Rightarrow> string option \<Rightarrow> workflow_paths res" where
  "review_workflow_paths w project_root = paths_for_step w ''review'' project_root"

definition testarch_automate_workflow_paths :: "world \<Rightarrow> string option \<Rightarrow> workflow_paths res" where
  "testarch_automate_workflow_paths w project_root = paths_for_step w ''auto'' project_root"

section \<open>Epics and stories on the command line\<close>

fun arg_value :: "string list \<Rightarrow> string \<Rightarrow> string" where   \<comment> \<open>the value behind the first \<open>flag\<close>\<close>
  "arg_value (a # b # rest) flag = (if a = flag then b else arg_value (b # rest) flag)"
| "arg_value _ flag = []"

definition story_entry :: "epic_story \<Rightarrow> pyval" where
  "story_entry s =
     VDict [(''epicNum'', VStr (es_epicNum s)), (''epicTitle'', VStr (es_epicTitle s)),
            (''storyNum'', VStr (es_storyNum s)), (''storyId'', VStr (es_storyId s)), (''title'', VStr (es_title s))]"

definition epic_payload :: "epic_file \<Rightarrow> pyval dict" where
  "epic_payload ef =
     [(''ok'', VBool True), (''epicTitle'', VStr (ef_epicTitle ef)), (''stories'', VList (List.map story_entry (ef_stories ef))),
      (''count'', VInt (int (ef_count ef))), (''file'', VStr (ef_file ef))]"

definition cmd_parse_epic :: "string list \<Rightarrow> int act" where
  "cmd_parse_epic args =
     (let epic_file = arg_value args ''--file'' in
      if epic_file = [] then answer_utf8 1 (failed ''epic_file_not_found'')
      else bindA (reads (\<lambda>w. parse_epic_file w epic_file)) (\<lambda>r.
        case r of
          Inr ef \<Rightarrow> answer_utf8 0 (epic_payload ef)
        | Inl e \<Rightarrow> if is_file_not_found e then answer_utf8 1 (failed ''epic_file_not_found'') else raiseA e))"

definition story_payload :: "parsed_story \<Rightarrow> pyval dict" where
  "story_payload ps =
     [(''ok'', VBool True), (''storyId'', VStr (ps_storyId ps)), (''title'', VStr (ps_title ps)),
      (''description'', VStr (ps_description ps)), (''acceptanceCriteria'', vstrs (ps_criteria ps)),
      (''dependencies'', VStr (ps_dependencies ps)),
      (''complexity'', VDict [(''score'', VInt (ps_score ps)), (''level'', VStr (ps_level ps)),
                             (''reasons'', vstrs (ps_reasons ps))])]"

definition cmd_parse_story :: "string list \<Rightarrow> int act" where
  "cmd_parse_story args =
     (let epic = arg_value args ''--epic''; story = arg_value args ''--story''; rules = arg_value args ''--rules'' in
      if epic = [] \<or> story = [] then answer_utf8 1 (failed ''missing_epic_or_story'')
      else if rules = [] then answer_utf8 1 (failed ''rules_file_not_found'')
      else bindA (reads (\<lambda>w. parse_story w epic story rules)) (\<lambda>r.
        case r of
          Inr ps \<Rightarrow> answer_utf8 0 (story_payload ps)
        | Inl e \<Rightarrow>
            if is_file_not_found e then answer_utf8 1 (failed ''missing_epic_or_story'')
            else if is_value_error e then answer_utf8 1 (failed (exn_text e))
            else raiseA e))"

definition range_payload :: "story_range \<Rightarrow> pyval dict" where
  "range_payload sr =
     [(''ok'', VBool True), (''indices'', VList (List.map (VInt \<circ> int) (sr_indices sr))),
      (''storyIds'', vstrs (sr_storyIds sr)), (''count'', VInt (int (sr_count sr)))]"

definition cmd_parse_story_range :: "string list \<Rightarrow> int act" where
  "cmd_parse_story_range args =
     (let user_input = arg_value args ''--input''; total = arg_value args ''--total''; ids = arg_value args ''--ids'' in
      bindA (readsE (\<lambda>w. if total = [] then Inr 0 else py_int (VStr total))) (\<lambda>n.
      case parse_story_range user_input n ids of
        Inr sr \<Rightarrow> answer_utf8 0 (range_payload sr)
      | Inl e \<Rightarrow> if is_value_error e then answer_utf8 1 (failed ''missing_input_or_total'') else raiseA e))"

definition cmd_epic_complete :: "string list \<Rightarrow> int act" where
  "cmd_epic_complete args =
     (let epic = arg_value args ''--epic''; range_csv = arg_value args ''--range'' in
      if epic = [] then answer_utf8 1 (failed ''epic_file_not_found'')
      else bindA (reads (\<lambda>w. epic_complete w epic range_csv)) (\<lambda>r.
        case r of
          Inr (all_done, biggest) \<Rightarrow>
            answer_utf8 0 [(''ok'', VBool True), (''epicComplete'', VBool all_done), (''maxEpicStory'', VStr biggest)]
        | Inl e \<Rightarrow>
            if is_file_not_found e then answer_utf8 1 (failed ''epic_file_not_found'')
            else if is_value_error e then answer_utf8 1 (failed (exn_text e))
            else raiseA e))"

end
