(* ===== verification/Cli_Main.thy ===== *)
theory Cli_Main
  imports Cli Basic_Commands State_Doc Validate_Story Presets
begin

text \<open>
  \<open>main\<close> of \<open>cli.py\<close>: the table of the commands. What the model takes as parameters comes
  together here: the TOML reader, \<open>sys.argv[0]\<close>, the mode bits of files and \<open>sys.executable\<close>.
\<close>

record cli_parameters =
  cp_toml :: toml_reader
  cp_argv0 :: string
  cp_python :: string
  cp_mode :: "world \<Rightarrow> ppath \<Rightarrow> int"

definition cli_commands :: "cli_parameters \<Rightarrow> (string \<times> (string list \<Rightarrow> int act)) list" where
  "cli_commands cp =
     [(''derive-project-slug'', cmd_derive_project_slug), (''ensure-marker-gitignore'', cmd_ensure_marker_gitignore),
      (''ensure-stop-hook'', cmd_ensure_stop_hook (cp_toml cp) (cp_argv0 cp)), (''stop-hook'', cmd_stop_hook),
      (''build-state-doc'', cmd_build_state_doc), (''commit-story'', cmd_commit_story), (''parse-epic'', cmd_parse_epic),
      (''parse-story'', cmd_parse_story), (''parse-story-range'', cmd_parse_story_range),
      (''epic-complete'', cmd_epic_complete), (''sprint-compare'', cmd_sprint_compare),
      (''state-metrics'', cmd_state_metrics), (''validate-state'', cmd_validate_state),
      (''validate-story-creation'', cmd_validate_story_creation (cp_mode cp)), (''list-sessions'', cmd_list_sessions),
      (''tmux-wrapper'', cmd_tmux_wrapper (cp_python cp)), (''heartbeat-check'', cmd_heartbeat_check),
      (''codex-status-check'', cmd_codex_status_check), (''tmux-status-check'', cmd_tmux_status_check),
      (''monitor-session'', cmd_monitor_session), (''orchestrator-helper'', cmd_orchestrator_helper),
      (''agent-config'', cmd_agent_config)]"

definition cli_usage :: "cli_parameters \<Rightarrow> string list" where
  "cli_usage cp =
     [''story-automator <command> [args]'', [], ''Commands:''] @ List.map (\<lambda>(name, _). ''  '' @ name) (cli_commands cp)"

definition cli_main :: "cli_parameters \<Rightarrow> string list \<Rightarrow> int act" where
  "cli_main cp args =
     (case args of
        [] \<Rightarrow> ret 1
      | name # rest \<Rightarrow>
          if is_help_flag name then bindA (forA (cli_usage cp) print_out) (\<lambda>_. ret 0)
          else (case map_of (cli_commands cp) name of None \<Rightarrow> ret 1 | Some handler \<Rightarrow> handler rest))"

end
