(* ===== verification/Config_Merge.thy ===== *)
theory Config_Merge
  imports Merge_Laws World
begin

text \<open>
  \<open>_bmad/scripts/resolve_customization.py\<close> and \<open>_bmad/scripts/resolve_config.py\<close>: layers of TOML
  merged by their structure. The TOML reader is a parameter; what it reads has no dates, which
  JSON cannot write. The arguments are as \<open>argparse\<close> parsed them.
\<close>

section \<open>Arrays of tables\<close>

fun is_hashable :: "pyval \<Rightarrow> bool" where
  "is_hashable (VList _) = False"
| "is_hashable (VDict _) = False"
| "is_hashable _ = True"

text \<open>Keys of a Python dictionary: equal numbers are one key.\<close>

fun same_key :: "pyval \<Rightarrow> pyval \<Rightarrow> bool" where
  "same_key (VStr s) v = (v = VStr s)"
| "same_key (VInt i) v = equals_int v i"
| "same_key (VBool b) v = equals_int v (if b then 1 else 0)"
| "same_key (VFloat s) v =
     (case v of
        VFloat t \<Rightarrow> s = t
      | VInt i \<Rightarrow> equals_int (VFloat s) i
      | VBool b \<Rightarrow> equals_int (VFloat s) (if b then 1 else 0)
      | _ \<Rightarrow> False)"
| "same_key _ v = False"

definition item_key :: "string \<Rightarrow> pyval \<Rightarrow> pyval" where   \<comment> \<open>\<open>item.get(key)\<close>\<close>
  "item_key key it = (case it of VDict d \<Rightarrow> get_val key d | _ \<Rightarrow> VNone)"

definition keyed_merge_fields :: "string list" where
  "keyed_merge_fields = [''code'', ''id'']"

definition keyed_field :: "pyval list \<Rightarrow> string option" where   \<comment> \<open>\<open>_detect_keyed_merge_field\<close>\<close>
  "keyed_field items =
     (if items = [] \<or> \<not> list_all is_dict items then None
      else List.find (\<lambda>c. list_all (\<lambda>it. item_key c it \<noteq> VNone) items) keyed_merge_fields)"

text \<open>The result so far and, newest first, the place of every key in it.\<close>

type_synonym keyed_state = "pyval list \<times> (pyval \<times> nat) list"

definition key_place :: "pyval \<Rightarrow> (pyval \<times> nat) list \<Rightarrow> nat option" where
  "key_place k places = map_option snd (List.find (\<lambda>p. same_key (fst p) k) places)"

definition add_item :: "pyval \<Rightarrow> pyval \<Rightarrow> keyed_state \<Rightarrow> keyed_state" where
  "add_item it k st = (fst st @ [it], if k = VNone then snd st else (k, length (fst st)) # snd st)"

definition base_item :: "string \<Rightarrow> pyval \<Rightarrow> keyed_state \<Rightarrow> keyed_state res" where
  "base_item key it st =
     (if \<not> is_dict it then Inr st
      else if \<not> is_hashable (item_key key it) then Inl TypeError
      else Inr (add_item it (item_key key it) st))"

definition override_item :: "string \<Rightarrow> pyval \<Rightarrow> keyed_state \<Rightarrow> keyed_state res" where
  "override_item key it st =
     (let k = item_key key it in
      if \<not> is_hashable k then Inl TypeError
      else if k = VNone then Inr (add_item it k st)
      else (case key_place k (snd st) of
              Some n \<Rightarrow> Inr ((fst st)[n := it], snd st)
            | None \<Rightarrow> Inr (add_item it k st)))"

definition merge_by_key :: "pyval list \<Rightarrow> pyval list \<Rightarrow> string \<Rightarrow> pyval list res" where
  "merge_by_key base override key =
     ebind (efold (base_item key) base ([], [])) (\<lambda>st.
     ebind (efold (override_item key) override st) (\<lambda>st'. Inr (fst st')))"

definition merge_arrays :: "pyval list \<Rightarrow> pyval list \<Rightarrow> pyval list res" where
  "merge_arrays base override =
     (case keyed_field (base @ override) of
        Some key \<Rightarrow> merge_by_key base override key
      | None \<Rightarrow> Inr (base @ override))"

section \<open>Layers\<close>

function layer_merge :: "pyval \<Rightarrow> pyval \<Rightarrow> pyval res"   \<comment> \<open>\<open>deep_merge\<close>\<close>
  and layer_entries :: "pyval dict \<Rightarrow> pyval dict \<Rightarrow> pyval dict res" where
  "layer_merge base override =
     (case (base, override) of
        (VDict b, VDict r) \<Rightarrow> ebind (layer_entries b r) (\<lambda>m. Inr (VDict m))
      | (VList b, VList r) \<Rightarrow> ebind (merge_arrays b r) (\<lambda>m. Inr (VList m))
      | _ \<Rightarrow> Inr override)"
| "layer_entries merged [] = Inr merged"
| "layer_entries merged ((k, v) # r) =
     ebind (case dict_get k merged of Some u \<Rightarrow> layer_merge u v | None \<Rightarrow> Inr v) (\<lambda>x.
     layer_entries (dict_set k x merged) r)"
  by pat_completeness auto
termination
  by (relation "measure (\<lambda>a. case a of Inl (b, r) \<Rightarrow> 2 * size r | Inr (b, r) \<Rightarrow> 2 * size_list (size_prod (\<lambda>_. 0) size) r + 1)")
    auto

declare layer_merge.simps [simp del]

definition merge_layers :: "pyval \<Rightarrow> pyval list \<Rightarrow> pyval res" where   \<comment> \<open>the lowest layer first\<close>
  "merge_layers base layers = efold (\<lambda>layer merged. layer_merge merged layer) layers base"

definition extract_key :: "pyval \<Rightarrow> string \<Rightarrow> pyval option" where
  "extract_key v dotted = get_path (split_all ''.'' dotted) v"

definition selected_keys :: "string list \<Rightarrow> pyval \<Rightarrow> pyval" where
  "selected_keys keys merged =
     (if keys = [] then merged
      else VDict (fold (\<lambda>k found. case extract_key merged k of Some v \<Rightarrow> dict_set k v found | None \<Rightarrow> found) keys []))"

section \<open>The programs\<close>

text \<open>A layer; \<open>None\<close> where the program ends with code 1.\<close>

definition load_toml :: "toml_reader \<Rightarrow> world \<Rightarrow> ppath \<Rightarrow> bool \<Rightarrow> pyval dict option" where
  "load_toml toml w path required =
     (let missing = (if required then None else Some []) in
      if \<not> path_exists w path then missing
      else (case read_file w path of
              Inl _ \<Rightarrow> missing
            | Inr content \<Rightarrow> (case toml content of Inl _ \<Rightarrow> missing | Inr d \<Rightarrow> Some d)))"

definition optional_layer :: "toml_reader \<Rightarrow> world \<Rightarrow> ppath \<Rightarrow> pyval" where
  "optional_layer toml w path = VDict (case load_toml toml w path False of Some d \<Rightarrow> d | None \<Rightarrow> [])"

definition marks_project :: "world \<Rightarrow> ppath \<Rightarrow> bool" where
  "marks_project w p \<longleftrightarrow> path_exists w (path_join p (path_of ''_bmad'')) \<or> path_exists w (path_join p (path_of ''.git''))"

function nearest_project :: "world \<Rightarrow> string list \<Rightarrow> ppath option" where   \<comment> \<open>from the last component up\<close>
  "nearest_project w cs =
     (if marks_project w (PPath True cs) then Some (PPath True cs)
      else if cs = [] then None
      else nearest_project w (butlast cs))"
  by pat_completeness auto
termination
  by (relation "measure (length \<circ> snd)") auto

declare nearest_project.simps [simp del]

definition find_project_root :: "world \<Rightarrow> ppath \<Rightarrow> ppath option" where
  "find_project_root w start = nearest_project w (parts (resolve w start))"

definition print_layers :: "string list \<Rightarrow> pyval \<Rightarrow> pyval list \<Rightarrow> int act" where
  "print_layers keys base layers =
     bindA (readsE (\<lambda>w. merge_layers base layers)) (\<lambda>merged.
     bindA (effect (print_line (json_dumps (style_indent2\<lparr>js_ascii := False\<rparr>) (selected_keys keys merged)))) (\<lambda>_. ret 0))"

definition customization_root :: "world \<Rightarrow> ppath \<Rightarrow> ppath option" where
  "customization_root w skill_dir =
     (case find_project_root w skill_dir of Some r \<Rightarrow> Some r | None \<Rightarrow> find_project_root w (cwd_path w))"

definition custom_layers :: "toml_reader \<Rightarrow> world \<Rightarrow> ppath \<Rightarrow> pyval list" where
  "custom_layers toml w skill_dir =
     (case customization_root w skill_dir of
        None \<Rightarrow> [VDict [], VDict []]
      | Some root \<Rightarrow>
          (let file = (\<lambda>suffix. path_join root (PPath False [''_bmad'', ''custom'', path_name skill_dir @ suffix])) in
           [optional_layer toml w (file ''.toml''), optional_layer toml w (file ''.user.toml'')]))"

definition resolve_customization :: "toml_reader \<Rightarrow> string \<Rightarrow> string list \<Rightarrow> int act" where
  "resolve_customization toml skill keys =
     bindA (reads (\<lambda>w. resolve w (path_of skill))) (\<lambda>skill_dir.
     bindA (reads (\<lambda>w. load_toml toml w (path_join skill_dir (path_of ''customize.toml'')) True)) (\<lambda>defaults.
     case defaults of
       None \<Rightarrow> ret 1
     | Some d \<Rightarrow> bindA (reads (\<lambda>w. custom_layers toml w skill_dir)) (print_layers keys (VDict d))))"

definition config_layers :: "toml_reader \<Rightarrow> world \<Rightarrow> ppath \<Rightarrow> pyval list" where
  "config_layers toml w root =
     List.map (\<lambda>names. optional_layer toml w (path_join root (PPath False (''_bmad'' # names))))
       [[''config.user.toml''], [''custom'', ''config.toml''], [''custom'', ''config.user.toml'']]"

definition resolve_config :: "toml_reader \<Rightarrow> string \<Rightarrow> string list \<Rightarrow> int act" where
  "resolve_config toml project_root keys =
     bindA (reads (\<lambda>w. resolve w (path_of project_root))) (\<lambda>root.
     bindA (reads (\<lambda>w. load_toml toml w (path_join root (path_of ''_bmad/config.toml'')) True)) (\<lambda>base.
     case base of
       None \<Rightarrow> ret 1
     | Some d \<Rightarrow> bindA (reads (\<lambda>w. config_layers toml w root)) (print_layers keys (VDict d))))"

end
