(* ===== verification/Config_Facts.thy ===== *)
theory Config_Facts
  imports Config_Merge
begin

text \<open>
  What the layers of a configuration promise: the highest layer that decides a place wins, and an
  array of keyed tables is merged as the ordered dictionary it stands for.
\<close>

section \<open>Objects\<close>










section \<open>Keyed arrays\<close>

fun str_of :: "pyval \<Rightarrow> string" where
  "str_of (VStr s) = s"
| "str_of _ = []"

definition table_of :: "string \<Rightarrow> pyval list \<Rightarrow> pyval dict" where
  "table_of key items = List.map (\<lambda>it. (str_of (item_key key it), it)) items"

definition keyed_item :: "string \<Rightarrow> pyval \<Rightarrow> bool" where
  "keyed_item key it \<longleftrightarrow> is_dict it \<and> is_str (item_key key it)"

lemma keyed_item_key: "keyed_item key it \<Longrightarrow> item_key key it = VStr (str_of (item_key key it))"
  by (cases "item_key key it") (simp_all add: keyed_item_def)

lemma update_new: "k \<notin> fst ` set al \<Longrightarrow> AList.update k v al = al @ [(k, v)]"
  by (induction al) auto

lemma update_at:
  "distinct (List.map fst al) \<Longrightarrow> n < length al \<Longrightarrow> fst (al ! n) = k \<Longrightarrow> AList.update k v al = al[n := (k, v)]"
proof (induction al arbitrary: n)
  case (Cons p al)
  show ?case
  proof (cases n)
    case 0
    then show ?thesis using Cons.prems by (cases p) simp
  next
    case (Suc m)
    then have "m < length al" "fst (al ! m) = k" using Cons.prems by simp_all
    then have "k \<in> fst ` set al" using nth_mem by blast
    then show ?thesis using Cons Suc by (cases p) auto
  qed
qed simp

text \<open>The places are those of the keys in the result.\<close>

definition places_ok :: "string \<Rightarrow> keyed_state \<Rightarrow> bool" where
  "places_ok key st \<longleftrightarrow>
     list_all (keyed_item key) (fst st) \<and> distinct (List.map fst (table_of key (fst st))) \<and>
     (\<forall>s n. key_place (VStr s) (snd st) = Some n \<longleftrightarrow> n < length (fst st) \<and> item_key key (fst st ! n) = VStr s)"

lemma key_place_Cons: "key_place (VStr s) ((VStr t, n) # places) = (if s = t then Some n else key_place (VStr s) places)"
  by (auto simp: key_place_def)

lemma length_table [simp]: "length (table_of key items) = length items"
  by (simp add: table_of_def)

lemma table_nth: "n < length items \<Longrightarrow> table_of key items ! n = (str_of (item_key key (items ! n)), items ! n)"
  by (simp add: table_of_def)

lemma keyed_nth: "list_all (keyed_item key) items \<Longrightarrow> n < length items \<Longrightarrow>
  item_key key (items ! n) = VStr (fst (table_of key items ! n))"
  using keyed_item_key by (simp add: list_all_length table_nth)

lemma no_place: "places_ok key st \<Longrightarrow> key_place (VStr s) (snd st) = None \<Longrightarrow> s \<notin> fst ` set (table_of key (fst st))"
proof
  assume st: "places_ok key st" "key_place (VStr s) (snd st) = None" "s \<in> fst ` set (table_of key (fst st))"
  then obtain n where n: "n < length (fst st)" "fst (table_of key (fst st) ! n) = s"
    by (auto simp: in_set_conv_nth)
  moreover have "list_all (keyed_item key) (fst st)" using st(1) by (simp add: places_ok_def)
  ultimately have "item_key key (fst st ! n) = VStr s" using keyed_nth by metis
  with st(1,2) n(1) show False unfolding places_ok_def by (metis option.distinct(1))
qed

lemma add_places:
  assumes "places_ok key st" "keyed_item key it" "item_key key it = VStr s" "key_place (VStr s) (snd st) = None"
  shows "places_ok key (add_item it (VStr s) st)"
    and "table_of key (fst (add_item it (VStr s) st)) = dict_set s it (table_of key (fst st))"
proof -
  note new = no_place [OF assms(1,4)]
  show "table_of key (fst (add_item it (VStr s) st)) = dict_set s it (table_of key (fst st))"
    using new assms(3) by (simp add: add_item_def dict_set_def update_new table_of_def)
  have out: "\<not> (n < length (fst st) \<and> item_key key (fst st ! n) = VStr s)" for n
    using assms(1,4) unfolding places_ok_def by (metis option.distinct(1))
  have "key_place (VStr t) ((VStr s, length (fst st)) # snd st) = Some n \<longleftrightarrow>
      n < Suc (length (fst st)) \<and> item_key key ((fst st @ [it]) ! n) = VStr t" for t n
    using assms(1,3) out by (cases "t = s") (auto simp: places_ok_def key_place_Cons nth_append less_Suc_eq)
  moreover have "table_of key (fst st @ [it]) = table_of key (fst st) @ [(s, it)]"
    using assms(3) by (simp add: table_of_def)
  then have "distinct (List.map fst (table_of key (fst st @ [it])))"
    using assms(1) new by (simp add: places_ok_def)
  ultimately show "places_ok key (add_item it (VStr s) st)"
    using assms(1,2) by (simp add: places_ok_def add_item_def)
qed

lemma replace_places:
  assumes "places_ok key st" "keyed_item key it" "item_key key it = VStr s" "key_place (VStr s) (snd st) = Some n"
  shows "places_ok key ((fst st)[n := it], snd st)"
    and "table_of key ((fst st)[n := it]) = dict_set s it (table_of key (fst st))"
proof -
  have n: "n < length (fst st)" "item_key key (fst st ! n) = VStr s" using assms(1,4) by (auto simp: places_ok_def)
  then have at: "fst (table_of key (fst st) ! n) = s" by (simp add: table_nth)
  have upd: "table_of key ((fst st)[n := it]) = (table_of key (fst st))[n := (s, it)]"
    using assms(3) by (simp add: table_of_def map_update)
  then show "table_of key ((fst st)[n := it]) = dict_set s it (table_of key (fst st))"
    using assms(1) n at by (simp add: dict_set_def update_at places_ok_def)
  have "List.map fst (table_of key ((fst st)[n := it])) = List.map fst (table_of key (fst st))"
    using at n by (simp add: upd map_update list_update_same_conv)
  moreover have "item_key key ((fst st)[n := it] ! i) = item_key key (fst st ! i)" if "i < length (fst st)" for i
    using that n assms(3) by (cases "i = n") simp_all
  moreover have "list_all (keyed_item key) ((fst st)[n := it])"
    using assms(1,2) set_update_subset_insert [of "fst st" n it] by (auto simp: places_ok_def list_all_iff)
  ultimately show "places_ok key ((fst st)[n := it], snd st)"
    using assms(1) by (auto simp: places_ok_def)
qed

lemma keyed_is_dict: "keyed_item key it \<Longrightarrow> is_dict it"
  by (simp add: keyed_item_def)

lemma base_items:
  "places_ok key st \<Longrightarrow> list_all (keyed_item key) items \<Longrightarrow>
     distinct (List.map fst (table_of key (fst st @ items))) \<Longrightarrow>
     \<exists>st'. efold (base_item key) items st = Inr st' \<and> places_ok key st' \<and> fst st' = fst st @ items"
proof (induction items arbitrary: st)
  case (Cons it items)
  obtain s where it: "keyed_item key it" "item_key key it = VStr s" using Cons.prems(2) keyed_item_key by fastforce
  have fresh: "s \<notin> fst ` set (table_of key (fst st))" using Cons.prems(3) it(2) by (auto simp: table_of_def)
  have none: "key_place (VStr s) (snd st) = None"
  proof (rule ccontr)
    assume "key_place (VStr s) (snd st) \<noteq> None"
    then obtain n where n: "n < length (fst st)" "item_key key (fst st ! n) = VStr s"
      using Cons.prems(1) by (auto simp: places_ok_def)
    then have "table_of key (fst st) ! n \<in> set (table_of key (fst st))" by simp
    then show False using n fresh by (force simp: table_nth)
  qed
  let ?st = "add_item it (VStr s) st"
  have "base_item key it st = Inr ?st" using it keyed_is_dict by (simp add: base_item_def)
  moreover have "fst ?st = fst st @ [it]" by (simp add: add_item_def)
  ultimately show ?case
    using Cons.IH [OF add_places(1) [OF Cons.prems(1) it none]] Cons.prems(2,3) by simp
qed simp

lemma override_items:
  "places_ok key st \<Longrightarrow> list_all (keyed_item key) items \<Longrightarrow>
     \<exists>st'. efold (override_item key) items st = Inr st' \<and> places_ok key st' \<and>
       table_of key (fst st') = dict_update (table_of key (fst st)) (table_of key items)"
proof (induction items arbitrary: st)
  case Nil
  then show ?case by (simp add: dict_update_def table_of_def)
next
  case (Cons it items)
  obtain s where it: "keyed_item key it" "item_key key it = VStr s" using Cons.prems(2) keyed_item_key by fastforce
  have "\<exists>st1. override_item key it st = Inr st1 \<and> places_ok key st1 \<and> table_of key (fst st1) = dict_set s it (table_of key (fst st))"
  proof (cases "key_place (VStr s) (snd st)")
    case None
    then show ?thesis using add_places [OF Cons.prems(1) it None] it(2)
      by (auto simp: override_item_def)
  next
    case (Some n)
    then show ?thesis using replace_places [OF Cons.prems(1) it Some] it(2)
      by (auto simp: override_item_def)
  qed
  then obtain st1 where st1: "override_item key it st = Inr st1" "places_ok key st1"
    "table_of key (fst st1) = dict_set s it (table_of key (fst st))" by blast
  moreover have "table_of key (it # items) = (s, it) # table_of key items" using it(2) by (simp add: table_of_def)
  ultimately show ?case using Cons.IH [OF st1(2)] Cons.prems(2) by (simp add: dict_update_def)
qed

lemma merge_by_key_table:
  assumes "list_all (keyed_item key) base" "distinct (List.map fst (table_of key base))" "list_all (keyed_item key) override"
  shows "\<exists>m. merge_by_key base override key = Inr m \<and>
    table_of key m = dict_update (table_of key base) (table_of key override)"
proof -
  have "places_ok key ([], [])" by (simp add: places_ok_def table_of_def key_place_def)
  from base_items [OF this assms(1)] assms(2) obtain st where "efold (base_item key) base ([], []) = Inr st"
    "places_ok key st" "fst st = base" by auto
  with override_items [OF _ assms(3)] show ?thesis by (fastforce simp: merge_by_key_def)
qed

lemma table_items: "List.map snd (table_of key items) = items"
  by (induction items) (simp_all add: table_of_def)

section \<open>The programs\<close>






text \<open>
  Arrays of keyed tables are merged as the ordered dictionaries they stand for: an item of the
  upper array replaces the one with its key, in its place, and a new one is appended.
\<close>

theorem keyed_arrays_table:
  assumes "keyed_field (base @ override) = Some key" "list_all (keyed_item key) (base @ override)"
    "distinct (List.map fst (table_of key base))"
  shows "layer_merge (VList base) (VList override) =
    Inr (VList (List.map snd (dict_update (table_of key base) (table_of key override))))"
proof -
  have "list_all (keyed_item key) base" "list_all (keyed_item key) override" using assms(2) by simp_all
  from merge_by_key_table [OF this(1) assms(3) this(2)] obtain m where "merge_by_key base override key = Inr m"
    "table_of key m = dict_update (table_of key base) (table_of key override)" by blast
  then show ?thesis using assms(1) table_items [of key m]
    by (simp add: layer_merge.simps merge_arrays_def)
qed

definition menu_item :: "string \<Rightarrow> string \<Rightarrow> pyval" where
  "menu_item code action = VDict [(''code'', VStr code), (''action'', VStr action)]"

lemma keyed_arrays_table_witness:
  "layer_merge (VList [menu_item ''A'' ''1'', menu_item ''B'' ''2'']) (VList [menu_item ''C'' ''3'', menu_item ''A'' ''4'']) =
     Inr (VList [menu_item ''A'' ''4'', menu_item ''B'' ''2'', menu_item ''C'' ''3''])"
proof -
  let ?b = "[menu_item ''A'' ''1'', menu_item ''B'' ''2'']" and ?r = "[menu_item ''C'' ''3'', menu_item ''A'' ''4'']"
  have "keyed_field (?b @ ?r) = Some ''code''" "list_all (keyed_item ''code'') (?b @ ?r)"
    "distinct (List.map fst (table_of ''code'' ?b))"
    "List.map snd (dict_update (table_of ''code'' ?b) (table_of ''code'' ?r)) =
       [menu_item ''A'' ''4'', menu_item ''B'' ''2'', menu_item ''C'' ''3'']" by code_simp+
  with keyed_arrays_table [of ?b ?r "''code''"] show ?thesis by simp
qed

end
