(* ===== verification/Bench_Gate.thy ===== *)
theory Bench_Gate
  imports Basic_Commands
begin

text \<open>
  \<open>scripts/run-bench-gate.py\<close>: a bench command and its gate, measured again once when the gate
  reports a policy failure. The answers of the commands are those of the world; \<open>spawnable\<close> is a
  parameter, whether the system can start a command at all. What the commands print themselves and
  the annotations on the standard error are not in the world's output.
\<close>

section \<open>Commands\<close>

type_synonym spawner = "world \<Rightarrow> string list \<Rightarrow> bool"

definition run :: "spawner \<Rightarrow> string list \<Rightarrow> string \<Rightarrow> int option act" where   \<comment> \<open>\<open>None\<close>: \<open>SpawnFailure\<close>\<close>
  "run spawnable cmd label =
     bindA (effect (print_line (''run-bench-gate: running '' @ label @ '': '' @ shlex_join cmd))) (\<lambda>_.
     bindA (reads (\<lambda>w. spawnable w cmd)) (\<lambda>can.
     if can then bindA (command cmd) (\<lambda>(_, code). ret (Some code)) else ret None))"

definition os_error_text :: "exn \<Rightarrow> string" where   \<comment> \<open>\<open>str(exc)\<close>, for a path without quotes\<close>
  "os_error_text e =
     (case e of
        FileNotFoundError p \<Rightarrow> ''[Errno 2] No such file or directory: '' @ [squote] @ p @ [squote]
      | IsADirectoryError p \<Rightarrow> ''[Errno 21] Is a directory: '' @ [squote] @ p @ [squote]
      | _ \<Rightarrow> [])"

definition read_or_placeholder :: "world \<Rightarrow> ppath \<Rightarrow> string" where
  "read_or_placeholder w path =
     (case read_file w path of Inr s \<Rightarrow> strip s | Inl e \<Rightarrow> ''(unreadable: '' @ os_error_text e @ '')'')"

definition append_file :: "ppath \<Rightarrow> string \<Rightarrow> world \<Rightarrow> world" where   \<comment> \<open>kept as it is where \<open>open\<close> fails\<close>
  "append_file path s w =
     (if is_dir w path \<or> \<not> is_dir w (path_parent (resolve w path)) then w
      else put_file w path ((case read_file w path of Inr old \<Rightarrow> old | Inl _ \<Rightarrow> []) @ s))"

definition append_step_summary :: "string \<Rightarrow> world \<Rightarrow> world" where
  "append_step_summary s w =
     (let step_summary = environ_or w ''GITHUB_STEP_SUMMARY'' [] in
      if step_summary = [] then print_line s w else append_file (path_of step_summary) s w)"

definition run_bench :: "spawner \<Rightarrow> string list \<Rightarrow> ppath \<Rightarrow> int \<Rightarrow> int option act" where
  "run_bench spawnable bench_cmd summary attempt =
     bindA (run spawnable bench_cmd (''bench (attempt '' @ show_int attempt @ '')'')) (\<lambda>rc.
     case rc of
       None \<Rightarrow> ret None
     | Some bench_rc \<Rightarrow>
         if bench_rc \<noteq> 0 then ret (Some bench_rc)
         else bindA (reads (\<lambda>w. path_exists w summary)) (\<lambda>there. ret (Some (if there then 0 else -1))))"

definition bench_code :: "int \<Rightarrow> int" where
  "bench_code bench_rc = (if bench_rc = -1 then 2 else bench_rc)"

section \<open>The attempts\<close>

definition attempt1_of :: "ppath \<Rightarrow> ppath res" where
  "attempt1_of summary =
     (if path_name summary = [] then Inl (ValueError (path_str summary @ '' has an empty name''))
      else Inr (with_name summary (path_stem summary @ ''.attempt1.json'')))"

definition drop_stale :: "ppath \<Rightarrow> unit act" where
  "drop_stale path =
     bindA (reads (\<lambda>w. is_dir w path)) (\<lambda>dir.
     if dir then raiseA (IsADirectoryError (path_str path)) else effect (\<lambda>w. unlink w path))"

definition copy_file :: "ppath \<Rightarrow> ppath \<Rightarrow> world \<Rightarrow> world" where   \<comment> \<open>kept as it is where the copy fails\<close>
  "copy_file src dst w =
     (case read_file w src of Inr s \<Rightarrow> if is_dir w dst then w else put_file w dst s | Inl _ \<Rightarrow> w)"

definition json_fence :: "string \<Rightarrow> string" where
  "json_fence s = ''```json'' @ [nl] @ s @ [nl] @ ''```'' @ [nl]"

definition remeasure_note :: "world \<Rightarrow> ppath \<Rightarrow> ppath \<Rightarrow> string" where
  "remeasure_note w summary attempt1 =
     ''## Bench gate re-measure (best-of-2)'' @ [nl, nl] @
     ''The gate failed on attempt 1 and passed on attempt 2. Counting '' @
     ''this as runner noise; if these notes pile up, the noise rate '' @
     ''is the finding.'' @ [nl, nl] @
     ''Attempt 1 (`'' @ path_name attempt1 @ ''`):'' @ [nl, nl] @ json_fence (read_or_placeholder w attempt1) @ [nl] @
     ''Attempt 2 (`'' @ path_name summary @ ''`):'' @ [nl, nl] @ json_fence (read_or_placeholder w summary)"

definition second_attempt :: "spawner \<Rightarrow> string list \<Rightarrow> string list \<Rightarrow> ppath \<Rightarrow> ppath \<Rightarrow> int act" where
  "second_attempt spawnable bench_cmd gate_cmd summary attempt1 =
     bindA (run_bench spawnable bench_cmd summary 2) (\<lambda>b.
     case b of None \<Rightarrow> ret 2 | Some bench_rc \<Rightarrow>
       if bench_rc \<noteq> 0 then ret (bench_code bench_rc)
       else
         bindA (run spawnable gate_cmd ''gate (attempt 2)'') (\<lambda>g.
         case g of None \<Rightarrow> ret 2 | Some gate_rc \<Rightarrow>
           if gate_rc = 0 then
             bindA (effect (print_line
               (''::notice::gate passed on attempt 2; attempt 1 is counted as runner noise. '' @
                ''Both attempts'' @ [squote] @ '' numbers are in the step summary.''))) (\<lambda>_.
             bindA (effect (\<lambda>w. append_step_summary (remeasure_note w summary attempt1) w)) (\<lambda>_. ret 0))
           else if gate_rc \<noteq> 1 then ret 2
           else ret 1))"

definition attempts :: "spawner \<Rightarrow> string list \<Rightarrow> string list \<Rightarrow> ppath \<Rightarrow> ppath \<Rightarrow> int act" where
  "attempts spawnable bench_cmd gate_cmd summary attempt1 =
     bindA (run_bench spawnable bench_cmd summary 1) (\<lambda>b.
     case b of None \<Rightarrow> ret 2 | Some bench_rc \<Rightarrow>
       if bench_rc \<noteq> 0 then ret (bench_code bench_rc)
       else
         bindA (run spawnable gate_cmd ''gate (attempt 1)'') (\<lambda>g.
         case g of None \<Rightarrow> ret 2 | Some gate_rc \<Rightarrow>
           if gate_rc = 0 then ret 0
           else if gate_rc \<noteq> 1 then ret 2
           else
             bindA (effect (copy_file summary attempt1)) (\<lambda>_.
             second_attempt spawnable bench_cmd gate_cmd summary attempt1)))"

definition bench_gate :: "spawner \<Rightarrow> string \<Rightarrow> string \<Rightarrow> string \<Rightarrow> int act" where   \<comment> \<open>\<open>main\<close>\<close>
  "bench_gate spawnable bench gate summary =
     (case (shlex_split bench, shlex_split gate) of
        (Some bench_cmd, Some gate_cmd) \<Rightarrow>
          if bench_cmd = [] \<or> gate_cmd = [] then ret 2
          else
            bindA (readsE (\<lambda>w. attempt1_of (path_of summary))) (\<lambda>attempt1.
            bindA (drop_stale attempt1) (\<lambda>_.
            attempts spawnable bench_cmd gate_cmd (path_of summary) attempt1))
      | _ \<Rightarrow> raiseA (ValueError ''No closing quotation''))"

section \<open>The protocol\<close>

text \<open>The code of the \<open>i\<close>-th of the commands, when they are run one after the other from \<open>w\<close>.\<close>

definition answer_at :: "world \<Rightarrow> string list list \<Rightarrow> nat \<Rightarrow> int" where
  "answer_at w cmds i = snd (w_reply w (rev (take i cmds) @ w_cmds w) (cmds ! i))"

definition has_run :: "world \<Rightarrow> string list list \<Rightarrow> nat \<Rightarrow> world \<Rightarrow> bool" where
  "has_run w cmds k w' \<longleftrightarrow> w_cmds w' = rev (take k cmds) @ w_cmds w \<and> w_reply w' = w_reply w"

lemma happen_log [simp]: "w_cmds (happen args w) = args # w_cmds w" "w_reply (happen args w) = w_reply w"
proof -
  have "w_cmds (fold change_file cs v) = w_cmds v \<and> w_reply (fold change_file cs v) = w_reply v" for cs v
    by (induction cs arbitrary: v) (simp_all add: change_file_def split: option.splits)
  then show "w_cmds (happen args w) = args # w_cmds w" "w_reply (happen args w) = w_reply w"
    by (simp_all add: happen_def Let_def)
qed

lemma log_frame [simp]:
  "w_cmds (print_line s w) = w_cmds w" "w_reply (print_line s w) = w_reply w"
  "w_cmds (put_file w p c) = w_cmds w" "w_reply (put_file w p c) = w_reply w"
  "w_cmds (unlink w p) = w_cmds w" "w_reply (unlink w p) = w_reply w"
  by (simp_all add: print_line_def put_file_def unlink_def)

lemma has_run_frame [simp]:
  "has_run w cmds k (print_line s w') = has_run w cmds k w'"
  "has_run w cmds k (copy_file src dst w') = has_run w cmds k w'"
  "has_run w cmds k (append_step_summary t w') = has_run w cmds k w'"
  by (simp_all add: has_run_def copy_file_def append_step_summary_def append_file_def Let_def split: sum.split)

lemma has_run_start: "has_run w cmds 0 w"
  by (simp add: has_run_def)

lemma run_one:
  assumes "has_run w cmds k w1" "k < length cmds" "cmds ! k = cmd"
  obtains w2 where "run spawnable cmd label w1 = Inr (None, w2)" "has_run w cmds k w2"
    | w2 where "run spawnable cmd label w1 = Inr (Some (answer_at w cmds k), w2)" "has_run w cmds (Suc k) w2"
proof -
  let ?w = "print_line (''run-bench-gate: running '' @ label @ '': '' @ shlex_join cmd) w1"
  show ?thesis
  proof (cases "spawnable ?w cmd")
    case True
    moreover have "has_run w cmds (Suc k) (happen cmd ?w)"
      using assms by (simp add: has_run_def take_Suc_conv_app_nth)
    ultimately show ?thesis using that(2) assms
      by (simp add: run_def run_cmd_def answer_at_def has_run_def ret_def split: prod.split)
  next
    case False
    then show ?thesis using that(1) assms(1) by (simp add: run_def ret_def)
  qed
qed

lemma bench_one:
  assumes "has_run w cmds k w1" "k < length cmds" "cmds ! k = cmd"
  obtains w2 where "run_bench spawnable cmd summary n w1 = Inr (None, w2)" "has_run w cmds k w2"
    | w2 c where "run_bench spawnable cmd summary n w1 = Inr (Some c, w2)" "has_run w cmds (Suc k) w2"
        "c = answer_at w cmds k \<or> c = -1 \<and> answer_at w cmds k = 0"
proof -
  let ?label = "''bench (attempt '' @ show_int n @ '')''" and ?c = "answer_at w cmds k"
  show ?thesis
  proof (rule run_one [OF assms, of spawnable ?label])
    fix w2
    assume "run spawnable cmd ?label w1 = Inr (None, w2)" "has_run w cmds k w2"
    then show ?thesis using that(1) by (simp add: run_bench_def bindA_def ret_def)
  next
    fix w2
    assume w2: "run spawnable cmd ?label w1 = Inr (Some ?c, w2)" "has_run w cmds (Suc k) w2"
    let ?r = "if ?c \<noteq> 0 then ?c else if path_exists w2 summary then 0 else -1"
    have "run_bench spawnable cmd summary n w1 = Inr (Some ?r, w2)"
      using w2(1) by (simp add: run_bench_def bindA_def ret_def reads_def)
    from that(2) [OF this w2(2)] show ?thesis by simp
  qed
qed

text \<open>How the attempts end: with code \<open>n\<close> after \<open>k\<close> commands.\<close>

definition ends_well :: "world \<Rightarrow> string list list \<Rightarrow> int \<Rightarrow> nat \<Rightarrow> bool" where
  "ends_well w cmds n k \<longleftrightarrow>
     k \<le> 4 \<and>
     (n = 0) = ((k = 2 \<or> k = 4) \<and> answer_at w cmds (k - 1) = 0) \<and>
     (k > 2 \<longrightarrow> answer_at w cmds 0 = 0 \<and> answer_at w cmds 1 = 1) \<and>
     (k = 4 \<longrightarrow> answer_at w cmds 2 = 0 \<and> (answer_at w cmds 3 = 1 \<longrightarrow> n = 1)) \<and>
     ((k = 1 \<or> k = 3) \<and> answer_at w cmds (k - 1) \<noteq> 0 \<longrightarrow> n = bench_code (answer_at w cmds (k - 1)))"

lemma bench_code_nonzero: "c \<noteq> 0 \<Longrightarrow> bench_code c \<noteq> 0"
  by (simp add: bench_code_def)

lemma second_ends:
  assumes start: "has_run w cmds 2 w1" and cmds: "cmds = [b, g, b, g]" and answers: "answer_at w cmds 0 = 0" "answer_at w cmds 1 = 1"
  shows "\<exists>n k w'. second_attempt spawnable b g summary attempt1 w1 = Inr (n, w') \<and> has_run w cmds k w' \<and> ends_well w cmds n k"
proof (rule bench_one [OF start, of b spawnable summary 2])
  show "2 < length cmds" "cmds ! 2 = b" using cmds by simp_all
next
  fix w2
  assume "run_bench spawnable b summary 2 w1 = Inr (None, w2)" "has_run w cmds 2 w2"
  then show ?thesis using answers by (intro exI [of _ 2] exI [of _ w2]) (simp add: second_attempt_def bindA_def ret_def ends_well_def)
next
  fix w2 c
  assume bench: "run_bench spawnable b summary 2 w1 = Inr (Some c, w2)" "has_run w cmds (Suc 2) w2"
    "c = answer_at w cmds 2 \<or> c = -1 \<and> answer_at w cmds 2 = 0"
  show ?thesis
  proof (cases "c = 0")
    case False
    then show ?thesis using bench answers bench_code_nonzero
      by (intro exI [of _ "bench_code c"] exI [of _ 3] exI [of _ w2])
        (auto simp: second_attempt_def bindA_def ret_def ends_well_def)
  next
    case True
    let ?label = "''gate (attempt 2)''" and ?c = "answer_at w cmds 3"
    show ?thesis
    proof (rule run_one [OF bench(2), of g spawnable ?label])
      show "Suc 2 < length cmds" "cmds ! Suc 2 = g" using cmds by (simp_all add: numeral_eq_Suc)
    next
      fix w3
      assume "run spawnable g ?label w2 = Inr (None, w3)" "has_run w cmds (Suc 2) w3"
      then show ?thesis using bench True answers
        by (intro exI [of _ 2] exI [of _ 3] exI [of _ w3]) (simp add: second_attempt_def bindA_def ret_def ends_well_def)
    next
      fix w3
      assume "run spawnable g ?label w2 = Inr (Some (answer_at w cmds (Suc 2)), w3)" "has_run w cmds (Suc (Suc 2)) w3"
      then have gate: "run spawnable g ?label w2 = Inr (Some ?c, w3)" "has_run w cmds 4 w3" by (simp_all add: numeral_eq_Suc)
      have "\<exists>w'. second_attempt spawnable b g summary attempt1 w1 =
          Inr (if ?c = 0 then 0 else if ?c \<noteq> 1 then 2 else 1, w') \<and> has_run w cmds 4 w'"
        using bench(1) True gate
        by (cases "?c = 0"; cases "?c = 1") (simp_all add: second_attempt_def bindA_def ret_def effect_def)
      moreover have "ends_well w cmds (if ?c = 0 then 0 else if ?c \<noteq> 1 then 2 else 1) 4"
        using bench(3) True answers by (simp add: ends_well_def)
      ultimately show ?thesis by blast
    qed
  qed
qed

lemma attempts_end:
  assumes cmds: "cmds = [b, g, b, g]" and start: "has_run w cmds 0 w1"
  shows "\<exists>n k w'. attempts spawnable b g summary attempt1 w1 = Inr (n, w') \<and> has_run w cmds k w' \<and> ends_well w cmds n k"
proof (rule bench_one [OF start, of b spawnable summary 1])
  show "0 < length cmds" "cmds ! 0 = b" using cmds by simp_all
next
  fix w2
  assume "run_bench spawnable b summary 1 w1 = Inr (None, w2)" "has_run w cmds 0 w2"
  then show ?thesis by (intro exI [of _ 2] exI [of _ 0] exI [of _ w2]) (simp add: attempts_def bindA_def ret_def ends_well_def)
next
  fix w2 c
  assume bench: "run_bench spawnable b summary 1 w1 = Inr (Some c, w2)" "has_run w cmds (Suc 0) w2"
    "c = answer_at w cmds 0 \<or> c = -1 \<and> answer_at w cmds 0 = 0"
  show ?thesis
  proof (cases "c = 0")
    case False
    then show ?thesis using bench bench_code_nonzero
      by (intro exI [of _ "bench_code c"] exI [of _ 1] exI [of _ w2]) (auto simp: attempts_def bindA_def ret_def ends_well_def)
  next
    case True
    let ?label = "''gate (attempt 1)''" and ?c = "answer_at w cmds 1"
    show ?thesis
    proof (rule run_one [OF bench(2), of g spawnable ?label])
      show "Suc 0 < length cmds" "cmds ! Suc 0 = g" using cmds by simp_all
    next
      fix w3
      assume "run spawnable g ?label w2 = Inr (None, w3)" "has_run w cmds (Suc 0) w3"
      then show ?thesis using bench True
        by (intro exI [of _ 2] exI [of _ 1] exI [of _ w3]) (simp add: attempts_def bindA_def ret_def ends_well_def)
    next
      fix w3
      assume "run spawnable g ?label w2 = Inr (Some (answer_at w cmds (Suc 0)), w3)" "has_run w cmds (Suc (Suc 0)) w3"
      then have gate: "run spawnable g ?label w2 = Inr (Some ?c, w3)" "has_run w cmds 2 w3" by (simp_all add: numeral_eq_Suc)
      have zero: "answer_at w cmds 0 = 0" using bench(3) True by simp
      show ?thesis
      proof (cases "?c = 1")
        case False
        then have "\<exists>w'. attempts spawnable b g summary attempt1 w1 = Inr (if ?c = 0 then 0 else 2, w') \<and> has_run w cmds 2 w'"
          using bench(1) True gate by (cases "?c = 0") (simp_all add: attempts_def bindA_def ret_def)
        moreover have "ends_well w cmds (if ?c = 0 then 0 else 2) 2" by (simp add: ends_well_def)
        ultimately show ?thesis by blast
      next
        case True
        have "has_run w cmds 2 (copy_file summary attempt1 w3)" using gate(2) by simp
        from second_ends [OF this cmds zero True, of spawnable summary attempt1]
        show ?thesis using bench(1) \<open>c = 0\<close> gate(1) True by (simp add: attempts_def bindA_def ret_def effect_def)
      qed
    qed
  qed
qed

text \<open>
  C17. The bench gate measures at most twice and decides by the last measurement: it returns, after
  running a prefix of bench, gate, bench, gate and nothing else, and answers 0 exactly when the last
  of them was a gate that answered 0. The third command runs only behind a bench that answered 0 and
  a gate that answered 1, two gates that answer 1 give 1, and a failing bench ends the run with its
  own code (with 2 for code -1).
\<close>

theorem gate_decides_by_last:
  assumes "shlex_split bench = Some b" "shlex_split gate = Some g" "b \<noteq> []" "g \<noteq> []"
    and "attempt1_of (path_of summary) = Inr attempt1" "\<not> is_dir w attempt1"
  shows "\<exists>n k w'. bench_gate spawnable bench gate summary w = Inr (n, w') \<and>
    w_cmds w' = rev (take k [b, g, b, g]) @ w_cmds w \<and> ends_well w [b, g, b, g] n k"
proof -
  let ?w = "unlink w attempt1"
  have "has_run w [b, g, b, g] 0 ?w" by (simp add: has_run_def)
  from attempts_end [OF refl this, of spawnable "path_of summary" attempt1] obtain n k w' where
    "attempts spawnable b g (path_of summary) attempt1 ?w = Inr (n, w')" "has_run w [b, g, b, g] k w'"
    "ends_well w [b, g, b, g] n k" by blast
  moreover have "bench_gate spawnable bench gate summary w = attempts spawnable b g (path_of summary) attempt1 ?w"
    using assms by (simp add: bench_gate_def bindA_def readsE_def drop_stale_def reads_def effect_def)
  ultimately show ?thesis unfolding has_run_def by auto
qed

text \<open>A gate that fails at first and passes behind the second measurement.\<close>

definition noisy_world :: world where
  "noisy_world = bare_world\<lparr>w_files := [([''proj'', ''s.json''], ''{}'')],
     w_reply := (\<lambda>cmds args. ([], if args = [''gate''] \<and> length cmds = 1 then 1 else 0))\<rparr>"

lemma gate_decides_by_last_witness:
  "\<exists>w'. bench_gate (\<lambda>_ _. True) ''bench'' ''gate'' ''s.json'' noisy_world = Inr (0, w') \<and>
     w_cmds w' = [[''gate''], [''bench''], [''gate''], [''bench'']]"
proof -
  have "shlex_split ''bench'' = Some [''bench'']" "shlex_split ''gate'' = Some [''gate'']"
    "attempt1_of (path_of ''s.json'') = Inr (PPath False [''s.attempt1.json''])"
    "\<not> is_dir noisy_world (PPath False [''s.attempt1.json''])" by code_simp+
  from gate_decides_by_last [OF this(1,2) _ _ this(3,4), of "\<lambda>_ _. True"] obtain n k w' where
    run: "bench_gate (\<lambda>_ _. True) ''bench'' ''gate'' ''s.json'' noisy_world = Inr (n, w')"
      "w_cmds w' = rev (take k [[''bench''], [''gate''], [''bench''], [''gate'']]) @ w_cmds noisy_world" by auto
  have "case bench_gate (\<lambda>_ _. True) ''bench'' ''gate'' ''s.json'' noisy_world of Inr (n, v) \<Rightarrow> n = 0 \<and> length (w_cmds v) = 4
      | Inl e \<Rightarrow> False" by code_simp
  then have "n = 0" "length (w_cmds w') = 4" using run(1) by simp_all
  moreover from this(2) have "k \<ge> 4" using run(2) by (simp add: noisy_world_def bare_world_def)
  ultimately show ?thesis using run by (simp add: noisy_world_def bare_world_def)
qed

end
