(* ===== verification/File_List_Audit.thy ===== *)
theory File_List_Audit
  imports Json_Facts Actions
begin

text \<open>
  \<open>scripts/check-file-list.py\<close>: the File List of a story against what git says changed. An event
  of git names the directory it ran in before its arguments; an event that answers no 0 is also the
  failure to start git. The arguments are as \<open>argparse\<close> parsed them, and the message of a
  \<open>ToolingError\<close> (the standard error) is not modelled: \<open>None\<close> stands for it.
\<close>

section \<open>The File List of a story\<close>

definition rx_hashes :: rx where   \<comment> \<open>\<open>#{1,6}\<close>\<close>
  "rx_hashes = RSeq (RChr (\<lambda>c. c = CHR ''#'')) (rupto 5 (RChr (\<lambda>c. c = CHR ''#'')))"

definition rx_file_list :: rx where
  "rx_file_list = rseq [RBol False, rupto 3 rspace, RGrp 1 rx_hashes, rplus rspace, rilit ''file'', rplus rspace,
     rilit ''list'', RWordB]"

definition rx_any_heading :: rx where
  "rx_any_heading = rseq [RBol False, rupto 3 rspace, RGrp 1 rx_hashes, rplus rspace, rnspace]"

definition rx_bullet :: rx where
  "rx_bullet = rseq [RBol False, rstar rspace, roneof ''-*+'', rplus rspace, RGrp 1 (rplus rdot), REol False]"

definition path_char :: "char \<Rightarrow> bool" where   \<comment> \<open>\<open>[\w./@+\-]\<close>\<close>
  "path_char c \<longleftrightarrow> is_word c \<or> c \<in> set ''./@+-''"

text \<open>\<open>re.sub(r"^\*\*(.*?)\*\*", r"\1", s)\<close>: the text has no line breaks.\<close>

definition drop_bold :: "string \<Rightarrow> string" where
  "drop_bold s =
     (if startswith s ''**'' then (case split_once ''**'' (drop 2 s) of Some (a, b) \<Rightarrow> a @ b | None \<Rightarrow> s) else s)"

definition first_word :: "string \<Rightarrow> string" where
  "first_word s = (case words s of [] \<Rightarrow> [] | p # _ \<Rightarrow> p)"

definition raw_token :: "string \<Rightarrow> string" where
  "raw_token content =
     (if startswith content ''`'' then
        (case split_once ''`'' (drop 1 content) of
           Some (a, _) \<Rightarrow> if a \<noteq> [] then a else first_word (drop 1 content)
         | None \<Rightarrow> first_word (drop 1 content))
      else first_word content)"

definition first_path_token :: "string \<Rightarrow> string option" where
  "first_path_token content =
     (let t1 = rstrip_chars '',;:'' (strip_chars ''`'' (strip (raw_token (drop_bold (strip content)))));
          t2 = (if startswith t1 ''./'' then drop 2 t1 else t1);
          token = (if endswith t2 ''.'' then butlast t2 else t2)
      in if token = [] \<or> \<not> list_all path_char token then None else Some token)"

fun heading_level :: "string list \<Rightarrow> (nat \<times> string list) option" where   \<comment> \<open>and the lines below it\<close>
  "heading_level [] = None"
| "heading_level (l # ls) =
     (case re_match rx_file_list l of Some m \<Rightarrow> Some (length (rm_grp m 1), ls) | None \<Rightarrow> heading_level ls)"

definition ends_section :: "nat \<Rightarrow> string \<Rightarrow> bool" where
  "ends_section level line =
     (case re_match rx_any_heading line of Some m \<Rightarrow> length (rm_grp m 1) \<le> level | None \<Rightarrow> False)"

definition bullet_path :: "string \<Rightarrow> string option" where
  "bullet_path line = (case re_match rx_bullet line of Some m \<Rightarrow> first_path_token (rm_grp m 1) | None \<Rightarrow> None)"

definition add_path :: "string \<Rightarrow> string list \<Rightarrow> string list" where
  "add_path line paths =
     (case bullet_path line of Some token \<Rightarrow> if token \<in> set paths then paths else paths @ [token] | None \<Rightarrow> paths)"

definition extract_file_list :: "string \<Rightarrow> string list \<times> bool" where
  "extract_file_list story_text =
     (case heading_level (splitlines story_text) of
        None \<Rightarrow> ([], False)
      | Some (level, rest) \<Rightarrow> (fold add_path (takeWhile (\<lambda>l. \<not> ends_section level l) rest) [], True))"

definition looks_like_path :: "string \<Rightarrow> string list \<Rightarrow> bool" where
  "looks_like_path token tracked \<longleftrightarrow> contains token ''/'' \<or> contains token ''.'' \<or> token \<in> set tracked"

section \<open>What git says\<close>

definition unquote :: "string \<Rightarrow> string" where
  "unquote path =
     (let p = strip path in
      if 2 \<le> length p \<and> startswith p [dquote] \<and> endswith p [dquote] then
        (case json_loads p of Inr (VStr s) \<Rightarrow> s | _ \<Rightarrow> butlast (tl p))   \<comment> \<open>text in quotes is a string or an error\<close>
      else p)"

definition describe_status :: "string \<Rightarrow> string res" where
  "describe_status code =
     (case code of
        i # w # _ \<Rightarrow>
          Inr (if CHR ''D'' \<in> {i, w} then ''deleted''
               else if CHR ''A'' \<in> {i, w} then ''added''
               else if CHR ''M'' \<in> {i, w} then ''modified''
               else if CHR ''?'' \<in> {i, w} then ''untracked''
               else ''changed ('' @ strip code @ '')'')
      | _ \<Rightarrow> Inl IndexError)"

definition porcelain_line :: "string \<Rightarrow> string dict \<Rightarrow> string dict res" where
  "porcelain_line raw changes =
     (let code = take 2 raw; rest = drop 3 raw;
          moved = CHR ''R'' \<in> set code \<or> CHR ''C'' \<in> set code;
          label = (if CHR ''R'' \<in> set code then ''renamed'' else ''copied'')
      in if strip raw = [] then Inr changes
         else if code = ''??'' then Inr (dict_set (unquote rest) ''untracked'' changes)
         else
           (case (if moved then split_once '' -> '' rest else None) of
              Some (old, new) \<Rightarrow>
                Inr (dict_set (unquote new) (label @ '' (new path)'') (dict_set (unquote old) (label @ '' (old path)'') changes))
            | None \<Rightarrow> ebind (describe_status code) (\<lambda>l. Inr (dict_set (unquote rest) l changes))))"

definition parse_porcelain :: "string \<Rightarrow> string dict res" where
  "parse_porcelain output = efold porcelain_line (splitlines output) []"

definition run_git :: "string list \<Rightarrow> ppath \<Rightarrow> string option act" where
  "run_git args cwd =
     bindA (command ([''cd'', path_str cwd, ''git''] @ args)) (\<lambda>(out, code). ret (if code = 0 then Some out else None))"

definition and_then :: "'a option act \<Rightarrow> ('a \<Rightarrow> 'b option act) \<Rightarrow> 'b option act" where
  "and_then m f = bindA m (\<lambda>r. case r of None \<Rightarrow> ret None | Some x \<Rightarrow> f x)"

definition repo_root :: "ppath \<Rightarrow> ppath option act" where
  "repo_root start = and_then (run_git [''rev-parse'', ''--show-toplevel''] start) (\<lambda>out. ret (Some (path_of (strip out))))"

record base_info =
  bi_ref :: string
  bi_merge_base :: "string option"
  bi_note :: "string option"

definition base_start :: "string \<Rightarrow> base_info" where
  "base_start base = \<lparr>bi_ref = base, bi_merge_base = None, bi_note = None\<rparr>"

definition find_merge_base :: "ppath \<Rightarrow> string \<Rightarrow> (string \<times> base_info) act" where
  "find_merge_base root base =
     (if base = [] then ret ([], base_start base)
      else
        bindA (run_git [''merge-base'', ''HEAD'', base] root) (\<lambda>found. ret
          (case found of
             Some out \<Rightarrow> (strip out, base_start base)
           | None \<Rightarrow> ([], (base_start base)\<lparr>bi_note := Some
               (''base ref '' @ [squote] @ base @ [squote] @ '' not found; working tree only'')\<rparr>))))"

definition add_committed :: "string \<Rightarrow> string dict \<Rightarrow> string dict" where
  "add_committed path changes =
     (if unquote path = [] then changes else dict_set (unquote path) ''committed on branch'' changes)"

definition committed_changes :: "ppath \<Rightarrow> string \<Rightarrow> string \<Rightarrow> base_info \<Rightarrow> (string dict \<times> base_info) option act" where
  "committed_changes root base merge_base info =
     (if merge_base = [] then ret (Some ([], info))
      else
        and_then (run_git [''rev-parse'', ''HEAD''] root) (\<lambda>out.
        let info1 = info\<lparr>bi_merge_base := Some (take 12 merge_base)\<rparr> in
        if merge_base = strip out then
          ret (Some ([], info1\<lparr>bi_note := Some
            (''HEAD has not diverged from '' @ [squote] @ base @ [squote] @ ''; working tree only'')\<rparr>))
        else
          and_then (run_git [''diff'', ''--name-only'', merge_base, ''HEAD''] root) (\<lambda>committed.
          ret (Some (fold add_committed (splitlines committed) [], info1)))))"

definition collect_git_changes :: "ppath \<Rightarrow> string \<Rightarrow> (string dict \<times> base_info) option act" where
  "collect_git_changes root base =
     bindA (find_merge_base root base) (\<lambda>(merge_base, info).
     and_then (committed_changes root base merge_base info) (\<lambda>(changes, info1).
     and_then (run_git [''status'', ''--porcelain'', ''--untracked-files=all''] root) (\<lambda>porcelain.
     bindA (readsE (\<lambda>_. parse_porcelain porcelain)) (\<lambda>dirty.
     ret (Some (dict_update changes dirty, info1))))))"

section \<open>The audit\<close>

definition is_ignored :: "string list \<Rightarrow> string \<Rightarrow> bool" where
  "is_ignored patterns path \<longleftrightarrow> (\<exists>pat \<in> set patterns. fnmatch pat path)"

definition apply_ignores :: "string dict \<Rightarrow> string list \<Rightarrow> string dict \<times> string list" where
  "apply_ignores paths patterns =
     (if patterns = [] then (paths, [])
      else (List.filter (\<lambda>p. \<not> is_ignored patterns (fst p)) paths,
            List.filter (is_ignored patterns) (List.map fst paths)))"

record audit_result =
  au_story :: string
  au_section_found :: bool
  au_base :: base_info
  au_declared_count :: nat
  au_changed_count :: nat
  au_missing :: "string dict"
  au_unchanged :: "string list"
  au_ignored :: "string list"
  au_clean :: bool

definition is_declared :: "string list \<Rightarrow> string \<Rightarrow> bool" where
  "is_declared declared path \<longleftrightarrow>
     path \<in> set declared \<or> (\<exists>d \<in> set (List.filter (\<lambda>p. endswith p ''/'') declared). startswith path d)"

definition is_satisfied :: "string dict \<Rightarrow> string \<Rightarrow> bool" where
  "is_satisfied changed entry =
     (if endswith entry ''/'' then \<exists>p \<in> set changed. startswith (fst p) entry else dict_has entry changed)"

definition shown_path :: "ppath \<Rightarrow> ppath \<Rightarrow> string" where
  "shown_path path root = (case relative_to path root of Some p \<Rightarrow> path_str p | None \<Rightarrow> path_str path)"

definition declared_paths :: "string \<Rightarrow> string list \<Rightarrow> string list" where
  "declared_paths story_text tracked = List.filter (\<lambda>p. looks_like_path p tracked) (fst (extract_file_list story_text))"

definition audit_of :: "string \<Rightarrow> string \<Rightarrow> string list \<Rightarrow> string list \<Rightarrow> string dict \<Rightarrow> base_info \<Rightarrow> audit_result" where
  "audit_of shown story_text tracked ignores all_changed info =
     (let section_found = snd (extract_file_list story_text);
          declared = declared_paths story_text tracked;
          changed = fst (apply_ignores all_changed ignores);
          missing = List.filter (\<lambda>p. \<not> is_declared declared (fst p)) (sort_by fst changed);
          unchanged = List.filter (\<lambda>p. \<not> is_satisfied changed p) declared
      in \<lparr>au_story = shown, au_section_found = section_found, au_base = info,
          au_declared_count = length declared, au_changed_count = length changed,
          au_missing = missing, au_unchanged = unchanged, au_ignored = snd (apply_ignores all_changed ignores),
          au_clean = (missing = [] \<and> unchanged = [] \<and> section_found)\<rparr>)"

definition story_file_of :: "world \<Rightarrow> string \<Rightarrow> ppath" where
  "story_file_of w story_path =
     (if is_absolute (path_of story_path) then path_of story_path else resolve w (path_join (cwd_path w) (path_of story_path)))"

definition story_text_of :: "world \<Rightarrow> string \<Rightarrow> string option" where
  "story_text_of w story_path =
     (let story_file = story_file_of w story_path in
      if \<not> is_file w story_file then None
      else (case read_file w story_file of Inr s \<Rightarrow> Some s | Inl _ \<Rightarrow> None))"

definition audit :: "string \<Rightarrow> string \<Rightarrow> string list \<Rightarrow> ppath \<Rightarrow> audit_result option act" where
  "audit story_path base ignores root =
     bindA (reads (\<lambda>w. story_file_of w story_path)) (\<lambda>story_file.
     and_then (reads (\<lambda>w. story_text_of w story_path)) (\<lambda>story_text.
     and_then (run_git [''ls-files''] root) (\<lambda>tracked.
     and_then (collect_git_changes root base) (\<lambda>(changed, info).
     ret (Some (audit_of (shown_path story_file root) story_text (splitlines tracked) ignores changed info))))))"

section \<open>The report\<close>

definition opt_text :: "string option \<Rightarrow> pyval" where
  "opt_text s = (case s of None \<Rightarrow> VNone | Some t \<Rightarrow> VStr t)"

definition audit_json :: "audit_result \<Rightarrow> pyval" where
  "audit_json r =
     VDict
       [(''story'', VStr (au_story r)), (''section_found'', VBool (au_section_found r)),
        (''base'', VDict [(''ref'', VStr (bi_ref (au_base r))), (''merge_base'', opt_text (bi_merge_base (au_base r))),
           (''note'', opt_text (bi_note (au_base r)))]),
        (''declared_count'', VInt (int (au_declared_count r))), (''changed_count'', VInt (int (au_changed_count r))),
        (''missing_from_file_list'', VDict (List.map (\<lambda>p. (fst p, VStr (snd p))) (au_missing r))),
        (''declared_but_unchanged'', VList (List.map VStr (au_unchanged r))),
        (''ignored'', VList (List.map VStr (au_ignored r))), (''clean'', VBool (au_clean r))]"

definition base_bits :: "audit_result \<Rightarrow> string list" where
  "base_bits r =
     [''base '' @ bi_ref (au_base r)] @
     (case bi_merge_base (au_base r) of Some m \<Rightarrow> if m = [] then [] else [''merge-base '' @ m] | None \<Rightarrow> []) @
     [show_nat (au_changed_count r) @ '' changed in git'', show_nat (au_declared_count r) @ '' declared'']"

definition missing_lines :: "string dict \<Rightarrow> string list" where
  "missing_lines missing =
     (if missing = [] then []
      else [[], ''MISSING FROM FILE LIST (changed in git, not declared) ['' @ show_nat (length missing) @ '']''] @
        List.map (\<lambda>p. ''  + '' @ fst p @ ''  ('' @ snd p @ '')'') missing)"

definition unchanged_lines :: "string list \<Rightarrow> string list" where
  "unchanged_lines unchanged =
     (if unchanged = [] then []
      else [[], ''DECLARED BUT UNCHANGED (in File List, no git change) ['' @ show_nat (length unchanged) @ '']''] @
        List.map (\<lambda>p. ''  - '' @ p) unchanged)"

definition verdict_line :: "audit_result \<Rightarrow> string" where
  "verdict_line r =
     (if au_clean r then ''CLEAN: File List matches git exactly.''
      else
        (let total = length (au_missing r) + length (au_unchanged r) in
         ''DRIFT: '' @ show_nat total @ '' discrepanc'' @ (if total = 1 then ''y'' else ''ies'') @ ''. '' @
         ''Per team agreement A9 both directions are HIGH findings: fix the '' @
         ''File List (or the code) before declaring review.''))"

definition render_text :: "audit_result \<Rightarrow> string" where
  "render_text r =
     join [nl]
       ([''FILE LIST AUDIT: '' @ au_story r, ''  '' @ join '' | '' (base_bits r)] @
        (case bi_note (au_base r) of Some n \<Rightarrow> if n = [] then [] else [''  note: '' @ n] | None \<Rightarrow> []) @
        (if au_ignored r = [] then [] else [''  ignored by --ignore: '' @ show_nat (length (au_ignored r))]) @
        (if au_section_found r then []
         else [[], ''  NO `### File List` SECTION FOUND in the story.'', ''  Every changed file below is undeclared.'']) @
        missing_lines (au_missing r) @ unchanged_lines (au_unchanged r) @ [[], verdict_line r])"

record audit_args =
  aa_story :: string
  aa_base :: string
  aa_ignore :: "string list"
  aa_json :: bool

definition audited :: "audit_args \<Rightarrow> audit_result option act" where
  "audited args =
     bindA (reads cwd_path) (\<lambda>cwd.
     and_then (repo_root cwd) (audit (aa_story args) (aa_base args) (aa_ignore args)))"

definition report_text :: "audit_args \<Rightarrow> audit_result \<Rightarrow> string" where
  "report_text args r = (if aa_json args then json_dumps style_indent2 (sort_keys (audit_json r)) else render_text r)"

definition check_file_list :: "audit_args \<Rightarrow> int act" where   \<comment> \<open>\<open>main\<close>\<close>
  "check_file_list args =
     bindA (audited args) (\<lambda>found.
     case found of
       None \<Rightarrow> ret 2
     | Some r \<Rightarrow> bindA (effect (print_line (report_text args r))) (\<lambda>_. ret (if au_clean r then 0 else 1)))"

section \<open>The verdict\<close>

text \<open>An entry covers a path: a directory's covers what lies below it, any other only itself.\<close>

definition covers :: "string \<Rightarrow> string \<Rightarrow> bool" where
  "covers entry path \<longleftrightarrow> (if endswith entry ''/'' then startswith path entry else path = entry)"

lemma startswith_refl [simp]: "startswith s s"
  by (simp add: startswith_def)

lemma is_declared_covers: "is_declared declared path \<longleftrightarrow> (\<exists>e \<in> set declared. covers e path)"
proof
  assume "is_declared declared path"
  then consider "path \<in> set declared" | d where "d \<in> set declared" "endswith d ''/''" "startswith path d"
    unfolding is_declared_def by auto
  then show "\<exists>e \<in> set declared. covers e path"
    unfolding covers_def by cases (metis startswith_refl, metis)
qed (auto simp: is_declared_def covers_def split: if_splits)

lemma is_satisfied_covers: "is_satisfied changed entry \<longleftrightarrow> (\<exists>p \<in> set changed. covers entry (fst p))"
proof (cases "endswith entry ''/''")
  case False
  then show ?thesis by (auto simp: is_satisfied_def covers_def dict_has_def map_of_eq_None_iff)
qed (simp add: is_satisfied_def covers_def)

text \<open>What git says changed, less what the options ignore.\<close>

definition audited_paths :: "string list \<Rightarrow> string dict \<Rightarrow> string set" where
  "audited_paths ignores changes = {p \<in> fst ` set changes. \<not> is_ignored ignores p}"

lemma kept_changes: "fst ` set (fst (apply_ignores changes ignores)) = audited_paths ignores changes"
  by (force simp: apply_ignores_def audited_paths_def is_ignored_def)

text \<open>
  The specification of the audit: the story has the section, every changed path is covered by a
  declared entry, and every declared entry covers a changed path.
\<close>

definition list_matches :: "string \<Rightarrow> string list \<Rightarrow> string list \<Rightarrow> string dict \<Rightarrow> bool" where
  "list_matches story_text tracked ignores changes \<longleftrightarrow>
     (let declared = set (declared_paths story_text tracked); changed = audited_paths ignores changes in
      snd (extract_file_list story_text) \<and>
      (\<forall>p \<in> changed. \<exists>e \<in> declared. covers e p) \<and> (\<forall>e \<in> declared. \<exists>p \<in> changed. covers e p))"

lemma audit_clean: "au_clean (audit_of shown story_text tracked ignores changes info) \<longleftrightarrow> list_matches story_text tracked ignores changes"
proof -
  let ?declared = "declared_paths story_text tracked" and ?kept = "fst (apply_ignores changes ignores)"
  have "(List.filter (\<lambda>p. \<not> is_declared ?declared (fst p)) (sort_by fst ?kept) = []) \<longleftrightarrow>
      (\<forall>p \<in> fst ` set ?kept. \<exists>e \<in> set ?declared. covers e p)"
    by (auto simp: filter_empty_conv is_declared_covers)
  moreover have "(List.filter (\<lambda>p. \<not> is_satisfied ?kept p) ?declared = []) \<longleftrightarrow>
      (\<forall>e \<in> set ?declared. \<exists>p \<in> fst ` set ?kept. covers e p)"
    by (auto simp: filter_empty_conv is_satisfied_covers)
  ultimately show ?thesis by (auto simp: audit_of_def list_matches_def kept_changes Let_def)
qed

text \<open>What an audit gathers: the text of the story and the answers of git.\<close>

definition gathers :: "audit_args \<Rightarrow> world \<Rightarrow> string \<Rightarrow> string list \<Rightarrow> string dict \<Rightarrow> audit_result \<Rightarrow> bool" where
  "gathers args w story_text tracked changes r \<longleftrightarrow>
     (\<exists>root w1 w2 w3 info shown.
        repo_root (cwd_path w) w = Inr (Some root, w1) \<and> story_text_of w1 (aa_story args) = Some story_text \<and>
        (\<exists>out. run_git [''ls-files''] root w1 = Inr (Some out, w2) \<and> tracked = splitlines out) \<and>
        collect_git_changes root (aa_base args) w2 = Inr (Some (changes, info), w3) \<and>
        r = audit_of shown story_text tracked (aa_ignore args) changes info)"

lemma and_then_Some:
  "and_then m f w = Inr (Some y, w') \<longleftrightarrow> (\<exists>x w1. m w = Inr (Some x, w1) \<and> f x w1 = Inr (Some y, w'))"
  by (auto simp: and_then_def bindA_Inr act_Inr split: option.splits)

lemma audited_gathers:
  "audited args w = Inr (Some r, w') \<Longrightarrow> \<exists>story_text tracked changes. gathers args w story_text tracked changes r"
proof -
  assume "audited args w = Inr (Some r, w')"
  then obtain root w1 story_text out w2 changes info where g: "repo_root (cwd_path w) w = Inr (Some root, w1)"
    "Some story_text = story_text_of w1 (aa_story args)" "run_git [''ls-files''] root w1 = Inr (Some out, w2)"
    "collect_git_changes root (aa_base args) w2 = Inr (Some (changes, info), w')"
    "r = audit_of (shown_path (story_file_of w1 (aa_story args)) root) story_text (splitlines out) (aa_ignore args) changes info"
    unfolding audited_def audit_def by (simp add: and_then_Some act_Inr bindA_Inr) (auto simp: reads_def ret_def)
  show ?thesis unfolding gathers_def using g(1) g(2) [symmetric] g(3-5) by blast
qed

text \<open>Nothing is printed before the report.\<close>

definition prints_nothing :: "'a act \<Rightarrow> bool" where
  "prints_nothing m \<longleftrightarrow> (\<forall>w x w'. m w = Inr (x, w') \<longrightarrow> w_out w' = w_out w)"

lemma silent_simps [simp]: "prints_nothing (ret x)" "prints_nothing (reads f)" "prints_nothing (readsE g)" "prints_nothing (command cs)"
  by (auto simp: prints_nothing_def act_Inr)

lemma silent_bind: "prints_nothing m \<Longrightarrow> (\<And>x. prints_nothing (f x)) \<Longrightarrow> prints_nothing (bindA m f)"
  unfolding prints_nothing_def bindA_Inr by metis

lemma silent_then: "prints_nothing m \<Longrightarrow> (\<And>x. prints_nothing (f x)) \<Longrightarrow> prints_nothing (and_then m f)"
  unfolding and_then_def by (rule silent_bind) (auto split: option.split)

lemma silent_git: "prints_nothing (run_git cs cwd)"
  unfolding run_git_def by (rule silent_bind) (auto split: prod.split)

lemma silent_collect: "prints_nothing (collect_git_changes root base)"
  unfolding collect_git_changes_def find_merge_base_def committed_changes_def Let_def
  by (intro silent_bind silent_then silent_git) (auto split: prod.split intro!: silent_bind silent_then silent_git)

lemma silent_audited: "prints_nothing (audited args)"
  unfolding audited_def audit_def repo_root_def
  by (intro silent_bind silent_then silent_git silent_collect) (auto split: prod.split intro!: silent_bind silent_then silent_git silent_collect)

text \<open>
  C34. The audit's exit code is the comparison of two sets: a run either fails with code 2 and prints
  nothing, or it printed one report about the story and the answers of git, and its code is 0 exactly
  when the story has the section, each path that git says changed (and no option ignores) is covered
  by a declared entry, and each declared entry covers such a path; otherwise it is 1.
\<close>

theorem audit_compares:
  assumes "check_file_list args w = Inr (code, w')"
  shows "code = 2 \<and> w_out w' = w_out w \<or>
    (\<exists>story_text tracked changes r. gathers args w story_text tracked changes r \<and>
       w_out w' = w_out w @ [report_text args r] \<and>
       code = (if list_matches story_text tracked (aa_ignore args) changes then 0 else 1))"
proof -
  obtain found w1 where found: "audited args w = Inr (found, w1)" and rest: "(case found of None \<Rightarrow> ret 2
      | Some r \<Rightarrow> bindA (effect (print_line (report_text args r))) (\<lambda>_. ret (if au_clean r then 0 else 1))) w1 = Inr (code, w')"
    using assms unfolding check_file_list_def bindA_Inr by blast
  have out: "w_out w1 = w_out w" using silent_audited found unfolding prints_nothing_def by blast
  show ?thesis
  proof (cases found)
    case None
    then show ?thesis using rest out by (simp add: ret_def)
  next
    case (Some r)
    then have r: "code = (if au_clean r then 0 else 1)" "w_out w' = w_out w @ [report_text args r]"
      using rest out by (auto simp: act_Inr ret_def effect_def print_line_def)
    obtain story_text tracked changes where g: "gathers args w story_text tracked changes r"
      using audited_gathers found Some by blast
    then have "au_clean r = list_matches story_text tracked (aa_ignore args) changes"
      unfolding gathers_def using audit_clean by blast
    with r g show ?thesis by auto
  qed
qed

text \<open>A branch with one committed and one changed file, both declared.\<close>

definition audit_args0 :: audit_args where
  "audit_args0 = \<lparr>aa_story = ''s.md'', aa_base = ''main'', aa_ignore = [], aa_json = False\<rparr>"

definition audit_story :: string where
  "audit_story = ''# Story'' @ [nl] @ ''### File List'' @ [nl] @ ''- `src/a.py` (modified)'' @ [nl] @ ''- docs/'' @ [nl]"

definition git_answer :: "string list \<Rightarrow> string" where
  "git_answer args =
     (if args = [''rev-parse'', ''--show-toplevel''] then ''/proj''
      else if args = [''merge-base'', ''HEAD'', ''main''] then ''c0''
      else if args = [''rev-parse'', ''HEAD''] then ''c1''
      else if args = [''diff'', ''--name-only'', ''c0'', ''HEAD''] then ''docs/x.md'' @ [nl]
      else if args = [''status'', ''--porcelain'', ''--untracked-files=all''] then '' M src/a.py'' @ [nl]
      else [])"

definition audit_world :: world where
  "audit_world = bare_world\<lparr>w_files := [([''proj'', ''s.md''], audit_story)],
     w_reply := (\<lambda>_ args. (git_answer (drop 3 args), 0))\<rparr>"

lemma audit_compares_witness:
  "\<exists>w' story_text tracked changes r. check_file_list audit_args0 audit_world = Inr (0, w') \<and>
     gathers audit_args0 audit_world story_text tracked changes r \<and> list_matches story_text tracked [] changes"
proof -
  have "case check_file_list audit_args0 audit_world of Inr (c, w') \<Rightarrow> c = 0 | Inl e \<Rightarrow> False" by code_simp
  then obtain w' where w': "check_file_list audit_args0 audit_world = Inr (0, w')" by (auto split: sum.splits)
  moreover have "aa_ignore audit_args0 = []" by (simp add: audit_args0_def)
  ultimately show ?thesis using audit_compares [OF w'] by (simp split: if_splits) blast
qed

section \<open>Reading back a written list\<close>

text \<open>An entry that a story can name in backquotes as it is.\<close>

definition list_entry :: "string \<Rightarrow> bool" where
  "list_entry p \<longleftrightarrow> p \<noteq> [] \<and> list_all path_char p \<and> \<not> startswith p ''./'' \<and> \<not> endswith p ''.''"

definition listed_line :: "string \<Rightarrow> string" where
  "listed_line p = ''- `'' @ p @ ''`''"

definition text_of_lines :: "string list \<Rightarrow> string" where
  "text_of_lines ls = concat (List.map (\<lambda>l. l @ [nl]) ls)"

lemma lines_aux_line:
  "\<forall>c \<in> set l. \<not> is_linebreak c \<Longrightarrow> lines_aux acc (l @ nl # s) = (rev acc @ l) # lines_aux [] s"
proof (induction l arbitrary: acc)
  case Nil
  show ?case by (simp add: nl_def is_linebreak_def)
next
  case (Cons c l)
  then have "c \<noteq> CHR 0x0D" by (auto simp: is_linebreak_def)
  with Cons show ?case by simp
qed

lemma splitlines_text: "\<forall>l \<in> set ls. \<forall>c \<in> set l. \<not> is_linebreak c \<Longrightarrow> splitlines (text_of_lines ls) = ls"
  by (induction ls) (simp_all add: splitlines_def text_of_lines_def lines_aux_line)

lemma path_char_facts:
  assumes "path_char c"
  shows "\<not> is_linebreak c" "\<not> is_space c" "c \<noteq> CHR ''`''" "c \<notin> set '',;:''" "c \<noteq> CHR 0x0A"
  using assms by (auto simp: path_char_def is_word_def is_space_def is_linebreak_def is_lower_def is_upper_def is_digit_def)

lemma entry_not_heading: "ends_section level (listed_line p) = False"
proof -
  have "rrun rx_any_heading ([], listed_line p, []) = []"
    by (simp add: listed_line_def rx_any_heading_def rx_hashes_def rspace_def ropt_def is_space_def rrun.simps(6) numeral_eq_Suc)
  then show ?thesis by (simp add: ends_section_def re_match_def match_at_def)
qed

lemma entry_bullet:
  assumes "list_all path_char p"
  shows "\<exists>m. re_match rx_bullet (listed_line p) = Some m \<and> rm_grp m 1 = ''`'' @ p @ ''`''"
proof -
  have "takeWhile (\<lambda>c. c \<noteq> CHR 0x0A) (p @ ''`'') = p @ ''`''"
    using assms path_char_facts(5) by (auto simp: takeWhile_eq_all_conv list_all_iff)
  then show ?thesis
    by (simp add: re_match_def match_at_def listed_line_def rx_bullet_def rx_abbrevs rrun_star_chr rrun.simps(6) is_space_def
        match_of_def rm_grp_def rm_group_def)
qed

lemma no_backquote: "CHR ''`'' \<notin> set p \<Longrightarrow> split_once ''`'' (p @ ''`'') = Some (p, [])"
  by (induction p) auto

lemma rstrip_plain: "p \<noteq> [] \<Longrightarrow> \<not> is_space (last p) \<Longrightarrow> rstrip p = p"
  by (cases p rule: rev_cases) (simp_all add: rstrip_def)

lemma strip_plain:
  assumes "list_all path_char p"
  shows "strip p = p"
proof (cases "p = []")
  case False
  then have "\<not> is_space (hd p)" "\<not> is_space (last p)" using assms path_char_facts(2) by (simp_all add: list_all_iff)
  moreover from this(1) False have "lstrip p = p" by (cases p) (simp_all add: lstrip_def)
  ultimately show ?thesis using False by (simp add: strip_def rstrip_plain)
qed (simp add: strip_def lstrip_def rstrip_def)

lemma strip_quoted: "strip (''`'' @ p @ ''`'') = ''`'' @ p @ ''`''"
  by (simp add: strip_def lstrip_def rstrip_def is_space_def)

lemma rstrip_chars_plain: "p = [] \<or> last p \<notin> set cs \<Longrightarrow> rstrip_chars cs p = p"
  by (cases p rule: rev_cases) (simp_all add: rstrip_chars_def)

lemma lstrip_chars_plain: "p = [] \<or> hd p \<notin> set cs \<Longrightarrow> lstrip_chars cs p = p"
  by (cases p) (simp_all add: lstrip_chars_def)

lemma entry_token:
  assumes "list_entry p"
  shows "first_path_token (''`'' @ p @ ''`'') = Some p"
proof -
  have p: "p \<noteq> []" "list_all path_char p" "\<not> startswith p ''./''" "\<not> endswith p ''.''"
    using assms by (simp_all add: list_entry_def)
  have last: "path_char (last p)" "path_char (hd p)" using p(1,2) by (simp_all add: list_all_iff)
  have "CHR ''`'' \<notin> set p" using p(2) path_char_facts(3) by (auto simp: list_all_iff)
  then have raw: "raw_token (''`'' @ p @ ''`'') = p" using p(1) by (simp add: raw_token_def startswith_def no_backquote)
  have "drop_bold (''`'' @ p @ ''`'') = ''`'' @ p @ ''`''" by (simp add: drop_bold_def startswith_def)
  moreover have "strip_chars ''`'' p = p" "rstrip_chars '',;:'' p = p"
    using last path_char_facts(3,4) [of "last p"] path_char_facts(3) [of "hd p"]
    by (simp_all add: strip_chars_def rstrip_chars_plain lstrip_chars_plain)
  ultimately show ?thesis
    using p raw by (simp add: first_path_token_def strip_quoted strip_plain Let_def del: append_Cons append.simps)
qed

lemma entry_path: "list_entry p \<Longrightarrow> bullet_path (listed_line p) = Some p"
  using entry_bullet [of p] entry_token by (auto simp: bullet_path_def list_entry_def)

lemma add_entries:
  "list_all list_entry ps \<Longrightarrow> distinct (qs @ ps) \<Longrightarrow> fold add_path (List.map listed_line ps) qs = qs @ ps"
  by (induction ps arbitrary: qs) (auto simp: add_path_def entry_path)

text \<open>
  A File List written in the form that the stories use is read back: under the heading, one
  bullet with a path in backquotes for each of the distinct paths, and these paths are what the audit
  takes as declared.
\<close>

theorem written_list_read_back:
  assumes "list_all list_entry ps" "distinct ps"
  shows "extract_file_list (text_of_lines (''### File List'' # List.map listed_line ps)) = (ps, True)"
proof -
  let ?ls = "''### File List'' # List.map listed_line ps"
  have "\<forall>c \<in> set p. \<not> is_linebreak c" if "p \<in> set ps" for p
    using assms(1) that path_char_facts(1) by (auto simp: list_all_iff list_entry_def)
  then have "splitlines (text_of_lines ?ls) = ?ls"
    by (intro splitlines_text) (auto simp: listed_line_def is_linebreak_def)
  moreover have below: "takeWhile (\<lambda>l. \<not> ends_section level l) (List.map listed_line ps) = List.map listed_line ps" for level
    by (simp add: takeWhile_eq_all_conv entry_not_heading)
  moreover have "map_option (\<lambda>m. rm_grp m 1) (re_match rx_file_list ''### File List'') = Some ''###''" by code_simp
  ultimately show ?thesis using add_entries [OF assms(1), of "[]"] assms(2)
    by (auto simp: extract_file_list_def below)
qed

lemma written_list_read_back_witness:
  "extract_file_list (text_of_lines [''### File List'', ''- `src/a.py`'', ''- `Makefile`'']) = ([''src/a.py'', ''Makefile''], True)"
proof -
  have "list_all list_entry [''src/a.py'', ''Makefile'']" by code_simp
  from written_list_read_back [OF this] show ?thesis by (simp add: listed_line_def)
qed

end
