(* ===== verification/Help_Csv.thy ===== *)
theory Help_Csv
  imports Actions
begin

text \<open>
  \<open>.agents/skills/bmad-bmb-setup/scripts/merge-help-csv.py\<close>: the rows of a module in a shared CSV
  file are replaced by those of a source file. With it the part of Python's \<open>csv\<close> it uses: the reader
  and the writer of the dialect \<open>excel\<close>, without the limit on the length of a field. The
  arguments are as \<open>argparse\<close> parsed them, an option that was not given is the empty string; the
  codes of a source are a list in the order of their rows, the source iterates over a set.
\<close>

section \<open>Reading CSV\<close>

datatype csv_mode = StartRecord | StartField | InField | InQuoted | QuoteInQuoted | EatCrnl

type_synonym csv_state = "csv_mode \<times> string \<times> string list"   \<comment> \<open>the field and the fields so far\<close>

definition csv_start :: csv_state where
  "csv_start = (StartRecord, [], [])"

definition line_end :: "char \<Rightarrow> bool" where
  "line_end c \<longleftrightarrow> c = nl \<or> c = cr"

definition start_field :: "char \<Rightarrow> string \<Rightarrow> string list \<Rightarrow> csv_state" where
  "start_field c f fs =
     (if line_end c then (EatCrnl, [], fs @ [f])
      else if c = dquote then (InQuoted, f, fs)
      else if c = CHR '','' then (StartField, [], fs @ [f])
      else (InField, f @ [c], fs))"

fun csv_char :: "char \<Rightarrow> csv_state \<Rightarrow> csv_state res" where
  "csv_char c (StartRecord, f, fs) = Inr (if line_end c then (EatCrnl, f, fs) else start_field c f fs)"
| "csv_char c (StartField, f, fs) = Inr (start_field c f fs)"
| "csv_char c (InField, f, fs) = Inr
     (if line_end c then (EatCrnl, [], fs @ [f])
      else if c = CHR '','' then (StartField, [], fs @ [f])
      else (InField, f @ [c], fs))"
| "csv_char c (InQuoted, f, fs) = Inr (if c = dquote then (QuoteInQuoted, f, fs) else (InQuoted, f @ [c], fs))"
| "csv_char c (QuoteInQuoted, f, fs) = Inr
     (if c = dquote then (InQuoted, f @ [c], fs)
      else if c = CHR '','' then (StartField, [], fs @ [f])
      else if line_end c then (EatCrnl, [], fs @ [f])
      else (InField, f @ [c], fs))"
| "csv_char c (EatCrnl, f, fs) =
     (if line_end c then Inr (EatCrnl, f, fs) else Inl CsvError)"

text \<open>The end of a line of the input.\<close>

fun csv_eol :: "csv_state \<Rightarrow> csv_state" where
  "csv_eol (StartRecord, f, fs) = (StartRecord, f, fs)"
| "csv_eol (InQuoted, f, fs) = (InQuoted, f, fs)"
| "csv_eol (EatCrnl, f, fs) = (StartRecord, f, fs)"
| "csv_eol (_, f, fs) = (StartRecord, [], fs @ [f])"

definition csv_end :: "csv_state \<Rightarrow> string list list" where   \<comment> \<open>the input ends inside a record\<close>
  "csv_end st =
     (case st of (mode, f, fs) \<Rightarrow> if f \<noteq> [] \<or> mode = InQuoted then [fs @ [f]] else [])"

text \<open>The flag says whether the line has begun.\<close>

fun csv_scan :: "string \<Rightarrow> bool \<Rightarrow> csv_state \<Rightarrow> string list list res" where
  "csv_scan [] begun st =
     (if \<not> begun then Inr (csv_end st)
      else (case csv_eol st of (StartRecord, _, fs) \<Rightarrow> Inr [fs] | st' \<Rightarrow> Inr (csv_end st')))"
| "csv_scan (c # cs) begun st =
     ebind (csv_char c st) (\<lambda>st1.
     if c \<noteq> nl then csv_scan cs True st1
     else (case csv_eol st1 of
             (StartRecord, _, fs) \<Rightarrow> ebind (csv_scan cs False csv_start) (\<lambda>rows. Inr (fs # rows))
           | st2 \<Rightarrow> csv_scan cs False st2))"

definition csv_rows :: "string \<Rightarrow> string list list res" where   \<comment> \<open>\<open>list(csv.reader(StringIO(content)))\<close>\<close>
  "csv_rows content = csv_scan content False csv_start"

section \<open>Writing CSV\<close>

definition csv_special :: "char \<Rightarrow> bool" where
  "csv_special c \<longleftrightarrow> c = CHR '','' \<or> c = dquote \<or> line_end c"

definition csv_escape :: "string \<Rightarrow> string" where
  "csv_escape f = concat (List.map (\<lambda>c. if c = dquote then [dquote, dquote] else [c]) f)"

definition csv_quoted :: "string \<Rightarrow> string" where
  "csv_quoted f = dquote # csv_escape f @ [dquote]"

definition csv_field :: "string \<Rightarrow> string" where
  "csv_field f = (if list_ex csv_special f then csv_quoted f else f)"

definition csv_row :: "string list \<Rightarrow> string" where   \<comment> \<open>\<open>writer.writerow\<close>\<close>
  "csv_row row = (if row = [[]] then csv_quoted [] else join '','' (List.map csv_field row)) @ [cr, nl]"

definition csv_text :: "string list list \<Rightarrow> string" where
  "csv_text rows = concat (List.map csv_row rows)"

section \<open>The program\<close>

definition help_header :: "string list" where   \<comment> \<open>\<open>HEADER\<close>\<close>
  "help_header =
     [''module'', ''skill'', ''display-name'', ''menu-code'', ''description'', ''action'', ''args'', ''phase'',
      ''after'', ''before'', ''required'', ''output-location'', ''outputs'']"

type_synonym csv_table = "string list \<times> string list list"

definition read_csv_rows :: "world \<Rightarrow> string \<Rightarrow> csv_table res" where
  "read_csv_rows w path =
     (if \<not> path_exists w (path_of path) then Inr ([], [])
      else
        ebind (read_file w (path_of path)) (\<lambda>content.
        ebind (csv_rows content) (\<lambda>rows. Inr (case rows of [] \<Rightarrow> ([], []) | r # rs \<Rightarrow> (r, rs)))))"

definition row_code :: "string list \<Rightarrow> string" where   \<comment> \<open>\<open>row[0].strip()\<close>\<close>
  "row_code row = strip (hd row)"

definition extract_module_codes :: "string list list \<Rightarrow> string list" where
  "extract_module_codes rows = remdups (List.map row_code (List.filter (\<lambda>row. row \<noteq> [] \<and> row_code row \<noteq> []) rows))"

definition filter_rows :: "string list list \<Rightarrow> string \<Rightarrow> string list list" where
  "filter_rows rows module_code = List.filter (\<lambda>row. row = [] \<or> row_code row \<noteq> module_code) rows"

definition drop_codes :: "string list \<Rightarrow> string list list \<times> nat \<Rightarrow> string list list \<times> nat" where
  "drop_codes codes start =
     fold (\<lambda>code (rows, removed). (filter_rows rows code, removed + (length rows - length (filter_rows rows code)))) codes start"

definition write_csv :: "string \<Rightarrow> string list \<Rightarrow> string list list \<Rightarrow> world \<Rightarrow> world" where
  "write_csv path header rows w =
     put_file (make_dir w (path_parent (path_of path))) (path_of path) (csv_text (header # rows))"

definition legacy_csv :: "string \<Rightarrow> string \<Rightarrow> ppath" where
  "legacy_csv legacy_dir subdir = path_join (path_join (path_of legacy_dir) (path_of subdir)) (path_of ''module-help.csv'')"

definition delete_legacy :: "ppath \<Rightarrow> string list act" where   \<comment> \<open>the paths deleted\<close>
  "delete_legacy path =
     bindA (reads (\<lambda>w. path_exists w path)) (\<lambda>there.
     if \<not> there then ret []
     else
       bindA (reads (\<lambda>w. is_dir w path)) (\<lambda>dir.
       if dir then raiseA (IsADirectoryError (path_str path))
       else bindA (effect (\<lambda>w. unlink w path)) (\<lambda>_. ret [path_str path])))"

definition cleanup_legacy_csvs :: "string \<Rightarrow> string \<Rightarrow> string list act" where
  "cleanup_legacy_csvs legacy_dir module_code =
     bindA (delete_legacy (legacy_csv legacy_dir module_code)) (\<lambda>own.
     bindA (delete_legacy (legacy_csv legacy_dir ''core'')) (\<lambda>core. ret (own @ core)))"

record help_args =
  ha_target :: string
  ha_source :: string
  ha_legacy_dir :: string
  ha_module_code :: string

definition chosen_header :: "string list \<Rightarrow> string list \<Rightarrow> string list" where
  "chosen_header target_header source_header =
     (if target_header \<noteq> [] then target_header else if source_header \<noteq> [] then source_header else help_header)"

definition help_summary :: "help_args \<Rightarrow> bool \<Rightarrow> string list \<Rightarrow> nat \<Rightarrow> nat \<Rightarrow> nat \<Rightarrow> string list \<Rightarrow> world \<Rightarrow> pyval" where
  "help_summary args existed codes removed added n_rows deleted w =
     VDict
       [(''status'', VStr ''success''), (''target_path'', VStr (path_str (resolve w (path_of (ha_target args))))),
        (''target_existed'', VBool existed), (''module_codes'', VList (List.map VStr (sorted_strings codes))),
        (''rows_removed'', VInt (int removed)), (''rows_added'', VInt (int added)), (''total_rows'', VInt (int n_rows)),
        (''legacy_csvs_deleted'', VList (List.map VStr deleted))]"

definition finish_help :: "help_args \<Rightarrow> bool \<Rightarrow> string list \<Rightarrow> nat \<Rightarrow> nat \<Rightarrow> nat \<Rightarrow> int act" where
  "finish_help args existed codes removed added n_rows =
     (let report = (\<lambda>deleted. bindA (effect (\<lambda>w. print_line
            (json_dumps style_indent2 (help_summary args existed codes removed added n_rows deleted w)) w)) (\<lambda>_. ret 0))
      in if ha_legacy_dir args = [] then report []
         else if ha_module_code args = [] then ret 1
         else bindA (cleanup_legacy_csvs (ha_legacy_dir args) (ha_module_code args)) report)"

definition merge_help_csv :: "help_args \<Rightarrow> int act" where   \<comment> \<open>\<open>main\<close>\<close>
  "merge_help_csv args =
     bindA (readsE (\<lambda>w. read_csv_rows w (ha_source args))) (\<lambda>(source_header, source_rows).
     (let codes = extract_module_codes source_rows in
      if source_rows = [] \<or> codes = [] then ret 1
      else
        bindA (readsE (\<lambda>w. read_csv_rows w (ha_target args))) (\<lambda>(target_header, target_rows).
        bindA (reads (\<lambda>w. path_exists w (path_of (ha_target args)))) (\<lambda>existed.
        (let (kept, removed) = drop_codes codes (target_rows, 0); merged = kept @ source_rows in
         bindA (effect (write_csv (ha_target args) (chosen_header target_header source_header) merged)) (\<lambda>_.
         finish_help args existed codes removed (length source_rows) (length merged)))))))"

section \<open>Reading what was written\<close>

lemma read_plain:
  "\<not> list_ex csv_special f \<Longrightarrow> csv_scan (f @ rest) begun (InField, g, fs) = csv_scan rest (begun \<or> f \<noteq> []) (InField, g @ f, fs)"
proof (induction f arbitrary: g begun)
  case (Cons c f)
  then have "\<not> line_end c" "c \<noteq> CHR '',''" "c \<noteq> nl" by (auto simp: csv_special_def line_end_def)
  then show ?case using Cons.IH [of True "g @ [c]"] Cons.prems by (simp add: ebind_def)
qed simp

definition field_start :: "csv_mode \<Rightarrow> bool" where
  "field_start m \<longleftrightarrow> m = StartRecord \<or> m = StartField"

lemma scan_first:
  assumes "\<not> csv_special c" "field_start m"
  shows "csv_scan (c # rest) begun (m, [], fs) = csv_scan rest True (InField, [c], fs)"
  using assms by (auto simp: field_start_def csv_special_def line_end_def start_field_def ebind_def)

lemma scan_escaped:
  "\<exists>b. csv_scan (csv_escape f @ rest) begun (InQuoted, g, fs) = csv_scan rest b (InQuoted, g @ f, fs)"
proof (induction f arbitrary: g begun)
  case Nil
  then show ?case by (auto simp: csv_escape_def)
next
  case (Cons c f)
  show ?case using Cons.IH [of _ "g @ [c]"]
    by (auto simp: csv_escape_def ebind_def dquote_def nl_def)
qed

text \<open>The modes in which the field \<open>f\<close> has been read and its end is expected.\<close>

definition field_read :: "csv_mode \<Rightarrow> string \<Rightarrow> bool" where
  "field_read m f \<longleftrightarrow> m = InField \<or> m = QuoteInQuoted \<or> field_start m \<and> f = []"

lemma scan_quoted:
  assumes "field_start m"
  shows "csv_scan (csv_quoted f @ rest) begun (m, [], fs) = csv_scan rest True (QuoteInQuoted, f, fs)"
proof -
  have "csv_scan (csv_quoted f @ rest) begun (m, [], fs) = csv_scan (csv_escape f @ dquote # rest) True (InQuoted, [], fs)"
    using assms by (auto simp: csv_quoted_def field_start_def start_field_def line_end_def ebind_def dquote_def nl_def cr_def)
  moreover obtain b where "csv_scan (csv_escape f @ dquote # rest) True (InQuoted, [], fs) = csv_scan (dquote # rest) b (InQuoted, f, fs)"
    using scan_escaped [of f "dquote # rest" True "[]" fs] by auto
  ultimately show ?thesis by (simp add: ebind_def dquote_def nl_def)
qed

lemma scan_field:
  assumes "field_start m"
  shows "\<exists>b m'. csv_scan (csv_field f @ rest) begun (m, [], fs) = csv_scan rest b (m', f, fs) \<and> field_read m' f \<and>
    (f = [] \<longrightarrow> m' = m)"
proof (cases "list_ex csv_special f")
  case True
  then have "f \<noteq> []" by auto
  with True show ?thesis using scan_quoted [OF assms] by (auto simp: csv_field_def field_read_def)
next
  case False
  show ?thesis
  proof (cases f)
    case Nil
    then show ?thesis using assms by (auto simp: csv_field_def field_read_def)
  next
    case (Cons c g)
    with False have "csv_scan (f @ rest) begun (m, [], fs) = csv_scan (g @ rest) True (InField, [c], fs)"
      using scan_first [OF _ assms] by simp
    also have "\<dots> = csv_scan rest True (InField, f, fs)" using False Cons read_plain [of g rest True "[c]" fs] by simp
    finally show ?thesis using False Cons by (auto simp: csv_field_def field_read_def)
  qed
qed

lemma scan_comma:
  "field_read m f \<Longrightarrow> csv_scan ('','' @ rest) begun (m, f, fs) = csv_scan rest True (StartField, [], fs @ [f])"
  by (auto simp: field_read_def field_start_def start_field_def line_end_def ebind_def dquote_def nl_def cr_def)

lemma scan_crlf:
  "field_read m f \<Longrightarrow> m \<noteq> StartRecord \<Longrightarrow>
     csv_scan (cr # nl # rest) begun (m, f, fs) = ebind (csv_scan rest False csv_start) (\<lambda>rows. Inr ((fs @ [f]) # rows))"
  by (auto simp: field_read_def field_start_def start_field_def line_end_def ebind_def dquote_def nl_def cr_def)

lemma scan_fields:
  assumes "field_start m" "gs \<noteq> []" "m = StartRecord \<longrightarrow> gs \<noteq> [[]]"
  shows "csv_scan (join '','' (List.map csv_field gs) @ cr # nl # rest) begun (m, [], fs) =
    ebind (csv_scan rest False csv_start) (\<lambda>rows. Inr ((fs @ gs) # rows))"
  using assms
proof (induction gs arbitrary: m fs begun)
  case (Cons f gs)
  let ?tail = "cr # nl # rest"
  show ?case
  proof (cases gs)
    case Nil
    obtain b m' where m': "csv_scan (csv_field f @ ?tail) begun (m, [], fs) = csv_scan ?tail b (m', f, fs)" "field_read m' f"
      "f = [] \<longrightarrow> m' = m" using scan_field [OF Cons.prems(1)] by blast
    have "m' \<noteq> StartRecord"
      using m'(2,3) Cons.prems(3) Nil by (cases "f = []") (auto simp: field_read_def field_start_def)
    with m' Nil show ?thesis by (simp add: scan_crlf del: csv_scan.simps)
  next
    case (Cons g hs)
    let ?rest = "join '','' (List.map csv_field gs) @ ?tail"
    obtain b m' where "csv_scan (csv_field f @ '','' @ ?rest) begun (m, [], fs) = csv_scan ('','' @ ?rest) b (m', f, fs)"
      "field_read m' f" using scan_field [OF Cons.prems(1)] by blast
    then have "csv_scan (csv_field f @ '','' @ ?rest) begun (m, [], fs) = csv_scan ?rest True (StartField, [], fs @ [f])"
      by (simp only: scan_comma)
    moreover have "field_start StartField" by (simp add: field_start_def)
    ultimately show ?thesis using Cons.IH [of StartField True "fs @ [f]"] Cons by simp
  qed
qed simp

lemma scan_row: "csv_scan (csv_row row @ rest) False csv_start = ebind (csv_scan rest False csv_start) (\<lambda>rows. Inr (row # rows))"
proof -
  have start: "field_start StartRecord" by (simp add: field_start_def)
  consider "row = []" | "row = [[]]" | "row \<noteq> []" "row \<noteq> [[]]" by blast
  then show ?thesis
  proof cases
    case 1
    then show ?thesis by (simp add: csv_row_def csv_start_def line_end_def ebind_def nl_def cr_def)
  next
    case 2
    then show ?thesis using scan_quoted [OF start, of "[]" "cr # nl # rest" False "[]"]
        scan_crlf [of QuoteInQuoted "[]" rest True "[]"] by (simp add: csv_row_def csv_start_def field_read_def del: csv_scan.simps)
  next
    case 3
    then show ?thesis using scan_fields [OF start, of row rest False "[]"] by (simp add: csv_row_def csv_start_def del: csv_scan.simps)
  qed
qed

lemma csv_read_back: "csv_rows (csv_text rows) = Inr rows"
  unfolding csv_rows_def
proof (induction rows)
  case Nil
  then show ?case by (simp add: csv_text_def csv_end_def csv_start_def)
next
  case (Cons r rows)
  have "csv_text (r # rows) = csv_row r @ csv_text rows" by (simp add: csv_text_def)
  then show ?case using Cons scan_row [of r "csv_text rows"] by (simp add: ebind_def)
qed

section \<open>The merge\<close>

lemma dropped_rows:
  "fst (drop_codes codes (rows, n)) = List.filter (\<lambda>row. row = [] \<or> row_code row \<notin> set codes) rows"
proof (induction codes arbitrary: rows n)
  case Nil
  then show ?case by (simp add: drop_codes_def)
next
  case (Cons code codes)
  have "fst (drop_codes (code # codes) (rows, n)) =
      List.filter (\<lambda>row. row = [] \<or> row_code row \<notin> set codes) (filter_rows rows code)"
    using Cons.IH by (simp add: drop_codes_def)
  also have "\<dots> = List.filter (\<lambda>row. row = [] \<or> row_code row \<notin> set (code # codes)) rows"
    unfolding filter_rows_def filter_filter by (rule filter_cong) auto
  finally show ?case .
qed

lemma set_codes: "c \<in> set (extract_module_codes rows) \<longleftrightarrow> c \<noteq> [] \<and> (\<exists>row \<in> set rows. row \<noteq> [] \<and> row_code row = c)"
  by (auto simp: extract_module_codes_def)

text \<open>The table that a merge makes of a target and a source.\<close>

definition merged_table :: "csv_table \<Rightarrow> csv_table \<Rightarrow> csv_table" where
  "merged_table target source =
     (chosen_header (fst target) (fst source),
      List.filter (\<lambda>row. row = [] \<or> row_code row \<notin> set (extract_module_codes (snd source))) (snd target) @ snd source)"

lemma chosen_header_again: "chosen_header (chosen_header h s) s = chosen_header h s"
  by (simp add: chosen_header_def help_header_def)

lemma merged_again:
  assumes "\<forall>row \<in> set (snd source). row \<noteq> [] \<and> row_code row \<noteq> []"
  shows "merged_table (merged_table target source) source = merged_table target source"
proof -
  let ?keep = "\<lambda>row. row = [] \<or> row_code row \<notin> set (extract_module_codes (snd source))"
  have "List.filter ?keep (snd source) = []" using assms by (auto simp: filter_empty_conv set_codes)
  then show ?thesis by (simp add: merged_table_def chosen_header_again)
qed

lemma text_read: "file_text w p = Some c \<Longrightarrow> read_file w p = Inr c \<and> path_exists w p"
  by (simp add: file_text_def read_file_def path_exists_def is_file_def)

lemma read_csv_text:
  "file_text w (path_of path) = Some (csv_text (header # rows)) \<Longrightarrow> read_csv_rows w path = Inr (header, rows)"
  using text_read [of w "path_of path"] by (simp add: read_csv_rows_def csv_read_back ebind_def)

lemma written_text: "file_text (write_csv path header rows w) (path_of path) = Some (csv_text (header # rows))"
  by (simp add: write_csv_def fs.load_store_same)

text \<open>Deleting a legacy file leaves every other file.\<close>

lemma deleted_frame:
  "delete_legacy p w = Inr (ds, w') \<Longrightarrow> \<not> same_file w p q \<Longrightarrow> file_text w' q = file_text w q \<and> w_cwd w' = w_cwd w"
  by (auto simp: delete_legacy_def act_Inr bindA_Inr fs.load_remove split: if_splits)

lemma cleanup_frame:
  assumes "cleanup_legacy_csvs dir code w = Inr (ds, w')"
    and "\<not> same_file w (legacy_csv dir code) q" "\<not> same_file w (legacy_csv dir ''core'') q"
  shows "file_text w' q = file_text w q"
proof -
  obtain own w1 core where d: "delete_legacy (legacy_csv dir code) w = Inr (own, w1)"
    "delete_legacy (legacy_csv dir ''core'') w1 = Inr (core, w')"
    using assms(1) unfolding cleanup_legacy_csvs_def by (auto simp: bindA_Inr act_Inr)
  have "file_text w1 q = file_text w q" "w_cwd w1 = w_cwd w" using deleted_frame [OF d(1) assms(2)] by simp_all
  moreover from this(2) have "\<not> same_file w1 (legacy_csv dir ''core'') q"
    using assms(3) by (simp add: same_file_def key_of_def resolve_def)
  ultimately show ?thesis using deleted_frame [OF d(2)] by simp
qed

lemma finish_frame:
  assumes "finish_help args e codes r a t w = Inr (n, w')"
    and "\<forall>sub \<in> {ha_module_code args, ''core''}. \<not> same_file w (legacy_csv (ha_legacy_dir args) sub) q"
  shows "file_text w' q = file_text w q"
proof -
  have out: "file_text (print_line s v) q = file_text v q" for s v by (simp add: file_text_def print_line_def key_of_def resolve_def)
  show ?thesis using assms cleanup_frame [of "ha_legacy_dir args" "ha_module_code args" w _ _ q]
    by (auto simp: finish_help_def Let_def bindA_Inr act_Inr out split: if_splits)
qed

text \<open>
  C26. Merging the help of a module replaces its rows and is stable: whenever a run gets as far as the
  target, reading the target back gives the rows of the other modules in their order and behind them
  the rows of the source, under the header the target had; and merging the same source into that
  table changes nothing, if every row of the source names its module. (The target is none of
  the legacy files that the run deletes.)
\<close>

theorem help_rows_replaced:
  assumes "merge_help_csv args w = Inr (code, w')"
    and "read_csv_rows w (ha_source args) = Inr source" "read_csv_rows w (ha_target args) = Inr target"
    and "extract_module_codes (snd source) \<noteq> []"
    and "\<forall>sub \<in> {ha_module_code args, ''core''}.
      \<not> same_file w (legacy_csv (ha_legacy_dir args) sub) (path_of (ha_target args))"
  shows "read_csv_rows w' (ha_target args) = Inr (merged_table target source) \<and>
    (if \<forall>row \<in> set (snd source). row \<noteq> [] \<and> row_code row \<noteq> []
     then merged_table (merged_table target source) source = merged_table target source else True)"
proof -
  obtain sh sr th tr where st: "source = (sh, sr)" "target = (th, tr)" by (cases source; cases target) blast
  let ?codes = "extract_module_codes sr" and ?path = "path_of (ha_target args)"
  have "sr \<noteq> []" using assms(4) st(1) by (auto simp: extract_module_codes_def)
  then obtain e r a t w1 where w1: "w1 = write_csv (ha_target args) (fst (merged_table target source)) (snd (merged_table target source)) w"
    "finish_help args e ?codes r a t w1 = Inr (code, w')"
    using assms(1-4) st dropped_rows [of ?codes tr 0]
    by (auto simp: merge_help_csv_def bindA_Inr act_Inr merged_table_def Let_def split: prod.splits)
  have "same_file w1 p q = same_file w p q" for p q
    using w1(1) by (simp add: write_csv_def same_file_def)
  then have "file_text w' ?path = file_text w1 ?path" using finish_frame [OF w1(2)] assms(5) by simp
  then have "file_text w' ?path = Some (csv_text (fst (merged_table target source) # snd (merged_table target source)))"
    using w1(1) written_text by simp
  then show ?thesis using read_csv_text merged_again by simp
qed

text \<open>A shared file with an old row of the module \<open>b\<close>.\<close>

definition csv_args :: help_args where
  "csv_args = \<lparr>ha_target = ''/proj/t.csv'', ha_source = ''/proj/s.csv'', ha_legacy_dir = [], ha_module_code = []\<rparr>"

definition csv_world :: world where
  "csv_world = bare_world\<lparr>w_files :=
     [([''proj'', ''t.csv''], csv_text [[''module'', ''skill''], [''b'', ''old''], [''a'', ''x,y'']]),
      ([''proj'', ''s.csv''], csv_text [[''module'', ''skill''], [''b'', ''new'']])]\<rparr>"

lemma help_rows_replaced_witness:
  "\<exists>w'. merge_help_csv csv_args csv_world = Inr (0, w') \<and>
     read_csv_rows w' ''/proj/t.csv'' = Inr ([''module'', ''skill''], [[''a'', ''x,y''], [''b'', ''new'']])"
proof -
  let ?s = "([''module'', ''skill''], [[''b'', ''new'']])"
    and ?t = "([''module'', ''skill''], [[''b'', ''old''], [''a'', ''x,y'']])"
  have "case merge_help_csv csv_args csv_world of Inr (c, w') \<Rightarrow> c = 0 | Inl e \<Rightarrow> False" by code_simp
  then obtain w' where w': "merge_help_csv csv_args csv_world = Inr (0, w')" by (auto split: sum.splits)
  have r: "read_csv_rows csv_world (ha_source csv_args) = Inr ?s" "read_csv_rows csv_world (ha_target csv_args) = Inr ?t"
    by code_simp+
  have "extract_module_codes (snd ?s) \<noteq> []"
    "\<forall>sub \<in> {ha_module_code csv_args, ''core''}.
       \<not> same_file csv_world (legacy_csv (ha_legacy_dir csv_args) sub) (path_of (ha_target csv_args))"
    "merged_table ?t ?s = ([''module'', ''skill''], [[''a'', ''x,y''], [''b'', ''new'']])" by code_simp+
  with help_rows_replaced [OF w' r] w' show ?thesis by (simp add: csv_args_def)
qed

end
