(* ===== verification/Legacy_Cleanup.thy ===== *)
theory Legacy_Cleanup
  imports Actions
begin

text \<open>
  \<open>.agents/skills/bmad-bmb-setup/scripts/cleanup-legacy.py\<close>: directories that a migration left behind
  are removed, after a check that the skills in them are installed elsewhere. The arguments are as
  \<open>argparse\<close> parsed them, a missing \<open>--skills-dir\<close> is the empty string; removing a directory does not fail.
\<close>

section \<open>Directories\<close>

text \<open>\<open>shutil.rmtree\<close>: what lies below goes, the directory that held it stays.\<close>

definition remove_tree :: "world \<Rightarrow> ppath \<Rightarrow> world" where
  "remove_tree w p =
     w\<lparr>w_files := List.filter (\<lambda>f. \<not> strict_prefix (key_of w p) (fst f)) (w_files w),
       w_dirs := butlast (key_of w p) # List.filter (\<lambda>d. \<not> prefix (key_of w p) d) (w_dirs w)\<rparr>"

definition find_skill_dirs :: "world \<Rightarrow> ppath \<Rightarrow> string list" where
  "find_skill_dirs w root =
     (if \<not> path_exists w root then []
      else sorted_strings (remdups (List.map (\<lambda>p. path_name (path_parent p)) (glob_sorted w root ''**/SKILL.md''))))"

definition count_files :: "world \<Rightarrow> ppath \<Rightarrow> nat" where
  "count_files w path = length (List.filter (is_file w) (glob_sorted w path ''**/*''))"

definition legacy_dir :: "string \<Rightarrow> string \<Rightarrow> ppath" where
  "legacy_dir bmad_dir dirname = path_join (path_of bmad_dir) (path_of dirname)"

definition skills_of :: "world \<Rightarrow> string \<Rightarrow> string \<Rightarrow> string list" where
  "skills_of w bmad_dir dirname =
     (if \<not> path_exists w (legacy_dir bmad_dir dirname) then [] else find_skill_dirs w (legacy_dir bmad_dir dirname))"

definition skill_installed :: "world \<Rightarrow> string \<Rightarrow> string \<Rightarrow> bool" where
  "skill_installed w skills_dir skill = is_dir w (path_join (path_of skills_dir) (path_of skill))"

definition all_skills :: "world \<Rightarrow> string \<Rightarrow> string list \<Rightarrow> string list" where
  "all_skills w bmad_dir dirs = concat (List.map (skills_of w bmad_dir) dirs)"

text \<open>The verified names, or the missing ones.\<close>

definition verify_skills_installed :: "world \<Rightarrow> string \<Rightarrow> string list \<Rightarrow> string \<Rightarrow> string list + string list" where
  "verify_skills_installed w bmad_dir dirs skills_dir =
     (let names = all_skills w bmad_dir dirs;
          missing = List.filter (\<lambda>s. \<not> skill_installed w skills_dir s) names
      in if missing \<noteq> [] then Inl missing
         else Inr (sorted_strings (remdups (List.filter (skill_installed w skills_dir) names))))"

record cleaned =
  cl_removed :: "string list"
  cl_not_found :: "string list"
  cl_files :: nat

definition clean_dir :: "string \<Rightarrow> string \<Rightarrow> cleaned \<times> world \<Rightarrow> cleaned \<times> world" where
  "clean_dir bmad_dir dirname st =
     (case st of (r, w) \<Rightarrow>
        (let target = legacy_dir bmad_dir dirname in
         if \<not> path_exists w target \<or> \<not> is_dir w target then (r\<lparr>cl_not_found := cl_not_found r @ [dirname]\<rparr>, w)
         else (r\<lparr>cl_removed := cl_removed r @ [dirname], cl_files := cl_files r + count_files w target\<rparr>,
               remove_tree w target)))"

definition cleanup_directories :: "string \<Rightarrow> string list \<Rightarrow> world \<Rightarrow> cleaned \<times> world" where
  "cleanup_directories bmad_dir dirs w =
     fold (clean_dir bmad_dir) dirs (\<lparr>cl_removed = [], cl_not_found = [], cl_files = 0\<rparr>, w)"

section \<open>The program\<close>

record cleanup_args =
  ca_bmad_dir :: string
  ca_module_code :: string
  ca_also_remove :: "string list"
  ca_skills_dir :: string

fun unique :: "string list \<Rightarrow> string list \<Rightarrow> string list" where   \<comment> \<open>the first occurrences\<close>
  "unique seen [] = []"
| "unique seen (d # ds) = (if d \<in> set seen then unique seen ds else d # unique (d # seen) ds)"

definition dirs_to_remove :: "cleanup_args \<Rightarrow> string list" where
  "dirs_to_remove args = unique [] ([ca_module_code args, ''core''] @ ca_also_remove args)"

definition missing_skills_json :: "world \<Rightarrow> string \<Rightarrow> string list \<Rightarrow> pyval" where
  "missing_skills_json w skills_dir missing =
     VDict [(''status'', VStr ''error''), (''error'', VStr ''Skills not found at installed location''),
       (''missing_skills'', VList (List.map VStr missing)),
       (''skills_dir'', VStr (path_str (resolve w (path_of skills_dir))))]"

definition safety_json :: "world \<Rightarrow> string \<Rightarrow> string list option \<Rightarrow> pyval" where
  "safety_json w skills_dir verified =
     (case verified of
        None \<Rightarrow> VNone
      | Some names \<Rightarrow>
          VDict [(''skills_verified'', VBool True), (''skills_dir'', VStr (path_str (resolve w (path_of skills_dir)))),
            (''verified_skills'', VList (List.map VStr names))])"

definition cleaned_json :: "world \<Rightarrow> cleanup_args \<Rightarrow> cleaned \<Rightarrow> string list option \<Rightarrow> pyval" where
  "cleaned_json w args r verified =
     VDict [(''status'', VStr ''success''), (''bmad_dir'', VStr (path_str (resolve w (path_of (ca_bmad_dir args))))),
       (''directories_removed'', VList (List.map VStr (cl_removed r))),
       (''directories_not_found'', VList (List.map VStr (cl_not_found r))),
       (''files_removed_count'', VInt (int (cl_files r))),
       (''safety_checks'', safety_json w (ca_skills_dir args) verified)]"

definition remove_dirs :: "cleanup_args \<Rightarrow> string list option \<Rightarrow> int act" where
  "remove_dirs args verified w =
     (case cleanup_directories (ca_bmad_dir args) (dirs_to_remove args) w of (r, w1) \<Rightarrow>
        Inr (0, print_line (json_dumps style_indent2 (cleaned_json w1 args r verified)) w1))"

definition cleanup_legacy :: "cleanup_args \<Rightarrow> int act" where   \<comment> \<open>\<open>main\<close>\<close>
  "cleanup_legacy args =
     (if ca_skills_dir args = [] then remove_dirs args None
      else
        bindA (reads (\<lambda>w. verify_skills_installed w (ca_bmad_dir args) (dirs_to_remove args) (ca_skills_dir args))) (\<lambda>checked.
        case checked of
          Inl missing \<Rightarrow>
            bindA (effect (\<lambda>w. print_line (json_dumps style_indent2 (missing_skills_json w (ca_skills_dir args) missing)) w))
              (\<lambda>_. ret 1)
        | Inr names \<Rightarrow> remove_dirs args (Some names)))"

section \<open>What is removed\<close>

lemma set_unique: "set (unique seen ds) = set ds - set seen"
  by (induction ds arbitrary: seen) auto

lemma set_dirs_to_remove: "set (dirs_to_remove args) = {ca_module_code args, ''core''} \<union> set (ca_also_remove args)"
  by (auto simp: dirs_to_remove_def set_unique)

lemma key_remove_tree [simp]: "key_of (remove_tree w p) q = key_of w q"
  by (simp add: remove_tree_def key_of_def resolve_def)

lemma text_remove_tree: "file_text (remove_tree w p) q = (if strict_prefix (key_of w p) (key_of w q) then None else file_text w q)"
proof -
  have "map_of (List.filter (\<lambda>f. \<not> strict_prefix k (fst f)) fs) x = (if strict_prefix k x then None else map_of fs x)"
    for k x :: "string list" and fs :: "(string list \<times> string) list"
    by (induction fs) auto
  then show ?thesis by (simp add: file_text_def) (simp add: remove_tree_def)
qed

lemma below_is_dir: "file_text w q \<noteq> None \<Longrightarrow> strict_prefix (key_of w p) (key_of w q) \<Longrightarrow> is_dir w p"
  unfolding file_text_def is_dir_def by (force dest: map_of_SomeD)

lemma text_clean_dir:
  "file_text (snd (clean_dir b d (r, w))) q = (if strict_prefix (key_of w (legacy_dir b d)) (key_of w q) then None else file_text w q)"
proof (cases "is_dir w (legacy_dir b d)")
  case True
  then show ?thesis by (simp add: clean_dir_def Let_def text_remove_tree path_exists_def)
next
  case False
  then have "strict_prefix (key_of w (legacy_dir b d)) (key_of w q) \<Longrightarrow> file_text w q = None"
    using below_is_dir [of w q "legacy_dir b d"] by blast
  with False show ?thesis by (simp add: clean_dir_def Let_def)
qed

lemma key_clean_dir: "key_of (snd (clean_dir b d st)) q = key_of (snd st) q"
  by (simp add: clean_dir_def Let_def split: prod.split)

lemma text_clean_dirs:
  "file_text (snd (fold (clean_dir b) ds st)) q =
     (if \<exists>d \<in> set ds. strict_prefix (key_of (snd st) (legacy_dir b d)) (key_of (snd st) q) then None else file_text (snd st) q)"
proof (induction ds arbitrary: st)
  case (Cons d ds)
  have "file_text (snd (clean_dir b d st)) q =
      (if strict_prefix (key_of (snd st) (legacy_dir b d)) (key_of (snd st) q) then None else file_text (snd st) q)"
    using text_clean_dir [of b d "fst st" "snd st" q] by simp
  with Cons show ?case by (simp add: key_clean_dir)
qed simp

lemma text_print [simp]: "file_text (print_line s w) q = file_text w q"
  by (simp add: file_text_def)

text \<open>
  C23. The cleanup removes the named directories and nothing else, and only when it is safe: with a
  directory of installed skills, either a skill found in one of the named directories is missing
  there, the code is 1 and no file is touched, or all of them are installed; then the files below
  the named directories are gone and every other file is as it was.
\<close>

theorem cleanup_removes_named:
  assumes "cleanup_legacy args w = Inr (code, w')"
  shows "let names = all_skills w (ca_bmad_dir args) (dirs_to_remove args);
      safe = (ca_skills_dir args = [] \<or> list_all (skill_installed w (ca_skills_dir args)) names);
      named = (\<lambda>q. \<exists>d \<in> {ca_module_code args, ''core''} \<union> set (ca_also_remove args).
        strict_prefix (key_of w (legacy_dir (ca_bmad_dir args) d)) (key_of w q))
    in code = (if safe then 0 else 1) \<and>
       (\<forall>q. file_text w' q = (if safe \<and> named q then None else file_text w q))"
proof -
  let ?names = "all_skills w (ca_bmad_dir args) (dirs_to_remove args)"
  have removed: "code = 0 \<and> (\<forall>q. file_text w' q = (if \<exists>d \<in> set (dirs_to_remove args).
      strict_prefix (key_of w (legacy_dir (ca_bmad_dir args) d)) (key_of w q) then None else file_text w q))"
    if "remove_dirs args verified w = Inr (code, w')" for verified
    using that by (auto simp: remove_dirs_def cleanup_directories_def text_clean_dirs split: prod.splits)
      (metis snd_conv text_clean_dirs)+
  show ?thesis
  proof (cases "ca_skills_dir args = [] \<or> list_all (skill_installed w (ca_skills_dir args)) ?names")
    case True
    then obtain verified where "remove_dirs args verified w = Inr (code, w')"
      using assms by (auto simp: cleanup_legacy_def verify_skills_installed_def Let_def filter_empty_conv list_all_iff reads_def
          bindA_def split: if_splits)
    with True show ?thesis using removed by (simp add: set_dirs_to_remove Let_def)
  next
    case False
    then have "List.filter (\<lambda>s. \<not> skill_installed w (ca_skills_dir args) s) ?names \<noteq> []"
      by (auto simp: filter_empty_conv list_all_iff)
    with False assms show ?thesis
      by (auto simp: cleanup_legacy_def verify_skills_installed_def Let_def act_Inr bindA_Inr)
  qed
qed

text \<open>Two legacy directories; the skill in the first is installed, the second has none.\<close>

definition legacy_world :: world where
  "legacy_world = bare_world\<lparr>w_files :=
     [([''proj'', ''_bmad'', ''b'', ''s1'', ''SKILL.md''], []), ([''proj'', ''_bmad'', ''core'', ''c.yaml''], []),
      ([''proj'', ''_bmad'', ''keep.md''], []), ([''proj'', ''skills'', ''s1'', ''SKILL.md''], [])]\<rparr>"

definition legacy_args :: cleanup_args where
  "legacy_args = \<lparr>ca_bmad_dir = ''/proj/_bmad'', ca_module_code = ''b'', ca_also_remove = [], ca_skills_dir = ''/proj/skills''\<rparr>"

lemma cleanup_removes_named_witness:
  "\<exists>w'. cleanup_legacy legacy_args legacy_world = Inr (0, w') \<and> file_text w' (path_of ''_bmad/b/s1/SKILL.md'') = None \<and>
     file_text w' (path_of ''_bmad/keep.md'') = Some []"
proof -
  have "case cleanup_legacy legacy_args legacy_world of Inr (c, w') \<Rightarrow> c = 0 | Inl e \<Rightarrow> False" by code_simp
  then obtain w' where w': "cleanup_legacy legacy_args legacy_world = Inr (0, w')" by (auto split: sum.splits)
  have safe: "list_all (skill_installed legacy_world (ca_skills_dir legacy_args))
      (all_skills legacy_world (ca_bmad_dir legacy_args) (dirs_to_remove legacy_args))" by code_simp
  have "\<exists>d \<in> {ca_module_code legacy_args, ''core''} \<union> set (ca_also_remove legacy_args).
      strict_prefix (key_of legacy_world (legacy_dir (ca_bmad_dir legacy_args) d)) (key_of legacy_world (path_of ''_bmad/b/s1/SKILL.md''))"
    "\<not> (\<exists>d \<in> {ca_module_code legacy_args, ''core''} \<union> set (ca_also_remove legacy_args).
      strict_prefix (key_of legacy_world (legacy_dir (ca_bmad_dir legacy_args) d)) (key_of legacy_world (path_of ''_bmad/keep.md'')))"
    "file_text legacy_world (path_of ''_bmad/keep.md'') = Some []" by code_simp+
  with cleanup_removes_named [OF w'] safe w' show ?thesis by (simp add: Let_def)
qed

end
