(* ===== verification/Module_Config.thy ===== *)
theory Module_Config
  imports Help_Csv Merge_Laws
begin

text \<open>
  \<open>.agents/skills/bmad-bmb-setup/scripts/merge-config.py\<close>: the section of a module in the shared
  configuration is written anew from its definition and the collected answers. The YAML package is
  a parameter: \<open>yaml_load\<close> reads a mapping with string keys (the empty one for an empty document),
  \<open>yaml_dump\<close> writes one; the code of a module is a text. An \<open>exit(1)\<close> inside a function is \<open>None\<close>. A section \<open>core\<close> of the answers that
  is a list of pairs, which \<open>dict.update\<close> takes too, is an error here.
\<close>

section \<open>Reading\<close>

type_synonym yaml_reader = "string \<Rightarrow> exn + pyval dict"
type_synonym yaml_writer = "pyval dict \<Rightarrow> string"

definition load_yaml_file :: "yaml_reader \<Rightarrow> world \<Rightarrow> ppath \<Rightarrow> pyval dict res" where
  "load_yaml_file yaml_load w path =
     (if \<not> path_exists w path then Inr [] else ebind (read_file w path) yaml_load)"

definition load_json_file :: "world \<Rightarrow> ppath \<Rightarrow> pyval dict res" where
  "load_json_file w path = ebind (read_file w path) (\<lambda>s. ebind (json_loads s) as_dict)"

definition core_keys :: "string list" where   \<comment> \<open>\<open>_CORE_KEYS\<close>\<close>
  "core_keys = [''user_name'', ''communication_language'', ''document_output_language'', ''output_folder'']"

definition core_user_keys :: "string list" where   \<comment> \<open>\<open>_CORE_USER_KEYS\<close>\<close>
  "core_user_keys = [''user_name'', ''communication_language'']"

definition is_variable :: "pyval dict \<Rightarrow> string \<Rightarrow> bool" where
  "is_variable module_yaml k = (case dict_get k module_yaml of Some (VDict _) \<Rightarrow> True | _ \<Rightarrow> False)"

definition legacy_entry :: "pyval dict \<Rightarrow> string \<times> pyval \<Rightarrow> pyval dict \<times> pyval dict \<Rightarrow> pyval dict \<times> pyval dict" where
  "legacy_entry module_yaml kv found =
     (case (kv, found) of ((k, v), (core, own)) \<Rightarrow>
        if k \<in> set core_keys then (if dict_has k core then core else dict_set k v core, own)
        else if is_variable module_yaml k then (core, dict_set k v own)
        else (core, own))"

definition legacy_config :: "string \<Rightarrow> string \<Rightarrow> ppath" where
  "legacy_config dir subdir = path_join (path_join (path_of dir) (path_of subdir)) (path_of ''config.yaml'')"

text \<open>The files found, the core values and the module's values.\<close>

definition load_legacy_values :: "yaml_reader \<Rightarrow> world \<Rightarrow> string \<Rightarrow> string \<Rightarrow> pyval dict \<Rightarrow>
    ((pyval dict \<times> pyval dict) \<times> string list) res" where
  "load_legacy_values yaml_load w dir module_code module_yaml =
     (let core_path = legacy_config dir ''core''; mod_path = legacy_config dir module_code in
      ebind (load_yaml_file yaml_load w core_path) (\<lambda>core_data.
      ebind (load_yaml_file yaml_load w mod_path) (\<lambda>mod_data.
      (let legacy_core = fold (\<lambda>(k, v) core. if k \<in> set core_keys then dict_set k v core else core) core_data [] in
       Inr (fold (legacy_entry module_yaml) mod_data (legacy_core, []),
            List.map path_str (List.filter (path_exists w) [core_path, mod_path]))))))"

text \<open>\<open>d.update(v)\<close>\<close>

fun update_with :: "pyval dict \<Rightarrow> pyval \<Rightarrow> pyval dict res" where
  "update_with d (VDict e) = Inr (dict_update d e)"
| "update_with d (VList []) = Inr d"
| "update_with d (VStr []) = Inr d"
| "update_with d _ = Inl TypeError"

definition fill_section :: "string \<Rightarrow> pyval dict \<Rightarrow> pyval dict \<Rightarrow> pyval dict res" where
  "fill_section name legacy merged =
     (if legacy = [] then Inr merged
      else ebind (update_with legacy (get_or (VDict []) name merged)) (\<lambda>filled. Inr (dict_set name (VDict filled) merged)))"

definition apply_legacy_defaults :: "pyval dict \<Rightarrow> pyval dict \<Rightarrow> pyval dict \<Rightarrow> pyval dict res" where
  "apply_legacy_defaults answers legacy_core legacy_module =
     ebind (fill_section ''core'' legacy_core answers) (fill_section ''module'' legacy_module)"

section \<open>Merging\<close>

definition copy_key :: "string \<Rightarrow> pyval dict \<Rightarrow> pyval dict \<Rightarrow> pyval dict" where
  "copy_key k from d = (case dict_get k from of Some v \<Rightarrow> dict_set k v d | None \<Rightarrow> d)"

definition extract_module_metadata :: "pyval dict \<Rightarrow> pyval dict" where
  "extract_module_metadata module_yaml =
     copy_key ''default_selected'' module_yaml
       (dict_set ''version'' (get_val ''module_version'' module_yaml)
          (copy_key ''description'' module_yaml (copy_key ''name'' module_yaml [])))"

definition apply_template :: "pyval dict \<Rightarrow> string \<times> pyval \<Rightarrow> pyval dict \<Rightarrow> pyval dict res" where
  "apply_template module_yaml kv transformed =
     (case kv of (key, v) \<Rightarrow>
        (case dict_get key module_yaml of
           Some (VDict var_def) \<Rightarrow>
             (case dict_get ''result'' var_def of
                Some template \<Rightarrow>
                  if contains (py_str v) ''{project-root}'' then Inr (dict_set key v transformed)
                  else (case template of
                          VStr t \<Rightarrow> Inr (dict_set key (VStr (replace_all ''{value}'' (py_str v) t)) transformed)
                        | _ \<Rightarrow> Inl AttributeError)
              | None \<Rightarrow> Inr (dict_set key v transformed))
         | _ \<Rightarrow> Inr (dict_set key v transformed)))"

definition apply_result_templates :: "pyval dict \<Rightarrow> pyval dict \<Rightarrow> pyval dict res" where
  "apply_result_templates module_yaml module_answers = efold (apply_template module_yaml) module_answers []"

fun code_text :: "pyval \<Rightarrow> string res" where
  "code_text (VStr s) = Inr s"
| "code_text v = (if truth v then Inl TypeError else Inr [])"

text \<open>A dictionary, or an empty value that is taken for one.\<close>

fun core_section :: "pyval \<Rightarrow> pyval dict res" where
  "core_section (VDict d) = Inr d"
| "core_section v = (if truth v then Inl AttributeError else Inr [])"

definition migrate_core :: "pyval dict \<Rightarrow> pyval dict" where
  "migrate_core config =
     (case dict_get ''core'' config of Some (VDict d) \<Rightarrow> dict_update (dict_pop ''core'' config) d | _ \<Rightarrow> config)"

definition strip_user_keys :: "pyval dict \<Rightarrow> pyval dict" where
  "strip_user_keys config = fold dict_pop core_user_keys config"

definition shared_core :: "pyval dict \<Rightarrow> pyval dict" where
  "shared_core core = List.filter (\<lambda>kv. fst kv \<notin> set core_user_keys) core"

definition merge_config :: "pyval dict \<Rightarrow> pyval dict \<Rightarrow> pyval dict \<Rightarrow> pyval dict option res" where
  "merge_config existing_config module_yaml answers =
     ebind (code_text (get_val ''code'' module_yaml)) (\<lambda>module_code.
     if module_code = [] then Inr None
     else
       ebind (core_section (get_val ''core'' answers)) (\<lambda>core_answers.
       ebind (as_dict (get_or (VDict []) ''module'' answers)) (\<lambda>own_answers.
       ebind (apply_result_templates module_yaml own_answers) (\<lambda>module_answers.
       (let config = dict_update (strip_user_keys (migrate_core existing_config)) (shared_core core_answers);
            module_section = dict_update (extract_module_metadata module_yaml) module_answers
        in Inr (Some (dict_set module_code (VDict module_section) (dict_pop module_code config))))))))"

text \<open>\<open>key in core_answers\<close>, which needs a container.\<close>

fun core_container :: "pyval \<Rightarrow> pyval dict res" where
  "core_container (VDict d) = Inr d"
| "core_container (VList []) = Inr []"
| "core_container (VStr []) = Inr []"
| "core_container v = Inl TypeError"

definition is_user_setting :: "pyval \<Rightarrow> bool" where
  "is_user_setting v = (case v of VDict d \<Rightarrow> get_val ''user_setting'' d = VBool True | _ \<Rightarrow> False)"

definition extract_user_settings :: "pyval dict \<Rightarrow> pyval dict \<Rightarrow> pyval dict res" where
  "extract_user_settings module_yaml answers =
     ebind (core_container (get_or (VDict []) ''core'' answers)) (\<lambda>core_answers.
     ebind (as_dict (get_or (VDict []) ''module'' answers)) (\<lambda>module_answers.
     Inr (fold (\<lambda>(var, def) d. if is_user_setting def then copy_key var module_answers d else d) module_yaml
            (fold (\<lambda>k. copy_key k core_answers) core_user_keys []))))"

section \<open>The program\<close>

record config_args =
  cf_config :: string
  cf_module :: string
  cf_answers :: string
  cf_user :: string
  cf_legacy :: string

definition write_config :: "yaml_writer \<Rightarrow> pyval dict \<Rightarrow> string \<Rightarrow> world \<Rightarrow> world" where
  "write_config yaml_dump config path w =
     put_file (make_dir w (path_parent (path_of path))) (path_of path) (yaml_dump config)"

definition cleanup_legacy_configs :: "string \<Rightarrow> string \<Rightarrow> string list act" where
  "cleanup_legacy_configs dir module_code =
     bindA (delete_legacy (legacy_config dir module_code)) (\<lambda>own.
     bindA (delete_legacy (legacy_config dir ''core'')) (\<lambda>core. ret (own @ core)))"

text \<open>The answers with the legacy values below them, and the legacy files found.\<close>

definition with_legacy :: "yaml_reader \<Rightarrow> world \<Rightarrow> string \<Rightarrow> pyval dict \<Rightarrow> pyval dict \<Rightarrow> (pyval dict \<times> string list) res" where
  "with_legacy yaml_load w dir module_yaml answers =
     (if dir = [] then Inr (answers, [])
      else (case get_or (VStr []) ''code'' module_yaml of
              VStr module_code \<Rightarrow>
                ebind (load_legacy_values yaml_load w dir module_code module_yaml) (\<lambda>((core, own), found).
                ebind (apply_legacy_defaults answers core own) (\<lambda>filled. Inr (filled, found)))
            | _ \<Rightarrow> Inl TypeError))"

definition config_summary :: "config_args \<Rightarrow> pyval dict \<Rightarrow> string \<Rightarrow> pyval dict \<Rightarrow> pyval dict \<Rightarrow> string list \<Rightarrow> string list \<Rightarrow> world \<Rightarrow> pyval" where
  "config_summary args answers code config settings found deleted w =
     VDict
       [(''status'', VStr ''success''), (''config_path'', VStr (path_str (resolve w (path_of (cf_config args))))),
        (''user_config_path'', VStr (path_str (resolve w (path_of (cf_user args))))), (''module_code'', VStr code),
        (''core_updated'', VBool (truth (get_val ''core'' answers))),
        (''module_keys'', VList (List.map (VStr \<circ> fst) (case get_val code config of VDict d \<Rightarrow> d | _ \<Rightarrow> []))),
        (''user_keys'', VList (List.map (VStr \<circ> fst) settings)),
        (''legacy_configs_found'', VList (List.map VStr found)), (''legacy_configs_deleted'', VList (List.map VStr deleted))]"

definition merge_module :: "yaml_reader \<Rightarrow> yaml_writer \<Rightarrow> config_args \<Rightarrow> int act" where   \<comment> \<open>\<open>main\<close>\<close>
  "merge_module yaml_load yaml_dump args =
     bindA (readsE (\<lambda>w. load_yaml_file yaml_load w (path_of (cf_module args)))) (\<lambda>module_yaml.
     if module_yaml = [] then ret 1
     else
       bindA (readsE (\<lambda>w. load_json_file w (path_of (cf_answers args)))) (\<lambda>given.
       bindA (readsE (\<lambda>w. load_yaml_file yaml_load w (path_of (cf_config args)))) (\<lambda>existing.
       bindA (readsE (\<lambda>w. with_legacy yaml_load w (cf_legacy args) module_yaml given)) (\<lambda>(answers, found).
       bindA (readsE (\<lambda>w. merge_config existing module_yaml answers)) (\<lambda>merged.
       case merged of
         None \<Rightarrow> ret 1
       | Some config \<Rightarrow>
           bindA (effect (write_config yaml_dump config (cf_config args))) (\<lambda>_.
           bindA (readsE (\<lambda>w. extract_user_settings module_yaml answers)) (\<lambda>settings.
           bindA (readsE (\<lambda>w. load_yaml_file yaml_load w (path_of (cf_user args)))) (\<lambda>existing_user.
           bindA (effect (\<lambda>w. if settings = [] then w
                    else write_config yaml_dump (dict_update existing_user settings) (cf_user args) w)) (\<lambda>_.
           bindA (readsE (\<lambda>w. code_text (get_val ''code'' module_yaml))) (\<lambda>code.
           bindA (if cf_legacy args = [] then ret [] else cleanup_legacy_configs (cf_legacy args) code) (\<lambda>deleted.
           bindA (effect (\<lambda>w. print_line
                    (json_dumps style_indent2 (config_summary args answers code config settings found deleted w)) w)) (\<lambda>_.
           ret 0))))))))))))"

section \<open>The section of the module\<close>











end
