(* ===== verification/Template.thy ===== *)
theory Template
  imports Actions
begin

text \<open>
  \<open>.agents/skills/bmad-agent-builder/scripts/process-template.py\<close>: conditional blocks and variables of a
  template. The arguments are as \<open>argparse\<close> parsed them, a missing \<open>--output\<close> is the empty string; a text
  that goes to the standard output is an entry of the world's output without a line end. The
  metadata on the standard error is not modelled.
\<close>

section \<open>Conditional blocks\<close>

definition cond_char :: "char \<Rightarrow> bool" where   \<comment> \<open>\<open>[a-zA-Z0-9_-]\<close>\<close>
  "cond_char c \<longleftrightarrow> is_lower c \<or> is_upper c \<or> is_digit c \<or> c = CHR ''_'' \<or> c = CHR ''-''"

definition rx_condition :: rx where
  "rx_condition = rseq [rlit ''{if-'', RGrp 1 (rplus (RChr cond_char)), rlit ''}'', RGrp 2 (RStar False rany),
     rlit ''{/if-'', RBack 1, rlit ''}'']"

definition add_new :: "string \<Rightarrow> string list \<Rightarrow> string list" where
  "add_new c cs = (if c \<in> set cs then cs else cs @ [c])"

definition rx_blank_lines :: rx where   \<comment> \<open>\<open>\n{3,}\<close>\<close>
  "rx_blank_lines = rseq [rlit [nl, nl], rplus (RChr (\<lambda>c. c = nl))]"

definition collapse_blank :: "string \<Rightarrow> string" where
  "collapse_blank text = re_sub rx_blank_lines (\<lambda>_. [nl, nl]) text"

text \<open>A block with the condition \<open>c\<close>.\<close>

definition cond_name :: "string \<Rightarrow> bool" where
  "cond_name c \<longleftrightarrow> c \<noteq> [] \<and> list_all cond_char c"

definition cond_block :: "string \<Rightarrow> string \<Rightarrow> string" where
  "cond_block c inner = ''{if-'' @ c @ ''}'' @ inner @ ''{/if-'' @ c @ ''}''"

lemma rrep_lazy: "set (rrep False n m s) = set (rrep True n m s)"
  by (induction n arbitrary: s) (auto simp: Let_def)

lemma bex_lazy:
  "(\<exists>u \<in> set (rrun (RStar False rany) (pre, rest, gs)). P u) \<longleftrightarrow> (\<exists>w rest'. rest = w @ rest' \<and> P (rev w @ pre, rest', gs))"
proof -
  have eq: "set (rrun (RStar False rany) (pre, rest, gs)) = set (rrun (RStar True (RChr (\<lambda>_. True))) (pre, rest, gs))"
    by (simp only: rany_def rrun.simps(5) rrep_lazy)
  have all: "list_all (\<lambda>_. True) w = True" for w :: string by (simp add: list_all_iff)
  show ?thesis unfolding Bex_def eq in_star_chr all by blast
qed

lemma bex_back:
  "map_of gs i = Some w \<Longrightarrow>
     (\<exists>u \<in> set (rrun (RBack i) (pre, rest, gs)). P u) \<longleftrightarrow> (\<exists>rest'. rest = w @ rest' \<and> P (rev w @ pre, rest', gs))"
  by (auto simp: rrun.simps prefix_def)

lemma bex_grp_plus:
  "(\<exists>u \<in> set (rrun (RGrp i (rplus (RChr p))) (pre, rest, gs)). P u) \<longleftrightarrow>
     (\<exists>w rest'. w \<noteq> [] \<and> list_all p w \<and> rest = w @ rest' \<and> P (rev w @ pre, rest', (i, w) # gs))"
  unfolding bex_grp bex_plus by auto

lemma bex_grp_lazy:
  "(\<exists>u \<in> set (rrun (RGrp i (RStar False rany)) (pre, rest, gs)). P u) \<longleftrightarrow>
     (\<exists>w rest'. rest = w @ rest' \<and> P (rev w @ pre, rest', (i, w) # gs))"
  unfolding bex_grp bex_lazy by (intro ex_cong1 conj_cong refl) simp

lemma bex_condition:
  "(\<exists>t \<in> set (rrun rx_condition (pre, rest, [])). P t) \<longleftrightarrow>
     (\<exists>c inner v. cond_name c \<and> rest = cond_block c inner @ v \<and> P (rev (cond_block c inner) @ pre, v, [(2, inner), (1, c)]))"
proof -
  have again: "(\<exists>u \<in> set (rrun (RBack 1) (pre', rest', [(2, inner), (1, c)])). Q u) \<longleftrightarrow>
      (\<exists>v. rest' = c @ v \<and> Q (rev c @ pre', v, [(2, inner), (1, c)]))" for pre' rest' inner c Q
    by (rule bex_back) simp
  show ?thesis
    unfolding rx_condition_def bex_rseq bex_rlit bex_grp_plus bex_grp_lazy again cond_block_def cond_name_def
      append_assoc rev_append
    by (rule iffI; elim exE conjE; hypsubst; intro exI conjI; (assumption | rule refl)+)
qed

lemma search_at:
  "search_from r pre rest = Some m \<Longrightarrow> \<exists>u v. rest = u @ v \<and> match_at r (rev u @ pre) v = Some m"
proof (induction rest arbitrary: pre)
  case Nil
  then have "match_at r pre [] = Some m" by (subst (asm) search_from.simps) (simp split: option.splits)
  then show ?case by simp
next
  case (Cons c cs)
  show ?case
  proof (cases "match_at r pre (c # cs)")
    case None
    with Cons.prems have "search_from r (c # pre) cs = Some m" by (subst (asm) search_from.simps) simp
    from Cons.IH [OF this] obtain u v where "cs = u @ v" "match_at r (rev u @ c # pre) v = Some m" by blast
    then show ?thesis by (intro exI [of _ "c # u"] exI [of _ v]) simp
  next
    case (Some m')
    with Cons.prems have "m' = m" by (subst (asm) search_from.simps) simp
    with Some show ?thesis by (intro exI [of _ "[]"] exI [of _ "c # cs"]) simp
  qed
qed

lemma search_misses: "search_from r pre rest = None \<Longrightarrow> rest = u @ v \<Longrightarrow> match_at r (rev u @ pre) v = None"
proof (induction rest arbitrary: pre u)
  case Nil
  then show ?case by (subst (asm) search_from.simps) (simp split: option.splits)
next
  case (Cons c cs)
  from Cons.prems(1) have here: "match_at r pre (c # cs) = None" and there: "search_from r (c # pre) cs = None"
    by (subst (asm) search_from.simps, simp split: option.splits)+
  show ?case
  proof (cases u)
    case Nil
    then show ?thesis using here Cons.prems(2) by simp
  next
    case (Cons d u')
    then show ?thesis using Cons.IH [OF there, of u'] \<open>c # cs = u @ v\<close> by simp
  qed
qed

text \<open>The search finds a block exactly when there is one, and answers its parts.\<close>

lemma found_block:
  assumes "re_search rx_condition s = Some m"
  shows "cond_name (rm_grp m 1)" "s = rm_before m @ cond_block (rm_grp m 1) (rm_grp m 2) @ rm_after m"
proof -
  obtain u v where uv: "s = u @ v" "match_at rx_condition (rev u) v = Some m"
    using search_at [of rx_condition "[]" s m] assms by (auto simp: re_search_def)
  then obtain t ts where t: "rrun rx_condition (rev u, v, []) = t # ts" "m = match_of (rev u) v t"
    by (auto simp: match_at_def split: list.splits)
  have "\<exists>t' \<in> set (rrun rx_condition (rev u, v, [])). t' = t" using t(1) by simp
  then obtain c inner w where c: "cond_name c" "v = cond_block c inner @ w"
    "t = (rev (cond_block c inner) @ rev u, w, [(2, inner), (1, c)])"
    unfolding bex_condition by blast
  then have "rm_grp m 1 = c" "rm_grp m 2 = inner" "rm_before m = u" "rm_after m = w"
    using t(2) by (simp_all add: match_of_def rm_grp_def rm_group_def)
  with c(1,2) uv(1) show "cond_name (rm_grp m 1)" "s = rm_before m @ cond_block (rm_grp m 1) (rm_grp m 2) @ rm_after m"
    by simp_all
qed

lemma no_block_left:
  assumes "re_search rx_condition s = None" "cond_name c"
  shows "s \<noteq> u @ cond_block c inner @ v"
proof
  assume "s = u @ cond_block c inner @ v"
  then have "match_at rx_condition (rev u) (cond_block c inner @ v) = None"
    using search_misses [of rx_condition "[]" s u] assms(1) by (simp add: re_search_def)
  then have "rrun rx_condition (rev u, cond_block c inner @ v, []) = []"
    by (auto simp: match_at_def split: list.splits)
  moreover have "\<exists>t \<in> set (rrun rx_condition (rev u, cond_block c inner @ v, [])). True"
    unfolding bex_condition using assms(2) by blast
  ultimately show False by simp
qed

lemma block_longer: "length inner < length (cond_block c inner)"
  by (simp add: cond_block_def)

text \<open>The loop; the conditions found true and those found false so far.\<close>

function resolve_blocks :: "string list \<Rightarrow> string \<Rightarrow> string list \<Rightarrow> string list \<Rightarrow> string \<times> string list \<times> string list" where
  "resolve_blocks true_conditions text1 ts fs =
     (case re_search rx_condition text1 of
        None \<Rightarrow> (text1, ts, fs)
      | Some m \<Rightarrow>
          (let c = rm_grp m 1 in
           if c \<in> set true_conditions
           then resolve_blocks true_conditions (rm_before m @ rm_grp m 2 @ rm_after m) (add_new c ts) fs
           else resolve_blocks true_conditions (rm_before m @ rm_after m) ts (add_new c fs)))"
  by pat_completeness auto
termination
proof (relation "measure (\<lambda>(cs, s, ts, fs). length s)")
  fix cs s ts fs m c
  assume "re_search rx_condition s = Some m"
  from arg_cong [where f = length, OF found_block(2) [OF this]] block_longer [of "rm_grp m 2" "rm_grp m 1"]
  show "((cs, rm_before m @ rm_grp m 2 @ rm_after m, add_new c ts, fs), cs, s, ts, fs) \<in> measure (\<lambda>(cs, s, ts, fs). length s)"
    "((cs, rm_before m @ rm_after m, ts, add_new c fs), cs, s, ts, fs) \<in> measure (\<lambda>(cs, s, ts, fs). length s)"
    by (simp_all add: cond_block_def)
qed simp

declare resolve_blocks.simps [simp del]

definition process_conditionals :: "string \<Rightarrow> string list \<Rightarrow> string \<times> string list \<times> string list" where
  "process_conditionals text1 true_conditions =
     (case resolve_blocks true_conditions text1 [] [] of (t, ts, fs) \<Rightarrow> (collapse_blank t, ts, fs))"

section \<open>Variables and the program\<close>

fun process_variables :: "string \<Rightarrow> string dict \<Rightarrow> string list \<Rightarrow> string \<times> string list" where
  "process_variables text1 [] names = (text1, names)"
| "process_variables text1 ((name, v) # vars) names =
     (let placeholder = ''{'' @ name @ ''}'' in
      if contains text1 placeholder
      then process_variables (replace_all placeholder v text1) vars (add_new name names)
      else process_variables text1 vars names)"

definition parse_var :: "string \<Rightarrow> (string \<times> string) option" where   \<comment> \<open>\<open>None\<close>: \<open>ArgumentTypeError\<close>\<close>
  "parse_var s = (case split_once ''='' s of Some (k, v) \<Rightarrow> if k = [] then None else Some (k, v) | None \<Rightarrow> None)"

fun parse_vars :: "string list \<Rightarrow> string dict \<Rightarrow> string dict option" where
  "parse_vars [] vars = Some vars"
| "parse_vars (s # ss) vars = (case parse_var s of None \<Rightarrow> None | Some (k, v) \<Rightarrow> parse_vars ss (dict_set k v vars))"

record template_args =
  ta_template :: string
  ta_output :: string
  ta_vars :: "string list"
  ta_true :: "string list"

definition process_text :: "string \<Rightarrow> string list \<Rightarrow> string dict \<Rightarrow> string" where
  "process_text content true_conditions variables =
     fst (process_variables (fst (process_conditionals content true_conditions)) variables [])"

definition write_output :: "string \<Rightarrow> string \<Rightarrow> int act" where
  "write_output output_file content =
     (if output_file = [] then bindA (effect (print_line content)) (\<lambda>_. ret 0)
      else
        bindA (reads (\<lambda>w. is_dir w (path_of output_file) \<or> \<not> is_dir w (path_parent (resolve w (path_of output_file))))) (\<lambda>fails.
        if fails then ret 1
        else bindA (effect (\<lambda>w. put_file w (path_of output_file) content)) (\<lambda>_. ret 0)))"

definition process_template :: "template_args \<Rightarrow> int act" where   \<comment> \<open>\<open>main\<close>\<close>
  "process_template args =
     (case parse_vars (ta_vars args) [] of
        None \<Rightarrow> ret 2
      | Some variables \<Rightarrow>
          bindA (reads (\<lambda>w. read_file w (path_of (ta_template args)))) (\<lambda>found.
          case found of
            Inl (FileNotFoundError _) \<Rightarrow> ret 2
          | Inl _ \<Rightarrow> ret 1
          | Inr content \<Rightarrow> write_output (ta_output args) (process_text content (ta_true args) variables)))"

section \<open>Blocks as rewriting\<close>

text \<open>One block is replaced: by its inner text when its condition holds, by nothing otherwise.\<close>

inductive resolve_step :: "string list \<Rightarrow> string \<Rightarrow> string \<Rightarrow> bool" for conditions where
  keep: "cond_name c \<Longrightarrow> c \<in> set conditions \<Longrightarrow> resolve_step conditions (u @ cond_block c inner @ v) (u @ inner @ v)"
| drop: "cond_name c \<Longrightarrow> c \<notin> set conditions \<Longrightarrow> resolve_step conditions (u @ cond_block c inner @ v) (u @ v)"

lemma blocks_resolved:
  "resolve_blocks conditions s ts fs = (t, ts', fs') \<Longrightarrow>
     (resolve_step conditions)\<^sup>*\<^sup>* s t \<and> re_search rx_condition t = None \<and>
     set ts' \<subseteq> set ts \<union> set conditions \<and> set fs' \<subseteq> set fs \<union> - set conditions"
proof (induction conditions s ts fs rule: resolve_blocks.induct)
  case (1 conditions s ts fs)
  show ?case
  proof (cases "re_search rx_condition s")
    case None
    then show ?thesis using "1.prems" by (subst (asm) resolve_blocks.simps) simp
  next
    case (Some m)
    let ?c = "rm_grp m 1"
    note found = found_block [OF Some]
    show ?thesis
    proof (cases "?c \<in> set conditions")
      case True
      then have "resolve_blocks conditions (rm_before m @ rm_grp m 2 @ rm_after m) (add_new ?c ts) fs = (t, ts', fs')"
        using "1.prems" Some by (subst (asm) resolve_blocks.simps) (simp add: Let_def)
      note ih = "1.IH"(1) [OF Some refl True this]
      have "resolve_step conditions s (rm_before m @ rm_grp m 2 @ rm_after m)"
        by (subst found(2)) (rule resolve_step.keep [OF found(1) True])
      moreover have "set (add_new ?c ts) \<subseteq> set ts \<union> set conditions" using True by (auto simp: add_new_def)
      ultimately show ?thesis using ih by (auto intro: converse_rtranclp_into_rtranclp)
    next
      case False
      then have "resolve_blocks conditions (rm_before m @ rm_after m) ts (add_new ?c fs) = (t, ts', fs')"
        using "1.prems" Some by (subst (asm) resolve_blocks.simps) (simp add: Let_def)
      note ih = "1.IH"(2) [OF Some refl False this]
      have "resolve_step conditions s (rm_before m @ rm_after m)"
        by (subst found(2)) (rule resolve_step.drop [OF found(1) False])
      moreover have "set (add_new ?c fs) \<subseteq> set fs \<union> - set conditions" using False by (auto simp: add_new_def)
      ultimately show ?thesis using ih by (auto intro: converse_rtranclp_into_rtranclp)
    qed
  qed
qed

text \<open>
  C39. The conditional blocks of a template are resolved to the end: the processed text is, with its
  blank lines collapsed, a text that replacing blocks one after the other leads to (a block by its
  inner text when its condition is given, by nothing otherwise) and in which no block is left; and
  a condition is reported true only when it was given, false only when it was not.
\<close>

theorem conditionals_resolved:
  "case process_conditionals content conditions of (result, ts, fs) \<Rightarrow>
     (\<exists>t. result = collapse_blank t \<and> (resolve_step conditions)\<^sup>*\<^sup>* content t \<and>
        \<not> (\<exists>u c inner v. cond_name c \<and> t = u @ cond_block c inner @ v)) \<and>
     set ts \<subseteq> set conditions \<and> set fs \<inter> set conditions = {}"
proof -
  obtain t ts fs where r: "resolve_blocks conditions content [] [] = (t, ts, fs)"
    by (cases "resolve_blocks conditions content [] []") blast
  from blocks_resolved [OF r] have "(resolve_step conditions)\<^sup>*\<^sup>* content t" "re_search rx_condition t = None"
    "set ts \<subseteq> set conditions" "set fs \<inter> set conditions = {}" by auto
  moreover have "\<not> (\<exists>u c inner v. cond_name c \<and> t = u @ cond_block c inner @ v)"
    using no_block_left calculation(2) by blast
  ultimately have "\<exists>t'. collapse_blank t = collapse_blank t' \<and> (resolve_step conditions)\<^sup>*\<^sup>* content t' \<and>
      \<not> (\<exists>u c inner v. cond_name c \<and> t' = u @ cond_block c inner @ v)" by blast
  with r \<open>set ts \<subseteq> set conditions\<close> \<open>set fs \<inter> set conditions = {}\<close> show ?thesis
    by (simp add: process_conditionals_def)
qed

end
