(* ===== verification/Customizable_Skills.thy ===== *)
theory Customizable_Skills
  imports Text_Utils
begin

text \<open>
  \<open>.agents/skills/bmad-customize/scripts/list_customizable_skills.py\<close>: the skills below some roots that
  have a customization file, each under the surfaces of that file. The TOML reader is a parameter;
  the arguments are as \<open>argparse\<close> parsed them, a missing \<open>--skills-root\<close> is the empty string.
\<close>

section \<open>One skill\<close>

definition rx_frontmatter_block :: rx where   \<comment> \<open>\<open>FRONTMATTER_RE\<close>\<close>
  "rx_frontmatter_block =
     rseq [RBol False, rlit ''---'', rstar rspace, rlit [nl], RGrp 1 (RStar False rany), rlit (nl # ''---''), rstar rspace,
       rlit [nl]]"

definition unquoted :: "string \<Rightarrow> string" where
  "unquoted v =
     (if startswith v [squote] \<and> endswith v [squote] \<or> startswith v [dquote] \<and> endswith v [dquote]
      then butlast (tl v) else v)"

fun description_of :: "string list \<Rightarrow> string" where
  "description_of [] = []"
| "description_of (l # ls) =
     (if startswith (strip l) ''description:'' then unquoted (strip (drop (length ''description:'') (strip l)))
      else description_of ls)"

definition read_frontmatter_description :: "world \<Rightarrow> ppath \<Rightarrow> string" where
  "read_frontmatter_description w skill_md =
     (if \<not> is_file w skill_md then []
      else (case read_file w skill_md of
              Inl _ \<Rightarrow> []
            | Inr content \<Rightarrow>
                (case re_match rx_frontmatter_block content of
                   None \<Rightarrow> []
                 | Some m \<Rightarrow> description_of (splitlines (rm_grp m 1)))))"

definition load_customize :: "toml_reader \<Rightarrow> world \<Rightarrow> ppath \<Rightarrow> pyval dict option" where
  "load_customize toml w toml_path =
     (case read_file w toml_path of Inl _ \<Rightarrow> None | Inr s \<Rightarrow> (case toml s of Inl _ \<Rightarrow> None | Inr d \<Rightarrow> Some d))"

definition surface_keys :: "string list" where   \<comment> \<open>\<open>SURFACE_KEYS\<close>\<close>
  "surface_keys = [''agent'', ''workflow'']"

definition custom_file :: "ppath \<Rightarrow> string \<Rightarrow> string \<Rightarrow> ppath" where
  "custom_file custom_dir skill_name ext = path_join custom_dir (PPath False [skill_name @ ext])"

definition entry_base :: "world \<Rightarrow> ppath \<Rightarrow> ppath \<Rightarrow> ppath \<Rightarrow> pyval dict" where
  "entry_base w custom_dir root skill_dir =
     (let skill_name = path_name skill_dir; team = custom_file custom_dir skill_name ''.toml'';
          user = custom_file custom_dir skill_name ''.user.toml''
      in [(''name'', VStr skill_name), (''install_path'', VStr (path_str skill_dir)), (''skills_root'', VStr (path_str root)),
          (''description'', VStr (read_frontmatter_description w (path_join skill_dir (path_of ''SKILL.md'')))),
          (''has_team_override'', VBool (is_file w team)), (''has_user_override'', VBool (is_file w user)),
          (''team_override_path'', VStr (path_str team)), (''user_override_path'', VStr (path_str user))])"

section \<open>The scan\<close>

record scan =
  sc_agents :: "pyval dict list"
  sc_workflows :: "pyval dict list"
  sc_errors :: "string list"
  sc_roots :: "string list"
  sc_seen :: "string list"

definition empty_scan :: scan where
  "empty_scan = \<lparr>sc_agents = [], sc_workflows = [], sc_errors = [], sc_roots = [], sc_seen = []\<rparr>"

definition add_error :: "string \<Rightarrow> scan \<Rightarrow> scan" where
  "add_error e s = s\<lparr>sc_errors := sc_errors s @ [e]\<rparr>"

definition add_surface :: "pyval dict \<Rightarrow> string \<Rightarrow> scan \<Rightarrow> scan" where
  "add_surface base surface s =
     (let entry = dict_set ''surface'' (VStr surface) base in
      if surface = ''agent'' then s\<lparr>sc_agents := sc_agents s @ [entry]\<rparr>
      else s\<lparr>sc_workflows := sc_workflows s @ [entry]\<rparr>)"

definition scan_skill :: "toml_reader \<Rightarrow> world \<Rightarrow> ppath \<Rightarrow> ppath \<Rightarrow> ppath \<Rightarrow> scan \<Rightarrow> scan" where
  "scan_skill toml w custom_dir root skill_dir s =
     (let customize_toml = path_join skill_dir (path_of ''customize.toml''); skill_name = path_name skill_dir in
      if \<not> is_file w customize_toml then s
      else (case load_customize toml w customize_toml of
              None \<Rightarrow> add_error (''failed to parse '' @ path_str customize_toml) s
            | Some d \<Rightarrow>
                if skill_name \<in> set (sc_seen s) then s
                else
                  (let s1 = s\<lparr>sc_seen := skill_name # sc_seen s\<rparr>;
                       surfaces_found = List.filter (\<lambda>k. dict_has k d) surface_keys
                   in if surfaces_found = []
                      then add_error (''no [agent] or [workflow] block in '' @ path_str customize_toml) s1
                      else fold (add_surface (entry_base w custom_dir root skill_dir)) surfaces_found s1)))"

definition skill_dirs :: "world \<Rightarrow> ppath \<Rightarrow> ppath list" where   \<comment> \<open>\<open>sorted(p for p in root.iterdir() if p.is_dir())\<close>\<close>
  "skill_dirs w root = List.filter (is_dir w) (glob_sorted w root ''*'')"

definition scan_root :: "toml_reader \<Rightarrow> world \<Rightarrow> ppath \<Rightarrow> ppath \<Rightarrow> scan \<Rightarrow> scan" where
  "scan_root toml w custom_dir root s =
     (if \<not> is_dir w root then add_error (''skills root does not exist: '' @ path_str root) s
      else fold (scan_skill toml w custom_dir root) (skill_dirs w root) (s\<lparr>sc_roots := sc_roots s @ [path_str root]\<rparr>))"

definition custom_dir_of :: "ppath \<Rightarrow> ppath" where
  "custom_dir_of project_root = path_join project_root (path_of ''_bmad/custom'')"

definition scan_every :: "toml_reader \<Rightarrow> world \<Rightarrow> ppath list \<Rightarrow> ppath \<Rightarrow> scan" where
  "scan_every toml w skills_roots project_root = fold (scan_root toml w (custom_dir_of project_root)) skills_roots empty_scan"

definition scan_skills :: "toml_reader \<Rightarrow> world \<Rightarrow> ppath list \<Rightarrow> ppath \<Rightarrow> pyval" where
  "scan_skills toml w skills_roots project_root =
     (let s = scan_every toml w skills_roots project_root in
      VDict
        [(''project_root'', VStr (path_str project_root)), (''scanned_roots'', VList (List.map VStr (sc_roots s))),
         (''custom_dir'', VStr (path_str (custom_dir_of project_root))), (''agents'', VList (List.map VDict (sc_agents s))),
         (''workflows'', VList (List.map VDict (sc_workflows s))), (''errors'', VList (List.map VStr (sc_errors s)))])"

section \<open>The program\<close>

record list_args =
  li_project_root :: string
  li_skills_root :: string
  li_extra_root :: "string list"

definition given_root :: "world \<Rightarrow> string \<Rightarrow> ppath" where
  "given_root w s = resolve w (expanduser w (path_of s))"

definition default_skills_root :: "world \<Rightarrow> ppath" where
  "default_skills_root w = path_parent (path_parent (path_parent (PPath True (w_module w))))"

fun distinct_roots :: "ppath list \<Rightarrow> ppath list \<Rightarrow> ppath list" where   \<comment> \<open>the first occurrences\<close>
  "distinct_roots [] roots = roots"
| "distinct_roots (r # rs) roots = distinct_roots rs (if r \<in> set roots then roots else roots @ [r])"

definition scan_roots :: "world \<Rightarrow> list_args \<Rightarrow> ppath list" where
  "scan_roots w args =
     distinct_roots
       ((if li_skills_root args \<noteq> [] then given_root w (li_skills_root args) else default_skills_root w)
        # List.map (given_root w) (li_extra_root args)) []"

definition list_customizable_skills :: "toml_reader \<Rightarrow> list_args \<Rightarrow> int act" where   \<comment> \<open>\<open>main\<close>\<close>
  "list_customizable_skills toml args =
     bindA (reads (\<lambda>w. given_root w (li_project_root args))) (\<lambda>project_root.
     bindA (reads (\<lambda>w. is_dir w project_root)) (\<lambda>there.
     if \<not> there then ret 2
     else
       bindA (effect (\<lambda>w. print_line
                (json_dumps style_indent2 (sort_keys (scan_skills toml w (scan_roots w args) project_root))) w)) (\<lambda>_. ret 0)))"

section \<open>Every skill once\<close>

definition names_of :: "pyval dict list \<Rightarrow> pyval list" where
  "names_of entries = List.map (get_val ''name'') entries"

definition scan_ok :: "scan \<Rightarrow> bool" where
  "scan_ok s \<longleftrightarrow> distinct (names_of (sc_agents s)) \<and> distinct (names_of (sc_workflows s)) \<and>
     set (names_of (sc_agents s @ sc_workflows s)) \<subseteq> VStr ` set (sc_seen s)"

lemma entry_name: "get_val ''name'' (dict_set ''surface'' v (entry_base w custom_dir root skill_dir)) = VStr (path_name skill_dir)"
  by (simp add: get_val_def get_or_def dict.get_put) (simp add: entry_base_def dict_get_Cons Let_def)

lemma error_ok: "scan_ok (add_error e s) = scan_ok s"
  by (simp add: scan_ok_def add_error_def)

lemma surfaces_found: "List.filter P surface_keys \<in> {[], [''agent''], [''workflow''], [''agent'', ''workflow'']}"
  by (simp add: surface_keys_def)

lemma scan_ok_add:
  assumes "scan_ok s" "n \<notin> set (sc_seen s)"
  shows "scan_ok (s\<lparr>sc_seen := n # sc_seen s\<rparr>)"
    and "get_val ''name'' a = VStr n \<Longrightarrow> scan_ok (s\<lparr>sc_seen := n # sc_seen s, sc_agents := sc_agents s @ [a]\<rparr>)"
    and "get_val ''name'' a = VStr n \<Longrightarrow> scan_ok (s\<lparr>sc_seen := n # sc_seen s, sc_workflows := sc_workflows s @ [a]\<rparr>)"
    and "get_val ''name'' a = VStr n \<Longrightarrow> get_val ''name'' b = VStr n \<Longrightarrow>
      scan_ok (s\<lparr>sc_seen := n # sc_seen s, sc_agents := sc_agents s @ [a], sc_workflows := sc_workflows s @ [b]\<rparr>)"
  using assms unfolding scan_ok_def names_of_def by auto

lemma skill_ok:
  assumes "scan_ok s"
  shows "scan_ok (scan_skill toml w custom_dir root skill_dir s)"
proof -
  let ?base = "entry_base w custom_dir root skill_dir" and ?n = "path_name skill_dir"
  have added: "scan_ok (fold (add_surface ?base) ks (s\<lparr>sc_seen := ?n # sc_seen s\<rparr>))"
    if "ks \<in> {[], [''agent''], [''workflow''], [''agent'', ''workflow'']}" "?n \<notin> set (sc_seen s)" for ks
  proof -
    note ok = scan_ok_add [OF assms that(2)]
    show ?thesis using that(1) ok(1) ok(2) [OF entry_name] ok(3) [OF entry_name] ok(4) [OF entry_name entry_name]
      by (elim insertE emptyE) (simp_all add: add_surface_def Let_def)
  qed
  have "scan_ok (fold (add_surface ?base) (List.filter P surface_keys) (s\<lparr>sc_seen := ?n # sc_seen s\<rparr>))"
    if "?n \<notin> set (sc_seen s)" for P
    using added [OF surfaces_found that] .
  then show ?thesis using assms scan_ok_add(1) [OF assms]
    by (simp add: scan_skill_def Let_def error_ok split: option.split)
qed

lemma skills_ok: "scan_ok s \<Longrightarrow> scan_ok (fold (scan_skill toml w custom_dir root) dirs s)"
  by (induction dirs arbitrary: s) (simp_all add: skill_ok)

lemma root_ok:
  assumes "scan_ok s"
  shows "scan_ok (scan_root toml w custom_dir root s)"
proof -
  have "scan_ok (s\<lparr>sc_roots := rs\<rparr>)" for rs using assms by (simp add: scan_ok_def)
  then show ?thesis using assms by (simp add: scan_root_def error_ok skills_ok)
qed

text \<open>No surface lists two skills of one name, however many roots hold one.\<close>

lemma each_skill_once:
  "distinct (names_of (sc_agents (scan_every toml w roots project_root)))"
  "distinct (names_of (sc_workflows (scan_every toml w roots project_root)))"
proof -
  have "scan_ok (fold (scan_root toml w custom_dir) roots s)" if "scan_ok s" for custom_dir s
    using that by (induction roots arbitrary: s) (simp_all add: root_ok)
  from this [of empty_scan] show "distinct (names_of (sc_agents (scan_every toml w roots project_root)))"
    "distinct (names_of (sc_workflows (scan_every toml w roots project_root)))"
    by (simp_all add: scan_every_def scan_ok_def empty_scan_def names_of_def)
qed

end
