(* ===== verification/Module_Check.thy ===== *)
theory Module_Check
  imports Help_Csv Json_Facts
begin

text \<open>
  \<open>.agents/skills/bmad-module-builder/scripts/validate-module.py\<close>: the structure of a module and the
  rows of its help table. The source iterates over directories and sets in an order of their own,
  here they are sorted; the arguments are as \<open>argparse\<close> parsed them. Rows are those of
  \<open>csv.DictReader\<close>: a short row has \<open>None\<close> in its last columns, a long one keeps the rest apart.
\<close>

section \<open>The files of a module\<close>

definition required_yaml_fields :: "string list" where
  "required_yaml_fields = [''code'', ''description'', ''name'']"

definition child_dirs :: "world \<Rightarrow> ppath \<Rightarrow> ppath list" where
  "child_dirs w module_dir = List.filter (is_dir w) (glob_sorted w module_dir ''*'')"

definition under :: "ppath \<Rightarrow> string \<Rightarrow> ppath" where
  "under dir s = path_join dir (path_of s)"

definition find_setup_skill :: "world \<Rightarrow> ppath \<Rightarrow> ppath option" where
  "find_setup_skill w module_dir = List.find (\<lambda>d. endswith (path_name d) ''-setup'') (child_dirs w module_dir)"

definition find_skill_folders :: "world \<Rightarrow> ppath \<Rightarrow> string \<Rightarrow> string list" where
  "find_skill_folders w module_dir exclude_name =
     sorted_strings (List.map path_name
       (List.filter (\<lambda>d. path_name d \<noteq> exclude_name \<and> is_file w (under d ''SKILL.md'')) (child_dirs w module_dir)))"

definition detect_standalone_module :: "world \<Rightarrow> ppath \<Rightarrow> ppath option" where
  "detect_standalone_module w module_dir =
     (case List.filter (\<lambda>d. is_file w (under d ''SKILL.md'')) (child_dirs w module_dir) of
        [d] \<Rightarrow> if is_file w (under d ''assets/module.yaml'') then Some d else None
      | _ \<Rightarrow> None)"

definition yaml_line :: "string \<Rightarrow> string dict \<Rightarrow> string dict" where
  "yaml_line raw result =
     (let line = strip raw in
      if \<not> startswith line ''#'' \<and> \<not> startswith line ''-'' then
        (case split_once '':'' line of
           None \<Rightarrow> result
         | Some (k, v) \<Rightarrow>
             (let v' = strip_chars [squote] (strip_chars [dquote] (strip v)) in
              if v' \<noteq> [] \<and> \<not> startswith v' ''>'' then dict_set (strip k) v' result else result))
      else result)"

definition parse_yaml_minimal :: "string \<Rightarrow> string dict" where
  "parse_yaml_minimal content = fold yaml_line (splitlines content) []"

section \<open>Rows by name\<close>

record named_row =
  nr_cells :: "string option dict"
  nr_rest :: "string list option"

definition named_row_of :: "string list \<Rightarrow> string list \<Rightarrow> named_row" where
  "named_row_of header row =
     (let cells = fold (\<lambda>(k, v). dict_set k (Some v)) (zip header row) [];
          short = fold (\<lambda>k. dict_set k None) (drop (length row) header) cells
      in \<lparr>nr_cells = short, nr_rest = (if length header < length row then Some (drop (length header) row) else None)\<rparr>)"

definition parse_named_rows :: "string \<Rightarrow> (string list \<times> named_row list) res" where   \<comment> \<open>\<open>parse_csv_rows\<close>\<close>
  "parse_named_rows content =
     ebind (csv_rows content) (\<lambda>rows. Inr
       (case rows of [] \<Rightarrow> ([], [])
        | header # data \<Rightarrow> (header, List.map (named_row_of header) (List.filter (\<lambda>r. r \<noteq> []) data))))"

definition row_length :: "named_row \<Rightarrow> nat" where   \<comment> \<open>\<open>len(row)\<close>\<close>
  "row_length row = length (nr_cells row) + (case nr_rest row of None \<Rightarrow> 0 | Some _ \<Rightarrow> 1)"

definition row_get :: "named_row \<Rightarrow> string \<Rightarrow> string \<Rightarrow> string option" where   \<comment> \<open>\<open>row.get(k, dflt)\<close>\<close>
  "row_get row k dflt = (case dict_get k (nr_cells row) of None \<Rightarrow> Some dflt | Some v \<Rightarrow> v)"

definition shown_cell :: "string option \<Rightarrow> string" where
  "shown_cell c = (case c of None \<Rightarrow> ''None'' | Some s \<Rightarrow> s)"

definition row_text :: "named_row \<Rightarrow> string \<Rightarrow> string res" where   \<comment> \<open>\<open>row.get(k, "").strip()\<close>\<close>
  "row_text row k = (case row_get row k [] of None \<Rightarrow> Inl AttributeError | Some s \<Rightarrow> Inr (strip s))"

definition display_of :: "named_row \<Rightarrow> string" where
  "display_of row = shown_cell (row_get row ''display-name'' ''?'')"

section \<open>Findings\<close>

record finding =
  fi_severity :: string
  fi_category :: string
  fi_message :: string
  fi_detail :: string

definition finding_of :: "string \<Rightarrow> string \<Rightarrow> string \<Rightarrow> string \<Rightarrow> finding" where
  "finding_of severity category message detail =
     \<lparr>fi_severity = severity, fi_category = category, fi_message = message, fi_detail = detail\<rparr>"

definition missing_files :: "world \<Rightarrow> ppath \<Rightarrow> string list \<Rightarrow> finding list" where
  "missing_files w dir labels =
     List.map (\<lambda>l. finding_of ''critical'' ''structure'' (''Missing required file: '' @ l) [])
       (List.filter (\<lambda>l. \<not> is_file w (under dir l)) labels)"

definition standalone_files :: "string list" where
  "standalone_files =
     [''assets/module.yaml'', ''assets/module-help.csv'', ''assets/module-setup.md'', ''scripts/merge-config.py'',
      ''scripts/merge-help-csv.py'']"

definition setup_files :: "string list" where
  "setup_files = [''SKILL.md'', ''assets/module.yaml'', ''assets/module-help.csv'']"

definition yaml_findings :: "string dict \<Rightarrow> finding list" where
  "yaml_findings yaml =
     List.map (\<lambda>f. finding_of ''high'' ''yaml'' (''module.yaml missing or empty required field: '' @ f) [])
       (List.filter (\<lambda>f. case dict_get f yaml of None \<Rightarrow> True | Some v \<Rightarrow> v = []) required_yaml_fields)"

definition header_findings :: "string list \<Rightarrow> finding list" where
  "header_findings header =
     (if header = help_header then []
      else
        (let missing = List.filter (\<lambda>c. c \<notin> set header) help_header;
             extra = List.filter (\<lambda>c. c \<notin> set help_header) (remdups header);
             details = (if missing = [] then [] else [''missing: '' @ join '', '' (sorted_strings missing)]) @
               (if extra = [] then [] else [''extra: '' @ join '', '' (sorted_strings extra)])
         in [finding_of ''high'' ''csv-header'' (''CSV header mismatch: '' @ join ''; '' details) []]))"

definition column_findings :: "named_row list \<Rightarrow> finding list" where
  "column_findings rows =
     List.map (\<lambda>(i, row). finding_of ''medium'' ''csv-columns''
         (''Row '' @ show_nat (i + 2) @ '' has '' @ show_nat (row_length row) @ '' columns, expected '' @ show_nat (length help_header))
         (''skill='' @ shown_cell (row_get row ''skill'' ''?'')))
       (List.filter (\<lambda>p. row_length (snd p) \<noteq> length help_header) (List.enumerate 0 rows))"

definition row_skill :: "named_row \<Rightarrow> string res" where   \<comment> \<open>sorting and joining paths take no \<open>None\<close>\<close>
  "row_skill row = (case row_get row ''skill'' [] of None \<Rightarrow> Inl TypeError | Some s \<Rightarrow> Inr s)"

definition csv_skills :: "named_row list \<Rightarrow> string list res" where
  "csv_skills rows = ebind (map_res row_skill rows) (\<lambda>skills. Inr (sorted_strings (remdups skills)))"

definition missing_entries :: "string list \<Rightarrow> string list \<Rightarrow> finding list" where
  "missing_entries folders skills =
     List.map (\<lambda>s. finding_of ''high'' ''missing-entry''
         (''Skill '' @ [squote] @ s @ [squote] @ '' has no capability entries in the CSV'') [])
       (List.filter (\<lambda>s. s \<notin> set skills) folders)"

definition orphan_entries :: "world \<Rightarrow> ppath \<Rightarrow> string list \<Rightarrow> string list \<Rightarrow> string \<Rightarrow> finding list" where
  "orphan_entries w module_dir folders skills setup_name =
     List.map (\<lambda>s. finding_of ''high'' ''orphan-entry''
         (''CSV references skill '' @ [squote] @ s @ [squote] @ '' which does not exist in the module folder'') [])
       (List.filter (\<lambda>s. s \<notin> set folders \<and> s \<noteq> setup_name \<and> \<not> is_file w (under (path_join module_dir (path_of s)) ''SKILL.md''))
          skills)"

definition add_code :: "named_row \<Rightarrow> string option list dict \<Rightarrow> string option list dict res" where
  "add_code row codes =
     ebind (row_text row ''menu-code'') (\<lambda>code. Inr
       (if code = [] then codes
        else dict_set code ((case dict_get code codes of None \<Rightarrow> [] | Some ns \<Rightarrow> ns) @ [row_get row ''display-name'' ''?'']) codes))"

definition duplicate_code :: "string \<times> string option list \<Rightarrow> finding list res" where
  "duplicate_code cn =
     (case cn of (code, names) \<Rightarrow>
        if length names \<le> 1 then Inr []
        else if None \<in> set names then Inl TypeError
        else Inr [finding_of ''high'' ''duplicate-menu-code''
               (''Menu code '' @ [squote] @ code @ [squote] @ '' used by multiple entries: '' @ join '', '' (List.map shown_cell names)) []])"

definition menu_findings :: "named_row list \<Rightarrow> finding list res" where
  "menu_findings rows =
     ebind (efold add_code rows []) (\<lambda>codes. ebind (map_res duplicate_code codes) (\<lambda>fs. Inr (concat fs)))"

definition valid_ref :: "named_row \<Rightarrow> string list res" where
  "valid_ref row =
     ebind (row_text row ''skill'') (\<lambda>skill. ebind (row_text row ''action'') (\<lambda>action. Inr
       (if skill \<noteq> [] \<and> action \<noteq> [] then [skill @ '':'' @ action] else [])))"

definition ref_findings_in :: "string list \<Rightarrow> named_row \<times> string \<Rightarrow> finding list res" where
  "ref_findings_in valid rf =
     (case rf of (row, field) \<Rightarrow>
        ebind (row_text row field) (\<lambda>v. Inr
          (List.map (\<lambda>ref. finding_of ''medium'' ''invalid-ref''
               ([squote] @ display_of row @ [squote] @ '' '' @ field @ '' references '' @ [squote] @ ref @ [squote] @
                '' which is not a valid capability'')
               ''Expected format: skill-name:action-name'')
             (List.filter (\<lambda>ref. ref \<noteq> [] \<and> ref \<notin> set valid) (List.map strip (if v = [] then [] else split_all '','' v))))))"

definition ref_findings :: "named_row list \<Rightarrow> finding list res" where
  "ref_findings rows =
     ebind (map_res valid_ref rows) (\<lambda>valid.
     ebind (map_res (ref_findings_in (concat valid)) (List.product rows [''after'', ''before''])) (\<lambda>fs. Inr (concat fs)))"

definition required_row_fields :: "string list" where
  "required_row_fields = [''skill'', ''display-name'', ''menu-code'', ''description'']"

definition field_finding :: "named_row \<times> string \<Rightarrow> finding list res" where
  "field_finding rf =
     (case rf of (row, field) \<Rightarrow>
        ebind (row_text row field) (\<lambda>v. Inr
          (if v \<noteq> [] then []
           else [finding_of ''high'' ''missing-field''
                  (''Entry '' @ [squote] @ display_of row @ [squote] @ '' is missing required field: '' @ field) []])))"

definition field_findings :: "named_row list \<Rightarrow> finding list res" where
  "field_findings rows = ebind (map_res field_finding (List.product rows required_row_fields)) (\<lambda>fs. Inr (concat fs))"

section \<open>The result\<close>

record validation =
  va_info :: "pyval dict"
  va_findings :: "finding list"
  va_complete :: bool   \<comment> \<open>all checks were made\<close>

definition count_severity :: "finding list \<Rightarrow> string \<Rightarrow> nat" where
  "count_severity findings severity = length (List.filter (\<lambda>f. fi_severity f = severity) findings)"

definition passes :: "validation \<Rightarrow> bool" where
  "passes v \<longleftrightarrow> va_complete v \<and> count_severity (va_findings v) ''critical'' = 0 \<and> count_severity (va_findings v) ''high'' = 0"

definition row_findings :: "world \<Rightarrow> ppath \<Rightarrow> string \<Rightarrow> named_row list \<Rightarrow> (finding list \<times> string list \<times> string list) res" where
  "row_findings w module_dir setup_name rows =
     ebind (csv_skills rows) (\<lambda>skills.
     (let folders = find_skill_folders w module_dir setup_name in
      ebind (menu_findings rows) (\<lambda>menu.
      ebind (ref_findings rows) (\<lambda>refs.
      ebind (field_findings rows) (\<lambda>required. Inr
        (column_findings rows @ missing_entries folders skills @ orphan_entries w module_dir folders skills setup_name @
           menu @ refs @ required,
         folders, skills))))))"

definition yaml_info :: "string dict \<Rightarrow> pyval dict" where
  "yaml_info yaml =
     [(''module_code'', VStr (case dict_get ''code'' yaml of None \<Rightarrow> [] | Some v \<Rightarrow> v)),
      (''module_name'', VStr (case dict_get ''name'' yaml of None \<Rightarrow> [] | Some v \<Rightarrow> v))]"

text \<open>The checks of the definition and of the table, which \<open>dir\<close> holds.\<close>

definition validate_contents :: "world \<Rightarrow> ppath \<Rightarrow> ppath \<Rightarrow> string \<Rightarrow> pyval dict \<Rightarrow> validation res" where
  "validate_contents w module_dir dir setup_name info =
     ebind (read_file w (under dir ''assets/module.yaml'')) (\<lambda>yaml_text.
     ebind (read_file w (under dir ''assets/module-help.csv'')) (\<lambda>table.
     ebind (parse_named_rows table) (\<lambda>(header, rows).
     (let yaml = parse_yaml_minimal yaml_text; info1 = info @ yaml_info yaml;
          before = yaml_findings yaml @ header_findings header
      in if rows = []
         then Inr \<lparr>va_info = info1,
                va_findings = before @ [finding_of ''high'' ''csv-empty'' ''module-help.csv has no capability entries'' []],
                va_complete = False\<rparr>
         else
           ebind (row_findings w module_dir setup_name rows) (\<lambda>(found, folders, skills). Inr
             \<lparr>va_info = info1 @ [(''csv_entries'', VInt (int (length rows))), (''skill_folders'', VList (List.map VStr folders)),
                (''csv_skills'', VList (List.map VStr skills))],
              va_findings = before @ found, va_complete = True\<rparr>)))))"

definition validate_in :: "world \<Rightarrow> ppath \<Rightarrow> ppath \<Rightarrow> string list \<Rightarrow> string \<Rightarrow> pyval dict \<Rightarrow> validation res" where
  "validate_in w module_dir dir required setup_name info =
     (let missing = missing_files w dir required in
      if missing \<noteq> [] then Inr \<lparr>va_info = info, va_findings = missing, va_complete = False\<rparr>
      else validate_contents w module_dir dir setup_name info)"

definition validate :: "world \<Rightarrow> ppath \<Rightarrow> validation res" where
  "validate w module_dir =
     (case find_setup_skill w module_dir of
        Some dir \<Rightarrow> validate_in w module_dir dir setup_files (path_name dir) [(''setup_skill'', VStr (path_name dir))]
      | None \<Rightarrow>
          (case detect_standalone_module w module_dir of
             Some dir \<Rightarrow> validate_in w module_dir dir standalone_files []
               [(''standalone'', VBool True), (''skill_dir'', VStr (path_name dir))]
           | None \<Rightarrow> Inr
               \<lparr>va_info = [],
                va_findings = [finding_of ''critical'' ''structure''
                  ''No setup skill found (*-setup directory) and no standalone module detected'' []],
                va_complete = False\<rparr>))"

definition finding_json :: "finding \<Rightarrow> pyval" where
  "finding_json f =
     VDict [(''severity'', VStr (fi_severity f)), (''category'', VStr (fi_category f)), (''message'', VStr (fi_message f)),
       (''detail'', VStr (fi_detail f))]"

definition severity_json :: "finding list \<Rightarrow> pyval" where
  "severity_json findings =
     VDict (List.map (\<lambda>s. (s, VInt (int (count_severity findings s)))) [''critical'', ''high'', ''medium'', ''low''])"

definition validation_json :: "validation \<Rightarrow> pyval" where
  "validation_json v =
     (let status = (''status'', VStr (if passes v then ''pass'' else ''fail''));
          findings = (''findings'', VList (List.map finding_json (va_findings v))); info = (''info'', VDict (va_info v))
      in if \<not> va_complete v then VDict [status, findings, info]
         else VDict [status, info, findings,
                (''summary'', VDict [(''total_findings'', VInt (int (length (va_findings v)))),
                   (''by_severity'', severity_json (va_findings v))])])"

definition validate_module :: "string \<Rightarrow> int act" where   \<comment> \<open>\<open>main\<close>\<close>
  "validate_module module_dir =
     bindA (reads (\<lambda>w. is_dir w (path_of module_dir))) (\<lambda>there.
     if \<not> there then
       bindA (effect (print_line (json_dumps style_default (VDict [(''status'', VStr ''error''),
         (''message'', VStr (''Not a directory: '' @ path_str (path_of module_dir)))])))) (\<lambda>_. ret 2)
     else
       bindA (readsE (\<lambda>w. validate w (path_of module_dir))) (\<lambda>v.
       bindA (effect (print_line (json_dumps style_indent2 (validation_json v)))) (\<lambda>_.
       ret (if passes v then 0 else 1))))"

section \<open>What a passing module is\<close>

definition trimmed :: "string \<Rightarrow> named_row \<Rightarrow> string" where
  "trimmed k row = (case row_get row k [] of None \<Rightarrow> [] | Some s \<Rightarrow> strip s)"

lemma row_text_trimmed: "row_text row k = Inr t \<Longrightarrow> trimmed k row = t \<and> row_get row k [] \<noteq> None"
  by (auto simp: row_text_def trimmed_def split: option.splits)

definition named_under :: "string \<Rightarrow> string option list dict \<Rightarrow> nat" where
  "named_under c codes = (case dict_get c codes of None \<Rightarrow> 0 | Some ns \<Rightarrow> length ns)"

lemma codes_count:
  "efold add_code rows codes = Inr codes' \<Longrightarrow> c \<noteq> [] \<Longrightarrow>
     named_under c codes' = named_under c codes + count_list (List.map (trimmed ''menu-code'') rows) c"
proof (induction rows arbitrary: codes)
  case (Cons row rows)
  obtain codes1 where c1: "add_code row codes = Inr codes1" "efold add_code rows codes1 = Inr codes'"
    using Cons.prems(1) by (auto simp: ebind_eq_Inr)
  obtain t where t: "row_text row ''menu-code'' = Inr t" using c1(1) by (auto simp: add_code_def ebind_eq_Inr)
  have "codes1 = (if t = [] then codes
      else dict_set t ((case dict_get t codes of None \<Rightarrow> [] | Some ns \<Rightarrow> ns) @ [row_get row ''display-name'' ''?'']) codes)"
    using c1(1) t by (simp add: add_code_def ebind_def)
  then have "named_under c codes1 = named_under c codes + (if t = c then 1 else 0)"
    using Cons.prems(2) by (cases "t = []") (auto simp: named_under_def dict.get_put split: option.split)
  moreover have "trimmed ''menu-code'' row = t" using row_text_trimmed [OF t] by simp
  ultimately show ?case using Cons.IH [OF c1(2) Cons.prems(2)] by simp
qed simp

lemma distinct_count: "(\<And>c. c \<in> set xs \<Longrightarrow> count_list xs c \<le> 1) \<Longrightarrow> distinct xs"
proof (induction xs)
  case (Cons x xs)
  have "x \<notin> set xs"
  proof
    assume "x \<in> set xs"
    then have "count_list xs x \<noteq> 0" by (simp add: count_list_0_iff)
    then show False using Cons.prems [of x] by simp
  qed
  moreover have "distinct xs"
  proof (rule Cons.IH)
    fix c
    assume "c \<in> set xs"
    then show "count_list xs c \<le> 1" using Cons.prems [of c] by (simp split: if_splits)
  qed
  ultimately show ?case by simp
qed simp

lemma map_res_set: "map_res f xs = Inr ys \<Longrightarrow> x \<in> set xs \<Longrightarrow> \<exists>y \<in> set ys. f x = Inr y"
  by (induction xs arbitrary: ys) (auto simp: ebind_eq_Inr)

lemma map_res_back: "map_res f xs = Inr ys \<Longrightarrow> y \<in> set ys \<Longrightarrow> \<exists>x \<in> set xs. f x = Inr y"
  by (induction xs arbitrary: ys) (auto simp: ebind_eq_Inr)

lemma menu_codes_once:
  assumes "menu_findings rows = Inr []" "\<forall>row \<in> set rows. trimmed ''menu-code'' row \<noteq> []"
  shows "distinct (List.map (trimmed ''menu-code'') rows)"
proof (rule distinct_count)
  fix c
  assume "c \<in> set (List.map (trimmed ''menu-code'') rows)"
  then have "c \<noteq> []" using assms(2) by auto
  obtain codes fs where codes: "efold add_code rows [] = Inr codes" "map_res duplicate_code codes = Inr fs" "concat fs = []"
    using assms(1) by (auto simp: menu_findings_def ebind_eq_Inr)
  have "named_under c codes \<le> 1"
  proof (cases "dict_get c codes")
    case (Some ns)
    then have "(c, ns) \<in> set codes" by (simp add: dict_get_def map_of_SomeD)
    then obtain f where "duplicate_code (c, ns) = Inr f" "f \<in> set fs" using map_res_set [OF codes(2)] by blast
    moreover from this(2) codes(3) have "f = []" by simp
    ultimately show ?thesis using Some by (auto simp: duplicate_code_def named_under_def split: if_splits)
  qed (simp add: named_under_def)
  then show "count_list (List.map (trimmed ''menu-code'') rows) c \<le> 1"
    using codes_count [OF codes(1) \<open>c \<noteq> []\<close>] by (simp add: named_under_def)
qed

lemma fields_given:
  assumes "field_findings rows = Inr []" "row \<in> set rows" "field \<in> set required_row_fields"
  shows "trimmed field row \<noteq> []"
proof -
  obtain fs where fs: "map_res field_finding (List.product rows required_row_fields) = Inr fs" "concat fs = []"
    using assms(1) by (auto simp: field_findings_def ebind_eq_Inr)
  have "(row, field) \<in> set (List.product rows required_row_fields)" using assms(2,3) by simp
  then obtain f where f: "field_finding (row, field) = Inr f" "f \<in> set fs" using map_res_set [OF fs(1)] by blast
  moreover from f(2) fs(2) have "f = []" by simp
  ultimately obtain t where "row_text row field = Inr t" "t \<noteq> []"
    by (auto simp: field_finding_def ebind_eq_Inr split: if_splits)
  then show ?thesis using row_text_trimmed by simp
qed

text \<open>Findings of these lists are grave, so a passing validation has none of them.\<close>

definition grave :: "finding \<Rightarrow> bool" where
  "grave f \<longleftrightarrow> fi_severity f = ''critical'' \<or> fi_severity f = ''high''"

lemma passes_none: "passes v \<Longrightarrow> f \<in> set (va_findings v) \<Longrightarrow> \<not> grave f"
  by (auto simp: passes_def count_severity_def grave_def filter_empty_conv)

lemma all_grave:
  "f \<in> set (yaml_findings yaml) \<Longrightarrow> grave f" "f \<in> set (header_findings header) \<Longrightarrow> grave f"
  "f \<in> set (missing_entries folders skills) \<Longrightarrow> grave f"
  "f \<in> set (orphan_entries w dir folders skills setup_name) \<Longrightarrow> grave f"
  "duplicate_code cn = Inr fs \<Longrightarrow> f \<in> set fs \<Longrightarrow> grave f"
  "field_finding rf = Inr fs \<Longrightarrow> f \<in> set fs \<Longrightarrow> grave f"
  by (auto simp: grave_def finding_of_def yaml_findings_def header_findings_def missing_entries_def orphan_entries_def
      duplicate_code_def field_finding_def ebind_eq_Inr Let_def split: prod.splits if_splits)

lemma menu_grave: "menu_findings rows = Inr fs \<Longrightarrow> f \<in> set fs \<Longrightarrow> grave f"
  using all_grave(5) map_res_back by (fastforce simp: menu_findings_def ebind_eq_Inr)

lemma fields_grave: "field_findings rows = Inr fs \<Longrightarrow> f \<in> set fs \<Longrightarrow> grave f"
  using all_grave(6) map_res_back by (fastforce simp: field_findings_def ebind_eq_Inr)

lemma no_grave_list: "(\<And>f. f \<in> set fs \<Longrightarrow> grave f) \<Longrightarrow> (\<And>f. f \<in> set fs \<Longrightarrow> \<not> grave f) \<Longrightarrow> fs = []"
  by (cases fs) auto

lemma contents_pass:
  assumes "validate_contents w module_dir dir setup_name info = Inr v" "passes v"
  shows "\<exists>yaml_text table rows skills.
    read_file w (under dir ''assets/module.yaml'') = Inr yaml_text \<and> read_file w (under dir ''assets/module-help.csv'') = Inr table \<and>
    parse_named_rows table = Inr (help_header, rows) \<and> rows \<noteq> [] \<and> csv_skills rows = Inr skills \<and>
    yaml_findings (parse_yaml_minimal yaml_text) = [] \<and>
    missing_entries (find_skill_folders w module_dir setup_name) skills = [] \<and>
    orphan_entries w module_dir (find_skill_folders w module_dir setup_name) skills setup_name = [] \<and>
    menu_findings rows = Inr [] \<and> field_findings rows = Inr []"
proof -
  let ?folders = "find_skill_folders w module_dir setup_name"
  obtain yaml_text table header rows where f: "read_file w (under dir ''assets/module.yaml'') = Inr yaml_text"
    "read_file w (under dir ''assets/module-help.csv'') = Inr table" "parse_named_rows table = Inr (header, rows)"
    and rest: "(if rows = [] then Inr \<lparr>va_info = info @ yaml_info (parse_yaml_minimal yaml_text),
           va_findings = (yaml_findings (parse_yaml_minimal yaml_text) @ header_findings header)
             @ [finding_of ''high'' ''csv-empty'' ''module-help.csv has no capability entries'' []], va_complete = False\<rparr>
         else ebind (row_findings w module_dir setup_name rows) (\<lambda>(found, folders, skills). Inr
           \<lparr>va_info = (info @ yaml_info (parse_yaml_minimal yaml_text)) @ [(''csv_entries'', VInt (int (length rows))),
                (''skill_folders'', VList (List.map VStr folders)), (''csv_skills'', VList (List.map VStr skills))],
            va_findings = (yaml_findings (parse_yaml_minimal yaml_text) @ header_findings header) @ found, va_complete = True\<rparr>)) = Inr v"
    using assms(1) by (auto simp: validate_contents_def ebind_eq_Inr Let_def)
  have some: "rows \<noteq> []" using rest assms(2) by (auto simp: passes_def)
  then obtain found folders skills where found: "row_findings w module_dir setup_name rows = Inr (found, folders, skills)"
    and v: "va_findings v = (yaml_findings (parse_yaml_minimal yaml_text) @ header_findings header) @ found"
    using rest by (auto simp: ebind_eq_Inr)
  obtain menu refs required where parts: "csv_skills rows = Inr skills" "menu_findings rows = Inr menu"
    "field_findings rows = Inr required"
    "found = column_findings rows @ missing_entries ?folders skills @ orphan_entries w module_dir ?folders skills setup_name @
           menu @ refs @ required"
    using found by (auto simp: row_findings_def ebind_eq_Inr Let_def)
  have "\<not> grave f" if "f \<in> set (va_findings v)" for f using passes_none [OF assms(2) that] .
  then have none: "yaml_findings (parse_yaml_minimal yaml_text) = []" "header_findings header = []"
    "missing_entries ?folders skills = []" "orphan_entries w module_dir ?folders skills setup_name = []"
    "menu = []" "required = []"
    using all_grave(1-4) menu_grave [OF parts(2)] fields_grave [OF parts(3)] unfolding v parts(4)
    by (intro no_grave_list; force)+
  moreover have "header = help_header" using none(2) by (simp add: header_findings_def Let_def split: if_splits)
  ultimately show ?thesis using f some parts(1-3) by blast
qed

lemma skills_rows:
  assumes "csv_skills rows = Inr skills"
  shows "s \<in> set skills \<longleftrightarrow> (\<exists>row \<in> set rows. row_get row ''skill'' [] = Some s)"
    and "row \<in> set rows \<Longrightarrow> \<exists>s \<in> set skills. row_get row ''skill'' [] = Some s"
proof -
  obtain ss where ss: "map_res row_skill rows = Inr ss" "set skills = set ss"
    using assms by (auto simp: csv_skills_def ebind_eq_Inr sorted_strings_def set_sort_by)
  have get: "row_skill row = Inr s \<longleftrightarrow> row_get row ''skill'' [] = Some s" for row s
    by (simp add: row_skill_def split: option.split)
  show "row \<in> set rows \<Longrightarrow> \<exists>s \<in> set skills. row_get row ''skill'' [] = Some s"
    using map_res_set [OF ss(1)] get ss(2) by blast
  show "s \<in> set skills \<longleftrightarrow> (\<exists>row \<in> set rows. row_get row ''skill'' [] = Some s)"
    using map_res_back [OF ss(1), of s] map_res_set [OF ss(1)] get ss(2) by (metis option.inject)
qed

text \<open>The directory whose files describe the module, and the name of its setup skill, if it has one.\<close>

definition described_by :: "world \<Rightarrow> ppath \<Rightarrow> ppath \<Rightarrow> string \<Rightarrow> bool" where
  "described_by w module_dir dir setup_name \<longleftrightarrow>
     find_setup_skill w module_dir = Some dir \<and> setup_name = path_name dir \<or>
     detect_standalone_module w module_dir = Some dir \<and> setup_name = []"

text \<open>
  A module that passes is in order: code 0 means that its definition names code, name and
  description, that its help table has the standard header and at least one row, that every row has
  its required fields and a menu code of its own, that every skill folder has a row, and that every
  row is about a skill that exists.
\<close>

theorem passing_module_sound:
  assumes "validate_module m w = Inr (0, w')"
  shows "\<exists>dir setup_name yaml_text table rows. described_by w (path_of m) dir setup_name \<and>
    read_file w (under dir ''assets/module.yaml'') = Inr yaml_text \<and> read_file w (under dir ''assets/module-help.csv'') = Inr table \<and>
    parse_named_rows table = Inr (help_header, rows) \<and> rows \<noteq> [] \<and>
    list_all (\<lambda>f. case dict_get f (parse_yaml_minimal yaml_text) of None \<Rightarrow> False | Some v \<Rightarrow> v \<noteq> []) required_yaml_fields \<and>
    list_all (\<lambda>row. list_all (\<lambda>f. trimmed f row \<noteq> []) required_row_fields) rows \<and>
    distinct (List.map (trimmed ''menu-code'') rows) \<and>
    list_all (\<lambda>folder. list_ex (\<lambda>row. row_get row ''skill'' [] = Some folder) rows) (find_skill_folders w (path_of m) setup_name) \<and>
    list_all (\<lambda>row. case row_get row ''skill'' [] of None \<Rightarrow> False
      | Some s \<Rightarrow> s \<in> set (find_skill_folders w (path_of m) setup_name) \<or> s = setup_name \<or>
          is_file w (under (path_join (path_of m) (path_of s)) ''SKILL.md'')) rows"
proof -
  let ?m = "path_of m"
  obtain v where v: "validate w ?m = Inr v" "passes v"
    using assms by (auto simp: validate_module_def act_Inr bindA_Inr split: if_splits)
  obtain dir setup_name info where dir: "described_by w ?m dir setup_name" "validate_contents w ?m dir setup_name info = Inr v"
    using v by (auto simp: validate_def validate_in_def Let_def described_by_def passes_def split: option.splits if_splits)
  from contents_pass [OF dir(2) v(2)] obtain yaml_text table rows skills where c:
    "read_file w (under dir ''assets/module.yaml'') = Inr yaml_text" "read_file w (under dir ''assets/module-help.csv'') = Inr table"
    "parse_named_rows table = Inr (help_header, rows)" "rows \<noteq> []" and skills: "csv_skills rows = Inr skills"
    and none: "yaml_findings (parse_yaml_minimal yaml_text) = []"
    "missing_entries (find_skill_folders w ?m setup_name) skills = []"
    "orphan_entries w ?m (find_skill_folders w ?m setup_name) skills setup_name = []"
    "menu_findings rows = Inr []" "field_findings rows = Inr []" by blast
  have given: "trimmed f row \<noteq> []" if "row \<in> set rows" "f \<in> set required_row_fields" for f row
    using fields_given [OF none(5) that] .
  then have "distinct (List.map (trimmed ''menu-code'') rows)"
    using menu_codes_once [OF none(4)] by (simp add: required_row_fields_def)
  moreover have "list_all (\<lambda>folder. list_ex (\<lambda>row. row_get row ''skill'' [] = Some folder) rows) (find_skill_folders w ?m setup_name)"
    using none(2) skills_rows(1) [OF skills] by (auto simp: missing_entries_def filter_empty_conv list_all_iff list_ex_iff)
  moreover have "list_all (\<lambda>row. case row_get row ''skill'' [] of None \<Rightarrow> False
      | Some s \<Rightarrow> s \<in> set (find_skill_folders w ?m setup_name) \<or> s = setup_name \<or>
          is_file w (under (path_join ?m (path_of s)) ''SKILL.md'')) rows"
    using none(3) skills_rows(2) [OF skills] by (fastforce simp: orphan_entries_def filter_empty_conv list_all_iff)
  moreover have "list_all (\<lambda>f. case dict_get f (parse_yaml_minimal yaml_text) of None \<Rightarrow> False | Some v \<Rightarrow> v \<noteq> []) required_yaml_fields"
    using none(1) by (auto simp: yaml_findings_def filter_empty_conv list_all_iff split: option.splits)
  moreover have "list_all (\<lambda>row. list_all (\<lambda>f. trimmed f row \<noteq> []) required_row_fields) rows"
    using given by (simp add: list_all_iff)
  ultimately show ?thesis using dir(1) c by blast
qed

text \<open>A module of one skill beside its setup skill.\<close>

definition module_row :: "string \<Rightarrow> string \<Rightarrow> string list" where
  "module_row skill code = [''b'', skill, ''D'', code, ''d'', ''a'', [], [], [], [], [], [], []]"

definition module_world :: world where
  "module_world = bare_world\<lparr>w_files :=
     [([''m'', ''b-setup'', ''SKILL.md''], []), ([''m'', ''s1'', ''SKILL.md''], []),
      ([''m'', ''b-setup'', ''assets'', ''module.yaml''],
        ''code: b'' @ [nl] @ ''name: B'' @ [nl] @ ''description: d''),
      ([''m'', ''b-setup'', ''assets'', ''module-help.csv''], csv_text [help_header, module_row ''s1'' ''S''])]\<rparr>"

lemma passing_module_sound_witness:
  "\<exists>w' dir setup_name. validate_module ''/m'' module_world = Inr (0, w') \<and> described_by module_world (path_of ''/m'') dir setup_name"
proof -
  have "case validate_module ''/m'' module_world of Inr (c, w') \<Rightarrow> c = 0 | Inl e \<Rightarrow> False" by code_simp
  then obtain w' where w': "validate_module ''/m'' module_world = Inr (0, w')" by (auto split: sum.splits)
  with passing_module_sound [OF w'] show ?thesis by blast
qed

text \<open>A row without its last columns is no finding: the validation fails with an exception.\<close>

lemma short_row_raises:
  "case parse_named_rows (csv_text [help_header, [''b'', ''s1'', ''D'']]) of
     Inr (header, rows) \<Rightarrow> column_findings rows = [] \<and> menu_findings rows = Inl AttributeError
   | Inl e \<Rightarrow> False"
  by code_simp

end
