(* ===== verification/Runner_Progress.thy ===== *)
theory Runner_Progress
  imports Runner_Lifecycle
begin

text \<open>
  That a session comes to an end: infinite runs of the steps of \<open>Runner_Lifecycle\<close>, fair to the
  runner script. The script only moves on through its phases, and what it wrote last stays.
\<close>

fun phase_rank :: "runner_phase \<Rightarrow> nat" where
  "phase_rank Starting = 3"
| "phase_rank Launching = 2"
| "phase_rank (Running child started) = 1"
| "phase_rank (Exited code) = 0"

definition phase_of :: "session \<Rightarrow> runner_phase" where
  "phase_of x = fst x"

definition record_of :: "session_files \<Rightarrow> session \<Rightarrow> pyval dict" where   \<comment> \<open>what the file holds\<close>
  "record_of fs x = load_session_state (snd (snd x)) (sp_state fs)"

definition settled :: "session_files \<Rightarrow> session \<Rightarrow> bool" where
  "settled fs x \<longleftrightarrow> phase_rank (phase_of x) = 0 \<and> is_terminal_state (record_of fs x)"

text \<open>A run without end, and a script that is never passed over for ever.\<close>

definition endless_run :: "session_files \<Rightarrow> int \<Rightarrow> (nat \<Rightarrow> session) \<Rightarrow> bool" where
  "endless_run fs pid run \<longleftrightarrow> (\<forall>i. session_step fs pid (run i) (run (Suc i)))"

definition fair_to_script :: "(nat \<Rightarrow> session) \<Rightarrow> bool" where
  "fair_to_script run \<longleftrightarrow> (\<forall>i. 0 < phase_rank (phase_of (run i)) \<longrightarrow> (\<exists>j > i. phase_of (run j) \<noteq> phase_of (run i)))"

lemma step_moves_on:
  "session_step fs pid x y \<Longrightarrow> phase_of y = phase_of x \<or> phase_rank (phase_of y) < phase_rank (phase_of x)"
  by (induction rule: session_step.induct) (auto simp: phase_of_def)

lemma run_moves_on:
  assumes "endless_run fs pid run"
  shows "phase_of (run (i + n)) = phase_of (run i) \<or> phase_rank (phase_of (run (i + n))) < phase_rank (phase_of (run i))"
proof (induction n)
  case (Suc n)
  have "session_step fs pid (run (i + n)) (run (i + Suc n))" using assms by (simp add: endless_run_def)
  from step_moves_on [OF this] Suc show ?case by auto
qed simp

lemma script_exits:
  assumes run: "endless_run fs pid run" and fair: "fair_to_script run"
  shows "\<exists>n. phase_rank (phase_of (run n)) = 0"
proof -
  have "\<exists>n. phase_rank (phase_of (run n)) = 0" for i :: nat
  proof (induction "phase_rank (phase_of (run i))" arbitrary: i rule: less_induct)
    case less
    show ?case
    proof (cases "phase_rank (phase_of (run i)) = 0")
      case False
      then obtain j where j: "i < j" "phase_of (run j) \<noteq> phase_of (run i)" using fair by (auto simp: fair_to_script_def)
      have "phase_rank (phase_of (run j)) < phase_rank (phase_of (run i))"
        using run_moves_on [OF run, of i "j - i"] j by auto
      then show ?thesis by (rule less)
    qed blast
  qed
  then show ?thesis .
qed

lemma exited_stays:
  assumes "endless_run fs pid run" "phase_rank (phase_of (run n)) = 0" "n \<le> m"
  shows "phase_rank (phase_of (run m)) = 0"
  using run_moves_on [OF assms(1), of n "m - n"] assms(2,3) by auto

lemma endless_inv:
  assumes "endless_run fs pid run" "session_inv fs (run 0)"
  shows "session_inv fs (run n)"
proof (induction n)
  case (Suc n)
  have "session_step fs pid (run n) (run (Suc n))" using assms(1) by (simp add: endless_run_def)
  then show ?case using Suc by (rule session_step_inv)
qed (rule assms(2))

lemma exited_settled: "session_inv fs x \<Longrightarrow> phase_rank (phase_of x) = 0 \<Longrightarrow> settled fs x"
  by (auto simp: session_inv_def settled_def phase_of_def record_of_def split: prod.splits runner_phase.splits)

text \<open>A run for a witness: the command file is missing, the script exits and time goes on.\<close>

fun missing_run :: "session_files \<Rightarrow> int \<Rightarrow> world \<Rightarrow> nat \<Rightarrow> session" where
  "missing_run fs pid w 0 = (Starting, [], w)"
| "missing_run fs pid w (Suc 0) = (Launching, [], write_state (sp_state fs) (launching_args pid) w)"
| "missing_run fs pid w (Suc (Suc n)) =
     (let w1 = write_state (sp_state fs) (launching_args pid) w
      in (Exited 127, [], write_state (sp_state fs) (missing_args pid (now_utc_z w1)) w1))"

lemma missing_endless:
  assumes "\<not> is_file (write_state (sp_state fs) (launching_args pid) w) (sp_command fs)"
  shows "endless_run fs pid (missing_run fs pid w)"
proof -
  have "session_step fs pid (missing_run fs pid w i) (missing_run fs pid w (Suc i))" for i
  proof (cases i)
    case (Suc j)
    show ?thesis
    proof (cases j)
      case 0
      then show ?thesis using Suc missing [OF assms] by (simp add: Let_def)
    next
      case (Suc k)
      then show ?thesis using \<open>i = Suc j\<close> elapse [of 0] by (simp add: Let_def)
    qed
  qed (simp add: launch)
  then show ?thesis by (simp add: endless_run_def)
qed

lemma missing_fair: "fair_to_script (missing_run fs pid w)"
proof -
  have "\<exists>j > i. phase_of (missing_run fs pid w j) \<noteq> phase_of (missing_run fs pid w i)"
    if "0 < phase_rank (phase_of (missing_run fs pid w i))" for i
  proof -
    have "i = 0 \<or> i = Suc 0" using that by (cases "(fs, pid, w, i)" rule: missing_run.cases) (auto simp: phase_of_def Let_def)
    then show ?thesis by (intro exI [of _ 2]) (auto simp: phase_of_def Let_def numeral_2_eq_2)
  qed
  then show ?thesis by (simp add: fair_to_script_def)
qed

end
