(* ===== verification/Float64.thy ===== *)
theory Float64
  imports Complex_Main Actions
begin

text \<open>
  Python's floats as far as the gates of the benches (\<open>scripts/check-daemon-bench-p99.py\<close>,
  \<open>scripts/check-shim-bench-p99.py\<close>) compute with them: binary64 numbers as rationals with a sign, rounded
  to the nearest with ties to even, infinities and NaN, reading of literals and fixed-point formats.
\<close>

section \<open>Rounding\<close>

fun ilog2 :: "nat \<Rightarrow> nat" where
  "ilog2 n = (if n < 2 then 0 else Suc (ilog2 (n div 2)))"

declare ilog2.simps [simp del]

definition pow2 :: "int \<Rightarrow> rat" where
  "pow2 k = (if 0 \<le> k then 2 ^ nat k else 1 / 2 ^ nat (- k))"

definition round_even :: "rat \<Rightarrow> int" where
  "round_even q =
     (let f = \<lfloor>q\<rfloor>; r = q - of_int f
      in if r < 1 / 2 then f else if 1 / 2 < r then f + 1 else if even f then f else f + 1)"

definition log2_floor :: "rat \<Rightarrow> int" where   \<comment> \<open>of a positive number\<close>
  "log2_floor q =
     (let (n, d) = quotient_of q; k = int (ilog2 (nat n)) - int (ilog2 (nat d))
      in if pow2 k \<le> q then k else k - 1)"

definition quantum :: "rat \<Rightarrow> rat" where   \<comment> \<open>the distance of the floats around a positive number\<close>
  "quantum q = pow2 (max (- 1074) (log2_floor q - 52))"

definition round_magnitude :: "rat \<Rightarrow> rat" where
  "round_magnitude q = (if q = 0 then 0 else of_int (round_even (q / quantum q)) * quantum q)"

section \<open>Floats\<close>

datatype pyfloat =
    Fin bool rat   \<comment> \<open>the sign and the magnitude; zero has a sign, too\<close>
  | Inf bool
  | NaN

fun float_neg :: "pyfloat \<Rightarrow> bool" where
  "float_neg (Fin s m) = s" | "float_neg (Inf s) = s" | "float_neg NaN = False"

definition mk_float :: "bool \<Rightarrow> rat \<Rightarrow> pyfloat" where   \<comment> \<open>of a sign and an exact magnitude\<close>
  "mk_float s m = (let r = round_magnitude m in if 2 ^ 1024 \<le> r then Inf s else Fin s r)"

definition of_rat_float :: "bool \<Rightarrow> rat \<Rightarrow> pyfloat" where   \<comment> \<open>of an exact result, with the sign of a zero\<close>
  "of_rat_float s q = (if q = 0 then Fin s 0 else mk_float (q < 0) \<bar>q\<bar>)"

fun float_value :: "pyfloat \<Rightarrow> rat option" where
  "float_value (Fin s m) = Some (if s then - m else m)"
| "float_value _ = None"

definition float_of_int :: "int \<Rightarrow> pyfloat res" where   \<comment> \<open>\<open>float(i)\<close>\<close>
  "float_of_int i = (case of_rat_float False (of_int i) of Inf _ \<Rightarrow> Inl OverflowError | f \<Rightarrow> Inr f)"

definition int_div :: "int \<Rightarrow> int \<Rightarrow> pyfloat res" where   \<comment> \<open>\<open>a / b\<close> for integers, \<open>b\<close> not zero\<close>
  "int_div a b = (case of_rat_float ((a < 0) \<noteq> (b < 0)) (of_int a / of_int b) of Inf _ \<Rightarrow> Inl OverflowError | f \<Rightarrow> Inr f)"

fun float_mult :: "pyfloat \<Rightarrow> pyfloat \<Rightarrow> pyfloat" where
  "float_mult (Fin s m) (Fin t n) = mk_float (s \<noteq> t) (m * n)"
| "float_mult (Inf s) (Fin t n) = (if n = 0 then NaN else Inf (s \<noteq> t))"
| "float_mult (Fin s m) (Inf t) = (if m = 0 then NaN else Inf (s \<noteq> t))"
| "float_mult (Inf s) (Inf t) = Inf (s \<noteq> t)"
| "float_mult _ _ = NaN"

definition float_minus_one :: "pyfloat \<Rightarrow> pyfloat" where   \<comment> \<open>\<open>x - 1.0\<close>\<close>
  "float_minus_one x = (case float_value x of Some q \<Rightarrow> of_rat_float False (q - 1) | None \<Rightarrow> x)"

definition float_div_million :: "pyfloat \<Rightarrow> pyfloat" where   \<comment> \<open>\<open>x / 1_000_000\<close>\<close>
  "float_div_million x = (case x of Fin s m \<Rightarrow> mk_float s (m / 1000000) | _ \<Rightarrow> x)"

definition int_greater :: "int \<Rightarrow> pyfloat \<Rightarrow> bool" where   \<comment> \<open>\<open>i > x\<close>, which is exact\<close>
  "int_greater i x = (case float_value x of Some q \<Rightarrow> q < of_int i | None \<Rightarrow> x = Inf True)"

definition float_trunc_int :: "pyfloat \<Rightarrow> int res" where   \<comment> \<open>\<open>int(x)\<close>\<close>
  "float_trunc_int x =
     (case x of
        Fin s m \<Rightarrow> Inr (if s then - \<lfloor>m\<rfloor> else \<lfloor>m\<rfloor>)
      | Inf _ \<Rightarrow> Inl OverflowError
      | NaN \<Rightarrow> Inl (ValueError ''cannot convert float NaN to integer''))"

section \<open>Literals\<close>

definition decimal_value :: "string \<Rightarrow> rat" where   \<comment> \<open>digits with an optional fraction and exponent\<close>
  "decimal_value s =
     (let mantissa = takeWhile (\<lambda>c. lower_char c \<noteq> CHR ''e'') s; ex = drop (Suc (length mantissa)) s;
          whole = takeWhile is_digit mantissa; frac = drop (Suc (length whole)) mantissa;
          n = of_nat (nat_of_digits (whole @ frac)) / 10 ^ length frac;
          neg = (ex \<noteq> [] \<and> hd ex = CHR ''-''); k = nat_of_digits (List.filter is_digit ex)
      in if neg then n / 10 ^ k else n * 10 ^ k)"

definition float_of_literal :: "string \<Rightarrow> pyfloat" where
  "float_of_literal lit =
     (let neg = (lit \<noteq> [] \<and> hd lit = CHR ''-''); s = (if lit \<noteq> [] \<and> hd lit \<in> {CHR ''-'', CHR ''+''} then tl lit else lit);
          low = List.map lower_char s
      in if low = ''nan'' then NaN else if low \<in> {''inf'', ''infinity''} then Inf neg
         else mk_float neg (decimal_value s))"

text \<open>\<open>float(s)\<close> reads more than JSON does: blanks around, underscores between digits, no digits on one side.\<close>

definition rx_digits :: rx where
  "rx_digits = RSeq rdigit (rstar (RSeq (ropt (rlit ''_'')) rdigit))"

definition rx_float :: rx where
  "rx_float = rseq [ropt (roneof ''+-''), ralt
     [rseq [RAlt (rseq [rx_digits, ropt (RSeq (rlit ''.'') (ropt rx_digits))]) (RSeq (rlit ''.'') rx_digits),
        ropt (rseq [rilit ''e'', ropt (roneof ''+-''), rx_digits])],
      rilit ''infinity'', rilit ''inf'', rilit ''nan'']]"

definition float_of_string :: "string \<Rightarrow> pyfloat res" where
  "float_of_string s =
     (case re_fullmatch rx_float (strip s) of
        None \<Rightarrow> Inl (ValueError (''could not convert string to float: '' @ repr_str s))
      | Some _ \<Rightarrow> Inr (float_of_literal (List.filter (\<lambda>c. c \<noteq> CHR ''_'') (strip s))))"

section \<open>Values\<close>

fun py_float :: "pyval \<Rightarrow> pyfloat res" where   \<comment> \<open>\<open>float(v)\<close>\<close>
  "py_float (VInt i) = float_of_int i"
| "py_float (VBool b) = float_of_int (if b then 1 else 0)"
| "py_float (VFloat lit) = Inr (float_of_literal lit)"
| "py_float (VStr s) = float_of_string s"
| "py_float _ = Inl TypeError"

fun int_of_value :: "pyval \<Rightarrow> int res" where   \<comment> \<open>\<open>int(v)\<close>, floats by their values\<close>
  "int_of_value (VFloat lit) = float_trunc_int (float_of_literal lit)"
| "int_of_value v = py_int v"

fun is_one :: "pyval \<Rightarrow> bool" where   \<comment> \<open>\<open>v == 1\<close>\<close>
  "is_one (VInt i) = (i = 1)"
| "is_one (VBool b) = b"
| "is_one (VFloat lit) = (float_value (float_of_literal lit) = Some 1)"
| "is_one _ = False"

fun truth_value :: "pyval \<Rightarrow> bool" where   \<comment> \<open>\<open>bool(v)\<close>, floats by their values\<close>
  "truth_value (VFloat lit) = (float_value (float_of_literal lit) \<noteq> Some 0)"
| "truth_value v = truth v"

section \<open>Formats\<close>

definition pad_zeros :: "nat \<Rightarrow> string \<Rightarrow> string" where
  "pad_zeros n s = replicate (n - length s) (CHR ''0'') @ s"

text \<open>\<open>f"{x:.kf}"\<close>, with \<open>show_plus\<close> as in \<open>f"{x:+.kf}"\<close>: the exact value rounded half to even.\<close>

definition fixed :: "bool \<Rightarrow> nat \<Rightarrow> pyfloat \<Rightarrow> string" where
  "fixed show_plus k x =
     (if float_neg x then ''-'' else if show_plus then ''+'' else []) @
     (case x of
        Inf _ \<Rightarrow> ''inf''
      | NaN \<Rightarrow> ''nan''
      | Fin s m \<Rightarrow>
          (let n = nat (round_even (m * 10 ^ k))
           in show_nat (n div 10 ^ k) @ (if k = 0 then [] else ''.'' @ pad_zeros k (show_nat (n mod 10 ^ k)))))"

section \<open>How far rounding goes\<close>

lemma ilog2_bounds: "0 < n \<Longrightarrow> 2 ^ ilog2 n \<le> n \<and> n < 2 ^ Suc (ilog2 n)"
proof (induction n rule: ilog2.induct)
  case (1 n)
  show ?case
  proof (cases "n < 2")
    case True
    then show ?thesis using 1(2) by (simp add: ilog2.simps)
  next
    case False
    then have log: "ilog2 n = Suc (ilog2 (n div 2))" by (subst ilog2.simps) simp
    have "2 ^ ilog2 (n div 2) \<le> n div 2" "n div 2 < 2 ^ Suc (ilog2 (n div 2))" using 1(1) False by auto
    then show ?thesis unfolding log by simp linarith
  qed
qed

lemma pow2_pos [simp]: "0 < pow2 k"
  by (simp add: pow2_def)

lemma pow2_powi: "pow2 k = 2 powi k"
  by (simp add: pow2_def power_int_def field_simps)

lemma pow2_add: "pow2 (j + k) = pow2 j * pow2 k"
  unfolding pow2_powi by (rule power_int_add) simp

lemma pow2_mono: "j \<le> k \<Longrightarrow> pow2 j \<le> pow2 k"
  unfolding pow2_powi by (rule power_int_increasing) simp_all

lemma pow2_less: "pow2 j < pow2 k \<Longrightarrow> j < k"
  using pow2_mono [of k j] by linarith

lemma pow2_nat: "pow2 (int n) = 2 ^ n"
  by (simp add: pow2_def)

lemma pow2_diff: "pow2 (int m - int n) = 2 ^ m / 2 ^ n"
  unfolding pow2_powi by (subst power_int_diff) simp_all

lemma cross_le: "0 < y \<Longrightarrow> 0 < d \<Longrightarrow> x * d \<le> n * y \<Longrightarrow> x / y \<le> n / (d :: rat)"
  by (simp add: field_simps)

lemma cross_less: "0 < y \<Longrightarrow> 0 < d \<Longrightarrow> n * y < x * d \<Longrightarrow> n / d < x / (y :: rat)"
  by (simp add: field_simps)

lemma log2_floor_bounds:
  assumes "0 < q"
  shows "pow2 (log2_floor q) \<le> q \<and> q < pow2 (log2_floor q + 1)"
proof -
  obtain n d where nd: "quotient_of q = (n, d)" by fastforce
  have q: "q = of_int n / of_int d" and d: "0 < d" using quotient_of_div [OF nd] quotient_of_denom_pos [OF nd] by auto
  have n: "0 < n" using assms q d by (simp add: zero_less_divide_iff)
  let ?a = "ilog2 (nat n)" and ?b = "ilog2 (nat d)"
  have a: "2 ^ ?a \<le> nat n" "nat n < 2 ^ Suc ?a" and b: "2 ^ ?b \<le> nat d" "nat d < 2 ^ Suc ?b"
    using ilog2_bounds [of "nat n"] ilog2_bounds [of "nat d"] n d by auto
  have cast: "(of_int i :: rat) = of_nat (nat i)" if "0 < i" for i using that by simp
  have nr: "2 ^ ?a \<le> (of_int n :: rat)" "(of_int n :: rat) < 2 ^ Suc ?a"
    unfolding cast [OF n] using a by (metis of_nat_le_iff of_nat_less_iff of_nat_numeral of_nat_power)+
  have dr: "2 ^ ?b \<le> (of_int d :: rat)" "(of_int d :: rat) < 2 ^ Suc ?b"
    unfolding cast [OF d] using b by (metis of_nat_le_iff of_nat_less_iff of_nat_numeral of_nat_power)+
  let ?k = "int ?a - int ?b"
  have le: "2 ^ ?a * (of_int d :: rat) \<le> of_int n * 2 ^ Suc ?b"
    by (rule mult_mono) (use nr dr n d in \<open>simp_all add: less_imp_le\<close>)
  have "pow2 (?k - 1) = 2 ^ ?a / 2 ^ Suc ?b" using pow2_diff [of ?a "Suc ?b"] by (simp add: algebra_simps)
  then have low: "pow2 (?k - 1) \<le> q" unfolding q using cross_le [OF _ _ le] d by simp
  have less: "of_int n * 2 ^ ?b < (2 ^ Suc ?a * of_int d :: rat)"
    by (rule mult_less_le_imp_less) (use nr dr n d in simp_all)
  have "pow2 (?k + 1) = 2 ^ Suc ?a / 2 ^ ?b" using pow2_diff [of "Suc ?a" ?b] by (simp add: algebra_simps)
  then have high: "q < pow2 (?k + 1)" unfolding q using cross_less [OF _ _ less] d by simp
  show ?thesis using low high by (auto simp: log2_floor_def nd Let_def)
qed

lemma round_even_error: "\<bar>of_int (round_even q) - q\<bar> \<le> 1 / 2"
proof -
  obtain f r where f: "f = \<lfloor>q\<rfloor>" and r: "q = of_int f + r" "0 \<le> r" "r < 1"
    by (metis floor_correct frac_def frac_ge_0 frac_lt_1 add_diff_cancel_left' diff_add_cancel add.commute)
  have "round_even q = (if r < 1 / 2 then f else if 1 / 2 < r then f + 1 else if even f then f else f + 1)"
    unfolding round_even_def f [symmetric] Let_def by (simp add: r(1))
  then show ?thesis using r by (simp add: abs_le_iff)
qed

lemma round_even_int [simp]: "round_even (of_int i) = i"
  by (simp add: round_even_def)

lemma quantum_pos [simp]: "0 < quantum q"
  by (simp add: quantum_def)

lemma round_magnitude_error:
  assumes "pow2 (- 1022) \<le> q"
  shows "\<bar>round_magnitude q - q\<bar> \<le> q * pow2 (- 53)"
proof -
  have q: "0 < q" using less_le_trans [OF pow2_pos assms] .
  from log2_floor_bounds [OF q] have l: "pow2 (log2_floor q) \<le> q" "q < pow2 (log2_floor q + 1)" by auto
  have "- 1022 < log2_floor q + 1" by (rule pow2_less) (use assms l in simp)
  then have quantum: "quantum q = pow2 (log2_floor q) * pow2 (- 52)"
    by (simp add: quantum_def pow2_add [symmetric])
  have "round_magnitude q - q = (of_int (round_even (q / quantum q)) - q / quantum q) * quantum q"
    using q quantum_pos [of q, THEN less_imp_neq] by (simp add: round_magnitude_def left_diff_distrib)
  then have "\<bar>round_magnitude q - q\<bar> = \<bar>of_int (round_even (q / quantum q)) - q / quantum q\<bar> * quantum q"
    by (simp add: abs_mult abs_of_pos [OF quantum_pos])
  also have "\<dots> \<le> 1 / 2 * quantum q" by (rule mult_right_mono [OF round_even_error less_imp_le [OF quantum_pos]])
  also have "\<dots> = pow2 (log2_floor q) * pow2 (- 53)" unfolding quantum by (simp add: pow2_def)
  also have "\<dots> \<le> q * pow2 (- 53)" using l(1) by (intro mult_right_mono) (auto simp: less_imp_le)
  finally show ?thesis .
qed

lemma round_magnitude_int:
  assumes "0 \<le> i" "i < 2 ^ 53"
  shows "round_magnitude (of_int i) = of_int i"
proof (cases "i = 0")
  case False
  with assms have q: "(0 :: rat) < of_int i" by simp
  from log2_floor_bounds [OF q] have l: "pow2 (log2_floor (of_int i)) \<le> of_int i" "of_int i < pow2 (log2_floor (of_int i) + 1)" by auto
  have "pow2 (log2_floor (of_int i)) < pow2 53"
    using le_less_trans [OF l(1), of "2 ^ 53"] assms(2) by (simp add: pow2_def)
  then have "log2_floor (of_int i) < 53" by (rule pow2_less)
  moreover have "pow2 0 < pow2 (log2_floor (of_int i) + 1)" using l(2) False assms by (simp add: pow2_def)
  then have "0 < log2_floor (of_int i) + 1" by (rule pow2_less)
  ultimately have k: "quantum (of_int i) = pow2 (- int (nat (52 - log2_floor (of_int i))))"
    by (simp add: quantum_def)
  have "of_int i / quantum (of_int i) = (of_int (i * 2 ^ nat (52 - log2_floor (of_int i))) :: rat)"
    unfolding k by (simp add: pow2_def)
  then have "round_even (of_int i / quantum (of_int i)) = i * 2 ^ nat (52 - log2_floor (of_int i))"
    by (simp only: round_even_int)
  then show ?thesis using False by (simp add: round_magnitude_def k pow2_def)
qed (simp add: round_magnitude_def)

end
