(* ===== verification/Bench_P99.thy ===== *)
theory Bench_P99
  imports Float64 Bench_Gate
begin

text \<open>
  \<open>scripts/check-daemon-bench-p99.py\<close> and \<open>scripts/check-shim-bench-p99.py\<close>: the gates that
  \<open>run-bench-gate.py\<close> runs behind a bench. Both paths are arguments as \<open>argparse\<close> parsed them; what goes to
  the standard error is not modelled. Every exception of the loading becomes exit code 2, one behind it
  is not caught.
\<close>

section \<open>Both gates\<close>

definition fmt_float_ms :: "pyfloat \<Rightarrow> string" where   \<comment> \<open>\<open>fmt_ms\<close> of a float\<close>
  "fmt_float_ms x = fixed False 3 (float_div_million x) @ ''ms''"

definition fmt_ms :: "int \<Rightarrow> string res" where
  "fmt_ms nanos = ebind (int_div nanos 1000000) (\<lambda>x. Inr (fixed False 3 x @ ''ms''))"

definition gh_notice :: "string \<Rightarrow> unit act" where
  "gh_notice msg = effect (print_line (''::notice::'' @ msg))"

definition load_data :: "world \<Rightarrow> ppath \<Rightarrow> string \<Rightarrow> pyval res" where
  "load_data w path label =
     (if \<not> path_exists w path then Inl (FileNotFoundError (label @ '' not found at '' @ path_str path))
      else ebind (read_file w path) json_loads)"

definition schema_mismatch :: "string \<Rightarrow> ppath \<Rightarrow> pyval \<Rightarrow> exn" where
  "schema_mismatch label path schema =
     ValueError (label @ '' ('' @ path_str path @ '') schema_version='' @ py_repr schema @ '' (expected 1)'')"

definition missing_key :: "string \<Rightarrow> ppath \<Rightarrow> string \<Rightarrow> exn" where
  "missing_key label path key =
     ValueError (label @ '' ('' @ path_str path @ '') missing '' @ [squote] @ key @ [squote])"

definition int_at :: "string \<Rightarrow> pyval dict \<Rightarrow> int res" where   \<comment> \<open>\<open>int(d[k])\<close>\<close>
  "int_at k d = (case dict_get k d of None \<Rightarrow> Inl (KeyError k) | Some v \<Rightarrow> int_of_value v)"

definition delta_percent :: "int \<Rightarrow> int \<Rightarrow> pyfloat res" where   \<comment> \<open>\<open>(current / baseline - 1.0) * 100.0\<close>\<close>
  "delta_percent current base = ebind (int_div current base) (\<lambda>x. Inr (float_mult (float_minus_one x) (Fin False 100)))"

definition threshold_of :: "int \<Rightarrow> pyfloat \<Rightarrow> pyfloat res" where   \<comment> \<open>\<open>baseline * ratio\<close>\<close>
  "threshold_of base ratio = ebind (float_of_int base) (\<lambda>b. Inr (float_mult b ratio))"

definition budget_of :: "int \<Rightarrow> pyval dict \<Rightarrow> int res" where
  "budget_of dflt baseline =
     (let v = get_val ''absolute_budget_nanos'' baseline in int_of_value (if truth_value v then v else VInt dflt))"

section \<open>The daemon's gate\<close>

definition shapes :: "string list" where
  "shapes = [''solo'', ''fanout3'', ''burst'', ''steady'']"

definition p99_key :: "string \<Rightarrow> string" where
  "p99_key shape = shape @ ''_p99_nanos''"

definition daemon_summary :: "world \<Rightarrow> ppath \<Rightarrow> string \<Rightarrow> pyval dict res" where   \<comment> \<open>\<open>load_summary\<close>\<close>
  "daemon_summary w path label =
     ebind (load_data w path label) (\<lambda>v. ebind (as_dict v) (\<lambda>data.
     if \<not> is_one (get_val ''schema_version'' data) then Inl (schema_mismatch label path (get_val ''schema_version'' data))
     else
       (case List.find (\<lambda>shape. \<not> dict_has (p99_key shape) data) shapes of
          Some shape \<Rightarrow> Inl (missing_key label path (p99_key shape))
        | None \<Rightarrow> Inr data)))"

definition show_shape :: "pyval dict \<Rightarrow> string \<Rightarrow> unit act" where
  "show_shape current shape =
     bindA (readsE (\<lambda>_. ebind (int_at (p99_key shape) current) fmt_ms)) (\<lambda>ms.
     effect (print_line (''  '' @ shape @ '': p99='' @ ms)))"

definition long_dash :: string where   \<comment> \<open>in UTF-8\<close>
  "long_dash = [CHR 0xE2, CHR 0x80, CHR 0x94]"

definition daemon_absolute :: "string \<Rightarrow> int \<Rightarrow> int \<Rightarrow> bool act" where   \<comment> \<open>whether the gate failed\<close>
  "daemon_absolute shape current budget =
     bindA (readsE (\<lambda>_. fmt_ms current)) (\<lambda>c.
     bindA (readsE (\<lambda>_. fmt_ms budget)) (\<lambda>b.
     if budget < current then ret True
     else bindA (gh_notice (shape @ '': absolute gate OK: current p99 '' @ c @ '' <= '' @ b @ '' budget.'')) (\<lambda>_. ret False)))"

definition daemon_regression_ok :: "string \<Rightarrow> string \<Rightarrow> pyfloat \<Rightarrow> string \<Rightarrow> pyfloat \<Rightarrow> string" where
  "daemon_regression_ok shape current ratio base delta =
     shape @ '': p99 regression gate OK: current p99 '' @ current @ '' within '' @
       fixed True 0 (float_mult (float_minus_one ratio) (Fin False 100)) @ ''% of baseline '' @ base @
       '' (delta '' @ fixed True 1 delta @ ''%).''"

definition daemon_regression :: "string \<Rightarrow> int \<Rightarrow> int \<Rightarrow> pyval \<Rightarrow> bool act" where
  "daemon_regression shape current base regression_max =
     (if regression_max = VNone then
        bindA (gh_notice (shape @ '': regression gate disabled by baseline policy (regression_max_ratio: null).'')) (\<lambda>_. ret False)
      else
        bindA (readsE (\<lambda>_. py_float regression_max)) (\<lambda>ratio.
        if base \<le> 0 then
          bindA (gh_notice (shape @ '': regression gate skipped '' @ long_dash @ '' baseline p99 is zero (uninitialized?).''))
            (\<lambda>_. ret False)
        else
          bindA (readsE (\<lambda>_. threshold_of base ratio)) (\<lambda>threshold.
          bindA (readsE (\<lambda>_. delta_percent current base)) (\<lambda>delta.
          bindA (readsE (\<lambda>_. fmt_ms current)) (\<lambda>c.
          bindA (readsE (\<lambda>_. fmt_ms base)) (\<lambda>b.
          if int_greater current threshold then ret True
          else bindA (gh_notice (daemon_regression_ok shape c ratio b delta)) (\<lambda>_. ret False)))))))"

text \<open>Both gates of one shape: whether one of them failed.\<close>

definition daemon_shape :: "int \<Rightarrow> pyval \<Rightarrow> pyval dict \<Rightarrow> pyval dict \<Rightarrow> string \<Rightarrow> bool act" where
  "daemon_shape budget regression_max current baseline shape =
     bindA (readsE (\<lambda>_. int_at (p99_key shape) current)) (\<lambda>c.
     bindA (readsE (\<lambda>_. int_at (p99_key shape) baseline)) (\<lambda>b.
     bindA (daemon_absolute shape c budget) (\<lambda>slow.
     bindA (daemon_regression shape c b regression_max) (\<lambda>slower. ret (slow \<or> slower)))))"

fun daemon_shapes :: "int \<Rightarrow> pyval \<Rightarrow> pyval dict \<Rightarrow> pyval dict \<Rightarrow> string list \<Rightarrow> bool \<Rightarrow> bool act" where
  "daemon_shapes budget regression_max current baseline [] any_failed = ret any_failed"
| "daemon_shapes budget regression_max current baseline (s # ss) any_failed =
     bindA (daemon_shape budget regression_max current baseline s) (\<lambda>bad.
     daemon_shapes budget regression_max current baseline ss (any_failed \<or> bad))"

definition daemon_verdict :: "pyval dict \<Rightarrow> pyval dict \<Rightarrow> int act" where
  "daemon_verdict current baseline =
     bindA (readsE (\<lambda>_. budget_of 100000000 baseline)) (\<lambda>budget.
     bindA (daemon_shapes budget (get_or (VFloat ''1.30'') ''regression_max_ratio'' baseline) current baseline shapes False) (\<lambda>any_failed.
     ret (if any_failed then 1 else 0)))"

definition daemon_report :: "pyval dict \<Rightarrow> unit act" where
  "daemon_report current =
     bindA (readsE (\<lambda>_. int_of_value (get_or (VInt 0) ''samples'' current))) (\<lambda>samples.
     bindA (effect (print_line ''Current run:'')) (\<lambda>_.
     bindA (forA shapes (show_shape current)) (\<lambda>_.
     effect (print_line (''  samples='' @ show_int samples)))))"

definition daemon_gate :: "ppath \<Rightarrow> ppath \<Rightarrow> int act" where   \<comment> \<open>\<open>main\<close>\<close>
  "daemon_gate current_json baseline_json =
     bindA (reads (\<lambda>w. daemon_summary w current_json ''current summary'')) (\<lambda>r.
     case r of Inl _ \<Rightarrow> ret 2
     | Inr current \<Rightarrow>
         bindA (daemon_report current) (\<lambda>_.
         bindA (reads (\<lambda>w. path_exists w baseline_json)) (\<lambda>there.
         if \<not> there then ret 2
         else
           bindA (reads (\<lambda>w. daemon_summary w baseline_json ''committed baseline'')) (\<lambda>r.
           case r of Inl _ \<Rightarrow> ret 2 | Inr baseline \<Rightarrow> daemon_verdict current baseline))))"

section \<open>The shim's gate\<close>

definition shim_summary :: "world \<Rightarrow> ppath \<Rightarrow> string \<Rightarrow> pyval dict res" where   \<comment> \<open>\<open>load_summary\<close>\<close>
  "shim_summary w path label =
     ebind (load_data w path label) (\<lambda>v. ebind (as_dict v) (\<lambda>data.
     if \<not> dict_has ''p99_nanos'' data then Inl (missing_key label path ''p99_nanos'')
     else if \<not> is_one (get_val ''schema_version'' data) then Inl (schema_mismatch label path (get_val ''schema_version'' data))
     else Inr data))"

definition shim_absolute :: "int \<Rightarrow> int \<Rightarrow> bool act" where
  "shim_absolute current budget =
     bindA (readsE (\<lambda>_. fmt_ms current)) (\<lambda>c.
     bindA (readsE (\<lambda>_. fmt_ms budget)) (\<lambda>b.
     if budget < current then ret True
     else bindA (gh_notice (''absolute gate OK: current p99 '' @ c @ '' <= '' @ b @ '' budget.'')) (\<lambda>_. ret False)))"

definition shim_delta :: "int \<Rightarrow> int \<Rightarrow> unit act" where
  "shim_delta current base =
     bindA (readsE (\<lambda>_. if 0 < base then delta_percent current base else Inr (Fin False 0))) (\<lambda>delta.
     bindA (readsE (\<lambda>_. fmt_ms base)) (\<lambda>b.
     effect (print_line (''Baseline: p99='' @ b @ ''; current vs baseline delta: '' @ fixed True 2 delta @ ''%''))))"

definition shim_regression :: "int \<Rightarrow> int \<Rightarrow> pyval \<Rightarrow> bool act" where
  "shim_regression current base regression_max =
     (if regression_max = VNone then
        bindA (gh_notice (''regression gate disabled by baseline policy (regression_max_ratio: null). '' @
          ''See ADR 0003 for the per-platform rationale.'')) (\<lambda>_. ret False)
      else
        bindA (readsE (\<lambda>_. py_float regression_max)) (\<lambda>ratio.
        bindA (readsE (\<lambda>_. threshold_of base ratio)) (\<lambda>threshold.
        bindA (readsE (\<lambda>_. fmt_ms current)) (\<lambda>c.
        bindA (readsE (\<lambda>_. fmt_ms base)) (\<lambda>b.
        if int_greater current threshold then ret True
        else
          bindA (gh_notice (''p99 regression gate OK: current p99 '' @ c @ '' within '' @
            fixed True 0 (float_mult (float_minus_one ratio) (Fin False 100)) @ ''% of baseline '' @ b @ ''.'')) (\<lambda>_. ret False))))))"

definition shim_verdict :: "int \<Rightarrow> pyval dict \<Rightarrow> int act" where
  "shim_verdict current baseline =
     bindA (readsE (\<lambda>_. budget_of 5000000 baseline)) (\<lambda>budget.
     bindA (shim_absolute current budget) (\<lambda>slow.
     bindA (readsE (\<lambda>_. int_at ''p99_nanos'' baseline)) (\<lambda>base.
     bindA (shim_delta current base) (\<lambda>_.
     bindA (shim_regression current base (get_or (VFloat ''1.15'') ''regression_max_ratio'' baseline)) (\<lambda>slower.
     ret (if slow \<or> slower then 1 else 0))))))"

definition shim_report :: "pyval dict \<Rightarrow> int act" where   \<comment> \<open>its answer is the current p99\<close>
  "shim_report current =
     bindA (readsE (\<lambda>_. int_at ''p99_nanos'' current)) (\<lambda>p99.
     bindA (readsE (\<lambda>_. int_at ''mean_nanos'' current)) (\<lambda>mean.
     bindA (readsE (\<lambda>_. int_of_value (get_or (VInt 0) ''samples'' current))) (\<lambda>samples.
     bindA (readsE (\<lambda>_. fmt_ms p99)) (\<lambda>p.
     bindA (readsE (\<lambda>_. fmt_ms mean)) (\<lambda>m.
     bindA (effect (print_line (''Current run: p99='' @ p @ '' mean='' @ m @ '' samples='' @ show_int samples))) (\<lambda>_. ret p99))))))"

definition shim_gate :: "ppath \<Rightarrow> ppath \<Rightarrow> int act" where   \<comment> \<open>\<open>main\<close>\<close>
  "shim_gate current_json baseline_json =
     bindA (reads (\<lambda>w. shim_summary w current_json ''current summary'')) (\<lambda>r.
     case r of Inl _ \<Rightarrow> ret 2
     | Inr current \<Rightarrow>
         bindA (shim_report current) (\<lambda>p99.
         bindA (reads (\<lambda>w. path_exists w baseline_json)) (\<lambda>there.
         if \<not> there then ret 2
         else
           bindA (reads (\<lambda>w. shim_summary w baseline_json ''committed baseline'')) (\<lambda>r.
           case r of Inl _ \<Rightarrow> ret 2 | Inr baseline \<Rightarrow> shim_verdict p99 baseline))))"

text \<open>The exit code of the process: an exception that nobody catches is code 1.\<close>

definition process_exit :: "int act \<Rightarrow> world \<Rightarrow> int" where
  "process_exit m w = (case m w of Inl _ \<Rightarrow> 1 | Inr (c, _) \<Rightarrow> c)"

section \<open>Actions that only print\<close>

definition same_files :: "world \<Rightarrow> world \<Rightarrow> bool" where
  "same_files w w' \<longleftrightarrow> w_files w' = w_files w \<and> w_dirs w' = w_dirs w \<and> w_cwd w' = w_cwd w"

definition only_prints :: "'a act \<Rightarrow> bool" where
  "only_prints m \<longleftrightarrow> (\<forall>w x w'. m w = Inr (x, w') \<longrightarrow> same_files w w')"

lemma only_printsD: "only_prints m \<Longrightarrow> m w = Inr (x, w') \<Longrightarrow> same_files w w'"
  by (simp add: only_prints_def)

lemma only_prints_basic [simp]: "only_prints (ret x)" "only_prints (readsE g)" "only_prints (effect (print_line s))"
  by (auto simp: only_prints_def same_files_def act_Inr print_line_def)

lemma only_prints_bind: "only_prints m \<Longrightarrow> (\<And>x. only_prints (f x)) \<Longrightarrow> only_prints (bindA m f)"
  unfolding only_prints_def same_files_def bindA_Inr by metis

lemma only_prints_if: "only_prints a \<Longrightarrow> only_prints b \<Longrightarrow> only_prints (if c then a else b)"
  by simp

lemma only_prints_for: "(\<And>x. only_prints (f x)) \<Longrightarrow> only_prints (forA xs f)"
  by (induction xs) (simp_all add: only_prints_bind)

lemma only_prints_notice [simp]: "only_prints (gh_notice s)"
  by (simp add: gh_notice_def)

lemmas printing = only_prints_bind only_prints_if only_prints_for

lemma reports_print: "only_prints (daemon_report current)" "only_prints (shim_report current)"
  unfolding daemon_report_def shim_report_def show_shape_def by (intro printing only_prints_basic)+

lemma same_files_read:
  assumes "same_files w w'"
  shows "path_exists w' p = path_exists w p" "read_file w' p = read_file w p"
proof -
  have key: "key_of w' p = key_of w p" using assms by (simp add: key_of_def resolve_def same_files_def)
  then have "is_file w' p = is_file w p" "is_dir w' p = is_dir w p"
    using assms by (simp_all add: is_file_def is_dir_def same_files_def)
  then show "path_exists w' p = path_exists w p" "read_file w' p = read_file w p"
    using key assms by (simp_all add: path_exists_def read_file_def same_files_def)
qed

lemma same_files_summary:
  assumes "same_files w w'"
  shows "daemon_summary w' p label = daemon_summary w p label" "shim_summary w' p label = shim_summary w p label"
  by (simp_all add: daemon_summary_def shim_summary_def load_data_def same_files_read [OF assms])

section \<open>The verdicts\<close>

definition regressed :: "pyval \<Rightarrow> int \<Rightarrow> int \<Rightarrow> bool" where
  "regressed regression_max current base \<longleftrightarrow> regression_max \<noteq> VNone \<and>
     (case ebind (py_float regression_max) (threshold_of base) of Inr t \<Rightarrow> int_greater current t | Inl _ \<Rightarrow> False)"

definition shape_fails :: "int \<Rightarrow> pyval \<Rightarrow> pyval dict \<Rightarrow> pyval dict \<Rightarrow> string \<Rightarrow> bool" where
  "shape_fails budget regression_max current baseline shape \<longleftrightarrow>
     (case (int_at (p99_key shape) current, int_at (p99_key shape) baseline) of
        (Inr c, Inr b) \<Rightarrow> budget < c \<or> 0 < b \<and> regressed regression_max c b
      | _ \<Rightarrow> False)"

lemma daemon_absolute_Inr: "daemon_absolute shape c budget w = Inr (r, w') \<Longrightarrow> r \<longleftrightarrow> budget < c"
  by (auto simp: daemon_absolute_def bindA_Inr act_Inr split: if_splits)

lemma daemon_regression_Inr:
  "daemon_regression shape c b regression_max w = Inr (r, w') \<Longrightarrow> r \<longleftrightarrow> 0 < b \<and> regressed regression_max c b"
  by (auto simp: daemon_regression_def regressed_def bindA_Inr act_Inr ebind_def split: if_splits)

lemma daemon_shape_Inr:
  "daemon_shape budget regression_max current baseline shape w = Inr (r, w') \<Longrightarrow>
     r \<longleftrightarrow> shape_fails budget regression_max current baseline shape"
  by (auto simp: daemon_shape_def shape_fails_def bindA_Inr act_Inr dest!: daemon_absolute_Inr daemon_regression_Inr)

lemma daemon_shapes_Inr:
  "daemon_shapes budget regression_max current baseline ss failing w = Inr (r, w') \<Longrightarrow>
     r \<longleftrightarrow> failing \<or> list_ex (shape_fails budget regression_max current baseline) ss"
proof (induction ss arbitrary: failing w)
  case (Cons s ss)
  then show ?case by (auto simp: bindA_Inr dest!: daemon_shape_Inr)
qed (simp add: act_Inr)

definition ratio_of :: "string \<Rightarrow> pyval dict \<Rightarrow> pyval" where
  "ratio_of dflt baseline = get_or (VFloat dflt) ''regression_max_ratio'' baseline"

lemma daemon_verdict_Inr:
  assumes "daemon_verdict current baseline w = Inr (code, w')"
  shows "\<exists>budget. budget_of 100000000 baseline = Inr budget \<and>
    code = (if list_ex (shape_fails budget (ratio_of ''1.30'' baseline) current baseline) shapes then 1 else 0)"
  using assms unfolding daemon_verdict_def ratio_of_def bindA_Inr act_Inr by (auto dest!: daemon_shapes_Inr)

text \<open>
  C16. The daemon's gate decides as its policy says: unless a number cannot be read, the exit code is 2
  exactly when one of the two files is missing or no summary, and otherwise 1 when some shape is above
  the budget of the baseline or, if its baseline is above zero and the ratio is not disabled, above
  the baseline times the ratio, and 0 when no shape is.
\<close>

theorem daemon_gate_decides:
  "case daemon_gate current_json baseline_json w of
     Inl _ \<Rightarrow> True
   | Inr (code, w') \<Rightarrow>
       (case (daemon_summary w current_json ''current summary'', daemon_summary w baseline_json ''committed baseline'') of
          (Inr current, Inr baseline) \<Rightarrow> (\<exists>budget. budget_of 100000000 baseline = Inr budget \<and>
            code = (if list_ex (shape_fails budget (ratio_of ''1.30'' baseline) current baseline) shapes then 1 else 0))
        | _ \<Rightarrow> code = 2)"
proof -
  let ?current = "daemon_summary w current_json ''current summary''"
  let ?baseline = "daemon_summary w baseline_json ''committed baseline''"
  have missing: "\<exists>e. ?baseline = Inl e" if "\<not> path_exists w baseline_json"
    using that by (simp add: daemon_summary_def load_data_def ebind_def)
  show ?thesis
  proof (cases "daemon_gate current_json baseline_json w")
    case (Inr cw)
    then obtain code w' where g: "daemon_gate current_json baseline_json w = Inr (code, w')" by (cases cw) auto
    show ?thesis
    proof (cases ?current)
      case (Inl e)
      with g have "code = 2" by (simp add: daemon_gate_def bindA_Inr act_Inr)
      with g Inl show ?thesis by simp
    next
      case (Inr current)
      with g obtain w1 where report: "daemon_report current w = Inr ((), w1)"
        and rest: "bindA (reads (\<lambda>w. path_exists w baseline_json)) (\<lambda>there. if \<not> there then ret 2
          else bindA (reads (\<lambda>w. daemon_summary w baseline_json ''committed baseline'')) (\<lambda>r.
            case r of Inl _ \<Rightarrow> ret 2 | Inr baseline \<Rightarrow> daemon_verdict current baseline)) w1 = Inr (code, w')"
        by (auto simp: daemon_gate_def bindA_Inr act_Inr)
      note files = only_printsD [OF reports_print(1) report]
      note w1 = same_files_read [OF files] same_files_summary [OF files]
      show ?thesis
      proof (cases ?baseline)
        case (Inl e)
        with rest have "code = 2" by (auto simp: bindA_Inr act_Inr w1 split: if_splits)
        with g Inl Inr show ?thesis by simp
      next
        case (Inr baseline)
        with missing have there: "path_exists w baseline_json" by auto
        with rest Inr have "daemon_verdict current baseline w1 = Inr (code, w')" by (auto simp: bindA_Inr act_Inr w1)
        from daemon_verdict_Inr [OF this] g \<open>?current = Inr current\<close> Inr show ?thesis by simp
      qed
    qed
  qed simp
qed

section \<open>The shim's verdict\<close>

lemma shim_parts_Inr:
  "shim_absolute c budget w = Inr (r, w') \<Longrightarrow> r \<longleftrightarrow> budget < c"
  "shim_regression c b regression_max w = Inr (r, w') \<Longrightarrow> r \<longleftrightarrow> regressed regression_max c b"
  by (auto simp: shim_absolute_def shim_regression_def regressed_def bindA_Inr act_Inr ebind_def split: if_splits)

lemma shim_verdict_Inr:
  assumes "shim_verdict c baseline w = Inr (code, w')"
  shows "\<exists>budget b. budget_of 5000000 baseline = Inr budget \<and> int_at ''p99_nanos'' baseline = Inr b \<and>
    code = (if budget < c \<or> regressed (ratio_of ''1.15'' baseline) c b then 1 else 0)"
  using assms unfolding shim_verdict_def ratio_of_def bindA_Inr act_Inr by (auto dest!: shim_parts_Inr)

text \<open>
  A shim summary that passes the checks of the loading but lacks its mean is no tooling error:
  the gate ends with an exception and so with exit code 1, the code of a policy failure that the
  wrapper answers by measuring again, whatever the baseline is.
\<close>

theorem missing_mean_is_policy_failure:
  assumes "shim_summary w current_json ''current summary'' = Inr current"
    and "int_at ''p99_nanos'' current = Inr p99" "\<not> dict_has ''mean_nanos'' current"
  shows "shim_gate current_json baseline_json w = Inl (KeyError ''mean_nanos'') \<and>
    process_exit (shim_gate current_json baseline_json) w = 1"
proof -
  have "int_at ''mean_nanos'' current = Inl (KeyError ''mean_nanos'')" using assms(3) by (simp add: int_at_def dict_has_get)
  then have "shim_gate current_json baseline_json w = Inl (KeyError ''mean_nanos'')"
    using assms(1,2) by (simp add: shim_gate_def shim_report_def bindA_def reads_def readsE_def)
  then show ?thesis by (simp add: process_exit_def)
qed

definition meanless_world :: world where
  "meanless_world = bare_world\<lparr>w_files := [([''s.json''],
     ''{'' @ [dquote] @ ''schema_version'' @ [dquote] @ '': 1, '' @ [dquote] @ ''p99_nanos'' @ [dquote] @ '': 7}'')]\<rparr>"

lemma missing_mean_is_policy_failure_witness:
  "process_exit (shim_gate (path_of ''/s.json'') (path_of ''/b.json'')) meanless_world = 1"
proof -
  let ?d = "[(''schema_version'', VInt 1), (''p99_nanos'', VInt 7)]"
  have "shim_summary meanless_world (path_of ''/s.json'') ''current summary'' = Inr ?d" by code_simp
  moreover have "int_at ''p99_nanos'' ?d = Inr 7" "\<not> dict_has ''mean_nanos'' ?d" by code_simp+
  ultimately show ?thesis by (intro conjunct2 [OF missing_mean_is_policy_failure])
qed

section \<open>The threshold\<close>

lemma float_of_int_exact:
  assumes "0 < b" "b < 2 ^ 53"
  shows "float_of_int b = Inr (Fin False (of_int b))"
proof -
  have "(of_int b :: rat) < 2 ^ 53" using assms(2) by (metis of_int_less_iff of_int_numeral of_int_power)
  then have "\<not> (2 ^ 1024 \<le> (of_int b :: rat))" by simp
  moreover have "round_magnitude (of_int b) = of_int b" by (rule round_magnitude_int) (use assms in simp_all)
  ultimately show ?thesis using assms(1) by (simp add: float_of_int_def of_rat_float_def mk_float_def)
qed

lemma threshold_near:
  assumes b: "0 < b" "b < 2 ^ 53" and m: "pow2 (- 1022) \<le> of_int b * m" "of_int b * m < 2 ^ 1023"
  shows "\<exists>t. threshold_of b (Fin False m) = Inr (Fin False t) \<and> \<bar>t - of_int b * m\<bar> \<le> of_int b * m * pow2 (- 53)"
proof -
  let ?t = "round_magnitude (of_int b * m)"
  have err: "\<bar>?t - of_int b * m\<bar> \<le> of_int b * m * pow2 (- 53)" by (rule round_magnitude_error [OF m(1)])
  have pos: "0 < of_int b * m" using less_le_trans [OF pow2_pos m(1)] .
  have "of_int b * m * pow2 (- 53) \<le> of_int b * m" by (rule mult_left_le) (use pos in \<open>simp_all add: pow2_def\<close>)
  then have "?t \<le> 2 * (of_int b * m)" using err by linarith
  also have "\<dots> < 2 * 2 ^ 1023" using m(2) by linarith
  also have "\<dots> = 2 ^ 1024" by simp
  finally have "\<not> 2 ^ 1024 \<le> ?t" by simp
  then show ?thesis using err by (simp add: threshold_of_def float_of_int_exact [OF b] mk_float_def Let_def ebind_def)
qed

text \<open>
  C12. Floats do not decide a gate: unless the current p99 is within one part in \<open>2 ^ 53\<close> of the baseline
  times the ratio, the regression gate answers what exact arithmetic with the float ratio answers.
\<close>

theorem regression_is_exact:
  assumes "py_float ratio = Inr (Fin False m)" "0 < b" "b < 2 ^ 53"
    and "pow2 (- 1022) \<le> of_int b * m" "of_int b * m < 2 ^ 1023"
  shows "(of_int b * m * (1 + 1 / 2 ^ 53) < of_int c \<longrightarrow> regressed ratio c b) \<and>
    (of_int c < of_int b * m * (1 - 1 / 2 ^ 53) \<longrightarrow> \<not> regressed ratio c b)"
proof -
  from threshold_near [OF assms(2-5)] obtain t where t: "threshold_of b (Fin False m) = Inr (Fin False t)"
    "\<bar>t - of_int b * m\<bar> \<le> of_int b * m * pow2 (- 53)" by blast
  have "pow2 (- 53) = 1 / 2 ^ 53" by (simp add: pow2_def)
  with t(2) have "\<bar>t - of_int b * m\<bar> \<le> of_int b * m * (1 / 2 ^ 53)" by simp
  then have near: "t \<le> of_int b * m * (1 + 1 / 2 ^ 53)" "of_int b * m * (1 - 1 / 2 ^ 53) \<le> t"
    unfolding distrib_left right_diff_distrib mult_1_right abs_le_iff by (simp_all only: diff_le_eq le_diff_eq minus_diff_eq add.commute)
  have "ratio \<noteq> VNone" using assms(1) by auto
  then have "regressed ratio c b \<longleftrightarrow> t < of_int c"
    by (simp add: regressed_def assms(1) t(1) ebind_def int_greater_def)
  with near show ?thesis by auto
qed

lemma literal_two: "float_of_literal ''2.0'' = Fin False 2"
proof -
  have "decimal_value ''2.0'' = 2" by code_simp
  moreover have "round_magnitude 2 = 2" using round_magnitude_int [of 2] by simp
  moreover have "List.map lower_char ''2.0'' = ''2.0''" by code_simp
  ultimately show ?thesis by (simp add: float_of_literal_def mk_float_def)
qed

lemma ratio_two: "py_float (VFloat ''2.0'') = Inr (Fin False 2)"
  by (simp add: literal_two)

text \<open>The shim's gate does not skip a baseline of zero: every run but one at zero is a regression then.\<close>

lemma shim_zero_baseline: "regressed (VFloat ''2.0'') 1 0"
  by (simp add: regressed_def literal_two threshold_of_def float_of_int_def of_rat_float_def mk_float_def
      round_magnitude_def int_greater_def ebind_def)

lemma regression_is_exact_witness:
  "regressed (VFloat ''2.0'') 1291365 645682 \<and> \<not> regressed (VFloat ''2.0'') 1291363 645682"
proof -
  have "pow2 (- 1022) \<le> pow2 0" by (rule pow2_mono) simp
  then have low: "pow2 (- 1022) \<le> of_int 645682 * 2" by (simp add: pow2_def)
  have "of_int 645682 * 2 < (2 :: rat) ^ 1023" by simp
  from regression_is_exact [OF ratio_two _ _ low this, of 1291365] regression_is_exact [OF ratio_two _ _ low this, of 1291363]
  show ?thesis by simp
qed

end
