(* ===== verification/Tmux_Adapter.thy ===== *)
theory Tmux_Adapter
  imports Bench_Gate
begin

text \<open>
  \<open>adapters/tmux.py\<close> and the functions of \<open>core/common.py\<close> that differ from their namesakes in
  \<open>core/utils.py\<close>. Nothing else of the program calls them. \<open>spawnable\<close> is a parameter, whether the system can start a
  command at all: unlike the one of \<open>core/utils.py\<close>, this \<open>run_cmd\<close> does not catch the exception. Timeouts are
  not modelled.
\<close>

definition read_text_if_exists :: "world \<Rightarrow> ppath \<Rightarrow> string res" where
  "read_text_if_exists w path = (if \<not> path_exists w path then Inr [] else read_file w path)"

definition project_root_common :: "world \<Rightarrow> ppath" where   \<comment> \<open>\<open>project_root\<close>: an empty variable counts as missing\<close>
  "project_root_common w =
     resolve w (path_of (let r = environ_or w ''PROJECT_ROOT'' [] in if r = [] then path_str (cwd_path w) else r))"

definition run_cmd_common :: "spawner \<Rightarrow> string list \<Rightarrow> (string \<times> int) act" where
  "run_cmd_common spawnable args =
     bindA (reads (\<lambda>w. spawnable w args)) (\<lambda>can. if can then command args else raiseA (FileNotFoundError (hd args)))"

record tmux_status =
  ts_status :: string
  ts_todos_done :: int
  ts_todos_total :: int
  ts_active_task :: string
  ts_wait_estimate :: int
  ts_session_state :: string

definition tmux_new_session :: "spawner \<Rightarrow> string \<Rightarrow> string \<Rightarrow> string \<Rightarrow> (string \<times> int) act" where
  "tmux_new_session spawnable session root selected_agent =
     run_cmd_common spawnable
       [''tmux'', ''new-session'', ''-d'', ''-s'', session, ''-x'', ''200'', ''-y'', ''50'', ''-c'', root,
        ''-e'', ''STORY_AUTOMATOR_CHILD=true'', ''-e'', ''AI_AGENT='' @ selected_agent, ''-e'', ''CLAUDECODE='']"

definition tmux_send_keys :: "spawner \<Rightarrow> string \<Rightarrow> string \<Rightarrow> bool \<Rightarrow> (string \<times> int) act" where
  "tmux_send_keys spawnable session keys enter =
     run_cmd_common spawnable ([''tmux'', ''send-keys'', ''-t'', session, keys] @ (if enter then [''Enter''] else []))"

definition adapter_list_sessions :: "bool \<Rightarrow> string list act" where
  "adapter_list_sessions project_only = bindA (tmux_list_sessions project_only) (\<lambda>(sessions, _). ret sessions)"

definition load_json_state :: "world \<Rightarrow> ppath \<Rightarrow> pyval dict" where
  "load_json_state w path = load_session_state w path"

definition save_json_state :: "ppath \<Rightarrow> pyval dict \<Rightarrow> world \<Rightarrow> world" where
  "save_json_state path payload w = save_session_state path payload (make_dir w (path_parent path))"

definition count_rune :: "string \<Rightarrow> string \<Rightarrow> nat" where   \<comment> \<open>characters are code points\<close>
  "count_rune text target = length (List.filter (\<lambda>c. [c] = utf8_decode target) (utf8_decode text))"

definition todo_glyphs :: "string list" where
  "todo_glyphs = [[CHR 0xE2, CHR 0x98, CHR 0x92], [CHR 0xE2, CHR 0x98, CHR 0x90]]"

fun todo_line_from :: "nat \<Rightarrow> string list \<Rightarrow> nat" where
  "todo_line_from n [] = 999"
| "todo_line_from n (line # rest) =
     (if list_ex (\<lambda>g. sublist g line) todo_glyphs then n else todo_line_from (Suc n) rest)"

definition find_first_todo_line :: "string \<Rightarrow> nat" where
  "find_first_todo_line capture = todo_line_from 1 (trim_lines capture)"

text \<open>The line found is one with a glyph, and none before it has one.\<close>

lemma todo_line_first:
  "todo_line_from n ls = k \<Longrightarrow> k \<noteq> 999 \<Longrightarrow>
     n \<le> k \<and> k - n < length ls \<and> list_ex (\<lambda>g. sublist g (ls ! (k - n))) todo_glyphs \<and>
     (\<forall>i < k - n. \<not> list_ex (\<lambda>g. sublist g (ls ! i)) todo_glyphs)"
proof (induction ls arbitrary: n)
  case (Cons line rest)
  show ?case
  proof (cases "list_ex (\<lambda>g. sublist g line) todo_glyphs")
    case True
    with Cons.prems show ?thesis by simp
  next
    case False
    with Cons have IH: "Suc n \<le> k" "k - Suc n < length rest" "list_ex (\<lambda>g. sublist g (rest ! (k - Suc n))) todo_glyphs"
      "\<forall>i < k - Suc n. \<not> list_ex (\<lambda>g. sublist g (rest ! i)) todo_glyphs" by auto
    then have k: "k - n = Suc (k - Suc n)" by simp
    show ?thesis unfolding k using IH False by (auto simp: nth_Cons split: nat.split)
  qed
qed simp

text \<open>Saving a state through the adapter is read back, also where the directory is new.\<close>

lemma saved_json_loads: "json_plain (VDict payload) \<Longrightarrow> load_json_state (save_json_state path payload w) path = payload"
  unfolding load_json_state_def save_json_state_def by (rule load_saved)

end
