(* ===== verification/Dep_Graph.thy ===== *)
theory Dep_Graph
  imports Json_Facts
begin

text \<open>
  The graph algorithms of \<open>.agents/skills/bmad-agent-builder/scripts/prepass-execution-deps.py\<close> (the
  script of the same name under \<open>bmad-workflow-builder\<close> has the same three functions): cycles,
  transitive redundancies and levels of a graph of dependencies. The recursions of the source end
  because every call marks a node as visited; here they carry fuel, one more than there are nodes,
  and
  the theorems show that it is enough (\<open>dfs_enough\<close>, \<open>transitive_reaches\<close>). Python's recursion limit is not modelled.
\<close>

section \<open>Graphs\<close>

type_synonym dep_graph = "string list dict"

definition deps_of :: "dep_graph \<Rightarrow> string \<Rightarrow> string list" where   \<comment> \<open>\<open>graph.get(node, [])\<close>\<close>
  "deps_of g node = (case dict_get node g of None \<Rightarrow> [] | Some ds \<Rightarrow> ds)"

definition dep_edges :: "dep_graph \<Rightarrow> (string \<times> string) set" where
  "dep_edges g = {(u, v). v \<in> set (deps_of g u)}"

definition graph_nodes :: "dep_graph \<Rightarrow> string list" where
  "graph_nodes g = remdups (List.map fst g @ concat (List.map snd g))"

lemma in_edges [simp]: "(u, v) \<in> dep_edges g \<longleftrightarrow> v \<in> set (deps_of g u)"
  by (simp add: dep_edges_def)

lemma dict_get_in: "dict_get k d = Some v \<Longrightarrow> (k, v) \<in> set d"
  by (induction d) (auto simp: dict_get_Cons split: if_splits)

lemma nodes_closed: "v \<in> set (deps_of g u) \<Longrightarrow> u \<in> set (graph_nodes g) \<and> v \<in> set (graph_nodes g)"
proof -
  assume "v \<in> set (deps_of g u)"
  then obtain ds where ds: "dict_get u g = Some ds" "v \<in> set ds"
    by (cases "dict_get u g") (auto simp: deps_of_def)
  from dict_get_in [OF ds(1)] ds(2) show ?thesis unfolding graph_nodes_def by force
qed

section \<open>Cycles\<close>

text \<open>\<open>path_set\<close> of the source holds the elements of \<open>path\<close>.\<close>

record dfs_state =
  ds_cycles :: "string list list"
  ds_visited :: "string list"
  ds_path :: "string list"

fun dfs :: "dep_graph \<Rightarrow> nat \<Rightarrow> string \<Rightarrow> dfs_state \<Rightarrow> dfs_state" where
  "dfs g 0 node st = st"
| "dfs g (Suc n) node st =
     (if node \<in> set (ds_path st) then
        st\<lparr>ds_cycles := ds_cycles st @ [dropWhile (\<lambda>x. x \<noteq> node) (ds_path st) @ [node]]\<rparr>
      else if node \<in> set (ds_visited st) then st
      else
        (let st' = fold (dfs g n) (deps_of g node)
               (st\<lparr>ds_visited := node # ds_visited st, ds_path := ds_path st @ [node]\<rparr>)
         in st'\<lparr>ds_path := butlast (ds_path st')\<rparr>))"

definition dfs_start :: dfs_state where
  "dfs_start = \<lparr>ds_cycles = [], ds_visited = [], ds_path = []\<rparr>"

definition detect_cycles :: "dep_graph \<Rightarrow> string list list" where
  "detect_cycles g = ds_cycles (fold (dfs g (Suc (length (graph_nodes g)))) (List.map fst g) dfs_start)"

section \<open>Redundancies\<close>

fun get_transitive :: "dep_graph \<Rightarrow> nat \<Rightarrow> string \<Rightarrow> string list \<Rightarrow> string list" where
  "get_transitive g 0 node visited = visited"
| "get_transitive g (Suc n) node visited =
     fold (\<lambda>dep visited. if dep \<in> set visited then visited else get_transitive g n dep (dep # visited))
       (deps_of g node) visited"

definition transitive_deps :: "dep_graph \<Rightarrow> string \<Rightarrow> string list" where
  "transitive_deps g node = get_transitive g (Suc (length (graph_nodes g))) node []"

record redundancy =
  rd_node :: string
  rd_dep :: string
  rd_via :: string

definition redundancy_issue :: "redundancy \<Rightarrow> string" where
  "redundancy_issue r =
     [dquote] @ rd_node r @ [dquote] @ '' declares '' @ [dquote] @ rd_dep r @ [dquote] @
       '' as dependency, but already reachable via '' @ [dquote] @ rd_via r @ [dquote]"

definition redundant_via :: "dep_graph \<Rightarrow> string \<Rightarrow> string list \<Rightarrow> string \<Rightarrow> redundancy list" where
  "redundant_via g node direct_deps dep =
     List.map (\<lambda>other. \<lparr>rd_node = node, rd_dep = dep, rd_via = other\<rparr>)
       (List.filter (\<lambda>other. dep \<in> set (transitive_deps g other)) (List.filter (\<lambda>d. d \<noteq> dep) direct_deps))"

definition find_transitive_redundancy :: "dep_graph \<Rightarrow> redundancy list" where
  "find_transitive_redundancy g =
     concat (List.map (\<lambda>(node, direct_deps). concat (List.map (redundant_via g node direct_deps) direct_deps)) g)"

section \<open>Parallel groups\<close>

definition ready_nodes :: "dep_graph \<Rightarrow> string list \<Rightarrow> string list" where
  "ready_nodes g remaining =
     List.filter (\<lambda>node. list_all (\<lambda>d. d \<notin> set remaining) (deps_of g node)) remaining"

function parallel_groups :: "dep_graph \<Rightarrow> string list \<Rightarrow> string list list" where
  "parallel_groups g remaining =
     (let ready = ready_nodes g remaining in
      if remaining = [] \<or> ready = [] then []
      else (if 1 < length ready then [sorted_strings ready] else []) @
        parallel_groups g (List.filter (\<lambda>x. x \<notin> set ready) remaining))"
  by pat_completeness auto

termination parallel_groups
  by (relation "measure (\<lambda>(g, remaining). length remaining)")
    (auto intro: length_filter_less simp: ready_nodes_def filter_empty_conv)

declare parallel_groups.simps [simp del]

definition find_parallel_groups :: "dep_graph \<Rightarrow> string list \<Rightarrow> string list list" where
  "find_parallel_groups g all_nodes = parallel_groups g (remdups all_nodes)"

section \<open>The cycles are cycles\<close>

definition dep_chain :: "dep_graph \<Rightarrow> string list \<Rightarrow> bool" where
  "dep_chain g xs = successively (\<lambda>u v. v \<in> set (deps_of g u)) xs"

definition real_cycle :: "dep_graph \<Rightarrow> string list \<Rightarrow> bool" where
  "real_cycle g c \<longleftrightarrow> 2 \<le> length c \<and> hd c = last c \<and> dep_chain g c"

lemma chain_snoc: "dep_chain g (xs @ [x]) \<longleftrightarrow> dep_chain g xs \<and> (xs = [] \<or> x \<in> set (deps_of g (last xs)))"
  by (auto simp: dep_chain_def successively_append_iff)

lemma chain_drop: "dep_chain g xs \<Longrightarrow> dep_chain g (dropWhile P xs)"
proof (induction xs)
  case (Cons x xs)
  then show ?case by (cases xs) (auto simp: dep_chain_def)
qed simp

lemma drop_while_last: "x \<in> set xs \<Longrightarrow> \<not> P x \<Longrightarrow> dropWhile P xs \<noteq> [] \<and> last (dropWhile P xs) = last xs"
  by (induction xs) auto

lemma drop_while_hd: "x \<in> set xs \<Longrightarrow> hd (dropWhile (\<lambda>y. y \<noteq> x) xs) = x"
  by (induction xs) auto

text \<open>The path is a chain that ends where the search stands.\<close>

definition path_to :: "dep_graph \<Rightarrow> string \<Rightarrow> dfs_state \<Rightarrow> bool" where
  "path_to g node st \<longleftrightarrow> dep_chain g (ds_path st @ [node]) \<and> list_all (real_cycle g) (ds_cycles st)"

lemma dfs_path:
  assumes "path_to g node st"
  shows "ds_path (dfs g n node st) = ds_path st \<and> list_all (real_cycle g) (ds_cycles (dfs g n node st))"
  using assms
proof (induction n arbitrary: node st)
  case 0
  then show ?case by (simp add: path_to_def)
next
  case (Suc n)
  let ?st = "st\<lparr>ds_visited := node # ds_visited st, ds_path := ds_path st @ [node]\<rparr>"
  have all: "ds_path (fold (dfs g n) vs s) = ds_path s \<and> list_all (real_cycle g) (ds_cycles (fold (dfs g n) vs s))"
    if "set vs \<subseteq> set (deps_of g node)" "ds_path s = ds_path st @ [node]" "list_all (real_cycle g) (ds_cycles s)" for vs s
    using that
  proof (induction vs arbitrary: s)
    case (Cons v vs)
    have "path_to g v s"
      using Cons.prems Suc.prems unfolding path_to_def chain_snoc [of g "ds_path s"] by (simp add: path_to_def)
    from Suc.IH [OF this] Cons show ?case by simp
  qed simp
  have cycle: "real_cycle g (dropWhile (\<lambda>x. x \<noteq> node) (ds_path st) @ [node])" if on: "node \<in> set (ds_path st)"
  proof -
    let ?c = "dropWhile (\<lambda>x. x \<noteq> node) (ds_path st)"
    have c: "?c \<noteq> []" "last ?c = last (ds_path st)" "hd ?c = node"
      using drop_while_last [OF on, of "\<lambda>x. x \<noteq> node"] drop_while_hd [OF on] by auto
    have "dep_chain g (?c @ [node])"
      using Suc.prems c on by (auto simp: path_to_def chain_snoc chain_drop)
    then show ?thesis using c by (cases ?c) (auto simp: real_cycle_def)
  qed
  show ?case
    using all [of "deps_of g node" ?st] Suc.prems cycle by (auto simp: path_to_def Let_def)
qed

section \<open>No cycle is missed\<close>

text \<open>
  What is visited and no longer on the path is finished: its dependencies are finished too, and it
  has no cycle.
\<close>

definition finished :: "dfs_state \<Rightarrow> string set" where
  "finished st = set (ds_visited st) - set (ds_path st)"

definition clean :: "dep_graph \<Rightarrow> dfs_state \<Rightarrow> bool" where
  "clean g st \<longleftrightarrow> set (ds_path st) \<subseteq> set (ds_visited st) \<and> distinct (ds_path st) \<and>
     (\<forall>u \<in> finished st. set (deps_of g u) \<subseteq> finished st) \<and>
     acyclic (dep_edges g \<inter> finished st \<times> finished st)"

definition unvisited :: "dep_graph \<Rightarrow> string list \<Rightarrow> nat" where
  "unvisited g visited = card (set (graph_nodes g) - set visited)"

lemma unvisited_add: "v \<in> set (graph_nodes g) \<Longrightarrow> v \<notin> set vis \<Longrightarrow> unvisited g vis < Suc n \<Longrightarrow> unvisited g (v # vis) < n"
proof -
  assume v: "v \<in> set (graph_nodes g)" "v \<notin> set vis" "unvisited g vis < Suc n"
  have eq: "set (graph_nodes g) - set (v # vis) = (set (graph_nodes g) - set vis) - {v}" by auto
  have "unvisited g (v # vis) < unvisited g vis"
    unfolding unvisited_def eq by (rule card_Diff1_less) (use v(1,2) in auto)
  with v(3) show ?thesis by simp
qed

lemma unvisited_mono: "set vis \<subseteq> set vis' \<Longrightarrow> unvisited g vis' \<le> unvisited g vis"
  unfolding unvisited_def by (rule card_mono) auto

lemma acyclic_insert_sink:
  assumes ac: "acyclic (r \<inter> A \<times> A)" and x: "x \<notin> A" and closed: "\<And>u v. u \<in> A \<Longrightarrow> (u, v) \<in> r \<Longrightarrow> v \<in> A"
    and out: "\<And>v. (x, v) \<in> r \<Longrightarrow> v \<in> A"
  shows "acyclic (r \<inter> insert x A \<times> insert x A)"
proof -
  let ?r = "r \<inter> insert x A \<times> insert x A"
  have inside: "v \<in> A \<and> (u \<in> A \<longrightarrow> (u, v) \<in> (r \<inter> A \<times> A)\<^sup>+)" if "(u, v) \<in> ?r\<^sup>+" for u v
    using that
  proof (induction rule: trancl_induct)
    case (base v)
    then show ?case using closed out by auto
  next
    case (step v w)
    then have "(v, w) \<in> r \<inter> A \<times> A" using closed by auto
    with step.IH show ?case by (auto intro: trancl_into_trancl)
  qed
  then show ?thesis using ac x unfolding acyclic_def by blast
qed

lemma dfs_keeps:
  "ds_path (dfs g n node st) = ds_path st \<and> set (ds_visited st) \<subseteq> set (ds_visited (dfs g n node st)) \<and>
   prefix (ds_cycles st) (ds_cycles (dfs g n node st))"
proof (induction n arbitrary: node st)
  case (Suc n)
  have all: "ds_path (fold (dfs g n) vs s) = ds_path s \<and> set (ds_visited s) \<subseteq> set (ds_visited (fold (dfs g n) vs s)) \<and>
      prefix (ds_cycles s) (ds_cycles (fold (dfs g n) vs s))" for vs s
  proof (induction vs arbitrary: s)
    case (Cons v vs)
    from Suc [of v s] Cons [of "dfs g n v s"] show ?case by (auto intro: prefix_order.trans)
  qed simp
  show ?case
    using all [of "deps_of g node" "st\<lparr>ds_visited := node # ds_visited st, ds_path := ds_path st @ [node]\<rparr>"]
    by (auto simp: Let_def)
qed simp

lemma dfs_fold_keeps:
  "ds_path (fold (dfs g n) vs s) = ds_path s \<and> set (ds_visited s) \<subseteq> set (ds_visited (fold (dfs g n) vs s)) \<and>
   prefix (ds_cycles s) (ds_cycles (fold (dfs g n) vs s))"
proof (induction vs arbitrary: s)
  case (Cons v vs)
  from dfs_keeps [of g n v s] Cons [of "dfs g n v s"] show ?case by (auto intro: prefix_order.trans)
qed simp

lemma dfs_fuel: "unvisited g (ds_visited s) < m \<Longrightarrow> unvisited g (ds_visited (dfs g n v s)) < m"
  using unvisited_mono [of "ds_visited s" "ds_visited (dfs g n v s)" g] dfs_keeps [of g n v s] by linarith

lemma finished_mono: "ds_path st' = ds_path st \<Longrightarrow> set (ds_visited st) \<subseteq> set (ds_visited st') \<Longrightarrow> finished st \<subseteq> finished st'"
  by (auto simp: finished_def)

lemma leave_clean:
  assumes clean: "clean g s" and path: "ds_path s = p @ [node]" and deps: "set (deps_of g node) \<subseteq> finished s"
  shows "clean g (s\<lparr>ds_path := p\<rparr>) \<and> node \<in> finished (s\<lparr>ds_path := p\<rparr>)"
proof -
  have fin: "finished (s\<lparr>ds_path := p\<rparr>) = insert node (finished s)"
    using clean path by (auto simp: finished_def clean_def)
  have "node \<notin> finished s" using path by (simp add: finished_def)
  then have "acyclic (dep_edges g \<inter> insert node (finished s) \<times> insert node (finished s))"
    by (rule acyclic_insert_sink [rotated]) (use clean deps in \<open>auto simp: clean_def\<close>)
  then show ?thesis using clean path deps by (auto simp: clean_def fin)
qed

lemma dfs_clean:
  assumes "clean g st" "ds_cycles (dfs g n node st) = []" "unvisited g (ds_visited st) < n" "node \<in> set (graph_nodes g)"
  shows "clean g (dfs g n node st) \<and> node \<in> finished (dfs g n node st)"
  using assms
proof (induction n arbitrary: node st)
  case (Suc n)
  let ?st = "st\<lparr>ds_visited := node # ds_visited st, ds_path := ds_path st @ [node]\<rparr>"
  have off: "node \<notin> set (ds_path st)" using Suc.prems(2) by auto
  show ?case
  proof (cases "node \<in> set (ds_visited st)")
    case True
    with off Suc.prems show ?thesis by (simp add: finished_def)
  next
    case False
    have fuel: "unvisited g (ds_visited ?st) < n" using unvisited_add [OF Suc.prems(4) False Suc.prems(3)] by simp
    have fin: "finished ?st = finished st" using False by (auto simp: finished_def)
    have start: "clean g ?st" using Suc.prems(1) off by (auto simp: clean_def fin)
    have all: "clean g (fold (dfs g n) vs s) \<and> set vs \<subseteq> finished (fold (dfs g n) vs s)"
      if "set vs \<subseteq> set (graph_nodes g)" "clean g s" "ds_cycles (fold (dfs g n) vs s) = []" "unvisited g (ds_visited s) < n"
      for vs s using that
    proof (induction vs arbitrary: s)
      case (Cons v vs)
      let ?s = "dfs g n v s"
      have "ds_cycles ?s = []" using Cons.prems(3) dfs_fold_keeps [of g n vs ?s] by simp
      then have v: "clean g ?s" "v \<in> finished ?s" using Suc.IH [OF Cons.prems(2) _ Cons.prems(4)] Cons.prems(1) by auto
      have "unvisited g (ds_visited ?s) < n" by (rule dfs_fuel [OF Cons.prems(4)])
      then have "clean g (fold (dfs g n) vs ?s)" "set vs \<subseteq> finished (fold (dfs g n) vs ?s)"
        using Cons.IH [of ?s] Cons.prems v(1) by simp_all
      moreover have "v \<in> finished (fold (dfs g n) vs ?s)"
        using v(2) finished_mono dfs_fold_keeps [of g n vs ?s] by blast
      ultimately show ?case by simp
    qed simp
    let ?final = "fold (dfs g n) (deps_of g node) ?st"
    have none: "ds_cycles ?final = []" using Suc.prems(2) off False by (simp add: Let_def)
    have path: "ds_path ?final = ds_path st @ [node]" using dfs_fold_keeps [of g n "deps_of g node" ?st] by simp
    have "set (deps_of g node) \<subseteq> set (graph_nodes g)" using nodes_closed by blast
    with all [OF _ start none fuel] have "clean g ?final" "set (deps_of g node) \<subseteq> finished ?final" by simp_all
    from leave_clean [OF this(1) path this(2)] show ?thesis using off False path by (simp add: Let_def)
  qed
qed simp

text \<open>More fuel than unvisited nodes changes nothing.\<close>

lemma dfs_enough:
  assumes "node \<in> set (graph_nodes g)" "unvisited g (ds_visited st) < n" "unvisited g (ds_visited st) < m"
  shows "dfs g n node st = dfs g m node st"
  using assms
proof (induction n arbitrary: m node st)
  case (Suc n)
  then obtain k where k: "m = Suc k" by (cases m) auto
  have all: "fold (dfs g n) vs s = fold (dfs g k) vs s"
    if "set vs \<subseteq> set (graph_nodes g)" "unvisited g (ds_visited s) < n" "unvisited g (ds_visited s) < k" for vs s
    using that
  proof (induction vs arbitrary: s)
    case (Cons v vs)
    have eq: "dfs g n v s = dfs g k v s" by (rule Suc.IH) (use Cons.prems in auto)
    show ?case
      using Cons.IH [OF _ dfs_fuel [OF Cons.prems(2)] dfs_fuel [OF Cons.prems(3)], of n v] Cons.prems(1) eq by simp
  qed simp
  have deps: "set (deps_of g node) \<subseteq> set (graph_nodes g)" using nodes_closed by blast
  show ?case
    using all [OF deps, of "st\<lparr>ds_visited := node # ds_visited st, ds_path := ds_path st @ [node]\<rparr>"]
      unvisited_add [OF Suc.prems(1), of "ds_visited st"] Suc.prems(2,3)
    by (auto simp: k)
qed simp

lemma unvisited_start: "unvisited g visited < Suc (length (graph_nodes g))"
proof -
  have "unvisited g visited \<le> card (set (graph_nodes g))" unfolding unvisited_def by (rule card_mono) auto
  also have "\<dots> \<le> length (graph_nodes g)" by (rule card_length)
  finally show ?thesis by simp
qed

lemma search_clean:
  assumes "\<And>visited. unvisited g visited < n" "clean g st" "ds_path st = []" "set vs \<subseteq> set (graph_nodes g)"
    and "ds_cycles (fold (dfs g n) vs st) = []"
  shows "clean g (fold (dfs g n) vs st) \<and>
    set vs \<subseteq> finished (fold (dfs g n) vs st)"
  using assms
proof (induction vs arbitrary: st)
  case (Cons v vs)
  let ?s = "dfs g n v st"
  have "ds_cycles ?s = []" using Cons.prems(5) dfs_fold_keeps [of g n vs ?s] by simp
  then have v: "clean g ?s" "v \<in> finished ?s" using dfs_clean [OF Cons.prems(2) _ Cons.prems(1)] Cons.prems(4) by auto
  have keeps: "ds_path ?s = []" using dfs_keeps [of g n v st] Cons.prems(3) by simp
  have "clean g (fold (dfs g n) vs ?s) \<and> set vs \<subseteq> finished (fold (dfs g n) vs ?s)"
    using Cons.IH [OF Cons.prems(1) v(1) keeps] Cons.prems(4,5) by simp
  moreover have "v \<in> finished (fold (dfs g n) vs ?s)"
    using v(2) finished_mono dfs_fold_keeps [of g n vs ?s] by blast
  ultimately show ?case by simp
qed simp

lemma search_path:
  assumes "ds_path st = []" "list_all (real_cycle g) (ds_cycles st)"
  shows "list_all (real_cycle g) (ds_cycles (fold (dfs g n) vs st))"
  using assms
proof (induction vs arbitrary: st)
  case (Cons v vs)
  have "path_to g v st" using Cons.prems by (simp add: path_to_def dep_chain_def)
  from dfs_path [OF this, of n] Cons show ?case by simp
qed simp

lemma chain_trancl: "dep_chain g (u # xs) \<Longrightarrow> xs \<noteq> [] \<Longrightarrow> (u, last xs) \<in> (dep_edges g)\<^sup>+"
proof (induction xs arbitrary: u)
  case (Cons v vs)
  have first: "(u, v) \<in> dep_edges g" using Cons.prems by (simp add: dep_chain_def)
  show ?case
  proof (cases "vs = []")
    case False
    with Cons have "(v, last vs) \<in> (dep_edges g)\<^sup>+" by (simp add: dep_chain_def)
    with first False show ?thesis by (simp add: trancl_into_trancl2)
  qed (use first in auto)
qed simp

lemma real_cycle_cyclic: "real_cycle g c \<Longrightarrow> \<not> acyclic (dep_edges g)"
proof -
  assume c: "real_cycle g c"
  then obtain u xs where "c = u # xs" "xs \<noteq> []" unfolding real_cycle_def by (cases c; cases "tl c") auto
  with c chain_trancl show ?thesis by (auto simp: real_cycle_def acyclic_def)
qed

lemma edge_from_key: "(u, v) \<in> dep_edges g \<Longrightarrow> u \<in> fst ` set g"
  by (cases "dict_get u g") (force simp: deps_of_def dest: dict_get_in)+

text \<open>
  C10. Circular dependencies are found: what is reported are cycles of the graph, lists of nodes that
  follow the dependencies and end where they begin, and nothing is reported exactly when the
  dependencies have no cycle.
\<close>

theorem cycles_detected:
  "list_all (real_cycle g) (detect_cycles g) \<and> (detect_cycles g = [] \<longleftrightarrow> acyclic (dep_edges g))"
proof -
  let ?n = "Suc (length (graph_nodes g))"
  let ?final = "fold (dfs g ?n) (List.map fst g) dfs_start"
  have real: "list_all (real_cycle g) (detect_cycles g)"
    unfolding detect_cycles_def by (rule search_path) (simp_all add: dfs_start_def)
  have none_missed: "acyclic (dep_edges g)" if none: "detect_cycles g = []"
  proof -
    have start: "clean g dfs_start" "ds_path dfs_start = []" by (simp_all add: clean_def dfs_start_def finished_def acyclic_def)
    have keys: "set (List.map fst g) \<subseteq> set (graph_nodes g)" by (simp add: graph_nodes_def)
    have "clean g ?final \<and> set (List.map fst g) \<subseteq> finished ?final"
      by (rule search_clean [OF unvisited_start start keys]) (rule none [unfolded detect_cycles_def])
    then have fin: "clean g ?final" "fst ` set g \<subseteq> finished ?final" unfolding set_map by blast+
    have closed: "set (deps_of g u) \<subseteq> finished ?final" if "u \<in> finished ?final" for u
      using fin(1) that unfolding clean_def by blast
    have "dep_edges g \<subseteq> finished ?final \<times> finished ?final"
    proof (rule subrelI)
      fix u v assume uv: "(u, v) \<in> dep_edges g"
      with edge_from_key fin(2) have "u \<in> finished ?final" by blast
      with closed uv show "(u, v) \<in> finished ?final \<times> finished ?final" unfolding in_edges by blast
    qed
    then have "dep_edges g \<inter> finished ?final \<times> finished ?final = dep_edges g" by blast
    with fin(1) show ?thesis unfolding clean_def by metis
  qed
  have none_made_up: "detect_cycles g = []" if "acyclic (dep_edges g)"
  proof (rule ccontr)
    assume "detect_cycles g \<noteq> []"
    then have "real_cycle g (hd (detect_cycles g))" using real by (simp only: list_all_iff) (blast intro: hd_in_set)
    with real_cycle_cyclic that show False by blast
  qed
  show ?thesis by (rule conjI [OF real iffI [OF none_missed none_made_up]])
qed

section \<open>What is reachable\<close>

definition reaches_ok :: "dep_graph \<Rightarrow> string list \<Rightarrow> string list \<Rightarrow> string list \<Rightarrow> bool" where
  "reaches_ok g start visited out \<longleftrightarrow>
     set visited \<subseteq> set out \<and> set start \<subseteq> set out \<and> set out \<subseteq> set visited \<union> (dep_edges g)\<^sup>* `` set start \<and>
     (\<forall>x \<in> set out - set visited. set (deps_of g x) \<subseteq> set out)"

lemma reaches_ok_join: "reaches_ok g [d] vis mid \<Longrightarrow> reaches_ok g ds mid out \<Longrightarrow> reaches_ok g (d # ds) vis out"
proof -
  assume a: "reaches_ok g [d] vis mid" "reaches_ok g ds mid out"
  have "(dep_edges g)\<^sup>* `` set (d # ds) = (dep_edges g)\<^sup>* `` set [d] \<union> (dep_edges g)\<^sup>* `` set ds" by auto
  moreover have "set (deps_of g x) \<subseteq> set out" if "x \<in> set out - set vis" for x
  proof (cases "x \<in> set mid")
    case True
    then have "set (deps_of g x) \<subseteq> set mid" "set mid \<subseteq> set out" using a that by (simp_all add: reaches_ok_def)
    then show ?thesis by (rule subset_trans)
  qed (use a that in \<open>simp add: reaches_ok_def\<close>)
  ultimately show ?thesis using a unfolding reaches_ok_def by auto
qed

lemma get_transitive_ok:
  assumes "unvisited g visited < n"
  shows "reaches_ok g (deps_of g node) visited (get_transitive g n node visited)"
  using assms
proof (induction n arbitrary: node visited)
  case (Suc n)
  let ?step = "\<lambda>dep visited. if dep \<in> set visited then visited else get_transitive g n dep (dep # visited)"
  have all: "reaches_ok g ds vis (fold ?step ds vis)" if "set ds \<subseteq> set (graph_nodes g)" "unvisited g vis < Suc n" for ds vis
    using that
  proof (induction ds arbitrary: vis)
    case Nil
    then show ?case by (simp add: reaches_ok_def)
  next
    case (Cons d ds)
    have first: "reaches_ok g [d] vis (?step d vis)"
    proof (cases "d \<in> set vis")
      case False
      have "unvisited g (d # vis) < n" using unvisited_add [OF _ False] Cons.prems by simp
      from Suc.IH [OF this, of d] have ok: "reaches_ok g (deps_of g d) (d # vis) (get_transitive g n d (d # vis))" .
      have "(dep_edges g)\<^sup>* `` set (deps_of g d) \<subseteq> (dep_edges g)\<^sup>* `` {d}"
        by (auto intro: converse_rtrancl_into_rtrancl)
      with ok show ?thesis using False by (auto simp: reaches_ok_def) blast
    qed (simp add: reaches_ok_def)
    have "unvisited g (?step d vis) < Suc n"
      using first unvisited_mono [of vis "?step d vis" g] Cons.prems(2) unfolding reaches_ok_def by linarith
    with Cons have rest: "reaches_ok g ds (?step d vis) (fold ?step ds (?step d vis))" by simp
    show ?case using reaches_ok_join [OF first rest] unfolding fold_Cons o_apply .
  qed
  have "set (deps_of g node) \<subseteq> set (graph_nodes g)" using nodes_closed by blast
  from all [OF this Suc.prems] show ?case by simp
qed simp

lemma transitive_reaches: "set (transitive_deps g node) = (dep_edges g)\<^sup>+ `` {node}"
proof
  have ok: "reaches_ok g (deps_of g node) [] (transitive_deps g node)"
    unfolding transitive_deps_def by (rule get_transitive_ok [OF unvisited_start])
  have "(dep_edges g)\<^sup>* `` set (deps_of g node) = (dep_edges g)\<^sup>+ `` {node}"
    by (auto simp: trancl_unfold_left)
  then show "set (transitive_deps g node) \<subseteq> (dep_edges g)\<^sup>+ `` {node}" using ok by (auto simp: reaches_ok_def)
  have "v \<in> set (transitive_deps g node)" if "(node, v) \<in> (dep_edges g)\<^sup>+" for v
    using that
  proof (induction rule: trancl_induct)
    case (base v)
    then show ?case using ok by (auto simp: reaches_ok_def)
  next
    case (step v w)
    then show ?case using ok by (auto simp: reaches_ok_def)
  qed
  then show "(dep_edges g)\<^sup>+ `` {node} \<subseteq> set (transitive_deps g node)" by auto
qed

text \<open>
  C32. The redundant dependencies are those that other dependencies imply: a dependency of a node is
  reported with another one of the node exactly when it can be reached from that other one.
\<close>

theorem redundancies_exact:
  assumes "dict_ok g"
  shows "\<lparr>rd_node = node, rd_dep = dep, rd_via = other\<rparr> \<in> set (find_transitive_redundancy g) \<longleftrightarrow>
    dep \<in> set (deps_of g node) \<and> other \<in> set (deps_of g node) \<and> other \<noteq> dep \<and> (other, dep) \<in> (dep_edges g)\<^sup>+"
proof -
  have get: "(node, ds) \<in> set g \<longleftrightarrow> dict_get node g = Some ds" for ds
    using assms by (auto simp: dict_ok_def dict_get_def)
  have via: "\<lparr>rd_node = node, rd_dep = dep, rd_via = other\<rparr> \<in> set (redundant_via g n ds d) \<longleftrightarrow>
      n = node \<and> d = dep \<and> other \<in> set ds \<and> other \<noteq> dep \<and> dep \<in> set (transitive_deps g other)" for n ds d
    by (auto simp: redundant_via_def)
  have reported: "r \<in> set (find_transitive_redundancy g) \<longleftrightarrow> (\<exists>n ds. (n, ds) \<in> set g \<and> (\<exists>d \<in> set ds. r \<in> set (redundant_via g n ds d)))"
    for r by (auto simp: find_transitive_redundancy_def)
  have "\<lparr>rd_node = node, rd_dep = dep, rd_via = other\<rparr> \<in> set (find_transitive_redundancy g) \<longleftrightarrow>
      (\<exists>ds. (node, ds) \<in> set g \<and> dep \<in> set ds \<and> other \<in> set ds \<and> other \<noteq> dep \<and> dep \<in> set (transitive_deps g other))"
    unfolding reported via by blast
  then show ?thesis by (cases "dict_get node g") (simp_all add: get deps_of_def transitive_reaches)
qed

lemma redundancies_exact_witness:
  "\<lparr>rd_node = ''a'', rd_dep = ''c'', rd_via = ''b''\<rparr>
     \<in> set (find_transitive_redundancy [(''a'', [''b'', ''c'']), (''b'', [''d'']), (''d'', [''c''])])"
proof -
  let ?g = "[(''a'', [''b'', ''c'']), (''b'', [''d'']), (''d'', [''c''])] :: dep_graph"
  have "dict_ok ?g" by code_simp
  moreover have "(''b'', ''d'') \<in> dep_edges ?g" "(''d'', ''c'') \<in> dep_edges ?g" by (simp_all add: deps_of_def dict_get_Cons)
  then have "(''b'', ''c'') \<in> (dep_edges ?g)\<^sup>+" by (rule trancl_into_trancl [OF r_into_trancl])
  ultimately show ?thesis
    using redundancies_exact [of ?g "''a''" "''c''" "''b''"] by (simp add: deps_of_def dict_get_Cons)
qed

section \<open>Levels\<close>

text \<open>The nodes all whose dependencies among \<open>N\<close> are below level \<open>k\<close>, and those of level \<open>k\<close>.\<close>

definition inner_edges :: "dep_graph \<Rightarrow> string set \<Rightarrow> (string \<times> string) set" where
  "inner_edges g N = dep_edges g \<inter> N \<times> N"

fun below_level :: "dep_graph \<Rightarrow> string set \<Rightarrow> nat \<Rightarrow> string set" where
  "below_level g N 0 = {}"
| "below_level g N (Suc k) = {u \<in> N. inner_edges g N `` {u} \<subseteq> below_level g N k}"

definition dep_level :: "dep_graph \<Rightarrow> string set \<Rightarrow> nat \<Rightarrow> string set" where
  "dep_level g N k = below_level g N (Suc k) - below_level g N k"

lemma below_in: "below_level g N k \<subseteq> N"
  by (cases k) auto

lemma below_Suc: "below_level g N k \<subseteq> below_level g N (Suc k)"
  by (induction k) auto

lemma below_trancl: "(u, v) \<in> (inner_edges g N)\<^sup>+ \<Longrightarrow> u \<in> below_level g N (Suc k) \<Longrightarrow> v \<in> below_level g N k"
proof (induction rule: trancl_induct)
  case (step v w)
  then have "v \<in> below_level g N (Suc k)" using below_Suc by blast
  with step.hyps(2) show ?case by auto
qed auto

lemma level_independent: "u \<in> dep_level g N k \<Longrightarrow> v \<in> dep_level g N k \<Longrightarrow> (u, v) \<notin> (inner_edges g N)\<^sup>+"
  using below_trancl unfolding dep_level_def by blast

lemma below_stays: "below_level g N (Suc t) = below_level g N t \<Longrightarrow> t \<le> k \<Longrightarrow> below_level g N k = below_level g N t"
proof (induction k)
  case (Suc k)
  then show ?case by (cases "t = Suc k") auto
qed simp

lemma ready_level:
  assumes "set remaining = N - below_level g N t"
  shows "set (ready_nodes g remaining) = dep_level g N t"
  using assms below_in [of g N t] by (auto simp: ready_nodes_def dep_level_def inner_edges_def list_all_iff)

lemma groups_are_levels:
  assumes "set remaining = N - below_level g N t" "distinct remaining"
  shows "set ` set (parallel_groups g remaining) = {L. \<exists>k \<ge> t. L = dep_level g N k \<and> 2 \<le> card L}"
  using assms
proof (induction g remaining arbitrary: t rule: parallel_groups.induct)
  case (1 g remaining)
  let ?ready = "ready_nodes g remaining"
  let ?rest = "List.filter (\<lambda>x. x \<notin> set ?ready) remaining"
  have ready: "set ?ready = dep_level g N t" by (rule ready_level [OF 1(2)])
  show ?case
  proof (cases "remaining = [] \<or> ?ready = []")
    case True
    then have "?ready = []" by (auto simp: ready_nodes_def)
    then have "dep_level g N t = {}" using ready by simp
    then have same: "below_level g N (Suc t) = below_level g N t" using below_Suc [of g N t] by (auto simp: dep_level_def)
    have "dep_level g N k = {}" if "t \<le> k" for k
      using below_stays [OF same that] below_stays [OF same, of "Suc k"] that by (simp add: dep_level_def)
    then show ?thesis using True by (subst parallel_groups.simps) auto
  next
    case False
    have rest: "set ?rest = N - below_level g N (Suc t)"
      using 1(2) ready below_Suc [of g N t] by (auto simp: dep_level_def simp del: below_level.simps)
    have "distinct ?rest" using 1(3) by simp
    from 1(1) [OF refl False rest this] have IH: "set ` set (parallel_groups g ?rest) =
        {L. \<exists>k \<ge> Suc t. L = dep_level g N k \<and> 2 \<le> card L}" .
    have "distinct ?ready" using 1(3) by (simp add: ready_nodes_def)
    then have "card (dep_level g N t) = length ?ready" unfolding ready [symmetric] by (rule distinct_card)
    then have "set ` set (parallel_groups g remaining) =
        {L. L = dep_level g N t \<and> 2 \<le> card L} \<union> {L. \<exists>k \<ge> Suc t. L = dep_level g N k \<and> 2 \<le> card L}"
      using False ready IH by (subst parallel_groups.simps) (simp add: Let_def image_Un, auto)
    also have "\<dots> = {L. \<exists>k \<ge> t. L = dep_level g N k \<and> 2 \<le> card L}"
    proof -
      have "t \<le> k \<longleftrightarrow> k = t \<or> Suc t \<le> k" for k by auto
      then show ?thesis by (simp only:) blast
    qed
    finally show ?thesis .
  qed
qed

text \<open>
  C31. The groups offered for parallel work are the levels of the dependencies that have at least two
  nodes, and no node of a group depends on another one of its group, directly or through other nodes.
\<close>

theorem parallel_groups_are_levels:
  "set ` set (find_parallel_groups g nodes) = {L. \<exists>k. L = dep_level g (set nodes) k \<and> 2 \<le> card L} \<and>
   list_all (\<lambda>grp. set grp \<times> set grp \<inter> (inner_edges g (set nodes))\<^sup>+ = {}) (find_parallel_groups g nodes)"
proof -
  have levels: "set ` set (find_parallel_groups g nodes) = {L. \<exists>k \<ge> 0. L = dep_level g (set nodes) k \<and> 2 \<le> card L}"
    unfolding find_parallel_groups_def by (rule groups_are_levels) simp_all
  have "set grp \<times> set grp \<inter> (inner_edges g (set nodes))\<^sup>+ = {}" if "grp \<in> set (find_parallel_groups g nodes)" for grp
  proof -
    have "set grp \<in> set ` set (find_parallel_groups g nodes)" using that by (rule imageI)
    then obtain k where "set grp = dep_level g (set nodes) k" unfolding levels by blast
    then show ?thesis using level_independent [of _ g "set nodes" k] by blast
  qed
  then show ?thesis using levels by (simp add: list_all_iff)
qed

end
