(* ===== verification/Exec_Prepass.thy ===== *)
theory Exec_Prepass
  imports Dep_Graph Module_Check
begin

text \<open>
  \<open>prepass-execution-deps.py\<close> of \<open>.agents/skills/bmad-agent-builder/scripts/\<close> and of
  \<open>.agents/skills/bmad-workflow-builder/scripts/\<close>: what of a skill's prompts could run in parallel. The
  scripts share the algorithms of \<open>Dep_Graph\<close> and most patterns. The arguments are as \<open>argparse\<close> parsed
  them, a missing \<open>--output\<close> is the empty string; what goes to the standard error is not modelled.
\<close>

section \<open>Patterns of sequential work\<close>

definition rx_tool_step :: rx where
  "rx_tool_step = rseq [RBol True, rstar rspace, rplus rdigit, rlit ''.'', rplus rspace, RStar False rdot, RWordB,
     RGrp 1 (ralt (List.map rlit [''Read'', ''Grep'', ''Glob'', ''read'', ''grep'', ''glob''])), RWordB, rstar rdot, REol True]"

definition either_case :: "string \<Rightarrow> string \<Rightarrow> rx" where   \<comment> \<open>\<open>[Rr]est\<close>\<close>
  "either_case cs rest = RSeq (roneof cs) (rlit rest)"

definition any_of :: "string list \<Rightarrow> rx" where
  "any_of ws = ralt (List.map rlit ws)"

definition loop_patterns :: "(rx \<times> string) list" where
  "loop_patterns =
     [(rseq [either_case ''Rr'' ''ead all '', any_of [''files'', ''documents'', ''prompts'']], ''read-all''),
      (rseq [either_case ''Ff'' ''or each '', any_of [''file'', ''document'', ''prompt'', ''stage'']], ''for-each-loop''),
      (either_case ''Aa'' ''nalyze each'', ''analyze-each''),
      (rseq [either_case ''Ss'' ''can '', any_of [''through'', ''all'', ''each'']], ''scan-all''),
      (rseq [either_case ''Rr'' ''eview '', any_of [''all'', ''each'']], ''review-all'')]"

definition memory_loading_patterns :: "(rx \<times> string) list" where
  "memory_loading_patterns =
     [(rseq [either_case ''Ll'' ''oad all '', any_of [''memory'', ''memories'']], ''load-all-memory''),
      (rseq [either_case ''Rr'' ''ead all '', any_of [''memory'', ''agent memory''], rlit '' '', any_of [''files'', ''data'']],
        ''read-all-memory''),
      (rseq [either_case ''Ll'' ''oad '', any_of [''entire'', ''full'', ''complete''], rlit '' '', any_of [''memory'', ''agent memory'']],
        ''load-entire-memory''),
      (rseq [either_case ''Ll'' ''oad all '', any_of [''context'', ''state'']], ''load-all-context''),
      (rseq [either_case ''Rr'' ''ead '', any_of [''entire'', ''full'', ''complete''], rlit '' memory''], ''read-entire-memory'')]"

definition multi_source_patterns :: "(rx \<times> string) list" where
  "multi_source_patterns =
     [(rseq [either_case ''Rr'' ''ead all'', RWordB], ''multi-source-read-all''),
      (rseq [either_case ''Aa'' ''nalyze each'', RWordB], ''multi-source-analyze-each''),
      (rseq [either_case ''Ff'' ''or each file'', RWordB], ''multi-source-for-each-file'')]"

definition rx_spawns :: rx where
  "rx_spawns = ralt (List.map (\<lambda>v. rseq [rilit v, rstar rdot, rilit ''subagent'']) [''spawn'', ''launch'', ''create''])"

record exec_pattern =
  ep_file :: string
  ep_type :: string
  ep_count :: nat
  ep_issue :: string

definition em_dash :: string where   \<comment> \<open>in UTF-8\<close>
  "em_dash = [CHR 0xE2, CHR 0x80, CHR 0x94]"

definition tool_steps :: "string \<Rightarrow> string \<Rightarrow> exec_pattern list" where
  "tool_steps rel content =
     (let n = length (re_finditer rx_tool_step content) in
      if 3 \<le> n then
        [\<lparr>ep_file = rel, ep_type = ''sequential-tool-calls'', ep_count = n,
          ep_issue = show_nat n @ '' sequential tool call steps found '' @ em_dash @ '' check if independent calls can be parallel''\<rparr>]
      else [])"

text \<open>One pattern of a list, the advice is the end of its message.\<close>

definition listed_pattern :: "string \<Rightarrow> string \<Rightarrow> string \<Rightarrow> rx \<times> string \<Rightarrow> exec_pattern list" where
  "listed_pattern rel content advice pt =
     (case re_finditer (fst pt) content of
        [] \<Rightarrow> []
      | m # ms \<Rightarrow>
          [\<lparr>ep_file = rel, ep_type = snd pt, ep_count = length (m # ms),
            ep_issue = [dquote] @ rm_text m @ [dquote] @ '' pattern found '' @ em_dash @ '' '' @ advice\<rparr>])"

definition chain_violation :: "string \<Rightarrow> exec_pattern" where
  "chain_violation rel =
     \<lparr>ep_file = rel, ep_type = ''subagent-chain-violation'', ep_count = 1,
      ep_issue = ''Subagent file references spawning other subagents '' @ em_dash @ '' subagents cannot spawn subagents''\<rparr>"

definition loop_findings :: "string \<Rightarrow> string \<Rightarrow> exec_pattern list" where
  "loop_findings rel content =
     concat (List.map (listed_pattern rel content ''consider parallel subagent delegation'') loop_patterns)"

definition memory_findings :: "string \<Rightarrow> string \<Rightarrow> exec_pattern list" where
  "memory_findings rel content =
     concat (List.map (listed_pattern rel content ''bulk memory loading is expensive, load specific paths'') memory_loading_patterns)"

definition add_multi_source :: "string \<Rightarrow> string \<Rightarrow> rx \<times> string \<Rightarrow> exec_pattern list \<Rightarrow> exec_pattern list" where
  "add_multi_source rel content pt patterns =
     (if snd pt \<in> set (List.map ep_type patterns) then patterns
      else patterns @ listed_pattern rel content ''multi-source operation may be parallelizable'' pt)"

definition agent_is_subagent :: "string \<Rightarrow> bool" where
  "agent_is_subagent rel \<longleftrightarrow> startswith rel ''quality-scan-'' \<or> startswith rel ''report-''"

definition agent_patterns :: "string \<Rightarrow> string \<Rightarrow> exec_pattern list" where
  "agent_patterns rel content =
     fold (add_multi_source rel content) multi_source_patterns
       (tool_steps rel content @ loop_findings rel content @ memory_findings rel content) @
     (if re_test rx_spawns content \<and> agent_is_subagent rel then [chain_violation rel] else [])"

definition scan_sequential_patterns :: "world \<Rightarrow> ppath \<Rightarrow> string \<Rightarrow> exec_pattern list res" where
  "scan_sequential_patterns w filepath rel = ebind (read_file w filepath) (\<lambda>content. Inr (agent_patterns rel content))"

definition rx_numbered :: rx where
  "rx_numbered = rseq [RBol False, rplus rdigit, rlit ''-'']"

definition flow_is_subagent :: "string \<Rightarrow> bool" where
  "flow_is_subagent rel \<longleftrightarrow> rel \<noteq> ''SKILL.md'' \<and> re_match rx_numbered rel = None"

definition flow_patterns :: "string \<Rightarrow> string \<Rightarrow> exec_pattern list" where
  "flow_patterns rel content =
     tool_steps rel content @ loop_findings rel content @
     (if re_test rx_spawns content \<and> flow_is_subagent rel then [chain_violation rel] else [])"

definition flow_sequential_patterns :: "world \<Rightarrow> ppath \<Rightarrow> string \<Rightarrow> exec_pattern list res" where
  "flow_sequential_patterns w filepath rel = ebind (read_file w filepath) (\<lambda>content. Inr (flow_patterns rel content))"

section \<open>The files of a skill\<close>

text \<open>\<open>sorted(d.iterdir())\<close>.\<close>

definition entries :: "world \<Rightarrow> ppath \<Rightarrow> ppath list res" where
  "entries w d =
     (if is_dir w d then Inr (glob_sorted w d ''*'')
      else Inl (if path_exists w d then NotADirectoryError (path_str d) else FileNotFoundError (path_str d)))"

definition markdown_files :: "world \<Rightarrow> ppath \<Rightarrow> ppath list res" where
  "markdown_files w d =
     ebind (entries w d) (\<lambda>fs. Inr (List.filter (\<lambda>f. is_file w f \<and> path_suffix f = ''.md'') fs))"

definition markdown_if_there :: "world \<Rightarrow> ppath \<Rightarrow> ppath list res" where
  "markdown_if_there w d = (if path_exists w d then markdown_files w d else Inr [])"

definition agent_dir_patterns :: "world \<Rightarrow> ppath \<Rightarrow> string \<Rightarrow> exec_pattern list res" where
  "agent_dir_patterns w skill_path scan_dir =
     ebind (markdown_if_there w (under skill_path scan_dir)) (\<lambda>fs.
     ebind (map_res (\<lambda>f. scan_sequential_patterns w f (scan_dir @ ''/'' @ path_name f)) fs) (\<lambda>ps. Inr (concat ps)))"

definition skill_md_patterns ::
    "(world \<Rightarrow> ppath \<Rightarrow> string \<Rightarrow> exec_pattern list res) \<Rightarrow> world \<Rightarrow> ppath \<Rightarrow> exec_pattern list res" where
  "skill_md_patterns scan w skill_path =
     (if path_exists w (under skill_path ''SKILL.md'') then scan w (under skill_path ''SKILL.md'') ''SKILL.md'' else Inr [])"

definition flow_files :: "world \<Rightarrow> ppath \<Rightarrow> ppath list res" where
  "flow_files w skill_path =
     ebind (markdown_files w skill_path) (\<lambda>fs. Inr (List.filter (\<lambda>f. path_name f \<noteq> ''SKILL.md'') fs))"

section \<open>Issues\<close>

record exec_issue =
  ei_file :: "string option"
  ei_severity :: string
  ei_category :: string
  ei_issue :: string

definition right_arrow :: string where   \<comment> \<open>in UTF-8, between blanks\<close>
  "right_arrow = '' '' @ [CHR 0xE2, CHR 0x86, CHR 0x92] @ '' ''"

definition graph_issues :: "string list list \<Rightarrow> redundancy list \<Rightarrow> exec_issue list" where
  "graph_issues cycles redundancies =
     List.map (\<lambda>c. \<lparr>ei_file = None, ei_severity = ''critical'', ei_category = ''circular-dependency'',
         ei_issue = ''Circular dependency detected: '' @ join right_arrow c\<rparr>) cycles @
     List.map (\<lambda>r. \<lparr>ei_file = None, ei_severity = ''medium'', ei_category = ''dependency-bloat'',
         ei_issue = redundancy_issue r\<rparr>) redundancies"

definition pattern_issue :: "(string \<Rightarrow> string) \<Rightarrow> exec_pattern \<Rightarrow> exec_issue" where
  "pattern_issue severity_of p =
     \<lparr>ei_file = Some (ep_file p), ei_severity = severity_of (ep_type p), ei_category = ep_type p, ei_issue = ep_issue p\<rparr>"

definition agent_severity :: "string \<Rightarrow> string" where
  "agent_severity t =
     (if t = ''subagent-chain-violation'' then ''critical''
      else if t \<in> set [''load-all-memory'', ''read-all-memory'', ''load-entire-memory'', ''load-all-context'', ''read-entire-memory'']
      then ''high'' else ''medium'')"

definition flow_severity :: "string \<Rightarrow> string" where
  "flow_severity t = (if t = ''subagent-chain-violation'' then ''critical'' else ''medium'')"

definition exec_count :: "exec_issue list \<Rightarrow> string \<Rightarrow> nat" where
  "exec_count issues sev = length (List.filter (\<lambda>i. ei_severity i = sev) issues)"

definition agent_status :: "exec_issue list \<Rightarrow> string" where
  "agent_status issues =
     (if 0 < exec_count issues ''critical'' then ''fail''
      else if 0 < exec_count issues ''high'' \<or> 0 < exec_count issues ''medium'' then ''warning'' else ''pass'')"

definition flow_status :: "exec_issue list \<Rightarrow> string" where
  "flow_status issues =
     (if 0 < exec_count issues ''critical'' then ''fail'' else if 0 < exec_count issues ''medium'' then ''warning'' else ''pass'')"

section \<open>The scans\<close>

record exec_scan =
  xs_status :: string
  xs_stages :: "string list"
  xs_cycles :: "string list list"
  xs_redundancies :: "redundancy list"
  xs_parallel_groups :: "string list list"
  xs_patterns :: "exec_pattern list"
  xs_issues :: "exec_issue list"

text \<open>Neither script fills the graph of dependencies.\<close>

definition dep_graph_of_skill :: dep_graph where
  "dep_graph_of_skill = []"

definition exec_result :: "(exec_issue list \<Rightarrow> string) \<Rightarrow> (string \<Rightarrow> string) \<Rightarrow> string list \<Rightarrow> exec_pattern list \<Rightarrow> exec_scan" where
  "exec_result status_of severity_of stages patterns =
     (let cycles = detect_cycles dep_graph_of_skill; redundancies = find_transitive_redundancy dep_graph_of_skill;
          issues = graph_issues cycles redundancies @ List.map (pattern_issue severity_of) patterns
      in \<lparr>xs_status = status_of issues, xs_stages = stages, xs_cycles = cycles, xs_redundancies = redundancies,
          xs_parallel_groups = find_parallel_groups dep_graph_of_skill stages, xs_patterns = patterns, xs_issues = issues\<rparr>)"

definition agent_scan :: "world \<Rightarrow> ppath \<Rightarrow> exec_scan res" where   \<comment> \<open>\<open>scan_execution_deps\<close> for agents\<close>
  "agent_scan w skill_path =
     ebind (markdown_if_there w (under skill_path ''prompts'')) (\<lambda>fs.
     ebind (map_res (agent_dir_patterns w skill_path) [''prompts'', ''agents'']) (\<lambda>ps.
     ebind (skill_md_patterns scan_sequential_patterns w skill_path) (\<lambda>own. Inr
       (exec_result agent_status agent_severity (sorted_strings (remdups (List.map path_stem fs))) (concat ps @ own)))))"

definition flow_scan :: "world \<Rightarrow> ppath \<Rightarrow> exec_scan res" where   \<comment> \<open>\<open>scan_execution_deps\<close> for workflows\<close>
  "flow_scan w skill_path =
     ebind (flow_files w skill_path) (\<lambda>fs.
     ebind (map_res (\<lambda>f. flow_sequential_patterns w f (path_name f)) fs) (\<lambda>ps.
     ebind (skill_md_patterns flow_sequential_patterns w skill_path) (\<lambda>own. Inr
       (exec_result flow_status flow_severity (sorted_strings (remdups (List.map path_stem fs))) (concat ps @ own)))))"

section \<open>Output\<close>

text \<open>\<open>datetime.now(timezone.utc).isoformat()\<close>, for a clock that counts milliseconds.\<close>

definition now_iso :: "world \<Rightarrow> string" where
  "now_iso w =
     (let ms = w_clock w mod 1000
      in butlast (now_utc_z w) @
        (if ms = 0 then [] else ''.'' @ (if ms < 100 then ''0'' else []) @ pad2 ms @ ''000'') @ ''+00:00'')"

definition strings_json :: "string list \<Rightarrow> pyval" where
  "strings_json ss = VList (List.map VStr ss)"

definition redundancy_json :: "redundancy \<Rightarrow> pyval" where
  "redundancy_json r =
     VDict [(''node'', VStr (rd_node r)), (''redundant_dep'', VStr (rd_dep r)), (''already_via'', VStr (rd_via r)),
       (''issue'', VStr (redundancy_issue r))]"

definition pattern_json :: "exec_pattern \<Rightarrow> pyval" where
  "pattern_json p =
     VDict [(''file'', VStr (ep_file p)), (''type'', VStr (ep_type p)), (''count'', VInt (int (ep_count p))),
       (''issue'', VStr (ep_issue p))]"

definition issue_json :: "exec_issue \<Rightarrow> pyval" where
  "issue_json i =
     VDict ((case ei_file i of None \<Rightarrow> [] | Some f \<Rightarrow> [(''file'', VStr f)]) @
       [(''severity'', VStr (ei_severity i)), (''category'', VStr (ei_category i)), (''issue'', VStr (ei_issue i))])"

definition scan_summary :: "exec_issue list \<Rightarrow> pyval" where
  "scan_summary issues =
     VDict [(''total_issues'', VInt (int (length issues))),
       (''by_severity'', VDict (List.map (\<lambda>s. (s, VInt (int (exec_count issues s)))) [''critical'', ''high'', ''medium'', ''low'']))]"

definition graph_json :: "exec_scan \<Rightarrow> pyval" where
  "graph_json r =
     VDict [(''stages'', strings_json (xs_stages r)),
       (''hard_dependencies'', VDict (List.map (\<lambda>(k, ds). (k, strings_json ds)) dep_graph_of_skill)),
       (''soft_dependencies'', VDict []), (''cycles'', VList (List.map strings_json (xs_cycles r))),
       (''transitive_redundancies'', VList (List.map redundancy_json (xs_redundancies r))),
       (''parallel_groups'', VList (List.map strings_json (xs_parallel_groups r)))]"

definition exec_json :: "world \<Rightarrow> ppath \<Rightarrow> exec_scan \<Rightarrow> pyval" where
  "exec_json w skill_path r =
     VDict [(''scanner'', VStr ''execution-efficiency-prepass''), (''script'', VStr ''prepass-execution-deps.py''),
       (''version'', VStr ''1.0.0''), (''skill_path'', VStr (path_str skill_path)), (''timestamp'', VStr (now_iso w)),
       (''status'', VStr (xs_status r)), (''dependency_graph'', graph_json r),
       (''sequential_patterns'', VList (List.map pattern_json (xs_patterns r))),
       (''issues'', VList (List.map issue_json (xs_issues r))), (''summary'', scan_summary (xs_issues r))]"

definition write_scan_output :: "string \<Rightarrow> string \<Rightarrow> int act" where
  "write_scan_output output_file content =
     (if output_file = [] then bindA (effect (print_line content)) (\<lambda>_. ret 0)
      else
        bindA (effect (\<lambda>w. make_dir w (path_parent (path_of output_file)))) (\<lambda>_.
        bindA (reads (\<lambda>w. is_dir w (path_of output_file))) (\<lambda>taken.
        if taken then raiseA (IsADirectoryError output_file)
        else bindA (effect (\<lambda>w. put_file w (path_of output_file) content)) (\<lambda>_. ret 0))))"

definition exec_prepass :: "(world \<Rightarrow> ppath \<Rightarrow> exec_scan res) \<Rightarrow> string \<Rightarrow> string \<Rightarrow> int act" where   \<comment> \<open>\<open>main\<close>\<close>
  "exec_prepass scan skill_path output_file =
     bindA (reads (\<lambda>w. is_dir w (path_of skill_path))) (\<lambda>there.
     if \<not> there then ret 2
     else
       bindA (readsE (\<lambda>w. scan w (path_of skill_path))) (\<lambda>r.
       bindA (reads (\<lambda>w. json_dumps style_indent2 (exec_json w (path_of skill_path) r))) (\<lambda>content.
       write_scan_output output_file content)))"

definition agent_prepass :: "string \<Rightarrow> string \<Rightarrow> int act" where
  "agent_prepass = exec_prepass agent_scan"

definition flow_prepass :: "string \<Rightarrow> string \<Rightarrow> int act" where
  "flow_prepass = exec_prepass flow_scan"

section \<open>Verdicts\<close>

lemma listed_type: "p \<in> set (listed_pattern rel content advice pt) \<Longrightarrow> ep_type p = snd pt \<and> ep_file p = rel"
  by (auto simp: listed_pattern_def split: list.splits)

lemma no_cycles_made_up: "graph_issues (detect_cycles dep_graph_of_skill) (find_transitive_redundancy dep_graph_of_skill) = []"
  by (simp add: dep_graph_of_skill_def detect_cycles_def find_transitive_redundancy_def graph_issues_def dfs_start_def)

definition found_types :: "string list" where
  "found_types = ''sequential-tool-calls'' # List.map snd (loop_patterns @ memory_loading_patterns @ multi_source_patterns)"

lemma tool_type: "p \<in> set (tool_steps rel content) \<Longrightarrow> ep_type p \<in> set found_types"
  by (auto simp: tool_steps_def found_types_def Let_def split: if_splits)

lemma loop_type: "p \<in> set (loop_findings rel content) \<Longrightarrow> ep_type p \<in> set found_types"
  by (auto simp: loop_findings_def found_types_def dest!: listed_type)

lemma memory_type: "p \<in> set (memory_findings rel content) \<Longrightarrow> ep_type p \<in> set found_types"
  by (auto simp: memory_findings_def found_types_def dest!: listed_type)

lemma multi_type:
  assumes "set pts \<subseteq> set multi_source_patterns" "\<forall>p \<in> set ps. ep_type p \<in> set found_types"
  shows "\<forall>p \<in> set (fold (add_multi_source rel content) pts ps). ep_type p \<in> set found_types"
  using assms
proof (induction pts arbitrary: ps)
  case (Cons pt pts)
  have "\<forall>p \<in> set (add_multi_source rel content pt ps). ep_type p \<in> set found_types"
    using Cons.prems by (auto simp: add_multi_source_def found_types_def dest!: listed_type)
  with Cons show ?case by simp
qed simp

lemma found_no_violation: "''subagent-chain-violation'' \<notin> set found_types"
  by code_simp

lemma agent_types:
  assumes "p \<in> set (agent_patterns rel content)" "\<not> agent_is_subagent rel"
  shows "ep_type p \<in> set found_types"
proof -
  let ?first = "tool_steps rel content @ loop_findings rel content @ memory_findings rel content"
  have "\<forall>p \<in> set ?first. ep_type p \<in> set found_types" using tool_type loop_type memory_type by auto
  from multi_type [OF order_refl this, of rel content] show ?thesis using assms by (simp add: agent_patterns_def)
qed

lemma violation_type: "ep_type (chain_violation rel) = ''subagent-chain-violation''"
  by (simp add: chain_violation_def)

lemma flow_types:
  "ep_type p = ''subagent-chain-violation'' \<Longrightarrow>
     p \<in> set (flow_patterns rel content) \<longleftrightarrow> p = chain_violation rel \<and> re_test rx_spawns content \<and> flow_is_subagent rel"
  using tool_type [of p rel content] loop_type [of p rel content] found_no_violation by (auto simp: flow_patterns_def)

lemma agent_paths: "\<not> agent_is_subagent (''prompts/'' @ n)" "\<not> agent_is_subagent (''agents/'' @ n)" "\<not> agent_is_subagent ''SKILL.md''"
  by (simp_all add: agent_is_subagent_def startswith_def)

lemma agent_dir_types:
  assumes "agent_dir_patterns w skill_path d = Inr ps" "d \<in> {''prompts'', ''agents''}" "p \<in> set ps"
  shows "ep_type p \<in> set found_types"
proof -
  obtain fs pss where pss: "map_res (\<lambda>f. scan_sequential_patterns w f (d @ ''/'' @ path_name f)) fs = Inr pss" "ps = concat pss"
    using assms(1) by (auto simp: agent_dir_patterns_def ebind_eq_Inr)
  from pss(2) assms(3) obtain qs where qs: "qs \<in> set pss" "p \<in> set qs" by auto
  from map_res_back [OF pss(1) qs(1)] obtain f where f: "scan_sequential_patterns w f (d @ ''/'' @ path_name f) = Inr qs" by blast
  moreover have "\<not> agent_is_subagent (d @ ''/'' @ path_name f)" using assms(2) agent_paths by auto
  ultimately show ?thesis using agent_types qs(2) by (auto simp: scan_sequential_patterns_def ebind_eq_Inr)
qed

text \<open>
  The scan of an agent never fails, whatever the agent's files say: its graph of dependencies is
  empty, and no path it scans looks like that of a subagent.
\<close>

theorem agent_never_fails:
  assumes "agent_scan w skill_path = Inr r"
  shows "xs_status r \<noteq> ''fail'' \<and> list_all (\<lambda>i. ei_severity i \<noteq> ''critical'') (xs_issues r)"
proof -
  obtain fs pss own where s: "map_res (agent_dir_patterns w skill_path) [''prompts'', ''agents''] = Inr pss"
    "skill_md_patterns scan_sequential_patterns w skill_path = Inr own"
    "r = exec_result agent_status agent_severity (sorted_strings (remdups (List.map path_stem fs))) (concat pss @ own)"
    using assms by (auto simp only: agent_scan_def ebind_eq_Inr Inr_inject)
  have "ep_type p \<in> set found_types" if p: "p \<in> set (concat pss @ own)" for p
  proof (cases "p \<in> set own")
    case True
    then show ?thesis using s(2) agent_types agent_paths(3)
      by (auto simp: skill_md_patterns_def scan_sequential_patterns_def ebind_eq_Inr split: if_splits)
  next
    case False
    with p obtain ps where "ps \<in> set pss" "p \<in> set ps" by auto
    with map_res_back [OF s(1)] show ?thesis using agent_dir_types by fastforce
  qed
  then have "ep_type p \<noteq> ''subagent-chain-violation''" if "p \<in> set (concat pss @ own)" for p
    using that found_no_violation by metis
  then have "agent_severity (ep_type p) \<noteq> ''critical''" if "p \<in> set (concat pss @ own)" for p
    using that by (simp add: agent_severity_def)
  moreover have "xs_issues r = List.map (pattern_issue agent_severity) (concat pss @ own)"
    by (simp add: s(3) exec_result_def no_cycles_made_up Let_def)
  ultimately have "ei_severity i \<noteq> ''critical''" if "i \<in> set (xs_issues r)" for i
    using that by (auto simp only: set_map image_iff pattern_issue_def exec_issue.simps)
  moreover have "xs_status r = agent_status (xs_issues r)" by (simp add: s(3) exec_result_def Let_def)
  ultimately show ?thesis by (auto simp: agent_status_def exec_count_def filter_empty_conv list_all_iff)
qed

text \<open>
  The scan of a workflow fails exactly when a file of it that is not numbered speaks of starting
  subagents.
\<close>

lemma flow_fails_iff:
  assumes "flow_scan w skill_path = Inr r"
  shows "xs_status r = ''fail'' \<longleftrightarrow>
    (\<exists>fs f content. flow_files w skill_path = Inr fs \<and> f \<in> set fs \<and> read_file w f = Inr content \<and>
      re_test rx_spawns content \<and> flow_is_subagent (path_name f))"
proof -
  obtain fs pss own where s: "flow_files w skill_path = Inr fs"
    "map_res (\<lambda>f. flow_sequential_patterns w f (path_name f)) fs = Inr pss"
    "skill_md_patterns flow_sequential_patterns w skill_path = Inr own"
    "r = exec_result flow_status flow_severity (sorted_strings (remdups (List.map path_stem fs))) (concat pss @ own)"
    using assms by (auto simp only: flow_scan_def ebind_eq_Inr Inr_inject)
  let ?bad = "\<lambda>p. ep_type p = ''subagent-chain-violation''"
  have one: "(\<exists>p \<in> set (flow_patterns rel content). ?bad p) \<longleftrightarrow> re_test rx_spawns content \<and> flow_is_subagent rel"
    for rel content
    using flow_types [of _ rel content] flow_types [OF violation_type, of rel rel content] violation_type [of rel] by blast
  have scanned: "(\<exists>p \<in> set (concat qss). P p) \<longleftrightarrow> (\<exists>f \<in> set gs. \<exists>qs. scan f = Inr qs \<and> (\<exists>p \<in> set qs. P p))"
    if "map_res scan gs = Inr qss" for scan gs qss and P :: "exec_pattern \<Rightarrow> bool"
    using that by (induction gs arbitrary: qss) (auto simp: ebind_eq_Inr)
  have "xs_status r = flow_status (List.map (pattern_issue flow_severity) (concat pss @ own))"
    by (simp add: s(4) exec_result_def no_cycles_made_up Let_def)
  then have "xs_status r = ''fail'' \<longleftrightarrow> (\<exists>p \<in> set (concat pss @ own). ?bad p)"
    by (auto simp: flow_status_def exec_count_def filter_empty_conv pattern_issue_def flow_severity_def split: if_splits)
  also have "\<dots> \<longleftrightarrow> (\<exists>p \<in> set (concat pss). ?bad p)"
    using s(3) flow_types by (auto simp: skill_md_patterns_def flow_sequential_patterns_def ebind_eq_Inr flow_is_subagent_def split: if_splits)
  also have "\<dots> \<longleftrightarrow> (\<exists>f \<in> set fs. \<exists>ps. flow_sequential_patterns w f (path_name f) = Inr ps \<and> (\<exists>p \<in> set ps. ?bad p))"
    by (rule scanned [OF s(2)])
  also have "\<dots> \<longleftrightarrow> (\<exists>f \<in> set fs. \<exists>content. read_file w f = Inr content \<and> re_test rx_spawns content \<and> flow_is_subagent (path_name f))"
    unfolding one [symmetric] by (auto simp: flow_sequential_patterns_def ebind_eq_Inr)
  finally show ?thesis using s(1) by auto
qed

end
