(* ===== verification/Source_Groups.thy ===== *)
theory Source_Groups
  imports Exec_Prepass "HOL-Library.Multiset"
begin

text \<open>
  \<open>.agents/skills/bmad-distillator/scripts/analyze_sources.py\<close>: sizes, types and groups of documents. The
  arguments are as \<open>argparse\<close> parsed them, a missing \<open>--output\<close> is the empty string. \<open>globbed\<close> is a parameter, the
  answer of \<open>glob.glob(pattern, recursive=True)\<close>. Where \<open>os.walk\<close> lists directories in an order of its own, here they
  are sorted; there are no symbolic links. What goes to the standard error is not modelled.
\<close>

section \<open>Inputs\<close>

type_synonym globber = "world \<Rightarrow> string \<Rightarrow> string list"

definition include_extensions :: "string list" where
  "include_extensions = [''.md'', ''.txt'', ''.yaml'', ''.yml'', ''.json'']"

definition skip_dirs :: "string list" where
  "skip_dirs = [''node_modules'', ''.git'', ''__pycache__'', ''.venv'', ''venv'', ''.claude'', ''_bmad-output'', ''.cursor'', ''.vscode'']"

definition is_source :: "ppath \<Rightarrow> bool" where
  "is_source p \<longleftrightarrow> lower (path_suffix p) \<in> set include_extensions"

text \<open>The directories that \<open>os.walk\<close> enters, each before those in it.\<close>

definition walked_dirs :: "world \<Rightarrow> ppath \<Rightarrow> ppath list" where
  "walked_dirs w path =
     path # List.filter (\<lambda>d. is_dir w d \<and> list_all (\<lambda>c. c \<notin> set skip_dirs) (drop (length (parts path)) (parts d)))
       (glob_sorted w path ''**/*'')"

definition walked_files :: "world \<Rightarrow> ppath \<Rightarrow> ppath list" where
  "walked_files w path =
     concat (List.map (\<lambda>d. List.map (resolve w)
       (List.filter is_source (sort_by path_name (List.filter (is_file w) (glob_sorted w d ''*''))))) (walked_dirs w path))"

definition input_files :: "globber \<Rightarrow> world \<Rightarrow> string \<Rightarrow> ppath list" where
  "input_files globbed w inp =
     (let path = path_of inp in
      if is_file w path then [resolve w path]
      else if is_dir w path then walked_files w path
      else List.map (resolve w)
        (List.filter (\<lambda>mp. is_file w mp \<and> is_source mp) (List.map path_of (sorted_strings (globbed w inp)))))"

fun dedup :: "'a list \<Rightarrow> 'a list \<Rightarrow> 'a list" where
  "dedup seen [] = []"
| "dedup seen (f # fs) = (if f \<in> set seen then dedup seen fs else f # dedup (f # seen) fs)"

definition resolve_inputs :: "globber \<Rightarrow> world \<Rightarrow> string list \<Rightarrow> ppath list" where
  "resolve_inputs globbed w inputs = dedup [] (concat (List.map (input_files globbed w) inputs))"

section \<open>Types of documents\<close>

definition rx_words :: "string \<Rightarrow> string \<Rightarrow> rx" where   \<comment> \<open>\<open>a[_-]b\<close>\<close>
  "rx_words a b = rseq [rlit a, roneof ''_-'', rlit b]"

definition doc_type_patterns :: "(rx \<times> string) list" where
  "doc_type_patterns =
     [(rx_words ''discovery'' ''notes'', ''discovery-notes''), (rx_words ''product'' ''brief'', ''product-brief''),
      (rx_words ''research'' ''report'', ''research-report''), (rlit ''architecture'', ''architecture-doc''),
      (rlit ''prd'', ''prd''), (rlit ''distillate'', ''distillate''), (rlit ''changelog'', ''changelog''),
      (rlit ''readme'', ''readme''), (rlit ''spec'', ''specification''), (rlit ''requirements'', ''requirements''),
      (rx_words ''design'' ''doc'', ''design-doc''), (rx_words ''meeting'' ''notes'', ''meeting-notes''),
      (rlit ''brainstorm'', ''brainstorming''), (rlit ''interview'', ''interview-notes'')]"

definition detect_doc_type :: "string \<Rightarrow> string" where
  "detect_doc_type filename =
     (case List.find (\<lambda>pt. re_test (fst pt) (lower filename)) doc_type_patterns of
        Some pt \<Rightarrow> snd pt | None \<Rightarrow> ''unknown'')"

section \<open>Groups\<close>

definition rx_companion :: "rx \<Rightarrow> rx" where   \<comment> \<open>\<open>^(.+?)\<close>, the mark of a companion, \<open>\.(\w+)$\<close>\<close>
  "rx_companion mark =
     rseq [RBol False, RGrp 1 (RSeq rdot (RStar False rdot)), mark, rlit ''.'', RGrp 2 (rplus rword), REol False]"

definition marks :: "string list \<Rightarrow> rx" where
  "marks ws = ralt (List.map rilit ws)"

definition group_patterns :: "rx list" where
  "group_patterns =
     [rx_companion (marks [''-discovery-notes'', ''-discovery_notes'']),
      rx_companion (RSeq (marks [''-appendix'', ''-addendum'']) (ropt (RSeq (rlit ''-'') (rplus rword)))),
      rx_companion (marks [''-review'', ''-feedback''])]"

text \<open>The name of the base of a companion, \<open>None\<close> for other names.\<close>

definition companion_base :: "string \<Rightarrow> string option" where
  "companion_base name =
     map_option (\<lambda>r. re_sub r (\<lambda>m. rm_grp m 1 @ ''.'' @ rm_grp m 2) name)
       (List.find (\<lambda>r. re_match r name \<noteq> None) group_patterns)"

record member =
  gm_path :: string
  gm_name :: string
  gm_role :: string

record grouping =
  gr_groups :: "member list dict"
  gr_ungrouped :: "ppath list"
  gr_assigned :: "string list"

definition member_of :: "ppath \<Rightarrow> string \<Rightarrow> member" where
  "member_of f role = \<lparr>gm_path = path_str f, gm_name = path_name f, gm_role = role\<rparr>"

definition open_group :: "ppath dict \<Rightarrow> string \<Rightarrow> grouping \<Rightarrow> grouping" where
  "open_group file_map base st =
     (if dict_has base (gr_groups st) then st
      else
        (case dict_get base file_map of
           Some b \<Rightarrow>
             if base \<notin> set (gr_assigned st)
             then st\<lparr>gr_groups := dict_set base [\<lparr>gm_path = path_str b, gm_name = base, gm_role = ''primary''\<rparr>] (gr_groups st),
                 gr_assigned := base # gr_assigned st\<rparr>
             else st\<lparr>gr_groups := dict_set base [] (gr_groups st)\<rparr>
         | None \<Rightarrow> st\<lparr>gr_groups := dict_set base [] (gr_groups st)\<rparr>))"

definition members_at :: "string \<Rightarrow> member list dict \<Rightarrow> member list" where
  "members_at k groups = (case dict_get k groups of None \<Rightarrow> [] | Some ms \<Rightarrow> ms)"

definition add_companion :: "string \<Rightarrow> ppath \<Rightarrow> grouping \<Rightarrow> grouping" where
  "add_companion base f st =
     st\<lparr>gr_groups := dict_set base (members_at base (gr_groups st) @ [member_of f ''companion'']) (gr_groups st),
        gr_assigned := path_name f # gr_assigned st\<rparr>"

definition group_file :: "ppath dict \<Rightarrow> ppath \<Rightarrow> grouping \<Rightarrow> grouping" where
  "group_file file_map f st =
     (if path_name f \<in> set (gr_assigned st) then st
      else
        (case companion_base (path_name f) of
           Some base \<Rightarrow> add_companion base f (open_group file_map base st)
         | None \<Rightarrow> if dict_has (path_name f) (gr_groups st) then st else st\<lparr>gr_ungrouped := gr_ungrouped st @ [f]\<rparr>))"

definition file_map_of :: "ppath list \<Rightarrow> ppath dict" where
  "file_map_of files = fold (\<lambda>f. dict_set (path_name f) f) files []"

definition group_start :: grouping where
  "group_start = \<lparr>gr_groups = [], gr_ungrouped = [], gr_assigned = []\<rparr>"

definition grouped :: "ppath list \<Rightarrow> grouping" where
  "grouped files = fold (group_file (file_map_of files)) files group_start"

definition suggest_groups :: "ppath list \<Rightarrow> (string \<times> member list) list" where
  "suggest_groups files =
     (let st = grouped files
      in gr_groups st @ List.map (\<lambda>f. (path_name f, [member_of f ''standalone'']))
           (List.filter (\<lambda>f. path_name f \<notin> set (gr_assigned st)) (gr_ungrouped st)))"

section \<open>The analysis\<close>

definition size_of :: "world \<Rightarrow> ppath \<Rightarrow> int res" where   \<comment> \<open>\<open>stat().st_size\<close>, in bytes\<close>
  "size_of w f = ebind (read_file w f) (\<lambda>c. Inr (int (length c)))"

fun with_commas :: "string \<Rightarrow> string" where   \<comment> \<open>of digits, the last first\<close>
  "with_commas (a # b # c # d # ds) = a # b # c # CHR '','' # with_commas (d # ds)"
| "with_commas ds = ds"

definition show_grouped :: "int \<Rightarrow> string" where   \<comment> \<open>\<open>f"{n:,}"\<close>, for \<open>n\<close> not negative\<close>
  "show_grouped n = rev (with_commas (rev (show_int n)))"

definition file_json :: "ppath \<times> int \<Rightarrow> pyval" where
  "file_json fs =
     (case fs of (f, bytes) \<Rightarrow>
        VDict [(''path'', VStr (path_str f)), (''filename'', VStr (path_name f)), (''size_bytes'', VInt bytes),
          (''estimated_tokens'', VInt (bytes div 4)), (''doc_type'', VStr (detect_doc_type (path_name f)))])"

definition member_json :: "member \<Rightarrow> pyval" where
  "member_json m = VDict [(''path'', VStr (gm_path m)), (''filename'', VStr (gm_name m)), (''role'', VStr (gm_role m))]"

definition group_json :: "string \<times> member list \<Rightarrow> pyval" where
  "group_json g = VDict [(''group_key'', VStr (fst g)), (''files'', VList (List.map member_json (snd g)))]"

definition fits_one :: "nat \<Rightarrow> int \<Rightarrow> bool" where
  "fits_one files tokens \<longleftrightarrow> files \<le> 3 \<and> tokens \<le> 15000"

definition routing_json :: "nat \<Rightarrow> int \<Rightarrow> pyval" where
  "routing_json files tokens =
     (let start = show_nat files @ '' file(s), ~'' @ show_grouped tokens @ '' estimated tokens '' @ em_dash @ '' '' in
      if fits_one files tokens
      then VDict [(''recommendation'', VStr ''single''), (''reason'', VStr (start @ ''within single compressor threshold''))]
      else VDict [(''recommendation'', VStr ''fan-out''),
             (''reason'', VStr (start @ ''exceeds single compressor threshold ('' @
                (if 15000 < tokens then ''>15000 tokens'' else ''> 3 files'') @ '')''))])"

definition split_json :: "int \<Rightarrow> pyval" where
  "split_json tokens =
     (let distilled = tokens div 3; start = ''Estimated distillate ~'' @ show_grouped distilled @ '' tokens '' in
      VDict [(''prediction'', VStr (if 5000 < distilled then ''likely'' else ''unlikely'')),
        (''reason'', VStr (start @ (if 5000 < distilled then ''exceeds 5,000 threshold'' else ''within 5,000 threshold''))),
        (''estimated_distillate_tokens'', VInt distilled)])"

definition analysis_json :: "ppath list \<Rightarrow> int list \<Rightarrow> pyval" where
  "analysis_json files sizes =
     (let total = sum_list sizes; tokens = total div 4 in
      VDict [(''status'', VStr ''ok''), (''files'', VList (List.map file_json (zip files sizes))),
        (''summary'', VDict [(''total_files'', VInt (int (length files))), (''total_size_bytes'', VInt total),
           (''total_estimated_tokens'', VInt tokens)]),
        (''groups'', VList (List.map group_json (suggest_groups files))),
        (''routing'', routing_json (length files) tokens), (''split_prediction'', split_json tokens)])"

definition no_sources_json :: "string list \<Rightarrow> pyval" where
  "no_sources_json inputs =
     VDict [(''status'', VStr ''error''), (''error'', VStr ''No readable files found from provided inputs''),
       (''inputs'', VList (List.map VStr inputs))]"

definition output_json :: "pyval \<Rightarrow> string \<Rightarrow> int act" where
  "output_json data output_path =
     (if output_path = [] then bindA (effect (print_line (json_dumps style_indent2 data))) (\<lambda>_. ret 0)
      else write_scan_output output_path (json_dumps style_indent2 data @ [nl]))"

definition analyze_sources :: "globber \<Rightarrow> string list \<Rightarrow> string \<Rightarrow> int act" where   \<comment> \<open>\<open>analyze\<close> and \<open>main\<close>\<close>
  "analyze_sources globbed inputs output_path =
     bindA (reads (\<lambda>w. resolve_inputs globbed w inputs)) (\<lambda>files.
     if files = [] then output_json (no_sources_json inputs) output_path
     else
       bindA (readsE (\<lambda>w. map_res (size_of w) files)) (\<lambda>sizes.
       output_json (analysis_json files sizes) output_path))"

section \<open>A base is shorter than its companion\<close>

fun min_length :: "rx \<Rightarrow> nat" where
  "min_length (RChr p) = 1"
| "min_length (RSeq a b) = min_length a + min_length b"
| "min_length (RAlt a b) = min (min_length a) (min_length b)"
| "min_length (RGrp i a) = min_length a"
| "min_length _ = 0"

fun no_groups :: "rx \<Rightarrow> bool" where
  "no_groups (RSeq a b) \<longleftrightarrow> no_groups a \<and> no_groups b"
| "no_groups (RAlt a b) \<longleftrightarrow> no_groups a \<and> no_groups b"
| "no_groups (RStar greedy a) \<longleftrightarrow> no_groups a"
| "no_groups (RGrp i a) \<longleftrightarrow> False"
| "no_groups _ \<longleftrightarrow> True"

lemma rrun_min_length: "t \<in> set (rrun r s) \<Longrightarrow> min_length r + length (fst (snd t)) \<le> length (fst (snd s))"
proof (induction r arbitrary: s t)
  case (RSeq a b)
  then obtain u where "u \<in> set (rrun a s)" "t \<in> set (rrun b u)" by auto
  with RSeq.IH(1) [of u s] RSeq.IH(2) [of t u] show ?case by simp
next
  case (RAlt a b)
  then show ?case by (auto simp: min_le_iff_disj dest: RAlt.IH)
next
  case (RGrp i a)
  then obtain pre rest gs where s: "s = (pre, rest, gs)" by (metis prod_cases3)
  with RGrp.prems obtain u where "u \<in> set (rrun a s)" "fst (snd t) = fst (snd u)" by (auto simp: in_grp)
  with RGrp.IH [of u s] show ?case by simp
next
  case (RStar greedy a)
  obtain pre rest gs where s: "s = (pre, rest, gs)" by (metis prod_cases3)
  with RStar.prems rrun_consumes [of t "RStar greedy a" pre rest gs] show ?case by auto
next
  case (RBack i)
  obtain pre rest gs where s: "s = (pre, rest, gs)" by (metis prod_cases3)
  with RBack.prems rrun_consumes [of t "RBack i" pre rest gs] show ?case by auto
qed (auto simp: rrun.simps split: list.splits if_splits prod.splits)

lemma rrep_groups:
  assumes "\<And>u t. t \<in> set (m u) \<Longrightarrow> snd (snd t) = snd (snd u)"
  shows "t \<in> set (rrep greedy n m s) \<Longrightarrow> snd (snd t) = snd (snd s)"
proof (induction n arbitrary: s)
  case (Suc n)
  from Suc.prems have "t = s \<or> (\<exists>u \<in> set (m s). t \<in> set (rrep greedy n m u))"
    by (auto simp: Let_def split: if_splits)
  with Suc.IH assms show ?case by metis
qed simp

lemma rrun_groups: "no_groups r \<Longrightarrow> t \<in> set (rrun r s) \<Longrightarrow> snd (snd t) = snd (snd s)"
proof (induction r arbitrary: s t)
  case (RSeq a b)
  from RSeq.prems obtain u where u: "u \<in> set (rrun a s)" "t \<in> set (rrun b u)" by auto
  from RSeq.prems have "no_groups a" "no_groups b" by simp_all
  with RSeq.IH(1) [OF _ u(1)] RSeq.IH(2) [OF _ u(2)] show ?case by simp
next
  case (RStar greedy a)
  then have "t \<in> set (rrep greedy (Suc (length (fst (snd s)))) (rrun a) s)" by (simp only: rrun.simps)
  moreover from RStar.prems(1) have "no_groups a" by simp
  ultimately show ?case using RStar.IH rrep_groups [of "rrun a"] by blast
next
  case (RBack i)
  then show ?case by (auto simp: rrun.simps split: prod.splits option.splits if_splits)
qed (auto simp: rrun.simps split: list.splits if_splits prod.splits)

lemma rrun_shrinks: "t \<in> set (rrun r s) \<Longrightarrow> length (fst (snd t)) \<le> length (fst (snd s))"
  by (cases s) (auto dest: rrun_consumes)

lemma grp_step:
  assumes "t \<in> set (rrun (RGrp i r) s)" and "no_groups r"
  obtains w where "snd (snd t) = (i, w) # snd (snd s)" and "length w + length (fst (snd t)) = length (fst (snd s))"
proof -
  obtain pre rest gs where s: "s = (pre, rest, gs)" by (metis prod_cases3)
  with assms(1) obtain pre' rest' gs' where u: "(pre', rest', gs') \<in> set (rrun r (pre, rest, gs))"
    and t: "t = (pre', rest', (i, take (length rest - length rest') rest) # gs')" by (auto simp only: in_grp)
  from rrun_shrinks [OF u] have "length rest' \<le> length rest" by simp
  with rrun_groups [OF assms(2) u] t s show ?thesis by (intro that) auto
qed

lemma rseq_Cons: "rrun (rseq (r # rs)) s = concat (List.map (rrun (rseq rs)) (rrun r s))"
  by simp

lemma two_groups_step:
  assumes t: "t \<in> set (rrun (rseq [RBol False, RGrp 1 a, mark, d, RGrp 2 b, REol False]) s)"
    and s: "snd (snd s) = []" and no: "no_groups a" "no_groups b" "no_groups mark" "no_groups d"
  shows "\<exists>w1 w2. snd (snd t) = [(2, w2), (1, w1)] \<and>
    length w1 + min_length mark + min_length d + length w2 + length (fst (snd t)) \<le> length (fst (snd s))"
proof -
  from t obtain s0 s1 s2 s3 s4 s5 where st: "s0 \<in> set (rrun (RBol False) s)" "s1 \<in> set (rrun (RGrp 1 a) s0)"
      "s2 \<in> set (rrun mark s1)" "s3 \<in> set (rrun d s2)" "s4 \<in> set (rrun (RGrp 2 b) s3)"
      "s5 \<in> set (rrun (REol False) s4)" "t \<in> set (rrun (rseq []) s5)"
    unfolding in_rseq by blast
  from st(7) have t5: "t = s5" by (simp only: in_rseq_Nil)
  from grp_step [OF st(2) no(1)] obtain w1 where w1: "snd (snd s1) = (1, w1) # snd (snd s0)"
    "length w1 + length (fst (snd s1)) = length (fst (snd s0))" by blast
  from grp_step [OF st(5) no(2)] obtain w2 where w2: "snd (snd s4) = (2, w2) # snd (snd s3)"
    "length w2 + length (fst (snd s4)) = length (fst (snd s3))" by blast
  have "snd (snd s0) = []" using rrun_groups [OF _ st(1)] s by simp
  moreover have "snd (snd s3) = snd (snd s1)" using rrun_groups [OF no(3) st(3)] rrun_groups [OF no(4) st(4)] by simp
  moreover have "snd (snd s5) = snd (snd s4)" using rrun_groups [OF _ st(6)] by simp
  ultimately have "snd (snd t) = [(2, w2), (1, w1)]" using w1(1) w2(1) t5 by simp
  moreover have "length w1 + min_length mark + min_length d + length w2 + length (fst (snd t)) \<le> length (fst (snd s))"
    using rrun_shrinks [OF st(1)] w1(2) rrun_min_length [OF st(3)] rrun_min_length [OF st(4)] w2(2)
      rrun_shrinks [OF st(6)] t5 by simp
  ultimately show ?thesis by blast
qed

lemma anchored_nowhere_else: "pre \<noteq> [] \<Longrightarrow> search_from (rseq (RBol False # rs)) pre rest = None"
proof (induction rest arbitrary: pre)
  case Nil
  then show ?case by (subst search_from.simps) (simp add: match_at_def)
next
  case (Cons c cs)
  then show ?case by (subst search_from.simps) (simp add: match_at_def)
qed

lemma anchored_sub:
  assumes m: "re_match (rseq (RBol False # rs)) s = Some m" and some: "rm_text m \<noteq> []"
  shows "re_sub (rseq (RBol False # rs)) f s = f m @ rm_after m"
proof -
  let ?r = "rseq (RBol False # rs)"
  from m have at: "match_at ?r [] s = Some m" by (simp only: re_match_def)
  then have "search_from ?r [] s = Some m" by (subst search_from.simps) simp
  moreover from match_at_split [OF at] have s: "rm_before m = []" "s = rm_text m @ rm_after m" by auto
  moreover have "find_iter (Suc (length s)) ?r (rev (rm_text m)) (rm_after m) = []"
    using anchored_nowhere_else [of "rev (rm_text m)" rs] some by simp
  ultimately have "re_finditer ?r s = [m]" using some by (simp add: re_finditer_def)
  with s show ?thesis unfolding re_sub_def by (metis append_Nil append_eq_conv_conj drop_Nil plus_nat.add_0 list.size(3) sub_pieces.simps)
qed

lemma no_groups_rseq [simp]: "no_groups (rseq rs) = list_all no_groups rs"
  by (induction rs rule: rseq.induct) (simp_all add: rseq.simps)

lemma min_length_rseq [simp]: "min_length (rseq rs) = sum_list (List.map min_length rs)"
  by (induction rs rule: rseq.induct) (simp_all add: rseq.simps)

lemma no_groups_ralt [simp]: "no_groups (ralt rs) = list_all no_groups rs"
  by (induction rs rule: ralt.induct) simp_all

lemma companion_sub:
  assumes m: "re_match (rx_companion mark) name = Some m" and no: "no_groups mark"
  shows "length (re_sub (rx_companion mark) (\<lambda>m. rm_grp m 1 @ ''.'' @ rm_grp m 2) name) + min_length mark \<le> length name"
proof -
  from m obtain t where t: "t \<in> set (rrun (rx_companion mark) ([], name, []))" and mt: "m = match_of [] name t"
    by (auto simp: re_match_def match_at_def split: list.splits)
  from two_groups_step [OF t [unfolded rx_companion_def] _ _ _ no]
  obtain w1 w2 where w: "snd (snd t) = [(2, w2), (1, w1)]"
      "length w1 + min_length mark + 1 + length w2 + length (fst (snd t)) \<le> length name"
    by (auto simp: rplus_def rword_def rdot_def rlit_def)
  have some: "rm_text m \<noteq> []" using w(2) by (auto simp: mt match_of_def)
  have "re_sub (rx_companion mark) (\<lambda>m. rm_grp m 1 @ ''.'' @ rm_grp m 2) name
      = (rm_grp m 1 @ ''.'' @ rm_grp m 2) @ rm_after m"
    using anchored_sub [OF _ some] m unfolding rx_companion_def by blast
  with w show ?thesis by (simp add: mt match_of_def rm_grp_def rm_group_def)
qed

lemma group_marks: "r \<in> set group_patterns \<Longrightarrow> \<exists>mark. r = rx_companion mark \<and> no_groups mark \<and> 0 < min_length mark"
  unfolding group_patterns_def list.set
  by (elim insertE emptyE; simp only:; intro exI conjI; (rule refl)?;
      simp add: marks_def rilit_def rplus_def ropt_def rlit_def rword_def)

lemma companion_base_shorter: "companion_base name = Some base \<Longrightarrow> length base < length name"
proof -
  assume "companion_base name = Some base"
  then obtain r where r: "List.find (\<lambda>r. re_match r name \<noteq> None) group_patterns = Some r"
    and base: "base = re_sub r (\<lambda>m. rm_grp m 1 @ ''.'' @ rm_grp m 2) name"
    by (auto simp: companion_base_def)
  from r have "r \<in> set group_patterns" and "re_match r name \<noteq> None"
    by (auto simp: find_Some_iff)
  with group_marks [of r] obtain mark m where "r = rx_companion mark" "no_groups mark" "0 < min_length mark"
    "re_match r name = Some m" by blast
  with companion_sub [of mark name m] base show ?thesis by simp
qed

section \<open>Every document is in one group\<close>

definition grouped_paths :: "grouping \<Rightarrow> string multiset" where
  "grouped_paths st = mset (List.map gm_path (concat (List.map snd (gr_groups st))))"

definition assigned_paths :: "ppath list \<Rightarrow> string list \<Rightarrow> string multiset" where
  "assigned_paths files names = mset (List.map path_str (List.filter (\<lambda>f. path_name f \<in> set names) files))"

lemma has_dict_set: "dict_has k (dict_set k' v d) \<longleftrightarrow> k = k' \<or> dict_has k d"
  by (simp add: dict_has_def dict_set_def update_conv')

lemma members_extended:
  "mset (concat (List.map snd (dict_set k (members_at k d @ ms) d))) = mset (concat (List.map snd d)) + mset ms"
  by (induction d) (auto simp: dict_set_def members_at_def dict_get_def)

lemma paths_extended:
  "mset (List.map gm_path (concat (List.map snd (dict_set k (members_at k d @ ms) d))))
     = mset (List.map gm_path (concat (List.map snd d))) + mset (List.map gm_path ms)"
  using members_extended [of k d ms] by (simp only: mset_map image_mset_union)

lemma file_map_get:
  "distinct (List.map path_name files) \<Longrightarrow> dict_get n (file_map_of files) = Some f \<longleftrightarrow> f \<in> set files \<and> path_name f = n"
proof -
  have "dict_get n (fold (\<lambda>f. dict_set (path_name f) f) files d) = Some f \<longleftrightarrow>
      (if n \<in> path_name ` set files then f \<in> set files \<and> path_name f = n else dict_get n d = Some f)"
    if "distinct (List.map path_name files)" for d
    using that by (induction files arbitrary: d) (auto simp: dict_get_def dict_set_def update_conv', metis image_eqI)
  from this [of "[]"] show "distinct (List.map path_name files) \<Longrightarrow> ?thesis" by (auto simp: file_map_of_def)
qed

lemma assigned_one_more:
  assumes "distinct (List.map path_name files)" and "f \<in> set files" and "path_name f \<notin> set names"
  shows "assigned_paths files (path_name f # names) = add_mset (path_str f) (assigned_paths files names)"
  using assms
proof (induction files)
  case (Cons g files)
  have same: "List.filter (\<lambda>h. path_name h = path_name f \<or> path_name h \<in> set names) files =
      List.filter (\<lambda>h. path_name h \<in> set names) files" if "path_name f \<notin> path_name ` set files"
    using that by (intro filter_cong refl) (metis image_eqI)
  show ?case
  proof (cases "g = f")
    case True
    with Cons.prems same show ?thesis by (simp add: assigned_paths_def)
  next
    case False
    with Cons.prems have "f \<in> set files" "path_name g \<noteq> path_name f" by auto
    with Cons.IH Cons.prems show ?thesis by (simp add: assigned_paths_def)
  qed
qed simp

definition grouping_ok :: "ppath list \<Rightarrow> ppath list \<Rightarrow> grouping \<Rightarrow> bool" where
  "grouping_ok files done_files st \<longleftrightarrow>
     grouped_paths st = assigned_paths files (gr_assigned st) \<and>
     (\<forall>f \<in> set files. dict_has (path_name f) (gr_groups st) \<longrightarrow> path_name f \<in> set (gr_assigned st)) \<and>
     distinct (gr_ungrouped st) \<and> set (gr_ungrouped st) \<subseteq> set done_files \<and>
     (\<forall>f \<in> set done_files. path_name f \<in> set (gr_assigned st) \<or> f \<in> set (gr_ungrouped st))"

lemma open_group_ok:
  assumes "grouping_ok files ds st" and "distinct (List.map path_name files)"
  shows "grouping_ok files ds (open_group (file_map_of files) base st)"
proof (cases "dict_has base (gr_groups st)")
  case True
  with assms show ?thesis by (simp add: open_group_def)
next
  case False
  then have none: "members_at base (gr_groups st) = []" by (simp add: members_at_def dict_has_def dict_get_def)
  have paths: "mset (List.map gm_path (concat (List.map snd (dict_set base ms (gr_groups st)))))
      = grouped_paths st + mset (List.map gm_path ms)" for ms
    using paths_extended [of base "gr_groups st" ms] by (simp only: none append_Nil grouped_paths_def)
  note facts = assms(1) [unfolded grouping_ok_def]
  show ?thesis
  proof (cases "\<exists>b. dict_get base (file_map_of files) = Some b \<and> base \<notin> set (gr_assigned st)")
    case True
    then obtain b where b: "dict_get base (file_map_of files) = Some b" "base \<notin> set (gr_assigned st)" by blast
    with file_map_get [OF assms(2)] have "b \<in> set files" "path_name b = base" by blast+
    with assigned_one_more [OF assms(2)] b False facts paths show ?thesis
      by (auto simp: open_group_def grouping_ok_def grouped_paths_def has_dict_set)
  next
    case absent: False
    then have "open_group (file_map_of files) base st = st\<lparr>gr_groups := dict_set base [] (gr_groups st)\<rparr>"
      using False by (auto simp: open_group_def split: option.splits)
    moreover have "path_name f \<in> set (gr_assigned st)" if "f \<in> set files" "path_name f = base" for f
      using that absent file_map_get [OF assms(2), of base f] by blast
    ultimately show ?thesis using facts paths [of "[]"] by (auto simp: grouping_ok_def grouped_paths_def has_dict_set)
  qed
qed

lemma open_group_has: "dict_has base (gr_groups (open_group fm base st))"
  by (simp add: open_group_def has_dict_set split: option.splits)

lemma open_group_assigned: "set (gr_assigned (open_group fm base st)) \<subseteq> insert base (set (gr_assigned st))"
  by (auto simp: open_group_def split: option.splits)

lemma group_file_ok:
  assumes ok: "grouping_ok files ds st" and files: "distinct (List.map path_name files)" and f: "f \<in> set files" "f \<notin> set ds"
  shows "grouping_ok files (ds @ [f]) (group_file (file_map_of files) f st)"
proof -
  note facts = ok [unfolded grouping_ok_def]
  show ?thesis
  proof (cases "path_name f \<in> set (gr_assigned st)")
    case True
    with facts show ?thesis by (auto simp: group_file_def grouping_ok_def)
  next
    case new: False
    show ?thesis
    proof (cases "companion_base (path_name f)")
      case None
      from new facts f have "\<not> dict_has (path_name f) (gr_groups st)" by blast
      with None new facts f show ?thesis by (auto simp: group_file_def grouping_ok_def grouped_paths_def)
    next
      case (Some base)
      let ?u = "open_group (file_map_of files) base st"
      have u: "grouping_ok files ds ?u" by (rule open_group_ok [OF ok files])
      have "path_name f \<notin> set (gr_assigned ?u)"
        using open_group_assigned [of "file_map_of files" base st] new companion_base_shorter [OF Some] by auto
      from assigned_one_more [OF files f(1) this]
      have one: "assigned_paths files (path_name f # gr_assigned ?u) =
        add_mset (path_str f) (assigned_paths files (gr_assigned ?u))" .
      have "grouping_ok files (ds @ [f]) (add_companion base f ?u)"
        using u [unfolded grouping_ok_def] one f open_group_has [of base "file_map_of files" st]
          paths_extended [of base "gr_groups ?u" "[member_of f ''companion'']"]
        by (auto simp: add_companion_def grouping_ok_def grouped_paths_def has_dict_set member_of_def)
      with Some new show ?thesis by (simp add: group_file_def)
    qed
  qed
qed

lemma grouped_ok: "distinct (List.map path_name files) \<Longrightarrow> grouping_ok files files (grouped files)"
proof -
  assume d: "distinct (List.map path_name files)"
  have "grouping_ok files (ds @ fs) (fold (group_file (file_map_of files)) fs st)"
    if "grouping_ok files ds st" "set fs \<subseteq> set files" "distinct (ds @ fs)" for ds fs st
    using that
  proof (induction fs arbitrary: ds st)
    case (Cons f fs)
    from Cons.prems have "grouping_ok files (ds @ [f]) (group_file (file_map_of files) f st)"
      by (intro group_file_ok [OF _ d]) auto
    from Cons.IH [OF this] Cons.prems show ?case by simp
  qed simp
  from this [of "[]" group_start files] show ?thesis
    using d by (simp add: grouped_def grouping_ok_def group_start_def grouped_paths_def assigned_paths_def
        dict_has_def distinct_map)
qed

text \<open>
  C29. Documents with names of their own: each of them is listed in exactly one of the groups that \<open>suggest_groups\<close>
  returns, and exactly once, as the base, as a companion or alone.
\<close>

theorem suggest_groups_partitions:
  assumes "distinct (List.map path_name files)"
  shows "mset (List.map gm_path (concat (List.map snd (suggest_groups files)))) = mset (List.map path_str files)"
proof -
  let ?st = "grouped files"
  let ?alone = "List.filter (\<lambda>f. path_name f \<notin> set (gr_assigned ?st)) (gr_ungrouped ?st)"
  let ?free = "List.filter (\<lambda>f. path_name f \<notin> set (gr_assigned ?st)) files"
  note ok = grouped_ok [OF assms, unfolded grouping_ok_def]
  have "distinct files" using assms by (simp add: distinct_map)
  moreover have "set ?alone = set ?free" using ok by auto
  ultimately have alone: "mset ?alone = mset ?free" using ok set_eq_iff_mset_eq_distinct [of ?alone ?free] by simp
  have "mset (List.map gm_path (concat (List.map snd (suggest_groups files)))) =
      grouped_paths ?st + image_mset path_str (mset ?alone)"
    by (simp add: suggest_groups_def Let_def grouped_paths_def comp_def member_of_def)
  also have "\<dots> = assigned_paths files (gr_assigned ?st) + image_mset path_str (mset ?free)"
    using ok alone by simp
  also have "\<dots> = mset (List.map path_str files)"
    by (simp add: assigned_paths_def) (metis image_mset_union multiset_partition)
  finally show ?thesis .
qed

definition brief_files :: "ppath list" where
  "brief_files = List.map path_of [''/a/brief-review.md'', ''/a/notes.md'', ''/a/brief.md'']"

theorem suggest_groups_partitions_witness:
  "mset (List.map gm_path (concat (List.map snd (suggest_groups brief_files)))) = mset (List.map path_str brief_files) \<and>
   List.map fst (suggest_groups brief_files) = [''brief.md'', ''notes.md'']"
proof -
  have "distinct (List.map path_name brief_files)" by code_simp
  moreover have "List.map fst (suggest_groups brief_files) = [''brief.md'', ''notes.md'']" by code_simp
  ultimately show ?thesis using suggest_groups_partitions [of brief_files] by blast
qed

lemma same_name_dropped:
  "List.map gm_path (concat (List.map snd (suggest_groups (List.map path_of [''/a/x-review.md'', ''/b/x-review.md''])))) =
     [''/a/x-review.md'']"
  by code_simp

end
