(* ===== verification/Scaffold.thy ===== *)
theory Scaffold
  imports Legacy_Cleanup Exec_Prepass
begin

text \<open>
  \<open>.agents/skills/bmad-module-builder/scripts/scaffold-standalone-module.py\<close> and \<open>scaffold-setup-skill.py\<close>:
  templates are copied into a skill or become one. The arguments are as \<open>argparse\<close> parsed them, a missing
  \<open>--marketplace-dir\<close> is the empty string. File modes and the progress on the standard error are not modelled.
\<close>

section \<open>Files of a template\<close>

definition down_from :: "ppath \<Rightarrow> string list \<Rightarrow> ppath" where
  "down_from p names = path_join p (PPath False names)"

definition template_of :: "world \<Rightarrow> string \<Rightarrow> ppath" where
  "template_of w name = down_from (path_parent (path_parent (PPath True (w_module w)))) [''assets'', name]"

definition refuse :: "string \<Rightarrow> int act" where   \<comment> \<open>the report of an error, with exit code 2\<close>
  "refuse message =
     bindA (effect (\<lambda>w. print_line
       (json_dumps style_default (VDict [(''status'', VStr ''error''), (''message'', VStr message)])) w)) (\<lambda>_. ret 2)"

definition copy_bytes :: "ppath \<Rightarrow> ppath \<Rightarrow> unit act" where   \<comment> \<open>\<open>dst.write_bytes(src.read_bytes())\<close>\<close>
  "copy_bytes src dst =
     bindA (readsE (\<lambda>w. read_file w src)) (\<lambda>content.
     bindA (reads (\<lambda>w. is_dir w dst)) (\<lambda>taken.
     if taken then raiseA (IsADirectoryError (path_str dst)) else effect (\<lambda>w. put_file w dst content)))"

section \<open>A standalone module\<close>

record standalone_args =
  sa_skill_dir :: string
  sa_module_code :: string
  sa_marketplace_dir :: string

definition standalone_skill :: "world \<Rightarrow> standalone_args \<Rightarrow> ppath" where
  "standalone_skill w args = resolve w (path_of (sa_skill_dir args))"

definition marketplace_of :: "world \<Rightarrow> standalone_args \<Rightarrow> ppath" where
  "marketplace_of w args =
     (if sa_marketplace_dir args \<noteq> [] then resolve w (path_of (sa_marketplace_dir args))
      else path_parent (standalone_skill w args))"

definition standalone_problem :: "world \<Rightarrow> standalone_args \<Rightarrow> string option" where
  "standalone_problem w args =
     (let template_dir = template_of w ''standalone-module-template''; skill_dir = standalone_skill w args in
      if \<not> is_dir w template_dir then Some (''Template not found: '' @ path_str template_dir)
      else if \<not> is_dir w skill_dir then Some (''Skill directory not found: '' @ path_str skill_dir)
      else if \<not> is_file w (down_from skill_dir [''SKILL.md'']) then Some (''No SKILL.md found in '' @ path_str skill_dir)
      else if \<not> is_file w (down_from skill_dir [''assets'', ''module.yaml''])
        then Some (''assets/module.yaml not found in '' @ path_str skill_dir @ '' '' @ em_dash
               @ '' the LLM must write it before running this script'')
      else None)"

record scaffolded =
  sf_created :: "string list"
  sf_skipped :: "string list"
  sf_warnings :: "string list"

definition copy_script :: "ppath \<Rightarrow> ppath \<Rightarrow> string \<Rightarrow> scaffolded \<Rightarrow> scaffolded act" where
  "copy_script template_dir skill_dir name r =
     (let dst = down_from skill_dir [''scripts'', name]; shown = ''scripts/'' @ name in
      bindA (reads (\<lambda>w. path_exists w dst)) (\<lambda>there.
      if there
      then ret (r\<lparr>sf_skipped := sf_skipped r @ [shown],
                  sf_warnings := sf_warnings r @ [shown @ '' already exists '' @ em_dash @ '' skipped to avoid overwriting'']\<rparr>)
      else bindA (copy_bytes (down_from template_dir [name]) dst) (\<lambda>_. ret (r\<lparr>sf_created := sf_created r @ [shown]\<rparr>))))"

definition yaml_value :: "string \<Rightarrow> string" where   \<comment> \<open>behind the first colon, without its quotes\<close>
  "yaml_value line =
     strip_chars [squote] (strip_chars [dquote] (strip (case split_once '':'' line of None \<Rightarrow> [] | Some (_, v) \<Rightarrow> v)))"

definition yaml_fact :: "string \<Rightarrow> string \<times> string \<Rightarrow> string \<times> string" where
  "yaml_fact line dv =
     (let s = strip line in
      if startswith s ''description:'' then (yaml_value s, snd dv)
      else if startswith s ''module_version:'' then (fst dv, yaml_value s)
      else dv)"

definition module_facts :: "string \<Rightarrow> string \<times> string" where   \<comment> \<open>description and version\<close>
  "module_facts yaml_text = fold yaml_fact (splitlines yaml_text) ([], ''1.0.0'')"

definition named_owner :: "string \<times> pyval" where
  "named_owner = (''owner'', VDict [(''name'', VStr [])])"

definition marketplace_json :: "string \<Rightarrow> string \<times> string \<Rightarrow> string \<Rightarrow> pyval" where
  "marketplace_json code dv skill_name =
     VDict [(''name'', VStr code), named_owner, (''license'', VStr []), (''homepage'', VStr []), (''repository'', VStr []),
       (''keywords'', VList [VStr ''bmad'']),
       (''plugins'', VList [VDict [(''name'', VStr code), (''source'', VStr ''./''), (''description'', VStr (fst dv)),
          (''version'', VStr (snd dv)), (''author'', VDict [(''name'', VStr [])]),
          (''skills'', VList [VStr (''./'' @ skill_name)])]])]"

definition strs :: "string list \<Rightarrow> pyval" where
  "strs xs = VList (List.map VStr xs)"

definition standalone_report :: "ppath \<Rightarrow> string \<Rightarrow> scaffolded \<Rightarrow> ppath \<Rightarrow> pyval" where
  "standalone_report skill_dir code r marketplace =
     VDict [(''status'', VStr ''success''), (''skill_dir'', VStr (path_str skill_dir)), (''module_code'', VStr code),
       (''files_created'', strs (sf_created r)), (''files_skipped'', strs (sf_skipped r)), (''warnings'', strs (sf_warnings r)),
       (''marketplace_json'', VStr (path_str marketplace))]"

definition marketplace_text :: "string \<Rightarrow> string res \<Rightarrow> string \<Rightarrow> string" where   \<comment> \<open>a file that cannot be read counts as empty\<close>
  "marketplace_text code yaml_text skill_name =
     json_dumps style_indent2 (marketplace_json code (module_facts (case yaml_text of Inr t \<Rightarrow> t | Inl _ \<Rightarrow> [])) skill_name)
       @ [nl]"

definition write_marketplace :: "standalone_args \<Rightarrow> ppath \<Rightarrow> ppath \<Rightarrow> scaffolded \<Rightarrow> int act" where
  "write_marketplace args skill_dir plugin_dir r =
     (let marketplace = down_from plugin_dir [''marketplace.json''] in
      bindA (effect (\<lambda>w. make_dir w plugin_dir)) (\<lambda>_.
      bindA (reads (\<lambda>w. read_file w (down_from skill_dir [''assets'', ''module.yaml'']))) (\<lambda>yaml_text.
      bindA (reads (\<lambda>w. is_dir w marketplace)) (\<lambda>taken.
      if taken then raiseA (IsADirectoryError (path_str marketplace))
      else
        bindA (effect (\<lambda>w. put_file w marketplace (marketplace_text (sa_module_code args) yaml_text (path_name skill_dir)))) (\<lambda>_.
        bindA (effect (\<lambda>w. print_line (json_dumps style_indent2 (standalone_report skill_dir (sa_module_code args)
            (r\<lparr>sf_created := sf_created r @ [''.claude-plugin/marketplace.json'']\<rparr>) marketplace)) w)) (\<lambda>_.
        ret 0))))))"

definition scaffold_standalone :: "standalone_args \<Rightarrow> int act" where   \<comment> \<open>\<open>main\<close>\<close>
  "scaffold_standalone args =
     bindA (reads (\<lambda>w. standalone_problem w args)) (\<lambda>problem.
     case problem of
       Some message \<Rightarrow> refuse message
     | None \<Rightarrow>
         bindA (reads (\<lambda>w. template_of w ''standalone-module-template'')) (\<lambda>template_dir.
         bindA (reads (\<lambda>w. standalone_skill w args)) (\<lambda>skill_dir.
         bindA (reads (\<lambda>w. marketplace_of w args)) (\<lambda>marketplace_dir.
         bindA (effect (\<lambda>w. make_dir w (down_from skill_dir [''assets'']))) (\<lambda>_.
         bindA (copy_bytes (down_from template_dir [''module-setup.md'']) (down_from skill_dir [''assets'', ''module-setup.md''])) (\<lambda>_.
         bindA (effect (\<lambda>w. make_dir w (down_from skill_dir [''scripts'']))) (\<lambda>_.
         bindA (copy_script template_dir skill_dir ''merge-config.py''
           \<lparr>sf_created = [''assets/module-setup.md''], sf_skipped = [], sf_warnings = []\<rparr>) (\<lambda>r.
         bindA (copy_script template_dir skill_dir ''merge-help-csv.py'' r) (\<lambda>r'.
         write_marketplace args skill_dir (down_from marketplace_dir [''.claude-plugin'']) r')))))))))"

section \<open>A setup skill\<close>

record setup_args =
  se_target_dir :: string
  se_module_code :: string
  se_module_name :: string
  se_module_yaml :: string
  se_module_csv :: string

definition setup_name :: "setup_args \<Rightarrow> string" where
  "setup_name args = se_module_code args @ ''-setup''"

definition setup_target :: "setup_args \<Rightarrow> ppath" where
  "setup_target args = path_join (path_of (se_target_dir args)) (path_of (setup_name args))"

definition setup_problem :: "world \<Rightarrow> setup_args \<Rightarrow> string option" where
  "setup_problem w args =
     (let template_dir = template_of w ''setup-skill-template'' in
      if \<not> is_dir w template_dir then Some (''Template not found: '' @ path_str template_dir)
      else
        (case List.find (\<lambda>s. \<not> is_file w (path_of s)) [se_module_yaml args, se_module_csv args] of
           Some s \<Rightarrow> Some (''Source file not found: '' @ s)
         | None \<Rightarrow>
             if \<not> is_dir w (path_of (se_target_dir args))
             then Some (''Target directory not found: '' @ path_str (path_of (se_target_dir args))) else None))"

text \<open>\<open>shutil.rmtree\<close>, which raises on a file.\<close>

definition remove_old :: "ppath \<Rightarrow> unit act" where
  "remove_old target =
     bindA (reads (\<lambda>w. (path_exists w target, is_dir w target))) (\<lambda>(there, dir).
     if \<not> there then ret () else if dir then effect (\<lambda>w. remove_tree w target) else raiseA (NotADirectoryError (path_str target)))"

text \<open>\<open>shutil.copytree\<close> to a directory that is not there: files, their times and directories are copied.\<close>

definition moved :: "string list \<Rightarrow> string list \<Rightarrow> string list \<Rightarrow> string list" where
  "moved src dst key = dst @ drop (length src) key"

definition copies :: "string list \<Rightarrow> string list \<Rightarrow> (string list \<times> 'a) list \<Rightarrow> (string list \<times> 'a) list" where
  "copies src dst fs = List.map (\<lambda>(key, x). (moved src dst key, x)) (List.filter (\<lambda>f. strict_prefix src (fst f)) fs)"

definition copy_tree :: "world \<Rightarrow> ppath \<Rightarrow> ppath \<Rightarrow> world" where
  "copy_tree w src dst =
     (let s = key_of w src; d = key_of w dst in
      w\<lparr>w_files := copies s d (w_files w) @ w_files w,
        w_mtimes := copies s d (w_mtimes w) @ w_mtimes w,
        w_dirs := d # List.map (moved s d) (List.filter (strict_prefix s) (w_dirs w)) @ w_dirs w\<rparr>)"

definition filled :: "setup_args \<Rightarrow> string \<Rightarrow> string" where
  "filled args content =
     replace_all ''{module-code}'' (se_module_code args)
       (replace_all ''{module-name}'' (se_module_name args)
         (replace_all ''{setup-skill-name}'' (setup_name args) content))"

definition write_into :: "ppath \<Rightarrow> string \<Rightarrow> unit act" where   \<comment> \<open>raises where the directory is missing\<close>
  "write_into p content =
     bindA (reads (\<lambda>w. (is_dir w (path_parent p), is_dir w p))) (\<lambda>(there, taken).
     if \<not> there then raiseA (FileNotFoundError (path_str p))
     else if taken then raiseA (IsADirectoryError (path_str p))
     else effect (\<lambda>w. put_file w p content))"

definition files_in :: "world \<Rightarrow> ppath \<Rightarrow> string list" where
  "files_in w target =
     sorted_strings (List.map (\<lambda>p. path_str (PPath False (drop (length (parts target)) (parts p))))
       (List.filter (is_file w) (glob_sorted w target ''**/*'')))"

definition setup_report :: "setup_args \<Rightarrow> string list \<Rightarrow> pyval" where
  "setup_report args files =
     VDict [(''status'', VStr ''success''), (''setup_skill'', VStr (setup_name args)),
       (''location'', VStr (path_str (setup_target args))), (''files_created'', strs files),
       (''files_count'', VInt (int (length files)))]"

definition fill_setup :: "setup_args \<Rightarrow> int act" where
  "fill_setup args =
     (let target = setup_target args in
      bindA (readsE (\<lambda>w. read_file w (down_from target [''SKILL.md'']))) (\<lambda>content.
      bindA (effect (\<lambda>w. put_file w (down_from target [''SKILL.md'']) (filled args content))) (\<lambda>_.
      bindA (readsE (\<lambda>w. read_file w (path_of (se_module_yaml args)))) (\<lambda>yaml.
      bindA (write_into (down_from target [''assets'', ''module.yaml'']) yaml) (\<lambda>_.
      bindA (readsE (\<lambda>w. read_file w (path_of (se_module_csv args)))) (\<lambda>csv.
      bindA (write_into (down_from target [''assets'', ''module-help.csv'']) csv) (\<lambda>_.
      bindA (effect (\<lambda>w. print_line (json_dumps style_indent2 (setup_report args (files_in w target))) w)) (\<lambda>_.
      ret 0))))))))"

definition scaffold_setup :: "setup_args \<Rightarrow> int act" where   \<comment> \<open>\<open>main\<close>\<close>
  "scaffold_setup args =
     bindA (reads (\<lambda>w. setup_problem w args)) (\<lambda>problem.
     case problem of
       Some message \<Rightarrow> refuse message
     | None \<Rightarrow>
         bindA (remove_old (setup_target args)) (\<lambda>_.
         bindA (effect (\<lambda>w. copy_tree w (template_of w ''setup-skill-template'') (setup_target args))) (\<lambda>_.
         fill_setup args)))"

section \<open>Where files are\<close>

lemma fold_dots_behind: "''..'' \<notin> set names \<Longrightarrow> fold_dots acc (cs @ names) = fold_dots acc cs @ names"
  by (induction cs arbitrary: acc) (auto simp: fold_dots_id)

lemma key_below: "''..'' \<notin> set names \<Longrightarrow> key_of w (down_from p names) = key_of w p @ names"
  by (simp add: key_of_def resolve_def resolve_in_def down_from_def path_join_def fold_dots_behind flip: append_assoc)

lemma two_ends: "ks @ [x] = ls @ [a, y] \<longleftrightarrow> ks = ls @ [a] \<and> x = y" "ls @ [a, y] = ks @ [x] \<longleftrightarrow> ls @ [a] = ks \<and> y = x"
  using append1_eq_conv [of ks x "ls @ [a]" y] append1_eq_conv [of "ls @ [a]" y ks x] by simp_all

lemma text_make_dir [simp]: "file_text (make_dir w p) q = file_text w q"
  by (simp add: file_text_def)

lemma text_put: "file_text (put_file w p c) q = (if key_of w p = key_of w q then Some c else file_text w q)"
  using fs.load_store [of w p c q] by (simp add: same_file_def)

lemma file_make_dir [simp]: "is_file (make_dir w p) q \<longleftrightarrow> is_file w q"
  by (simp add: is_file_text)

lemma dir_make_dir: "is_dir (make_dir w p) q \<longleftrightarrow> is_dir w q \<or> prefix (key_of w q) (key_of w p)"
  by (auto simp: is_dir_def) (auto simp: make_dir_def)

lemma files_put: "fst ` set (w_files (put_file w p c)) = insert (key_of w p) (fst ` set (w_files w))"
  by (simp add: put_file_def dom_update)

lemma dir_put: "is_dir (put_file w p c) q \<longleftrightarrow> is_dir w q \<or> strict_prefix (key_of w q) (key_of w p)"
proof -
  have paths: "is_dir v q \<longleftrightarrow> key_of v q = [] \<or> (\<exists>d \<in> set (w_dirs v). prefix (key_of v q) d)
      \<or> (\<exists>x \<in> fst ` set (w_files v). strict_prefix (key_of v q) x)" for v
    by (simp add: is_dir_def)
  have "w_dirs (put_file w p c) = w_dirs w" by (simp add: put_file_def)
  then show ?thesis unfolding paths files_put by auto
qed

lemma exists_put: "path_exists (put_file w p c) q \<longleftrightarrow> path_exists w q \<or> prefix (key_of w q) (key_of w p)"
  by (auto simp: path_exists_def is_file_text text_put dir_put strict_prefix_def)

lemma exists_make_dir: "path_exists (make_dir w p) q \<longleftrightarrow> path_exists w q \<or> prefix (key_of w q) (key_of w p)"
  by (auto simp: path_exists_def dir_make_dir)

section \<open>A standalone module keeps its scripts\<close>

lemma copy_file_Inr:
  "copy_bytes src dst w = Inr (u, w') \<longleftrightarrow> (\<exists>c. file_text w src = Some c \<and> \<not> is_dir w dst \<and> w' = put_file w dst c)"
  by (auto simp: copy_bytes_def bindA_Inr act_Inr read_file_Inr split: if_splits)

lemma copy_script_Inr:
  "copy_script t s name r w = Inr (r', w') \<Longrightarrow>
     (if path_exists w (down_from s [''scripts'', name]) then w' = w
      else \<exists>c. file_text w (down_from t [name]) = Some c \<and> w' = put_file w (down_from s [''scripts'', name]) c)"
  by (auto simp: copy_script_def Let_def bindA_Inr act_Inr copy_file_Inr split: if_splits)

text \<open>What lies at a place that a merge script is copied to.\<close>

definition script_text :: "world \<Rightarrow> ppath \<Rightarrow> ppath \<Rightarrow> string \<Rightarrow> string option" where
  "script_text w t s name =
     (if path_exists w (down_from s [''scripts'', name]) then file_text w (down_from s [''scripts'', name]) else file_text w (down_from t [name]))"

lemma copy_script_text:
  assumes "copy_script t s name r w = Inr (r', w')" and "name \<noteq> ''..''"
  shows "file_text w' q = (if key_of w q = key_of w s @ [''scripts'', name] then script_text w t s name else file_text w q)"
    and "key_of w' p = key_of w p"
    and "path_exists w' q' \<Longrightarrow> \<not> prefix (key_of w q') (key_of w s @ [''scripts'', name]) \<Longrightarrow> path_exists w q'"
    and "path_exists w q' \<Longrightarrow> path_exists w' q'"
proof -
  let ?dst = "down_from s [''scripts'', name]"
  have k: "key_of w ?dst = key_of w s @ [''scripts'', name]" using assms(2) by (intro key_below) auto
  then have "file_text w q = file_text w ?dst" if "key_of w q = key_of w s @ [''scripts'', name]"
    using that by (simp add: file_text_def)
  with copy_script_Inr [OF assms(1)] k
  show "file_text w' q = (if key_of w q = key_of w s @ [''scripts'', name] then script_text w t s name else file_text w q)"
    by (auto simp: script_text_def text_put split: if_splits)
  from copy_script_Inr [OF assms(1)] k show "key_of w' p = key_of w p"
    and "path_exists w' q' \<Longrightarrow> \<not> prefix (key_of w q') (key_of w s @ [''scripts'', name]) \<Longrightarrow> path_exists w q'"
    and "path_exists w q' \<Longrightarrow> path_exists w' q'"
    by (auto simp: exists_put split: if_splits)
qed

definition plugin_of :: "world \<Rightarrow> standalone_args \<Rightarrow> ppath" where
  "plugin_of w args = down_from (marketplace_of w args) [''.claude-plugin'']"

definition standalone_text :: "world \<Rightarrow> standalone_args \<Rightarrow> ppath \<Rightarrow> string option" where
  "standalone_text w args q =
     (let t = template_of w ''standalone-module-template''; s = standalone_skill w args; at = key_of w q in
      if at = key_of w (plugin_of w args) @ [''marketplace.json'']
      then Some (marketplace_text (sa_module_code args) (read_file w (down_from s [''assets'', ''module.yaml''])) (path_name s))
      else if at = key_of w s @ [''assets'', ''module-setup.md''] then file_text w (down_from t [''module-setup.md''])
      else if at = key_of w s @ [''scripts'', ''merge-config.py''] then script_text w t s ''merge-config.py''
      else if at = key_of w s @ [''scripts'', ''merge-help-csv.py''] then script_text w t s ''merge-help-csv.py''
      else file_text w q)"

lemma read_file_same: "file_text v p = file_text w p \<Longrightarrow> is_file w p \<Longrightarrow> read_file v p = read_file w p"
  by (auto simp: read_file_def is_file_def file_text_def split: option.splits)

lemma key_names:
  "key_of w (down_from t [''module-setup.md'']) = key_of w t @ [''module-setup.md'']"
  "key_of w (down_from t [''merge-config.py'']) = key_of w t @ [''merge-config.py'']"
  "key_of w (down_from t [''merge-help-csv.py'']) = key_of w t @ [''merge-help-csv.py'']"
  "key_of w (down_from t [''marketplace.json'']) = key_of w t @ [''marketplace.json'']"
  "key_of w (down_from s [''scripts'']) = key_of w s @ [''scripts'']"
  "key_of w (down_from s [''assets'']) = key_of w s @ [''assets'']"
  "key_of w (down_from s [''assets'', ''module-setup.md'']) = key_of w s @ [''assets'', ''module-setup.md'']"
  "key_of w (down_from s [''assets'', ''module.yaml'']) = key_of w s @ [''assets'', ''module.yaml'']"
  "key_of w (down_from s [''scripts'', ''merge-config.py'']) = key_of w s @ [''scripts'', ''merge-config.py'']"
  "key_of w (down_from s [''scripts'', ''merge-help-csv.py'']) = key_of w s @ [''scripts'', ''merge-help-csv.py'']"
  by (simp_all add: key_below)

lemma write_marketplace_Inr:
  assumes "write_marketplace args s d r w = Inr (n, w')"
  shows "n = 0 \<and> (\<exists>out. w' = print_line out (put_file (make_dir w d) (down_from d [''marketplace.json''])
    (marketplace_text (sa_module_code args) (read_file (make_dir w d) (down_from s [''assets'', ''module.yaml''])) (path_name s))))"
  using assms by (auto simp: write_marketplace_def Let_def bindA_Inr act_Inr split: if_splits)

lemma standalone_steps:
  assumes "scaffold_standalone args w = Inr (0, w')"
  defines "t \<equiv> template_of w ''standalone-module-template''" and "s \<equiv> standalone_skill w args"
  obtains w1 w2 w3 r1 r2 c where
    "standalone_problem w args = None"
    "file_text w (down_from t [''module-setup.md'']) = Some c"
    "w1 = make_dir (put_file (make_dir w (down_from s [''assets''])) (down_from s [''assets'', ''module-setup.md'']) c) (down_from s [''scripts''])"
    "copy_script t s ''merge-config.py'' \<lparr>sf_created = [''assets/module-setup.md''], sf_skipped = [], sf_warnings = []\<rparr> w1 = Inr (r1, w2)"
    "copy_script t s ''merge-help-csv.py'' r1 w2 = Inr (r2, w3)"
    "write_marketplace args s (plugin_of w args) r2 w3 = Inr (0, w')"
proof (cases "standalone_problem w args")
  case None
  let ?start = "\<lparr>sf_created = [''assets/module-setup.md''], sf_skipped = [], sf_warnings = []\<rparr>"
  from assms(1) None have "\<exists>u v r1 w2 r2 w3.
      copy_bytes (down_from t [''module-setup.md'']) (down_from s [''assets'', ''module-setup.md'']) (make_dir w (down_from s [''assets''])) = Inr (u, v) \<and>
      copy_script t s ''merge-config.py'' ?start (make_dir v (down_from s [''scripts''])) = Inr (r1, w2) \<and>
      copy_script t s ''merge-help-csv.py'' r1 w2 = Inr (r2, w3) \<and>
      write_marketplace args s (plugin_of w args) r2 w3 = Inr (0, w')"
    unfolding t_def s_def plugin_of_def by (auto simp: scaffold_standalone_def bindA_Inr)
  then obtain u v r1 w2 r2 w3 where steps:
      "copy_bytes (down_from t [''module-setup.md'']) (down_from s [''assets'', ''module-setup.md'']) (make_dir w (down_from s [''assets''])) = Inr (u, v)"
      "copy_script t s ''merge-config.py'' ?start (make_dir v (down_from s [''scripts''])) = Inr (r1, w2)"
      "copy_script t s ''merge-help-csv.py'' r1 w2 = Inr (r2, w3)"
      "write_marketplace args s (plugin_of w args) r2 w3 = Inr (0, w')" by blast
  from steps(1) obtain c where c: "file_text w (down_from t [''module-setup.md'']) = Some c"
    "v = put_file (make_dir w (down_from s [''assets''])) (down_from s [''assets'', ''module-setup.md'']) c"
    by (auto simp: copy_file_Inr)
  show ?thesis by (rule that [OF None c(1) refl _ steps(3,4)]) (use steps(2) c(2) in simp)
next
  case (Some message)
  with assms(1) show ?thesis by (auto simp: scaffold_standalone_def refuse_def bindA_Inr act_Inr)
qed

text \<open>
  C30. What scaffolding a standalone module leaves: when it succeeds, the marketplace file holds the description of the
  module, the setup text is the template's, a merge script is the template's unless something of its name was there,
  and every other file is as it was.
\<close>

theorem standalone_writes_exactly:
  assumes "scaffold_standalone args w = Inr (0, w')"
  shows "file_text w' q = standalone_text w args q"
proof -
  define t s where t: "t = template_of w ''standalone-module-template''" and s: "s = standalone_skill w args"
  from standalone_steps [OF assms] obtain w1 w2 w3 r1 r2 c where st: "standalone_problem w args = None"
      "file_text w (down_from t [''module-setup.md'']) = Some c"
      "w1 = make_dir (put_file (make_dir w (down_from s [''assets''])) (down_from s [''assets'', ''module-setup.md'']) c) (down_from s [''scripts''])"
      "copy_script t s ''merge-config.py'' \<lparr>sf_created = [''assets/module-setup.md''], sf_skipped = [], sf_warnings = []\<rparr> w1 = Inr (r1, w2)"
      "copy_script t s ''merge-help-csv.py'' r1 w2 = Inr (r2, w3)"
      "write_marketplace args s (plugin_of w args) r2 w3 = Inr (0, w')"
    unfolding t s by metis
  note two = copy_script_text [OF st(4), simplified] and three = copy_script_text [OF st(5), simplified]
  have k1: "key_of w1 p = key_of w p" for p by (simp add: st(3))
  have k2: "key_of w2 p = key_of w p" for p by (simp add: two(2) k1)
  have k3: "key_of w3 p = key_of w p" for p by (simp add: three(2) k2)
  have t1: "file_text w1 p = (if key_of w p = key_of w s @ [''assets'', ''module-setup.md''] then Some c else file_text w p)" for p
    by (auto simp: st(3) text_put key_names)
  have e1: "path_exists w1 (down_from s [''scripts'', name]) \<longleftrightarrow> path_exists w (down_from s [''scripts'', name])" if "name \<noteq> ''..''" for name
    using that by (simp add: st(3) exists_make_dir exists_put key_names key_below)
  have s1: "script_text w1 t s name = script_text w t s name" if "name = ''merge-config.py'' \<or> name = ''merge-help-csv.py''" for name
    using that by (auto simp: script_text_def e1 t1 key_names two_ends)
  have t2: "file_text w2 p = (if key_of w p = key_of w s @ [''scripts'', ''merge-config.py''] then script_text w t s ''merge-config.py''
      else file_text w1 p)" for p
    by (simp add: two(1) k1 s1)
  have "path_exists w2 (down_from s [''scripts'', ''merge-help-csv.py'']) \<longleftrightarrow> path_exists w (down_from s [''scripts'', ''merge-help-csv.py''])"
    using two(3,4) [of "down_from s [''scripts'', ''merge-help-csv.py'']"] e1 [of "''merge-help-csv.py''"]
    by (auto simp: key_names k1 k2)
  then have "script_text w2 t s ''merge-help-csv.py'' = script_text w t s ''merge-help-csv.py''"
    by (simp add: script_text_def t2 t1 key_names two_ends)
  then have t3: "file_text w3 p = (if key_of w p = key_of w s @ [''scripts'', ''merge-help-csv.py'']
      then script_text w t s ''merge-help-csv.py'' else file_text w2 p)" for p
    by (simp add: three(1) k2)
  let ?yaml = "down_from s [''assets'', ''module.yaml'']"
  have "is_file w ?yaml" using st(1) by (auto simp: standalone_problem_def Let_def s split: if_splits)
  moreover have "file_text (make_dir w3 (plugin_of w args)) ?yaml = file_text w ?yaml"
    by (simp add: t3 t2 t1 key_names)
  ultimately have "read_file (make_dir w3 (plugin_of w args)) ?yaml = read_file w ?yaml" by (rule read_file_same [rotated])
  with write_marketplace_Inr [OF st(6)] obtain out where "w' = print_line out (put_file (make_dir w3 (plugin_of w args))
      (down_from (plugin_of w args) [''marketplace.json'']) (marketplace_text (sa_module_code args) (read_file w ?yaml) (path_name s)))"
    by auto
  then show ?thesis
    by (auto simp: standalone_text_def Let_def text_put key_names k3 t3 t2 t1 st(2) two_ends simp flip: t s)
qed

text \<open>A skill with a merge script of its own.\<close>

definition skill_world :: world where
  "skill_world = bare_world\<lparr>w_module := [''m'', ''scripts'', ''scaffold.py''],
     w_files := [([''m'', ''assets'', ''standalone-module-template'', ''module-setup.md''], ''setup''),
       ([''m'', ''assets'', ''standalone-module-template'', ''merge-config.py''], ''merge''),
       ([''m'', ''assets'', ''standalone-module-template'', ''merge-help-csv.py''], ''csv''),
       ([''s'', ''x'', ''SKILL.md''], ''# X''), ([''s'', ''x'', ''assets'', ''module.yaml''], ''description: D'' @ [nl]),
       ([''s'', ''x'', ''scripts'', ''merge-config.py''], ''mine'')]\<rparr>"

definition standalone_sample :: standalone_args where
  "standalone_sample = \<lparr>sa_skill_dir = ''/s/x'', sa_module_code = ''x'', sa_marketplace_dir = []\<rparr>"

theorem standalone_writes_exactly_witness:
  "case scaffold_standalone standalone_sample skill_world of
     Inl _ \<Rightarrow> False
   | Inr (code, w') \<Rightarrow> code = 0 \<and>
       (\<forall>p \<in> {''/s/x/scripts/merge-config.py'', ''/s/x/scripts/merge-help-csv.py'', ''/s/.claude-plugin/marketplace.json''}.
          file_text w' (path_of p) = standalone_text skill_world standalone_sample (path_of p)) \<and>
       standalone_text skill_world standalone_sample (path_of ''/s/x/scripts/merge-config.py'') = Some ''mine''"
proof -
  have "case scaffold_standalone standalone_sample skill_world of Inl _ \<Rightarrow> False | Inr (code, w') \<Rightarrow> code = 0" by code_simp
  then obtain w' where w': "scaffold_standalone standalone_sample skill_world = Inr (0, w')"
    by (auto split: sum.splits)
  have "standalone_text skill_world standalone_sample (path_of ''/s/x/scripts/merge-config.py'') = Some ''mine''" by code_simp
  with w' standalone_writes_exactly [OF w'] show ?thesis by simp
qed

section \<open>A setup skill is the template, filled in\<close>

lemma copies_lookup: "map_of (copies src dst fs) (dst @ rel) = (if rel = [] then None else map_of fs (src @ rel))"
proof (induction fs)
  case (Cons f fs)
  obtain key x where f: "f = (key, x)" by (cases f)
  show ?case
  proof (cases "strict_prefix src key")
    case True
    then obtain names where "key = src @ names" "names \<noteq> []" by (auto simp: strict_prefix_def prefix_def)
    with Cons True show ?thesis by (cases "rel = []") (simp_all add: f copies_def moved_def)
  next
    case False
    then have "key = src @ rel \<Longrightarrow> rel = []" by (auto simp: strict_prefix_def)
    with Cons False show ?thesis by (auto simp: f copies_def)
  qed
qed (simp add: copies_def)

lemma copies_elsewhere: "\<not> strict_prefix dst k \<Longrightarrow> map_of (copies src dst fs) k = None"
  by (auto simp: map_of_eq_None_iff copies_def moved_def strict_prefix_def prefix_def)

lemma key_copy_tree [simp]: "key_of (copy_tree w src dst) q = key_of w q"
  by (simp add: copy_tree_def Let_def key_of_def resolve_def)

lemma copy_tree_text:
  "file_text (copy_tree w src dst) q =
     (case map_of (copies (key_of w src) (key_of w dst) (w_files w)) (key_of w q) of Some c \<Rightarrow> Some c | None \<Rightarrow> file_text w q)"
proof -
  have "w_files (copy_tree w src dst) = copies (key_of w src) (key_of w dst) (w_files w) @ w_files w"
    by (simp add: copy_tree_def Let_def)
  then show ?thesis by (simp add: file_text_def map_add_def split: option.splits)
qed

text \<open>The text at a place below the target.\<close>

definition setup_text :: "world \<Rightarrow> setup_args \<Rightarrow> string list \<Rightarrow> string option" where
  "setup_text w args rel =
     (let from_template = map_of (w_files w) (key_of w (template_of w ''setup-skill-template'') @ rel) in
      if rel = [''SKILL.md''] then map_option (filled args) from_template
      else if rel = [''assets'', ''module.yaml''] then file_text w (path_of (se_module_yaml args))
      else if rel = [''assets'', ''module-help.csv''] then file_text w (path_of (se_module_csv args))
      else if rel = [] then None else from_template)"

definition apart :: "string list \<Rightarrow> string list \<Rightarrow> bool" where
  "apart k l \<longleftrightarrow> \<not> prefix k l \<and> \<not> prefix l k"

lemma remove_old_Inr:
  assumes "remove_old p w = Inr (u, w')"
  shows "map_of (w_files w') k = (if strict_prefix (key_of w p) k then None else map_of (w_files w) k)"
    and "key_of w' q = key_of w q" and "w_module w' = w_module w"
proof -
  have "map_of (List.filter (\<lambda>f. \<not> strict_prefix l (fst f)) fs) k = (if strict_prefix l k then None else map_of fs k)"
    for l and fs :: "(string list \<times> string) list" by (induction fs) auto
  then have "map_of (w_files (remove_tree w p)) k = (if strict_prefix (key_of w p) k then None else map_of (w_files w) k)"
    by (simp add: remove_tree_def)
  moreover have "strict_prefix (key_of w p) k \<Longrightarrow> map_of (w_files w) k = None" if "\<not> is_dir w p"
    using that by (cases "map_of (w_files w) k") (fastforce simp: is_dir_def dest: map_of_SomeD)+
  ultimately show "map_of (w_files w') k = (if strict_prefix (key_of w p) k then None else map_of (w_files w) k)"
    using assms by (auto simp: remove_old_def bindA_Inr act_Inr path_exists_def split: if_splits)
  show "key_of w' q = key_of w q" and "w_module w' = w_module w"
    using assms by (auto simp: remove_old_def bindA_Inr act_Inr split: if_splits) (simp add: remove_tree_def)
qed

lemma template_step: "w_module v = w_module w \<Longrightarrow> template_of v name = template_of w name"
  by (simp add: template_of_def)

lemma write_into_Inr: "write_into p c w = Inr (u, w') \<Longrightarrow> w' = put_file w p c"
  by (auto simp: write_into_def bindA_Inr act_Inr split: if_splits)

lemma fill_setup_steps:
  assumes "fill_setup args w = Inr (0, w')"
  defines "t \<equiv> setup_target args"
  obtains content yaml csv w1 w2 out where
    "file_text w (down_from t [''SKILL.md'']) = Some content" "w1 = put_file w (down_from t [''SKILL.md'']) (filled args content)"
    "file_text w1 (path_of (se_module_yaml args)) = Some yaml" "w2 = put_file w1 (down_from t [''assets'', ''module.yaml'']) yaml"
    "file_text w2 (path_of (se_module_csv args)) = Some csv"
    "w' = print_line out (put_file w2 (down_from t [''assets'', ''module-help.csv'']) csv)"
proof -
  from assms(1) obtain content yaml u1 w2 csv u2 w3 out where steps:
      "file_text w (down_from t [''SKILL.md'']) = Some content"
      "file_text (put_file w (down_from t [''SKILL.md'']) (filled args content)) (path_of (se_module_yaml args)) = Some yaml"
      "write_into (down_from t [''assets'', ''module.yaml'']) yaml (put_file w (down_from t [''SKILL.md'']) (filled args content)) = Inr (u1, w2)"
      "file_text w2 (path_of (se_module_csv args)) = Some csv"
      "write_into (down_from t [''assets'', ''module-help.csv'']) csv w2 = Inr (u2, w3)" "w' = print_line out w3"
    unfolding t_def by (auto simp: fill_setup_def Let_def bindA_Inr act_Inr read_file_Inr)
  show ?thesis
    using that [OF steps(1) refl steps(2) write_into_Inr [OF steps(3)] steps(4)] write_into_Inr [OF steps(5)] steps(6) by blast
qed

text \<open>
  C24. A setup skill is its template, filled in: when scaffolding succeeds and template, sources and target lie apart,
  the files below the target are those of the template, with the names filled into the skill's text and the two
  given files in the places of the template's, nothing of an older setup skill is left, and every other file is as it was.
\<close>

theorem setup_is_filled_template:
  assumes run: "scaffold_setup args w = Inr (0, w')"
    and template: "apart (key_of w (template_of w ''setup-skill-template'')) (key_of w (setup_target args))"
    and yaml: "\<not> prefix (key_of w (setup_target args)) (key_of w (path_of (se_module_yaml args)))"
    and csv: "\<not> prefix (key_of w (setup_target args)) (key_of w (path_of (se_module_csv args)))"
  shows "file_text w' q =
    (if strict_prefix (key_of w (setup_target args)) (key_of w q)
     then setup_text w args (drop (length (key_of w (setup_target args))) (key_of w q)) else file_text w q)"
proof -
  define t m where t: "t = setup_target args" and m: "m = template_of w ''setup-skill-template''"
  let ?k = "key_of w t"
  have "setup_problem w args = None"
    using run by (auto simp: scaffold_setup_def refuse_def bindA_Inr act_Inr split: option.splits)
  with run obtain u w0 where old: "remove_old t w = Inr (u, w0)"
    and fill: "fill_setup args (copy_tree w0 (template_of w0 ''setup-skill-template'') t) = Inr (0, w')"
    by (auto simp: scaffold_setup_def bindA_Inr act_Inr t)
  note gone = remove_old_Inr(1) [OF old] and k0 = remove_old_Inr(2) [OF old]
  have m0: "template_of w0 ''setup-skill-template'' = m" unfolding m by (rule template_step) (rule remove_old_Inr(3) [OF old])
  let ?w1 = "copy_tree w0 m t"
  have ap: "\<not> strict_prefix ?k (key_of w m @ rel)" for rel
    using template unfolding apart_def t [symmetric] m [symmetric]
    by (metis prefix_append prefix_same_cases prefixI strict_prefix_def)
  have w1: "file_text ?w1 p = (if strict_prefix ?k (key_of w p)
      then map_of (w_files w) (key_of w m @ drop (length ?k) (key_of w p)) else file_text w p)" for p
  proof (cases "strict_prefix ?k (key_of w p)")
    case True
    then obtain rel where rel: "key_of w p = ?k @ rel" "rel \<noteq> []" by (auto simp: strict_prefix_def prefix_def)
    have "file_text w0 p = None" using True gone k0 by (simp add: file_text_def)
    with rel True ap [of rel] show ?thesis
      by (simp add: copy_tree_text k0 copies_lookup gone split: option.splits)
  next
    case False
    then show ?thesis by (simp add: copy_tree_text k0 copies_elsewhere) (simp add: file_text_def gone k0)
  qed
  have k1: "key_of ?w1 p = key_of w p" for p by (simp add: k0)
  from fill_setup_steps [OF fill [unfolded m0]] obtain content yaml csv w2 w3 out where st:
      "file_text ?w1 (down_from t [''SKILL.md'']) = Some content" "w2 = put_file ?w1 (down_from t [''SKILL.md'']) (filled args content)"
      "file_text w2 (path_of (se_module_yaml args)) = Some yaml" "w3 = put_file w2 (down_from t [''assets'', ''module.yaml'']) yaml"
      "file_text w3 (path_of (se_module_csv args)) = Some csv"
      "w' = print_line out (put_file w3 (down_from t [''assets'', ''module-help.csv'']) csv)"
    unfolding t by metis
  have keys: "key_of w (down_from t [''SKILL.md'']) = ?k @ [''SKILL.md'']"
      "key_of w (down_from t [''assets'', ''module.yaml'']) = ?k @ [''assets'', ''module.yaml'']"
      "key_of w (down_from t [''assets'', ''module-help.csv'']) = ?k @ [''assets'', ''module-help.csv'']"
    by (simp_all add: key_below)
  have w2: "file_text w2 p = (if key_of w p = ?k @ [''SKILL.md''] then Some (filled args content) else file_text ?w1 p)" for p
    by (auto simp: st(2) text_put k0 keys)
  have w3: "file_text w3 p = (if key_of w p = ?k @ [''assets'', ''module.yaml''] then Some yaml else file_text w2 p)" for p
    by (auto simp: st(4) st(2) text_put k0 keys)
  have w4: "file_text w' p = (if key_of w p = ?k @ [''assets'', ''module-help.csv''] then Some csv else file_text w3 p)" for p
    by (auto simp: st(6) st(4) st(2) text_put k0 keys)
  have out: "file_text w2 p = file_text w p" "file_text w3 p = file_text w p" if "\<not> prefix ?k (key_of w p)" for p
    using that by (auto simp: w3 w2 w1 strict_prefix_def)
  have given: "file_text w (path_of (se_module_yaml args)) = Some yaml" "file_text w (path_of (se_module_csv args)) = Some csv"
    using st(3,5) yaml csv out unfolding t by metis+
  have skill: "map_of (w_files w) (key_of w m @ [''SKILL.md'']) = Some content"
    using st(1) by (simp add: w1 keys strict_prefix_def)
  show ?thesis
  proof (cases "strict_prefix ?k (key_of w q)")
    case True
    then obtain rel where "key_of w q = ?k @ rel" "rel \<noteq> []" by (auto simp: strict_prefix_def prefix_def)
    with True given skill show ?thesis
      by (simp add: w4 w3 w2 w1 setup_text_def Let_def flip: t m)
  next
    case False
    moreover have "strict_prefix ?k (?k @ n # ns)" for n ns by (simp add: strict_prefix_def)
    ultimately show ?thesis by (auto simp: w4 w3 w2 w1 simp flip: t)
  qed
qed

text \<open>A setup skill made anew.\<close>

definition setup_world :: world where
  "setup_world = bare_world\<lparr>w_module := [''m'', ''scripts'', ''scaffold.py''],
     w_files := [([''m'', ''assets'', ''setup-skill-template'', ''SKILL.md''], ''Sets up {module-name}''),
       ([''m'', ''assets'', ''setup-skill-template'', ''assets'', ''module.yaml''], ''blank''),
       ([''t'', ''x-setup'', ''old.md''], ''old''), ([''t'', ''x-setup'', ''assets'', ''module.yaml''], ''code: x''),
       ([''g'', ''module.yaml''], ''code: x''), ([''g'', ''help.csv''], ''rows'')]\<rparr>"

definition setup_sample :: setup_args where
  "setup_sample = \<lparr>se_target_dir = ''/t'', se_module_code = ''x'', se_module_name = ''X'', se_module_yaml = ''/g/module.yaml'',
     se_module_csv = ''/g/help.csv''\<rparr>"

theorem setup_is_filled_template_witness:
  "case scaffold_setup setup_sample setup_world of
     Inl _ \<Rightarrow> False
   | Inr (code, w') \<Rightarrow> code = 0 \<and> file_text w' (path_of ''/t/x-setup/SKILL.md'') = Some ''Sets up X'' \<and>
       file_text w' (path_of ''/t/x-setup/assets/module.yaml'') = Some ''code: x'' \<and>
       file_text w' (path_of ''/t/x-setup/old.md'') = None"
proof -
  have "case scaffold_setup setup_sample setup_world of Inl _ \<Rightarrow> False | Inr (code, w') \<Rightarrow> code = 0" by code_simp
  then obtain w' where w': "scaffold_setup setup_sample setup_world = Inr (0, w')" by (auto split: sum.splits)
  let ?t = "key_of setup_world (setup_target setup_sample)"
  have "apart (key_of setup_world (template_of setup_world ''setup-skill-template'')) ?t"
    and "\<not> prefix ?t (key_of setup_world (path_of (se_module_yaml setup_sample)))"
    and "\<not> prefix ?t (key_of setup_world (path_of (se_module_csv setup_sample)))" by code_simp+
  note all = setup_is_filled_template [OF w' this]
  have "?t = [''t'', ''x-setup'']" "key_of setup_world (path_of ''/t/x-setup/SKILL.md'') = [''t'', ''x-setup'', ''SKILL.md'']"
    "key_of setup_world (path_of ''/t/x-setup/assets/module.yaml'') = [''t'', ''x-setup'', ''assets'', ''module.yaml'']"
    "key_of setup_world (path_of ''/t/x-setup/old.md'') = [''t'', ''x-setup'', ''old.md'']" by code_simp+
  moreover have "setup_text setup_world setup_sample [''SKILL.md''] = Some ''Sets up X''"
    "setup_text setup_world setup_sample [''assets'', ''module.yaml''] = Some ''code: x''"
    "setup_text setup_world setup_sample [''old.md''] = None" by code_simp+
  ultimately show ?thesis using w' all by (simp add: strict_prefix_def)
qed

text \<open>A given file inside the old setup skill is gone before it is read; what is read is the template's.\<close>

lemma source_in_target_lost:
  "case scaffold_setup (setup_sample\<lparr>se_module_yaml := ''/t/x-setup/assets/module.yaml''\<rparr>) setup_world of
     Inl _ \<Rightarrow> False
   | Inr (code, w') \<Rightarrow> code = 0 \<and> file_text w' (path_of ''/t/x-setup/assets/module.yaml'') = Some ''blank''"
  by code_simp

end
