(* ===== verification/Sanctum.thy ===== *)
theory Sanctum
  imports Scaffold
begin

text \<open>
  \<open>.agents/skills/bmad-agent-builder/references/sample-init-sanctum.py\<close>: the directory of a new agent is made,
  filled with the skill's references, scripts and templates, and never touched again. The list of arguments is
  \<open>sys.argv\<close> without the program's name. The local time is UTC.
\<close>

section \<open>Settings\<close>

definition skill_name :: string where
  "skill_name = ''agent-creative-muse''"

definition skill_only_files :: "string list" where
  "skill_only_files = [''first-breath.md'']"

definition template_files :: "string list" where
  "template_files =
     [''INDEX-template.md'', ''PERSONA-template.md'', ''CREED-template.md'', ''BOND-template.md'', ''MEMORY-template.md'',
      ''PULSE-template.md'']"

section \<open>Readers\<close>

definition unquoted_value :: "string \<Rightarrow> string" where
  "unquoted_value v = strip_chars [squote, dquote] (strip v)"

definition config_line :: "string \<Rightarrow> string dict \<Rightarrow> string dict" where
  "config_line line config =
     (let s = strip line in
      if s = [] \<or> startswith s ''#'' then config
      else
        (case split_once '':'' s of
           None \<Rightarrow> config
         | Some (key, v) \<Rightarrow> if unquoted_value v \<noteq> [] then dict_set (strip key) (unquoted_value v) config else config))"

definition parse_yaml_config :: "world \<Rightarrow> ppath \<Rightarrow> string dict res" where
  "parse_yaml_config w p =
     (if \<not> path_exists w p then Inr []
      else ebind (read_file w p) (\<lambda>content. Inr (fold config_line (split_all [nl] content) [])))"

definition rx_meta :: rx where   \<comment> \<open>\<open>^---\s*\n(.*?)\n---\<close> under \<open>re.DOTALL\<close>\<close>
  "rx_meta = rseq [RBol False, rlit ''---'', rstar rspace, rlit [nl], RGrp 1 (RStar False rany), rlit (nl # ''---'')]"

definition meta_line :: "string \<Rightarrow> string dict \<Rightarrow> string dict" where
  "meta_line line meta =
     (case split_once '':'' line of None \<Rightarrow> meta | Some (key, v) \<Rightarrow> dict_set (strip key) (unquoted_value v) meta)"

definition meta_of :: "string \<Rightarrow> string dict" where
  "meta_of content =
     (case re_match rx_meta content of
        None \<Rightarrow> []
      | Some m \<Rightarrow> fold meta_line (split_all [nl] (strip (rm_grp m 1))) [])"

definition parse_meta :: "world \<Rightarrow> ppath \<Rightarrow> string dict res" where   \<comment> \<open>\<open>parse_frontmatter\<close>\<close>
  "parse_meta w p = ebind (read_file w p) (\<lambda>content. Inr (meta_of content))"

section \<open>Copies\<close>

definition copy2 :: "ppath \<Rightarrow> ppath \<Rightarrow> unit act" where   \<comment> \<open>\<open>shutil.copy2\<close> to a file that is not there\<close>
  "copy2 src dst =
     bindA (readsE (\<lambda>w. read_file w src)) (\<lambda>content.
     effect (\<lambda>w. let w1 = put_file w dst content in w1\<lparr>w_mtimes := AList.update (key_of w dst) (mtime w src) (w_mtimes w1)\<rparr>))"

definition chosen_of :: "(string \<Rightarrow> bool) \<Rightarrow> world \<Rightarrow> ppath list \<Rightarrow> ppath list" where
  "chosen_of chosen w fs = List.filter (\<lambda>f. chosen (path_name f) \<and> is_file w f) fs"

definition copy_named :: "(string \<Rightarrow> bool) \<Rightarrow> ppath \<Rightarrow> ppath \<Rightarrow> string list act" where
  "copy_named chosen source_dir dest_dir =
     bindA (effect (\<lambda>w. make_dir w dest_dir)) (\<lambda>_.
     bindA (readsE (\<lambda>w. ebind (entries w source_dir) (\<lambda>fs. Inr (chosen_of chosen w fs)))) (\<lambda>files.
     bindA (forA files (\<lambda>f. copy2 f (down_from dest_dir [path_name f]))) (\<lambda>_.
     ret (List.map path_name files))))"

definition copy_references :: "ppath \<Rightarrow> ppath \<Rightarrow> string list act" where
  "copy_references = copy_named (\<lambda>name. name \<notin> set skill_only_files)"

definition copy_scripts :: "ppath \<Rightarrow> ppath \<Rightarrow> string list act" where
  "copy_scripts source_dir dest_dir =
     bindA (reads (\<lambda>w. path_exists w source_dir)) (\<lambda>there.
     if \<not> there then ret [] else copy_named (\<lambda>name. name \<noteq> ''init-sanctum.py'') source_dir dest_dir)"

section \<open>Capabilities\<close>

record capability =
  cb_name :: string
  cb_description :: string
  cb_code :: string
  cb_source :: string

definition entry_of :: "string \<Rightarrow> string dict \<Rightarrow> string" where   \<comment> \<open>\<open>meta.get(key, "")\<close>\<close>
  "entry_of key meta = (case dict_get key meta of None \<Rightarrow> [] | Some v \<Rightarrow> v)"

definition capability_of :: "string \<Rightarrow> ppath \<Rightarrow> string dict \<Rightarrow> capability list" where
  "capability_of refs_path f meta =
     (if entry_of ''name'' meta \<noteq> [] \<and> entry_of ''code'' meta \<noteq> []
      then [\<lparr>cb_name = entry_of ''name'' meta, cb_description = entry_of ''description'' meta,
             cb_code = entry_of ''code'' meta, cb_source = refs_path @ ''/'' @ path_name f\<rparr>] else [])"

definition capability_files :: "world \<Rightarrow> ppath \<Rightarrow> ppath list" where
  "capability_files w references_dir =
     List.filter (\<lambda>f. path_name f \<notin> set skill_only_files) (glob_sorted w references_dir ''*.md'')"

definition discover_capabilities :: "world \<Rightarrow> ppath \<Rightarrow> string \<Rightarrow> capability list res" where
  "discover_capabilities w references_dir refs_path =
     ebind (map_res (\<lambda>f. ebind (parse_meta w f) (\<lambda>meta. Inr (capability_of refs_path f meta)))
       (capability_files w references_dir)) (\<lambda>cs. Inr (concat cs))"

definition in_backticks :: "string \<Rightarrow> string" where
  "in_backticks s = [backtick] @ s @ [backtick]"

definition capability_row :: "capability \<Rightarrow> string" where
  "capability_row c =
     ''| ['' @ cb_code c @ ''] | '' @ cb_name c @ '' | '' @ cb_description c @ '' | '' @ in_backticks (cb_source c) @ '' |''"

definition capabilities_tail :: "string list" where
  "capabilities_tail =
     [[], ''## Learned'', [],
      ''_Capabilities added by the owner over time. Prompts live in '' @ in_backticks ''capabilities/'' @ ''._'', [],
      ''| Code | Name | Description | Source | Added |'',
      ''|------|------|-------------|--------|-------|'', [],
      ''## How to Add a Capability'', [],
      ''Tell me '' @ [dquote] @ ''I want you to be able to do X'' @ [dquote] @ '' and we'' @ [squote] @ ''ll create it together.'',
      ''I'' @ [squote] @ ''ll write the prompt, save it to '' @ in_backticks ''capabilities/'' @ '', and register it here.'',
      ''Next session, I'' @ [squote] @ ''ll know how.'',
      ''Load '' @ in_backticks ''./references/capability-authoring.md'' @ '' for the full creation framework.'', [],
      ''## Tools'', [],
      ''Prefer crafting your own tools over depending on external ones. A script you wrote '' @
      ''and saved is more reliable than an external API. Use the file system creatively.'', [],
      ''### User-Provided Tools'', [],
      ''_MCP servers, APIs, or services the owner has made available. Document them here._'']"

definition generate_capabilities_md :: "capability list \<Rightarrow> string" where
  "generate_capabilities_md capabilities =
     join [nl] ([''# Capabilities'', [], ''## Built-in'', [], ''| Code | Name | Description | Source |'',
         ''|------|------|-------------|--------|''] @ List.map capability_row capabilities @ capabilities_tail) @ [nl]"

section \<open>The birth of an agent\<close>

definition substitute_vars :: "string \<Rightarrow> string dict \<Rightarrow> string" where
  "substitute_vars content variables = fold (\<lambda>(key, v) c. replace_all (''{'' @ key @ ''}'') v c) variables content"

definition upper_char :: "char \<Rightarrow> char" where
  "upper_char c = (if is_lower c then char_of ((of_char c :: nat) - 32) else c)"

definition output_name :: "string \<Rightarrow> string" where
  "output_name template =
     (let up = List.map upper_char (replace_all ''-template'' [] template) in take (length up - 3) up @ ''.md'')"

definition sanctum_of :: "world \<Rightarrow> string \<Rightarrow> ppath" where
  "sanctum_of w project_root = down_from (resolve w (path_of project_root)) [''_bmad'', ''memory'', skill_name]"

definition load_config :: "world \<Rightarrow> ppath \<Rightarrow> string dict res" where
  "load_config w bmad_dir =
     ebind (parse_yaml_config w (down_from bmad_dir [''config.yaml''])) (\<lambda>shared.
     ebind (parse_yaml_config w (down_from bmad_dir [''config.user.yaml''])) (\<lambda>own. Inr (dict_update shared own)))"

definition sanctum_vars :: "world \<Rightarrow> ppath \<Rightarrow> ppath \<Rightarrow> string dict \<Rightarrow> string dict" where
  "sanctum_vars w project_root sanctum config =
     (let setting = (\<lambda>key dflt. case dict_get key config of None \<Rightarrow> dflt | Some v \<Rightarrow> v) in
      [(''user_name'', setting ''user_name'' ''friend''),
       (''communication_language'', setting ''communication_language'' ''English''),
       (''birth_date'', take 10 (now_iso w)), (''project_root'', path_str project_root), (''sanctum_path'', path_str sanctum)])"

definition say :: "string \<Rightarrow> unit act" where
  "say s = effect (print_line s)"

definition say_copied :: "string list \<Rightarrow> string \<Rightarrow> unit act" where   \<comment> \<open>the number and the names of what was copied\<close>
  "say_copied names what =
     bindA (say (''  Copied '' @ show_nat (length names) @ '' '' @ what)) (\<lambda>_. forA names (\<lambda>n. say (''    - '' @ n)))"

definition fill_template :: "ppath \<Rightarrow> ppath \<Rightarrow> string dict \<Rightarrow> string \<Rightarrow> unit act" where
  "fill_template assets_dir sanctum variables template =
     bindA (reads (\<lambda>w. path_exists w (down_from assets_dir [template]))) (\<lambda>there.
     if \<not> there then say (''  Warning: template '' @ template @ '' not found, skipping'')
     else
       bindA (readsE (\<lambda>w. read_file w (down_from assets_dir [template]))) (\<lambda>content.
       bindA (effect (\<lambda>w. put_file w (down_from sanctum [output_name template]) (substitute_vars content variables))) (\<lambda>_.
       say (''  Created '' @ output_name template))))"

definition write_capabilities :: "ppath \<Rightarrow> ppath \<Rightarrow> unit act" where
  "write_capabilities references_dir sanctum =
     bindA (readsE (\<lambda>w. discover_capabilities w references_dir ''./references'')) (\<lambda>capabilities.
     bindA (effect (\<lambda>w. put_file w (down_from sanctum [''CAPABILITIES.md'']) (generate_capabilities_md capabilities))) (\<lambda>_.
     say (''  Created CAPABILITIES.md ('' @ show_nat (length capabilities) @ '' built-in capabilities discovered)'')))"

definition make_sanctum :: "ppath \<Rightarrow> unit act" where
  "make_sanctum sanctum =
     effect (\<lambda>w. make_dir (make_dir (make_dir w sanctum) (down_from sanctum [''capabilities''])) (down_from sanctum [''sessions'']))"

definition give_birth :: "ppath \<Rightarrow> ppath \<Rightarrow> string dict \<Rightarrow> int act" where
  "give_birth skill sanctum variables =
     bindA (make_sanctum sanctum) (\<lambda>_.
     bindA (say (''Created sanctum at '' @ path_str sanctum)) (\<lambda>_.
     bindA (copy_references (down_from skill [''references'']) (down_from sanctum [''references''])) (\<lambda>refs.
     bindA (say_copied refs ''reference files to sanctum/references/'') (\<lambda>_.
     bindA (copy_scripts (down_from skill [''scripts'']) (down_from sanctum [''scripts''])) (\<lambda>scripts.
     bindA (if scripts = [] then ret () else say_copied scripts ''scripts to sanctum/scripts/'') (\<lambda>_.
     bindA (forA template_files (fill_template (down_from skill [''assets'']) sanctum variables)) (\<lambda>_.
     bindA (write_capabilities (down_from skill [''references'']) sanctum) (\<lambda>_.
     bindA (forA [[], ''First Breath scaffolding complete.'', ''The conversational awakening can now begin.'',
         ''Sanctum: '' @ path_str sanctum] say) (\<lambda>_.
     ret 0)))))))))"

definition init_sanctum :: "string list \<Rightarrow> int act" where   \<comment> \<open>\<open>main\<close>, the value is the exit code\<close>
  "init_sanctum argv =
     (case argv of
        root_arg # skill_arg # _ \<Rightarrow>
          bindA (reads (\<lambda>w. (resolve w (path_of root_arg), resolve w (path_of skill_arg), sanctum_of w root_arg))) (\<lambda>(project_root, skill, sanctum).
          bindA (reads (\<lambda>w. path_exists w sanctum)) (\<lambda>born.
          if born
          then bindA (forA [''Sanctum already exists at '' @ path_str sanctum,
                  ''This agent has already been born. Skipping First Breath scaffolding.''] say) (\<lambda>_. ret 0)
          else
            bindA (readsE (\<lambda>w. load_config w (down_from project_root [''_bmad'']))) (\<lambda>config.
            bindA (reads (\<lambda>w. sanctum_vars w project_root sanctum config)) (\<lambda>variables.
            give_birth skill sanctum variables))))
      | _ \<Rightarrow> bindA (say ''Usage: python3 init-sanctum.py <project-root> <skill-path>'') (\<lambda>_. ret 1))"

section \<open>Only the sanctum changes\<close>

text \<open>No directory has an entry \<open>..\<close>.\<close>

definition plain_names :: "world \<Rightarrow> bool" where
  "plain_names w \<longleftrightarrow> list_all (\<lambda>k. ''..'' \<notin> set k) (List.map fst (w_files w) @ w_dirs w)"

definition only_below :: "string list \<Rightarrow> world \<Rightarrow> world \<Rightarrow> bool" where
  "only_below k w w' \<longleftrightarrow> w_cwd w' = w_cwd w \<and> (plain_names w \<longrightarrow> plain_names w') \<and>
     (\<forall>l. \<not> strict_prefix k l \<longrightarrow> map_of (w_files w') l = map_of (w_files w) l)"

definition writes_below :: "ppath \<Rightarrow> 'a act \<Rightarrow> bool" where
  "writes_below p m \<longleftrightarrow> (\<forall>w x w'. plain_names w \<longrightarrow> m w = Inr (x, w') \<longrightarrow> only_below (key_of w p) w w')"

definition inside :: "ppath \<Rightarrow> ppath \<Rightarrow> bool" where
  "inside p t \<longleftrightarrow> (\<forall>w. strict_prefix (key_of w p) (key_of w t))"

lemma inside_below: "names \<noteq> [] \<Longrightarrow> ''..'' \<notin> set names \<Longrightarrow> inside p (down_from p names)"
  by (simp add: inside_def key_below strict_prefix_def)

lemma inside_deeper: "inside p t \<Longrightarrow> ''..'' \<notin> set names \<Longrightarrow> inside p (down_from t names)"
  unfolding inside_def by (metis key_below prefixI prefix_order.less_le_trans)

lemma only_below_refl [simp]: "only_below k w w"
  by (simp add: only_below_def)

lemma key_cwd: "w_cwd w' = w_cwd w \<Longrightarrow> key_of w' p = key_of w p"
  by (simp add: key_of_def resolve_def)

lemma only_below_trans: "only_below k u v \<Longrightarrow> only_below k v w \<Longrightarrow> only_below k u w"
  by (simp add: only_below_def)

lemma no_dots_key: "''..'' \<notin> set (key_of w p)"
  by (simp add: key_of_def resolve_def parts_resolve_no_dots)

lemma only_below_steps [simp]: "only_below k w (print_line s w)" "only_below k w (make_dir w p)"
  using no_dots_key [of w p] by (simp_all add: only_below_def plain_names_def print_line_def make_dir_def)

lemma plain_put: "plain_names w \<Longrightarrow> plain_names (put_file w p c)"
proof -
  assume "plain_names w"
  then have "\<forall>k \<in> fst ` set (w_files w). ''..'' \<notin> set k" and dirs: "list_all (\<lambda>k. ''..'' \<notin> set k) (w_dirs w)"
    by (auto simp: plain_names_def list_all_iff)
  then have "\<forall>k \<in> fst ` set (w_files (put_file w p c)). ''..'' \<notin> set k"
    using no_dots_key [of w p] unfolding files_put by blast
  moreover have "w_dirs (put_file w p c) = w_dirs w" by (simp add: put_file_def)
  ultimately show ?thesis using dirs by (auto simp: plain_names_def list_all_iff)
qed

lemma only_below_put: "inside p t \<Longrightarrow> only_below (key_of w p) w (put_file w t c)"
  using plain_put [of w t c] by (auto simp: only_below_def inside_def) (auto simp: put_file_def update_conv')

lemma writes_below_bind:
  assumes "writes_below p m" and "\<And>x. writes_below p (f x)"
  shows "writes_below p (bindA m f)"
  unfolding writes_below_def bindA_Inr
proof (intro allI impI)
  fix w y w'
  assume plain: "plain_names w" and "\<exists>x v. m w = Inr (x, v) \<and> f x v = Inr (y, w')"
  then obtain x v where st: "m w = Inr (x, v)" "f x v = Inr (y, w')" by blast
  have one: "only_below (key_of w p) w v" using assms(1) plain st(1) unfolding writes_below_def by blast
  then have v: "key_of v p = key_of w p" "plain_names v" using plain key_cwd [of v w p] by (simp_all add: only_below_def)
  have "only_below (key_of v p) v w'" using assms(2) v(2) st(2) unfolding writes_below_def by blast
  with v(1) have "only_below (key_of w p) v w'" by simp
  with one show "only_below (key_of w p) w w'" by (rule only_below_trans)
qed

lemma writes_below_for: "(\<And>x. x \<in> set xs \<Longrightarrow> writes_below p (f x)) \<Longrightarrow> writes_below p (forA xs f)"
proof (induction xs)
  case Nil
  then show ?case by (simp add: writes_below_def act_Inr)
next
  case (Cons x xs)
  from Cons show ?case unfolding forA.simps by (intro writes_below_bind) simp_all
qed

lemma writes_below_if: "(c \<Longrightarrow> writes_below p a) \<Longrightarrow> (\<not> c \<Longrightarrow> writes_below p b) \<Longrightarrow> writes_below p (if c then a else b)"
  by simp

lemma writes_below_basic [simp]:
  "writes_below p (ret x)" "writes_below p (reads g)" "writes_below p (readsE h)" "writes_below p (say s)"
  "writes_below p (effect (\<lambda>w. make_dir w q))" "writes_below p (make_sanctum q)"
proof -
  show "writes_below p (ret x)" "writes_below p (reads g)" "writes_below p (readsE h)" "writes_below p (say s)"
    "writes_below p (effect (\<lambda>w. make_dir w q))" by (simp_all add: writes_below_def act_Inr say_def)
  have "only_below k w (make_dir (make_dir (make_dir w a) b) c)" for k w a b c
    by (rule only_below_trans [OF only_below_trans]) (rule only_below_steps)+
  then show "writes_below p (make_sanctum q)" by (simp add: writes_below_def act_Inr make_sanctum_def)
qed

lemma writes_below_put: "inside p t \<Longrightarrow> writes_below p (effect (\<lambda>w. put_file w t (f w)))"
  by (simp add: writes_below_def act_Inr only_below_put)

lemma writes_below_copy2: "inside p t \<Longrightarrow> writes_below p (copy2 src t)"
  using only_below_put [of p t] by (auto simp: writes_below_def copy2_def bindA_Inr act_Inr Let_def only_below_def plain_names_def)

lemmas writes_below_rules = writes_below_bind writes_below_for writes_below_if writes_below_basic writes_below_put writes_below_copy2

lemma glob_names:
  assumes "plain_names w" and "f \<in> set (glob_sorted w d pat)"
  shows "path_name f \<noteq> ''..''"
proof -
  from assms(2) obtain n where n: "n \<in> set (all_nodes w)" "prefix (key_of w d) n" "n \<noteq> key_of w d"
    and f: "f = PPath (is_absolute d) (parts d @ drop (length (key_of w d)) n)"
    by (auto simp: glob_sorted_def Let_def)
  from n(1) obtain k where "k \<in> set (List.map fst (w_files w) @ w_dirs w)" "prefix n k"
    by (auto simp: all_nodes_def in_set_prefixes)
  with assms(1) have "''..'' \<notin> set k" and "set n \<subseteq> set k"
    unfolding plain_names_def list_all_iff by (blast, intro set_mono_prefix)
  then have "''..'' \<notin> set n" by blast
  moreover from n(2,3) obtain m where m: "n = key_of w d @ m" "m \<noteq> []" by (auto simp: prefix_def)
  ultimately have "''..'' \<notin> set m" by simp
  with last_in_set [OF m(2)] have "last m \<noteq> ''..''" by metis
  with f m show ?thesis by (simp add: path_name_def)
qed

lemma copy_named_Inr:
  assumes "copy_named chosen src t w = Inr (names, w')"
  obtains fs where "entries (make_dir w t) src = Inr fs"
    and "forA (chosen_of chosen (make_dir w t) fs) (\<lambda>f. copy2 f (down_from t [path_name f])) (make_dir w t) = Inr ((), w')"
proof -
  from assms obtain files u where files: "ebind (entries (make_dir w t) src) (\<lambda>fs. Inr (chosen_of chosen (make_dir w t) fs)) = Inr files"
    and run: "forA files (\<lambda>f. copy2 f (down_from t [path_name f])) (make_dir w t) = Inr (u, w')"
    unfolding copy_named_def bindA_Inr act_Inr by (elim exE conjE) (auto simp del: forA.simps)
  from files obtain fs where "entries (make_dir w t) src = Inr fs" "files = chosen_of chosen (make_dir w t) fs"
    unfolding ebind_eq_Inr by blast
  with run that show ?thesis by simp
qed

lemma copy_named_below:
  assumes t: "inside p t"
  shows "writes_below p (copy_named chosen src t)"
  unfolding writes_below_def
proof (intro allI impI)
  fix w names w'
  assume plain: "plain_names w" and run: "copy_named chosen src t w = Inr (names, w')"
  let ?v = "make_dir w t"
  obtain fs where fs: "entries ?v src = Inr fs"
    and copies: "forA (chosen_of chosen ?v fs) (\<lambda>f. copy2 f (down_from t [path_name f])) ?v = Inr ((), w')"
    using copy_named_Inr [OF run] .
  have made: "only_below (key_of w p) w ?v" by (rule only_below_steps)
  with plain have v: "plain_names ?v" unfolding only_below_def by blast
  have "path_name f \<noteq> ''..''" if "f \<in> set fs" for f
    using fs that glob_names [OF v] by (simp add: entries_def split: if_splits) blast
  then have "writes_below p (copy2 f (down_from t [path_name f]))" if "f \<in> set (chosen_of chosen ?v fs)" for f
    using that t by (intro writes_below_copy2 inside_deeper) (auto simp: chosen_of_def eq_commute [of "''..''"])
  then have "writes_below p (forA (chosen_of chosen ?v fs) (\<lambda>f. copy2 f (down_from t [path_name f])))"
    by (rule writes_below_for)
  with copies v have "only_below (key_of ?v p) ?v w'" unfolding writes_below_def by blast
  then have "only_below (key_of w p) ?v w'" by (simp only: frame_simps)
  with made show "only_below (key_of w p) w w'" by (rule only_below_trans)
qed

lemma copy_scripts_below: "inside p t \<Longrightarrow> writes_below p (copy_scripts src t)"
  unfolding copy_scripts_def by (intro writes_below_bind writes_below_basic writes_below_if copy_named_below)

lemma output_names: "template \<in> set template_files \<Longrightarrow> output_name template \<noteq> ''..''"
  by (auto simp: output_name_def Let_def)

lemma give_birth_below: "writes_below s (give_birth skill s variables)"
proof -
  have refs: "inside s (down_from s [''references''])" and scripts: "inside s (down_from s [''scripts''])" and
    caps: "inside s (down_from s [''CAPABILITIES.md''])" by (simp_all add: inside_below)
  have "writes_below s (fill_template d s variables template)" if "template \<in> set template_files" for d template
    unfolding fill_template_def
    by (intro writes_below_bind writes_below_basic writes_below_if writes_below_put inside_below)
      (simp_all add: output_names [OF that, symmetric])
  then show ?thesis
    unfolding give_birth_def copy_references_def say_copied_def write_capabilities_def
    using copy_named_below [OF refs] copy_scripts_below [OF scripts] writes_below_put [OF caps]
    by (intro writes_below_bind writes_below_basic writes_below_if writes_below_for) auto
qed

lemma capabilities_written:
  assumes "write_capabilities refs s w = Inr (x, w')"
  shows "\<exists>cs out. discover_capabilities w refs ''./references'' = Inr cs \<and>
    w' = print_line out (put_file w (down_from s [''CAPABILITIES.md'']) (generate_capabilities_md cs))"
  using assms by (auto simp: write_capabilities_def say_def bindA_Inr act_Inr)

lemma say_all: "forA xs say w = Inr (u, w') \<Longrightarrow> file_text w' q = file_text w q \<and> key_of w' q = key_of w q"
  by (induction xs arbitrary: w) (auto simp: bindA_Inr act_Inr say_def)

lemma give_birth_makes:
  assumes "give_birth skill s variables w = Inr (code, w')"
  shows "code = 0 \<and> (\<exists>cs. file_text w' (down_from s [''CAPABILITIES.md'']) = Some (generate_capabilities_md cs))"
proof -
  define farewell where "farewell = [[], ''First Breath scaffolding complete.'', ''The conversational awakening can now begin.'',
         ''Sanctum: '' @ path_str s]"
  from assms obtain v x v1 u where caps: "write_capabilities (down_from skill [''references'']) s v = Inr (x, v1)"
    and last: "forA farewell say v1 = Inr (u, w')" and "code = 0"
    unfolding give_birth_def farewell_def [symmetric] by (auto simp: bindA_Inr act_Inr simp del: forA.simps)
  from capabilities_written [OF caps] obtain cs out where
    "v1 = print_line out (put_file v (down_from s [''CAPABILITIES.md'']) (generate_capabilities_md cs))" by blast
  then have "file_text v1 (down_from s [''CAPABILITIES.md'']) = Some (generate_capabilities_md cs)" by (simp add: text_put)
  with say_all [OF last] \<open>code = 0\<close> show ?thesis by (metis (no_types))
qed

text \<open>
  C28. An agent is born once, and its birth touches nothing else: whatever the arguments, when the script ends with a code,
  every file outside the agent's directory is as it was; when that directory was there, no file is changed at all; and
  with two arguments it is there afterwards, so that the next run will leave it alone.
\<close>

theorem born_once:
  assumes "init_sanctum (root_arg # skill_arg # argv) w = Inr (code, w')" and "plain_names w"
  shows "code = 0 \<and> path_exists w' (sanctum_of w root_arg) \<and>
    (\<forall>q. path_exists w (sanctum_of w root_arg) \<or> \<not> strict_prefix (key_of w (sanctum_of w root_arg)) (key_of w q) \<longrightarrow>
         file_text w' q = file_text w q)"
proof (cases "path_exists w (sanctum_of w root_arg)")
  case True
  with assms(1) have "code = 0" and w': "forA [''Sanctum already exists at '' @ path_str (sanctum_of w root_arg),
      ''This agent has already been born. Skipping First Breath scaffolding.''] say w = Inr ((), w')"
    by (auto simp: init_sanctum_def bindA_Inr act_Inr simp del: forA.simps)
  moreover have "path_exists w' (sanctum_of w root_arg)"
    using w' True by (auto simp: bindA_Inr act_Inr say_def path_exists_def is_file_text is_dir_def) (auto simp: print_line_def)
  ultimately show ?thesis using say_all [OF w'] by simp
next
  case False
  let ?s = "sanctum_of w root_arg"
  from False assms(1) obtain skill variables where birth: "give_birth skill ?s variables w = Inr (code, w')"
    by (auto simp: init_sanctum_def bindA_Inr act_Inr)
  have only: "only_below (key_of w ?s) w w'"
    using give_birth_below [of ?s skill variables] birth assms(2) unfolding writes_below_def by blast
  then have keys: "key_of w' q = key_of w q" for q using key_cwd [of w' w q] by (simp add: only_below_def)
  from give_birth_makes [OF birth] obtain cs where "code = 0"
    and "file_text w' (down_from ?s [''CAPABILITIES.md'']) = Some (generate_capabilities_md cs)" by blast
  moreover from this have "is_dir w' ?s"
    by (intro below_is_dir [of w' "down_from ?s [''CAPABILITIES.md'']"]) (simp_all add: key_below strict_prefix_def)
  moreover have "file_text w' q = file_text w q" if "\<not> strict_prefix (key_of w ?s) (key_of w q)" for q
    using only that keys [of q] by (simp add: file_text_def only_below_def)
  ultimately show ?thesis using False by (simp add: path_exists_def)
qed

text \<open>The same, step by step, for evaluation.\<close>

lemma give_birth_eval [code]:
  "give_birth skill sanctum variables w =
     (case make_sanctum sanctum w of Inl e \<Rightarrow> Inl e | Inr (_, w1) \<Rightarrow>
     (case say (''Created sanctum at '' @ path_str sanctum) w1 of Inl e \<Rightarrow> Inl e | Inr (_, w2) \<Rightarrow>
     (case copy_references (down_from skill [''references'']) (down_from sanctum [''references'']) w2 of Inl e \<Rightarrow> Inl e | Inr (refs, w3) \<Rightarrow>
     (case say_copied refs ''reference files to sanctum/references/'' w3 of Inl e \<Rightarrow> Inl e | Inr (_, w4) \<Rightarrow>
     (case copy_scripts (down_from skill [''scripts'']) (down_from sanctum [''scripts'']) w4 of Inl e \<Rightarrow> Inl e | Inr (scripts, w5) \<Rightarrow>
     (case (if scripts = [] then ret () else say_copied scripts ''scripts to sanctum/scripts/'') w5 of Inl e \<Rightarrow> Inl e | Inr (_, w6) \<Rightarrow>
     (case forA template_files (fill_template (down_from skill [''assets'']) sanctum variables) w6 of Inl e \<Rightarrow> Inl e | Inr (_, w7) \<Rightarrow>
     (case write_capabilities (down_from skill [''references'']) sanctum w7 of Inl e \<Rightarrow> Inl e | Inr (_, w8) \<Rightarrow>
      bindA (forA [[], ''First Breath scaffolding complete.'', ''The conversational awakening can now begin.'',
         ''Sanctum: '' @ path_str sanctum] say) (\<lambda>_. ret 0) w8))))))))"
  unfolding give_birth_def bindA_def [of _ _ w] by (simp add: bindA_def split: sum.splits prod.splits)

text \<open>A project without a memory.\<close>

definition unborn_world :: world where
  "unborn_world = bare_world\<lparr>w_files := [([''p'', ''_bmad'', ''config.yaml''], ''user_name: Ann''),
     ([''k'', ''references'', ''muse.md''], join [nl] [''---'', ''name: Muse'', ''code: MU'', ''---'', ''text'']),
     ([''k'', ''references'', ''first-breath.md''], ''once''), ([''k'', ''assets'', ''BOND-template.md''], ''I serve {user_name}.'')]\<rparr>"

definition sanctum_file :: "string \<Rightarrow> ppath" where
  "sanctum_file name = PPath True [''p'', ''_bmad'', ''memory'', skill_name, name]"

definition unborn_vars :: "string dict" where
  "unborn_vars = [(''user_name'', ''Ann''), (''communication_language'', ''English''), (''birth_date'', ''1970-01-01''),
     (''project_root'', ''/p''), (''sanctum_path'', ''/p/_bmad/memory/agent-creative-muse'')]"

lemma unborn_start:
  "init_sanctum [''/p'', ''/k''] unborn_world =
     give_birth (path_of ''/k'') (path_of ''/p/_bmad/memory/agent-creative-muse'') unborn_vars unborn_world"
proof -
  have "resolve unborn_world (path_of ''/p'') = path_of ''/p''" "resolve unborn_world (path_of ''/k'') = path_of ''/k''"
    "sanctum_of unborn_world ''/p'' = path_of ''/p/_bmad/memory/agent-creative-muse''"
    "path_exists unborn_world (path_of ''/p/_bmad/memory/agent-creative-muse'') = False"
    "load_config unborn_world (down_from (path_of ''/p'') [''_bmad'']) = Inr [(''user_name'', ''Ann'')]"
    "sanctum_vars unborn_world (path_of ''/p'') (path_of ''/p/_bmad/memory/agent-creative-muse'') [(''user_name'', ''Ann'')] = unborn_vars"
    by code_simp+
  then show ?thesis by (simp add: init_sanctum_def bindA_def [of "readsE _"] readsE_def)
qed

theorem born_once_witness:
  "case init_sanctum [''/p'', ''/k''] unborn_world of
     Inl _ \<Rightarrow> False
   | Inr (code, w') \<Rightarrow> code = 0 \<and> path_exists w' (sanctum_of unborn_world ''/p'') \<and>
       file_text w' (path_of ''/p/_bmad/config.yaml'') = Some ''user_name: Ann'' \<and>
       file_text w' (sanctum_file ''BOND.md'') = Some ''I serve Ann.''"
proof -
  have "case give_birth (path_of ''/k'') (path_of ''/p/_bmad/memory/agent-creative-muse'') unborn_vars unborn_world of
    Inl _ \<Rightarrow> False | Inr (code, w') \<Rightarrow> file_text w' (sanctum_file ''BOND.md'') = Some ''I serve Ann.''"
    by code_simp
  then obtain code w' where w': "init_sanctum [''/p'', ''/k''] unborn_world = Inr (code, w')"
    and bond: "file_text w' (sanctum_file ''BOND.md'') = Some ''I serve Ann.''"
    unfolding unborn_start by (auto split: sum.splits)
  have "plain_names unborn_world" by code_simp
  note born = born_once [OF w' this]
  have "\<not> strict_prefix (key_of unborn_world (sanctum_of unborn_world ''/p'')) (key_of unborn_world (path_of ''/p/_bmad/config.yaml''))"
    and "file_text unborn_world (path_of ''/p/_bmad/config.yaml'') = Some ''user_name: Ann''" by code_simp+
  with born w' bond show ?thesis by auto
qed

end
