(* ===== verification/Integrity_Prepass.thy ===== *)
theory Integrity_Prepass
  imports Exec_Prepass
begin

text \<open>
  \<open>.agents/skills/bmad-workflow-builder/scripts/prepass-workflow-integrity.py\<close>: the header, the sections, the stage
  files and the wording of a workflow skill are checked. The arguments are as \<open>argparse\<close> parsed them, a missing
  \<open>--output\<close> is the empty string; sets are sorted lists without repetitions.
\<close>

section \<open>Findings\<close>

record wfinding =
  wf_file :: string
  wf_line :: int
  wf_severity :: string
  wf_category :: string
  wf_issue :: string
  wf_fix :: "string option"

definition wfind :: "string \<Rightarrow> int \<Rightarrow> string \<Rightarrow> string \<Rightarrow> string \<Rightarrow> wfinding" where
  "wfind file line sev cat issue =
     \<lparr>wf_file = file, wf_line = line, wf_severity = sev, wf_category = cat, wf_issue = issue, wf_fix = None\<rparr>"

definition quote :: "string \<Rightarrow> string" where
  "quote s = [dquote] @ s @ [dquote]"

definition line_of :: "rmatch \<Rightarrow> int" where   \<comment> \<open>\<open>content[:m.start()].count('\n') + 1\<close>\<close>
  "line_of m = int (count_list (rm_before m) nl) + 1"

section \<open>The header\<close>

definition rx_header :: rx where   \<comment> \<open>\<open>^---\s*\n(.*?)\n---\s*\n\<close> under \<open>re.DOTALL\<close>\<close>
  "rx_header =
     rseq [RBol False, rlit ''---'', rstar rspace, rlit [nl], RGrp 1 (RStar False rany), rlit (nl # ''---''), rstar rspace, rlit [nl]]"

definition header_line :: "string \<Rightarrow> string dict \<Rightarrow> string dict" where
  "header_line line fm =
     (let s = strip line in
      if s = [] \<or> startswith s ''#'' then fm
      else
        (case split_once '':'' s of
           None \<Rightarrow> fm
         | Some (key, v) \<Rightarrow> dict_set (strip key) (strip_chars [squote] (strip_chars [dquote] (strip v))) fm))"

definition header_fields :: "string \<Rightarrow> string dict option" where
  "header_fields content =
     map_option (\<lambda>m. fold header_line (split_all [nl] (strip (rm_grp m 1))) []) (re_match rx_header content)"

definition rx_kebab :: rx where   \<comment> \<open>\<open>^[a-z0-9]+(-[a-z0-9]+)*$\<close>\<close>
  "rx_kebab =
     (let part = rplus (RChr (\<lambda>c. is_lower c \<or> is_digit c))
      in rseq [RBol False, part, rstar (RGrp 1 (RSeq (rlit ''-'') part)), REol False])"

definition field_of :: "string \<Rightarrow> string dict \<Rightarrow> string" where   \<comment> \<open>empty where there is none\<close>
  "field_of key fm = (case dict_get key fm of None \<Rightarrow> [] | Some v \<Rightarrow> v)"

definition header_finding :: "string \<Rightarrow> string \<Rightarrow> wfinding" where
  "header_finding sev issue = wfind ''SKILL.md'' 1 sev ''frontmatter'' issue"

definition name_findings :: "string dict \<Rightarrow> wfinding list" where
  "name_findings fm =
     (let name = field_of ''name'' fm in
      if name = [] then [header_finding ''critical'' (''Missing '' @ quote ''name'' @ '' field in frontmatter'')]
      else if re_match rx_kebab name = None then [header_finding ''high'' (''Name '' @ quote name @ '' is not kebab-case'')]
      else [])"

definition description_findings :: "string dict \<Rightarrow> wfinding list" where
  "description_findings fm =
     (let desc = field_of ''description'' fm in
      if desc = [] then [header_finding ''high'' (''Missing '' @ quote ''description'' @ '' field in frontmatter'')]
      else if \<not> contains desc ''Use when'' \<and> \<not> contains desc ''use when''
      then [header_finding ''medium'' (''Description missing '' @ quote ''Use when...'' @ '' trigger phrase'')]
      else [])"

definition extra_findings :: "string dict \<Rightarrow> wfinding list" where
  "extra_findings fm =
     (let extra = List.filter (\<lambda>k. k \<notin> set [''name'', ''description'', ''menu-code'']) (List.map fst fm) in
      if extra = [] then []
      else [header_finding ''low'' (''Extra frontmatter fields: '' @ join '', '' (sorted_strings (remdups extra)))])"

definition fm_findings :: "string dict option \<Rightarrow> wfinding list" where   \<comment> \<open>\<open>parse_frontmatter\<close>\<close>
  "fm_findings header =
     (case header of
        None \<Rightarrow> [header_finding ''critical'' ''No YAML frontmatter found'']
      | Some fm \<Rightarrow> name_findings fm @ description_findings fm @ extra_findings fm)"

section \<open>Sections\<close>

record heading =
  hd_level :: nat
  hd_title :: string
  hd_line :: int

definition rx_heading :: rx where   \<comment> \<open>\<open>^(#{2,3})\s+(.+)$\<close>\<close>
  "rx_heading =
     rseq [RBol False, RGrp 1 (ralt [rlit ''###'', rlit ''##'']), rplus rspace, RGrp 2 (rplus rdot), REol False]"

definition heading_of :: "int \<Rightarrow> string \<Rightarrow> heading list" where
  "heading_of n line =
     (case re_match rx_heading line of
        None \<Rightarrow> []
      | Some m \<Rightarrow> [\<lparr>hd_level = length (rm_grp m 1), hd_title = strip (rm_grp m 2), hd_line = n\<rparr>])"

definition extract_sections :: "string \<Rightarrow> heading list" where
  "extract_sections content = concat (List.map (\<lambda>(i, line). heading_of (int i) line) (enumerate 1 (split_all [nl] content)))"

definition rx_invalid :: "string list \<Rightarrow> rx" where   \<comment> \<open>\<open>^##\s+On\s+Exit\b\<close>, \<open>^##\s+Exiting\b\<close>\<close>
  "rx_invalid ws = rseq ([RBol False, rlit ''##''] @ concat (List.map (\<lambda>v. [rplus rspace, rlit v]) ws) @ [RWordB])"

definition never_run :: "string \<Rightarrow> string" where
  "never_run what = what @ '' section found '' @ em_dash @ '' no exit hooks exist in the system, this will never run''"

definition invalid_sections :: "(rx \<times> string) list" where
  "invalid_sections = [(rx_invalid [''On'', ''Exit''], never_run ''On Exit''), (rx_invalid [''Exiting''], never_run ''Exiting'')]"

definition missing_section :: "heading list \<Rightarrow> string \<Rightarrow> wfinding list" where
  "missing_section sections title =
     (if title \<notin> set (List.map hd_title (List.filter (\<lambda>s. hd_level s = 2) sections))
      then [wfind ''SKILL.md'' 1 ''high'' ''sections'' (''Missing ## '' @ title @ '' section'')] else [])"

definition invalid_findings :: "heading \<Rightarrow> wfinding list" where
  "invalid_findings s =
     (if hd_level s = 2
      then List.map (\<lambda>pm. wfind ''SKILL.md'' (hd_line s) ''high'' ''invalid-section'' (snd pm))
             (List.filter (\<lambda>pm. re_match (fst pm) (''## '' @ hd_title s) \<noteq> None) invalid_sections)
      else [])"

definition check_required_sections :: "heading list \<Rightarrow> wfinding list" where
  "check_required_sections sections =
     missing_section sections ''Overview'' @ missing_section sections ''On Activation'' @
     concat (List.map invalid_findings sections)"

section \<open>Wording\<close>

definition template_artifacts :: "string list" where
  "template_artifacts =
     [''{if-complex-workflow}'', ''{/if-complex-workflow}'', ''{if-simple-workflow}'', ''{/if-simple-workflow}'',
      ''{if-simple-utility}'', ''{/if-simple-utility}'', ''{if-module}'', ''{/if-module}'', ''{if-headless}'', ''{/if-headless}'',
      ''{displayName}'', ''{skillName}'']"

definition runtime_vars :: "string list" where
  "runtime_vars =
     [''{user_name}'', ''{communication_language}'', ''{document_output_language}'', ''{project-root}'', ''{output_folder}'',
      ''{planning_artifacts}'']"

definition artifact_finding :: "string \<Rightarrow> rmatch \<Rightarrow> wfinding" where
  "artifact_finding rel m =
     (wfind rel (line_of m) ''high'' ''artifacts'' (''Orphaned template artifact: '' @ rm_text m))
       \<lparr>wf_fix := Some ''Resolve or remove this template conditional/placeholder''\<rparr>"

definition artifacts_of :: "string \<Rightarrow> string \<Rightarrow> string \<Rightarrow> wfinding list" where
  "artifacts_of rel content artifact =
     List.map (artifact_finding rel)
       (List.filter (\<lambda>m. rm_text m \<notin> set runtime_vars) (re_finditer (rlit artifact) content))"

definition find_template_artifacts :: "string \<Rightarrow> string \<Rightarrow> wfinding list" where
  "find_template_artifacts content rel = concat (List.map (artifacts_of rel content) template_artifacts)"

text \<open>
  The patterns of indirect wording, under \<open>re.IGNORECASE\<close>. \<open>please\<close> is followed by \<open>(?! note)\<close>: as no word is a part of
  itself, the matches are those of the word that are not followed by the other.
\<close>

record wording =
  wd_word :: string
  wd_unless :: string
  wd_message :: string

definition directness_patterns :: "wording list" where
  "directness_patterns =
     [\<lparr>wd_word = ''you should'', wd_unless = [],
       wd_message = ''Suggestive '' @ quote ''you should'' @ '' '' @ em_dash @ '' use direct imperative''\<rparr>,
      \<lparr>wd_word = ''please'', wd_unless = '' note'',
       wd_message = ''Polite '' @ quote ''please'' @ '' '' @ em_dash @ '' use direct imperative''\<rparr>,
      \<lparr>wd_word = ''handle appropriately'', wd_unless = [],
       wd_message = ''Ambiguous '' @ quote ''handle appropriately'' @ '' '' @ em_dash @ '' specify how''\<rparr>,
      \<lparr>wd_word = ''when ready'', wd_unless = [],
       wd_message = ''Vague '' @ quote ''when ready'' @ '' '' @ em_dash @ '' specify testable condition''\<rparr>]"

definition wording_matches :: "string \<Rightarrow> wording \<Rightarrow> rmatch list" where
  "wording_matches content wd =
     List.filter (\<lambda>m. wd_unless wd = [] \<or> \<not> startswith (lower (rm_after m)) (wd_unless wd))
       (re_finditer (rseq [RWordB, rilit (wd_word wd), RWordB]) content)"

definition directness_findings :: "string \<Rightarrow> string \<Rightarrow> wfinding list" where
  "directness_findings rel content =
     concat (List.map (\<lambda>wd. List.map (\<lambda>m. wfind rel (line_of m) ''low'' ''language'' (wd_message wd)) (wording_matches content wd))
       directness_patterns)"

section \<open>Stages\<close>

definition is_stage_file :: "world \<Rightarrow> ppath \<Rightarrow> bool" where
  "is_stage_file w f \<longleftrightarrow>
     is_file w f \<and> path_suffix f = ''.md'' \<and> path_name f \<noteq> ''SKILL.md'' \<and> re_match rx_numbered (path_name f) \<noteq> None"

definition stage_files :: "world \<Rightarrow> ppath \<Rightarrow> ppath list res" where
  "stage_files w skill_path = ebind (entries w skill_path) (\<lambda>fs. Inr (List.filter (is_stage_file w) fs))"

definition rx_stage_ref :: rx where   \<comment> \<open>an optional \<open>prompts/\<close>, then digits, a hyphen, a name and \<open>.md\<close>\<close>
  "rx_stage_ref =
     RSeq (ropt (rlit ''prompts/''))
       (RGrp 1 (rseq [rplus rdigit, rlit ''-'', rplus (RChr (\<lambda>c. \<not> is_space c \<and> c \<noteq> CHR '')'' \<and> c \<noteq> backtick)), rlit ''.md'']))"

definition name_set :: "string list \<Rightarrow> string list" where   \<comment> \<open>\<open>sorted(set(names))\<close>\<close>
  "name_set names = sorted_strings (remdups names)"

definition referenced_stages :: "string \<Rightarrow> string list" where
  "referenced_stages content = name_set (List.map (\<lambda>m. rm_grp m 1) (re_finditer rx_stage_ref content))"

definition without :: "string list \<Rightarrow> string list \<Rightarrow> string list" where
  "without xs ys = List.filter (\<lambda>x. x \<notin> set ys) xs"

definition rx_stage_name :: rx where   \<comment> \<open>\<open>^(\d+)-(.+)\.md$\<close>\<close>
  "rx_stage_name = rseq [RBol False, RGrp 1 (rplus rdigit), rlit ''-'', RGrp 2 (rplus rdot), rlit ''.md'', REol False]"

definition stage_numbers :: "string list \<Rightarrow> nat list" where
  "stage_numbers actual =
     sort (List.map (\<lambda>m. nat_of_digits (rm_grp m 1)) (List.map_filter (re_match rx_stage_name) actual))"

definition gaps_of :: "nat list \<Rightarrow> nat list" where
  "gaps_of nums =
     (case nums of
        [] \<Rightarrow> []
      | first # _ \<Rightarrow>
          (let expected = [first ..< first + length nums] in
           if nums \<noteq> expected then List.filter (\<lambda>n. n \<notin> set nums) expected else []))"

definition show_nats :: "nat list \<Rightarrow> string" where
  "show_nats ns = ''['' @ join '', '' (List.map show_nat ns) @ '']''"

definition gap_findings :: "string \<Rightarrow> string list \<Rightarrow> wfinding list" where
  "gap_findings skill_name actual =
     (let gaps = gaps_of (stage_numbers actual) in
      if gaps = [] then []
      else [wfind skill_name 0 ''medium'' ''naming'' (''Stage numbering has gaps: missing '' @ show_nats gaps)])"

record stage_summary =
  ss_referenced :: "string list"
  ss_actual :: "string list"
  ss_missing :: "string list"
  ss_orphaned :: "string list"

definition stages_of :: "string \<Rightarrow> string list \<Rightarrow> stage_summary" where
  "stages_of content names =
     (let referenced = referenced_stages content; actual = name_set names in
      \<lparr>ss_referenced = referenced, ss_actual = actual, ss_missing = without referenced actual,
       ss_orphaned = without actual referenced\<rparr>)"

definition stage_findings :: "string \<Rightarrow> stage_summary \<Rightarrow> wfinding list" where   \<comment> \<open>\<open>cross_reference_stages\<close>\<close>
  "stage_findings skill_name ss =
     List.map (\<lambda>f. wfind ''SKILL.md'' 0 ''critical'' ''missing-stage'' (''Referenced stage file does not exist: '' @ f)) (ss_missing ss) @
     List.map (\<lambda>f. wfind f 0 ''medium'' ''naming'' (''Stage file exists but not referenced in SKILL.md: '' @ f)) (ss_orphaned ss) @
     gap_findings skill_name (ss_actual ss)"

section \<open>Prompts\<close>

record prompt_detail =
  pd_file :: string
  pd_config :: bool
  pd_progression :: bool

definition progression_words :: "string list" where
  "progression_words =
     [''progress'', ''advance'', ''move to'', ''next stage'', ''when complete'', ''proceed to'', ''transition'', ''completion criteria'']"

definition has_config_header :: "string \<Rightarrow> bool" where
  "has_config_header content \<longleftrightarrow> contains content ''{communication_language}'' \<or> contains content ''{document_output_language}''"

definition has_progression :: "string \<Rightarrow> bool" where
  "has_progression content \<longleftrightarrow> list_ex (\<lambda>kw. contains (lower content) kw) progression_words"

definition prompt_findings :: "string \<Rightarrow> string \<Rightarrow> wfinding list" where
  "prompt_findings rel content =
     (if has_config_header content then []
      else [wfind rel 1 ''medium'' ''config-header'' ''No config header with language variables found'']) @
     (if has_progression content then []
      else [wfind rel (int (length (split_all [nl] content))) ''high'' ''progression'' ''No progression condition keywords found'']) @
     directness_findings rel content @ find_template_artifacts content rel"

definition prompt_of :: "world \<Rightarrow> ppath \<Rightarrow> (prompt_detail \<times> wfinding list) res" where
  "prompt_of w f =
     ebind (read_file w f) (\<lambda>content. Inr
       (\<lparr>pd_file = path_name f, pd_config = has_config_header content, pd_progression = has_progression content\<rparr>,
        prompt_findings (path_name f) content))"

section \<open>The scan\<close>

definition workflow_type :: "string \<Rightarrow> bool \<Rightarrow> string" where   \<comment> \<open>\<open>detect_workflow_type\<close>\<close>
  "workflow_type content has_prompts =
     (let has_stage_refs = re_test (rseq [ropt (rlit ''prompts/''), rplus rdigit, rlit ''-'', rplus rnspace, rlit ''.md'']) content;
          has_routing = re_test (ralt (List.map rilit [''rout'', ''stage'', ''branch'', ''path''])) content in
      if has_stage_refs \<or> has_prompts \<and> has_routing then ''complex''
      else if re_test (rseq [RBol True, rplus rdigit, rlit ''.'', rspace]) content then ''simple-workflow''
      else ''simple-utility'')"

record integrity =
  in_status :: string
  in_header :: "string dict option"
  in_sections :: "heading list"
  in_type :: string
  in_stages :: stage_summary
  in_prompts :: "prompt_detail list"
  in_issues :: "wfinding list"

definition severity_count :: "wfinding list \<Rightarrow> string \<Rightarrow> nat" where
  "severity_count issues sev = length (List.filter (\<lambda>i. wf_severity i = sev) issues)"

definition integrity_status :: "wfinding list \<Rightarrow> string" where
  "integrity_status issues =
     (if 0 < severity_count issues ''critical'' then ''fail'' else if 0 < severity_count issues ''high'' then ''warning'' else ''pass'')"

definition scan_of :: "string \<Rightarrow> string \<Rightarrow> ppath list \<Rightarrow> (prompt_detail \<times> wfinding list) list \<Rightarrow> integrity" where
  "scan_of skill_name content files prompts =
     (let header = header_fields content; sections = extract_sections content; stages = stages_of content (List.map path_name files);
          issues = fm_findings header @ check_required_sections sections @ find_template_artifacts content ''SKILL.md'' @
            directness_findings ''SKILL.md'' content @ stage_findings skill_name stages @ concat (List.map snd prompts)
      in \<lparr>in_status = integrity_status issues, in_header = header, in_sections = sections,
          in_type = workflow_type content (files \<noteq> []), in_stages = stages, in_prompts = List.map fst prompts, in_issues = issues\<rparr>)"

text \<open>\<open>None\<close> where there is no \<open>SKILL.md\<close>.\<close>

definition scan_workflow_integrity :: "world \<Rightarrow> ppath \<Rightarrow> integrity option res" where
  "scan_workflow_integrity w skill_path =
     (if \<not> path_exists w (under skill_path ''SKILL.md'') then Inr None
      else
        ebind (read_file w (under skill_path ''SKILL.md'')) (\<lambda>content.
        ebind (stage_files w skill_path) (\<lambda>files.
        ebind (map_res (prompt_of w) files) (\<lambda>prompts.
        Inr (Some (scan_of (path_name skill_path) content files prompts))))))"

section \<open>Output\<close>

definition wfinding_json :: "wfinding \<Rightarrow> pyval" where
  "wfinding_json i =
     VDict ([(''file'', VStr (wf_file i)), (''line'', VInt (wf_line i)), (''severity'', VStr (wf_severity i)),
       (''category'', VStr (wf_category i)), (''issue'', VStr (wf_issue i))] @
       (case wf_fix i of None \<Rightarrow> [] | Some fix \<Rightarrow> [(''fix'', VStr fix)]))"

definition counts_json :: "wfinding list \<Rightarrow> pyval" where
  "counts_json issues =
     VDict [(''total_issues'', VInt (int (length issues))),
       (''by_severity'', VDict (List.map (\<lambda>sev. (sev, VInt (int (severity_count issues sev))))
          [''critical'', ''high'', ''medium'', ''low'']))]"

definition heading_json :: "heading \<Rightarrow> pyval" where
  "heading_json s = VDict [(''level'', VInt (int (hd_level s))), (''title'', VStr (hd_title s)), (''line'', VInt (hd_line s))]"

definition stages_json :: "stage_summary \<Rightarrow> pyval" where
  "stages_json ss =
     VDict [(''total_stages'', VInt (int (length (ss_actual ss)))), (''referenced'', strings_json (ss_referenced ss)),
       (''actual'', strings_json (ss_actual ss)), (''missing_stages'', strings_json (ss_missing ss)),
       (''orphaned_stages'', strings_json (ss_orphaned ss))]"

definition prompt_json :: "prompt_detail \<Rightarrow> pyval" where
  "prompt_json d =
     VDict [(''file'', VStr (pd_file d)), (''has_config_header'', VBool (pd_config d)), (''has_progression'', VBool (pd_progression d))]"

definition no_skill_issue :: wfinding where
  "no_skill_issue = wfind ''SKILL.md'' 1 ''critical'' ''missing-file'' ''SKILL.md does not exist''"

definition integrity_json :: "world \<Rightarrow> ppath \<Rightarrow> integrity option \<Rightarrow> pyval" where
  "integrity_json w skill_path result =
     (let start = [(''scanner'', VStr ''workflow-integrity-prepass''), (''script'', VStr ''prepass-workflow-integrity.py''),
        (''version'', VStr ''1.0.0''), (''skill_path'', VStr (path_str skill_path)), (''timestamp'', VStr (now_iso w))] in
      case result of
        None \<Rightarrow> VDict (start @ [(''status'', VStr ''fail''), (''issues'', VList [wfinding_json no_skill_issue]),
          (''summary'', counts_json [no_skill_issue])])
      | Some r \<Rightarrow> VDict (start @ [(''status'', VStr (in_status r)),
          (''metadata'', VDict [
             (''frontmatter'', case in_header r of None \<Rightarrow> VNone | Some fm \<Rightarrow> VDict (List.map (\<lambda>(k, v). (k, VStr v)) fm)),
             (''sections'', VList (List.map heading_json (in_sections r))), (''workflow_type'', VStr (in_type r))]),
          (''stage_summary'', stages_json (in_stages r)), (''prompt_details'', VList (List.map prompt_json (in_prompts r))),
          (''issues'', VList (List.map wfinding_json (in_issues r))), (''summary'', counts_json (in_issues r))]))"

definition integrity_code :: "integrity option \<Rightarrow> int" where
  "integrity_code result = (case result of Some r \<Rightarrow> if in_status r = ''pass'' then 0 else 1 | None \<Rightarrow> 1)"

definition workflow_integrity :: "string \<Rightarrow> string \<Rightarrow> int act" where   \<comment> \<open>\<open>main\<close>\<close>
  "workflow_integrity skill_path output_file =
     bindA (reads (\<lambda>w. is_dir w (path_of skill_path))) (\<lambda>there.
     if \<not> there then ret 2
     else
       bindA (readsE (\<lambda>w. scan_workflow_integrity w (path_of skill_path))) (\<lambda>r.
       bindA (reads (\<lambda>w. json_dumps style_indent2 (integrity_json w (path_of skill_path) r))) (\<lambda>content.
       bindA (write_scan_output output_file content) (\<lambda>_. ret (integrity_code r)))))"

section \<open>Literal matches\<close>

lemma search_some: "search_from r pre rest = Some m \<Longrightarrow> \<exists>u v. rest = u @ v \<and> match_at r (rev u @ pre) v = Some m"
proof (induction rest arbitrary: pre)
  case Nil
  then show ?case by (subst (asm) search_from.simps) (simp split: option.splits)
next
  case (Cons c cs)
  show ?case
  proof (cases "match_at r pre (c # cs)")
    case None
    with Cons.prems have "search_from r (c # pre) cs = Some m" by (subst (asm) search_from.simps) simp
    from Cons.IH [OF this] obtain u v where "cs = u @ v" "match_at r (rev u @ c # pre) v = Some m" by blast
    then show ?thesis by (intro exI [of _ "c # u"] exI [of _ v]) simp
  next
    case (Some m')
    with Cons.prems have "m' = m" by (subst (asm) search_from.simps) simp
    with Some show ?thesis by (intro exI [of _ "[]"] exI [of _ "c # cs"]) simp
  qed
qed

lemma search_hits: "match_at r (rev u @ pre) v = Some m \<Longrightarrow> search_from r pre (u @ v) \<noteq> None"
proof (induction u arbitrary: pre)
  case Nil
  then show ?case by (subst search_from.simps) simp
next
  case (Cons c u)
  from Cons.IH [of "c # pre"] Cons.prems show ?case by (subst search_from.simps) (simp split: option.splits)
qed

lemma literal_match: "match_at (rlit a) pre rest = Some m \<Longrightarrow> rm_text m = a"
  by (auto simp: match_at_def rrun_rlit match_of_def prefix_def split: if_splits)

lemma literal_found:
  assumes "contains s a"
  shows "\<exists>m \<in> set (re_finditer (rlit a) s). rm_text m = a"
proof -
  from assms obtain u v where s: "s = u @ a @ v" by (auto simp: contains_iff_sublist sublist_def)
  have "match_at (rlit a) (rev u) (a @ v) \<noteq> None" by (simp add: match_at_def rrun_rlit)
  then obtain m0 where m0: "match_at (rlit a) (rev u @ []) (a @ v) = Some m0" by auto
  from search_hits [OF m0] s obtain m where m: "search_from (rlit a) [] s = Some m" by auto
  then have "m \<in> set (re_finditer (rlit a) s)" by (simp add: re_finditer_def)
  moreover from search_some [OF m] literal_match have "rm_text m = a" by blast
  ultimately show ?thesis by blast
qed

lemma literal_absent: "\<not> contains s a \<Longrightarrow> re_finditer (rlit a) s = []"
proof -
  assume absent: "\<not> contains s a"
  have "search_from (rlit a) [] s = None"
  proof (rule ccontr)
    assume "search_from (rlit a) [] s \<noteq> None"
    then obtain m where m: "search_from (rlit a) [] s = Some m" by blast
    from search_some [OF m] obtain u v where s: "s = u @ v" and "match_at (rlit a) (rev u @ []) v = Some m" by blast
    then have "prefix a v" by (auto simp: match_at_def rrun_rlit split: if_splits)
    with s absent show False by (auto simp: contains_iff_sublist sublist_def prefix_def)
  qed
  then show ?thesis by (simp add: re_finditer_def)
qed

lemma no_artifacts:
  assumes "\<forall>i \<in> set (find_template_artifacts content rel). wf_severity i \<noteq> ''high''" and "a \<in> set template_artifacts"
  shows "\<not> contains content a"
proof
  assume "contains content a"
  from literal_found [OF this] obtain m where m: "m \<in> set (re_finditer (rlit a) content)" "rm_text m = a" by blast
  have "list_all (\<lambda>a. a \<notin> set runtime_vars) template_artifacts" by code_simp
  with assms(2) m have "artifact_finding rel m \<in> set (find_template_artifacts content rel)"
    by (auto simp: find_template_artifacts_def artifacts_of_def list_all_iff)
  moreover have "wf_severity (artifact_finding rel m) = ''high''" by (simp add: artifact_finding_def wfind_def)
  ultimately show False using assms(1) by blast
qed

lemma no_artifacts_found: "list_all (\<lambda>a. \<not> contains content a) template_artifacts \<Longrightarrow> find_template_artifacts content rel = []"
  by (auto simp: find_template_artifacts_def artifacts_of_def list_all_iff literal_absent)

section \<open>What a pass means\<close>

definition headed :: "string \<Rightarrow> string \<Rightarrow> bool" where
  "headed content title \<longleftrightarrow> (\<exists>s \<in> set (extract_sections content). hd_level s = 2 \<and> hd_title s = title)"

definition serious :: "wfinding \<Rightarrow> bool" where
  "serious i \<longleftrightarrow> wf_severity i = ''critical'' \<or> wf_severity i = ''high''"

lemma passed_issues: "integrity_status issues = ''pass'' \<longleftrightarrow> (\<forall>i \<in> set issues. \<not> serious i)"
  by (auto simp: integrity_status_def severity_count_def serious_def filter_empty_conv)

lemma header_passed:
  assumes "\<forall>i \<in> set (fm_findings header). \<not> serious i"
  obtains fm where "header = Some fm" "field_of ''name'' fm \<noteq> []" "re_match rx_kebab (field_of ''name'' fm) \<noteq> None"
    "field_of ''description'' fm \<noteq> []"
proof (cases header)
  case None
  with assms show ?thesis by (simp add: fm_findings_def header_finding_def wfind_def serious_def)
next
  case (Some fm)
  with assms have "\<forall>i \<in> set (name_findings fm). \<not> serious i" "\<forall>i \<in> set (description_findings fm). \<not> serious i"
    by (simp_all add: fm_findings_def)
  with Some show ?thesis
    by (intro that) (auto simp: name_findings_def description_findings_def Let_def header_finding_def wfind_def serious_def
        split: if_splits)
qed

lemma section_passed: "\<forall>i \<in> set (missing_section (extract_sections c) title). \<not> serious i \<Longrightarrow> headed c title"
  by (auto simp: missing_section_def headed_def wfind_def serious_def split: if_splits)

lemma stages_passed:
  assumes "\<forall>i \<in> set (stage_findings n (stages_of content names)). \<not> serious i" and "r \<in> set (referenced_stages content)"
  shows "r \<in> set names"
proof -
  have "ss_missing (stages_of content names) = []"
    using assms(1) by (cases "ss_missing (stages_of content names)") (auto simp: stage_findings_def wfind_def serious_def)
  then have "r \<in> set (name_set names)" using assms(2) by (auto simp: stages_of_def Let_def without_def filter_empty_conv)
  then show ?thesis by (simp add: name_set_def)
qed

lemma prompt_passed:
  assumes "\<forall>i \<in> set (prompt_findings rel content). \<not> serious i"
  shows "has_progression content" and "a \<in> set template_artifacts \<Longrightarrow> \<not> contains content a"
proof -
  show "has_progression content" using assms by (auto simp: prompt_findings_def wfind_def serious_def split: if_splits)
  have "\<forall>i \<in> set (find_template_artifacts content rel). wf_severity i \<noteq> ''high''"
    using assms by (auto simp: prompt_findings_def serious_def)
  then show "a \<in> set template_artifacts \<Longrightarrow> \<not> contains content a" by (rule no_artifacts)
qed

lemma wording_not_grave: "i \<in> set (directness_findings rel content) \<Longrightarrow> \<not> serious i"
  by (auto simp: directness_findings_def wfind_def serious_def)

lemma map_res_member: "map_res f xs = Inr ys \<Longrightarrow> x \<in> set xs \<Longrightarrow> \<exists>y \<in> set ys. f x = Inr y"
  by (induction xs arbitrary: ys) (auto simp: ebind_eq_Inr)

lemma integrity_code_0:
  assumes "workflow_integrity skill_path out w = Inr (0, w')"
  obtains content files prompts where
    "read_file w (under (path_of skill_path) ''SKILL.md'') = Inr content" "stage_files w (path_of skill_path) = Inr files"
    "map_res (prompt_of w) files = Inr prompts"
    "\<forall>i \<in> set (in_issues (scan_of (path_name (path_of skill_path)) content files prompts)). \<not> serious i"
proof -
  from assms obtain r where r: "scan_workflow_integrity w (path_of skill_path) = Inr r" and "integrity_code r = 0"
    by (auto simp: workflow_integrity_def bindA_Inr act_Inr split: if_splits)
  then obtain s where s: "r = Some s" "in_status s = ''pass''" by (auto simp: integrity_code_def split: option.splits if_splits)
  with r obtain content files prompts where st: "read_file w (under (path_of skill_path) ''SKILL.md'') = Inr content"
      "stage_files w (path_of skill_path) = Inr files" "map_res (prompt_of w) files = Inr prompts"
      "s = scan_of (path_name (path_of skill_path)) content files prompts"
    by (auto simp: scan_workflow_integrity_def ebind_eq_Inr split: if_splits)
  with s(2) have "\<forall>i \<in> set (in_issues s). \<not> serious i" by (simp add: scan_of_def Let_def passed_issues)
  with st show ?thesis by (intro that) simp_all
qed

text \<open>
  C25. A workflow that passes is whole: when the check ends with code 0, the skill has its text, with a header that gives it a
  name in kebab case and a description, with the two sections it needs and none that never runs; every stage that the text
  refers to is a file of the skill; every stage says how it goes on; and nothing of a template is left in any of them.
\<close>

theorem passing_workflow_sound:
  assumes "workflow_integrity skill_path out w = Inr (0, w')"
  shows "\<exists>content fm files.
    read_file w (under (path_of skill_path) ''SKILL.md'') = Inr content \<and> stage_files w (path_of skill_path) = Inr files \<and>
    header_fields content = Some fm \<and> field_of ''name'' fm \<noteq> [] \<and> re_match rx_kebab (field_of ''name'' fm) \<noteq> None \<and>
    field_of ''description'' fm \<noteq> [] \<and> headed content ''Overview'' \<and> headed content ''On Activation'' \<and>
    (\<forall>s \<in> set (extract_sections content). invalid_findings s = []) \<and>
    (\<forall>r \<in> set (referenced_stages content). \<exists>f \<in> set files. path_name f = r) \<and>
    (\<forall>f \<in> set files. \<exists>c. read_file w f = Inr c \<and> has_progression c \<and> (\<forall>a \<in> set template_artifacts. \<not> contains c a)) \<and>
    (\<forall>a \<in> set template_artifacts. \<not> contains content a)"
proof -
  from integrity_code_0 [OF assms] obtain content files prompts where
      st: "read_file w (under (path_of skill_path) ''SKILL.md'') = Inr content" "stage_files w (path_of skill_path) = Inr files"
      "map_res (prompt_of w) files = Inr prompts" and
      fine: "\<forall>i \<in> set (in_issues (scan_of (path_name (path_of skill_path)) content files prompts)). \<not> serious i" .
  have parts: "\<forall>i \<in> set (fm_findings (header_fields content)). \<not> serious i"
      "\<forall>i \<in> set (check_required_sections (extract_sections content)). \<not> serious i"
      "\<forall>i \<in> set (find_template_artifacts content ''SKILL.md''). \<not> serious i"
      "\<forall>i \<in> set (stage_findings (path_name (path_of skill_path)) (stages_of content (List.map path_name files))). \<not> serious i"
      "\<forall>p \<in> set prompts. \<forall>i \<in> set (snd p). \<not> serious i"
    using fine by (auto simp: scan_of_def Let_def)
  from header_passed [OF parts(1)] obtain fm where fm: "header_fields content = Some fm" "field_of ''name'' fm \<noteq> []"
    "re_match rx_kebab (field_of ''name'' fm) \<noteq> None" "field_of ''description'' fm \<noteq> []" .
  have sections: "headed content ''Overview''" "headed content ''On Activation''"
    using parts(2) by (auto simp: check_required_sections_def intro!: section_passed)
  have invalid: "invalid_findings s = []" if "s \<in> set (extract_sections content)" for s
  proof -
    have "\<forall>i \<in> set (invalid_findings s). \<not> serious i" using parts(2) that by (auto simp: check_required_sections_def)
    moreover have "\<forall>i \<in> set (invalid_findings s). serious i" by (auto simp: invalid_findings_def wfind_def serious_def)
    ultimately show ?thesis by (metis list.set_sel(1))
  qed
  have stages: "\<exists>f \<in> set files. path_name f = r" if "r \<in> set (referenced_stages content)" for r
    using stages_passed [OF parts(4) that] by auto
  have prompts: "\<exists>c. read_file w f = Inr c \<and> has_progression c \<and> (\<forall>a \<in> set template_artifacts. \<not> contains c a)"
    if "f \<in> set files" for f
  proof -
    from map_res_member [OF st(3) that] obtain p where "p \<in> set prompts" "prompt_of w f = Inr p" by blast
    then obtain c where "read_file w f = Inr c" "snd p = prompt_findings (path_name f) c" by (auto simp: prompt_of_def ebind_eq_Inr)
    with parts(5) \<open>p \<in> set prompts\<close> prompt_passed [of "path_name f" c] show ?thesis by metis
  qed
  have "\<forall>a \<in> set template_artifacts. \<not> contains content a" using parts(3) no_artifacts [of content "''SKILL.md''"] by (simp add: serious_def)
  with st fm sections invalid stages prompts show ?thesis by blast
qed

text \<open>A workflow of one stage.\<close>

definition flow_text :: string where
  "flow_text = join [nl] [''---'', ''name: a'', ''description: d'', ''---'', ''## Overview'', ''1-go.md'', ''## On Activation'']"

definition flow_world :: world where
  "flow_world = bare_world\<lparr>w_files := [([''f'', ''SKILL.md''], flow_text), ([''f'', ''1-go.md''], ''{communication_language} proceed to 2'')]\<rparr>"

definition go_text :: string where
  "go_text = ''{communication_language} proceed to 2''"

lemma flow_passes: "\<exists>w'. workflow_integrity ''/f'' [] flow_world = Inr (0, w')"
proof -
  let ?files = "[path_of ''/f/1-go.md'']"
  have files: "stage_files flow_world (path_of ''/f'') = Inr ?files" by code_simp
  have go: "read_file flow_world (path_of ''/f/1-go.md'') = Inr go_text" by code_simp
  have header: "list_all (\<lambda>i. \<not> serious i) (fm_findings (header_fields flow_text))" by code_simp
  have sections: "check_required_sections (extract_sections flow_text) = []" by code_simp
  have stages: "stage_findings ''f'' (stages_of flow_text [''1-go.md'']) = []" by code_simp
  have words: "has_config_header go_text" "has_progression go_text" by code_simp+
  have none: "find_template_artifacts flow_text rel = []" "find_template_artifacts go_text rel = []" for rel
    by (rule no_artifacts_found, code_simp)+
  have names: "path_name (path_of ''/f'') = ''f''" "List.map path_name ?files = [''1-go.md'']" by code_simp+
  obtain d where prompts: "map_res (prompt_of flow_world) ?files = Inr [(d, directness_findings ''1-go.md'' go_text)]"
    using go words none names(2) by (simp add: prompt_of_def prompt_findings_def ebind_def)
  have "in_status (scan_of ''f'' flow_text ?files [(d, directness_findings ''1-go.md'' go_text)]) = ''pass''"
    using header sections stages none names wording_not_grave
    by (auto simp: scan_of_def Let_def passed_issues list_all_iff)
  moreover have "path_exists flow_world (under (path_of ''/f'') ''SKILL.md'')" "is_dir flow_world (path_of ''/f'')"
    "read_file flow_world (under (path_of ''/f'') ''SKILL.md'') = Inr flow_text" by code_simp+
  ultimately show ?thesis using files prompts names
    by (simp add: workflow_integrity_def scan_workflow_integrity_def bindA_def readsE_def ebind_def write_scan_output_def ret_def
        integrity_code_def)
qed

theorem passing_workflow_sound_witness:
  "\<exists>fm files. header_fields flow_text = Some fm \<and> stage_files flow_world (path_of ''/f'') = Inr files \<and>
     referenced_stages flow_text = [''1-go.md''] \<and> (\<exists>f \<in> set files. path_name f = ''1-go.md'')"
proof -
  from flow_passes obtain w' where w': "workflow_integrity ''/f'' [] flow_world = Inr (0, w')" by blast
  from passing_workflow_sound [OF w'] obtain content fm files where sound:
      "read_file flow_world (under (path_of ''/f'') ''SKILL.md'') = Inr content" "header_fields content = Some fm"
      "stage_files flow_world (path_of ''/f'') = Inr files" "\<forall>r \<in> set (referenced_stages content). \<exists>f \<in> set files. path_name f = r"
    by blast
  have "read_file flow_world (under (path_of ''/f'') ''SKILL.md'') = Inr flow_text" by code_simp
  with sound(1) have "content = flow_text" by simp
  moreover have "referenced_stages flow_text = [''1-go.md'']" by code_simp
  ultimately show ?thesis using sound(2-4) by auto
qed

section \<open>The numbers of the stages\<close>

lemma sorted_run: "sorted (n # ns) \<Longrightarrow> set [n ..< n + length (n # ns)] \<subseteq> set (n # ns) \<Longrightarrow> n # ns = [n ..< n + length (n # ns)]"
proof -
  assume sorted: "sorted (n # ns)" and sub: "set [n ..< n + length (n # ns)] \<subseteq> set (n # ns)"
  have "card (set [n ..< n + length (n # ns)]) = length (n # ns)" by simp
  moreover have "card (set (n # ns)) \<le> length (n # ns)" by (rule card_length)
  ultimately have same: "set (n # ns) = set [n ..< n + length (n # ns)]"
    using card_seteq [OF _ sub] by simp
  then have "distinct (n # ns)" by (intro card_distinct) simp
  with sorted same show ?thesis by (intro sorted_distinct_set_unique) (simp_all del: upt_Suc)
qed

text \<open>A gap is reported exactly when the numbers are not consecutive, and also for a number that comes twice.\<close>

lemma gaps_exact:
  assumes "sorted nums"
  shows "gaps_of nums = [] \<longleftrightarrow> nums = [hd nums ..< hd nums + length nums]"
proof (cases nums)
  case (Cons n ns)
  then show ?thesis
    using sorted_run [of n ns] assms by (auto simp: gaps_of_def Let_def filter_empty_conv simp del: upt_Suc)
qed (simp add: gaps_of_def)

lemma twice_is_a_gap: "gaps_of [1, 1, 2] = [3]"
  by code_simp

end
