(* ===== verification/Structure_Prepass.thy ===== *)
theory Structure_Prepass
  imports Integrity_Prepass
begin

text \<open>
  \<open>.agents/skills/bmad-agent-builder/scripts/prepass-structure-capabilities.py\<close>: the header, the sections, the memory
  paths and the wording of an agent skill are checked. \<open>yaml\<close> is a parameter, the \<open>safe_load\<close> of the YAML package: it
  answers the text of a \<open>YAMLError\<close> or a value whose mappings have strings as keys. What the script has in common with
  that of \<open>Integrity_Prepass\<close> is taken from there.
\<close>

section \<open>The header\<close>

type_synonym yaml_load = "string \<Rightarrow> string + pyval"

definition agent_header :: "yaml_load \<Rightarrow> string \<Rightarrow> string + pyval dict" where   \<comment> \<open>the message of the finding, or the fields\<close>
  "agent_header yaml content =
     (case re_match rx_header content of
        None \<Rightarrow> Inl ''No YAML frontmatter found''
      | Some m \<Rightarrow>
          (case yaml (rm_grp m 1) of
             Inl e \<Rightarrow> Inl (''Invalid YAML frontmatter: '' @ e)
           | Inr (VDict fm) \<Rightarrow> Inr fm
           | Inr _ \<Rightarrow> Inl ''Frontmatter is not a YAML mapping''))"

definition agent_name_findings :: "pyval dict \<Rightarrow> wfinding list res" where
  "agent_name_findings fm =
     (let v = get_or VNone ''name'' fm in
      if \<not> truth v then Inr [header_finding ''critical'' (''Missing '' @ quote ''name'' @ '' field in frontmatter'')]
      else
        (case v of
           VStr name \<Rightarrow> Inr
             (if re_match rx_kebab name = None then [header_finding ''high'' (''Name '' @ quote name @ '' is not kebab-case'')]
              else if ''agent'' \<notin> set (split_all ''-'' name)
              then [header_finding ''medium'' (''Name '' @ quote name @ '' should contain '' @ quote ''agent'' @
                      '' (e.g., agent-{name} or {code}-agent-{name})'')]
              else [])
         | _ \<Rightarrow> Inl TypeError))"

definition mentions :: "string \<Rightarrow> pyval \<Rightarrow> bool res" where   \<comment> \<open>\<open>s in v\<close>\<close>
  "mentions s v =
     (case v of
        VStr t \<Rightarrow> Inr (contains t s)
      | VList vs \<Rightarrow> Inr (VStr s \<in> set vs)
      | VDict d \<Rightarrow> Inr (dict_has s d)
      | _ \<Rightarrow> Inl TypeError)"

definition agent_description_findings :: "pyval dict \<Rightarrow> wfinding list res" where
  "agent_description_findings fm =
     (let v = get_or VNone ''description'' fm in
      if \<not> truth v then Inr [header_finding ''high'' (''Missing '' @ quote ''description'' @ '' field in frontmatter'')]
      else
        ebind (mentions ''Use when'' v) (\<lambda>a.
        ebind (mentions ''use when'' v) (\<lambda>b. Inr
          (if \<not> a \<and> \<not> b then [header_finding ''medium'' (''Description missing '' @ quote ''Use when...'' @ '' trigger phrase'')]
           else []))))"

definition agent_extra_findings :: "pyval dict \<Rightarrow> wfinding list" where
  "agent_extra_findings fm =
     (let extra = List.filter (\<lambda>k. k \<notin> set [''name'', ''description'']) (List.map fst fm) in
      if extra = [] then []
      else [header_finding ''low'' (''Extra frontmatter fields: '' @ join '', '' (name_set extra))])"

definition agent_fm_findings :: "string + pyval dict \<Rightarrow> wfinding list res" where   \<comment> \<open>\<open>parse_frontmatter\<close>\<close>
  "agent_fm_findings header =
     (case header of
        Inl issue \<Rightarrow> Inr [header_finding ''critical'' issue]
      | Inr fm \<Rightarrow>
          ebind (agent_name_findings fm) (\<lambda>names.
          ebind (agent_description_findings fm) (\<lambda>descs. Inr (names @ descs @ agent_extra_findings fm))))"

section \<open>Sections\<close>

definition has_memory_templates :: "world \<Rightarrow> ppath \<Rightarrow> bool res" where
  "has_memory_templates w skill_path =
     (let assets_dir = under skill_path ''assets'' in
      if \<not> path_exists w assets_dir then Inr False
      else ebind (entries w assets_dir) (\<lambda>fs. Inr (list_ex (\<lambda>f. is_file w f \<and> endswith (path_name f) ''-template.md'') fs)))"

definition detect_memory_agent :: "world \<Rightarrow> ppath \<Rightarrow> string \<Rightarrow> bool res" where
  "detect_memory_agent w skill_path content =
     ebind (has_memory_templates w skill_path) (\<lambda>templates. Inr
       (templates \<or> contains content ''First Law:'' \<and> contains content ''Second Law:'' \<and> contains content ''Sacred Truth''))"

definition agent_sections :: "bool \<Rightarrow> string list" where   \<comment> \<open>the sections that are required\<close>
  "agent_sections is_memory_agent =
     (if is_memory_agent then [''The Three Laws'', ''The Sacred Truth'', ''On Activation'']
      else [''Overview'', ''Identity'', ''Communication Style'', ''Principles'', ''On Activation''])"

definition agent_missing_section :: "bool \<Rightarrow> heading list \<Rightarrow> string \<Rightarrow> wfinding list" where
  "agent_missing_section is_memory_agent sections title =
     (if title \<notin> set (List.map hd_title (List.filter (\<lambda>s. hd_level s = 2) sections))
      then [wfind ''SKILL.md'' 1 ''high'' ''sections'' (''Missing ## '' @ title @ '' section'' @
              (if is_memory_agent then '' (required for memory agent bootloader)'' else []))] else [])"

definition check_agent_sections :: "heading list \<Rightarrow> bool \<Rightarrow> wfinding list" where
  "check_agent_sections sections is_memory_agent =
     concat (List.map (agent_missing_section is_memory_agent sections) (agent_sections is_memory_agent)) @
     concat (List.map invalid_findings sections)"

section \<open>Wording\<close>

definition agent_artifacts :: "string list" where
  "agent_artifacts =
     [''{if-complex-workflow}'', ''{/if-complex-workflow}'', ''{if-simple-workflow}'', ''{/if-simple-workflow}'',
      ''{if-simple-utility}'', ''{/if-simple-utility}'', ''{if-module}'', ''{/if-module}'', ''{if-headless}'', ''{/if-headless}'',
      ''{if-autonomous}'', ''{/if-autonomous}'', ''{if-memory}'', ''{/if-memory}'', ''{if-memory-agent}'', ''{/if-memory-agent}'',
      ''{if-stateless-agent}'', ''{/if-stateless-agent}'', ''{if-evolvable}'', ''{/if-evolvable}'', ''{if-pulse}'', ''{/if-pulse}'',
      ''{displayName}'', ''{skillName}'']"

definition agent_runtime_vars :: "string list" where
  "agent_runtime_vars =
     [''{user_name}'', ''{communication_language}'', ''{document_output_language}'', ''{project-root}'', ''{output_folder}'',
      ''{planning_artifacts}'', ''{headless_mode}'']"

definition agent_artifacts_of :: "string \<Rightarrow> string \<Rightarrow> string \<Rightarrow> wfinding list" where
  "agent_artifacts_of rel content artifact =
     List.map (artifact_finding rel)
       (List.filter (\<lambda>m. rm_text m \<notin> set agent_runtime_vars) (re_finditer (rlit artifact) content))"

definition find_agent_artifacts :: "string \<Rightarrow> string \<Rightarrow> wfinding list" where
  "find_agent_artifacts content rel = concat (List.map (agent_artifacts_of rel content) agent_artifacts)"

section \<open>Memory paths\<close>

definition rx_memory_path :: rx where   \<comment> \<open>\<open>memory/[\w\-/]+(?:\.\w+)?\<close>\<close>
  "rx_memory_path =
     rseq [rlit ''memory/'', rplus (RChr (\<lambda>c. is_word c \<or> c = CHR ''-'' \<or> c = CHR ''/'')), ropt (RSeq (rlit ''.'') (rplus rword))]"

definition scanned_suffix :: "ppath \<Rightarrow> bool" where
  "scanned_suffix f \<longleftrightarrow> path_suffix f \<in> set [''.md'', ''.json'', ''.yaml'', ''.yml'']"

definition scanned_files :: "world \<Rightarrow> ppath \<Rightarrow> ppath list res" where   \<comment> \<open>the files of a directory, where there is one\<close>
  "scanned_files w d =
     (if \<not> path_exists w d then Inr []
      else ebind (entries w d) (\<lambda>fs. Inr (List.filter (\<lambda>f. is_file w f \<and> scanned_suffix f) fs)))"

definition memory_files :: "world \<Rightarrow> ppath \<Rightarrow> ppath list res" where
  "memory_files w skill_path =
     ebind (map_res (\<lambda>d. scanned_files w (under skill_path d)) [''prompts'', ''resources'', ''references'']) (\<lambda>fss. Inr
       ((if path_exists w (under skill_path ''SKILL.md'') then [under skill_path ''SKILL.md''] else []) @ concat fss))"

definition memory_paths_of :: "string list \<Rightarrow> string list" where
  "memory_paths_of contents =
     name_set (concat (List.map (\<lambda>c. List.map rm_text (re_finditer rx_memory_path c)) contents))"

definition memory_prefixes :: "string list \<Rightarrow> string list" where
  "memory_prefixes paths =
     List.filter (\<lambda>p. contains (lower p) ''memory'') (name_set (List.map (\<lambda>p. hd (split_all ''/'' p)) paths))"

definition memory_findings_of :: "string list \<Rightarrow> wfinding list" where
  "memory_findings_of paths =
     (let prefixes = memory_prefixes paths in
      if 1 < length prefixes
      then [wfind ''multiple'' 0 ''medium'' ''memory-paths'' (''Inconsistent memory path prefixes: '' @ join '', '' prefixes)]
      else [])"

definition extract_memory_paths :: "world \<Rightarrow> ppath \<Rightarrow> string list res" where
  "extract_memory_paths w skill_path =
     ebind (memory_files w skill_path) (\<lambda>fs.
     ebind (map_res (read_file w) fs) (\<lambda>contents. Inr (memory_paths_of contents)))"

section \<open>Prompts\<close>

definition markdown_in :: "world \<Rightarrow> ppath \<Rightarrow> ppath list res" where
  "markdown_in w d = ebind (entries w d) (\<lambda>fs. Inr (List.filter (\<lambda>f. is_file w f \<and> path_suffix f = ''.md'') fs))"

definition agent_prompt_files :: "world \<Rightarrow> ppath \<Rightarrow> ppath list res" where
  "agent_prompt_files w skill_path =
     ebind (markdown_in w skill_path) (\<lambda>top.
     ebind (if path_exists w (under skill_path ''references'') then markdown_in w (under skill_path ''references'') else Inr [])
       (\<lambda>refs. Inr (List.filter (\<lambda>f. path_name f \<noteq> ''SKILL.md'') top @ refs)))"

definition agent_prompt_findings :: "string \<Rightarrow> string \<Rightarrow> wfinding list" where
  "agent_prompt_findings rel content =
     (if has_config_header content then []
      else [wfind rel 1 ''medium'' ''config-header'' ''No config header with language variables found'']) @
     (if has_progression content then []
      else [wfind rel (int (length (split_all [nl] content))) ''high'' ''progression'' ''No progression condition keywords found'']) @
     directness_findings rel content @ find_agent_artifacts content rel"

definition agent_prompt_of :: "world \<Rightarrow> ppath \<Rightarrow> (prompt_detail \<times> wfinding list) res" where
  "agent_prompt_of w f =
     ebind (read_file w f) (\<lambda>content. Inr
       (\<lparr>pd_file = path_name f, pd_config = has_config_header content, pd_progression = has_progression content\<rparr>,
        agent_prompt_findings (path_name f) content))"

section \<open>The scan\<close>

record agent_structure =
  st_status :: string
  st_header :: "string + pyval dict"
  st_sections :: "heading list"
  st_memory_agent :: bool
  st_prompts :: "prompt_detail list"
  st_paths :: "string list"
  st_issues :: "wfinding list"

definition structure_of ::
    "string \<Rightarrow> bool \<Rightarrow> string + pyval dict \<Rightarrow> wfinding list \<Rightarrow> string list \<Rightarrow> (prompt_detail \<times> wfinding list) list \<Rightarrow> agent_structure" where
  "structure_of content is_memory_agent header fm_issues paths prompts =
     (let sections = extract_sections content;
          issues = fm_issues @ check_agent_sections sections is_memory_agent @ find_agent_artifacts content ''SKILL.md'' @
            directness_findings ''SKILL.md'' content @ memory_findings_of paths @ concat (List.map snd prompts)
      in \<lparr>st_status = integrity_status issues, st_header = header, st_sections = sections, st_memory_agent = is_memory_agent,
          st_prompts = List.map fst prompts, st_paths = paths, st_issues = issues\<rparr>)"

definition scan_structure :: "yaml_load \<Rightarrow> world \<Rightarrow> ppath \<Rightarrow> agent_structure option res" where   \<comment> \<open>\<open>scan_structure_capabilities\<close>\<close>
  "scan_structure yaml w skill_path =
     (if \<not> path_exists w (under skill_path ''SKILL.md'') then Inr None
      else
        ebind (read_file w (under skill_path ''SKILL.md'')) (\<lambda>content.
        ebind (detect_memory_agent w skill_path content) (\<lambda>is_memory_agent.
        ebind (agent_fm_findings (agent_header yaml content)) (\<lambda>fm_issues.
        ebind (extract_memory_paths w skill_path) (\<lambda>paths.
        ebind (agent_prompt_files w skill_path) (\<lambda>files.
        ebind (map_res (agent_prompt_of w) files) (\<lambda>prompts.
        Inr (Some (structure_of content is_memory_agent (agent_header yaml content) fm_issues paths prompts)))))))))"

definition structure_json :: "world \<Rightarrow> ppath \<Rightarrow> agent_structure option \<Rightarrow> pyval" where
  "structure_json w skill_path result =
     (let start = [(''scanner'', VStr ''structure-capabilities-prepass''), (''script'', VStr ''prepass-structure-capabilities.py''),
        (''version'', VStr ''1.0.0''), (''skill_path'', VStr (path_str skill_path)), (''timestamp'', VStr (now_iso w))] in
      case result of
        None \<Rightarrow> VDict (start @ [(''status'', VStr ''fail''), (''issues'', VList [wfinding_json no_skill_issue]),
          (''summary'', counts_json [no_skill_issue])])
      | Some r \<Rightarrow> VDict (start @ [(''status'', VStr (st_status r)),
          (''metadata'', VDict [
             (''frontmatter'', case st_header r of Inl _ \<Rightarrow> VNone | Inr fm \<Rightarrow> VDict fm),
             (''sections'', VList (List.map heading_json (st_sections r))), (''is_memory_agent'', VBool (st_memory_agent r))]),
          (''prompt_details'', VList (List.map prompt_json (st_prompts r))), (''memory_paths'', strings_json (st_paths r)),
          (''issues'', VList (List.map wfinding_json (st_issues r))), (''summary'', counts_json (st_issues r))]))"

definition structure_code :: "agent_structure option \<Rightarrow> int" where
  "structure_code result = (case result of Some r \<Rightarrow> if st_status r = ''pass'' then 0 else 1 | None \<Rightarrow> 1)"

definition structure_prepass :: "yaml_load \<Rightarrow> string \<Rightarrow> string \<Rightarrow> int act" where   \<comment> \<open>\<open>main\<close>\<close>
  "structure_prepass yaml skill_path output_file =
     bindA (reads (\<lambda>w. is_dir w (path_of skill_path))) (\<lambda>there.
     if \<not> there then ret 2
     else
       bindA (readsE (\<lambda>w. scan_structure yaml w (path_of skill_path))) (\<lambda>r.
       bindA (reads (\<lambda>w. json_dumps style_indent2 (structure_json w (path_of skill_path) r))) (\<lambda>content.
       bindA (write_scan_output output_file content) (\<lambda>_. ret (structure_code r)))))"

section \<open>The check of the memory paths never finds anything\<close>

lemma find_iter_match: "m \<in> set (find_iter n r pre rest) \<Longrightarrow> \<exists>p v. match_at r p v = Some m"
proof (induction n arbitrary: pre rest)
  case (Suc n)
  show ?case
  proof (cases "search_from r pre rest")
    case None
    with Suc.prems show ?thesis by simp
  next
    case (Some m1)
    from search_some [OF Some] have "\<exists>p v. match_at r p v = Some m1" by blast
    with Suc Some show ?thesis by (auto split: list.splits if_splits)
  qed
qed simp

lemma match_at_run: "match_at r pre rest = Some m \<Longrightarrow> \<exists>t \<in> set (rrun r (pre, rest, [])). m = match_of pre rest t"
  unfolding match_at_def by (cases "rrun r (pre, rest, [])") simp_all

lemma literal_start:
  assumes "match_at (rseq (rlit l # r # rs)) pre rest = Some m"
  shows "prefix l (rm_text m)"
proof -
  from match_at_run [OF assms] obtain t where t: "t \<in> set (rrun (rseq (rlit l # r # rs)) (pre, rest, []))"
    and m: "m = match_of pre rest t" by blast
  from t obtain u where u: "u \<in> set (rrun (rlit l) (pre, rest, []))" "t \<in> set (rrun (rseq (r # rs)) u)"
    unfolding in_rseq [of t "rlit l"] by blast
  from u(1) obtain rest' where rest: "rest = l @ rest'" "u = (rev l @ pre, rest', [])" unfolding in_rlit by blast
  from u(2) have "t \<in> set (rrun (rseq (r # rs)) (rev l @ pre, rest', []))" by (simp only: rest(2))
  from rrun_consumes [OF this] obtain w where "rest' = w @ fst (snd t)" by blast
  with m rest(1) show ?thesis by (simp add: match_of_def)
qed

lemma memory_path_start:
  assumes "p \<in> set (memory_paths_of contents)"
  shows "prefix ''memory/'' p"
proof -
  from assms obtain c m where "m \<in> set (re_finditer rx_memory_path c)" "p = rm_text m"
    by (auto simp: memory_paths_of_def name_set_def)
  moreover from this obtain pre rest where "match_at rx_memory_path pre rest = Some m"
    unfolding re_finditer_def by (blast dest: find_iter_match)
  ultimately show ?thesis unfolding rx_memory_path_def by (auto dest: literal_start)
qed

lemma first_part: "prefix ''memory/'' p \<Longrightarrow> hd (split_all ''/'' p) = ''memory''"
  by (auto simp: prefix_def split_all.simps)

text \<open>A pattern that begins with \<open>memory/\<close> has one prefix: the check for inconsistent prefixes cannot fail.\<close>

theorem memory_paths_consistent: "memory_findings_of (memory_paths_of contents) = []"
proof -
  let ?ps = "List.map (\<lambda>p. hd (split_all ''/'' p)) (memory_paths_of contents)"
  have "set ?ps \<subseteq> {''memory''}" using memory_path_start first_part by auto
  then have "set (memory_prefixes (memory_paths_of contents)) \<subseteq> {''memory''}" by (auto simp: memory_prefixes_def name_set_def)
  moreover have "distinct (memory_prefixes (memory_paths_of contents))"
    using distinct_sort_by [of "\<lambda>s. s" "\<lambda>s. s"] by (simp add: memory_prefixes_def name_set_def sorted_strings_def)
  ultimately have "length (memory_prefixes (memory_paths_of contents)) \<le> 1"
    using card_mono [of "{''memory''}" "set (memory_prefixes (memory_paths_of contents))"]
      distinct_card [of "memory_prefixes (memory_paths_of contents)"] by simp
  then show ?thesis by (simp add: memory_findings_of_def Let_def)
qed

end
