(* ===== verification/Sanctum_Check.thy ===== *)
theory Sanctum_Check
  imports Sanctum Source_Groups Structure_Prepass
begin

text \<open>
  \<open>.agents/skills/bmad-agent-builder/scripts/prepass-sanctum-architecture.py\<close>: the templates, the first breath and the
  init script of an agent with a memory are checked. The arguments are as \<open>argparse\<close> parsed them, a missing \<open>--output\<close> is
  the empty string; sets are lists.
\<close>

section \<open>Settings\<close>

definition standard_templates :: "string list" where
  "standard_templates =
     [''INDEX-template.md'', ''PERSONA-template.md'', ''CREED-template.md'', ''BOND-template.md'', ''MEMORY-template.md'',
      ''CAPABILITIES-template.md'']"

definition optional_templates :: "string list" where
  "optional_templates = [''PULSE-template.md'']"

definition creed_required_sections :: "string list" where
  "creed_required_sections =
     [''The Sacred Truth'', ''Mission'', ''Core Values'', ''Standing Orders'', ''Philosophy'', ''Boundaries'', ''Anti-Patterns'',
      ''Dominion'']"

definition calibration_sections :: "string list" where   \<comment> \<open>\<open>FIRST_BREATH_CALIBRATION_SECTIONS\<close>\<close>
  "calibration_sections =
     [''Save As You Go'', ''Pacing'', ''Chase What Catches'', ''Absorb Their Voice'', ''Show Your Work'', ''Hear the Silence'',
      ''The Territories'', ''Wrapping Up'']"

definition config_sections :: "string list" where   \<comment> \<open>\<open>FIRST_BREATH_CONFIG_SECTIONS\<close>\<close>
  "config_sections = [''Save As You Go'', ''Discovery'', ''Urgency'', ''Wrapping Up'']"

section \<open>Readers\<close>

definition rx_front_block :: rx where   \<comment> \<open>\<open>^---\s*\n.*?\n---\s*\n\<close> under \<open>re.DOTALL\<close>\<close>
  "rx_front_block =
     rseq [RBol False, rlit ''---'', rstar rspace, rlit [nl], RStar False rany, rlit (nl # ''---''), rstar rspace, rlit [nl]]"

text \<open>The pattern is anchored: the one substitution cuts a match at the start.\<close>

definition without_front :: "string \<Rightarrow> string" where
  "without_front content = (case re_match rx_front_block content of None \<Rightarrow> content | Some m \<Rightarrow> rm_after m)"

definition content_lines :: "string \<Rightarrow> nat" where
  "content_lines content = length (List.filter (\<lambda>l. strip l \<noteq> []) (split_all [nl] (without_front content)))"

definition count_content_lines :: "world \<Rightarrow> ppath \<Rightarrow> nat res" where
  "count_content_lines w p = ebind (read_file w p) (\<lambda>content. Inr (content_lines content))"

definition rx_section :: rx where   \<comment> \<open>\<open>^#{2,3}\s+(.+)\<close>\<close>
  "rx_section = rseq [RBol False, ralt [rlit ''###'', rlit ''##''], rplus rspace, RGrp 1 (rplus rdot)]"

definition section_titles :: "string \<Rightarrow> string list" where
  "section_titles content =
     List.map (\<lambda>m. strip (rm_grp m 1)) (List.map_filter (re_match rx_section) (split_all [nl] content))"

definition sections_in :: "world \<Rightarrow> ppath \<Rightarrow> string list res" where   \<comment> \<open>\<open>extract_h2_h3_sections\<close>\<close>
  "sections_in w p =
     (if \<not> path_exists w p then Inr [] else ebind (read_file w p) (\<lambda>content. Inr (section_titles content)))"

definition section_present :: "string list \<Rightarrow> string \<Rightarrow> bool" where   \<comment> \<open>\<open>check_section_present\<close>\<close>
  "section_present sections keyword \<longleftrightarrow> list_ex (\<lambda>s. contains (lower s) (lower keyword)) sections"

section \<open>The init script\<close>

definition rquote :: rx where
  "rquote = roneof [dquote, squote]"

definition rx_quoted :: rx where   \<comment> \<open>a quote, other characters, a quote\<close>
  "rx_quoted = rseq [rquote, RGrp 1 (rplus (rnoneof [dquote, squote])), rquote]"

definition rx_assigned :: "string \<Rightarrow> rx list \<Rightarrow> rx" where
  "rx_assigned name value = rseq ([rlit name, rstar rspace, rlit ''='', rstar rspace] @ value)"

definition rx_skill_name :: rx where
  "rx_skill_name = rx_assigned ''SKILL_NAME'' [rquote, RGrp 1 (rplus (rnoneof [dquote, squote])), rquote]"

definition rx_listed :: "string \<Rightarrow> string \<Rightarrow> string \<Rightarrow> rx" where   \<comment> \<open>between two brackets, under \<open>re.DOTALL\<close>\<close>
  "rx_listed name opening closing = rx_assigned name [rlit opening, RGrp 1 (RStar False rany), rlit closing]"

definition rx_evolvable :: rx where
  "rx_evolvable = rx_assigned ''EVOLVABLE'' [RGrp 1 (ralt [rlit ''True'', rlit ''False''])]"

record init_params =
  ip_exists :: bool
  ip_skill_name :: "string option"
  ip_templates :: "string list"
  ip_skill_only :: "string list"
  ip_evolvable :: "bool option"

definition quoted_names :: "rx \<Rightarrow> string \<Rightarrow> string list" where
  "quoted_names rx content =
     (case re_search rx content of
        None \<Rightarrow> []
      | Some m \<Rightarrow> List.map (\<lambda>q. rm_grp q 1) (re_finditer rx_quoted (rm_grp m 1)))"

definition init_params_of :: "string \<Rightarrow> init_params" where
  "init_params_of content =
     \<lparr>ip_exists = True,
      ip_skill_name = map_option (\<lambda>m. rm_grp m 1) (re_search rx_skill_name content),
      ip_templates = quoted_names (rx_listed ''TEMPLATE_FILES'' ''['' '']'') content,
      ip_skill_only = quoted_names (rx_listed ''SKILL_ONLY_FILES'' ''{'' ''}'') content,
      ip_evolvable = map_option (\<lambda>m. rm_grp m 1 = ''True'') (re_search rx_evolvable content)\<rparr>"

definition extract_init_script_params :: "world \<Rightarrow> ppath \<Rightarrow> init_params res" where
  "extract_init_script_params w p =
     (if \<not> path_exists w p
      then Inr \<lparr>ip_exists = False, ip_skill_name = None, ip_templates = [], ip_skill_only = [], ip_evolvable = None\<rparr>
      else ebind (read_file w p) (\<lambda>content. Inr (init_params_of content)))"

section \<open>The inventory\<close>

record text_facts =
  tf_exists :: bool
  tf_sections :: "string list"
  tf_lines :: nat

definition text_facts_of :: "world \<Rightarrow> ppath \<Rightarrow> text_facts res" where
  "text_facts_of w p =
     (if \<not> path_exists w p then Inr \<lparr>tf_exists = False, tf_sections = [], tf_lines = 0\<rparr>
      else
        ebind (sections_in w p) (\<lambda>sections.
        ebind (count_content_lines w p) (\<lambda>n. Inr \<lparr>tf_exists = True, tf_sections = sections, tf_lines = n\<rparr>)))"

record capability_facts =
  cf_file :: string
  cf_meta :: "string dict"
  cf_sections :: "string list"

definition capability_facts_of :: "world \<Rightarrow> ppath \<Rightarrow> capability_facts list res" where
  "capability_facts_of w f =
     (if path_name f = ''first-breath.md'' then Inr []
      else
        ebind (parse_meta w f) (\<lambda>meta.
        if meta = [] then Inr []
        else ebind (sections_in w f) (\<lambda>sections. Inr [\<lparr>cf_file = path_name f, cf_meta = meta, cf_sections = sections\<rparr>])))"

definition scan_capabilities :: "world \<Rightarrow> ppath \<Rightarrow> capability_facts list res" where
  "scan_capabilities w references_dir =
     (if \<not> path_exists w references_dir then Inr []
      else ebind (map_res (capability_facts_of w) (glob_sorted w references_dir ''*.md'')) (\<lambda>cs. Inr (concat cs)))"

record sanctum_scan =
  sn_skill :: text_facts
  sn_templates :: "(string \<times> text_facts) list"
  sn_creed :: "string list"
  sn_breath :: "string list option"
  sn_capabilities :: "capability_facts list"
  sn_init :: init_params
  sn_actual :: "string list"

definition actual_templates :: "world \<Rightarrow> ppath \<Rightarrow> string list res" where
  "actual_templates w assets_dir =
     (if \<not> path_exists w assets_dir then Inr []
      else ebind (entries w assets_dir) (\<lambda>fs. Inr (List.filter (\<lambda>n. endswith n ''-template.md'') (List.map path_name fs))))"

definition if_there :: "world \<Rightarrow> ppath \<Rightarrow> string list option res" where
  "if_there w p = (if \<not> path_exists w p then Inr None else ebind (sections_in w p) (\<lambda>s. Inr (Some s)))"

definition scan_sanctum :: "world \<Rightarrow> ppath \<Rightarrow> sanctum_scan res" where
  "scan_sanctum w skill =
     (let assets = under skill ''assets'' in
      ebind (text_facts_of w (under skill ''SKILL.md'')) (\<lambda>skill_md.
      ebind (map_res (\<lambda>t. ebind (text_facts_of w (under assets t)) (\<lambda>f. Inr (t, f))) (standard_templates @ optional_templates)) (\<lambda>templates.
      ebind (sections_in w (under assets ''CREED-template.md'')) (\<lambda>creed.
      ebind (if_there w (under (under skill ''references'') ''first-breath.md'')) (\<lambda>breath.
      ebind (scan_capabilities w (under skill ''references'')) (\<lambda>capabilities.
      ebind (extract_init_script_params w (under (under skill ''scripts'') ''init-sanctum.py'')) (\<lambda>params.
      ebind (actual_templates w assets) (\<lambda>actual. Inr
        \<lparr>sn_skill = skill_md, sn_templates = templates, sn_creed = creed, sn_breath = breath, sn_capabilities = capabilities,
         sn_init = params, sn_actual = actual\<rparr>))))))))"

section \<open>The checks\<close>

definition breath_sections :: "sanctum_scan \<Rightarrow> string list" where
  "breath_sections s = (case sn_breath s of None \<Rightarrow> [] | Some sections \<Rightarrow> sections)"

definition is_calibration :: "sanctum_scan \<Rightarrow> bool" where
  "is_calibration s \<longleftrightarrow> section_present (breath_sections s) ''Absorb''"

definition breath_style :: "sanctum_scan \<Rightarrow> string" where
  "breath_style s =
     (if is_calibration s then ''calibration''
      else if section_present (breath_sections s) ''Discovery'' then ''configuration'' else ''unknown'')"

definition expected_sections :: "sanctum_scan \<Rightarrow> string list" where
  "expected_sections s = (if is_calibration s then calibration_sections else config_sections)"

definition templates_match :: "sanctum_scan \<Rightarrow> bool" where
  "templates_match s \<longleftrightarrow> set (ip_templates (sn_init s)) = set (sn_actual s)"

definition name_matches :: "string \<Rightarrow> sanctum_scan \<Rightarrow> bool" where
  "name_matches folder s \<longleftrightarrow> ip_skill_name (sn_init s) = Some folder"

record sfinding =
  sg_severity :: string
  sg_file :: string
  sg_message :: string

definition sfind :: "string \<Rightarrow> string \<Rightarrow> string \<Rightarrow> sfinding" where
  "sfind sev file message = \<lparr>sg_severity = sev, sg_file = file, sg_message = message\<rparr>"

definition absent_sections :: "string list \<Rightarrow> string list \<Rightarrow> string list" where
  "absent_sections sections required = List.filter (\<lambda>r. \<not> section_present sections r) required"

definition breath_findings :: "sanctum_scan \<Rightarrow> sfinding list" where
  "breath_findings s =
     (case sn_breath s of
        None \<Rightarrow> [sfind ''critical'' ''references/first-breath.md'' ''Missing first-breath.md'']
      | Some sections \<Rightarrow> List.map (\<lambda>r. sfind ''high'' ''references/first-breath.md'' (''Missing First Breath section: '' @ r))
          (absent_sections sections (expected_sections s)))"

definition shown_name :: "string option \<Rightarrow> string" where
  "shown_name n = (case n of None \<Rightarrow> ''None'' | Some s \<Rightarrow> s)"

definition init_findings :: "string \<Rightarrow> sanctum_scan \<Rightarrow> sfinding list" where
  "init_findings folder s =
     (if \<not> ip_exists (sn_init s) then [sfind ''critical'' ''scripts/init-sanctum.py'' ''Missing init-sanctum.py'']
      else
        (if name_matches folder s then []
         else [sfind ''critical'' ''scripts/init-sanctum.py''
                 (''SKILL_NAME mismatch: script has '' @ [squote] @ shown_name (ip_skill_name (sn_init s)) @ [squote] @ '', folder is '' @
                  [squote] @ folder @ [squote])]) @
        (if templates_match s then []
         else [sfind ''high'' ''scripts/init-sanctum.py'' ''TEMPLATE_FILES does not match actual templates in assets/'']))"

definition sanctum_findings :: "string \<Rightarrow> sanctum_scan \<Rightarrow> sfinding list" where
  "sanctum_findings folder s =
     (if 40 < tf_lines (sn_skill s)
      then [sfind ''high'' ''SKILL.md''
              (''Bootloader has '' @ show_nat (tf_lines (sn_skill s)) @ '' content lines (target: ~30, max: 40)'')] else []) @
     List.map (\<lambda>t. sfind ''critical'' (''assets/'' @ t) (''Missing standard template: '' @ t))
       (List.filter (\<lambda>t. \<exists>p \<in> set (sn_templates s). fst p = t \<and> \<not> tf_exists (snd p)) standard_templates) @
     List.map (\<lambda>r. sfind ''high'' ''assets/CREED-template.md'' (''Missing required CREED section: '' @ r))
       (absent_sections (sn_creed s) creed_required_sections) @
     breath_findings s @ init_findings folder s"

section \<open>Output\<close>

definition facts_json :: "text_facts \<Rightarrow> bool \<Rightarrow> pyval" where
  "facts_json f optional =
     VDict ([(''exists'', VBool (tf_exists f))] @ (if optional then [(''optional'', VBool True)] else []) @
       [(''sections'', strings_json (tf_sections f)), (''content_lines'', VInt (int (tf_lines f)))])"

definition skill_facts_json :: "text_facts \<Rightarrow> pyval" where
  "skill_facts_json f =
     VDict [(''exists'', VBool (tf_exists f)), (''content_lines'', VInt (int (tf_lines f))), (''sections'', strings_json (tf_sections f))]"

definition checks_json :: "string list \<Rightarrow> string list \<Rightarrow> pyval" where
  "checks_json sections required = VDict (List.map (\<lambda>r. (r, VBool (section_present sections r))) required)"

definition capability_json :: "capability_facts \<Rightarrow> pyval" where
  "capability_json c =
     VDict [(''file'', VStr (cf_file c)), (''has_name'', VBool (dict_has ''name'' (cf_meta c))),
       (''has_code'', VBool (dict_has ''code'' (cf_meta c))), (''has_description'', VBool (dict_has ''description'' (cf_meta c))),
       (''sections'', strings_json (cf_sections c)),
       (''has_memory_integration'', VBool (section_present (cf_sections c) ''Memory Integration'')),
       (''has_after_session'', VBool (section_present (cf_sections c) ''After'')),
       (''has_success'', VBool (section_present (cf_sections c) ''Success''))]"

definition init_json :: "init_params \<Rightarrow> pyval" where
  "init_json p =
     VDict [(''exists'', VBool (ip_exists p)), (''skill_name'', case ip_skill_name p of None \<Rightarrow> VNone | Some n \<Rightarrow> VStr n),
       (''template_files'', strings_json (ip_templates p)), (''skill_only_files'', strings_json (ip_skill_only p)),
       (''evolvable'', case ip_evolvable p of None \<Rightarrow> VNone | Some b \<Rightarrow> VBool b)]"

definition sfinding_json :: "sfinding \<Rightarrow> pyval" where
  "sfinding_json f = VDict [(''severity'', VStr (sg_severity f)), (''file'', VStr (sg_file f)), (''message'', VStr (sg_message f))]"

definition sanctum_count :: "sfinding list \<Rightarrow> string \<Rightarrow> int" where
  "sanctum_count findings sev = int (length (List.filter (\<lambda>f. sg_severity f = sev) findings))"

definition sanctum_json :: "world \<Rightarrow> ppath \<Rightarrow> sanctum_scan \<Rightarrow> pyval" where
  "sanctum_json w skill s =
     (let findings = sanctum_findings (path_name skill) s;
          known = (\<lambda>b. if ip_exists (sn_init s) then VBool b else VNone) in
      VDict [(''timestamp'', VStr (now_iso w)), (''skill_path'', VStr (path_str skill)), (''is_memory_agent'', VBool True),
        (''skill_md'', skill_facts_json (sn_skill s)),
        (''template_inventory'', VDict (List.map (\<lambda>(t, f). (t, facts_json f (t \<in> set optional_templates))) (sn_templates s))),
        (''creed_sections'', checks_json (sn_creed s) creed_required_sections),
        (''first_breath'', VDict [(''exists'', VBool (sn_breath s \<noteq> None)), (''style'', VStr (breath_style s)),
           (''sections'', strings_json (breath_sections s)),
           (''section_checks'', checks_json (breath_sections s) (expected_sections s))]),
        (''capabilities'', VList (List.map capability_json (sn_capabilities s))), (''init_script'', init_json (sn_init s)),
        (''cross_checks'', VDict [(''skill_name_match'', known (name_matches (path_name skill) s)),
           (''template_files_match'', known (templates_match s))]),
        (''findings'', VList (List.map sfinding_json findings)), (''finding_count'', VInt (int (length findings))),
        (''critical_count'', VInt (sanctum_count findings ''critical'')), (''high_count'', VInt (sanctum_count findings ''high''))])"

definition no_memory_json :: "world \<Rightarrow> ppath \<Rightarrow> pyval" where
  "no_memory_json w skill =
     VDict [(''timestamp'', VStr (now_iso w)), (''skill_path'', VStr (path_str skill)), (''is_memory_agent'', VBool False),
       (''message'', VStr (''Not a memory agent '' @ em_dash @ '' no sanctum templates found in assets/''))]"

definition sanctum_prepass :: "string \<Rightarrow> string \<Rightarrow> int act" where   \<comment> \<open>\<open>main\<close>\<close>
  "sanctum_prepass skill_path output_path =
     bindA (reads (\<lambda>w. resolve w (path_of skill_path))) (\<lambda>skill.
     bindA (reads (\<lambda>w. is_dir w skill)) (\<lambda>there.
     if \<not> there then ret 2
     else
       bindA (readsE (\<lambda>w. has_memory_templates w skill)) (\<lambda>is_memory_agent.
       if \<not> is_memory_agent then bindA (reads (\<lambda>w. no_memory_json w skill)) (\<lambda>data. output_json data output_path)
       else
         bindA (readsE (\<lambda>w. scan_sanctum w skill)) (\<lambda>s.
         bindA (reads (\<lambda>w. sanctum_json w skill s)) (\<lambda>data. output_json data output_path)))))"

section \<open>What no finding means\<close>

lemma absent_none: "absent_sections sections required = [] \<longleftrightarrow> (\<forall>r \<in> set required. section_present sections r)"
  by (simp add: absent_sections_def filter_empty_conv)

theorem sound_sanctum:
  assumes "sanctum_findings folder s = []"
  shows "tf_lines (sn_skill s) \<le> 40 \<and>
    (\<forall>t \<in> set standard_templates. \<forall>f. (t, f) \<in> set (sn_templates s) \<longrightarrow> tf_exists f) \<and>
    (\<forall>r \<in> set creed_required_sections. section_present (sn_creed s) r) \<and>
    (\<exists>sections. sn_breath s = Some sections \<and> (\<forall>r \<in> set (expected_sections s). section_present sections r)) \<and>
    ip_exists (sn_init s) \<and> ip_skill_name (sn_init s) = Some folder \<and> set (ip_templates (sn_init s)) = set (sn_actual s)"
proof -
  from assms have parts: "tf_lines (sn_skill s) \<le> 40" "absent_sections (sn_creed s) creed_required_sections = []"
    "breath_findings s = []" "init_findings folder s = []"
    and templates: "\<forall>t \<in> set standard_templates. \<forall>p \<in> set (sn_templates s). fst p = t \<longrightarrow> tf_exists (snd p)"
    by (auto simp: sanctum_findings_def filter_empty_conv split: if_splits)
  have "\<exists>sections. sn_breath s = Some sections \<and> (\<forall>r \<in> set (expected_sections s). section_present sections r)"
    using parts(3) by (cases "sn_breath s") (simp_all add: breath_findings_def absent_none)
  moreover have "ip_exists (sn_init s)" "ip_skill_name (sn_init s) = Some folder" "set (ip_templates (sn_init s)) = set (sn_actual s)"
    using parts(4) by (simp_all add: init_findings_def name_matches_def templates_match_def split: if_splits)
  moreover have "\<forall>t \<in> set standard_templates. \<forall>f. (t, f) \<in> set (sn_templates s) \<longrightarrow> tf_exists f"
    using templates by fastforce
  ultimately show ?thesis using parts(1,2) by (simp add: absent_none)
qed

text \<open>What is there is listed.\<close>

lemma star_matches: "fnmatch ''*'' s"
  by (induction s) (subst fnmatch.simps; simp add: fnmatch.simps(1))+

lemma listed:
  assumes "path_exists w (under d n)" and "path_of n = PPath False [n]" and "n \<noteq> ''..''"
  shows "n \<in> set (List.map path_name (glob_sorted w d ''*''))" and "is_dir w d"
proof -
  have key: "key_of w (under d n) = key_of w d @ [n]"
    using key_below [of "[n]" w d] assms(2,3) by (simp add: under_def down_from_def)
  have above: "\<exists>k \<in> set (List.map fst (w_files w) @ w_dirs w). prefix (key_of w d @ [n]) k"
    using assms(1) unfolding path_exists_def is_file_def is_dir_def key
    by (auto simp: strict_prefix_def dest!: map_of_SomeD) force
  then have node: "key_of w d @ [n] \<in> set (all_nodes w)" by (auto simp: all_nodes_def in_set_prefixes)
  have "parts (path_of ''*'') = [''*'']" by code_simp
  then have "glob_parts (parts (path_of ''*'')) [n]" by (simp add: star_matches)
  with node have "PPath (is_absolute d) (parts d @ [n]) \<in> set (glob_sorted w d ''*'')"
    by (auto simp: glob_sorted_def Let_def intro!: image_eqI [where x = "key_of w d @ [n]"])
  then have "path_name (PPath (is_absolute d) (parts d @ [n])) \<in> set (List.map path_name (glob_sorted w d ''*''))"
    by (metis image_eqI list.set_map)
  then show "n \<in> set (List.map path_name (glob_sorted w d ''*''))" by (simp add: path_name_def)
  have "prefix (key_of w d @ [n]) k \<Longrightarrow> strict_prefix (key_of w d) k" for k by (auto simp: prefix_def strict_prefix_def)
  with above show "is_dir w d" unfolding is_dir_def by (auto simp: strict_prefix_def)
qed

text \<open>
  The sample script does not list the capabilities' template, which the check requires: an agent with its list of templates
  is never clean.
\<close>

theorem sample_script_never_clean:
  assumes "scan_sanctum w skill = Inr s" and "ip_templates (sn_init s) = template_files"
  shows "sanctum_findings folder s \<noteq> []"
proof
  assume "sanctum_findings folder s = []"
  note sound = sound_sanctum [OF this]
  let ?n = "''CAPABILITIES-template.md''"
  from assms(1) obtain templates where templates:
      "map_res (\<lambda>t. ebind (text_facts_of w (under (under skill ''assets'') t)) (\<lambda>f. Inr (t, f))) (standard_templates @ optional_templates)
         = Inr templates"
      "sn_templates s = templates" "actual_templates w (under skill ''assets'') = Inr (sn_actual s)"
    by (auto simp: scan_sanctum_def Let_def ebind_eq_Inr)
  have "?n \<in> set (standard_templates @ optional_templates)" by code_simp
  from map_res_member [OF templates(1) this] obtain f where f: "(?n, f) \<in> set templates"
    "text_facts_of w (under (under skill ''assets'') ?n) = Inr f" by (auto simp: ebind_eq_Inr)
  have "?n \<in> set standard_templates" by code_simp
  with sound f(1) templates(2) have "tf_exists f" by blast
  with f(2) have there: "path_exists w (under (under skill ''assets'') ?n)" by (auto simp: text_facts_of_def split: if_splits)
  have "path_of ?n = PPath False [?n]" by code_simp
  from listed [OF there this] have name: "?n \<in> set (List.map path_name (glob_sorted w (under skill ''assets'') ''*''))" 
    and dir: "is_dir w (under skill ''assets'')" by simp_all
  have "endswith ?n ''-template.md''" by code_simp
  moreover have "sn_actual s = List.filter (\<lambda>n. endswith n ''-template.md'') (List.map path_name (glob_sorted w (under skill ''assets'') ''*''))"
    using templates(3) by (simp add: actual_templates_def entries_def ebind_def dir path_exists_def)
  ultimately have "?n \<in> set (sn_actual s)" using name by (simp only: set_filter mem_Collect_eq)
  moreover from sound assms(2) have "set template_files = set (sn_actual s)" by simp
  ultimately have "?n \<in> set template_files" by simp
  moreover have "?n \<notin> set template_files" by code_simp
  ultimately show False by simp
qed

end
