(* ===== verification/Prompt_Metrics.thy ===== *)
theory Prompt_Metrics
  imports Structure_Prepass
begin

text \<open>
  \<open>prepass-prompt-metrics.py\<close> of \<open>.agents/skills/bmad-agent-builder/scripts/\<close> and of
  \<open>.agents/skills/bmad-workflow-builder/scripts/\<close>: sizes and patterns of a skill's prompts. Each script has the same
  functions for tables, blocks and patterns; that for agents also looks for walls of text and headers. The arguments are as
  \<open>argparse\<close> parsed them, a missing \<open>--output\<close> is the empty string. \<open>yaml\<close> is the \<open>safe_load\<close> of the YAML package, as
  in \<open>Structure_Prepass\<close>.
\<close>

section \<open>Patterns\<close>

definition rx_bounded :: "rx list \<Rightarrow> rx" where   \<comment> \<open>between two \<open>\b\<close>\<close>
  "rx_bounded rs = rseq ([RWordB] @ rs @ [RWordB])"

record prompt_pattern =
  pp_rx :: rx
  pp_category :: string
  pp_label :: string

definition waste :: "rx list \<Rightarrow> string \<Rightarrow> string \<Rightarrow> prompt_pattern" where
  "waste rs category label = \<lparr>pp_rx = rx_bounded rs, pp_category = category, pp_label = label\<rparr>"

definition maybe_apostrophe :: rx where
  "maybe_apostrophe = ropt (rlit [squote])"

definition waste_patterns :: "prompt_pattern list" where
  "waste_patterns =
     [waste [either_case ''Mm'' ''ake sure '', any_of [''to'', ''you'']] ''defensive-padding'' (''Defensive: '' @ quote ''make sure to/you''),
      waste [either_case ''Dd'' ''on'', maybe_apostrophe, rlit ''t forget '', any_of [''to'', ''that'']] ''defensive-padding''
        (''Defensive: '' @ quote (''don'' @ [squote] @ ''t forget'')),
      waste [either_case ''Rr'' ''emember '', any_of [''to'', ''that'']] ''defensive-padding'' (''Defensive: '' @ quote ''remember to/that''),
      waste [either_case ''Bb'' ''e sure to''] ''defensive-padding'' (''Defensive: '' @ quote ''be sure to''),
      waste [either_case ''Pp'' ''lease ensure''] ''defensive-padding'' (''Defensive: '' @ quote ''please ensure''),
      waste [either_case ''Ii'' ''t is important '', any_of [''to'', ''that'']] ''defensive-padding'' (''Defensive: '' @ quote ''it is important''),
      waste [either_case ''Yy'' ''ou are an AI''] ''meta-explanation'' (''Meta: '' @ quote ''you are an AI''),
      waste [either_case ''Aa'' ''s a language model''] ''meta-explanation'' (''Meta: '' @ quote ''as a language model''),
      waste [either_case ''Aa'' ''s an AI assistant''] ''meta-explanation'' (''Meta: '' @ quote ''as an AI assistant''),
      waste [either_case ''Tt'' ''his '', any_of [''workflow'', ''skill'', ''process''], rlit '' is designed to''] ''meta-explanation''
        (''Meta: '' @ quote ''this workflow is designed to''),
      waste [either_case ''Tt'' ''he purpose of this '', any_of [''section'', ''step''], rlit '' is''] ''meta-explanation''
        (''Meta: '' @ quote ''the purpose of this section is''),
      waste [either_case ''Ll'' ''et'', maybe_apostrophe, rlit ''s '', any_of [''think about'', ''begin'', ''start'']] ''filler''
        (''Filler: '' @ quote (''let'' @ [squote] @ ''s think/begin'')),
      waste [either_case ''Nn'' ''ow we'', any_of [squote # ''ll'', '' will'']] ''filler'' (''Filler: '' @ quote (''now we'' @ [squote] @ ''ll''))]"

definition any_case :: "string list \<Rightarrow> rx" where   \<comment> \<open>under \<open>re.IGNORECASE\<close>\<close>
  "any_case ws = ralt (List.map rilit ws)"

definition unlabelled :: "rx list \<Rightarrow> string \<Rightarrow> prompt_pattern" where
  "unlabelled rs label = \<lparr>pp_rx = rx_bounded rs, pp_category = [], pp_label = label\<rparr>"

definition backref_patterns :: "prompt_pattern list" where
  "backref_patterns =
     [unlabelled [rilit ''as described above''] (''Back-reference: '' @ quote ''as described above''),
      unlabelled [rilit ''per the overview''] (''Back-reference: '' @ quote ''per the overview''),
      unlabelled [rilit ''as mentioned '', any_case [''above'', ''in'', ''earlier'']] (''Back-reference: '' @ quote ''as mentioned above/in/earlier''),
      unlabelled [rilit ''see '', any_case [''above'', ''the overview'']] (''Back-reference: '' @ quote ''see above/the overview''),
      unlabelled [rilit ''refer to '', ropt (rilit ''the ''), any_case [''above'', ''overview'', ''SKILL'']]
        (''Back-reference: '' @ quote ''refer to above/overview'')]"

definition loading :: "string \<Rightarrow> string list \<Rightarrow> prompt_pattern" where
  "loading verb what =
     unlabelled [rilit verb, rlit '' '', ropt (any_case [''the '', ''all '']), any_case what]
       (''Suggestive loading: '' @ quote (verb @ '' relevant/necessary''))"

definition suggestive_patterns :: "prompt_pattern list" where   \<comment> \<open>\<open>SUGGESTIVE_LOADING_PATTERNS\<close>\<close>
  "suggestive_patterns =
     [loading ''load'' [''relevant'', ''necessary'', ''needed'', ''required''],
      loading ''read'' [''relevant'', ''necessary'', ''needed'', ''required''],
      loading ''gather'' [''relevant'', ''necessary'', ''needed'']]"

record flagged_line =
  ph_line :: int
  ph_category :: string
  ph_pattern :: string
  ph_context :: string

text \<open>Characters are code points: \<open>len\<close> counts them and \<open>s[:n]\<close> cuts between them.\<close>

definition char_count :: "string \<Rightarrow> nat" where
  "char_count s = length (utf8_decode s)"

definition clip :: "nat \<Rightarrow> string \<Rightarrow> string" where
  "clip n s = concat (List.map utf8_of (take n (utf8_decode s)))"

definition hit_of :: "string list \<Rightarrow> prompt_pattern \<Rightarrow> rmatch \<Rightarrow> flagged_line" where
  "hit_of lines p m =
     \<lparr>ph_line = line_of m, ph_category = pp_category p, ph_pattern = pp_label p,
      ph_context = clip 100 (strip (lines ! nat (line_of m - 1)))\<rparr>"

definition pattern_hits :: "prompt_pattern list \<Rightarrow> string \<Rightarrow> flagged_line list" where
  "pattern_hits ps content =
     concat (List.map (\<lambda>p. List.map (hit_of (split_all [nl] content) p) (re_finditer (pp_rx p) content)) ps)"

section \<open>Tables, blocks and the overview\<close>

definition is_table_line :: "string \<Rightarrow> bool" where   \<comment> \<open>a bar behind blanks\<close>
  "is_table_line line \<longleftrightarrow> contains line ''|'' \<and> re_match (rseq [RBol False, rstar rspace, rlit ''|'']) line \<noteq> None"

text \<open>The numbers of tables and of their lines, and whether a table is open.\<close>

definition table_line :: "string \<Rightarrow> nat \<times> nat \<times> bool \<Rightarrow> nat \<times> nat \<times> bool" where
  "table_line line st =
     (case st of (tables, rows, in_table) \<Rightarrow>
        if is_table_line line then (if in_table then tables else tables + 1, rows + 1, True) else (tables, rows, False))"

definition count_tables :: "string \<Rightarrow> nat \<times> nat" where
  "count_tables content = (case fold table_line (split_all [nl] content) (0, 0, False) of (tables, rows, _) \<Rightarrow> (tables, rows))"

definition fence_mark :: string where
  "fence_mark = [backtick, backtick, backtick]"

definition fence_line :: "string \<Rightarrow> nat \<times> nat \<times> bool \<Rightarrow> nat \<times> nat \<times> bool" where
  "fence_line line st =
     (case st of (blocks, rows, in_block) \<Rightarrow>
        if startswith (strip line) fence_mark
        then (if in_block then (blocks, rows, False) else (blocks + 1, rows, True))
        else if in_block then (blocks, rows + 1, True) else (blocks, rows, False))"

definition count_fenced_blocks :: "string \<Rightarrow> nat \<times> nat" where
  "count_fenced_blocks content = (case fold fence_line (split_all [nl] content) (0, 0, False) of (blocks, rows, _) \<Rightarrow> (blocks, rows))"

definition is_overview :: "string \<Rightarrow> bool" where
  "is_overview line \<longleftrightarrow> re_match (rseq [RBol False, rlit ''##'', rplus rspace, rlit ''Overview'', RWordB]) line \<noteq> None"

definition is_h2 :: "string \<Rightarrow> bool" where
  "is_h2 line \<longleftrightarrow> re_match (rseq [RBol False, rlit ''##'', rspace]) line \<noteq> None"

fun overview_lines :: "bool \<Rightarrow> string list \<Rightarrow> nat" where
  "overview_lines in_overview [] = 0"
| "overview_lines in_overview (line # ls) =
     (if is_overview line then overview_lines True ls
      else if in_overview \<and> is_h2 line then 0
      else if in_overview then Suc (overview_lines True ls)
      else overview_lines False ls)"

definition extract_overview_size :: "string \<Rightarrow> nat" where
  "extract_overview_size content = overview_lines False (split_all [nl] content)"

section \<open>Walls of text\<close>

definition is_break :: "string \<Rightarrow> bool" where
  "is_break line \<longleftrightarrow>
     (let s = strip line in
      s = [] \<or>
      re_match (rseq [RBol False, RChr (\<lambda>c. c = CHR ''#''), ropt (RChr (\<lambda>c. c = CHR ''#'')), ropt (RChr (\<lambda>c. c = CHR ''#'')),
        ropt (RChr (\<lambda>c. c = CHR ''#'')), ropt (RChr (\<lambda>c. c = CHR ''#'')), ropt (RChr (\<lambda>c. c = CHR ''#'')), rspace]) s \<noteq> None \<or>
      re_match (rseq [RBol False, roneof ''-*'', rspace]) s \<noteq> None \<or>
      re_match (rseq [RBol False, rplus rdigit, rlit ''.'', rspace]) s \<noteq> None \<or>
      startswith s fence_mark \<or> startswith s ''|'')"

record wall_state =
  ws_walls :: "(nat \<times> nat) list"
  ws_start :: "nat option"
  ws_length :: nat

definition close_run :: "wall_state \<Rightarrow> (nat \<times> nat) list" where   \<comment> \<open>the walls, with the run if it is long\<close>
  "close_run st = (if 15 \<le> ws_length st then ws_walls st @ [(the (ws_start st), ws_length st)] else ws_walls st)"

definition wall_line :: "nat \<times> string \<Rightarrow> wall_state \<Rightarrow> wall_state" where
  "wall_line il st =
     (if is_break (snd il) then \<lparr>ws_walls = close_run st, ws_start = None, ws_length = 0\<rparr>
      else st\<lparr>ws_start := (if ws_start st = None then Some (fst il) else ws_start st), ws_length := ws_length st + 1\<rparr>)"

definition walls_of :: "string list \<Rightarrow> (nat \<times> nat) list" where
  "walls_of lines = close_run (fold wall_line (enumerate 1 lines) \<lparr>ws_walls = [], ws_start = None, ws_length = 0\<rparr>)"

definition detect_wall_of_text :: "string \<Rightarrow> (nat \<times> nat) list" where   \<comment> \<open>start and length\<close>
  "detect_wall_of_text content = walls_of (split_all [nl] content)"

section \<open>Headers of prompts\<close>

record prompt_header =
  pr_has :: bool
  pr_fields :: "pyval dict"
  pr_missing :: "string list"

definition expected_fields :: "string list" where
  "expected_fields = [''name'', ''description'', ''menu-code'']"

definition plain_line :: "string \<Rightarrow> pyval dict \<Rightarrow> pyval dict" where
  "plain_line line fm =
     (case split_once '':'' line of None \<Rightarrow> fm | Some (key, v) \<Rightarrow> dict_set (strip key) (VStr (strip v)) fm)"

definition loaded_header :: "yaml_load \<Rightarrow> string \<Rightarrow> pyval" where   \<comment> \<open>with the fallback for an exception\<close>
  "loaded_header yaml front =
     (case yaml front of Inr v \<Rightarrow> v | Inl _ \<Rightarrow> VDict (fold plain_line (split_all [nl] front) []))"

definition prompt_header_of :: "yaml_load \<Rightarrow> string \<Rightarrow> prompt_header" where
  "prompt_header_of yaml content =
     (case re_match rx_header content of
        None \<Rightarrow> \<lparr>pr_has = False, pr_fields = [], pr_missing = expected_fields\<rparr>
      | Some m \<Rightarrow>
          (case loaded_header yaml (rm_grp m 1) of
             VDict fm \<Rightarrow>
               \<lparr>pr_has = True,
                pr_fields = List.map (\<lambda>k. (k, get_or VNone k fm)) (List.filter (\<lambda>k. dict_has k fm) expected_fields),
                pr_missing = List.filter (\<lambda>k. \<not> dict_has k fm) expected_fields\<rparr>
           | _ \<Rightarrow> \<lparr>pr_has = True, pr_fields = [], pr_missing = expected_fields\<rparr>))"

section \<open>One file\<close>

record file_metrics =
  mt_file :: string
  mt_text :: string
  mt_overview :: "nat option"            \<comment> \<open>of \<open>SKILL.md\<close>, \<open>None\<close> for the prompts\<close>
  mt_header :: "prompt_header option"    \<comment> \<open>of the prompts of agents\<close>

definition mt_lines :: "file_metrics \<Rightarrow> nat" where
  "mt_lines f = length (split_all [nl] (mt_text f))"

definition mt_tokens :: "file_metrics \<Rightarrow> nat" where
  "mt_tokens f = char_count (mt_text f) div 4"

definition skill_metrics :: "world \<Rightarrow> ppath \<Rightarrow> file_metrics list res" where
  "skill_metrics w skill_path =
     (let p = under skill_path ''SKILL.md'' in
      if \<not> path_exists w p then Inr []
      else ebind (read_file w p) (\<lambda>text. Inr
        [\<lparr>mt_file = ''SKILL.md'', mt_text = text, mt_overview = Some (extract_overview_size text), mt_header = None\<rparr>]))"

definition prompt_metrics :: "(string \<Rightarrow> prompt_header option) \<Rightarrow> world \<Rightarrow> string \<Rightarrow> ppath \<Rightarrow> file_metrics res" where
  "prompt_metrics header w dir f =
     ebind (read_file w f) (\<lambda>text. Inr
       \<lparr>mt_file = dir @ path_name f, mt_text = text, mt_overview = None, mt_header = header text\<rparr>)"

definition top_prompts :: "world \<Rightarrow> ppath \<Rightarrow> ppath list res" where
  "top_prompts w skill_path =
     ebind (markdown_in w skill_path) (\<lambda>fs. Inr (List.filter (\<lambda>f. path_name f \<noteq> ''SKILL.md'') fs))"

definition no_header :: "string \<Rightarrow> prompt_header option" where
  "no_header text = None"

definition flow_metrics :: "world \<Rightarrow> ppath \<Rightarrow> file_metrics list res" where
  "flow_metrics w skill_path =
     ebind (skill_metrics w skill_path) (\<lambda>own.
     ebind (top_prompts w skill_path) (\<lambda>fs.
     ebind (map_res (prompt_metrics no_header w []) fs) (\<lambda>ms. Inr (own @ ms))))"

definition agent_prompts :: "yaml_load \<Rightarrow> world \<Rightarrow> ppath \<Rightarrow> file_metrics list res" where
  "agent_prompts yaml w skill_path =
     (let header = (\<lambda>text. Some (prompt_header_of yaml text)); refs_dir = under skill_path ''references'' in
      ebind (top_prompts w skill_path) (\<lambda>fs.
      ebind (map_res (prompt_metrics header w []) fs) (\<lambda>ms.
      ebind (if path_exists w refs_dir then markdown_in w refs_dir else Inr []) (\<lambda>refs.
      ebind (map_res (prompt_metrics header w ''references/'') refs) (\<lambda>rs. Inr (ms @ rs))))))"

definition file_sizes :: "world \<Rightarrow> ppath \<Rightarrow> (string \<times> string) list res" where   \<comment> \<open>the names and texts of a directory's files\<close>
  "file_sizes w d =
     ebind (scanned_files w d) (\<lambda>fs.
     map_res (\<lambda>f. ebind (read_file w f) (\<lambda>text. Inr (path_name f, text))) fs)"

section \<open>Output\<close>

definition hit_json :: "bool \<Rightarrow> flagged_line \<Rightarrow> pyval" where
  "hit_json with_category h =
     VDict ([(''line'', VInt (ph_line h))] @ (if with_category then [(''category'', VStr (ph_category h))] else []) @
       [(''pattern'', VStr (ph_pattern h)), (''context'', VStr (ph_context h))])"

definition hits_json :: "bool \<Rightarrow> flagged_line list \<Rightarrow> pyval" where
  "hits_json with_category hs = VList (List.map (hit_json with_category) hs)"

definition nat_json :: "nat \<Rightarrow> pyval" where
  "nat_json n = VInt (int n)"

definition prompt_header_json :: "prompt_header \<Rightarrow> pyval" where
  "prompt_header_json h =
     VDict [(''has_frontmatter'', VBool (pr_has h)), (''fields'', VDict (pr_fields h)), (''missing_fields'', strings_json (pr_missing h))]"

definition metrics_json :: "bool \<Rightarrow> file_metrics \<Rightarrow> pyval" where   \<comment> \<open>\<open>scan_file_patterns\<close>, for agents or for workflows\<close>
  "metrics_json agent f =
     (let text = mt_text f in
      VDict ([(''file'', VStr (mt_file f)), (''line_count'', nat_json (mt_lines f)), (''token_estimate'', nat_json (mt_tokens f)),
         (''sections'', VList (List.map heading_json (extract_sections text))),
         (''table_count'', nat_json (fst (count_tables text))), (''table_lines'', nat_json (snd (count_tables text))),
         (''fenced_block_count'', nat_json (fst (count_fenced_blocks text))),
         (''fenced_block_lines'', nat_json (snd (count_fenced_blocks text))),
         (''waste_patterns'', hits_json True (pattern_hits waste_patterns text)),
         (''back_references'', hits_json False (pattern_hits backref_patterns text))] @
        (if agent then [(''suggestive_loading'', hits_json False (pattern_hits suggestive_patterns text))] else []) @
        [(''has_config_header'', VBool (has_config_header text)), (''has_progression'', VBool (has_progression text))] @
        (if agent then [(''wall_of_text'', VList (List.map (\<lambda>(start, n).
             VDict [(''start_line'', nat_json start), (''length'', nat_json n)]) (detect_wall_of_text text)))] else []) @
        (case mt_overview f of
           Some n \<Rightarrow> [(''overview_lines'', nat_json n), (''is_skill_md'', VBool True)] | None \<Rightarrow> [(''is_skill_md'', VBool False)]) @
        (case mt_header f of Some h \<Rightarrow> [(''prompt_frontmatter'', prompt_header_json h)] | None \<Rightarrow> [])))"

definition skill_summary :: "file_metrics list \<Rightarrow> pyval" where
  "skill_summary files =
     (let one = List.find (\<lambda>f. mt_overview f \<noteq> None) files;
          of_skill = (\<lambda>g. nat_json (case one of None \<Rightarrow> 0 | Some f \<Rightarrow> g f)) in
      VDict [(''line_count'', of_skill mt_lines), (''token_estimate'', of_skill mt_tokens),
        (''overview_lines'', of_skill (\<lambda>f. case mt_overview f of None \<Rightarrow> 0 | Some n \<Rightarrow> n)),
        (''table_count'', of_skill (\<lambda>f. fst (count_tables (mt_text f)))), (''table_lines'', of_skill (\<lambda>f. snd (count_tables (mt_text f)))),
        (''fenced_block_count'', of_skill (\<lambda>f. fst (count_fenced_blocks (mt_text f)))),
        (''fenced_block_lines'', of_skill (\<lambda>f. snd (count_fenced_blocks (mt_text f)))),
        (''section_count'', of_skill (\<lambda>f. length (extract_sections (mt_text f))))])"

definition prompts_where :: "(string \<Rightarrow> bool) \<Rightarrow> file_metrics list \<Rightarrow> pyval" where
  "prompts_where P files = nat_json (length (List.filter (\<lambda>f. mt_overview f = None \<and> P (mt_text f)) files))"

definition prompt_health :: "file_metrics list \<Rightarrow> pyval" where
  "prompt_health files =
     VDict [(''total_prompts'', prompts_where (\<lambda>_. True) files), (''prompts_with_config_header'', prompts_where has_config_header files),
       (''prompts_with_progression'', prompts_where has_progression files)]"

definition total_of :: "(file_metrics \<Rightarrow> nat) \<Rightarrow> file_metrics list \<Rightarrow> pyval" where
  "total_of g files = nat_json (sum_list (List.map g files))"

definition hits_in :: "prompt_pattern list \<Rightarrow> file_metrics \<Rightarrow> nat" where
  "hits_in ps f = length (pattern_hits ps (mt_text f))"

definition aggregate_json :: "bool \<Rightarrow> file_metrics list \<Rightarrow> pyval" where
  "aggregate_json agent files =
     VDict ([(''total_files_scanned'', nat_json (length files)), (''total_token_estimate'', total_of mt_tokens files),
         (''total_waste_patterns'', total_of (hits_in waste_patterns) files),
         (''total_back_references'', total_of (hits_in backref_patterns) files)] @
        (if agent then [(''total_suggestive_loading'', total_of (hits_in suggestive_patterns) files),
           (''total_wall_of_text'', total_of (\<lambda>f. length (detect_wall_of_text (mt_text f))) files)] else []))"

definition sizes_json :: "(string \<times> string) list \<Rightarrow> pyval" where
  "sizes_json sizes =
     VDict (List.map (\<lambda>(name, text).
       (name, VDict [(''lines'', nat_json (length (split_all [nl] text))), (''tokens'', nat_json (char_count text div 4))])) sizes)"

text \<open>The report, \<open>memory\<close> is \<open>None\<close> for workflows; the sizes are those of the references or of the resources.\<close>

definition craft_json :: "world \<Rightarrow> ppath \<Rightarrow> bool option \<Rightarrow> file_metrics list \<Rightarrow> (string \<times> string) list \<Rightarrow> pyval" where
  "craft_json w skill_path memory files sizes =
     VDict ([(''scanner'', VStr ''prompt-craft-prepass''), (''script'', VStr ''prepass-prompt-metrics.py''), (''version'', VStr ''1.0.0''),
         (''skill_path'', VStr (path_str skill_path)), (''timestamp'', VStr (now_iso w)), (''status'', VStr ''info'')] @
        (case memory of None \<Rightarrow> [] | Some b \<Rightarrow> [(''is_memory_agent'', VBool b)]) @
        [(''skill_md_summary'', skill_summary files), (''prompt_health'', prompt_health files),
         (''aggregate'', aggregate_json (memory \<noteq> None) files),
         (if memory = None then ''reference_sizes'' else ''resource_sizes'', sizes_json sizes),
         (''files'', VList (List.map (metrics_json (memory \<noteq> None)) files))])"

definition flow_craft :: "world \<Rightarrow> ppath \<Rightarrow> pyval res" where   \<comment> \<open>\<open>scan_prompt_metrics\<close> for workflows\<close>
  "flow_craft w skill_path =
     ebind (flow_metrics w skill_path) (\<lambda>files.
     ebind (file_sizes w (under skill_path ''references'')) (\<lambda>sizes. Inr (craft_json w skill_path None files sizes)))"

definition agent_craft :: "yaml_load \<Rightarrow> world \<Rightarrow> ppath \<Rightarrow> pyval res" where   \<comment> \<open>\<open>scan_prompt_metrics\<close> for agents\<close>
  "agent_craft yaml w skill_path =
     ebind (skill_metrics w skill_path) (\<lambda>own.
     ebind (has_memory_templates w skill_path) (\<lambda>memory.
     ebind (agent_prompts yaml w skill_path) (\<lambda>prompts.
     ebind (file_sizes w (under skill_path ''resources'')) (\<lambda>sizes.
     Inr (craft_json w skill_path (Some memory) (own @ prompts) sizes)))))"

definition craft_prepass :: "(world \<Rightarrow> ppath \<Rightarrow> pyval res) \<Rightarrow> string \<Rightarrow> string \<Rightarrow> int act" where   \<comment> \<open>\<open>main\<close>\<close>
  "craft_prepass scan skill_path output_file =
     bindA (reads (\<lambda>w. is_dir w (path_of skill_path))) (\<lambda>there.
     if \<not> there then ret 2
     else
       bindA (readsE (\<lambda>w. scan w (path_of skill_path))) (\<lambda>report.
       write_scan_output output_file (json_dumps style_indent2 report)))"

section \<open>The walls are the long runs\<close>

text \<open>A wall: at least fifteen lines without a break, between two breaks or the ends of the text.\<close>

definition wall_at :: "string list \<Rightarrow> string list \<Rightarrow> string list \<Rightarrow> bool" where
  "wall_at before run after \<longleftrightarrow>
     15 \<le> length run \<and> (\<forall>l \<in> set run. \<not> is_break l) \<and>
     (before = [] \<or> is_break (last before)) \<and> (after = [] \<or> is_break (hd after))"

text \<open>The same by recursion, behind \<open>n\<close> lines of a run that ends before line \<open>i\<close>.\<close>

fun walls_from :: "nat \<Rightarrow> nat \<Rightarrow> string list \<Rightarrow> (nat \<times> nat) list" where
  "walls_from i n [] = (if 15 \<le> n then [(i - n, n)] else [])"
| "walls_from i n (l # ls) =
     (if is_break l then (if 15 \<le> n then [(i - n, n)] else []) @ walls_from (Suc i) 0 ls else walls_from (Suc i) (Suc n) ls)"

lemma fold_walls:
  assumes "n < i" and "ws_start st = (if n = 0 then None else Some (i - n))" and "ws_length st = n"
  shows "close_run (fold wall_line (enumerate i ls) st) = ws_walls st @ walls_from i n ls"
  using assms
proof (induction ls arbitrary: i n st)
  case Nil
  then show ?case by (auto simp: close_run_def)
next
  case (Cons l ls)
  show ?case
  proof (cases "is_break l")
    case True
    let ?st = "\<lparr>ws_walls = close_run st, ws_start = None, ws_length = 0\<rparr>"
    from Cons.IH [of 0 "Suc i" ?st] True Cons.prems show ?thesis by (auto simp: wall_line_def close_run_def)
  next
    case False
    with Cons.IH [of "Suc n" "Suc i" "wall_line (i, l) st"] Cons.prems show ?thesis by (auto simp: wall_line_def)
  qed
qed

lemma run_below:
  assumes "pre @ run @ post = pre0 @ run0" and "length pre0 \<le> length pre" and "\<forall>l \<in> set run0. \<not> is_break l"
    and "wall_at pre run post"
  shows "pre = pre0 \<and> run = run0 \<and> post = []"
proof -
  from assms(1,2) obtain mid where mid: "pre = pre0 @ mid" "run0 = mid @ run @ post"
    by (auto simp: append_eq_append_conv2)
  have "mid = []"
  proof (rule ccontr)
    assume "mid \<noteq> []"
    then have "is_break (last mid)" "last mid \<in> set run0" using assms(4) mid by (auto simp: wall_at_def)
    with assms(3) show False by blast
  qed
  moreover have "post = []"
    using assms(3,4) mid by (cases post) (auto simp: wall_at_def)
  ultimately show ?thesis using mid by simp
qed

lemma append_eq_longer:
  assumes "A @ C = B @ D" and "length B \<le> length A"
  obtains E where "A = B @ E" and "D = E @ C"
proof
  have "take (length B) (A @ C) = B" using assms(1) by simp
  then have "take (length B) A = B" using assms(2) by simp
  then show *: "A = B @ drop (length B) A" by (metis append_take_drop_id)
  then have "B @ drop (length B) A @ C = B @ D" using assms(1) by (metis append_assoc)
  then show "D = drop (length B) A @ C" by simp
qed

lemma walls_from_exact:
  assumes "\<forall>l \<in> set run0. \<not> is_break l" and "pre0 = [] \<or> is_break (last pre0)"
  shows "(start, n) \<in> set (walls_from (Suc (length pre0 + length run0)) (length run0) ls) \<longleftrightarrow>
    (\<exists>pre run post. pre0 @ run0 @ ls = pre @ run @ post \<and> length pre0 \<le> length pre \<and> wall_at pre run post \<and>
       start = Suc (length pre) \<and> n = length run)"
  using assms
proof (induction ls arbitrary: pre0 run0)
  case Nil
  have "(\<exists>pre run post. pre0 @ run0 = pre @ run @ post \<and> length pre0 \<le> length pre \<and> wall_at pre run post \<and>
      start = Suc (length pre) \<and> n = length run) \<longleftrightarrow> wall_at pre0 run0 [] \<and> start = Suc (length pre0) \<and> n = length run0"
    using run_below [of _ _ _ pre0 run0] Nil.prems(1) by (metis append_Nil2 le_refl)
  then show ?case using Nil.prems by (auto simp: wall_at_def)
next
  case (Cons l ls)
  show ?case
  proof (cases "is_break l")
    case False
    then show ?thesis using Cons.IH [of "run0 @ [l]" pre0] Cons.prems by simp
  next
    case True
    let ?Q = "\<lambda>pre run post. start = Suc (length pre) \<and> n = length run"
    have later: "(start, n) \<in> set (walls_from (Suc (Suc (length pre0 + length run0))) 0 ls) \<longleftrightarrow>
      (\<exists>pre run post. pre0 @ run0 @ l # ls = pre @ run @ post \<and> length (pre0 @ run0 @ [l]) \<le> length pre \<and> wall_at pre run post \<and>
         start = Suc (length pre) \<and> n = length run)"
      using Cons.IH [of "[]" "pre0 @ run0 @ [l]"] True by simp
    have split: "length (pre0 @ run0 @ [l]) \<le> length pre \<or> pre = pre0 \<and> run = run0 \<and> post = l # ls"
      if eq: "pre0 @ run0 @ l # ls = pre @ run @ post" and "length pre0 \<le> length pre" and wall: "wall_at pre run post" for pre run post
    proof (cases "length (pre0 @ run0 @ [l]) \<le> length pre")
      case inside: False
      then have le: "length pre \<le> length (pre0 @ run0)" by simp
      have "length (pre @ run) \<le> length (pre0 @ run0)"
      proof (rule ccontr)
        assume "\<not> ?thesis"
        then have len: "length (pre0 @ run0) < length (pre @ run)" by simp
        have "(pre @ run) ! length (pre0 @ run0) = (pre0 @ run0 @ l # ls) ! length (pre0 @ run0)"
          using eq len by (metis append.assoc nth_append)
        also have "\<dots> = l" by (metis append.assoc nth_append_length)
        finally have "l \<in> set run" using le len by (metis add_diff_inverse_nat leD length_append nat_add_left_cancel_less nth_append nth_mem)
        with wall True show False by (simp add: wall_at_def)
      qed
      moreover have "(pre0 @ run0) @ (l # ls) = (pre @ run) @ post" using eq by simp
      ultimately obtain post' where post': "pre0 @ run0 = (pre @ run) @ post'" "post = post' @ l # ls"
        by (metis append_eq_longer)
      then have "wall_at pre run post'" using wall by (cases post') (auto simp: wall_at_def)
      then show ?thesis using run_below [of pre run post' pre0 run0] that(2) Cons.prems(1) post' by auto
    qed simp
    have "(start, n) \<in> set (if 15 \<le> length run0 then [(Suc (length pre0 + length run0) - length run0, length run0)] else []) \<longleftrightarrow>
        wall_at pre0 run0 (l # ls) \<and> start = Suc (length pre0) \<and> n = length run0"
      using Cons.prems True by (auto simp: wall_at_def)
    moreover have "(start, n) \<in> set (walls_from (Suc (length pre0 + length run0)) (length run0) (l # ls)) \<longleftrightarrow>
        (start, n) \<in> set (if 15 \<le> length run0 then [(Suc (length pre0 + length run0) - length run0, length run0)] else []) \<or>
        (start, n) \<in> set (walls_from (Suc (Suc (length pre0 + length run0))) 0 ls)"
      using True by simp
    ultimately have unfolded: "(start, n) \<in> set (walls_from (Suc (length pre0 + length run0)) (length run0) (l # ls)) \<longleftrightarrow>
        (wall_at pre0 run0 (l # ls) \<and> start = Suc (length pre0) \<and> n = length run0) \<or>
        (\<exists>pre run post. pre0 @ run0 @ l # ls = pre @ run @ post \<and> length (pre0 @ run0 @ [l]) \<le> length pre \<and> wall_at pre run post \<and>
           start = Suc (length pre) \<and> n = length run)"
      using later by argo
    have longer: "length (pre0 @ run0 @ [l]) \<le> length pre \<Longrightarrow> length pre0 \<le> length pre" for pre by simp
    show ?thesis unfolding unfolded
    proof (rule iffI, goal_cases)
      case 1
      then show ?case
      proof (elim disjE, goal_cases)
        case 1
        show ?case by (rule exI [of _ pre0], rule exI [of _ run0], rule exI [of _ "l # ls"]) (use 1 in simp)
      next
        case 2
        then show ?case using longer by blast
      qed
    next
      case 2
      then obtain pre run post where w: "pre0 @ run0 @ l # ls = pre @ run @ post" "length pre0 \<le> length pre"
          "wall_at pre run post" "start = Suc (length pre)" "n = length run" by blast
      from split [OF w(1-3)] show ?case
      proof (elim disjE, goal_cases)
        case 1
        then show ?case using w by blast
      next
        case 2
        then show ?case using w by blast
      qed
    qed
  qed
qed

text \<open>
  C33. The walls of text that are reported are exactly the runs of at least fifteen lines without a break that cannot be
  extended, each with the number of its first line and its length.
\<close>

theorem walls_exact:
  "(start, n) \<in> set (walls_of lines) \<longleftrightarrow>
     (\<exists>before run after. lines = before @ run @ after \<and> wall_at before run after \<and> start = Suc (length before) \<and> n = length run)"
proof -
  have "walls_of lines = walls_from 1 0 lines"
    unfolding walls_of_def using fold_walls [of 0 1 "\<lparr>ws_walls = [], ws_start = None, ws_length = 0\<rparr>" lines] by simp
  then show ?thesis using walls_from_exact [of "[]" "[]" start n lines] by simp
qed

end
