(* ===== verification/Path_Standards.thy ===== *)
theory Path_Standards
  imports Prompt_Metrics
begin

text \<open>
  \<open>scan-path-standards.py\<close> of \<open>.agents/skills/bmad-agent-builder/scripts/\<close> and of
  \<open>.agents/skills/bmad-workflow-builder/scripts/\<close>: the paths that the texts of a skill name are held against the
  conventions. The two scripts differ in the check of memory paths, which only that for agents has. The arguments are as
  \<open>argparse\<close> parsed them, a missing \<open>--output\<close> is the empty string. A negative look-behind at the start of a pattern
  is a condition on the text before the match: matches of \<open>_bmad\<close> do not overlap.
\<close>

section \<open>Patterns\<close>

definition root_mark :: string where
  "root_mark = ''{project-root}/''"

definition rx_double_prefix :: rx where   \<comment> \<open>\<open>\{project-root\}/\{[^}]+\}\<close>\<close>
  "rx_double_prefix = rseq [rlit root_mark, rlit ''{'', rplus (rnoneof ''}''), rlit ''}'']"

definition rx_bare_bmad :: rx where   \<comment> \<open>\<open>_bmad[/\s]\<close>, without its look-behind\<close>
  "rx_bare_bmad = RSeq (rlit ''_bmad'') (RChr (\<lambda>c. c = CHR ''/'' \<or> is_space c))"

definition rx_opening :: rx where   \<comment> \<open>the start of a line, or a blank, a quote or a bracket\<close>
  "rx_opening = RAlt (RBol True) (RChr (\<lambda>c. is_space c \<or> c \<in> set [dquote, backtick, squote, CHR ''('']))"

definition rx_path :: "rx list \<Rightarrow> rx" where
  "rx_path start = rseq ([rx_opening] @ start @ [rplus rnspace])"

definition rx_absolute_path :: rx where
  "rx_absolute_path = rx_path [rlit ''/'', any_of [''Users'', ''home'', ''opt'', ''var'', ''tmp'', ''etc'', ''usr''], rlit ''/'']"

definition rx_home_path :: rx where
  "rx_home_path = rx_path [rlit ''~/'']"

definition rx_relative_dot :: rx where
  "rx_relative_dot = rx_path [rlit ''../'']"

definition rx_cross_dir :: rx where
  "rx_cross_dir = rx_path [rlit ''./'', any_of [''references'', ''scripts'', ''assets''], rlit ''/'']"

definition rx_memory_ref :: rx where   \<comment> \<open>\<open>_bmad/memory/\S+\<close>\<close>
  "rx_memory_ref = RSeq (rlit ''_bmad/memory/'') (rplus rnspace)"

definition rx_fence :: rx where   \<comment> \<open>under \<open>re.MULTILINE\<close>\<close>
  "rx_fence = RSeq (RBol True) (rlit fence_mark)"

definition valid_frontmatter_keys :: "string list" where
  "valid_frontmatter_keys = [''name'', ''description'']"

definition in_fence :: "string \<Rightarrow> bool" where   \<comment> \<open>\<open>is_in_fenced_block\<close>, of the text before the position\<close>
  "in_fence before \<longleftrightarrow> odd (length (re_finditer rx_fence before))"

section \<open>Findings\<close>

record path_finding =
  pf_file :: string
  pf_line :: int
  pf_severity :: string
  pf_category :: string
  pf_title :: string
  pf_detail :: string
  pf_action :: string

definition header_issue :: "int \<Rightarrow> string \<Rightarrow> string \<Rightarrow> string \<Rightarrow> string \<Rightarrow> string \<Rightarrow> path_finding" where
  "header_issue line file sev title detail fix =
     \<lparr>pf_file = file, pf_line = line, pf_severity = sev, pf_category = ''frontmatter'', pf_title = title, pf_detail = detail,
      pf_action = fix\<rparr>"

definition char_drop :: "nat \<Rightarrow> string \<Rightarrow> string" where   \<comment> \<open>\<open>s[n:]\<close>\<close>
  "char_drop n s = concat (List.map utf8_of (drop n (utf8_decode s)))"

definition last_chars :: "nat \<Rightarrow> string \<Rightarrow> string" where   \<comment> \<open>\<open>s[max(0, len(s) - n):]\<close>\<close>
  "last_chars n s = char_drop (char_count s - n) s"

definition key_issues :: "string \<Rightarrow> int \<times> string \<Rightarrow> path_finding list" where
  "key_issues file il =
     (let line = strip (snd il) in
      if line = [] \<or> startswith line ''#'' then []
      else
        (case split_once '':'' line of
           None \<Rightarrow> []
         | Some (k, _) \<Rightarrow>
             if strip k \<in> set valid_frontmatter_keys then []
             else [header_issue (fst il) file ''high'' (''Invalid frontmatter key: '' @ strip k)
                     (''Only '' @ join '', '' (sorted_strings valid_frontmatter_keys) @ '' are allowed in frontmatter'')
                     (''Remove '' @ strip k @ '' from frontmatter '' @ em_dash @ '' use as content field in SKILL.md body instead'')]))"

definition numbered :: "int \<Rightarrow> string list \<Rightarrow> (int \<times> string) list" where   \<comment> \<open>\<open>enumerate\<close> from a number\<close>
  "numbered start ls = zip (List.map (\<lambda>i. start + int i) [0..<length ls]) ls"

definition check_frontmatter :: "string \<Rightarrow> string \<Rightarrow> path_finding list" where   \<comment> \<open>of a content and a file's name\<close>
  "check_frontmatter content file =
     (if file \<noteq> ''SKILL.md'' then []
      else if \<not> startswith content ''---''
      then [header_issue 1 file ''critical'' ''SKILL.md missing frontmatter block''
              ''SKILL.md must start with --- frontmatter containing name and description''
              ''Add frontmatter with name and description fields'']
      else
        (case split_once (nl # ''---'') (drop 3 content) of
           None \<Rightarrow> [header_issue 1 file ''critical'' ''SKILL.md frontmatter block not closed'' ''Missing closing --- for frontmatter''
                      ''Add closing --- after frontmatter fields'']
         | Some (front, _) \<Rightarrow> concat (List.map (key_issues file) (numbered 2 (split_all [nl] (char_drop 1 front))))))"

definition root_issue :: "ppath \<Rightarrow> path_finding" where
  "root_issue f =
     \<lparr>pf_file = path_name f, pf_line = 0, pf_severity = ''high'', pf_category = ''structure'',
      pf_title = ''Prompt file at skill root: '' @ path_name f,
      pf_detail = ''All progressive disclosure content must be in ./references/ '' @ em_dash @ '' only SKILL.md belongs at root'',
      pf_action = ''Move '' @ path_name f @ '' to references/'' @ path_name f\<rparr>"

definition check_root_md_files :: "world \<Rightarrow> ppath \<Rightarrow> path_finding list" where
  "check_root_md_files w skill_path =
     List.map root_issue (List.filter (\<lambda>f. path_name f \<noteq> ''SKILL.md'') (glob_sorted w skill_path ''*.md''))"

section \<open>One file\<close>

record path_check =
  pc_rx :: rx
  pc_category :: string
  pc_severity :: string
  pc_title :: string

definition parent_check :: path_check where
  "parent_check =
     \<lparr>pc_rx = rx_relative_dot, pc_category = ''relative-prefix'', pc_severity = ''high'',
       pc_title = ''Parent directory reference (../) found '' @ em_dash @ '' fragile, breaks with reorganization''\<rparr>"

definition path_checks :: "path_check list" where
  "path_checks =
     [\<lparr>pc_rx = rx_double_prefix, pc_category = ''double-prefix'', pc_severity = ''critical'',
       pc_title = ''Double-prefix: {project-root}/{variable} '' @ em_dash @ '' config variables already contain {project-root} at runtime''\<rparr>,
      \<lparr>pc_rx = rx_absolute_path, pc_category = ''absolute-path'', pc_severity = ''high'',
       pc_title = ''Absolute path found '' @ em_dash @ '' not portable across machines''\<rparr>,
      \<lparr>pc_rx = rx_home_path, pc_category = ''absolute-path'', pc_severity = ''high'',
       pc_title = ''Home directory path (~/) found '' @ em_dash @ '' environment-specific''\<rparr>,
      parent_check,
      \<lparr>pc_rx = rx_cross_dir, pc_category = ''cross-dir-dot-slash'', pc_severity = ''high'',
       pc_title = ''Cross-directory ./ reference '' @ em_dash @
         '' ./ means same folder only; use bare skill-root relative path (e.g., references/foo.md not ./references/foo.md)''\<rparr>]"

definition bare_check :: path_check where
  "bare_check =
     \<lparr>pc_rx = rx_bare_bmad, pc_category = ''bare-bmad'', pc_severity = ''high'',
      pc_title = ''Bare _bmad reference without {project-root} prefix''\<rparr>"

definition memory_check :: path_check where
  "memory_check =
     \<lparr>pc_rx = rx_memory_ref, pc_category = ''memory-path'', pc_severity = ''high'',
      pc_title = ''Memory path missing {project-root} prefix '' @ em_dash @ '' use {project-root}/_bmad/memory/''\<rparr>"

definition path_issue :: "string \<Rightarrow> string list \<Rightarrow> path_check \<Rightarrow> rmatch \<Rightarrow> path_finding" where
  "path_issue file lines chk m =
     \<lparr>pf_file = file, pf_line = line_of m, pf_severity = pc_severity chk, pf_category = pc_category chk, pf_title = pc_title chk,
      pf_detail = clip 120 (strip (lines ! nat (line_of m - 1))), pf_action = []\<rparr>"

definition reported :: "bool \<Rightarrow> rmatch \<Rightarrow> bool" where   \<comment> \<open>not in a fenced block that is skipped\<close>
  "reported skip_fenced m \<longleftrightarrow> \<not> (skip_fenced \<and> in_fence (rm_before m))"

definition matches_where :: "(string \<Rightarrow> bool) \<Rightarrow> bool \<Rightarrow> path_check \<Rightarrow> string \<Rightarrow> rmatch list" where
  "matches_where ok skip_fenced chk content =
     List.filter (\<lambda>m. reported skip_fenced m \<and> ok (rm_before m)) (re_finditer (pc_rx chk) content)"

definition is_bare :: "string \<Rightarrow> bool" where
  "is_bare before \<longleftrightarrow> \<not> endswith before root_mark \<and> \<not> contains (last_chars 30 before) root_mark"

definition is_unrooted :: "string \<Rightarrow> bool" where
  "is_unrooted before \<longleftrightarrow> \<not> contains (last_chars 20 before) root_mark"

definition scan_text :: "bool \<Rightarrow> bool \<Rightarrow> string \<Rightarrow> string \<Rightarrow> path_finding list" where
  "scan_text agent skip_fenced file content =
     (let issues = (\<lambda>ok chk. List.map (path_issue file (split_all [nl] content) chk) (matches_where ok skip_fenced chk content)) in
      concat (List.map (issues (\<lambda>_. True)) path_checks) @ issues is_bare bare_check @
      (if agent then issues is_unrooted memory_check else []))"

definition rel_name :: "ppath \<Rightarrow> ppath \<Rightarrow> string" where
  "rel_name skill_path f = path_str (case relative_to f skill_path of None \<Rightarrow> f | Some r \<Rightarrow> r)"

definition scan_path_file :: "bool \<Rightarrow> bool \<Rightarrow> world \<Rightarrow> ppath \<Rightarrow> ppath \<Rightarrow> path_finding list res" where
  "scan_path_file agent skip_fenced w skill_path f =
     ebind (read_file w f) (\<lambda>content. Inr (scan_text agent skip_fenced (rel_name skill_path f) content))"

section \<open>The scan\<close>

definition scanned_texts :: "world \<Rightarrow> ppath \<Rightarrow> ppath list" where   \<comment> \<open>both globs, sorted together\<close>
  "scanned_texts w skill_path =
     List.filter (\<lambda>f. fnmatch ''*.md'' (path_name f) \<or> fnmatch ''*.json'' (path_name f)) (glob_sorted w skill_path ''**/*'')"

record path_scan =
  ps_files :: "string list"
  ps_findings :: "path_finding list"

definition own_header :: "world \<Rightarrow> ppath \<Rightarrow> path_finding list res" where
  "own_header w skill_path =
     (if \<not> path_exists w (under skill_path ''SKILL.md'') then Inr []
      else ebind (read_file w (under skill_path ''SKILL.md'')) (\<lambda>content. Inr (check_frontmatter content ''SKILL.md'')))"

definition scan_skill_paths :: "bool \<Rightarrow> bool \<Rightarrow> world \<Rightarrow> ppath \<Rightarrow> path_scan res" where
  "scan_skill_paths agent skip_fenced w skill_path =
     ebind (own_header w skill_path) (\<lambda>header.
     ebind (map_res (scan_path_file agent skip_fenced w skill_path) (scanned_texts w skill_path)) (\<lambda>found. Inr
       \<lparr>ps_files = List.map (rel_name skill_path) (scanned_texts w skill_path),
        ps_findings = check_root_md_files w skill_path @ header @ concat found\<rparr>))"

definition path_finding_json :: "path_finding \<Rightarrow> pyval" where
  "path_finding_json f =
     VDict [(''file'', VStr (pf_file f)), (''line'', VInt (pf_line f)), (''severity'', VStr (pf_severity f)),
       (''category'', VStr (pf_category f)), (''title'', VStr (pf_title f)), (''detail'', VStr (pf_detail f)),
       (''action'', VStr (pf_action f))]"

definition path_categories :: "bool \<Rightarrow> string list" where
  "path_categories agent =
     [''double_prefix'', ''bare_bmad'', ''absolute_path'', ''relative_prefix'', ''cross_dir_dot_slash''] @
     (if agent then [''memory_path''] else []) @ [''frontmatter'', ''structure'']"

definition tally :: "(path_finding \<Rightarrow> string) \<Rightarrow> path_finding list \<Rightarrow> string list \<Rightarrow> pyval" where
  "tally g fs ks = VDict (List.map (\<lambda>k. (k, VInt (int (length (List.filter (\<lambda>f. g f = k) fs))))) ks)"

definition path_scan_json :: "bool \<Rightarrow> world \<Rightarrow> ppath \<Rightarrow> path_scan \<Rightarrow> pyval" where
  "path_scan_json agent w skill_path r =
     VDict [(''scanner'', VStr ''path-standards''), (''script'', VStr ''scan-path-standards.py''), (''version'', VStr ''3.0.0''),
       (''skill_path'', VStr (path_str skill_path)), (''timestamp'', VStr (now_iso w)), (''files_scanned'', strings_json (ps_files r)),
       (''status'', VStr (if ps_findings r = [] then ''pass'' else ''fail'')),
       (''findings'', VList (List.map path_finding_json (ps_findings r))), (''assessments'', VDict []),
       (''summary'', VDict [(''total_findings'', VInt (int (length (ps_findings r)))),
          (''by_severity'', tally pf_severity (ps_findings r) [''critical'', ''high'', ''medium'', ''low'']),
          (''by_category'', tally (\<lambda>f. replace_all ''-'' ''_'' (pf_category f)) (ps_findings r) (path_categories agent)),
          (''assessment'', VStr ''Path standards scan complete'')])]"

definition path_standards :: "bool \<Rightarrow> string \<Rightarrow> string \<Rightarrow> bool \<Rightarrow> int act" where   \<comment> \<open>\<open>main\<close>\<close>
  "path_standards agent skill_path output_file include_fenced =
     bindA (reads (\<lambda>w. is_dir w (path_of skill_path))) (\<lambda>there.
     if \<not> there then ret 2
     else
       bindA (readsE (\<lambda>w. scan_skill_paths agent (\<not> include_fenced) w (path_of skill_path))) (\<lambda>r.
       bindA (reads (\<lambda>w. json_dumps style_indent2 (path_scan_json agent w (path_of skill_path) r))) (\<lambda>content.
       bindA (write_scan_output output_file content) (\<lambda>_. ret (if ps_findings r = [] then 0 else 1)))))"

section \<open>A match that no earlier match reaches is found\<close>

lemma search_clear:
  "match_at r (rev a @ p) s = Some m \<Longrightarrow>
     search_from r p (a @ s) = Some m \<or>
     (\<exists>a1 a2 m'. a = a1 @ a2 \<and> a2 \<noteq> [] \<and> match_at r (rev a1 @ p) (a2 @ s) = Some m' \<and> search_from r p (a @ s) = Some m')"
proof (induction a arbitrary: p)
  case Nil
  then show ?case by (subst search_from.simps) simp
next
  case (Cons c a)
  show ?case
  proof (cases "match_at r p (c # a @ s)")
    case (Some m')
    then have "search_from r p ((c # a) @ s) = Some m'" by (subst search_from.simps) simp
    with Some show ?thesis by (intro disjI2 exI [of _ "[]"] exI [of _ "c # a"]) auto
  next
    case None
    then have next_one: "search_from r p ((c # a) @ s) = search_from r (c # p) (a @ s)" by (subst search_from.simps) simp
    from Cons.prems have "match_at r (rev a @ c # p) s = Some m" by simp
    from Cons.IH [OF this] show ?thesis unfolding next_one
    proof (elim disjE exE, goal_cases)
      case 1
      then show ?case by simp
    next
      case (2 a1 a2 m')
      then have "search_from r (c # p) (a @ s) = Some m'" by blast
      moreover from 2 have "c # a = (c # a1) @ a2" "a2 \<noteq> []" "match_at r (rev (c # a1) @ p) (a2 @ s) = Some m'" by simp_all
      ultimately show ?case by blast
    qed
  qed
qed

lemma find_iter_reaches:
  assumes "match_at r (rev a @ p) s = Some m" and "length a < n"
    and "\<And>a1 a2 m'. a = a1 @ a2 \<Longrightarrow> a2 \<noteq> [] \<Longrightarrow> match_at r (rev a1 @ p) (a2 @ s) = Some m' \<Longrightarrow> length (rm_text m') \<le> length a2"
  shows "m \<in> set (find_iter n r p (a @ s))"
  using assms
proof (induction n arbitrary: a p)
  case 0
  then show ?case by simp
next
  case (Suc n)
  from search_clear [OF Suc.prems(1)] show ?case
  proof (elim disjE exE conjE, goal_cases)
    case 1
    then show ?case by simp
  next
    case (2 a1 a2 m')
    have before: "rm_before m' = rev p @ a1" and after: "a2 @ s = rm_text m' @ rm_after m'"
      using match_at_split [OF 2(3)] by simp_all
    have "length (rm_text m') \<le> length a2" using Suc.prems(3) 2 by blast
    with after obtain a3 where a3: "a2 = rm_text m' @ a3" "rm_after m' = a3 @ s" by (metis append_eq_longer)
    have tail: "m \<in> set (find_iter n r (rev u @ rev a1 @ p) (v @ s))" if uv: "a2 = u @ v" "u \<noteq> []" for u v
    proof (rule Suc.IH)
      show "match_at r (rev v @ rev u @ rev a1 @ p) s = Some m" using Suc.prems(1) 2(1) uv(1) by simp
      show "length v < n" using Suc.prems(2) 2(1) uv by (cases u) simp_all
      fix v1 v2 m2
      assume "v = v1 @ v2" "v2 \<noteq> []" "match_at r (rev v1 @ rev u @ rev a1 @ p) (v2 @ s) = Some m2"
      then show "length (rm_text m2) \<le> length v2" using Suc.prems(3) [of "a1 @ u @ v1" v2 m2] 2(1) uv(1) by simp
    qed
    show ?case
    proof (cases "rm_text m' = []")
      case False
      have "m \<in> set (find_iter n r (rev (rm_before m' @ rm_text m')) (rm_after m'))"
        using tail [OF a3(1) False] before a3(2) by simp
      with 2(4) False show ?thesis by simp
    next
      case True
      then have rest: "rm_after m' = a2 @ s" using a3 by simp
      obtain c v where cv: "a2 = c # v" using 2(2) by (cases a2) simp_all
      from tail [of "[c]" v] have "m \<in> set (find_iter n r (c # rev (rm_before m')) (v @ s))" using cv before by simp
      with 2(4) True rest cv show ?thesis by simp
    qed
  qed
qed

section \<open>A reference at the start of a line is attributed to the line above\<close>

definition opens :: "char \<Rightarrow> bool" where
  "opens c \<longleftrightarrow> is_space c \<or> c \<in> set [dquote, backtick, squote, CHR ''('']"

lemma in_opening:
  "u \<in> set (rrun rx_opening (pre, rest, gs)) \<longleftrightarrow>
     (u = (pre, rest, gs) \<and> (pre = [] \<or> hd pre = nl)) \<or> (\<exists>c cs. rest = c # cs \<and> opens c \<and> u = (c # pre, cs, gs))"
  unfolding rx_opening_def opens_def by (cases rest) (auto simp: nl_def)

lemma parent_match:
  "t \<in> set (rrun rx_relative_dot (pre, rest, gs)) \<longleftrightarrow>
     (\<exists>b w after. rest = b @ ''../'' @ w @ after \<and> w \<noteq> [] \<and> list_all (\<lambda>c. \<not> is_space c) w \<and>
        (b = [] \<and> (pre = [] \<or> hd pre = nl) \<or> (\<exists>c. b = [c] \<and> opens c)) \<and> t = (rev (b @ ''../'' @ w) @ pre, after, gs))"
  (is "_ \<longleftrightarrow> ?R")
proof
  assume "t \<in> set (rrun rx_relative_dot (pre, rest, gs))"
  then obtain u v where u: "u \<in> set (rrun rx_opening (pre, rest, gs))" and v: "v \<in> set (rrun (rlit ''../'') u)"
    and t: "t \<in> set (rrun (rplus rnspace) v)"
    unfolding rx_relative_dot_def rx_path_def append_Cons append_Nil in_rseq in_rseq_Nil by blast
  from u obtain b rest1 where b: "rest = b @ rest1" "u = (rev b @ pre, rest1, gs)"
      "b = [] \<and> (pre = [] \<or> hd pre = nl) \<or> (\<exists>c. b = [c] \<and> opens c)"
    unfolding in_opening by fastforce
  from v obtain rest2 where rest2: "rest1 = ''../'' @ rest2" "v = (rev ''../'' @ rev b @ pre, rest2, gs)"
    unfolding b(2) in_rlit by blast
  from t obtain w after where w: "w \<noteq> []" "list_all (\<lambda>c. \<not> is_space c) w" "rest2 = w @ after"
      "t = (rev w @ rev ''../'' @ rev b @ pre, after, gs)"
    unfolding rest2(2) rnspace_def in_plus_chr by blast
  have "rest = b @ ''../'' @ w @ after" using b(1) rest2(1) w(3) by (simp only: append_assoc)
  moreover have "t = (rev (b @ ''../'' @ w) @ pre, after, gs)" using w(4) by (simp only: rev_append append_assoc)
  ultimately show ?R using b(3) w(1,2) by blast
next
  assume ?R
  then obtain b w after where R: "rest = b @ ''../'' @ w @ after" "w \<noteq> []" "list_all (\<lambda>c. \<not> is_space c) w"
      "b = [] \<and> (pre = [] \<or> hd pre = nl) \<or> (\<exists>c. b = [c] \<and> opens c)" "t = (rev (b @ ''../'' @ w) @ pre, after, gs)" by blast
  let ?u = "(rev b @ pre, ''../'' @ w @ after, gs)"
  let ?v = "(rev ''../'' @ rev b @ pre, w @ after, gs)"
  have "?u \<in> set (rrun rx_opening (pre, rest, gs))" using R(1,4) unfolding in_opening by fastforce
  moreover have "?v \<in> set (rrun (rlit ''../'') ?u)" unfolding in_rlit by blast
  moreover have "t \<in> set (rrun (rplus rnspace) ?v)"
    unfolding rnspace_def in_plus_chr R(5) using R(2,3) by (simp only: rev_append append_assoc) blast
  ultimately show "t \<in> set (rrun rx_relative_dot (pre, rest, gs))"
    unfolding rx_relative_dot_def rx_path_def append_Cons append_Nil in_rseq in_rseq_Nil by blast
qed

lemma parent_text:
  assumes "match_at rx_relative_dot pre rest = Some m"
  obtains b w where "rm_text m = b @ ''../'' @ w" and "w \<noteq> []" and "nl \<notin> set w" and "length b \<le> 1"
    and "b = [] \<Longrightarrow> pre = [] \<or> hd pre = nl"
proof -
  from match_at_run [OF assms] obtain t where "t \<in> set (rrun rx_relative_dot (pre, rest, []))" "m = match_of pre rest t" by blast
  moreover from this(1) obtain b w after where R: "rest = b @ ''../'' @ w @ after" "w \<noteq> []" "list_all (\<lambda>c. \<not> is_space c) w"
      "b = [] \<and> (pre = [] \<or> hd pre = nl) \<or> (\<exists>c. b = [c] \<and> opens c)" "t = (rev (b @ ''../'' @ w) @ pre, after, [])"
    unfolding parent_match by blast
  moreover have "rm_after m = after" using calculation(2) R(5) by (simp add: match_of_def)
  then have "rm_text m @ after = (b @ ''../'' @ w) @ after" using match_at_split(2) [OF assms] R(1) by (simp only: append_assoc)
  then have "rm_text m = b @ ''../'' @ w" by (simp only: append_same_eq)
  then show thesis
  proof (rule that)
    show "w \<noteq> []" by (rule R(2))
    show "nl \<notin> set w" using R(3) by (auto simp: list_all_iff is_space_def nl_def)
    show "length b \<le> 1" "b = [] \<Longrightarrow> pre = [] \<or> hd pre = nl" using R(4) by auto
  qed
qed

lemma parent_not_over:
  assumes "match_at rx_relative_dot pre (u @ nl # rest) = Some m" and "u \<noteq> []"
  shows "length (rm_text m) \<le> length u"
proof (rule ccontr)
  assume longer: "\<not> length (rm_text m) \<le> length u"
  from parent_text [OF assms(1)] obtain b w where matched: "rm_text m = b @ ''../'' @ w" "nl \<notin> set w" "length b \<le> 1" by metis
  have whole: "u @ nl # rest = rm_text m @ rm_after m" by (rule match_at_split(2) [OF assms(1)])
  have "rm_text m ! length u = (rm_text m @ rm_after m) ! length u" using longer by (simp add: nth_append)
  also have "\<dots> = nl" using whole by (metis nth_append_length)
  finally have at_end: "(b @ ''../'' @ w) ! length u = nl" using matched(1) by simp
  have "1 \<le> length u" using assms(2) by (cases u) simp_all
  with matched(3) have "length b \<le> length u" by simp
  with at_end have inside: "(''../'' @ w) ! (length u - length b) = nl" by (simp add: nth_append)
  have "length u - length b < length (''../'' @ w)" using longer matched(1) \<open>length b \<le> length u\<close> by simp
  with inside have "nl \<in> set (''../'' @ w)" by (metis nth_mem)
  with matched(2) show False by (simp add: nl_def)
qed

lemma parent_found:
  assumes "\<not> is_space c"
  shows "\<exists>m \<in> set (re_finditer rx_relative_dot (front @ nl # ''../'' @ c # rest)). rm_before m = front"
proof -
  let ?s = "nl # ''../'' @ c # rest"
  let ?t = "(rev ([nl] @ ''../'' @ [c]) @ rev front, rest, [] :: groups)"
  have "?s = [nl] @ ''../'' @ [c] @ rest" by simp
  moreover have "opens nl" by (simp add: opens_def is_space_def nl_def)
  ultimately have "?t \<in> set (rrun rx_relative_dot (rev front, ?s, []))"
    unfolding parent_match
    by (intro exI [of _ "[nl]"] exI [of _ "[c]"] exI [of _ rest]) (use assms in simp)
  then obtain m where m: "match_at rx_relative_dot (rev front @ []) ?s = Some m"
    unfolding match_at_def by (cases "rrun rx_relative_dot (rev front, ?s, [])") auto
  have "m \<in> set (find_iter (length (front @ ?s) + 2) rx_relative_dot [] (front @ ?s))"
    by (rule find_iter_reaches [OF m]) (simp_all add: parent_not_over)
  moreover have "rm_before m = front" using match_at_split(1) [OF m] by (simp only: rev_append rev_rev_ident rev.simps append_Nil)
  ultimately show ?thesis unfolding re_finditer_def by (intro bexI)
qed

lemma parent_checked: "parent_check \<in> set path_checks"
  by (simp add: path_checks_def)

lemma issue_reported:
  assumes "chk \<in> set path_checks" "m \<in> set (re_finditer (pc_rx chk) content)" "reported skip_fenced m"
  shows "path_issue file (split_all [nl] content) chk m \<in> set (scan_text agent skip_fenced file content)"
  using assms by (auto simp: scan_text_def matches_where_def Let_def)

text \<open>
  C40. The match of a path begins with the character before it, so a parent reference at the start of a line, outside the
  fenced blocks, is reported under the number of the line above (its own number is one more), whatever the text.
\<close>

theorem parent_reference_misplaced:
  assumes "\<not> is_space c" and "\<not> (skip_fenced \<and> in_fence front)"
  shows "\<exists>f \<in> set (scan_text agent skip_fenced file (front @ nl # ''../'' @ c # rest)).
    pf_category f = ''relative-prefix'' \<and> pf_line f = int (count_list (front @ [nl]) nl)"
proof -
  let ?content = "front @ nl # ''../'' @ c # rest"
  from parent_found [OF assms(1)] obtain m where m: "m \<in> set (re_finditer rx_relative_dot ?content)" "rm_before m = front" by blast
  have "reported skip_fenced m" using assms(2) m(2) by (simp add: reported_def)
  with m(1) have "path_issue file (split_all [nl] ?content) parent_check m \<in> set (scan_text agent skip_fenced file ?content)"
    using issue_reported [OF parent_checked] by (simp add: parent_check_def)
  moreover have "pf_line (path_issue file (split_all [nl] ?content) parent_check m) = int (count_list (front @ [nl]) nl)"
    using m(2) by (simp add: path_issue_def line_of_def)
  ultimately show ?thesis by (force simp: path_issue_def parent_check_def)
qed

lemma parent_reference_misplaced_witness:
  "\<exists>f \<in> set (scan_text True True ''a.md'' (''See'' @ nl # ''../'' @ CHR ''b'' # '' for more'')).
     pf_category f = ''relative-prefix'' \<and> pf_line f = int (count_list (''See'' @ [nl]) nl)"
proof (rule parent_reference_misplaced)
  show "\<not> is_space (CHR ''b'')" by code_simp
  show "\<not> (True \<and> in_fence ''See'')" by code_simp
qed

section \<open>What passing means\<close>

lemma clean_text:
  assumes "scan_text agent skip_fenced file content = []" and "chk \<in> set path_checks" and "m \<in> set (re_finditer (pc_rx chk) content)"
  shows "skip_fenced \<and> in_fence (rm_before m)"
proof (rule ccontr)
  assume "\<not> ?thesis"
  then have "reported skip_fenced m" by (simp add: reported_def)
  from issue_reported [OF assms(2,3) this] assms(1) show False by (metis empty_iff empty_set)
qed

theorem passing_paths_sound:
  assumes "scan_skill_paths agent skip_fenced w skill_path = Inr r" and "ps_findings r = []"
  shows "(\<forall>f \<in> set (glob_sorted w skill_path ''*.md''). path_name f = ''SKILL.md'') \<and>
    (\<forall>f \<in> set (scanned_texts w skill_path). \<exists>content. read_file w f = Inr content \<and>
       (\<forall>chk \<in> set path_checks. \<forall>m \<in> set (re_finditer (pc_rx chk) content). skip_fenced \<and> in_fence (rm_before m)))"
proof -
  from assms obtain header found where found: "own_header w skill_path = Inr header"
      "map_res (scan_path_file agent skip_fenced w skill_path) (scanned_texts w skill_path) = Inr found"
      "check_root_md_files w skill_path = []" "concat found = []"
    by (auto simp: scan_skill_paths_def ebind_eq_Inr)
  have "path_name f = ''SKILL.md''" if "f \<in> set (glob_sorted w skill_path ''*.md'')" for f
    using found(3) that by (auto simp: check_root_md_files_def filter_empty_conv)
  moreover have "\<exists>content. read_file w f = Inr content \<and>
       (\<forall>chk \<in> set path_checks. \<forall>m \<in> set (re_finditer (pc_rx chk) content). skip_fenced \<and> in_fence (rm_before m))"
    if "f \<in> set (scanned_texts w skill_path)" for f
  proof -
    from map_res_member [OF found(2) that] obtain fs where "fs \<in> set found" "scan_path_file agent skip_fenced w skill_path f = Inr fs"
      by blast
    with found(4) have "scan_path_file agent skip_fenced w skill_path f = Inr []" by simp
    then obtain content where "read_file w f = Inr content" "scan_text agent skip_fenced (rel_name skill_path f) content = []"
      by (auto simp: scan_path_file_def ebind_eq_Inr)
    then show ?thesis using clean_text by blast
  qed
  ultimately show ?thesis by blast
qed

end
