(* ===== verification/Spec2Isabelle.thy ===== *)
theory Spec2Isabelle
  imports Monitor_Bounds Runner_Lifecycle Parse_Output Sample_Stories Agent_Plans Sample_Commands Cli_Main Config_Facts
    Bench_Gate File_List_Audit Help_Csv Legacy_Cleanup Module_Config Template Customizable_Skills Module_Check Runner_Progress
    Bench_P99 Tmux_Adapter Source_Groups Sanctum Integrity_Prepass Structure_Prepass
    Sanctum_Check Prompt_Metrics Path_Standards
begin

text \<open>
  A verification library of bowerbird's Python programs: the story automator
  (\<open>.agents/skills/bmad-story-automator/src/story_automator/\<close>, file names below are relative to it),
  the configuration resolvers (\<open>_bmad/scripts/\<close>), the gates of the build (\<open>scripts/\<close>) and deterministic
  scripts of the other skills under \<open>.agents/skills/\<close>.

  \<^bold>\<open>The program.\<close> The story automator drives coding agents through the stories of an epic. Its
  command line (\<open>cli.py\<close>) dispatches to commands that each read the world, act on it and print one
  JSON line. An orchestrator prepares state documents and agent plans, starts an agent in a tmux
  session through a runner script, watches it with a monitor, parses its output against a
  contract, verifies the claimed result in the project's files, and goes on. A policy, layered from
  a bundle, an override and the environment and pinned by a hashed snapshot, says which files and
  limits each step uses; a stop hook keeps the driving agent going while a marker file says so. The skills around it
  make modules: they merge a module's configuration and help table into a project, clean up what earlier
  installers left, make skills and agents from templates, check modules and workflows, order steps and group
  documents; each of those scripts reads
  files, writes files and prints one report.

  \<^bold>\<open>The model.\<close> Every function is a HOL function under its name in the source (a leading underscore
  dropped, a suffix where the name is taken). Pure functions are pure. A function that may raise
  answers \<open>exn + 'a\<close>; a function with effects is an action \<open>world \<Rightarrow> exn + 'a \<times> world\<close> (\<open>World\<close>): the
  world holds the directory of the process, the environment, the files with their times, the clock,
  what was printed, and the outside programs, whose answers are a function of the commands so far
  and which may write files while they run. A raised exception drops the world: no theorem speaks
  about files behind an exception. Python values are \<open>pyval\<close>, dictionaries are association lists in
  insertion order, strings are the bytes of UTF-8, integers are unbounded as in Python.

  \<^bold>\<open>Theories.\<close>
    \<^item> Python: \<open>Py_Prelude\<close> (exceptions, string methods), \<open>Py_Regex\<close> (a backtracking matcher for the
      patterns of the sources), \<open>Py_Value\<close> (values, the interface \<open>dictionary\<close>), \<open>Py_Json\<close> and
      \<open>Json_Facts\<close> (\<open>dumps\<close>, \<open>loads\<close>, and that loading inverts dumping), \<open>Py_Md5\<close> (on 32-bit words),
      \<open>World\<close> (paths, globs, the interface \<open>file_store\<close>), \<open>Actions\<close> (postconditions of actions).
    \<^item> Texts: \<open>Text_Utils\<close> (\<open>core/utils.py\<close>, \<open>core/common.py\<close>), \<open>Frontmatter\<close>, \<open>Story_Keys\<close>
      (\<open>core/story_keys.py\<close>, \<open>core/sprint.py\<close>), \<open>Epic_Parser\<close>, \<open>Field_Lines\<close> (replacing whole lines).
    \<^item> Policies: \<open>Runtime_Layout\<close>, \<open>Merge_Laws\<close> (the interface \<open>layered_merge\<close>), \<open>Runtime_Policy\<close>,
      \<open>Policy_Facts\<close> (containment, hashes, snapshots), \<open>Success_Verifiers\<close>.
    \<^item> Sessions: \<open>Tmux_Base\<close>, \<open>Tmux_Status\<close>, \<open>Tmux_Spawn\<close> (\<open>core/tmux_runtime.py\<close>), \<open>Runner_Lifecycle\<close>
      (the runner script and the monitors as steps on one state file), \<open>Runner_Progress\<close> (its endless
      runs), \<open>Tmux_Commands\<close> (\<open>commands/tmux.py\<close>), \<open>Monitor_Bounds\<close> (the clock of a monitor),
      \<open>Tmux_Adapter\<close> (\<open>adapters/tmux.py\<close>).
    \<^item> Commands: \<open>Parse_Output\<close>, \<open>Agent_Config\<close>, \<open>Agent_Plans\<close>, \<open>Orchestrator\<close>, \<open>Presets\<close> and
      \<open>Preset_Facts\<close>, \<open>State_Doc\<close> and \<open>State_Facts\<close>, \<open>Validate_Story\<close>, \<open>Stop_Hooks\<close>, \<open>Basic_Commands\<close>
      and \<open>Hook_Facts\<close>, \<open>Cli\<close> and \<open>Cli_Main\<close>.
    \<^item> Beside the automator: \<open>Config_Merge\<close> and \<open>Config_Facts\<close> (\<open>_bmad/scripts/resolve_customization.py\<close>,
      \<open>resolve_config.py\<close>), \<open>Bench_Gate\<close> (\<open>scripts/run-bench-gate.py\<close>), \<open>Float64\<close> (binary64 numbers as
      rationals with rounding) and \<open>Bench_P99\<close> (\<open>scripts/check-daemon-bench-p99.py\<close>, \<open>check-shim-bench-p99.py\<close>),
      \<open>File_List_Audit\<close> (\<open>scripts/check-file-list.py\<close>).
    \<^item> Skills: \<open>Help_Csv\<close>, \<open>Legacy_Cleanup\<close>, \<open>Module_Config\<close> (\<open>bmad-bmb-setup/scripts/\<close>), \<open>Template\<close>
      (\<open>bmad-agent-builder/scripts/process-template.py\<close>), \<open>Customizable_Skills\<close>
      (\<open>bmad-customize/scripts/list_customizable_skills.py\<close>), \<open>Module_Check\<close>
      (\<open>bmad-module-builder/scripts/validate-module.py\<close>), \<open>Dep_Graph\<close> and \<open>Exec_Prepass\<close> (the two
      \<open>prepass-execution-deps.py\<close>), \<open>Source_Groups\<close> (\<open>bmad-distillator/scripts/analyze_sources.py\<close>), \<open>Scaffold\<close>
      (\<open>bmad-module-builder/scripts/scaffold-standalone-module.py\<close>, \<open>scaffold-setup-skill.py\<close>), \<open>Sanctum\<close>
      (\<open>bmad-agent-builder/references/sample-init-sanctum.py\<close>), \<open>Integrity_Prepass\<close>
      (\<open>bmad-workflow-builder/scripts/prepass-workflow-integrity.py\<close>), \<open>Structure_Prepass\<close>, \<open>Sanctum_Check\<close>
      (\<open>prepass-structure-capabilities.py\<close> and \<open>prepass-sanctum-architecture.py\<close> of
      \<open>bmad-agent-builder/scripts/\<close>), \<open>Prompt_Metrics\<close> and
      \<open>Path_Standards\<close> (both \<open>prepass-prompt-metrics.py\<close> and both \<open>scan-path-standards.py\<close>).
    \<^item> \<open>Sample_World\<close>, \<open>Sample_Stories\<close>, \<open>Sample_Commands\<close>: concrete projects that the theorems are
      applied to.

  \<^bold>\<open>Interfaces.\<close> \<open>dictionary\<close> states what lookups answer behind insertions, \<open>file_store\<close> the same of
  reading files behind writes, \<open>layered_merge\<close> what the upper layer of a merge decides. The first is
  interpreted by association lists, the second by the files of the world, the third twice: by the
  merge of the policies and by the keyed merge of the configuration resolvers.

  \<^bold>\<open>What the theorems show.\<close> Sessions: records stay coherent under every interleaving of script and
  monitor, a script that is not starved settles its record, a monitor reports completion only with the
  verifier's yes and within its time, a failed start leaves no files. Policies: what is loaded is contained in the allowed roots and carries the
  hashes of its files, a snapshot loads back and a changed one is refused. Results: accepted output
  conforms to its contract, stories and epics count as done only when the files say so. Texts:
  prompts are one word of the shell, ranges and keys select what they name, documents change only in
  the lines that are named. Configurations: the highest layer wins, presets are a table by name, the
  hooks of the agents are installed once. Gates: the bench gate measures twice at most and decides by
  the last gate, the percentile gates compare floats that are within one part in \<open>2^53\<close> of the exact
  threshold, the File List audit is the comparison of two sets of paths. Modules: merging replaces the rows
  and the section of the module and is stable, a cleanup removes what lies in the named directories and nothing
  else, a module or a workflow that passes its check is complete, scaffolds write exactly their templates' files, an
  agent's directory is made once and nothing outside it is touched, conditional blocks of a template are resolved until
  none is left. Graphs: the cycles reported are the cycles of the dependencies, the redundancies are what other
  dependencies imply, the parallel groups are the levels, every document lies in exactly one group.

  \<^bold>\<open>Fuel.\<close> Repetitions in patterns and readers of arguments carry a fuel of one more than the text or
  the list they consume, and each round consumes at least one element. The monitor's loop counts its
  polls, as in the source. The searches of a dependency graph carry a fuel above the number of its nodes;
  each call marks a node, and more fuel changes nothing. The waits that end by the clock (\<open>await_pane_pid\<close>) recurse on the time that
  is left.

  \<^bold>\<open>Parameters.\<close> The reader of TOML files, the YAML package, \<open>sys.executable\<close>, \<open>sys.argv[0]\<close>, the mode bits
  of a file, the answers of \<open>glob.glob\<close> and whether the system can start a command.

  \<^bold>\<open>Not modelled.\<close> The standard error, file modes, failures of writes, symbolic links, the translation
  of line ends, and the order in which a directory is listed (globs are sorted). White space, digits
  and letters are those of ASCII. \<open>argparse\<close> has run. The Rust crates of the repository, its tests and
  its documents. Of the scripts of the other skills: those that read Python or HTML (\<open>scan-scripts.py\<close>,
  \<open>generate-html-report.py\<close>), the extraction of report data, whose patterns look ahead,
  the eval runner, which drives containers and terminals, and the copies of modelled scripts under
  \<open>assets/\<close>.
\<close>

lemma record_ok_empty: "record_ok []"
  by (simp add: record_ok_def session_state_ok_def lifecycle_of_def result_of_def dict_ok_def get_val_def get_or_def
      str_or_empty_def or_else_def)

section \<open>Policies\<close>





text \<open>
  C6. A snapshot that was changed behind the orchestrator's back is refused: with any other text
  in the file, loading it under the recorded hash is a policy error, unless the two texts have the
  same hash.
\<close>

theorem changed_snapshot_refused:
  assumes "snapshot_effective_policy w r = Inr (s, w')" "wf_cwd w"
  shows "md5_hex8 tampered = md5_hex8 (stable_policy_json (sp_policy s)) \<or>
    (\<exists>msg. load_policy_snapshot (put_file w' (resolve w' (path_join (root_of w r) (path_of (sp_file s)))) tampered)
       (sp_file s) r (sp_hash s) b = Inl (PolicyError msg))"
  using tampered_snapshot [OF assms refl, of tampered] by blast

lemma changed_snapshot_refused_witness:
  "\<exists>s w'. snapshot_effective_policy sample_world None = Inr (s, w') \<and> (md5_hex8 ''{}'' = md5_hex8 (stable_policy_json sample_loaded) \<or>
    (\<exists>msg. load_policy_snapshot (put_file w' (resolve w' (path_join sample_root (path_of (sp_file s)))) ''{}'')
       (sp_file s) None (sp_hash s) True = Inl (PolicyError msg)))"
proof -
  obtain s w' where s: "snapshot_effective_policy sample_world None = Inr (s, w')" "sp_policy s = sample_loaded"
    by (rule sample_snapshot)
  from changed_snapshot_refused [OF s(1) sample_cwd, of "''{}''" True] s(1) show ?thesis
    unfolding sample_root_of s(2) by blast
qed

text \<open>
  Overriding a policy: a scalar of the override is what the merged policy has at that place,
  and a place the override says nothing about keeps the value of the base.
\<close>

theorem override_wins_and_keeps:
  assumes "wf_val override"
  shows "(case get_path place override of
      None \<Rightarrow> (if silent_at place override then get_path place (deep_merge base override) = get_path place base else True)
    | Some v \<Rightarrow> (if is_scalar v then get_path place (deep_merge base override) = Some v else True))"
  using policy_merge.merge_wins [OF refl assms] policy_merge.merge_frame [OF refl assms] by (simp split: option.split)

lemma override_wins_and_keeps_witness:
  "get_path [''a'', ''b''] (deep_merge (VDict [(''a'', VDict [(''b'', VInt 1), (''c'', VInt 2)])])
     (VDict [(''a'', VDict [(''b'', VInt 3)])])) = Some (VInt 3)"
  using override_wins_and_keeps [of "VDict [(''a'', VDict [(''b'', VInt 3)])]" "[''a'', ''b'']"
      "VDict [(''a'', VDict [(''b'', VInt 1), (''c'', VInt 2)])]"]
  by (simp add: dict_ok_def dict_get_def)

text \<open>
  A data file of a policy stays inside: a path that resolves is an existing file below the
  project, the bundle, or a skill of the project, whatever dots and links of the name the policy
  wrote.
\<close>

theorem policy_data_contained:
  "case resolve_data_path w v project_root bundle_root of
     Inl _ \<Rightarrow> True
   | Inr s \<Rightarrow> \<exists>q. s = path_str q \<and> data_file_ok w project_root bundle_root q"
  using data_path_contained by (auto split: sum.split)

text \<open>
  C38. A validated policy can be worked with: both retry limits are numbers, and every step of it
  has a contract whose success verifier is one of the known ones.
\<close>

theorem validated_policy_usable:
  assumes "validate_policy_shape p = Inr u" "dict_get ''steps'' p = Some (VDict steps)" "dict_has n steps"
  shows "(\<exists>m. review_max_cycles p = Inr m) \<and> (\<exists>m. crash_max_retries p = Inr m) \<and>
    (\<exists>c success. step_contract p n = Inr c \<and> dict_get ''success'' c = Some (VDict success) \<and>
       str_or_empty (get_val ''verifier'' success) \<in> set valid_verifiers)"
  using validated_counts [OF assms(1)] validated_step_contract [OF assms] by blast

lemma validated_policy_usable_witness:
  "\<exists>c success. step_contract sample_policy ''dev'' = Inr c \<and> dict_get ''success'' c = Some (VDict success) \<and>
     str_or_empty (get_val ''verifier'' success) \<in> set valid_verifiers"
proof -
  have "\<exists>steps. dict_get ''steps'' sample_policy = Some (VDict steps) \<and> dict_has ''dev'' steps"
    by (simp add: sample_policy_def dict_get_def dict_has_def)
  then show ?thesis using validated_policy_usable [OF sample_valid] by blast
qed

text \<open>
  The parser of session outputs is never left open: its provider is Claude, its model is
  named and its timeout positive, or there is no parser configuration.
\<close>

theorem parser_config_closed:
  "case parser_runtime_config p of
     Inl _ \<Rightarrow> True
   | Inr pc \<Rightarrow> pc_provider pc = ''claude'' \<and> pc_model pc \<noteq> [] \<and> 0 < pc_timeout pc"
  using parser_config_ok by (auto split: sum.split)

section \<open>Sessions\<close>

text \<open>
  C2. The monitor says that a session completed only when the verifier of its workflow says so of
  the world it ends in; otherwise it gives one of the other known verdicts.
\<close>

theorem monitor_completes_verified:
  "case monitor opts session w of
     Inl _ \<Rightarrow> True
   | Inr (v, w') \<Rightarrow> vd_state v \<in> set monitor_states \<and>
       (if vd_state v = ''completed''
        then \<exists>payload name. verify_monitor_completion w' (mo_workflow opts) (mo_project_root opts)
               (mo_story_key opts) (vd_output v) (optional (mo_state_file opts)) = Inr (payload, name)
             \<and> truth (get_val ''verified'' payload)
        else True)"
  using ensuresD [OF monitor_ok, of opts session w] by (auto simp: verdict_ok_def split: sum.split)



text \<open>
  C1. The record of a session stays coherent however the script of the runner and the monitor
  interleave: from a started session on, the file holds a valid record that has a result exactly
  when it is finished, and behind the end of the script the record is finished.
\<close>

theorem session_records_coherent:
  assumes "session_run fs pid (Starting, s, w) (phase, s', w')"
    and "quiet (sp_state fs) w" "record_ok s" "record_ok (load_session_state w (sp_state fs))"
  shows "record_ok s' \<and> record_ok (load_session_state w' (sp_state fs)) \<and>
    (case phase of Exited _ \<Rightarrow> is_terminal_state (load_session_state w' (sp_state fs)) | _ \<Rightarrow> True)"
  using session_run_inv [OF assms(1)] assms(2-4) by (auto simp: session_inv_def split: runner_phase.splits)

lemma session_records_coherent_witness:
  "\<exists>s w'. session_run (session_paths_at (PPath True [''tmp'']) ''h'' ''s'') 7 (Starting, [], bare_world) (Launching, s, w')
     \<and> record_ok (load_session_state w' (sp_state (session_paths_at (PPath True [''tmp'']) ''h'' ''s'')))"
proof -
  let ?fs = "session_paths_at (PPath True [''tmp'']) ''h'' ''s''"
  have blank: "record_ok []" by (rule record_ok_empty)
  have absent: "load_session_state bare_world (sp_state ?fs) = []" by code_simp
  have silent: "quiet (sp_state ?fs) bare_world" by (simp add: quiet_def bare_world_def)
  note run = run_step [OF run_refl launch, of ?fs 7 "[]" bare_world]
  from session_records_coherent [OF run silent blank] run show ?thesis by (auto simp: absent blank)
qed



text \<open>
  C8. A start that fails leaves nothing behind: unless tmux or bash is missing, a session either
  runs and the answer is empty with code 0, or the code is not 0 and none of its files exists.
\<close>

theorem failed_start_cleans_up:
  "case spawn_runner python_bin session cmd agent project_root w of
     Inl _ \<Rightarrow> True
   | Inr (r, w') \<Rightarrow> r \<in> {(''tmux not found'' @ [nl], 1), (''bash not found'' @ [nl], 1)} \<or>
       started_or_clean session (path_str (root_of w project_root)) r w'"
  using spawn_runner_clean [of python_bin session cmd agent project_root w] by (auto split: sum.split)



text \<open>
  Whatever a session's files and its terminal look like, the status asked for is one of the
  seven states the callers know.
\<close>

theorem session_status_vocabulary:
  "case session_status s f c r mode w of Inl _ \<Rightarrow> True | Inr (rp, w') \<Rightarrow> known_session_state (rp_session_state rp)"
  using session_status_known [of s f c r mode w] by (auto split: sum.split)

text \<open>
  Reconciling a record with the terminal changes nothing, or finishes the record and writes
  what it answers to the state file.
\<close>

theorem reconcile_saves_verdict:
  assumes "session_state_ok state"
  shows "case reconcile_runner_state paths state pane w of
      Inl _ \<Rightarrow> True
    | Inr (s', w') \<Rightarrow> s' = state \<or> is_terminal_state s' \<and> load_session_state w' (sp_state paths) = s'"
  using reconcile_result [OF _ assms] by (auto split: sum.split)

lemma reconcile_saves_verdict_witness:
  "case reconcile_runner_state (session_paths_at (PPath True [''tmp'']) ''h'' ''s'') [(''lifecycle'', VStr ''created'')]
       \<lparr>pn_exists = False, pn_id = [], pn_pid = 0, pn_dead = False, pn_dead_status = None\<rparr> bare_world of
     Inl _ \<Rightarrow> True
   | Inr (s', w') \<Rightarrow> s' = [(''lifecycle'', VStr ''created'')] \<or> is_terminal_state s'"
  using reconcile_saves_verdict [of "[(''lifecycle'', VStr ''created'')]"
      "session_paths_at (PPath True [''tmp'']) ''h'' ''s''"
      "\<lparr>pn_exists = False, pn_id = [], pn_pid = 0, pn_dead = False, pn_dead_status = None\<rparr>" bare_world]
  by (auto simp: session_state_ok_def dict_ok_def ascii_def dict_get_def split: sum.splits)

text \<open>
  The script and the monitor judge an exit code alike: the status of a session whose script
  has recorded its end is completed for code 0 and crashed for every other.
\<close>

theorem exit_code_verdict:
  assumes "record_ok (load_session_state w p)" "ascii started"
  shows "fst (runner_result code) = fst (result_from_exit_code (Some code)) \<and>
    rp_session_state (terminal_report
      (load_session_state (write_state p (exit_args pid child started code (now_utc_z w)) w) p) shown out) =
      (if code = 0 then ''completed'' else ''crashed'')"
  using runner_result_agrees finished_verdict [OF assms] by simp

lemma exit_code_verdict_witness:
  "rp_session_state (terminal_report
      (load_session_state (write_state (PPath True [''tmp'', ''s'']) (exit_args 7 8 [] 1 (now_utc_z bare_world)) bare_world)
        (PPath True [''tmp'', ''s''])) [] []) = ''crashed''"
proof -
  have "load_session_state bare_world (PPath True [''tmp'', ''s'']) = []" "ascii []" by code_simp+
  with record_ok_empty exit_code_verdict [of bare_world "PPath True [''tmp'', ''s'']" "[]" 1 7 8 "[]" "[]"] show ?thesis by simp
qed

text \<open>
  C15. The gap of the reconciliation: the monitor that saw no process of a running session, while
  the pane lives, records the session as interrupted, although the state file it overwrites may
  by then say that the script has finished.
\<close>

theorem late_reconcile_overwrites:
  assumes "session_state_ok s" "lifecycle_of s = ''running''" "\<not> pn_dead pane"
    and "alive_pid ''childPid'' s w = Inr (False, w1)" "alive_pid ''runnerPid'' s w1 = Inr (False, w2)"
  shows "\<exists>s' w'. reconcile_runner_state fs s pane w = Inr (s', w')
    \<and> result_of (load_session_state w' (sp_state fs)) = ''interrupted''"
  using assms by (rule stale_reconcile)

lemma late_reconcile_overwrites_witness:
  "\<exists>s' w'. reconcile_runner_state (session_paths_at (PPath True [''tmp'']) ''h'' ''s'') [(''lifecycle'', VStr ''running'')]
       \<lparr>pn_exists = True, pn_id = ''%1'', pn_pid = 5, pn_dead = False, pn_dead_status = None\<rparr> bare_world = Inr (s', w')
     \<and> result_of (load_session_state w' (sp_state (session_paths_at (PPath True [''tmp'']) ''h'' ''s''))) = ''interrupted''"
proof -
  let ?s = "[(''lifecycle'', VStr ''running'')]"
  have ok: "session_state_ok ?s" "lifecycle_of ?s = ''running''"
    by (simp_all add: session_state_ok_def lifecycle_of_def dict_ok_def ascii_def dict_get_def get_val_def get_or_def)
  have gone: "alive_pid ''childPid'' ?s bare_world = Inr (False, bare_world)"
    "alive_pid ''runnerPid'' ?s bare_world = Inr (False, bare_world)"
    by (simp_all add: alive_pid_def pid_alive_def safe_int_0_def get_val_def get_or_def dict_get_def ret_def)
  show ?thesis using late_reconcile_overwrites [OF ok _ gone] by simp
qed

section \<open>Outputs and documents\<close>

text \<open>
  C4. Matching a schema is matching it everywhere: a payload is accepted exactly when behind every
  path of the schema it has an object where the schema has one and a value that obeys the rule
  where the schema has a rule.
\<close>

theorem schema_holds_at_every_path:
  assumes "wf_val schema"
  shows "matches_schema payload schema =
    ({(ks, rule). get_path ks schema = Some rule} \<subseteq>
     {(ks, rule). \<exists>v. get_path ks payload = Some v \<and> node_ok rule v})"
  unfolding matches_everywhere [OF assms] subset_iff by auto

lemma schema_holds_at_every_path_witness:
  "matches_schema (VDict [(''n'', VInt 3)]) (VDict [(''n'', VStr ''integer'')]) \<and>
   \<not> {(ks, rule). get_path ks (VDict [(''n'', VStr ''integer'')]) = Some rule} \<subseteq>
     {(ks, rule). \<exists>v. get_path ks (VDict [(''n'', VBool True)]) = Some v \<and> node_ok rule v}"
proof -
  have "wf_val (VDict [(''n'', VStr ''integer'')])" by (simp add: dict_ok_def)
  note iff = schema_holds_at_every_path [OF this]
  have "matches_schema (VDict [(''n'', VInt 3)]) (VDict [(''n'', VStr ''integer'')])"
    "\<not> matches_schema (VDict [(''n'', VBool True)]) (VDict [(''n'', VStr ''integer'')])" by code_simp+
  then show ?thesis using iff [of "VDict [(''n'', VBool True)]"] by simp
qed


text \<open>
  C36. What is saved as the record of a session is what is loaded: a record of text in ASCII comes
  back from its state file as it was, whatever was in the file.
\<close>

theorem saved_record_loads:
  assumes "json_plain (VDict d)"
  shows "load_session_state (save_session_state p d w) p = d"
  using assms by (rule load_saved)

lemma saved_record_loads_witness:
  "load_session_state (save_session_state (PPath True [''s'']) [(''exitCode'', VInt (-3)), (''result'', VStr [])] bare_world)
     (PPath True [''s'']) = [(''exitCode'', VInt (-3)), (''result'', VStr [])]"
  using saved_record_loads [of "[(''exitCode'', VInt (-3)), (''result'', VStr [])]"]
  by (simp add: dict_ok_def ascii_def)

text \<open>
  The frontmatter of any text is a map without repeated keys, from keys to strings and lists of
  strings.
\<close>

theorem frontmatter_typed:
  "dict_ok (parse_simple_frontmatter doc) \<and>
   (case dict_get k (parse_simple_frontmatter doc) of
      None \<Rightarrow> True | Some v \<Rightarrow> (\<exists>s. v = VStr s) \<or> (\<exists>xs. v = VList xs \<and> list_all is_str xs))"
  using parse_frontmatter_ok [of doc] by (auto simp: fields_ok_def field_ok_def split: option.split)

text \<open>
  C37. Choosing stories by a range: the indices are exactly the numbers between 1 and the total that
  a part of the input names, by itself or inside a span given in either direction; they are sorted
  and not repeated.
\<close>

theorem story_range_selects:
  assumes "parse_story_range input n ids = Inr sr"
  shows "sorted (sr_indices sr) \<and> distinct (sr_indices sr) \<and> sr_count sr = length (sr_indices sr) \<and>
    set (sr_indices sr) =
      {i. 1 \<le> i \<and> i \<le> nat n \<and>
          (replace_all '' '' [] (lower input) = ''all'' \<or>
           (\<exists>part \<in> set (split_all '','' (replace_all '' '' [] (lower input))).
              (isdigit part \<and> i = nat_of_digits part) \<or>
              (\<exists>a b. isdigit a \<and> isdigit b \<and> part = a @ ''-'' @ b \<and>
                 min (nat_of_digits a) (nat_of_digits b) \<le> i \<and> i \<le> max (nat_of_digits a) (nat_of_digits b))))}"
proof -
  have sr: "sr_indices sr = range_indices (range_selected (replace_all '' '' [] (lower input)) (nat n)) (nat n)"
    "sr_count sr = length (sr_indices sr)"
    using assms by (auto simp: parse_story_range_def Let_def split: if_splits)
  have "i \<in> set (range_indices (range_selected t m) m) \<longleftrightarrow> 1 \<le> i \<and> i \<le> m \<and>
      (t = ''all'' \<or> (\<exists>part \<in> set (split_all '','' t). i \<in> set (range_part part)))" for i t m
    unfolding range_indices_props(3) range_selected_iff by (auto split: if_splits)
  then show ?thesis
    unfolding sr(2) unfolding sr(1) range_part_iff [symmetric] by (simp add: range_indices_props(1,2)) blast
qed

lemma story_range_selects_witness:
  "\<exists>sr. parse_story_range ''5-3, 1'' 4 [] = Inr sr \<and> sorted (sr_indices sr) \<and> sr_indices sr = [1, 3, 4]"
proof -
  have r: "parse_story_range ''5-3, 1'' 4 [] = Inr \<lparr>sr_indices = [1, 3, 4], sr_storyIds = [], sr_count = 3\<rparr>"
    by code_simp
  with story_range_selects [OF r] show ?thesis by simp
qed

section \<open>Stories and reviews\<close>

text \<open>
  The three spellings of a story are one story: for numbers \<open>a\<close> and \<open>b\<close>, \<open>a.b\<close> and
  \<open>a-b\<close> normalize to the same record, a full key \<open>a-b-slug\<close> has the same id and prefix and
  is its own key.
\<close>

theorem spellings_agree:
  assumes "isdigit a" "isdigit b" "slug \<noteq> []" "nl \<notin> set slug"
  shows "normalize_story_key w project_root (a @ ''.'' @ b) = normalize_story_key w project_root (a @ ''-'' @ b) \<and>
    normalize_story_key w project_root (a @ ''-'' @ b @ ''-'' @ slug) =
      Inr (Some \<lparr>sk_id = a @ ''.'' @ b, sk_prefix = a @ ''-'' @ b, sk_key = a @ ''-'' @ b @ ''-'' @ slug\<rparr>)"
  using assms
  by (simp add: normalize_story_key_def key_parts_dotted [simplified] key_parts_dashed [simplified]
      key_parts_slugged [simplified])

lemma spellings_agree_witness:
  "normalize_story_key bare_world ''/p'' ''1.2'' = normalize_story_key bare_world ''/p'' ''1-2'' \<and>
    normalize_story_key bare_world ''/p'' ''1-2-ab'' =
      Inr (Some \<lparr>sk_id = ''1.2'', sk_prefix = ''1-2'', sk_key = ''1-2-ab''\<rparr>)"
  using spellings_agree [of "''1''" "''2''" "''ab''" bare_world "''/p''"]
  by (simp add: isdigit_def is_digit_def nl_def)

text \<open>
  The counts of an epic are coherent: the stories the sprint status lists for it are distinct,
  and no more are done than there are.
\<close>

theorem sprint_counts_coherent:
  "case sprint_status_epic w project_root epic of
     Inl _ \<Rightarrow> True
   | Inr (stories, done_count) \<Rightarrow> distinct stories \<and> done_count \<le> length stories"
proof -
  have "distinct a \<and> b \<le> length a" if "fold (epic_line epic) ls ([], 0) = (a, b)" for ls a b
    using epic_lines_invariant [of "([], 0)" epic ls] that by simp
  then show ?thesis
    by (auto simp: sprint_status_epic_def ebind_def Let_def split: sum.split)
qed

text \<open>
  A story counts as created exactly when as many artifacts match as its contract expects, and
  all artifacts that were counted lie in the implementation artifacts of the project.
\<close>

theorem created_story_counted:
  assumes "create_story_artifact w pr story c = Inr payload" "wf_cwd w" "normalize_story_key w pr story = Inr (Some found)"
  shows "\<exists>expected matches. (verified payload \<longleftrightarrow> int (length matches) = expected) \<and> 0 \<le> expected \<and>
    dict_get ''expectedMatches'' payload = Some (VInt expected) \<and>
    dict_get ''matches'' payload = Some (vstrs (List.map path_str matches)) \<and>
    list_all (\<lambda>m. prefix (artifacts_parts (resolve w (path_of pr))) (parts m)) matches"
  using assms(1)
proof (cases rule: create_story_artifact_inv)
  case unknown
  then show ?thesis using assms(3) by simp
next
  case (known found' expected pattern project_root safe)
  then show ?thesis using artifact_glob_contained [OF known(3) assms(2)]
    by (intro exI [of _ expected] exI [of _ "glob_sorted w project_root safe"]) (auto simp: list_all_iff)
qed

lemma created_story_counted_witness:
  "\<exists>payload matches. create_story_artifact story_world ''/proj'' ''1.1'' [] = Inr payload \<and> verified payload \<and>
     length matches = 1 \<and> list_all (\<lambda>m. prefix [''proj'', ''_bmad-output'', ''implementation-artifacts''] (parts m)) matches"
proof -
  have "parts (resolve story_world (path_of ''/proj'')) = [''proj'']" by code_simp
  with created_story_counted [OF story_created story_cwd story_normal] story_created show ?thesis
    by (auto simp: artifacts_parts_def dict_get_Cons)
qed

text \<open>
  An epic is only verified as complete when the sprint status lists stories for it and every
  one of them is done.
\<close>

theorem epic_complete_sound:
  assumes "epic_complete_verifier w pr story = Inr payload" "verified payload"
  shows "\<exists>epic stories. epic_identifier w pr story = Inr epic \<and> stories \<noteq> [] \<and>
    sprint_status_epic w pr epic = Inr (stories, length stories)"
  using assms by (rule epic_verified)

lemma epic_complete_sound_witness:
  "\<exists>epic stories. epic_identifier story_world ''/proj'' ''1'' = Inr epic \<and> stories \<noteq> [] \<and>
    sprint_status_epic story_world ''/proj'' epic = Inr (stories, length stories)"
  using epic_complete_sound [OF story_epic] by simp

text \<open>
  C35. A review is only verified as complete by a source that its contract names: the sprint status
  or the story file reports one of the contract's done values, letter case aside.
\<close>

theorem review_complete_sound:
  assumes "review_completion w pr story c = Inr payload" "verified payload"
  shows "\<exists>norm rc sprint st. normalize_story_key w pr story = Inr (Some norm) \<and>
    load_review_contract w pr c = Inr rc \<and> sprint_status_get w pr (sk_id norm) = Inr sprint \<and>
    (case story_artifact_path w pr (sk_prefix norm) of
        None \<Rightarrow> Inr [] | Some f \<Rightarrow> find_frontmatter_value_case w f ''Status'') = Inr st \<and>
    ((''sprint-status.yaml'' \<in> set (rc_sourceOrder rc) \<and> lower (ss_status sprint) \<in> lower ` set (rc_doneValues rc)) \<or>
     (''story-file'' \<in> set (rc_sourceOrder rc) \<and> lower st \<in> lower ` set (rc_doneValues rc)))"
  using assms
proof (cases rule: review_completion_inv)
  case (1 norm rc sprint st)
  moreover have "verified (review_answer rc (sk_key norm) sprint st (rc_sourceOrder rc))" using 1(5) assms(2) by simp
  ultimately show ?thesis unfolding review_answer_verified by blast
qed

lemma review_complete_sound_witness:
  "\<exists>norm rc sprint. normalize_story_key story_world ''/proj'' ''1.1'' = Inr (Some norm) \<and>
    load_review_contract story_world ''/proj'' [] = Inr rc \<and>
    sprint_status_get story_world ''/proj'' (sk_id norm) = Inr sprint"
  using review_complete_sound [OF story_reviewed] by auto

section \<open>Agents, names and paths\<close>

text \<open>
  C5. The two resolutions of agents in the program are equivalent: on a plain configuration
  (non-empty agents, fallbacks that are text or booleans, one form of overrides), the library and
  the command give every task the same agents.
\<close>

theorem agent_resolutions_equivalent:
  assumes "plain_agent_data data"
  shows "\<exists>c1 c2. agent_config_of data = Inr c1 \<and> plan_config_of data = Inr c2 \<and>
    resolve_agent w c2 level task = Inr (resolve_agent_for_task w c1 level task)"
  using assms by (rule resolutions_agree)

lemma agent_resolutions_equivalent_witness:
  "\<exists>c1 c2. agent_config_of [(''primary'', VStr ''codex''), (''perTask'', VDict [(''dev'', VDict [(''fallback'', VStr ''claude'')])])] = Inr c1 \<and>
    plan_config_of [(''primary'', VStr ''codex''), (''perTask'', VDict [(''dev'', VDict [(''fallback'', VStr ''claude'')])])] = Inr c2 \<and>
    resolve_agent bare_world c2 ''low'' ''dev'' = Inr (resolve_agent_for_task bare_world c1 ''low'' ''dev'')"
  by (rule agent_resolutions_equivalent)
    (simp add: plain_agent_data_def absent_or_def plain_tasks_def plain_entry_def plain_fallback_def fallback_raw_def
      dict_has_get dict_get_def dict_ok_def levels_def)

text \<open>
  The resolutions differ outside of that: beside an empty
  \<open>complexityOverrides\<close> the command ignores the levels at the top of the configuration, the
  library reads them.
\<close>

theorem agent_resolutions_differ:
  "case (agent_config_of [(''complexityOverrides'', VDict []), (''low'', VDict [(''dev'', VDict [(''primary'', VStr ''codex'')])])],
         plan_config_of [(''complexityOverrides'', VDict []), (''low'', VDict [(''dev'', VDict [(''primary'', VStr ''codex'')])])]) of
     (Inr c1, Inr c2) \<Rightarrow>
       resolve_agent_for_task bare_world c1 ''low'' ''dev'' = (''codex'', ''false'') \<and>
       resolve_agent bare_world c2 ''low'' ''dev'' = Inr (''claude'', ''false'')
   | _ \<Rightarrow> False"
  by code_simp

text \<open>
  The name of a session is read back from the path of its state file, whatever the session is
  called.
\<close>

theorem session_name_recovered:
  "case session_paths w session r of
     Inl _ \<Rightarrow> True
   | Inr paths \<Rightarrow> session_name_from_state_path (sp_state paths) = session"
  using session_state_path_name by (auto split: sum.split)

text \<open>
  A path given relative to the skills resolves, when it does, to an absolute path below the
  directory of one plainly named skill.
\<close>

theorem skill_path_contained:
  "case resolve_skill_relative_path w v r of
     None \<Rightarrow> True
   | Some p \<Rightarrow> is_absolute p \<and>
       (\<exists>s. plain_name s \<and> prefix (parts (resolve_skills_root w r s False) @ [s]) (parts p))"
  using skill_relative_below by (auto split: option.split)

section \<open>Hooks\<close>

text \<open>
  C22. Installing the stop hook settles it: when the hook was installed in a settings file, the next
  installation of the same hook finds it as it should be and writes nothing, whatever other hooks
  the file holds.
\<close>

theorem installed_hook_stays:
  assumes "ensure_json_stop_hook path spec w = Inr (u, w')" "spec_ascii spec" "plain_settings w path"
  shows "\<exists>reason. ensure_json_stop_hook path spec w' = Inr (unchanged reason path, w')"
proof -
  obtain reason where "prepare_json_stop_hook w' path spec = Inr (unchanged reason path)"
    using installed_hook_settled [OF assms] by blast
  then show ?thesis
    by (simp add: ensure_json_stop_hook_def bindA_def readsE_def write_prepared_update_def unchanged_def ret_def)
qed

lemma installed_hook_stays_witness:
  "\<exists>u w' reason. ensure_json_stop_hook hook_file hook_sample hook_world = Inr (u, w') \<and> hu_changed u \<and>
     ensure_json_stop_hook hook_file hook_sample w' = Inr (unchanged reason hook_file, w')"
proof -
  have "case ensure_json_stop_hook hook_file hook_sample hook_world of Inr (u, w') \<Rightarrow> hu_changed u | Inl e \<Rightarrow> False"
    by code_simp
  then obtain u w' where "ensure_json_stop_hook hook_file hook_sample hook_world = Inr (u, w')" "hu_changed u"
    by (rule ran)
  moreover have "spec_ascii hook_sample" by code_simp
  moreover have "read_json_object hook_world hook_file = Inr []" by code_simp
  ultimately show ?thesis using installed_hook_stays by (fastforce simp: plain_settings_def dict_ok_def)
qed

text \<open>
  Enabling the hooks of Codex touches one line: the lines of the configuration stay as they
  are but for one that is inserted or replaced and enables the hooks, or a table of features is
  added behind the text.
\<close>

theorem features_edit_is_local:
  "(\<exists>ls'. set_features_codex_hooks content = doc_of ls' \<and> one_line enables_hooks (splitlines content) ls') \<or>
   (\<exists>gap. set gap \<subseteq> {nl} \<and> set_features_codex_hooks content = content @ gap @ features_table) \<or>
   splitlines content = [] \<and> set_features_codex_hooks content = features_table"
  by (rule features_edit)



text \<open>
  The entry of the marker is added to \<open>.gitignore\<close> once: behind a run of the command, for an
  entry that is one line of text, the command finds the entry and changes nothing.
\<close>

theorem gitignore_entry_once:
  assumes "cmd_ensure_marker_gitignore args w = Inr (0, w')" "entry_ok (last_flag ''--entry'' [] args)"
  shows "cmd_ensure_marker_gitignore args w' = Inr (0, print_line (marker_answer args False) w')"
  using assms by (rule gitignore_settled)

lemma gitignore_entry_once_witness:
  "\<exists>w'. cmd_ensure_marker_gitignore [''--gitignore'', ''.gitignore'', ''--entry'', ''.claude/m''] bare_world = Inr (0, w') \<and>
     cmd_ensure_marker_gitignore [''--gitignore'', ''.gitignore'', ''--entry'', ''.claude/m''] w' =
       Inr (0, print_line (marker_answer [''--gitignore'', ''.gitignore'', ''--entry'', ''.claude/m''] False) w')"
proof -
  let ?args = "[''--gitignore'', ''.gitignore'', ''--entry'', ''.claude/m'']"
  have "case cmd_ensure_marker_gitignore ?args bare_world of Inr (c, w') \<Rightarrow> c = 0 | Inl e \<Rightarrow> False" by code_simp
  then obtain w' where w': "cmd_ensure_marker_gitignore ?args bare_world = Inr (0, w')" by (rule ran) blast
  moreover have "entry_ok (last_flag ''--entry'' [] ?args)" by code_simp
  ultimately show ?thesis using gitignore_entry_once by blast
qed

section \<open>Presets\<close>

text \<open>
  C18. The file of the presets is a table of configurations by name, letter case aside: after a
  preset was saved, its name finds the saved configuration and every other name finds what it found
  before.
\<close>

theorem saved_preset_found:
  assumes "presets_save file name config_json w = Inr (0, w')" "presets_plain w file" "ascii name"
    "json_loads config_json = Inr config" "json_plain config"
  shows "stored_config w' file name' =
    (if lower name' = lower name then Inr (Some config) else stored_config w file name')"
  using assms by (rule saved_config)

lemma saved_preset_found_witness:
  "\<exists>w'. presets_save ''/proj/p.json'' ''FAST'' ''2'' hook_world = Inr (0, w') \<and>
     stored_config w' ''/proj/p.json'' ''fast'' = Inr (Some (VInt 2))"
proof -
  have "lower ''Fast'' = lower ''FAST''" "json_loads ''2'' = Inr (VInt 2)" "strip ''FAST'' \<noteq> []" "strip ''2'' \<noteq> []" by code_simp+
  then obtain w' where w': "presets_save ''/proj/p.json'' ''FAST'' ''2'' hook_world = Inr (0, w')"
    using presets_save_returns [OF _ _ _ _ presets_read, of "''FAST''" "''2''"]
    by (fastforce simp: presets_to_extend_def get_val_def get_or_def dict_get_Cons ebind_def)
  moreover have "ascii ''FAST''" "json_loads ''2'' = Inr (VInt 2)" "lower ''fast'' = lower ''FAST''" by code_simp+
  ultimately show ?thesis using saved_preset_found [OF w' presets_sample, of "VInt 2" "''fast''"] by simp
qed

text \<open>
  Deleting a preset removes its name, in every spelling, and leaves what the other names find.
\<close>

theorem deleted_preset_gone:
  assumes "presets_delete file name w = Inr (0, w')" "presets_plain w file"
  shows "stored_config w' file name' = (if lower name' = lower name then Inr None else stored_config w file name')"
  using assms by (rule deleted_config)

lemma deleted_preset_gone_witness:
  "\<exists>w'. presets_delete ''/proj/p.json'' ''FAST'' hook_world = Inr (0, w') \<and>
     stored_config w' ''/proj/p.json'' ''Fast'' = Inr None"
proof -
  have "case presets_delete ''/proj/p.json'' ''FAST'' hook_world of Inr (c, w') \<Rightarrow> c = 0 | Inl e \<Rightarrow> False" by code_simp
  then obtain w' where w': "presets_delete ''/proj/p.json'' ''FAST'' hook_world = Inr (0, w')" by (rule ran) blast
  moreover have "lower ''Fast'' = lower ''FAST''" by code_simp
  ultimately show ?thesis using deleted_preset_gone [OF w' presets_sample, of "''Fast''"] by simp
qed

section \<open>State documents\<close>

text \<open>
  C21. \<open>state-update\<close> refines the update line by line: behind a successful run, the file holds its
  old lines, those that start with a given key and a colon replaced by the key and its new value,
  one option after the other, and every other file is as it was.
\<close>

theorem state_update_sets_lines:
  assumes "state_update_action (file # set_args kvs) w = Inr (0, w')" "\<forall>(k, v) \<in> set kvs. settable k"
  shows "\<exists>content. file_text w (path_of file) = Some content \<and>
    file_text w' q = (if same_file w (path_of file) q then Some (set_lines kvs content) else file_text w q)"
  using assms by (rule state_updated)

lemma state_update_sets_lines_witness:
  "\<exists>w'. state_update_action (''/proj/s.md'' # set_args [(''status'', ''PAUSED'')]) hook_world = Inr (0, w') \<and>
     file_text w' (path_of ''/proj/s.md'') = Some (''status: PAUSED'' @ [nl] @ ''epic: 1'' @ [nl])"
proof -
  let ?args = "''/proj/s.md'' # set_args [(''status'', ''PAUSED'')]"
  have "case state_update_action ?args hook_world of Inr (c, w') \<Rightarrow> c = 0 | Inl e \<Rightarrow> False" by code_simp
  then obtain w' where w': "state_update_action ?args hook_world = Inr (0, w')" by (rule ran) blast
  moreover have "\<forall>(k, v) \<in> set [(''status'', ''PAUSED'')]. settable k" by (simp add: settable_def nl_def)
  moreover have "file_text hook_world (path_of ''/proj/s.md'') = Some (''status: READY'' @ [nl] @ ''epic: 1'' @ [nl])"
    "set_lines [(''status'', ''PAUSED'')] (''status: READY'' @ [nl] @ ''epic: 1'' @ [nl]) = ''status: PAUSED'' @ [nl] @ ''epic: 1'' @ [nl]"
    by code_simp+
  ultimately show ?thesis
    using state_update_sets_lines [OF w', of "path_of ''/proj/s.md''"] by (simp add: same_file_def)
qed

text \<open>
  The state document to continue with is an incomplete one, and no incomplete one of the folder
  is newer: its time, status and path are the greatest in the order of tuples of text.
\<close>

theorem newest_incomplete_chosen:
  assumes "latest_incomplete w folder = Inr (Some (updated, status, path))"
  shows "status \<noteq> ''COMPLETE'' \<and> (\<exists>doc \<in> set (state_docs w folder). dated_state w doc = Inr (updated, status, path)) \<and>
    (\<forall>doc \<in> set (state_docs w folder). \<forall>u s p. dated_state w doc = Inr (u, s, p) \<longrightarrow> s \<noteq> ''COMPLETE'' \<longrightarrow>
       path_le [u, s, p] [updated, status, path])"
  using latest_incomplete_choice [OF assms] by blast

lemma newest_incomplete_chosen_witness:
  "latest_incomplete docs_world ''/proj'' = Inr (Some (''2'', ''PAUSED'', ''/proj/orchestration-a.md'')) \<and>
   (\<exists>doc \<in> set (state_docs docs_world ''/proj''). dated_state docs_world doc = Inr (''2'', ''PAUSED'', ''/proj/orchestration-a.md''))"
proof -
  have l: "latest_incomplete docs_world ''/proj'' = Inr (Some (''2'', ''PAUSED'', ''/proj/orchestration-a.md''))" by code_simp
  with newest_incomplete_chosen [OF l] show ?thesis by blast
qed

text \<open>
  The agent block of a state document is a template of \<open>re.sub\<close>: it is put in as it is when no
  backslash is in it, and building the document fails when its first backslash starts the escape of
  a letter that no template knows, like the \<open>\u00e9\<close> that JSON writes for a character outside ASCII.
\<close>

theorem agent_block_is_template:
  assumes "get_val ''agentConfig'' config = VDict ac"
  shows "if backslash \<in> set (agent_block_text ac)
    then (let rest = dropWhile (\<lambda>c. c \<noteq> backslash) (agent_block_text ac) in
          if length rest > 1 \<and> bad_escape (rest ! 1) then put_agent_block config content = Inl ReError else True)
    else put_agent_block config content = Inr (re_sub (rx_block ''agentConfig'') (\<lambda>m. agent_block_text ac) content)"
proof (cases "backslash \<in> set (agent_block_text ac)")
  case False
  then show ?thesis using agent_block_put(1) [OF assms] by simp
next
  case True
  let ?t = "agent_block_text ac" and ?P = "\<lambda>c. c \<noteq> backslash"
  have two: "\<exists>c d b. xs = c # d # b" if "1 < length xs" for xs :: string using that by (cases xs; cases "tl xs") auto
  have split: "?t = takeWhile ?P ?t @ dropWhile ?P ?t" by simp
  have clean: "backslash \<notin> set (takeWhile ?P ?t)" by (auto dest: set_takeWhileD)
  have "put_agent_block config content = Inl ReError"
    if len: "length (dropWhile ?P ?t) > 1" and bad: "bad_escape (dropWhile ?P ?t ! 1)"
  proof -
    obtain c d b where r: "dropWhile ?P ?t = c # d # b"
      using two [OF len] by blast
    moreover have "c = backslash" using hd_dropWhile [of ?P ?t] r by simp
    ultimately show ?thesis using agent_block_put(2) [OF assms, of "takeWhile ?P ?t" d b] split clean bad by simp
  qed
  then show ?thesis using True by (simp add: Let_def)
qed

lemma agent_block_is_template_witness:
  "\<forall>content. put_agent_block [(''agentConfig'', VDict [(''defaultPrimary'', VStr (utf8_of 0xE9))])] content = Inl ReError"
proof -
  let ?ac = "[(''defaultPrimary'', VStr (utf8_of 0xE9))]"
  have g: "get_val ''agentConfig'' [(''agentConfig'', VDict ?ac)] = VDict ?ac" by (simp add: get_val_def get_or_def dict_get_Cons)
  have "backslash \<in> set (agent_block_text ?ac)" "length (dropWhile (\<lambda>c. c \<noteq> backslash) (agent_block_text ?ac)) > 1"
    "bad_escape (dropWhile (\<lambda>c. c \<noteq> backslash) (agent_block_text ?ac) ! 1)" by code_simp+
  then show ?thesis using agent_block_is_template [OF g] by (simp add: Let_def)
qed

text \<open>
  The check of a created story says to proceed exactly when as many files were created as
  expected: the difference of the two counts, when they are given, or what the verifier counted.
\<close>

theorem story_check_verdict:
  assumes "checked_response w story state_file counts = Inr response"
  shows "(get_val ''action'' response = VStr ''proceed'') = (get_val ''created_count'' response = get_val ''expected'' response)
    \<and> (case counts of Some (before, after) \<Rightarrow> get_val ''created_count'' response = VInt (after - before) | None \<Rightarrow> True)"
  using checked_verdict [OF assms] by (auto split: option.split)

lemma story_check_verdict_witness:
  "\<exists>response. checked_response check_world ''1.1'' [] (Some (1, 2)) = Inr response \<and>
     get_val ''created_count'' response = VInt 1"
proof -
  show ?thesis using check_response_returns story_check_verdict by fastforce
qed

end
